(* ===== verification/Js_Prelude.thy ===== *)
theory Js_Prelude
  imports Complex_Main "HOL-Library.Sublist"
begin

text \<open>
  The part of the JavaScript language and its standard library that the modelled
  TypeScript uses: thrown values, results of calls that may throw, and strings.

  A JavaScript string is a sequence of UTF-16 code units. The model's strings are lists of
  \<^typ>\<open>char\<close>, so they are the JavaScript strings whose code units are all below 256
  (the "binary strings" that \<^verbatim>\<open>atob\<close> and \<^verbatim>\<open>btoa\<close> work on, and every
  ASCII string). Within that range each operation below is the one of the language.

  The lemmas are about splitting and joining, trimming, decimal numerals and association
  lists, which the component theories share.
\<close>

named_theorems js_string \<open>characteristic equations of the string operations\<close>
named_theorems js_result \<open>rules for results that may be a thrown value\<close>

section \<open>Thrown values and results\<close>

text \<open>
  What a \<^verbatim>\<open>throw\<close> carries: an \<^verbatim>\<open>Error\<close> object (of which a
  \<^verbatim>\<open>DOMException\<close> is one) with its name and message, or any other value.
\<close>

datatype js_throw = Err (err_name: string) (err_message: string) | NonError

abbreviation Error :: "string \<Rightarrow> js_throw" where
  "Error m \<equiv> Err ''Error'' m"

abbreviation TypeError :: js_throw where
  "TypeError \<equiv> Err ''TypeError'' []"

type_synonym 'a result = "js_throw + 'a"

text \<open>\<open>and_then\<close> continues after a call that did not throw.\<close>

definition and_then :: "'a result \<Rightarrow> ('a \<Rightarrow> 'b result) \<Rightarrow> 'b result" where
  "and_then r f = (case r of Inl e \<Rightarrow> Inl e | Inr x \<Rightarrow> f x)"

lemma and_then_simps [simp, js_result]:
  "and_then (Inl e) f = Inl e"
  "and_then (Inr x) f = f x"
  by (simp_all add: and_then_def)

lemma and_then_eq_Inr [js_result]:
  "and_then r f = Inr y \<longleftrightarrow> (\<exists>x. r = Inr x \<and> f x = Inr y)"
  by (cases r) simp_all

text \<open>\<open>map_result\<close> is \<^verbatim>\<open>Array.prototype.map\<close> with a callback that may throw.\<close>

fun map_result :: "('a \<Rightarrow> 'b result) \<Rightarrow> 'a list \<Rightarrow> 'b list result" where
  "map_result f [] = Inr []"
| "map_result f (x # xs) = and_then (f x) (\<lambda>y. and_then (map_result f xs) (\<lambda>ys. Inr (y # ys)))"

lemma map_result_Inr [js_result]:
  "map_result f xs = Inr ys \<longleftrightarrow> list_all2 (\<lambda>x y. f x = Inr y) xs ys"
  by (induction xs arbitrary: ys) (auto simp: and_then_eq_Inr list_all2_Cons1)

lemma map_result_length: "map_result f xs = Inr ys \<Longrightarrow> length ys = length xs"
  by (auto simp: map_result_Inr dest: list_all2_lengthD)

text \<open>\<open>a || b\<close> and \<open>a ?? b\<close> on strings that may be \<open>undefined\<close> or \<open>null\<close>.\<close>

definition or_string :: "string option \<Rightarrow> string \<Rightarrow> string" where
  "or_string a b = (case a of None \<Rightarrow> b | Some s \<Rightarrow> if s = [] then b else s)"

definition nullish :: "'a option \<Rightarrow> 'a \<Rightarrow> 'a" where
  "nullish a b = (case a of None \<Rightarrow> b | Some s \<Rightarrow> s)"

definition truthy_string :: "string option \<Rightarrow> bool" where
  "truthy_string a = (case a of None \<Rightarrow> False | Some s \<Rightarrow> s \<noteq> [])"

lemma or_string_simps [simp]:
  "or_string None b = b" "or_string (Some []) b = b" "or_string (Some (c # s)) b = c # s"
  by (simp_all add: or_string_def)

lemma nullish_simps [simp]: "nullish None b = b" "nullish (Some a) b = a"
  by (simp_all add: nullish_def)

lemma truthy_string_simps [simp]:
  "\<not> truthy_string None" "\<not> truthy_string (Some [])" "truthy_string (Some (c # s))"
  by (simp_all add: truthy_string_def)

lemma truthy_stringE: "truthy_string a \<Longrightarrow> (\<And>s. a = Some s \<Longrightarrow> s \<noteq> [] \<Longrightarrow> P) \<Longrightarrow> P"
  by (auto simp: truthy_string_def split: option.splits)

section \<open>Strings\<close>

abbreviation startsWith :: "string \<Rightarrow> string \<Rightarrow> bool" where
  "startsWith s p \<equiv> prefix p s"

abbreviation endsWith :: "string \<Rightarrow> string \<Rightarrow> bool" where
  "endsWith s p \<equiv> suffix p s"

text \<open>\<^verbatim>\<open>s.split(c)\<close> for a one-character separator; never the empty array.\<close>

fun split_on :: "char \<Rightarrow> string \<Rightarrow> string list" where
  "split_on c [] = [[]]"
| "split_on c (x # xs) =
     (if x = c then [] # split_on c xs
      else (case split_on c xs of [] \<Rightarrow> [[x]] | w # ws \<Rightarrow> (x # w) # ws))"

text \<open>\<^verbatim>\<open>ws.join(sep)\<close>.\<close>

fun join :: "string \<Rightarrow> string list \<Rightarrow> string" where
  "join sep [] = []"
| "join sep [w] = w"
| "join sep (w # v # ws) = w @ sep @ join sep (v # ws)"

lemma split_on_nonempty [simp]: "split_on c s \<noteq> []"
  by (induction s) (auto split: list.splits)

lemma join_Cons: "ws \<noteq> [] \<Longrightarrow> join sep (w # ws) = w @ sep @ join sep ws"
  by (cases ws) simp_all

lemma join_push: "join sep ((x # w) # ws) = x # join sep (w # ws)"
  by (cases ws) simp_all

lemma join_split_on [js_string]: "join [c] (split_on c s) = s"
proof (induction s)
  case Nil
  then show ?case by simp
next
  case (Cons x s)
  show ?case
  proof (cases "x = c")
    case True
    with Cons show ?thesis by (simp add: join_Cons)
  next
    case False
    obtain w ws where "split_on c s = w # ws"
      using split_on_nonempty [of c s] by (cases "split_on c s") auto
    with False Cons show ?thesis by (simp add: join_push)
  qed
qed

lemma split_on_no_sep: "c \<notin> set s \<Longrightarrow> split_on c s = [s]"
  by (induction s) auto

lemma split_on_append: "c \<notin> set w \<Longrightarrow> split_on c (w @ c # s) = w # split_on c s"
  by (induction w) (auto split: list.splits)

lemma split_on_join [js_string]:
  "ws \<noteq> [] \<Longrightarrow> \<forall>w \<in> set ws. c \<notin> set w \<Longrightarrow> split_on c (join [c] ws) = ws"
proof (induction ws)
  case Nil
  then show ?case by simp
next
  case (Cons w ws)
  show ?case
  proof (cases "ws = []")
    case True
    with Cons show ?thesis by (simp add: split_on_no_sep)
  next
    case False
    with Cons show ?thesis by (simp add: join_Cons split_on_append)
  qed
qed

lemma hd_split_on: "hd (split_on c s) = takeWhile (\<lambda>x. x \<noteq> c) s"
  by (induction s) (auto split: list.splits)

lemma split_on_parts: "w \<in> set (split_on c s) \<Longrightarrow> c \<notin> set w"
  by (induction s arbitrary: w) (auto split: if_splits list.splits)

text \<open>
  \<^verbatim>\<open>String.prototype.trim\<close>: the white space and line terminators of the language that
  are below 256.
\<close>

definition js_space :: "char \<Rightarrow> bool" where
  "js_space c \<longleftrightarrow> (of_char c :: nat) \<in> {9, 10, 11, 12, 13, 32, 160}"

definition trim_start :: "string \<Rightarrow> string" where
  "trim_start s = dropWhile js_space s"

definition trim :: "string \<Rightarrow> string" where
  "trim s = rev (trim_start (rev (trim_start s)))"

lemma trim_start_id: "s = [] \<or> \<not> js_space (hd s) \<Longrightarrow> trim_start s = s"
  by (cases s) (auto simp: trim_start_def)

lemma trim_id: "s = [] \<or> \<not> js_space (hd s) \<and> \<not> js_space (last s) \<Longrightarrow> trim s = s"
  by (cases "s = []") (auto simp: trim_def trim_start_id hd_rev)

lemma trim_start_hd: "trim_start s \<noteq> [] \<Longrightarrow> \<not> js_space (hd (trim_start s))"
  by (simp add: trim_start_def hd_dropWhile)

lemma trim_last: "trim s \<noteq> [] \<Longrightarrow> \<not> js_space (last (trim s))"
  using trim_start_hd [of "rev (trim_start s)"] by (simp add: trim_def last_rev)

lemma trim_start_suffix: "suffix (trim_start s) s"
  by (simp add: trim_start_def suffix_dropWhile)

lemma trim_prefix: "prefix (trim s) (trim_start s)"
  using trim_start_suffix [of "rev (trim_start s)"]
  by (simp add: trim_def suffix_to_prefix)

lemma trim_hd: "trim s \<noteq> [] \<Longrightarrow> \<not> js_space (hd (trim s))"
  using trim_prefix [of s] trim_start_hd [of s] by (auto simp: prefix_def)

lemma trim_idem [simp]: "trim (trim s) = trim s"
  by (rule trim_id) (use trim_hd [of s] trim_last [of s] in auto)

lemma trim_space_id:
  "s \<noteq> [] \<Longrightarrow> \<not> js_space (hd s) \<Longrightarrow> \<not> js_space (last s) \<Longrightarrow> trim (CHR '' '' # s) = s"
  by (simp add: trim_def trim_start_def js_space_def [of "CHR '' ''"] trim_start_id [unfolded trim_start_def] hd_rev)

lemma trim_set: "set (trim s) \<subseteq> set s"
  using trim_prefix [of s] trim_start_suffix [of s]
  by (meson set_mono_prefix set_mono_suffix subset_trans)

text \<open>\<^verbatim>\<open>s.replace(/\/$/, "")\<close>: one trailing slash is removed.\<close>

definition strip_slash :: "string \<Rightarrow> string" where
  "strip_slash s = (if endsWith s ''/'' then butlast s else s)"

lemma strip_slash_snoc [simp]: "strip_slash (s @ ''/'') = s"
  by (simp add: strip_slash_def)

lemma strip_slash_other: "\<not> endsWith s ''/'' \<Longrightarrow> strip_slash s = s"
  by (simp add: strip_slash_def)

lemma strip_slash_cases: "strip_slash s = s \<or> s = strip_slash s @ ''/''"
  by (auto simp: strip_slash_def suffix_def)

text \<open>
  \<^verbatim>\<open>toUpperCase\<close> and \<^verbatim>\<open>toLowerCase\<close> on the ASCII letters. The other code units
  below 256 whose case mapping is not the identity never map to an ASCII letter, so a
  comparison of the result with an ASCII word has the same outcome.
\<close>

definition upper_char :: "char \<Rightarrow> char" where
  "upper_char c = (let n = (of_char c :: nat) in
     if 97 \<le> n \<and> n \<le> 122 then char_of (n - 32) else c)"

definition lower_char :: "char \<Rightarrow> char" where
  "lower_char c = (let n = (of_char c :: nat) in
     if 65 \<le> n \<and> n \<le> 90 then char_of (n + 32) else c)"

definition toUpperCase :: "string \<Rightarrow> string" where
  "toUpperCase s = map upper_char s"

definition toLowerCase :: "string \<Rightarrow> string" where
  "toLowerCase s = map lower_char s"

lemma of_char_less_256 [simp]: "(of_char c :: nat) < 256"
  by (metis of_char_mod_256 mod_less_divisor zero_less_numeral)

lemma of_char_char_of [simp]: "n < 256 \<Longrightarrow> (of_char (char_of n :: char) :: nat) = n"
  by simp

lemma lower_char_idem [simp]: "lower_char (lower_char c) = lower_char c"
  by (simp add: lower_char_def Let_def)

lemma toLowerCase_idem [simp]: "toLowerCase (toLowerCase s) = toLowerCase s"
  by (simp add: toLowerCase_def)

text \<open>\<^verbatim>\<open>s.includes(p)\<close>.\<close>

fun str_includes :: "string \<Rightarrow> string \<Rightarrow> bool" where
  "str_includes [] p = (p = [])"
| "str_includes (c # s) p = (prefix p (c # s) \<or> str_includes s p)"

lemma str_includes_iff [js_string]: "str_includes s p \<longleftrightarrow> (\<exists>u v. s = u @ p @ v)"
proof (induction s)
  case Nil
  then show ?case by auto
next
  case (Cons c s)
  then show ?case by (auto simp: prefix_def Cons_eq_append_conv)
qed

section \<open>Decimal numerals\<close>

text \<open>\<^verbatim>\<open>String(n)\<close> and \<^verbatim>\<open>`${n}`\<close> for a non-negative integer.\<close>

definition digit_char :: "nat \<Rightarrow> char" where
  "digit_char d = char_of (48 + d)"

fun nat_str :: "nat \<Rightarrow> string" where
  "nat_str n = (if n < 10 then [digit_char n] else nat_str (n div 10) @ [digit_char (n mod 10)])"

declare nat_str.simps [simp del]

definition is_digit :: "char \<Rightarrow> bool" where
  "is_digit c \<longleftrightarrow> 48 \<le> (of_char c :: nat) \<and> (of_char c :: nat) \<le> 57"

definition digit_val :: "char \<Rightarrow> nat" where
  "digit_val c = of_char c - 48"

text \<open>The value of a string of decimal digits.\<close>

definition digits_val :: "string \<Rightarrow> nat" where
  "digits_val s = foldl (\<lambda>n c. n * 10 + digit_val c) 0 s"

lemma is_digit_digit_char [simp]: "d < 10 \<Longrightarrow> is_digit (digit_char d)"
  by (simp add: is_digit_def digit_char_def)

lemma digit_val_digit_char [simp]: "d < 10 \<Longrightarrow> digit_val (digit_char d) = d"
  by (simp add: digit_val_def digit_char_def)

lemma nat_str_nonempty [simp]: "nat_str n \<noteq> []"
  by (subst nat_str.simps) simp

lemma nat_str_digits: "c \<in> set (nat_str n) \<Longrightarrow> is_digit c"
proof (induction n arbitrary: c rule: nat_str.induct)
  case (1 n)
  then show ?case by (subst (asm) (2) nat_str.simps) (auto split: if_splits)
qed

lemma digits_val_nat_str [simp]: "digits_val (nat_str n) = n"
proof (induction n rule: nat_str.induct)
  case (1 n)
  show ?case
  proof (cases "n < 10")
    case True
    then show ?thesis by (subst nat_str.simps) (simp add: digits_val_def)
  next
    case False
    with 1 have "digits_val (nat_str (n div 10)) = n div 10" by simp
    with False show ?thesis by (subst nat_str.simps) (simp add: digits_val_def)
  qed
qed

lemma nat_str_inject [simp]: "nat_str m = nat_str n \<longleftrightarrow> m = n"
  by (metis digits_val_nat_str)

lemma nat_str_no_char: "\<not> is_digit c \<Longrightarrow> c \<notin> set (nat_str n)"
  using nat_str_digits by blast

text \<open>The same for an integer, with its sign.\<close>

definition int_str :: "int \<Rightarrow> string" where
  "int_str i = (if i < 0 then CHR ''-'' # nat_str (nat (- i)) else nat_str (nat i))"

lemma int_str_inject [simp]: "int_str i = int_str j \<longleftrightarrow> i = j"
proof -
  have "CHR ''-'' \<notin> set (nat_str n)" for n
    by (rule nat_str_no_char) (simp add: is_digit_def)
  then have "nat_str n \<noteq> CHR ''-'' # s" for n s
    by (metis list.set_intros(1))
  then show ?thesis
    by (auto simp: int_str_def split: if_splits) (metis list.set_intros(1))+
qed

section \<open>Association lists in insertion order\<close>

text \<open>
  An object, a \<^verbatim>\<open>Map\<close> or a \<^verbatim>\<open>Record\<close>: writing a key that is present changes it
  in place, a new key is appended.
\<close>

fun alist_put :: "'k \<Rightarrow> 'v \<Rightarrow> ('k \<times> 'v) list \<Rightarrow> ('k \<times> 'v) list" where
  "alist_put k v [] = [(k, v)]"
| "alist_put k v ((k', v') # kvs) = (if k' = k then (k, v) # kvs else (k', v') # alist_put k v kvs)"

lemma map_of_alist_put [simp]: "map_of (alist_put k v kvs) = (map_of kvs)(k \<mapsto> v)"
  by (induction kvs) (auto simp: fun_eq_iff)

lemma keys_alist_put: "fst ` set (alist_put k v kvs) = insert k (fst ` set kvs)"
proof (induction kvs)
  case Nil
  then show ?case by simp
next
  case (Cons kv kvs)
  then show ?case by (cases kv) auto
qed

lemma distinct_alist_put: "distinct (map fst kvs) \<Longrightarrow> distinct (map fst (alist_put k v kvs))"
proof (induction kvs)
  case Nil
  then show ?case by simp
next
  case (Cons kv kvs)
  then show ?case by (cases kv) (auto simp: keys_alist_put image_iff)
qed

text \<open>Object spread \<^verbatim>\<open>{...a, ...b}\<close>.\<close>

definition alist_spread :: "('k \<times> 'v) list \<Rightarrow> ('k \<times> 'v) list \<Rightarrow> ('k \<times> 'v) list" where
  "alist_spread a b = foldl (\<lambda>m (k, v). alist_put k v m) a b"

lemma map_of_alist_spread: "distinct (map fst b) \<Longrightarrow> map_of (alist_spread a b) = map_of a ++ map_of b"
proof (induction b arbitrary: a)
  case Nil
  then show ?case by (simp add: alist_spread_def)
next
  case (Cons kv b)
  obtain k v where kv: "kv = (k, v)" by (cases kv)
  with Cons have "map_of (alist_spread a (kv # b)) = (map_of a)(k \<mapsto> v) ++ map_of b"
    by (simp add: alist_spread_def)
  also have "\<dots> = map_of a ++ map_of (kv # b)"
  proof -
    have "map_of b k = None"
      using Cons.prems kv by (auto simp: map_of_eq_None_iff)
    with kv show ?thesis
      by (auto simp: fun_eq_iff map_add_def split: option.splits)
  qed
  finally show ?case .
qed

end
