(* ===== verification/Uri_Codec.thy ===== *)
theory Uri_Codec
  imports Js_Prelude
begin

text \<open>
  URI components and query strings as the platform defines them:
  \<^verbatim>\<open>encodeURIComponent\<close>, \<^verbatim>\<open>decodeURIComponent\<close>, and
  \<^verbatim>\<open>URLSearchParams\<close> (an ordered list of pairs with \<^verbatim>\<open>get\<close>,
  \<^verbatim>\<open>set\<close> and the form-urlencoded serialiser). Strings are those of
  \<open>Js_Prelude\<close>, so a code unit is below 256 and takes one or two bytes in UTF-8.

  The locale \<open>codec\<close> is the interface the components use an encoding through: decoding
  what was encoded gives the value back and the encoded text keeps to an alphabet.
\<close>

section \<open>UTF-8 below U+0100\<close>

definition utf8_char :: "char \<Rightarrow> nat list" where
  "utf8_char c = (let n = of_char c in if n < 128 then [n] else [192 + n div 64, 128 + n mod 64])"

definition utf8 :: "string \<Rightarrow> nat list" where
  "utf8 s = concat (map utf8_char s)"

text \<open>
  Decoding; \<open>None\<close> for malformed bytes and for a character beyond the repertoire of the
  model.
\<close>

fun utf8_dec :: "nat list \<Rightarrow> string option" where
  "utf8_dec [] = Some []"
| "utf8_dec (b # bs) =
     (if b < 128 then map_option (Cons (char_of b)) (utf8_dec bs)
      else if b = 194 \<or> b = 195 then
        (case bs of [] \<Rightarrow> None
         | d # ds \<Rightarrow> if 128 \<le> d \<and> d < 192
                    then map_option (Cons (char_of ((b - 192) * 64 + (d - 128)))) (utf8_dec ds)
                    else None)
      else None)"

lemma utf8_dec_char: "utf8_dec (utf8_char c @ bs) = map_option (Cons c) (utf8_dec bs)"
proof (cases "(of_char c :: nat) < 128")
  case True
  then show ?thesis by (simp add: utf8_char_def Let_def)
next
  case False
  define n where "n = (of_char c :: nat)"
  have n: "128 \<le> n" "n < 256" using False by (simp_all add: n_def)
  then have q: "n div 64 = 2 \<or> n div 64 = 3" by linarith
  have eq: "(192 + n div 64 - 192) * 64 + (128 + n mod 64 - 128) = n" by simp
  have b: "\<not> 192 + n div 64 < 128" "192 + n div 64 = 194 \<or> 192 + n div 64 = 195"
    using q by auto
  have d: "128 \<le> 128 + n mod 64" "128 + n mod 64 < 192" by simp_all
  have "utf8_dec ((192 + n div 64) # (128 + n mod 64) # bs) =
      map_option (Cons (char_of n)) (utf8_dec bs)"
    using b d by (simp only: utf8_dec.simps list.case eq if_False if_True) simp
  moreover have "char_of n = c" by (simp add: n_def)
  ultimately show ?thesis using False by (simp add: utf8_char_def Let_def n_def)
qed

lemma utf8_roundtrip [simp]: "utf8_dec (utf8 s) = Some s"
proof (induction s)
  case Nil
  then show ?case by (simp add: utf8_def)
next
  case (Cons c s)
  then show ?case by (simp add: utf8_def utf8_dec_char)
qed

lemma utf8_char_bytes: "b \<in> set (utf8_char c) \<Longrightarrow> b < 256"
proof -
  have "(of_char c :: nat) div 64 < 4"
    using of_char_less_256 [of c] by linarith
  then show "b \<in> set (utf8_char c) \<Longrightarrow> b < 256"
    by (auto simp: utf8_char_def Let_def split: if_splits)
qed

lemma utf8_bytes: "b \<in> set (utf8 s) \<Longrightarrow> b < 256"
  by (auto simp: utf8_def dest: utf8_char_bytes)

section \<open>Percent encoding of bytes\<close>

definition hex_digit :: "nat \<Rightarrow> char" where
  "hex_digit d = (if d < 10 then char_of (48 + d) else char_of (55 + d))"

definition hex_val :: "char \<Rightarrow> nat option" where
  "hex_val c = (let n = of_char c in
     if 48 \<le> n \<and> n \<le> 57 then Some (n - 48)
     else if 65 \<le> n \<and> n \<le> 70 then Some (n - 55)
     else if 97 \<le> n \<and> n \<le> 102 then Some (n - 87) else None)"

lemma hex_val_digit [simp]: "d < 16 \<Longrightarrow> hex_val (hex_digit d) = Some d"
  by (auto simp: hex_val_def hex_digit_def Let_def)

definition is_alnum :: "char \<Rightarrow> bool" where
  "is_alnum c \<longleftrightarrow> (let n = (of_char c :: nat) in
     48 \<le> n \<and> n \<le> 57 \<or> 65 \<le> n \<and> n \<le> 90 \<or> 97 \<le> n \<and> n \<le> 122)"

text \<open>The characters \<^verbatim>\<open>encodeURIComponent\<close> leaves as they are.\<close>

definition uri_unreserved :: "char \<Rightarrow> bool" where
  "uri_unreserved c \<longleftrightarrow> is_alnum c \<or> c \<in> set ''-_.!~*()'' \<or> c = CHR 0x27"

lemma is_alnum_hex_digit: "d < 16 \<Longrightarrow> is_alnum (hex_digit d)"
  by (auto simp: is_alnum_def hex_digit_def Let_def)

lemma unreserved_ascii: "uri_unreserved c \<Longrightarrow> (of_char c :: nat) < 128"
  by (auto simp: uri_unreserved_def is_alnum_def Let_def)

lemma unreserved_not_percent: "uri_unreserved c \<Longrightarrow> c \<noteq> CHR ''%''"
  by (auto simp: uri_unreserved_def is_alnum_def Let_def)

definition pct_byte :: "(char \<Rightarrow> bool) \<Rightarrow> nat \<Rightarrow> string" where
  "pct_byte keep b = (if b < 256 \<and> keep (char_of b) then [char_of b]
     else [CHR ''%'', hex_digit (b div 16), hex_digit (b mod 16)])"

text \<open>Percent decoding to bytes; \<open>None\<close> for a malformed escape.\<close>

fun pct_bytes :: "string \<Rightarrow> nat list option" where
  "pct_bytes [] = Some []"
| "pct_bytes (c # s) =
     (if c = CHR ''%'' then
        (case s of h # l # r \<Rightarrow>
           (case (hex_val h, hex_val l) of
              (Some x, Some y) \<Rightarrow> map_option (Cons (x * 16 + y)) (pct_bytes r)
            | _ \<Rightarrow> None)
         | _ \<Rightarrow> None)
      else map_option (\<lambda>bs. utf8_char c @ bs) (pct_bytes s))"

lemma pct_bytes_byte:
  assumes "\<And>c. keep c \<Longrightarrow> c \<noteq> CHR ''%'' \<and> (of_char c :: nat) < 128" and "b < 256"
  shows "pct_bytes (pct_byte keep b @ s) = map_option (Cons b) (pct_bytes s)"
proof (cases "keep (char_of b)")
  case True
  from assms(1) [OF True] \<open>b < 256\<close> have "char_of b \<noteq> CHR ''%''" "b < 128" by simp_all
  moreover have "(@) [b] = Cons b" by (simp add: fun_eq_iff)
  ultimately show ?thesis
    using True \<open>b < 256\<close> by (simp add: pct_byte_def utf8_char_def Let_def)
next
  case False
  have "b div 16 < 16" "b mod 16 < 16" using \<open>b < 256\<close> by simp_all
  with False show ?thesis by (simp add: pct_byte_def)
qed

lemma pct_bytes_concat:
  assumes "\<And>c. keep c \<Longrightarrow> c \<noteq> CHR ''%'' \<and> (of_char c :: nat) < 128"
  shows "\<forall>b \<in> set bs. b < 256 \<Longrightarrow> pct_bytes (concat (map (pct_byte keep) bs)) = Some bs"
  by (induction bs) (simp_all add: pct_bytes_byte [OF assms])

section \<open>encodeURIComponent and decodeURIComponent\<close>

definition encodeURIComponent :: "string \<Rightarrow> string" where
  "encodeURIComponent s = concat (map (pct_byte uri_unreserved) (utf8 s))"

definition decodeURIComponent :: "string \<Rightarrow> string result" where
  "decodeURIComponent s =
     (case Option.bind (pct_bytes s) utf8_dec of
        None \<Rightarrow> Inl (Err ''URIError'' ''URI malformed'') | Some t \<Rightarrow> Inr t)"

text \<open>What an encoded component is made of.\<close>

definition uri_component_char :: "char \<Rightarrow> bool" where
  "uri_component_char c \<longleftrightarrow> uri_unreserved c \<or> c = CHR ''%''"

lemma encodeURIComponent_chars: "c \<in> set (encodeURIComponent s) \<Longrightarrow> uri_component_char c"
proof -
  have "uri_component_char c" if "c \<in> set (pct_byte uri_unreserved b)" "b < 256" for b
  proof -
    from \<open>b < 256\<close> have "b div 16 < 16" "b mod 16 < 16" by simp_all
    with that show ?thesis
      using is_alnum_hex_digit
      by (auto simp: pct_byte_def uri_component_char_def uri_unreserved_def split: if_splits)
  qed
  then show "c \<in> set (encodeURIComponent s) \<Longrightarrow> uri_component_char c"
    by (auto simp: encodeURIComponent_def dest: utf8_bytes)
qed

lemma uri_component_separators:
  "\<not> uri_component_char CHR ''/''" "\<not> uri_component_char CHR ''?''" "\<not> uri_component_char CHR ''#''"
  "\<not> uri_component_char CHR ''&''" "\<not> uri_component_char CHR ''=''"
  by (simp_all add: uri_component_char_def uri_unreserved_def is_alnum_def)

lemma encode_decode_component: "decodeURIComponent (encodeURIComponent s) = Inr s"
proof -
  have "pct_bytes (encodeURIComponent s) = Some (utf8 s)"
    unfolding encodeURIComponent_def
    by (rule pct_bytes_concat)
      (auto simp: unreserved_not_percent unreserved_ascii dest: utf8_bytes)
  then show ?thesis by (simp add: decodeURIComponent_def)
qed

section \<open>The codec interface\<close>

locale codec =
  fixes enc :: "'a \<Rightarrow> string"
    and dec :: "string \<Rightarrow> 'a result"
    and alphabet :: "char \<Rightarrow> bool"
  assumes dec_enc: "dec (enc x) = Inr x"
    and enc_alphabet: "c \<in> set (enc x) \<Longrightarrow> alphabet c"
begin

lemma enc_inject: "enc x = enc y \<longleftrightarrow> x = y"
  by (metis dec_enc sum.inject(2))

lemma enc_avoids: "\<not> alphabet c \<Longrightarrow> c \<notin> set (enc x)"
  using enc_alphabet by blast

lemma map_dec_enc: "map_result dec (map enc xs) = Inr xs"
  by (induction xs) (simp_all add: dec_enc)

text \<open>A value written between a fixed prefix and a separator is read back unambiguously.\<close>

lemma segment_inject:
  assumes "\<not> alphabet c" and "enc x @ c # s = enc y @ c # t"
  shows "x = y \<and> s = t"
proof -
  have sp: "split_on c (enc z @ c # u) = enc z # split_on c u" for z u
    by (rule split_on_append) (rule enc_avoids [OF assms(1)])
  from assms(2) have "enc x # split_on c s = enc y # split_on c t"
    by (metis sp)
  then have "enc x = enc y" by simp
  with assms(2) show ?thesis by (simp add: enc_inject)
qed

end

interpretation component_codec: codec encodeURIComponent decodeURIComponent uri_component_char
  by unfold_locales (simp_all add: encode_decode_component encodeURIComponent_chars)

section \<open>URLSearchParams\<close>

type_synonym params = "(string \<times> string) list"

text \<open>\<^verbatim>\<open>get\<close>: the first value of the name, or \<^verbatim>\<open>null\<close>.\<close>

definition params_get :: "params \<Rightarrow> string \<Rightarrow> string option" where
  "params_get ps k = map_of ps k"

text \<open>\<^verbatim>\<open>set\<close>: the first pair of that name gets the value, later ones of the name are
  removed; with none, the pair is appended.\<close>

fun params_set :: "string \<Rightarrow> string \<Rightarrow> params \<Rightarrow> params" where
  "params_set k v [] = [(k, v)]"
| "params_set k v ((k', v') # ps) =
     (if k' = k then (k, v) # filter (\<lambda>p. fst p \<noteq> k) ps else (k', v') # params_set k v ps)"

lemma map_of_filter_other: "k \<noteq> k' \<Longrightarrow> map_of (filter (\<lambda>p. fst p \<noteq> k') ps) k = map_of ps k"
  by (induction ps) auto

lemma params_get_set: "params_get (params_set k v ps) k' = (if k' = k then Some v else params_get ps k')"
  by (induction ps) (auto simp: params_get_def map_of_filter_other)

lemma params_set_count: "length (filter (\<lambda>p. fst p = k) (params_set k v ps)) = 1"
proof (induction ps)
  case Nil
  then show ?case by simp
next
  case (Cons p ps)
  then show ?case by (cases p) (auto simp: filter_empty_conv)
qed

text \<open>The form-urlencoded serialiser (\<^verbatim>\<open>toString\<close>).\<close>

definition form_keep :: "char \<Rightarrow> bool" where
  "form_keep c \<longleftrightarrow> is_alnum c \<or> c \<in> set ''*-._''"

definition form_encode :: "string \<Rightarrow> string" where
  "form_encode s = map (\<lambda>c. if c = CHR '' '' then CHR ''+'' else c)
     (concat (map (pct_byte (\<lambda>c. form_keep c \<or> c = CHR '' '')) (utf8 s)))"

definition params_str :: "params \<Rightarrow> string" where
  "params_str ps = join ''&'' (map (\<lambda>(k, v). form_encode k @ ''='' @ form_encode v) ps)"

text \<open>
  The parser, on well-formed input whose characters are in the model's repertoire
  (elsewhere the platform substitutes a replacement character, which is outside it).
\<close>

definition form_decode :: "string \<Rightarrow> string option" where
  "form_decode s = Option.bind (pct_bytes (map (\<lambda>c. if c = CHR ''+'' then CHR '' '' else c) s)) utf8_dec"

definition split_pair :: "string \<Rightarrow> string \<times> string" where
  "split_pair s = (takeWhile (\<lambda>c. c \<noteq> CHR ''='') s, drop 1 (dropWhile (\<lambda>c. c \<noteq> CHR ''='') s))"

fun params_parse :: "string list \<Rightarrow> params option" where
  "params_parse [] = Some []"
| "params_parse (w # ws) =
     (if w = [] then params_parse ws
      else (case (form_decode (fst (split_pair w)), form_decode (snd (split_pair w)), params_parse ws) of
              (Some k, Some v, Some ps) \<Rightarrow> Some ((k, v) # ps)
            | _ \<Rightarrow> None))"

definition search_params :: "string \<Rightarrow> params option" where
  "search_params s =
     params_parse (split_on (CHR ''&'') (if startsWith s ''?'' then tl s else s))"

lemma form_bytes_chars:
  "b < 256 \<Longrightarrow> c \<in> set (pct_byte (\<lambda>c. form_keep c \<or> c = CHR '' '') b) \<Longrightarrow>
     form_keep c \<or> c = CHR '' '' \<or> c = CHR ''%''"
proof -
  assume b: "b < 256" and c: "c \<in> set (pct_byte (\<lambda>c. form_keep c \<or> c = CHR '' '') b)"
  have "is_alnum (hex_digit (b div 16))" "is_alnum (hex_digit (b mod 16))"
    using b by (auto intro!: is_alnum_hex_digit)
  with c show ?thesis
    by (auto simp: pct_byte_def form_keep_def split: if_splits)
qed

definition form_char :: "char \<Rightarrow> bool" where
  "form_char c \<longleftrightarrow> form_keep c \<or> c = CHR ''+'' \<or> c = CHR ''%''"

lemma form_encode_chars: "c \<in> set (form_encode s) \<Longrightarrow> form_char c"
  by (auto simp: form_encode_def form_char_def dest!: form_bytes_chars [OF utf8_bytes])

lemma form_keep_facts: "form_keep c \<or> c = CHR '' '' \<Longrightarrow> c \<noteq> CHR ''%'' \<and> (of_char c :: nat) < 128 \<and> c \<noteq> CHR ''+''"
  by (auto simp: form_keep_def is_alnum_def Let_def)

lemma form_roundtrip [simp]: "form_decode (form_encode s) = Some s"
proof -
  let ?t = "concat (map (pct_byte (\<lambda>c. form_keep c \<or> c = CHR '' '')) (utf8 s))"
  have "c \<noteq> CHR ''+''" if "c \<in> set ?t" for c
    using that form_keep_facts by (auto dest!: form_bytes_chars [OF utf8_bytes])
  then have "map (\<lambda>c. if c = CHR ''+'' then CHR '' '' else c) (form_encode s) = ?t"
    unfolding form_encode_def map_map by (intro map_idI) (auto simp: o_def)
  moreover have "pct_bytes ?t = Some (utf8 s)"
    by (rule pct_bytes_concat) (use form_keep_facts in \<open>auto dest: utf8_bytes\<close>)
  ultimately show ?thesis by (simp add: form_decode_def)
qed

text \<open>The form encoding through the codec interface, with the failure turned into an error.\<close>

definition form_decode_result :: "string \<Rightarrow> string result" where
  "form_decode_result s = (case form_decode s of None \<Rightarrow> Inl (Error ''replacement character'') | Some t \<Rightarrow> Inr t)"

interpretation form_codec: codec form_encode form_decode_result form_char
  by unfold_locales (simp_all add: form_decode_result_def form_encode_chars)

lemma form_separators: "\<not> form_char CHR ''&''" "\<not> form_char CHR ''=''" "\<not> form_char CHR ''?''"
  by (simp_all add: form_char_def form_keep_def is_alnum_def)

lemma split_pair_encoded [simp]:
  "split_pair (form_encode k @ CHR ''='' # form_encode v) = (form_encode k, form_encode v)"
proof -
  have no: "c \<noteq> CHR ''=''" if "c \<in> set (form_encode k)" for c
    using form_codec.enc_avoids [OF form_separators(2)] that by metis
  have "takeWhile (\<lambda>c. c \<noteq> CHR ''='') (form_encode k @ CHR ''='' # form_encode v) = form_encode k"
    using no by (simp add: takeWhile_append2)
  moreover have "dropWhile (\<lambda>c. c \<noteq> CHR ''='') (form_encode k @ CHR ''='' # form_encode v) =
      CHR ''='' # form_encode v"
    using no by (simp add: dropWhile_append2)
  ultimately show ?thesis by (simp add: split_pair_def)
qed

lemma params_parse_pairs:
  "params_parse (map (\<lambda>(k, v). form_encode k @ CHR ''='' # form_encode v) ps) = Some ps"
proof (induction ps)
  case Nil
  then show ?case by simp
next
  case (Cons p ps)
  then show ?case by (cases p) simp
qed

lemma pair_no_amp:
  "CHR ''&'' \<notin> set (form_encode k @ ''='' @ form_encode v)"
  using form_codec.enc_avoids [OF form_separators(1)] by auto

text \<open>What the serialiser writes, the parser reads back.\<close>

lemma search_params_str: "search_params (''?'' @ params_str ps) = Some ps"
proof (cases "ps = []")
  case True
  then show ?thesis by (simp add: search_params_def params_str_def)
next
  case False
  let ?ws = "map (\<lambda>(k, v). form_encode k @ ''='' @ form_encode v) ps"
  have "split_on CHR ''&'' (join ''&'' ?ws) = ?ws"
    by (rule split_on_join) (use False pair_no_amp in auto)
  then show ?thesis
    by (simp add: search_params_def params_str_def params_parse_pairs)
qed

end
