(* ===== verification/Base64_Url.thy ===== *)
theory Base64_Url
  imports Uri_Codec "HOL-Library.Word"
begin

text \<open>
  \<^verbatim>\<open>atob\<close> and \<^verbatim>\<open>btoa\<close> of the platform, and the two conversions of
  \<^verbatim>\<open>sites/auth-adb-software-solutions/src/utils/webauthn.ts\<close> built on them:
  \<^verbatim>\<open>base64urlToBuffer\<close> and \<^verbatim>\<open>bufferToBase64url\<close>. An
  \<^verbatim>\<open>ArrayBuffer\<close> is a list of 8-bit words.

  The lemmas show that the two are inverse to each other on every buffer, which alphabet
  and which length the encoded text has, and exactly which texts are rejected.
\<close>

type_synonym buffer = "8 word list"

section \<open>The alphabet\<close>

definition b64_char :: "nat \<Rightarrow> char" where
  "b64_char n = (if n < 26 then char_of (65 + n) else if n < 52 then char_of (71 + n)
     else if n < 62 then char_of (n - 4) else if n = 62 then CHR ''+'' else CHR ''/'')"

definition b64_val :: "char \<Rightarrow> nat option" where
  "b64_val c = (let n = of_char c in
     if 65 \<le> n \<and> n \<le> 90 then Some (n - 65) else if 97 \<le> n \<and> n \<le> 122 then Some (n - 71)
     else if 48 \<le> n \<and> n \<le> 57 then Some (n + 4) else if c = CHR ''+'' then Some 62
     else if c = CHR ''/'' then Some 63 else None)"

lemma b64_val_char [simp]: "n < 64 \<Longrightarrow> b64_val (b64_char n) = Some n"
  by (auto simp: b64_val_def b64_char_def Let_def)

lemma b64_val_bound: "b64_val c = Some n \<Longrightarrow> n < 64"
  by (auto simp: b64_val_def Let_def split: if_splits)

lemma b64_char_val: "b64_val c = Some n \<Longrightarrow> b64_char n = c"
proof -
  assume "b64_val c = Some n"
  moreover have "char_of (of_char c :: nat) = c" by simp
  ultimately show ?thesis
    by (auto simp: b64_val_def b64_char_def Let_def split: if_splits)
qed

lemma b64_char_alnum:
  "n < 64 \<Longrightarrow> is_alnum (b64_char n) \<or> b64_char n = CHR ''+'' \<or> b64_char n = CHR ''/''"
  by (auto simp: b64_char_def is_alnum_def Let_def)

section \<open>btoa and atob\<close>

text \<open>The digits of \<^verbatim>\<open>btoa\<close>, three code units to four digits.\<close>

fun b64_digits :: "nat list \<Rightarrow> nat list" where
  "b64_digits [] = []"
| "b64_digits [a] = [a div 4, a mod 4 * 16]"
| "b64_digits [a, b] = [a div 4, a mod 4 * 16 + b div 16, b mod 16 * 4]"
| "b64_digits (a # b # c # r) =
     a div 4 # (a mod 4 * 16 + b div 16) # (b mod 16 * 4 + c div 64) # c mod 64 # b64_digits r"

definition btoa :: "string \<Rightarrow> string" where
  "btoa s = map b64_char (b64_digits (map of_char s)) @ replicate ((3 - length s mod 3) mod 3) CHR ''=''"

text \<open>The inverse; bits left over at the end are dropped, as the platform does.\<close>

fun b64_undigits :: "nat list \<Rightarrow> nat list" where
  "b64_undigits (p # q # r # s # ds) =
     (p * 4 + q div 16) # (q mod 16 * 16 + r div 4) # (r mod 4 * 64 + s) # b64_undigits ds"
| "b64_undigits [p, q, r] = [p * 4 + q div 16, q mod 16 * 16 + r div 4]"
| "b64_undigits [p, q] = [p * 4 + q div 16]"
| "b64_undigits _ = []"

definition ascii_space :: "char \<Rightarrow> bool" where
  "ascii_space c \<longleftrightarrow> (of_char c :: nat) \<in> {9, 10, 12, 13, 32}"

text \<open>One or two trailing \<^verbatim>\<open>=\<close> are removed when the length is a multiple of four.\<close>

definition strip_padding :: "string \<Rightarrow> string" where
  "strip_padding s = (if length s mod 4 = 0
     then (if endsWith s ''=='' then take (length s - 2) s
           else if endsWith s ''='' then butlast s else s)
     else s)"

fun vals_of :: "string \<Rightarrow> nat list option" where
  "vals_of [] = Some []"
| "vals_of (c # s) = (case (b64_val c, vals_of s) of (Some v, Some vs) \<Rightarrow> Some (v # vs) | _ \<Rightarrow> None)"

definition InvalidCharacter :: js_throw where
  "InvalidCharacter = Err ''InvalidCharacterError'' ''The string to be decoded is not correctly encoded.''"

definition atob :: "string \<Rightarrow> string result" where
  "atob s = (let t = strip_padding (filter (\<lambda>c. \<not> ascii_space c) s) in
     if length t mod 4 = 1 then Inl InvalidCharacter
     else (case vals_of t of None \<Rightarrow> Inl InvalidCharacter
           | Some ds \<Rightarrow> Inr (map char_of (b64_undigits ds))))"

lemma b64_digits_bound: "\<forall>n \<in> set ns. n < 256 \<Longrightarrow> d \<in> set (b64_digits ns) \<Longrightarrow> d < 64"
  by (induction ns rule: b64_digits.induct) (auto simp: less_mult_imp_div_less)

lemma b64_digits_length: "length (b64_digits ns) = (4 * length ns + 2) div 3"
  by (induction ns rule: b64_digits.induct) auto

lemma byte_parts:
  fixes n :: nat
  assumes "n < 256"
  shows "n div 16 div 16 = 0" "n div 16 mod 16 = n div 16" "n div 64 div 4 = 0" "n div 64 mod 4 = n div 64"
  using assms by (simp_all add: div_mult2_eq [symmetric] less_mult_imp_div_less)

lemma undigits_digits [simp]: "\<forall>n \<in> set ns. n < 256 \<Longrightarrow> b64_undigits (b64_digits ns) = ns"
  by (induction ns rule: b64_digits.induct) (simp_all add: byte_parts)

lemma vals_of_map: "\<forall>d \<in> set ds. d < 64 \<Longrightarrow> vals_of (map b64_char ds) = Some ds"
  by (induction ds) auto

lemma vals_of_Some: "vals_of s = Some ds \<Longrightarrow> s = map b64_char ds \<and> (\<forall>d \<in> set ds. d < 64)"
  by (induction s arbitrary: ds) (auto split: option.splits dest: b64_char_val b64_val_bound)

lemma vals_of_None: "vals_of s = None \<longleftrightarrow> (\<exists>c \<in> set s. b64_val c = None)"
  by (induction s) (auto split: option.splits)

section \<open>The conversions of webauthn.ts\<close>

definition to_std :: "char \<Rightarrow> char" where
  "to_std c = (if c = CHR ''-'' then CHR ''+'' else if c = CHR ''_'' then CHR ''/'' else c)"

definition to_url :: "char \<Rightarrow> char" where
  "to_url c = (if c = CHR ''+'' then CHR ''-'' else if c = CHR ''/'' then CHR ''_'' else c)"

definition base64urlToBuffer :: "string \<Rightarrow> buffer result" where
  "base64urlToBuffer base64url =
     (let padding = replicate ((4 - length base64url mod 4) mod 4) CHR ''='';
          base64 = map to_std (base64url @ padding)
      in and_then (atob base64) (\<lambda>rawData. Inr (map (\<lambda>c. word_of_nat (of_char c)) rawData)))"

definition bufferToBase64url :: "buffer \<Rightarrow> string" where
  "bufferToBase64url buffer =
     (let binary = map (\<lambda>b. char_of (unat b)) buffer
      in filter (\<lambda>c. c \<noteq> CHR ''='') (map to_url (btoa binary)))"

text \<open>Character by character, going to the URL alphabet and back is the identity.\<close>

lemma alnum_not: "is_alnum c \<Longrightarrow> c \<notin> set ''+/-_='' \<and> \<not> ascii_space c"
  by (auto simp: is_alnum_def ascii_space_def Let_def)

lemma to_std_url: "is_alnum c \<or> c = CHR ''+'' \<or> c = CHR ''/'' \<Longrightarrow> to_std (to_url c) = c"
  using alnum_not by (auto simp: to_std_def to_url_def)

definition url_alphabet :: "char \<Rightarrow> bool" where
  "url_alphabet c \<longleftrightarrow> is_alnum c \<or> c = CHR ''-'' \<or> c = CHR ''_''"

lemma unat_byte [simp]: "unat (b :: 8 word) < 256"
proof -
  have "unat b < 2 ^ LENGTH(8)" by (rule unsigned_less)
  then show ?thesis by simp
qed

lemma url_of_digit: "d < 64 \<Longrightarrow> url_alphabet (to_url (b64_char d)) \<and> to_std (to_url (b64_char d)) = b64_char d"
  using b64_char_alnum [of d] to_std_url by (auto simp: url_alphabet_def to_url_def)

lemma url_alphabet_not_pad: "url_alphabet c \<Longrightarrow> c \<noteq> CHR ''='' \<and> \<not> ascii_space c"
  by (auto simp: url_alphabet_def is_alnum_def ascii_space_def Let_def)

text \<open>The encoded text is one URL character per base64 digit: the padding is what \<^verbatim>\<open>replace(/=/g, "")\<close> removes.\<close>

lemma bufferToBase64url_digits:
  "bufferToBase64url buffer = map (to_url \<circ> b64_char) (b64_digits (map unat buffer))"
proof -
  let ?ds = "b64_digits (map unat buffer)"
  have bytes: "map of_char (map (\<lambda>b. char_of (unat b)) buffer :: string) = map unat buffer"
    by (simp add: o_def)
  have "d < 64" if "d \<in> set ?ds" for d
    using that by (rule b64_digits_bound [rotated]) simp
  then have "filter (\<lambda>c. c \<noteq> CHR ''='') (map (to_url \<circ> b64_char) ?ds) = map (to_url \<circ> b64_char) ?ds"
    using url_of_digit url_alphabet_not_pad by (auto simp: filter_id_conv)
  then show ?thesis
    unfolding bufferToBase64url_def btoa_def Let_def bytes by (simp add: to_url_def)
qed

lemma strip_padding_pad:
  assumes "CHR ''='' \<notin> set s" and "length s mod 4 \<noteq> 1"
  shows "strip_padding (s @ replicate ((4 - length s mod 4) mod 4) CHR ''='') = s"
proof -
  have no: "\<not> suffix ''='' s" "\<not> suffix ''=='' s"
    using assms(1) by (auto simp: suffix_def)
  have "length s mod 4 = 0 \<or> length s mod 4 = 2 \<or> length s mod 4 = 3"
    using assms(2) by presburger
  then consider "length s mod 4 = 0" | "length s mod 4 = 2" | "length s mod 4 = 3" by metis
  then show ?thesis
  proof cases
    case 1
    with no show ?thesis by (simp add: strip_padding_def)
  next
    case 2
    have rep: "replicate ((4 - length s mod 4) mod 4) CHR ''='' = ''==''"
      unfolding 2 by code_simp
    have "length (s @ ''=='') mod 4 = 0" using 2 by simp presburger
    moreover have "suffix ''=='' (s @ ''=='')" by (rule suffixI) simp
    ultimately show ?thesis unfolding rep strip_padding_def by simp
  next
    case 3
    have rep: "replicate ((4 - length s mod 4) mod 4) CHR ''='' = ''=''"
      unfolding 3 by simp
    have "length (s @ ''='') mod 4 = 0" using 3 by simp presburger
    moreover have "\<not> suffix ''=='' (s @ ''='')"
      using no by (auto simp: suffix_def append_eq_append_conv2 Cons_eq_append_conv)
    ultimately show ?thesis unfolding rep strip_padding_def by simp
  qed
qed

lemma digits_length_mod: "length (b64_digits ns) mod 4 \<noteq> 1"
  unfolding b64_digits_length by presburger

text \<open>
  The decoder on a text without white space and padding characters, in either alphabet: it
  fails for the one impossible length and for a character outside both alphabets, and
  otherwise returns the bytes of the digits.
\<close>

definition decodable :: "string \<Rightarrow> bool" where
  "decodable s \<longleftrightarrow> length s mod 4 \<noteq> 1 \<and> (\<forall>c \<in> set s. b64_val (to_std c) \<noteq> None)"

lemma atob_padded:
  assumes clean: "\<forall>c \<in> set s. c \<noteq> CHR ''='' \<and> \<not> ascii_space c" and len: "length s mod 4 \<noteq> 1"
  shows "atob (s @ replicate ((4 - length s mod 4) mod 4) CHR ''='') =
    (case vals_of s of None \<Rightarrow> Inl InvalidCharacter | Some ds \<Rightarrow> Inr (map char_of (b64_undigits ds)))"
proof -
  let ?k = "(4 - length s mod 4) mod 4"
  have "filter (\<lambda>c. \<not> ascii_space c) (s @ replicate ?k CHR ''='') = s @ replicate ?k CHR ''=''"
    using clean by (auto simp: filter_id_conv ascii_space_def)
  moreover have "strip_padding (s @ replicate ?k CHR ''='') = s"
    by (rule strip_padding_pad) (use clean len in auto)
  ultimately show ?thesis
    unfolding atob_def Let_def using len by simp
qed

lemma atob_short_padded:
  assumes clean: "\<forall>c \<in> set s. c \<noteq> CHR ''='' \<and> \<not> ascii_space c" and len: "length s mod 4 = 1"
  shows "atob (s @ replicate ((4 - length s mod 4) mod 4) CHR ''='') = Inl InvalidCharacter"
proof -
  have rep: "replicate ((4 - length s mod 4) mod 4) CHR ''='' = ''===''"
    unfolding len by code_simp
  have "filter (\<lambda>c. \<not> ascii_space c) (s @ ''==='') = s @ ''===''"
    using clean by (auto simp: filter_id_conv ascii_space_def)
  moreover have "length (s @ ''==='') mod 4 = 0" using len by simp presburger
  moreover have "suffix ''=='' (s @ ''==='')" by (rule suffixI [of _ "s @ ''=''"]) simp
  ultimately have "strip_padding (filter (\<lambda>c. \<not> ascii_space c) (s @ ''==='')) = s @ ''=''"
    unfolding strip_padding_def by simp
  moreover have "vals_of (s @ ''='') = None"
    by (auto simp: vals_of_None b64_val_def)
  ultimately show ?thesis
    unfolding rep atob_def Let_def by simp
qed

lemma to_std_clean: "c \<noteq> CHR ''='' \<and> \<not> ascii_space c \<Longrightarrow> to_std c \<noteq> CHR ''='' \<and> \<not> ascii_space (to_std c)"
  by (auto simp: to_std_def ascii_space_def)

lemma base64urlToBuffer_clean:
  assumes "\<forall>c \<in> set s. c \<noteq> CHR ''='' \<and> \<not> ascii_space c"
  shows "base64urlToBuffer s =
    (if decodable s
     then Inr (map (\<lambda>c. word_of_nat (of_char c))
            (map char_of (b64_undigits (the (vals_of (map to_std s)))) :: string))
     else Inl InvalidCharacter)"
proof -
  have clean: "\<forall>c \<in> set (map to_std s). c \<noteq> CHR ''='' \<and> \<not> ascii_space c"
    using assms to_std_clean by auto
  have pad: "map to_std (s @ replicate ((4 - length s mod 4) mod 4) CHR ''='') =
      map to_std s @ replicate ((4 - length (map to_std s) mod 4) mod 4) CHR ''=''"
    by (simp add: to_std_def)
  show ?thesis
  proof (cases "length s mod 4 = 1")
    case True
    with atob_short_padded [OF clean] show ?thesis
      unfolding base64urlToBuffer_def Let_def pad decodable_def by simp
  next
    case False
    with atob_padded [OF clean] show ?thesis
      unfolding base64urlToBuffer_def Let_def pad decodable_def
      using vals_of_None [of "map to_std s"] by (cases "vals_of (map to_std s)") auto
  qed
qed

lemma buffer_roundtrip: "base64urlToBuffer (bufferToBase64url buffer) = Inr buffer"
proof -
  let ?ds = "b64_digits (map unat buffer)" and ?s = "bufferToBase64url buffer"
  have small: "d < 64" if "d \<in> set ?ds" for d
    using that by (rule b64_digits_bound [rotated]) simp
  have clean: "\<forall>c \<in> set ?s. c \<noteq> CHR ''='' \<and> \<not> ascii_space c"
    using small url_of_digit url_alphabet_not_pad by (auto simp: bufferToBase64url_digits)
  have std: "map to_std ?s = map b64_char ?ds"
    using small url_of_digit by (simp add: bufferToBase64url_digits)
  then have vals: "vals_of (map to_std ?s) = Some ?ds"
    using small by (simp add: vals_of_map)
  then have "\<forall>c \<in> set (map to_std ?s). b64_val c \<noteq> None"
    by (metis vals_of_None option.distinct(1))
  moreover have "length ?s mod 4 \<noteq> 1"
    using digits_length_mod [of "map unat buffer"] by (simp add: bufferToBase64url_digits)
  ultimately have "decodable ?s" by (simp add: decodable_def)
  then show ?thesis
    unfolding base64urlToBuffer_clean [OF clean] vals by (simp add: o_def)
qed

lemma bufferToBase64url_length: "length (bufferToBase64url buffer) = (4 * length buffer + 2) div 3"
  by (simp add: bufferToBase64url_digits b64_digits_length)

lemma bufferToBase64url_alphabet: "c \<in> set (bufferToBase64url buffer) \<Longrightarrow> url_alphabet c"
  using url_of_digit b64_digits_bound [of "map unat buffer"]
  by (auto simp: bufferToBase64url_digits)

interpretation buffer_codec: codec bufferToBase64url base64urlToBuffer url_alphabet
  by unfold_locales (simp_all add: buffer_roundtrip bufferToBase64url_alphabet)

end
