(* ===== verification/Js_Net.thy ===== *)
theory Js_Net
  imports Uri_Codec
begin

text \<open>
  What the modelled code exchanges with its surroundings: JSON values, HTTP requests and
  responses, and the browser's cookie string.

  The network is a parameter. A \<open>server\<close> answers a request depending on the whole
  sequence of requests sent before, so it stands for any backend with any state, and a
  theorem about all servers covers all of them. The cookie string is a function of the
  same history, because only the server's answers (or the history) change it. Code that
  sends requests takes the history and returns it extended.
\<close>

datatype json = JNull | JBool bool | JNum int | JStr string | JArr "json list" | JObj "(string \<times> json) list"

text \<open>Reading a member of a JSON object; \<open>None\<close> is \<^verbatim>\<open>undefined\<close>.\<close>

fun jget :: "json \<Rightarrow> string \<Rightarrow> json option" where
  "jget (JObj kvs) k = map_of kvs k"
| "jget _ k = None"

fun truthy :: "json option \<Rightarrow> bool" where
  "truthy None = False"
| "truthy (Some JNull) = False"
| "truthy (Some (JBool b)) = b"
| "truthy (Some (JNum n)) = (n \<noteq> 0)"
| "truthy (Some (JStr s)) = (s \<noteq> [])"
| "truthy (Some _) = True"

fun jstring :: "json option \<Rightarrow> string option" where
  "jstring (Some (JStr s)) = Some s"
| "jstring _ = None"

text \<open>Reading a member of \<^verbatim>\<open>null\<close> throws.\<close>

definition non_null :: "json \<Rightarrow> json result" where
  "non_null j = (if j = JNull then Inl TypeError else Inr j)"

definition jtrue :: "json \<Rightarrow> string \<Rightarrow> bool" where
  "jtrue j k = truthy (jget j k)"

definition jstr :: "json \<Rightarrow> string \<Rightarrow> string option" where
  "jstr j k = jstring (jget j k)"

datatype req_body = NoBody | JsonBody json | TextBody string | FormBody

record request =
  req_url :: string
  req_method :: string
  req_headers :: "(string \<times> string) list"
  req_body :: req_body
  req_credentials :: string

text \<open>
  A response: its status, what \<^verbatim>\<open>response.json()\<close> does, and its headers (names in
  lower case, as the \<^verbatim>\<open>Headers\<close> object keeps them).
\<close>

record response =
  status :: nat
  json_body :: "json result"
  resp_headers :: "(string \<times> string) list"

definition ok :: "response \<Rightarrow> bool" where
  "ok r \<longleftrightarrow> 200 \<le> status r \<and> status r \<le> 299"

type_synonym server = "request list \<Rightarrow> request \<Rightarrow> response result"

definition fetch :: "server \<Rightarrow> request \<Rightarrow> request list \<Rightarrow> request list \<times> response result" where
  "fetch srv r h = (h @ [r], srv h r)"

lemma fetch_simps [simp]: "fst (fetch srv r h) = h @ [r]" "snd (fetch srv r h) = srv h r"
  by (simp_all add: fetch_def)

text \<open>
  Code that sends requests and may throw: it takes the history of requests and returns it
  extended, with its result. \<open>bind_io\<close> is \<^verbatim>\<open>await\<close> followed by the rest,
  \<open>catch_io\<close> is \<^verbatim>\<open>try\<close>/\<^verbatim>\<open>catch\<close>.
\<close>

type_synonym 'a io = "request list \<Rightarrow> request list \<times> 'a result"

definition return_io :: "'a \<Rightarrow> 'a io" where
  "return_io x h = (h, Inr x)"

definition throw_io :: "js_throw \<Rightarrow> 'a io" where
  "throw_io e h = (h, Inl e)"

definition lift_io :: "'a result \<Rightarrow> 'a io" where
  "lift_io r h = (h, r)"

definition bind_io :: "'a io \<Rightarrow> ('a \<Rightarrow> 'b io) \<Rightarrow> 'b io" where
  "bind_io m f h = (case m h of (h', Inl e) \<Rightarrow> (h', Inl e) | (h', Inr x) \<Rightarrow> f x h')"

definition catch_io :: "'a io \<Rightarrow> (js_throw \<Rightarrow> 'a io) \<Rightarrow> 'a io" where
  "catch_io m f h = (case m h of (h', Inl e) \<Rightarrow> f e h' | (h', Inr x) \<Rightarrow> (h', Inr x))"

lemmas io_defs = return_io_def throw_io_def lift_io_def bind_io_def catch_io_def

text \<open>
  Every such piece of code only extends the history. Predicates on the requests it sends are
  collected step by step: \<open>sends P m\<close> says that all requests \<open>m\<close> adds satisfy
  \<open>P\<close>, whatever the server.
\<close>

definition sends :: "(request \<Rightarrow> bool) \<Rightarrow> 'a io \<Rightarrow> bool" where
  "sends P m \<longleftrightarrow> (\<forall>h. \<exists>new. fst (m h) = h @ new \<and> (\<forall>r \<in> set new. P r))"

named_theorems sends_intros \<open>which requests a piece of code can send\<close>

lemma sends_return [sends_intros]: "sends P (return_io x)"
  by (simp add: sends_def return_io_def)

lemma sends_throw [sends_intros]: "sends P (throw_io e)"
  by (simp add: sends_def throw_io_def)

lemma sends_lift [sends_intros]: "sends P (lift_io r)"
  by (simp add: sends_def lift_io_def)

lemma sends_fetch [sends_intros]: "P r \<Longrightarrow> sends P (fetch srv r)"
  by (simp add: sends_def fetch_def)

lemma sends_chain:
  assumes "sends P m" and "\<And>x. sends P (f x)" and "m h = (h', y)"
  shows "\<exists>new. fst (f z h') = h @ new \<and> (\<forall>r \<in> set new. P r)"
proof -
  from assms(1,3) obtain a where a: "h' = h @ a" "\<forall>r \<in> set a. P r"
    by (metis fst_conv sends_def)
  from assms(2) obtain b where b: "fst (f z h') = h' @ b" "\<forall>r \<in> set b. P r"
    by (metis sends_def)
  from a b have "fst (f z h') = h @ (a @ b)" "\<forall>r \<in> set (a @ b). P r" by auto
  then show ?thesis by blast
qed

lemma sends_bind [sends_intros]:
  assumes m: "sends P m" and f: "\<And>x. sends P (f x)"
  shows "sends P (bind_io m f)"
  unfolding sends_def
proof
  fix h
  obtain h' r where eq: "m h = (h', r)" by (cases "m h")
  show "\<exists>new. fst (bind_io m f h) = h @ new \<and> (\<forall>r \<in> set new. P r)"
  proof (cases r)
    case (Inl e)
    with eq m show ?thesis by (auto simp: bind_io_def sends_def dest!: spec [of _ h])
  next
    case (Inr x)
    with eq sends_chain [OF m f eq] show ?thesis by (simp add: bind_io_def)
  qed
qed

lemma sends_catch [sends_intros]:
  assumes m: "sends P m" and f: "\<And>e. sends P (f e)"
  shows "sends P (catch_io m f)"
  unfolding sends_def
proof
  fix h
  obtain h' r where eq: "m h = (h', r)" by (cases "m h")
  show "\<exists>new. fst (catch_io m f h) = h @ new \<and> (\<forall>r \<in> set new. P r)"
  proof (cases r)
    case (Inr x)
    with eq m show ?thesis by (auto simp: catch_io_def sends_def dest!: spec [of _ h])
  next
    case (Inl e)
    with eq sends_chain [OF m f eq] show ?thesis by (simp add: catch_io_def)
  qed
qed

lemma sends_if [sends_intros]: "(b \<Longrightarrow> sends P m) \<Longrightarrow> (\<not> b \<Longrightarrow> sends P n) \<Longrightarrow> sends P (if b then m else n)"
  by simp

lemma sends_mono: "sends P m \<Longrightarrow> (\<And>r. P r \<Longrightarrow> Q r) \<Longrightarrow> sends Q m"
  unfolding sends_def by blast

lemma sendsD: "sends P m \<Longrightarrow> m h = (h', r) \<Longrightarrow> q \<in> set h' \<Longrightarrow> q \<in> set h \<or> P q"
  unfolding sends_def by (metis Un_iff fst_conv set_append)

text \<open>Code that never throws, whatever the server.\<close>

definition succeeds :: "'a io \<Rightarrow> bool" where
  "succeeds m \<longleftrightarrow> (\<forall>h. \<exists>x. snd (m h) = Inr x)"

named_theorems succeeds_intros \<open>code that never throws\<close>

lemma succeeds_return [succeeds_intros]: "succeeds (return_io x)"
  by (simp add: succeeds_def return_io_def)

lemma succeeds_bind [succeeds_intros]: "succeeds m \<Longrightarrow> (\<And>x. succeeds (f x)) \<Longrightarrow> succeeds (bind_io m f)"
  by (auto simp: succeeds_def bind_io_def split: prod.splits sum.splits) (metis Inr_Inl_False snd_conv)

lemma succeeds_catch [succeeds_intros]: "(\<And>e. succeeds (f e)) \<Longrightarrow> succeeds (catch_io m f)"
  by (auto simp: succeeds_def catch_io_def split: prod.splits sum.splits)

lemma succeeds_if [succeeds_intros]: "(b \<Longrightarrow> succeeds m) \<Longrightarrow> (\<not> b \<Longrightarrow> succeeds n) \<Longrightarrow> succeeds (if b then m else n)"
  by simp

lemma succeedsE: "succeeds m \<Longrightarrow> (\<And>h' x. m h = (h', Inr x) \<Longrightarrow> P) \<Longrightarrow> P"
  by (metis prod.collapse succeeds_def)

section \<open>Cookies\<close>

text \<open>\<^verbatim>\<open>document.cookie\<close>, as it reads after a history of requests.\<close>

type_synonym cookies = "request list \<Rightarrow> string"

text \<open>The pairs of a cookie string, for stating what a lookup should find.\<close>

definition cookie_string :: "(string \<times> string) list \<Rightarrow> string" where
  "cookie_string kvs = join ''; '' (map (\<lambda>(k, v). k @ ''='' @ v) kvs)"

definition cookie_token :: "string \<Rightarrow> bool" where
  "cookie_token s \<longleftrightarrow> (\<forall>c \<in> set s. c \<noteq> CHR '';'' \<and> c \<noteq> CHR ''='' \<and> \<not> js_space c)"

text \<open>\<^verbatim>\<open>document.cookie.split(";")\<close> with each part trimmed.\<close>

definition cookie_parts :: "string \<Rightarrow> string list" where
  "cookie_parts s = map trim (split_on CHR '';'' s)"

lemma split_cookie_string:
  "kvs \<noteq> [] \<Longrightarrow> \<forall>(k, v) \<in> set kvs. CHR '';'' \<notin> set k \<and> CHR '';'' \<notin> set v \<Longrightarrow>
    split_on CHR '';'' (cookie_string kvs) =
      (case kvs of [] \<Rightarrow> [] | (k, v) # r \<Rightarrow>
         (k @ ''='' @ v) # map (\<lambda>(k, v). CHR '' '' # k @ ''='' @ v) r)"
proof (induction kvs)
  case Nil
  then show ?case by simp
next
  case (Cons kv kvs)
  obtain k v where kv: "kv = (k, v)" by (cases kv)
  show ?case
  proof (cases kvs)
    case Nil
    with Cons.prems kv show ?thesis by (simp add: cookie_string_def split_on_no_sep)
  next
    case (Cons kv' r)
    obtain k' v' where kv': "kv' = (k', v')" by (cases kv')
    have eq: "cookie_string ((k, v) # kvs) = (k @ ''='' @ v) @ CHR '';'' # CHR '' '' # cookie_string kvs"
      using Cons by (simp add: cookie_string_def)
    have "CHR '';'' \<notin> set (k @ ''='' @ v)" using Cons.prems kv by auto
    then have "split_on CHR '';'' (cookie_string ((k, v) # kvs)) =
        (k @ ''='' @ v) # split_on CHR '';'' (CHR '' '' # cookie_string kvs)"
      unfolding eq by (rule split_on_append)
    moreover have "split_on CHR '';'' (cookie_string kvs) =
        (k' @ ''='' @ v') # map (\<lambda>(k, v). CHR '' '' # k @ ''='' @ v) r"
      using Cons.IH Cons.prems Cons kv' by auto
    ultimately show ?thesis using kv kv' Cons by simp
  qed
qed

text \<open>A cookie as the browser prints it, and what the lookup sees of it.\<close>

definition plain_cookie :: "string \<times> string \<Rightarrow> bool" where
  "plain_cookie kv \<longleftrightarrow> cookie_token (fst kv) \<and>
     list_all (\<lambda>c. c \<noteq> CHR '';'' \<and> \<not> js_space c) (snd kv)"

lemma not_space_eq [simp]: "\<not> js_space CHR ''=''"
  by (simp add: js_space_def)

lemma trim_cookie:
  assumes "plain_cookie (k, v)"
  shows "trim (k @ CHR ''='' # v) = k @ CHR ''='' # v"
    and "trim (CHR '' '' # k @ CHR ''='' # v) = k @ CHR ''='' # v"
    and "split_on CHR ''='' (k @ CHR ''='' # v) = k # split_on CHR ''='' v"
proof -
  have k: "\<forall>c \<in> set k. c \<noteq> CHR ''='' \<and> \<not> js_space c" and v: "\<forall>c \<in> set v. \<not> js_space c"
    using assms by (auto simp: plain_cookie_def cookie_token_def list_all_iff)
  have h: "\<not> js_space (hd (k @ CHR ''='' # v))" using k by (cases k) auto
  have l: "\<not> js_space (last (k @ CHR ''='' # v))" using v by auto
  show "trim (k @ CHR ''='' # v) = k @ CHR ''='' # v" using h l by (intro trim_id) simp
  show "trim (CHR '' '' # k @ CHR ''='' # v) = k @ CHR ''='' # v" using h l by (intro trim_space_id) simp_all
  show "split_on CHR ''='' (k @ CHR ''='' # v) = k # split_on CHR ''='' v"
    using k by (intro split_on_append) auto
qed

text \<open>The trimmed parts of a cookie string are its pairs.\<close>

lemma cookie_parts_string:
  assumes "list_all plain_cookie kvs" and "kvs \<noteq> []"
  shows "cookie_parts (cookie_string kvs) = map (\<lambda>(k, v). k @ CHR ''='' # v) kvs"
proof -
  obtain k v r where kvs: "kvs = (k, v) # r" using assms(2) by (cases kvs) auto
  have p: "plain_cookie (k, v)" and pr: "list_all plain_cookie r" using assms(1) kvs by simp_all
  have "split_on CHR '';'' (cookie_string kvs) =
      (k @ CHR ''='' # v) # map (\<lambda>(k, v). CHR '' '' # k @ CHR ''='' # v) r"
    using split_cookie_string [of kvs] assms kvs
    by (force simp: list_all_iff plain_cookie_def cookie_token_def)
  moreover have "map trim (map (\<lambda>(k, v). CHR '' '' # k @ CHR ''='' # v) r) = map (\<lambda>(k, v). k @ CHR ''='' # v) r"
    using pr by (induction r) (auto simp: trim_cookie)
  ultimately show ?thesis using p kvs by (simp add: cookie_parts_def trim_cookie)
qed

lemma pair_prefix:
  "CHR ''='' \<notin> set n \<Longrightarrow> CHR ''='' \<notin> set k \<Longrightarrow> startsWith (k @ CHR ''='' # v) (n @ ''='') \<longleftrightarrow> k = n"
proof (induction n arbitrary: k)
  case Nil
  then show ?case by (cases k) auto
next
  case (Cons c n)
  then show ?case by (cases k) auto
qed

end
