(* ===== verification/State_Machine.thy ===== *)
theory State_Machine
  imports Main
begin

text \<open>
  Reachability and invariants for the components that react to events (a module variable, a
  React hook's timers, a screen). A component gives its initial state and its step relation;
  the locale \<open>safe_machine\<close> is what a client may rely on: an inductive invariant holds in
  every reachable state and along every run.
\<close>

inductive reachable :: "('s \<Rightarrow> bool) \<Rightarrow> ('s \<Rightarrow> 's \<Rightarrow> bool) \<Rightarrow> 's \<Rightarrow> bool"
  for init :: "'s \<Rightarrow> bool" and step :: "'s \<Rightarrow> 's \<Rightarrow> bool" where
  reach_init: "init s \<Longrightarrow> reachable init step s"
| reach_step: "reachable init step s \<Longrightarrow> step s t \<Longrightarrow> reachable init step t"

inductive_cases reachableE: "reachable init step s"

text \<open>A run: the list of states visited after the first.\<close>

fun is_run :: "('s \<Rightarrow> 's \<Rightarrow> bool) \<Rightarrow> 's \<Rightarrow> 's list \<Rightarrow> bool" where
  "is_run step s [] = True"
| "is_run step s (t # ts) = (step s t \<and> is_run step t ts)"

lemma run_reachable:
  "reachable init step s \<Longrightarrow> is_run step s ts \<Longrightarrow> t \<in> set (s # ts) \<Longrightarrow> reachable init step t"
proof (induction ts arbitrary: s)
  case Nil
  then show ?case by simp
next
  case (Cons u ts)
  then have "reachable init step u" by (auto intro: reach_step)
  with Cons show ?case by auto
qed

locale safe_machine =
  fixes init :: "'s \<Rightarrow> bool"
    and step :: "'s \<Rightarrow> 's \<Rightarrow> bool"
    and inv :: "'s \<Rightarrow> bool"
  assumes inv_init: "init s \<Longrightarrow> inv s"
    and inv_step: "inv s \<Longrightarrow> step s t \<Longrightarrow> inv t"
begin

lemma inv_reachable: "reachable init step s \<Longrightarrow> inv s"
  by (induction rule: reachable.induct) (auto intro: inv_init inv_step)

lemma inv_run: "inv s \<Longrightarrow> is_run step s ts \<Longrightarrow> t \<in> set (s # ts) \<Longrightarrow> inv t"
  by (induction ts arbitrary: s) (auto intro: inv_step)

end

text \<open>
  A machine with a measure that every step of some kind decreases: such steps cannot go on
  forever. Used for loops over a finite resource.
\<close>

locale bounded_machine = safe_machine +
  fixes level :: "'s \<Rightarrow> nat"
  assumes level_step: "inv s \<Longrightarrow> step s t \<Longrightarrow> level t < level s"
begin

lemma run_bounded: "inv s \<Longrightarrow> is_run step s ts \<Longrightarrow> length ts \<le> level s"
proof (induction ts arbitrary: s)
  case Nil
  then show ?case by simp
next
  case (Cons t ts)
  then have "inv t" "level t < level s" by (auto intro: inv_step level_step)
  with Cons show ?case by fastforce
qed

end

end
