(* ===== verification/Webauthn.thy ===== *)
theory Webauthn
  imports Base64_Url Js_Net State_Machine
begin

text \<open>
  \<^verbatim>\<open>sites/auth-adb-software-solutions/src/utils/webauthn.ts\<close>: which browsers are
  offered passkeys, parsing the server's ceremony options, encoding the authenticator's
  answer, and the module variable \<^verbatim>\<open>activeAbortController\<close> that keeps two ceremonies
  from running against each other.

  The authenticator (\<^verbatim>\<open>navigator.credentials\<close>) and the browser are parameters. Server
  options have the shapes the code's casts assert; a field the server may leave out is an
  \<open>option\<close>. Logging is left out.
\<close>

section \<open>Support detection\<close>

text \<open>The browser: \<^verbatim>\<open>navigator\<close>, \<^verbatim>\<open>window\<close> and the PublicKeyCredential class.\<close>

record browser =
  has_navigator :: bool
  userAgent :: string
  vendor :: string
  has_window :: bool
  has_PublicKeyCredential :: bool

text \<open>A case-insensitive match of an ASCII word anywhere in the text.\<close>

definition matches_word :: "string \<Rightarrow> string \<Rightarrow> bool" where
  "matches_word s w = str_includes (toLowerCase s) (toLowerCase w)"

definition inAppBrowserPatterns :: "string list" where
  "inAppBrowserPatterns =
     [''FBAN'', ''FBAV'', ''Instagram'', ''Twitter'', ''LinkedInApp'', ''GSA/'', ''KAKAOTALK'',
      ''Line/'', ''Snapchat'', ''TikTok'', ''Weibo'', ''MicroMessenger'', ''Pinterest'',
      ''Slack'', ''Discord'']"

definition isInAppBrowser :: "browser \<Rightarrow> bool" where
  "isInAppBrowser b =
     (if \<not> has_navigator b then False
      else let ua = (if userAgent b \<noteq> [] then userAgent b else vendor b)
           in list_ex (matches_word ua) inAppBrowserPatterns)"

definition isWebAuthnSupported :: "browser \<Rightarrow> bool" where
  "isWebAuthnSupported b =
     (if \<not> has_window b then False
      else if isInAppBrowser b then False
      else has_PublicKeyCredential b)"

text \<open>The two capability queries; \<open>query\<close> is what the browser's promise settles to.\<close>

definition isPlatformAuthenticatorAvailable :: "browser \<Rightarrow> bool result \<Rightarrow> bool" where
  "isPlatformAuthenticatorAvailable b query =
     (if \<not> isWebAuthnSupported b then False else (case query of Inl _ \<Rightarrow> False | Inr v \<Rightarrow> v))"

definition isConditionalMediationAvailable :: "browser \<Rightarrow> bool result option \<Rightarrow> bool" where
  "isConditionalMediationAvailable b query =
     (if \<not> isWebAuthnSupported b then False
      else (case query of None \<Rightarrow> False | Some (Inl _) \<Rightarrow> False | Some (Inr v) \<Rightarrow> v))"

lemma supported_iff:
  "isWebAuthnSupported b \<longleftrightarrow> has_window b \<and> has_PublicKeyCredential b \<and> \<not> isInAppBrowser b"
  by (simp add: isWebAuthnSupported_def)

section \<open>Parsing the server's options\<close>

record cred_json =
  cj_id :: "string option"
  cj_transports :: "string list option"

record user_json =
  uj_id :: "string option"
  uj_name :: "string option"
  uj_displayName :: "string option"
  uj_rest :: "(string \<times> json) list"

record rp_json =
  rj_id :: "string option"
  rj_name :: "string option"

text \<open>\<open>Inl\<close> in a credential list is a value that is not an array.\<close>

record registration_json =
  rg_challenge :: "string option"
  rg_user :: "user_json option"
  rg_rp :: "rp_json option"
  rg_pubKeyCredParams :: "json option"
  rg_excludeCredentials :: "(json + cred_json list) option"
  rg_rest :: "(string \<times> json) list"

record authentication_json =
  au_challenge :: "string option"
  au_rpId :: "string option"
  au_timeout :: "int option"
  au_userVerification :: "string option"
  au_allowCredentials :: "(json + cred_json list) option"

record cred_descriptor =
  cd_type :: string
  cd_id :: buffer
  cd_transports :: "string list option"

record user_entity =
  ue_id :: buffer
  ue_name :: "string option"
  ue_displayName :: "string option"
  ue_rest :: "(string \<times> json) list"

record creation_options =
  co_challenge :: buffer
  co_user :: user_entity
  co_rp :: rp_json
  co_pubKeyCredParams :: "json option"
  co_excludeCredentials :: "(json + cred_descriptor list) option"
  co_rest :: "(string \<times> json) list"

record request_options =
  ro_challenge :: buffer
  ro_rpId :: "string option"
  ro_timeout :: "int option"
  ro_userVerification :: "string option"
  ro_allowCredentials :: "cred_descriptor list option"

text \<open>Reading \<^verbatim>\<open>.length\<close> of \<^verbatim>\<open>undefined\<close> or a member of it throws.\<close>

definition decode_field :: "string option \<Rightarrow> buffer result" where
  "decode_field f = (case f of None \<Rightarrow> Inl TypeError | Some s \<Rightarrow> base64urlToBuffer s)"

definition parse_descriptor :: "cred_json \<Rightarrow> cred_descriptor result" where
  "parse_descriptor c = and_then (decode_field (cj_id c)) (\<lambda>i.
     Inr \<lparr>cd_type = ''public-key'', cd_id = i, cd_transports = cj_transports c\<rparr>)"

definition parseRegistrationOptions :: "registration_json \<Rightarrow> creation_options result" where
  "parseRegistrationOptions opts =
     and_then (decode_field (rg_challenge opts)) (\<lambda>challenge.
     case rg_user opts of None \<Rightarrow> Inl TypeError | Some user \<Rightarrow>
     and_then (decode_field (uj_id user)) (\<lambda>uid.
     case rg_rp opts of None \<Rightarrow> Inl TypeError | Some rp \<Rightarrow>
     let parsed = \<lparr>co_challenge = challenge,
           co_user = \<lparr>ue_id = uid, ue_name = uj_name user, ue_displayName = uj_displayName user,
                      ue_rest = uj_rest user\<rparr>,
           co_rp = rp, co_pubKeyCredParams = rg_pubKeyCredParams opts,
           co_excludeCredentials = (case rg_excludeCredentials opts of
              None \<Rightarrow> None | Some (Inl v) \<Rightarrow> Some (Inl v) | Some (Inr _) \<Rightarrow> None),
           co_rest = rg_rest opts\<rparr>
     in (case rg_excludeCredentials opts of
           Some (Inr creds) \<Rightarrow> and_then (map_result parse_descriptor creds) (\<lambda>ds.
              Inr (parsed\<lparr>co_excludeCredentials := Some (Inr ds)\<rparr>))
         | _ \<Rightarrow> Inr parsed)))"

definition parseAuthenticationOptions :: "authentication_json \<Rightarrow> request_options result" where
  "parseAuthenticationOptions opts =
     and_then (decode_field (au_challenge opts)) (\<lambda>challenge.
     let parsed = \<lparr>ro_challenge = challenge, ro_rpId = au_rpId opts, ro_timeout = au_timeout opts,
           ro_userVerification = au_userVerification opts, ro_allowCredentials = None\<rparr>
     in (case au_allowCredentials opts of
           Some (Inr creds) \<Rightarrow> and_then (map_result parse_descriptor creds) (\<lambda>ds.
              Inr (parsed\<lparr>ro_allowCredentials := Some ds\<rparr>))
         | _ \<Rightarrow> Inr parsed))"

section \<open>Encoding the authenticator's answer\<close>

record attestation_credential =
  ac_id :: string
  ac_rawId :: buffer
  ac_type :: string
  ac_attachment :: "string option"
  ac_clientDataJSON :: buffer
  ac_attestationObject :: buffer
  ac_transports :: "string list option"

record assertion_credential =
  as_id :: string
  as_rawId :: buffer
  as_type :: string
  as_clientDataJSON :: buffer
  as_authenticatorData :: buffer
  as_signature :: buffer
  as_userHandle :: "buffer option"

definition encodeRegistrationCredential :: "attestation_credential \<Rightarrow> json" where
  "encodeRegistrationCredential c = JObj
     [(''id'', JStr (ac_id c)),
      (''rawId'', JStr (bufferToBase64url (ac_rawId c))),
      (''type'', JStr (ac_type c)),
      (''authenticatorAttachment'',
         if truthy_string (ac_attachment c) then JStr (the (ac_attachment c)) else JNull),
      (''response'', JObj
         [(''clientDataJSON'', JStr (bufferToBase64url (ac_clientDataJSON c))),
          (''attestationObject'', JStr (bufferToBase64url (ac_attestationObject c))),
          (''transports'', JArr (map JStr (nullish (ac_transports c) [])))])]"

definition encodeAuthenticationCredential :: "assertion_credential \<Rightarrow> json" where
  "encodeAuthenticationCredential c = JObj
     [(''id'', JStr (as_id c)),
      (''rawId'', JStr (bufferToBase64url (as_rawId c))),
      (''type'', JStr (as_type c)),
      (''response'', JObj
         ([(''clientDataJSON'', JStr (bufferToBase64url (as_clientDataJSON c))),
           (''authenticatorData'', JStr (bufferToBase64url (as_authenticatorData c))),
           (''signature'', JStr (bufferToBase64url (as_signature c)))] @
          (case as_userHandle c of None \<Rightarrow> []
           | Some u \<Rightarrow> [(''userHandle'', JStr (bufferToBase64url u))])))]"

text \<open>What a reader of the encoded credential gets back.\<close>

definition json_buffer :: "json option \<Rightarrow> buffer option" where
  "json_buffer j = (case jstring j of None \<Rightarrow> None
     | Some s \<Rightarrow> (case base64urlToBuffer s of Inl _ \<Rightarrow> None | Inr b \<Rightarrow> Some b))"

lemma json_buffer_enc [simp]: "json_buffer (Some (JStr (bufferToBase64url b))) = Some b"
  by (simp add: json_buffer_def buffer_codec.dec_enc)

section \<open>The active ceremony\<close>

text \<open>
  Each call of \<^verbatim>\<open>createPasskey\<close> or \<^verbatim>\<open>authenticateWithDiscoverableCredential\<close>
  owns an \<^verbatim>\<open>AbortController\<close> and a two-minute timer; the module variable points to
  the controller of the ceremony in progress. Ceremonies are numbered in the order they are
  started; several calls may be waiting for the authenticator at once.
\<close>

record ceremony =
  cer_aborted :: bool
  cer_timer :: bool
  cer_running :: bool

record webauthn_state =
  activeAbortController :: "nat option"
  ceremonies :: "ceremony list"

definition wa_init :: webauthn_state where
  "wa_init = \<lparr>activeAbortController = None, ceremonies = []\<rparr>"

definition upd_ceremony :: "nat \<Rightarrow> (ceremony \<Rightarrow> ceremony) \<Rightarrow> webauthn_state \<Rightarrow> webauthn_state" where
  "upd_ceremony i f s = s\<lparr>ceremonies := (ceremonies s)[i := f (ceremonies s ! i)]\<rparr>"

definition abortActiveWebAuthnCeremony :: "webauthn_state \<Rightarrow> webauthn_state" where
  "abortActiveWebAuthnCeremony s =
     (case activeAbortController s of
        None \<Rightarrow> s
      | Some i \<Rightarrow> (upd_ceremony i (cer_aborted_update (\<lambda>_. True)) s)\<lparr>activeAbortController := None\<rparr>)"

text \<open>The lines before the first \<^verbatim>\<open>await\<close>: a new controller, made the active one, and its timer.\<close>

definition begin_ceremony :: "webauthn_state \<Rightarrow> nat \<times> webauthn_state" where
  "begin_ceremony s0 =
     (let s = abortActiveWebAuthnCeremony s0; i = length (ceremonies s)
      in (i, s\<lparr>activeAbortController := Some i,
               ceremonies := ceremonies s @ [\<lparr>cer_aborted = False, cer_timer = True, cer_running = True\<rparr>]\<rparr>))"

text \<open>The timer's callback.\<close>

definition timeout_ceremony :: "nat \<Rightarrow> webauthn_state \<Rightarrow> webauthn_state" where
  "timeout_ceremony i s =
     upd_ceremony i (\<lambda>c. if cer_timer c then c\<lparr>cer_aborted := True, cer_timer := False\<rparr> else c) s"

text \<open>The \<^verbatim>\<open>finally\<close> block.\<close>

definition finish_ceremony :: "nat \<Rightarrow> webauthn_state \<Rightarrow> webauthn_state" where
  "finish_ceremony i s =
     (let s' = upd_ceremony i (\<lambda>c. c\<lparr>cer_timer := False, cer_running := False\<rparr>) s
      in if activeAbortController s' = Some i then s'\<lparr>activeAbortController := None\<rparr> else s')"

text \<open>
  The whole call with no other ceremony in between. \<open>authenticator\<close> is
  \<^verbatim>\<open>navigator.credentials.create\<close> (\<^verbatim>\<open>get\<close>): it rejects, or resolves to a
  credential or to \<^verbatim>\<open>null\<close>.
\<close>

definition no_credential :: js_throw where
  "no_credential = Error ''No credential returned from authenticator''"

definition ceremony_result :: "('c \<Rightarrow> json) \<Rightarrow> 'o result \<Rightarrow> ('o \<Rightarrow> 'c option result) \<Rightarrow> json result" where
  "ceremony_result encode options authenticator =
     and_then options (\<lambda>opt. and_then (authenticator opt) (\<lambda>cred.
       case cred of None \<Rightarrow> Inl no_credential | Some c \<Rightarrow> Inr (encode c)))"

definition createPasskey ::
  "(creation_options \<Rightarrow> attestation_credential option result) \<Rightarrow> registration_json \<Rightarrow>
   webauthn_state \<Rightarrow> webauthn_state \<times> json result" where
  "createPasskey authenticator opts s =
     (let (i, s1) = begin_ceremony s;
          r = ceremony_result encodeRegistrationCredential (parseRegistrationOptions opts) authenticator
      in (finish_ceremony i s1, r))"

definition authenticateWithDiscoverableCredential ::
  "(request_options \<Rightarrow> assertion_credential option result) \<Rightarrow> authentication_json \<Rightarrow>
   webauthn_state \<Rightarrow> webauthn_state \<times> json result" where
  "authenticateWithDiscoverableCredential authenticator opts s =
     (let (i, s1) = begin_ceremony s;
          r = ceremony_result encodeAuthenticationCredential (parseAuthenticationOptions opts) authenticator
      in (finish_ceremony i s1, r))"

definition authenticateWithPasskey ::
  "(request_options \<Rightarrow> assertion_credential option result) \<Rightarrow> authentication_json \<Rightarrow>
   webauthn_state \<Rightarrow> webauthn_state \<times> json result" where
  "authenticateWithPasskey = authenticateWithDiscoverableCredential"

text \<open>Any interleaving of calls, settled promises, timers and explicit aborts.\<close>

inductive wa_step :: "webauthn_state \<Rightarrow> webauthn_state \<Rightarrow> bool" where
  wa_begin: "wa_step s (snd (begin_ceremony s))"
| wa_abort: "wa_step s (abortActiveWebAuthnCeremony s)"
| wa_timeout: "i < length (ceremonies s) \<Longrightarrow> wa_step s (timeout_ceremony i s)"
| wa_finish: "i < length (ceremonies s) \<Longrightarrow> cer_running (ceremonies s ! i) \<Longrightarrow>
    wa_step s (finish_ceremony i s)"

text \<open>The ceremonies that wait for the authenticator and have not been told to stop.\<close>

definition live :: "webauthn_state \<Rightarrow> nat \<Rightarrow> bool" where
  "live s i \<longleftrightarrow> i < length (ceremonies s) \<and> cer_running (ceremonies s ! i) \<and>
     \<not> cer_aborted (ceremonies s ! i)"

text \<open>
  The invariant: the active controller is that of the newest ceremony, which is running, and
  any other ceremony that still runs has been aborted; a pending timer belongs to a running
  ceremony.
\<close>

definition wa_inv :: "webauthn_state \<Rightarrow> bool" where
  "wa_inv s \<longleftrightarrow>
     (case activeAbortController s of
        None \<Rightarrow> (\<forall>i. \<not> live s i)
      | Some a \<Rightarrow> a < length (ceremonies s) \<and> length (ceremonies s) \<le> a + 1 \<and>
          cer_running (ceremonies s ! a) \<and> (\<forall>i. live s i \<longrightarrow> i = a)) \<and>
     (\<forall>i < length (ceremonies s). cer_timer (ceremonies s ! i) \<longrightarrow> cer_running (ceremonies s ! i))"

lemma ceremonies_upd [simp]:
  "length (ceremonies (upd_ceremony i f s)) = length (ceremonies s)"
  "activeAbortController (upd_ceremony i f s) = activeAbortController s"
  "j < length (ceremonies s) \<Longrightarrow>
     ceremonies (upd_ceremony i f s) ! j = (if j = i then f (ceremonies s ! i) else ceremonies s ! j)"
  by (auto simp: upd_ceremony_def nth_list_update)

lemma live_upd:
  "live (upd_ceremony i f s) j \<longleftrightarrow>
     (if j = i then i < length (ceremonies s) \<and> cer_running (f (ceremonies s ! i)) \<and>
        \<not> cer_aborted (f (ceremonies s ! i)) else live s j)"
  by (auto simp: live_def)

lemma live_active [simp]: "live (s\<lparr>activeAbortController := a\<rparr>) = live s"
  by (simp add: live_def fun_eq_iff)

lemma abort_state:
  assumes "wa_inv s"
  shows "activeAbortController (abortActiveWebAuthnCeremony s) = None"
    and "\<not> live (abortActiveWebAuthnCeremony s) i"
    and "wa_inv (abortActiveWebAuthnCeremony s)"
  using assms
  by (auto simp: wa_inv_def abortActiveWebAuthnCeremony_def live_upd split: option.splits)

lemma begin_inv:
  assumes "wa_inv s"
  shows "wa_inv (snd (begin_ceremony s))"
proof -
  let ?t = "abortActiveWebAuthnCeremony s"
  have none: "\<not> live ?t i" for i by (rule abort_state [OF assms])
  have "live (snd (begin_ceremony s)) i \<longleftrightarrow> i = length (ceremonies ?t)" for i
    using none [of i] by (auto simp: begin_ceremony_def Let_def live_def nth_append)
  moreover have "\<forall>i < length (ceremonies ?t). cer_timer (ceremonies ?t ! i) \<longrightarrow> cer_running (ceremonies ?t ! i)"
    using abort_state(3) [OF assms] by (simp add: wa_inv_def)
  ultimately show ?thesis
    unfolding wa_inv_def by (auto simp: begin_ceremony_def Let_def nth_append)
qed

lemma timeout_facts:
  "activeAbortController (timeout_ceremony i s) = activeAbortController s"
  "length (ceremonies (timeout_ceremony i s)) = length (ceremonies s)"
  "j < length (ceremonies s) \<Longrightarrow> cer_running (ceremonies (timeout_ceremony i s) ! j) = cer_running (ceremonies s ! j)"
  "j < length (ceremonies s) \<Longrightarrow> cer_timer (ceremonies (timeout_ceremony i s) ! j) \<Longrightarrow> cer_timer (ceremonies s ! j)"
  "live (timeout_ceremony i s) j \<Longrightarrow> live s j"
  by (auto simp: timeout_ceremony_def live_def split: if_splits)

lemma timeout_inv: "wa_inv s \<Longrightarrow> wa_inv (timeout_ceremony i s)"
  using timeout_facts [where i = i and s = s] unfolding wa_inv_def
  by (auto split: option.splits)

lemma finish_inv: "wa_inv s \<Longrightarrow> wa_inv (finish_ceremony i s)"
  unfolding wa_inv_def finish_ceremony_def Let_def
  by (auto simp: live_upd split: option.splits if_splits)

interpretation ceremony_machine: safe_machine "(=) wa_init" wa_step wa_inv
proof
  show "wa_inv s" if "wa_init = s" for s
    using that by (auto simp: wa_init_def wa_inv_def live_def)
  show "wa_inv t" if "wa_inv s" "wa_step s t" for s t
    using that(2,1)
    by (induction rule: wa_step.induct) (auto simp: begin_inv abort_state timeout_inv finish_inv)
qed

section \<open>Properties\<close>

text \<open>
  C1: encoding a buffer as base64url loses nothing. \<^verbatim>\<open>base64urlToBuffer\<close> returns
  every byte \<^verbatim>\<open>bufferToBase64url\<close> was given, and the encoded text has only URL-safe
  characters and no padding, four for every three bytes, rounded up.
\<close>

theorem base64url_roundtrip:
  "base64urlToBuffer (bufferToBase64url buffer) = Inr buffer \<and>
   list_all url_alphabet (bufferToBase64url buffer) \<and>
   length (bufferToBase64url buffer) = (4 * length buffer + 2) div 3"
  using buffer_codec.dec_enc buffer_codec.enc_alphabet bufferToBase64url_length
  by (auto simp: list_all_iff)

text \<open>
  On a text without white space and padding, \<^verbatim>\<open>base64urlToBuffer\<close> fails exactly
  when the length is one more than a multiple of four or a character is outside the
  alphabet; it always throws \<^verbatim>\<open>InvalidCharacterError\<close> then, never returns part of a
  buffer.
\<close>

theorem base64url_rejects:
  assumes "list_all (\<lambda>c. c \<noteq> CHR ''='' \<and> \<not> ascii_space c) s"
  shows "(if length s mod 4 \<noteq> 1 \<and> list_all (\<lambda>c. b64_val (to_std c) \<noteq> None) s
     then isl (base64urlToBuffer s) = False
     else base64urlToBuffer s = Inl InvalidCharacter)"
  using base64urlToBuffer_clean [of s] assms by (auto simp: list_all_iff decodable_def)

theorem base64url_rejects_witness:
  "base64urlToBuffer ''ab*c'' = Inl InvalidCharacter"
proof -
  have h: "list_all (\<lambda>c. c \<noteq> CHR ''='' \<and> \<not> ascii_space c) ''ab*c''"
    by (simp add: ascii_space_def)
  show ?thesis using base64url_rejects [OF h] by (simp add: b64_val_def to_std_def)
qed

text \<open>
  Registration options survive the wire. When the server encodes a challenge, a user id
  and the ids of the credentials to exclude as base64url, \<^verbatim>\<open>parseRegistrationOptions\<close>
  hands exactly those buffers to the authenticator, one descriptor per excluded credential in
  the same order with its transports, and the other members unchanged.
\<close>

theorem registration_options_roundtrip:
  "parseRegistrationOptions
     \<lparr>rg_challenge = Some (bufferToBase64url challenge),
      rg_user = Some \<lparr>uj_id = Some (bufferToBase64url uid), uj_name = name,
                      uj_displayName = display, uj_rest = ur\<rparr>,
      rg_rp = Some rp, rg_pubKeyCredParams = algs,
      rg_excludeCredentials = Some (Inr (map (\<lambda>(i, t). \<lparr>cj_id = Some (bufferToBase64url i), cj_transports = t\<rparr>) creds)),
      rg_rest = rest\<rparr> =
   Inr \<lparr>co_challenge = challenge,
        co_user = \<lparr>ue_id = uid, ue_name = name, ue_displayName = display, ue_rest = ur\<rparr>,
        co_rp = rp, co_pubKeyCredParams = algs,
        co_excludeCredentials = Some (Inr (map (\<lambda>(i, t).
           \<lparr>cd_type = ''public-key'', cd_id = i, cd_transports = t\<rparr>) creds)),
        co_rest = rest\<rparr>"
proof -
  have "map_result parse_descriptor
      (map (\<lambda>(i, t). \<lparr>cj_id = Some (bufferToBase64url i), cj_transports = t\<rparr>) creds) =
      Inr (map (\<lambda>(i, t). \<lparr>cd_type = ''public-key'', cd_id = i, cd_transports = t\<rparr>) creds)"
    by (induction creds) (auto simp: parse_descriptor_def decode_field_def buffer_codec.dec_enc)
  then show ?thesis
    by (simp add: parseRegistrationOptions_def decode_field_def buffer_codec.dec_enc Let_def)
qed

text \<open>
  The encoded assertion carries every buffer of the authenticator's answer, and the user
  handle exactly when the authenticator gave one.
\<close>

theorem assertion_encoding_faithful:
  "json_buffer (jget (encodeAuthenticationCredential c) ''rawId'') = Some (as_rawId c) \<and>
   (case jget (encodeAuthenticationCredential c) ''response'' of
      None \<Rightarrow> False
    | Some r \<Rightarrow>
        json_buffer (jget r ''clientDataJSON'') = Some (as_clientDataJSON c) \<and>
        json_buffer (jget r ''authenticatorData'') = Some (as_authenticatorData c) \<and>
        json_buffer (jget r ''signature'') = Some (as_signature c) \<and>
        json_buffer (jget r ''userHandle'') = as_userHandle c)"
  by (auto simp: encodeAuthenticationCredential_def json_buffer_def buffer_codec.dec_enc split: option.splits)

text \<open>Two calls in a row, the start of the examples below.\<close>

lemma two_ceremonies: "reachable ((=) wa_init) wa_step (snd (begin_ceremony (snd (begin_ceremony wa_init))))"
proof -
  have "reachable ((=) wa_init) wa_step wa_init" by (rule reach_init) simp
  then have "reachable ((=) wa_init) wa_step (snd (begin_ceremony wa_init))"
    by (rule reach_step) (rule wa_begin)
  then show ?thesis by (rule reach_step) (rule wa_begin)
qed

text \<open>
  Two passkey ceremonies never compete. In every state reachable by any interleaving of
  new ceremonies, settled promises, timeouts and aborts, at most one ceremony is running
  without having been aborted, it is the newest one and the one the module variable points
  to.
\<close>

theorem one_live_ceremony:
  assumes "reachable ((=) wa_init) wa_step s" and "live s i" and "live s j"
  shows "i = j \<and> activeAbortController s = Some i \<and> length (ceremonies s) = i + 1"
proof -
  have "wa_inv s" by (rule ceremony_machine.inv_reachable [OF assms(1)])
  with assms(2,3) show ?thesis
    unfolding wa_inv_def by (auto split: option.splits)
qed

theorem one_live_ceremony_witness:
  "\<exists>s. reachable ((=) wa_init) wa_step s \<and> live s 1 \<and> activeAbortController s = Some 1"
proof -
  let ?s1 = "snd (begin_ceremony wa_init)"
  let ?s2 = "snd (begin_ceremony ?s1)"
  have r: "reachable ((=) wa_init) wa_step ?s2" by (rule two_ceremonies)
  have l: "live ?s2 1"
    by (simp add: live_def begin_ceremony_def wa_init_def abortActiveWebAuthnCeremony_def
        upd_ceremony_def Let_def)
  show ?thesis using one_live_ceremony [OF r l l] r l by blast
qed

text \<open>
  A ceremony that ends cleans up after itself and nothing else: it clears the module
  variable only when the variable is its own controller, so a ceremony started in the
  meantime stays abortable, and its timer is gone.
\<close>

theorem finish_leaves_newer_ceremony:
  assumes "reachable ((=) wa_init) wa_step s" and "activeAbortController s = Some a" and "i < a"
  shows "activeAbortController (finish_ceremony i s) = Some a \<and>
    live (finish_ceremony i s) a = live s a \<and>
    \<not> cer_timer (ceremonies (finish_ceremony i s) ! i)"
proof -
  have "wa_inv s" by (rule ceremony_machine.inv_reachable [OF assms(1)])
  then have "a < length (ceremonies s)" using assms(2) by (simp add: wa_inv_def)
  with assms(2,3) show ?thesis
    by (simp add: finish_ceremony_def Let_def live_upd)
qed

theorem finish_leaves_newer_ceremony_witness:
  "activeAbortController (finish_ceremony 0 (snd (begin_ceremony (snd (begin_ceremony wa_init))))) = Some 1"
proof -
  let ?s = "snd (begin_ceremony (snd (begin_ceremony wa_init)))"
  have r: "reachable ((=) wa_init) wa_step ?s" by (rule two_ceremonies)
  have a: "activeAbortController ?s = Some 1"
    by (simp add: begin_ceremony_def wa_init_def abortActiveWebAuthnCeremony_def upd_ceremony_def Let_def)
  show ?thesis using finish_leaves_newer_ceremony [OF r a, of 0] by simp
qed

end
