(* ===== verification/Js_Url.thy ===== *)
theory Js_Url
  imports Uri_Codec
begin

text \<open>
  What the program uses of the platform's URL parser: the origin of an absolute URL
  (\<^verbatim>\<open>new URL(s).origin\<close>, which throws for other texts) and the origin a browser
  lands on when a page of a given origin navigates to a text
  (\<^verbatim>\<open>window.location.href = s\<close>). Both follow the states of the URL standard for
  hierarchical schemes: stripping, the scheme, slashes and backslashes, credentials, host and
  port. The host parser of the standard (IDNA, percent decoding, IPv4 numbers) is the
  parameter \<open>canon\<close>: it canonicalises a host or rejects it.
\<close>

definition c0_or_space :: "char \<Rightarrow> bool" where
  "c0_or_space c \<longleftrightarrow> (of_char c :: nat) \<le> 32"

definition tab_or_newline :: "char \<Rightarrow> bool" where
  "tab_or_newline c \<longleftrightarrow> (of_char c :: nat) \<in> {9, 10, 13}"

definition url_strip :: "string \<Rightarrow> string" where
  "url_strip s = filter (\<lambda>c. \<not> tab_or_newline c)
     (rev (dropWhile c0_or_space (rev (dropWhile c0_or_space s))))"

definition is_alpha :: "char \<Rightarrow> bool" where
  "is_alpha c \<longleftrightarrow> is_alnum c \<and> \<not> is_digit c"

definition scheme_char :: "char \<Rightarrow> bool" where
  "scheme_char c \<longleftrightarrow> is_alnum c \<or> c \<in> set ''+-.''"

text \<open>The scheme in lower case and the rest, or \<open>None\<close> for a text without a scheme.\<close>

definition split_scheme :: "string \<Rightarrow> (string \<times> string) option" where
  "split_scheme s =
     (let sch = takeWhile scheme_char s; rest = dropWhile scheme_char s
      in if sch \<noteq> [] \<and> is_alpha (hd sch) \<and> rest \<noteq> [] \<and> hd rest = CHR '':''
         then Some (toLowerCase sch, tl rest) else None)"

definition slash_like :: "char \<Rightarrow> bool" where
  "slash_like c \<longleftrightarrow> c = CHR ''/'' \<or> c = CHR 0x5C"

definition special_scheme :: "string \<Rightarrow> bool" where
  "special_scheme s \<longleftrightarrow> s \<in> set [''http'', ''https'', ''ws'', ''wss'', ''ftp'']"

definition default_port :: "string \<Rightarrow> nat" where
  "default_port s = (if s = ''https'' \<or> s = ''wss'' then 443 else if s = ''ftp'' then 21 else 80)"

definition authority_end :: "char \<Rightarrow> bool" where
  "authority_end c \<longleftrightarrow> slash_like c \<or> c = CHR ''?'' \<or> c = CHR ''#''"

text \<open>What follows the last \<^verbatim>\<open>@\<close>.\<close>

definition after_userinfo :: "string \<Rightarrow> string" where
  "after_userinfo a = last (split_on CHR ''@'' a)"

text \<open>Host and port text; a bracketed host keeps its colons.\<close>

definition split_port :: "string \<Rightarrow> string \<times> string" where
  "split_port hp =
     (if startsWith hp ''['' then
        (let h = takeWhile (\<lambda>c. c \<noteq> CHR '']'') hp; r = dropWhile (\<lambda>c. c \<noteq> CHR '']'') hp
         in (h @ take 1 r, drop 1 (dropWhile (\<lambda>c. c \<noteq> CHR '':'') r)))
      else (takeWhile (\<lambda>c. c \<noteq> CHR '':'') hp, drop 1 (dropWhile (\<lambda>c. c \<noteq> CHR '':'') hp)))"

definition port_suffix :: "string \<Rightarrow> string \<Rightarrow> string option" where
  "port_suffix sch p =
     (if p = [] then Some []
      else if \<not> list_all is_digit p \<or> digits_val p > 65535 then None
      else if digits_val p = default_port sch then Some []
      else Some ('':'' @ nat_str (digits_val p)))"

text \<open>The origin of a special URL whose text after the slashes is \<open>r\<close>.\<close>

definition authority_origin :: "(string \<Rightarrow> string option) \<Rightarrow> string \<Rightarrow> string \<Rightarrow> string option" where
  "authority_origin canon sch r =
     (let (h, p) = split_port (after_userinfo (takeWhile (\<lambda>c. \<not> authority_end c) r))
      in if h = [] then None
         else (case (canon h, port_suffix sch p) of
                 (Some ch, Some ps) \<Rightarrow> Some (sch @ ''://'' @ ch @ ps)
               | _ \<Rightarrow> None))"

definition special_origin :: "(string \<Rightarrow> string option) \<Rightarrow> string \<Rightarrow> string \<Rightarrow> string option" where
  "special_origin canon sch rest = authority_origin canon sch (dropWhile slash_like rest)"

text \<open>\<^verbatim>\<open>new URL(s).origin\<close>: \<open>None\<close> where the constructor throws. A non-special
  scheme has the opaque origin, which is serialised as \<^verbatim>\<open>null\<close>; a blob URL has the
  origin of the HTTP URL inside it.\<close>

definition scheme_origin :: "(string \<Rightarrow> string option) \<Rightarrow> string \<Rightarrow> string \<Rightarrow> string option" where
  "scheme_origin canon sch rest =
     (if special_scheme sch then special_origin canon sch rest
      else if sch = ''blob'' then
        (case split_scheme rest of
           Some (s2, r2) \<Rightarrow> (if s2 = ''http'' \<or> s2 = ''https''
              then Some (nullish (special_origin canon s2 r2) ''null'') else Some ''null'')
         | None \<Rightarrow> Some ''null'')
      else Some ''null'')"

definition url_origin :: "(string \<Rightarrow> string option) \<Rightarrow> string \<Rightarrow> string option" where
  "url_origin canon s =
     (case split_scheme (url_strip s) of
        None \<Rightarrow> None
      | Some (sch, rest) \<Rightarrow> scheme_origin canon sch rest)"

text \<open>
  Navigation from a page whose URL has the special scheme \<open>bsch\<close> and the origin
  \<open>self\<close>: a text without a scheme, or with the page's own scheme, is relative unless it
  starts with two slashes or backslashes. \<open>None\<close> is a navigation that does not happen.
\<close>

definition relative_origin :: "(string \<Rightarrow> string option) \<Rightarrow> string \<Rightarrow> string \<Rightarrow> string \<Rightarrow> string option" where
  "relative_origin canon bsch self rest =
     (case rest of a # b # r \<Rightarrow> (if slash_like a \<and> slash_like b then special_origin canon bsch rest else Some self)
      | _ \<Rightarrow> Some self)"

definition nav_origin :: "(string \<Rightarrow> string option) \<Rightarrow> string \<Rightarrow> string \<Rightarrow> string \<Rightarrow> string option" where
  "nav_origin canon bsch self s =
     (case split_scheme (url_strip s) of
        None \<Rightarrow> relative_origin canon bsch self (url_strip s)
      | Some (sch, rest) \<Rightarrow>
          (if sch = bsch \<and> special_scheme sch then relative_origin canon bsch self rest
           else scheme_origin canon sch rest))"

text \<open>An absolute URL takes the browser to its own origin or, with the page's own scheme
  and fewer than two slashes, leaves it on the page's origin.\<close>

lemma nav_absolute: "url_origin canon s = Some org \<Longrightarrow> nav_origin canon bsch self s \<in> {Some org, Some self}"
  by (auto simp: url_origin_def nav_origin_def relative_origin_def scheme_origin_def
      split: option.splits list.splits if_splits)

text \<open>A text that starts with one slash stays on the page's origin unless, after tabs and
  line breaks are dropped, a second slash or a backslash follows.\<close>

lemma url_strip_slash:
  "url_strip (CHR ''/'' # r) = CHR ''/'' # filter (\<lambda>c. \<not> tab_or_newline c) (rev (dropWhile c0_or_space (rev r)))"
proof -
  have no: "\<not> c0_or_space CHR ''/''" "\<not> tab_or_newline CHR ''/''"
    by (simp_all add: c0_or_space_def tab_or_newline_def)
  then have "dropWhile c0_or_space (rev r @ [CHR ''/'']) = dropWhile c0_or_space (rev r) @ [CHR ''/'']"
    by (induction "rev r") (auto simp: dropWhile_append)
  with no show ?thesis by (simp add: url_strip_def)
qed

lemma nav_slash:
  assumes "url_strip (CHR ''/'' # r) = CHR ''/'' # t" and "t = [] \<or> \<not> slash_like (hd t)"
  shows "nav_origin canon bsch self (CHR ''/'' # r) = Some self"
proof -
  have "split_scheme (CHR ''/'' # t) = None"
    by (simp add: split_scheme_def scheme_char_def is_alnum_def)
  with assms show ?thesis
    by (auto simp: nav_origin_def relative_origin_def split: list.splits)
qed

text \<open>A host parser for examples: ASCII lower case, with the forbidden characters rejected.\<close>

definition plain_host :: "string \<Rightarrow> string option" where
  "plain_host h = (if list_all (\<lambda>c. is_alnum c \<or> c \<in> set ''-.'') h then Some (toLowerCase h) else None)"

section \<open>URL objects\<close>

text \<open>
  The \<^verbatim>\<open>URL\<close> constructor on absolute URLs with a special scheme, as far as the
  program reads them: the origin, the path with dot segments resolved and unsafe characters
  encoded, and the query's parameters. A user name or a fragment is dropped, other schemes
  are rejected; the program builds none of these.
\<close>

record url =
  u_origin :: string
  u_path :: string
  u_params :: params

definition single_dot :: "string \<Rightarrow> bool" where
  "single_dot s \<longleftrightarrow> toLowerCase s \<in> {''.'', ''%2e''}"

definition double_dot :: "string \<Rightarrow> bool" where
  "double_dot s \<longleftrightarrow> toLowerCase s \<in> {''..'', ''.%2e'', ''%2e.'', ''%2e%2e''}"

fun resolve_dots :: "string list \<Rightarrow> string list \<Rightarrow> string list" where
  "resolve_dots acc [] = rev acc"
| "resolve_dots acc [s] =
     (if double_dot s then rev ([] # tl acc) else if single_dot s then rev ([] # acc) else rev (s # acc))"
| "resolve_dots acc (s # t # ss) =
     (if double_dot s then resolve_dots (tl acc) (t # ss)
      else if single_dot s then resolve_dots acc (t # ss)
      else resolve_dots (s # acc) (t # ss))"

definition path_keep :: "char \<Rightarrow> bool" where
  "path_keep c \<longleftrightarrow> (let n = (of_char c :: nat) in 32 < n \<and> n < 127) \<and> c \<notin> set (CHR 0x22 # ''#<>?`{}^'')"

definition url_path :: "string \<Rightarrow> string" where
  "url_path p =
     (let segs = split_on CHR ''/'' (map (\<lambda>c. if c = CHR 0x5C then CHR ''/'' else c) p)
      in concat (map (\<lambda>s. ''/'' @ concat (map (pct_byte path_keep) (utf8 s)))
           (resolve_dots [] (if p = [] then [[]] else tl segs))))"

definition parse_url :: "(string \<Rightarrow> string option) \<Rightarrow> string \<Rightarrow> url option" where
  "parse_url canon s =
     (case split_scheme (url_strip s) of
        None \<Rightarrow> None
      | Some (sch, rest) \<Rightarrow>
          if \<not> special_scheme sch then None
          else
            (let r = dropWhile slash_like rest;
                 t = takeWhile (\<lambda>c. c \<noteq> CHR ''#'') (dropWhile (\<lambda>c. \<not> authority_end c) r);
                 p = takeWhile (\<lambda>c. c \<noteq> CHR ''?'') t;
                 q = dropWhile (\<lambda>c. c \<noteq> CHR ''?'') t
             in (case (authority_origin canon sch r, search_params q) of
                   (Some org, Some ps) \<Rightarrow> Some \<lparr>u_origin = org, u_path = url_path p, u_params = ps\<rparr>
                 | _ \<Rightarrow> None)))"

definition href :: "url \<Rightarrow> string" where
  "href u = u_origin u @ u_path u @ (if u_params u = [] then [] else ''?'' @ params_str (u_params u))"

text \<open>\<^verbatim>\<open>url.searchParams.set(k, v)\<close>.\<close>

definition url_set :: "string \<Rightarrow> string \<Rightarrow> url \<Rightarrow> url" where
  "url_set k v u = u\<lparr>u_params := params_set k v (u_params u)\<rparr>"

lemma url_set_get [simp]: "params_get (u_params (url_set k v u)) k' = (if k' = k then Some v else params_get (u_params u) k')"
  by (simp add: url_set_def params_get_set)

lemma url_set_path [simp]: "u_path (url_set k v u) = u_path u" "u_origin (url_set k v u) = u_origin u"
  by (simp_all add: url_set_def)

lemma parse_url_origin: "parse_url canon s = Some u \<Longrightarrow> url_origin canon s = Some (u_origin u)"
  by (auto simp: parse_url_def url_origin_def scheme_origin_def special_origin_def Let_def
      split: option.splits if_splits prod.splits)

end
