(* ===== verification/Auth_Config.thy ===== *)
theory Auth_Config
  imports Js_Url Js_Net
begin

text \<open>
  \<^verbatim>\<open>sites/auth-adb-software-solutions/src/utils/config.ts\<close>: the addresses of the ADB
  sites, taken from the build's environment variables, and the check of the
  \<^verbatim>\<open>next\<close> parameter the sign-in pages redirect to. The lemmas say where an accepted
  target takes the browser, and that one kind of target slips through.
\<close>

record auth_env =
  NEXT_PUBLIC_API_URL :: "string option"
  NEXT_PUBLIC_APP_URL :: "string option"
  NEXT_PUBLIC_WEB_DESIGNS_URL :: "string option"
  NEXT_PUBLIC_TECHNOLOGY_URL :: "string option"
  NEXT_PUBLIC_AUTH_URL :: "string option"
  NEXT_PUBLIC_ANALYTICS_URL :: "string option"
  NODE_ENV :: string

definition API_URL :: "auth_env \<Rightarrow> string" where
  "API_URL env = nullish (NEXT_PUBLIC_API_URL env) ''http://localhost:8000''"

definition DEFAULT_APP_URL :: "auth_env \<Rightarrow> string" where
  "DEFAULT_APP_URL env = nullish (NEXT_PUBLIC_APP_URL env) ''http://localhost:3000''"

definition WEB_DESIGNS_URL :: "auth_env \<Rightarrow> string" where
  "WEB_DESIGNS_URL env = nullish (NEXT_PUBLIC_WEB_DESIGNS_URL env) ''http://localhost:3002''"

definition TECHNOLOGY_URL :: "auth_env \<Rightarrow> string" where
  "TECHNOLOGY_URL env = nullish (NEXT_PUBLIC_TECHNOLOGY_URL env) ''http://localhost:3003''"

definition AUTH_URL :: "auth_env \<Rightarrow> string" where
  "AUTH_URL env = nullish (NEXT_PUBLIC_AUTH_URL env) ''http://localhost:3004''"

definition ALLOWED_REDIRECT_ORIGINS :: "auth_env \<Rightarrow> string list" where
  "ALLOWED_REDIRECT_ORIGINS env =
     [DEFAULT_APP_URL env, WEB_DESIGNS_URL env, TECHNOLOGY_URL env, AUTH_URL env,
      nullish (NEXT_PUBLIC_ANALYTICS_URL env)
        (if NODE_ENV env = ''production'' then ''https://analytics.adbsoftwaresolutions.co.uk''
         else ''http://localhost:3005'')]"

definition isValidRedirectUrl :: "(string \<Rightarrow> string option) \<Rightarrow> auth_env \<Rightarrow> string \<Rightarrow> bool" where
  "isValidRedirectUrl canon env url =
     (if url = [] then False
      else if startsWith url ''/'' \<and> \<not> startsWith url ''//'' then True
      else (case url_origin canon url of
              None \<Rightarrow> False
            | Some parsed \<Rightarrow>
                list_ex (\<lambda>allowed. case url_origin canon allowed of
                    None \<Rightarrow> False | Some a \<Rightarrow> parsed = a)
                  (ALLOWED_REDIRECT_ORIGINS env)))"

text \<open>\<open>next\<close> is \<^verbatim>\<open>params.get("next")\<close> of the page's query, \<open>None\<close> outside a browser.\<close>

definition getRedirectUrl :: "(string \<Rightarrow> string option) \<Rightarrow> auth_env \<Rightarrow> params option \<Rightarrow> string" where
  "getRedirectUrl canon env query =
     (case query of
        None \<Rightarrow> DEFAULT_APP_URL env
      | Some params \<Rightarrow>
          (case params_get params ''next'' of
             None \<Rightarrow> DEFAULT_APP_URL env
           | Some next \<Rightarrow>
               if next \<noteq> [] \<and> isValidRedirectUrl canon env next then next
               else DEFAULT_APP_URL env))"

definition getDefaultAppUrl :: "auth_env \<Rightarrow> string" where
  "getDefaultAppUrl env = DEFAULT_APP_URL env"

section \<open>Where an accepted target leads\<close>

definition allowed_origins :: "(string \<Rightarrow> string option) \<Rightarrow> auth_env \<Rightarrow> string set" where
  "allowed_origins canon env = {a. \<exists>u \<in> set (ALLOWED_REDIRECT_ORIGINS env). url_origin canon u = Some a}"

text \<open>The accepted texts the platform reads as a network path although they start with one slash.\<close>

definition disguised :: "string \<Rightarrow> bool" where
  "disguised url = (case url_strip url of a # b # r \<Rightarrow> a = CHR ''/'' \<and> slash_like b | _ \<Rightarrow> False)"

lemma isValidRedirectUrl_cases:
  assumes "isValidRedirectUrl canon env url"
  obtains (relative) r where "url = CHR ''/'' # r" "\<not> startsWith url ''//''"
  | (absolute) org where "url_origin canon url = Some org" "org \<in> allowed_origins canon env"
  using assms
  by (auto simp: isValidRedirectUrl_def allowed_origins_def list_ex_iff prefix_def
      split: if_splits option.splits)


definition prod_env :: auth_env where
  "prod_env = \<lparr>NEXT_PUBLIC_API_URL = None, NEXT_PUBLIC_APP_URL = Some ''https://adb.uk'',
     NEXT_PUBLIC_WEB_DESIGNS_URL = Some ''https://designs.adb.uk'',
     NEXT_PUBLIC_TECHNOLOGY_URL = Some ''https://technology.adb.uk'',
     NEXT_PUBLIC_AUTH_URL = Some ''https://auth.adb.uk'', NEXT_PUBLIC_ANALYTICS_URL = None,
     NODE_ENV = ''production''\<rparr>"


text \<open>
  A disguised target is accepted and leaves the ADB sites. \<^verbatim>\<open>/\evil.com\<close> and a tab
  between two slashes pass \<^verbatim>\<open>isValidRedirectUrl\<close>, and the browser goes to
  \<^verbatim>\<open>https://evil.com\<close>.
\<close>

theorem redirect_backslash_escapes:
  "isValidRedirectUrl plain_host prod_env (''/'' @ [CHR 0x5C] @ ''evil.com'') \<and>
   nav_origin plain_host ''https'' ''https://auth.adb.uk'' (''/'' @ [CHR 0x5C] @ ''evil.com'') = Some ''https://evil.com'' \<and>
   isValidRedirectUrl plain_host prod_env (''/'' @ [CHR 0x09] @ ''/evil.com'') \<and>
   nav_origin plain_host ''https'' ''https://auth.adb.uk'' (''/'' @ [CHR 0x09] @ ''/evil.com'') = Some ''https://evil.com''"
  by code_simp

text \<open>
  The URL the sign-in pages redirect to is the \<^verbatim>\<open>next\<close> parameter exactly when
  that is non-empty and accepted; every other query, and rendering outside a browser, gives
  the default application.
\<close>

theorem getRedirectUrl_spec:
  "getRedirectUrl canon env query =
     (if \<exists>ps. query = Some ps \<and> (\<exists>n. params_get ps ''next'' = Some n \<and> isValidRedirectUrl canon env n)
      then the (params_get (the query) ''next'')
      else DEFAULT_APP_URL env)"
  by (auto simp: getRedirectUrl_def isValidRedirectUrl_def split: option.splits)

end
