(* ===== verification/Auth_Api.thy ===== *)
theory Auth_Api
  imports Auth_Config Js_Net
begin

text \<open>
  \<^verbatim>\<open>sites/auth-adb-software-solutions/src/utils/api.ts\<close> and
  \<^verbatim>\<open>oauthApi.ts\<close>: the CSRF token (a cookie, or the module variable
  \<^verbatim>\<open>storedCsrfToken\<close> filled from the token endpoint), \<^verbatim>\<open>fetchWithCSRF\<close>,
  the calls of the authentication service with the path and body each sends, and the
  classification of OAuth responses.

  The server and the browser's cookies are parameters (\<open>Js_Net\<close>); a call takes the
  module variable and the history of requests and returns both.
\<close>

record auth_world =
  w_server :: server
  w_cookies :: cookies
  w_api :: string

section \<open>The CSRF token\<close>

definition getCsrfToken :: "string \<Rightarrow> string option \<Rightarrow> string option" where
  "getCsrfToken cookie stored =
     (case find (\<lambda>c. hd (split_on CHR ''='' (trim c)) = ''csrftoken'') (split_on CHR '';'' cookie) of
        Some c \<Rightarrow> (case split_on CHR ''='' (trim c) of name # value # r \<Rightarrow> Some value | _ \<Rightarrow> None)
      | None \<Rightarrow> stored)"

record fetch_options =
  fo_method :: "string option"
  fo_headers :: "(string \<times> string) list"
  fo_body :: req_body

definition fetchWithCSRF :: "auth_world \<Rightarrow> string option \<Rightarrow> string \<Rightarrow> fetch_options \<Rightarrow> response io" where
  "fetchWithCSRF w stored url options h =
     (let csrfToken = getCsrfToken (w_cookies w h) stored;
          headers = (if truthy_string csrfToken
                     then alist_put ''X-CSRFToken'' (the csrfToken) (fo_headers options)
                     else fo_headers options)
      in fetch (w_server w)
           \<lparr>req_url = url, req_method = nullish (fo_method options) ''GET'', req_headers = headers,
            req_body = fo_body options, req_credentials = ''include''\<rparr> h)"

text \<open>Never throws; returns the new value of \<^verbatim>\<open>storedCsrfToken\<close>.\<close>

definition ensureCsrfToken :: "auth_world \<Rightarrow> string option \<Rightarrow> request list \<Rightarrow> request list \<times> string option" where
  "ensureCsrfToken w stored h =
     (case fetch (w_server w)
             \<lparr>req_url = w_api w @ ''/api/auth/csrf'', req_method = ''GET'', req_headers = [],
              req_body = NoBody, req_credentials = ''include''\<rparr> h of
        (h', Inl e) \<Rightarrow> (h', stored)
      | (h', Inr response) \<Rightarrow>
          (h', if \<not> ok response then stored
               else (case json_body response of
                       Inl e \<Rightarrow> stored
                     | Inr data \<Rightarrow> (if truthy_string (jstr data ''token'') then jstr data ''token'' else stored))))"

definition json_headers :: "(string \<times> string) list" where
  "json_headers = [(''Content-Type'', ''application/json'')]"

definition post_options :: "json option \<Rightarrow> fetch_options" where
  "post_options body = \<lparr>fo_method = Some ''POST'', fo_headers = json_headers,
     fo_body = (case body of None \<Rightarrow> NoBody | Some b \<Rightarrow> JsonBody b)\<rparr>"

definition postJson :: "auth_world \<Rightarrow> string \<Rightarrow> json option \<Rightarrow> string option \<Rightarrow> request list \<Rightarrow>
    string option \<times> (request list \<times> json result)" where
  "postJson w url body stored h =
     (let (h1, tok) = ensureCsrfToken w stored h
      in (tok, bind_io (fetchWithCSRF w tok url (post_options body)) (\<lambda>r. lift_io (json_body r)) h1))"

text \<open>The calls that only read: no token request first, and JSON or no headers.\<close>

definition getJson :: "auth_world \<Rightarrow> string \<Rightarrow> string option \<Rightarrow> (string \<times> string) list \<Rightarrow> string option \<Rightarrow> request list \<Rightarrow>
    string option \<times> (request list \<times> json result)" where
  "getJson w url method headers stored h =
     (stored, bind_io (fetchWithCSRF w stored url \<lparr>fo_method = method, fo_headers = headers, fo_body = NoBody\<rparr>)
                (\<lambda>r. lift_io (json_body r)) h)"

section \<open>The calls of authApi\<close>

text \<open>Signing in and out; the arguments in the order of the methods.\<close>

datatype sign_in_call =
    Login string string
  | BeginDiscoverableAuth
  | CompleteDiscoverableAuth json
  | Register string string string string
  | VerifyEmail string
  | Verify2FA string string bool
  | Logout

fun sign_in_request :: "sign_in_call \<Rightarrow> string \<times> json option" where
  "sign_in_request (Login e p) =
     (''/api/auth-service/login'', Some (JObj [(''email'', JStr e), (''password'', JStr p)]))"
| "sign_in_request BeginDiscoverableAuth = (''/api/auth-service/webauthn/discover-auth'', None)"
| "sign_in_request (CompleteDiscoverableAuth c) =
     (''/api/auth-service/webauthn/complete-discover-auth'', Some (JObj [(''credential'', c)]))"
| "sign_in_request (Register e p f l) =
     (''/api/auth-service/register'', Some (JObj [(''email'', JStr e), (''password'', JStr p),
        (''first_name'', JStr f), (''last_name'', JStr l)]))"
| "sign_in_request (VerifyEmail t) =
     (''/api/auth-service/verify-email'', Some (JObj [(''token'', JStr t)]))"
| "sign_in_request (Verify2FA t c r) =
     (''/api/auth-service/2fa/verify'', Some (JObj [(''challenge_token'', JStr t), (''code'', JStr c),
        (''is_recovery_code'', JBool r)]))"
| "sign_in_request Logout = (''/api/auth-service/logout'', None)"

text \<open>Passkeys.\<close>

datatype passkey_call =
    BeginPasskeyRegistration string
  | CompletePasskeyRegistration json
  | DeletePasskey string
  | RenamePasskey string string

fun passkey_request :: "passkey_call \<Rightarrow> string \<times> json option" where
  "passkey_request (BeginPasskeyRegistration n) =
     (''/api/auth-service/webauthn/begin-register'', Some (JObj [(''passkey_name'', JStr n)]))"
| "passkey_request (CompletePasskeyRegistration c) =
     (''/api/auth-service/webauthn/complete-register'', Some (JObj [(''credential'', c)]))"
| "passkey_request (DeletePasskey i) =
     (''/api/auth-service/webauthn/delete'', Some (JObj [(''passkey_id'', JStr i)]))"
| "passkey_request (RenamePasskey i n) =
     (''/api/auth-service/webauthn/rename'', Some (JObj [(''passkey_id'', JStr i), (''new_name'', JStr n)]))"

text \<open>The account: password, second factor, reset and sessions.\<close>

datatype account_call =
    ChangePassword string string
  | Begin2FASetup
  | Confirm2FASetup string
  | Disable2FA string
  | RegenerateRecoveryCodes string
  | RequestPasswordReset string
  | ResetPassword string string
  | RevokeSession string
  | RevokeAllSessions

fun account_request :: "account_call \<Rightarrow> string \<times> json option" where
  "account_request (ChangePassword c n) =
     (''/api/auth-service/change-password'', Some (JObj [(''current_password'', JStr c), (''new_password'', JStr n)]))"
| "account_request Begin2FASetup = (''/api/auth-service/2fa/setup'', None)"
| "account_request (Confirm2FASetup c) = (''/api/auth-service/2fa/confirm'', Some (JObj [(''code'', JStr c)]))"
| "account_request (Disable2FA p) = (''/api/auth-service/2fa/disable'', Some (JObj [(''password'', JStr p)]))"
| "account_request (RegenerateRecoveryCodes p) =
     (''/api/auth-service/2fa/recovery-codes'', Some (JObj [(''password'', JStr p)]))"
| "account_request (RequestPasswordReset e) =
     (''/api/auth-service/forgot-password'', Some (JObj [(''email'', JStr e)]))"
| "account_request (ResetPassword t n) =
     (''/api/auth-service/reset-password'', Some (JObj [(''token'', JStr t), (''new_password'', JStr n)]))"
| "account_request (RevokeSession i) = (''/api/sessions/revoke'', Some (JObj [(''session_id'', JStr i)]))"
| "account_request RevokeAllSessions = (''/api/sessions/revoke-all'', None)"

datatype auth_call = SignIn sign_in_call | Passkey passkey_call | Account account_call

fun auth_request :: "auth_call \<Rightarrow> string \<times> json option" where
  "auth_request (SignIn c) = sign_in_request c"
| "auth_request (Passkey c) = passkey_request c"
| "auth_request (Account c) = account_request c"

definition authApi_post :: "auth_world \<Rightarrow> auth_call \<Rightarrow> string option \<Rightarrow> request list \<Rightarrow>
    string option \<times> (request list \<times> json result)" where
  "authApi_post w c = (case auth_request c of (path, body) \<Rightarrow> postJson w (w_api w @ path) body)"

text \<open>The four calls that read.\<close>

record CurrentUser =
  cu_id :: "json option"
  cu_email :: "json option"
  cu_firstName :: "json option"
  cu_lastName :: "json option"
  cu_emailVerified :: "json option"
  cu_has2faEnabled :: "json option"
  cu_hasPasskeys :: "json option"

definition user_of_raw :: "json \<Rightarrow> CurrentUser" where
  "user_of_raw u =
     \<lparr>cu_id = jget u ''id'', cu_email = jget u ''email'',
      cu_firstName = jget u ''first_name'', cu_lastName = jget u ''last_name'',
      cu_emailVerified = jget u ''email_verified'', cu_has2faEnabled = jget u ''has_2fa_enabled'',
      cu_hasPasskeys = jget u ''has_passkeys''\<rparr>"

text \<open>Success, message and, for a signed-in session, the user.\<close>

definition getCurrentUser :: "auth_world \<Rightarrow> string option \<Rightarrow> request list \<Rightarrow>
    string option \<times> (request list \<times> (bool \<times> string option \<times> CurrentUser option) result)" where
  "getCurrentUser w stored h =
     (case getJson w (w_api w @ ''/api/auth-service/me'') None json_headers stored h of
        (tok, h', r) \<Rightarrow> (tok, h', and_then (and_then r non_null) (\<lambda>data.
          if \<not> jtrue data ''success'' \<or> \<not> truthy (jget data ''user'')
          then Inr (jtrue data ''success'', jstr data ''message'', None)
          else Inr (True, jstr data ''message'', map_option user_of_raw (jget data ''user'')))))"

definition getPasskeys :: "auth_world \<Rightarrow> string option \<Rightarrow> request list \<Rightarrow>
    string option \<times> (request list \<times> json result)" where
  "getPasskeys w = getJson w (w_api w @ ''/api/auth-service/webauthn/passkeys'') None json_headers"

definition get2FAStatus :: "auth_world \<Rightarrow> string option \<Rightarrow> request list \<Rightarrow>
    string option \<times> (request list \<times> json result)" where
  "get2FAStatus w = getJson w (w_api w @ ''/api/auth-service/2fa/status'') None json_headers"

definition getSessions :: "auth_world \<Rightarrow> string option \<Rightarrow> request list \<Rightarrow>
    string option \<times> (request list \<times> json result)" where
  "getSessions w = getJson w (w_api w @ ''/api/sessions/list'') (Some ''GET'') []"

section \<open>oauthApi\<close>

datatype 'a oauth_result = OAuth_ok 'a | OAuth_forbidden | OAuth_error string

text \<open>\<^verbatim>\<open>parse\<close>: the status 401 wins over everything, a body that is no JSON counts as empty.\<close>

definition oauth_parse :: "response \<Rightarrow> (json \<Rightarrow> 'a) \<Rightarrow> 'a oauth_result result" where
  "oauth_parse response pick =
     (if status response = 401 then Inr OAuth_forbidden
      else (let body = (case json_body response of Inl e \<Rightarrow> JObj [] | Inr b \<Rightarrow> b)
            in if \<not> ok response then
                 and_then (non_null body) (\<lambda>b. Inr (OAuth_error
                   (or_string (jstr b ''message'') (or_string (jstr b ''detail'') ''The request failed.''))))
               else
                 and_then (non_null body) (\<lambda>b.
                   if jget b ''success'' = Some (JBool False) then Inr (OAuth_error
                     (or_string (jstr b ''message'') (or_string (jstr b ''detail'') ''The request failed.'')))
                   else Inr (OAuth_ok (pick b)))))"

definition oauth_post :: "auth_world \<Rightarrow> string \<Rightarrow> json option \<Rightarrow> string option \<Rightarrow> request list \<Rightarrow>
    string option \<times> (request list \<times> response result)" where
  "oauth_post w url body stored h =
     (let (h1, tok) = ensureCsrfToken w stored h
      in (tok, fetchWithCSRF w tok url (post_options body) h1))"

definition oauth_get :: "auth_world \<Rightarrow> string \<Rightarrow> string option \<Rightarrow> request list \<Rightarrow>
    string option \<times> (request list \<times> response result)" where
  "oauth_get w url stored h =
     (stored, fetchWithCSRF w stored url \<lparr>fo_method = None, fo_headers = [], fo_body = NoBody\<rparr> h)"

definition oauth_finish :: "(json \<Rightarrow> 'a) \<Rightarrow> string option \<times> (request list \<times> response result) \<Rightarrow>
    string option \<times> (request list \<times> 'a oauth_result result)" where
  "oauth_finish pick x = (case x of (tok, h, r) \<Rightarrow> (tok, h, and_then r (\<lambda>resp. oauth_parse resp pick)))"

definition oauth_request_url :: "auth_world \<Rightarrow> string \<Rightarrow> string" where
  "oauth_request_url w requestId = w_api w @ ''/api/oauth/requests/'' @ encodeURIComponent requestId"

definition getAuthorizationRequest :: "auth_world \<Rightarrow> string \<Rightarrow> string option \<Rightarrow> request list \<Rightarrow>
    string option \<times> (request list \<times> json option oauth_result result)" where
  "getAuthorizationRequest w requestId stored h =
     oauth_finish (\<lambda>body. jget body ''request'') (oauth_get w (oauth_request_url w requestId) stored h)"

definition oauth_decide :: "auth_world \<Rightarrow> string \<Rightarrow> bool \<Rightarrow> string option \<Rightarrow> request list \<Rightarrow>
    string option \<times> (request list \<times> string option oauth_result result)" where
  "oauth_decide w requestId approve stored h =
     oauth_finish (\<lambda>body. jstr body ''redirect_to'')
       (oauth_post w (oauth_request_url w requestId @ ''/decision'') (Some (JObj [(''approve'', JBool approve)])) stored h)"

definition listGrants :: "auth_world \<Rightarrow> string option \<Rightarrow> request list \<Rightarrow>
    string option \<times> (request list \<times> json option oauth_result result)" where
  "listGrants w stored h =
     oauth_finish (\<lambda>body. jget body ''grants'') (oauth_get w (w_api w @ ''/api/oauth/grants'') stored h)"

definition revokeGrant :: "auth_world \<Rightarrow> string \<Rightarrow> string option \<Rightarrow> request list \<Rightarrow>
    string option \<times> (request list \<times> unit oauth_result result)" where
  "revokeGrant w grantId stored h =
     oauth_finish (\<lambda>body. ())
       (oauth_post w (w_api w @ ''/api/oauth/grants/'' @ encodeURIComponent grantId @ ''/revoke'') None stored h)"

section \<open>Lemmas\<close>

text \<open>The requests these functions make.\<close>

definition csrf_request :: "auth_world \<Rightarrow> request" where
  "csrf_request w = \<lparr>req_url = w_api w @ ''/api/auth/csrf'', req_method = ''GET'', req_headers = [],
     req_body = NoBody, req_credentials = ''include''\<rparr>"

definition signed_headers :: "string option \<Rightarrow> (string \<times> string) list" where
  "signed_headers tok = json_headers @ (if truthy_string tok then [(''X-CSRFToken'', the tok)] else [])"

definition signed_post :: "auth_world \<Rightarrow> string option \<Rightarrow> string \<times> json option \<Rightarrow> request" where
  "signed_post w tok pb = \<lparr>req_url = w_api w @ fst pb, req_method = ''POST'', req_headers = signed_headers tok,
     req_body = (case snd pb of None \<Rightarrow> NoBody | Some b \<Rightarrow> JsonBody b), req_credentials = ''include''\<rparr>"

lemma ensureCsrfToken_history [simp]: "fst (ensureCsrfToken w stored h) = h @ [csrf_request w]"
  by (auto simp: ensureCsrfToken_def csrf_request_def fetch_def split: sum.splits)

lemma json_headers_put: "alist_put ''X-CSRFToken'' t json_headers = json_headers @ [(''X-CSRFToken'', t)]"
  by (simp add: json_headers_def)

lemma fetchWithCSRF_post:
  "fetchWithCSRF w tok (w_api w @ p) (post_options b) h =
     (h @ [signed_post w (getCsrfToken (w_cookies w h) tok) (p, b)],
      w_server w h (signed_post w (getCsrfToken (w_cookies w h) tok) (p, b)))"
  by (simp add: fetchWithCSRF_def post_options_def signed_post_def signed_headers_def fetch_def
      json_headers_put Let_def)

lemma postJson_eq:
  "postJson w (w_api w @ p) b stored h =
     (let tok = snd (ensureCsrfToken w stored h); h1 = h @ [csrf_request w];
          r = signed_post w (getCsrfToken (w_cookies w h1) tok) (p, b)
      in (tok, h1 @ [r], and_then (w_server w h1 r) json_body))"
proof -
  obtain h1 tok where e: "ensureCsrfToken w stored h = (h1, tok)" by (cases "ensureCsrfToken w stored h")
  then have h1: "h1 = h @ [csrf_request w]" using ensureCsrfToken_history [of w stored h] by simp
  show ?thesis
    by (simp add: postJson_def e h1 Let_def bind_io_def fetchWithCSRF_post lift_io_def and_then_def
        split: sum.splits)
qed

text \<open>Distinct calls differ in path or body.\<close>

lemma sign_in_request_inject [simp]: "sign_in_request c = sign_in_request d \<longleftrightarrow> c = d"
  by (cases c; cases d) auto

lemma passkey_request_inject [simp]: "passkey_request c = passkey_request d \<longleftrightarrow> c = d"
  by (cases c; cases d) auto

lemma account_request_inject [simp]: "account_request c = account_request d \<longleftrightarrow> c = d"
  by (cases c; cases d) auto

definition sign_in_paths :: "string list" where
  "sign_in_paths = map (\<lambda>p. ''/api/auth-service/'' @ p)
     [''login'', ''webauthn/discover-auth'', ''webauthn/complete-discover-auth'', ''register'',
      ''verify-email'', ''2fa/verify'', ''logout'']"

definition passkey_paths :: "string list" where
  "passkey_paths = map (\<lambda>p. ''/api/auth-service/webauthn/'' @ p)
     [''begin-register'', ''complete-register'', ''delete'', ''rename'']"

definition account_paths :: "string list" where
  "account_paths = map (\<lambda>p. ''/api/auth-service/'' @ p)
     [''change-password'', ''2fa/setup'', ''2fa/confirm'', ''2fa/disable'', ''2fa/recovery-codes'',
      ''forgot-password'', ''reset-password''] @ [''/api/sessions/revoke'', ''/api/sessions/revoke-all'']"

lemma sign_in_request_path: "fst (sign_in_request a) \<in> set sign_in_paths"
  by (cases a) (simp_all add: sign_in_paths_def)

lemma passkey_request_path: "fst (passkey_request b) \<in> set passkey_paths"
  by (cases b) (simp_all add: passkey_paths_def)

lemma account_request_path: "fst (account_request c) \<in> set account_paths"
  by (cases c) (simp_all add: account_paths_def)

lemmas request_paths = sign_in_request_path passkey_request_path account_request_path

lemma paths_disjoint:
  "set sign_in_paths \<inter> set passkey_paths = {}"
  "set sign_in_paths \<inter> set account_paths = {}"
  "set passkey_paths \<inter> set account_paths = {}"
  by (simp_all add: sign_in_paths_def passkey_paths_def account_paths_def)

lemma auth_request_inject: "auth_request c = auth_request d \<longleftrightarrow> c = d"
proof (cases c; cases d)
qed (use request_paths paths_disjoint in \<open>auto simp: disjoint_iff, metis+\<close>)

text \<open>The first cookie of that name, up to an equals sign in its value.\<close>

definition cookie_value :: "(string \<times> string) list \<Rightarrow> string \<Rightarrow> string option" where
  "cookie_value kvs k = map_option (takeWhile (\<lambda>c. c \<noteq> CHR ''='')) (map_of kvs k)"

text \<open>The lookup for any name.\<close>

definition cookie_find :: "string \<Rightarrow> string list \<Rightarrow> string option \<Rightarrow> string option" where
  "cookie_find n cs stored =
     (case find (\<lambda>c. hd (split_on CHR ''='' (trim c)) = n) cs of
        Some c \<Rightarrow> (case split_on CHR ''='' (trim c) of name # value # r \<Rightarrow> Some value | _ \<Rightarrow> None)
      | None \<Rightarrow> stored)"

lemma cookie_find_Cons:
  assumes "plain_cookie (k, v)" and "trim c = k @ CHR ''='' # v"
  shows "cookie_find n (c # cs) stored =
      (if k = n then Some (takeWhile (\<lambda>c. c \<noteq> CHR ''='') v) else cookie_find n cs stored)"
proof -
  have s: "split_on CHR ''='' (trim c) = k # split_on CHR ''='' v"
    by (simp only: assms(2) trim_cookie(3) [OF assms(1)])
  obtain w ws where w: "split_on CHR ''='' v = w # ws"
    by (cases "split_on CHR ''='' v") auto
  with hd_split_on [of "CHR ''=''" v] have "w = takeWhile (\<lambda>c. c \<noteq> CHR ''='') v" by simp
  with s w show ?thesis by (simp add: cookie_find_def)
qed

lemma cookie_find_rest:
  "list_all plain_cookie kvs \<Longrightarrow>
   cookie_find n (map (\<lambda>(k, v). CHR '' '' # k @ CHR ''='' # v) kvs) stored =
     (case cookie_value kvs n of None \<Rightarrow> stored | Some v \<Rightarrow> Some v)"
proof (induction kvs)
  case Nil
  then show ?case by (simp add: cookie_find_def cookie_value_def)
next
  case (Cons kv kvs)
  obtain k v where kv: "kv = (k, v)" by (cases kv)
  with Cons.prems have p: "plain_cookie (k, v)" by simp
  show ?case
    using Cons kv by (simp add: cookie_find_Cons [OF p trim_cookie(2) [OF p]] cookie_value_def)
qed

lemma cookie_find_string:
  assumes "list_all plain_cookie kvs" and "n \<noteq> []"
  shows "cookie_find n (split_on CHR '';'' (cookie_string kvs)) stored =
    (case cookie_value kvs n of None \<Rightarrow> stored | Some v \<Rightarrow> Some v)"
proof (cases kvs)
  case Nil
  with assms(2) show ?thesis
    by (simp add: cookie_find_def cookie_string_def cookie_value_def trim_def trim_start_def)
next
  case (Cons kv r)
  obtain k v where kv: "kv = (k, v)" by (cases kv)
  have p: "plain_cookie (k, v)" using assms Cons kv by simp
  have "split_on CHR '';'' (cookie_string kvs) =
      (k @ CHR ''='' # v) # map (\<lambda>(k, v). CHR '' '' # k @ CHR ''='' # v) r"
    using split_cookie_string [of kvs] assms(1) Cons kv
    by (force simp: list_all_iff plain_cookie_def cookie_token_def)
  moreover have "list_all plain_cookie r" using assms Cons by simp
  moreover have "cookie_value kvs n = (if k = n then Some (takeWhile (\<lambda>c. c \<noteq> CHR ''='') v) else cookie_value r n)"
    using Cons kv by (simp add: cookie_value_def)
  ultimately show ?thesis
    by (simp add: cookie_find_Cons [OF p trim_cookie(1) [OF p]] cookie_find_rest del: split_on.simps)
qed

lemma getCsrfToken_find: "getCsrfToken cookie stored = cookie_find ''csrftoken'' (split_on CHR '';'' cookie) stored"
  by (simp only: getCsrfToken_def cookie_find_def)

section \<open>Properties\<close>

text \<open>
  Every call of \<^verbatim>\<open>authApi\<close> that posts sends exactly two requests, whatever the
  server: the token request, then its own, with the session's cookies and the CSRF header of
  the cookie or stored token of that moment (no header when there is none); and two
  different calls are never the same request.
\<close>

theorem auth_calls_signed:
  "(let tok = snd (ensureCsrfToken w stored h); h1 = h @ [csrf_request w];
        sent = signed_post w (getCsrfToken (w_cookies w h1) tok) (auth_request c)
    in authApi_post w c stored h = (tok, h1 @ [sent], and_then (w_server w h1 sent) json_body)) \<and>
   (auth_request c = auth_request d) = (c = d)"
  by (simp add: authApi_post_def postJson_eq auth_request_inject Let_def split: prod.splits)

text \<open>
  The CSRF cookie takes precedence over the stored token, and is found among any other
  cookies; its value is read up to the first equals sign.
\<close>

theorem csrf_cookie_wins:
  assumes "list_all plain_cookie kvs"
  shows "getCsrfToken (cookie_string kvs) stored =
    (case cookie_value kvs ''csrftoken'' of None \<Rightarrow> stored | Some v \<Rightarrow> Some v)"
  unfolding getCsrfToken_find using assms by (intro cookie_find_string) simp_all

theorem csrf_cookie_wins_witness:
  "getCsrfToken (cookie_string [(''theme'', ''dark''), (''csrftoken'', ''ab=='')]) (Some ''old'') = Some ''ab''"
proof -
  have p: "list_all plain_cookie [(''theme'', ''dark''), (''csrftoken'', ''ab=='')]"
    by (simp add: plain_cookie_def cookie_token_def js_space_def)
  show ?thesis using csrf_cookie_wins [OF p, of "Some ''old''"] by (simp add: cookie_value_def)
qed

text \<open>
  \<^verbatim>\<open>ensureCsrfToken\<close> never throws, sends one request, and changes the stored
  token only to a non-empty token of a successful JSON response.
\<close>

theorem stored_token_only_replaced_by_server:
  "fst (ensureCsrfToken w stored h) = h @ [csrf_request w] \<and>
   snd (ensureCsrfToken w stored h) =
     (case w_server w h (csrf_request w) of
        Inl e \<Rightarrow> stored
      | Inr r \<Rightarrow> (case (ok r, json_body r) of
            (True, Inr data) \<Rightarrow> (case jget data ''token'' of Some (JStr (c # t)) \<Rightarrow> Some (c # t) | _ \<Rightarrow> stored)
          | _ \<Rightarrow> stored))"
proof -
  have t: "(if truthy_string (jstr d ''token'') then jstr d ''token'' else s) =
      (case jget d ''token'' of Some (JStr (c # t)) \<Rightarrow> Some (c # t) | _ \<Rightarrow> s)" for d s
    by (cases "jget d ''token''" rule: jstring.cases) (auto simp: jstr_def split: list.splits)
  show ?thesis
    by (simp add: ensureCsrfToken_def csrf_request_def [symmetric] fetch_def t split: sum.splits)
qed

text \<open>
  The classification of OAuth responses. A 401 is always \<open>forbidden\<close>; the answer is
  \<open>ok\<close> exactly for a successful status and a body that does not say
  \<^verbatim>\<open>success: false\<close> (an unreadable body counts as empty); everything else is an
  error with a non-empty message; only the body \<^verbatim>\<open>null\<close> throws.
\<close>

theorem oauth_parse_classifies:
  "(oauth_parse r pick = Inr OAuth_forbidden) = (status r = 401) \<and>
   isl (oauth_parse r pick) = (status r \<noteq> 401 \<and> json_body r = Inr JNull) \<and>
   (\<exists>x. oauth_parse r pick = Inr (OAuth_ok x)) =
     (ok r \<and> (case json_body r of Inl e \<Rightarrow> True | Inr b \<Rightarrow> b \<noteq> JNull \<and> jget b ''success'' \<noteq> Some (JBool False))) \<and>
   oauth_parse r pick \<noteq> Inr (OAuth_error [])"
  by (cases "json_body r"; intro conjI; simp add: oauth_parse_def non_null_def ok_def or_string_def Let_def and_then_def
      split: option.splits; auto?)

text \<open>
  The id of an authorisation request or grant stays one segment of the path it is put
  in: the encoded id has no slash, question mark or hash, and two ids give two URLs.
\<close>

theorem oauth_ids_stay_in_their_segment:
  "list_all (\<lambda>c. c \<notin> set ''/?#'') (encodeURIComponent i) \<and>
   (oauth_request_url w i = oauth_request_url w j) = (i = j) \<and>
   fst (snd (revokeGrant w i stored h)) =
     h @ [csrf_request w, signed_post w (getCsrfToken (w_cookies w (h @ [csrf_request w])) (snd (ensureCsrfToken w stored h)))
            (''/api/oauth/grants/'' @ encodeURIComponent i @ ''/revoke'', None)]"
proof -
  have "c \<notin> set ''/?#''" if "c \<in> set (encodeURIComponent i)" for c
    using encodeURIComponent_chars [OF that] uri_component_separators by auto
  moreover obtain h1 tok where e: "ensureCsrfToken w stored h = (h1, tok)"
    by (cases "ensureCsrfToken w stored h")
  moreover have "h1 = h @ [csrf_request w]"
    using ensureCsrfToken_history [of w stored h] e by simp
  ultimately show ?thesis
    by (simp add: oauth_request_url_def component_codec.enc_inject revokeGrant_def oauth_finish_def
        oauth_post_def fetchWithCSRF_post list_all_iff)
qed

end
