(* ===== verification/Json_Text.thy ===== *)
theory Json_Text
  imports Js_Net
begin

text \<open>
  \<^verbatim>\<open>JSON.stringify\<close> and \<^verbatim>\<open>JSON.parse\<close> on the model's JSON values, and the
  script element of \<^verbatim>\<open>packages/ui/src/public/JsonLd.tsx\<close>, which prints structured
  data into a page. Numbers are integers; a numeral with a fraction or an exponent and a
  \<^verbatim>\<open>\u\<close> escape above 255 have no value here and do not parse. Object keys keep their
  insertion order.

  The locale \<open>json_escape\<close> is what the reader needs of the way a printer writes the
  characters of a string; both printers below are instances, so both are read back.
\<close>

section \<open>Reading\<close>

abbreviation quote :: char where "quote \<equiv> CHR 0x22"
abbreviation backslash :: char where "backslash \<equiv> CHR 0x5C"

definition json_ws :: "char \<Rightarrow> bool" where
  "json_ws c \<longleftrightarrow> (of_char c :: nat) \<in> {9, 10, 13, 32}"

definition skip_ws :: "string \<Rightarrow> string" where
  "skip_ws s = dropWhile json_ws s"

definition simple_escape :: "char \<Rightarrow> char option" where
  "simple_escape e = map_of
     [(quote, quote), (backslash, backslash), (CHR ''/'', CHR ''/''), (CHR ''b'', CHR 0x08),
      (CHR ''f'', CHR 0x0C), (CHR ''n'', CHR 0x0A), (CHR ''r'', CHR 0x0D), (CHR ''t'', CHR 0x09)] e"

definition hex_lower :: "char \<Rightarrow> nat option" where
  "hex_lower c = (let n = (of_char c :: nat) in
     if 48 \<le> n \<and> n \<le> 57 then Some (n - 48)
     else if 97 \<le> n \<and> n \<le> 102 then Some (n - 87)
     else if 65 \<le> n \<and> n \<le> 70 then Some (n - 55) else None)"

text \<open>Four hexadecimal digits of a code unit below 256.\<close>

definition hex4 :: "string \<Rightarrow> char option" where
  "hex4 s = (case s of
      [a, b, c, d] \<Rightarrow>
        (case (hex_lower a, hex_lower b, hex_lower c, hex_lower d) of
           (Some 0, Some 0, Some x, Some y) \<Rightarrow> Some (char_of (16 * x + y)) | _ \<Rightarrow> None)
    | _ \<Rightarrow> None)"

definition push :: "char \<Rightarrow> (string \<times> string) option \<Rightarrow> (string \<times> string) option" where
  "push c r = map_option (apfst (Cons c)) r"

lemma push_simps [simp]: "push c None = None" "push c (Some (s, r)) = Some (c # s, r)"
  by (simp_all add: push_def)

text \<open>The characters of a string up to its closing quote, and what follows.\<close>

fun parse_chars :: "string \<Rightarrow> (string \<times> string) option" where
  "parse_chars [] = None"
| "parse_chars (c # s) =
     (if c = quote then Some ([], s)
      else if c = backslash then
        (case s of [] \<Rightarrow> None
         | e # s' \<Rightarrow>
            (if e = CHR ''u'' then
               (case hex4 (take 4 s') of None \<Rightarrow> None | Some x \<Rightarrow> push x (parse_chars (drop 4 s')))
             else (case simple_escape e of None \<Rightarrow> None | Some x \<Rightarrow> push x (parse_chars s'))))
      else if (of_char c :: nat) < 32 then None
      else push c (parse_chars s))"

definition parse_int :: "string \<Rightarrow> (json \<times> string) option" where
  "parse_int s =
     (let neg = startsWith s ''-''; r = (if neg then tl s else s);
          ds = takeWhile is_digit r; rest = dropWhile is_digit r
      in if ds = [] \<or> (hd ds = CHR ''0'' \<and> ds \<noteq> ''0'') \<or> (rest \<noteq> [] \<and> hd rest \<in> set ''.eE'') then None
         else Some (JNum (if neg then - int (digits_val ds) else int (digits_val ds)), rest))"

fun parse_value :: "nat \<Rightarrow> string \<Rightarrow> (json \<times> string) option"
  and parse_elems :: "nat \<Rightarrow> string \<Rightarrow> (json list \<times> string) option"
  and parse_members :: "nat \<Rightarrow> string \<Rightarrow> ((string \<times> json) list \<times> string) option"
where
  "parse_value 0 s = None"
| "parse_value (Suc f) s =
     (case skip_ws s of [] \<Rightarrow> None
      | c # r \<Rightarrow>
         (if c = quote then map_option (apfst JStr) (parse_chars r)
          else if c = CHR ''['' then
            (if startsWith (skip_ws r) '']'' then Some (JArr [], tl (skip_ws r))
             else map_option (apfst JArr) (parse_elems f r))
          else if c = CHR ''{'' then
            (if startsWith (skip_ws r) ''}'' then Some (JObj [], tl (skip_ws r))
             else map_option (apfst (\<lambda>kvs. JObj (alist_spread [] kvs))) (parse_members f r))
          else if startsWith (c # r) ''null'' then Some (JNull, drop 3 r)
          else if startsWith (c # r) ''true'' then Some (JBool True, drop 3 r)
          else if startsWith (c # r) ''false'' then Some (JBool False, drop 4 r)
          else parse_int (c # r)))"
| "parse_elems 0 s = None"
| "parse_elems (Suc f) s =
     (case parse_value f s of None \<Rightarrow> None
      | Some (x, r) \<Rightarrow>
         (case skip_ws r of [] \<Rightarrow> None
          | c # r' \<Rightarrow> (if c = CHR '']'' then Some ([x], r')
                     else if c = CHR '','' then map_option (apfst (Cons x)) (parse_elems f r')
                     else None)))"
| "parse_members 0 s = None"
| "parse_members (Suc f) s =
     (case skip_ws s of [] \<Rightarrow> None
      | q # s1 \<Rightarrow> if q \<noteq> quote then None else
         (case parse_chars s1 of None \<Rightarrow> None
          | Some (k, s2) \<Rightarrow>
             (if \<not> startsWith (skip_ws s2) '':'' then None
              else (case parse_value f (tl (skip_ws s2)) of None \<Rightarrow> None
                 | Some (x, r) \<Rightarrow>
                    (case skip_ws r of [] \<Rightarrow> None
                     | c # r' \<Rightarrow> (if c = CHR ''}'' then Some ([(k, x)], r')
                                else if c = CHR '','' then map_option (apfst (Cons (k, x))) (parse_members f r')
                                else None))))))"

definition JSON_parse :: "string \<Rightarrow> json result" where
  "JSON_parse s =
     (case parse_value (length s + 1) s of
        Some (j, r) \<Rightarrow> (if skip_ws r = [] then Inr j else Inl (Err ''SyntaxError'' []))
      | None \<Rightarrow> Inl (Err ''SyntaxError'' []))"

section \<open>Printing\<close>

definition hex_low_digit :: "nat \<Rightarrow> char" where
  "hex_low_digit d = char_of (if d < 10 then 48 + d else 87 + d)"

definition unicode_escape :: "char \<Rightarrow> string" where
  "unicode_escape c = [backslash] @ ''u00'' @ [hex_low_digit (of_char c div 16), hex_low_digit (of_char c mod 16)]"

definition json_esc :: "char \<Rightarrow> string" where
  "json_esc c =
     (if c = quote \<or> c = backslash then [backslash, c]
      else if c = CHR 0x08 then [backslash, CHR ''b'']
      else if c = CHR 0x0C then [backslash, CHR ''f'']
      else if c = CHR 0x0A then [backslash, CHR ''n'']
      else if c = CHR 0x0D then [backslash, CHR ''r'']
      else if c = CHR 0x09 then [backslash, CHR ''t'']
      else if (of_char c :: nat) < 32 then unicode_escape c
      else [c])"

definition print_string :: "(char \<Rightarrow> string) \<Rightarrow> string \<Rightarrow> string" where
  "print_string e s = [quote] @ concat (map e s) @ [quote]"

fun json_print :: "(char \<Rightarrow> string) \<Rightarrow> json \<Rightarrow> string"
  and print_elems :: "(char \<Rightarrow> string) \<Rightarrow> json list \<Rightarrow> string"
  and print_members :: "(char \<Rightarrow> string) \<Rightarrow> (string \<times> json) list \<Rightarrow> string"
where
  "json_print e JNull = ''null''"
| "json_print e (JBool b) = (if b then ''true'' else ''false'')"
| "json_print e (JNum n) = int_str n"
| "json_print e (JStr s) = print_string e s"
| "json_print e (JArr xs) = ''['' @ print_elems e xs @ '']''"
| "json_print e (JObj kvs) = ''{'' @ print_members e kvs @ ''}''"
| "print_elems e [] = []"
| "print_elems e (x # xs) = json_print e x @ (if xs = [] then [] else '','' @ print_elems e xs)"
| "print_members e [] = []"
| "print_members e ((k, x) # kvs) =
     print_string e k @ '':'' @ json_print e x @ (if kvs = [] then [] else '','' @ print_members e kvs)"

definition JSON_stringify :: "json \<Rightarrow> string" where
  "JSON_stringify j = json_print json_esc j"

section \<open>Printed values are read back\<close>

text \<open>Objects without duplicate keys, at every depth: what a JavaScript object is.\<close>

fun json_ok :: "json \<Rightarrow> bool" where
  "json_ok (JArr xs) = list_all json_ok xs"
| "json_ok (JObj kvs) = (distinct (map fst kvs) \<and> list_all (\<lambda>kv. json_ok (snd kv)) kvs)"
| "json_ok _ = True"

lemma hex_low_digit_inv: "d < 16 \<Longrightarrow> hex_lower (hex_low_digit d) = Some d"
  by (auto simp: hex_lower_def hex_low_digit_def Let_def)

lemma hex4_unicode [simp]:
  "hex4 [CHR ''0'', CHR ''0'', hex_low_digit (of_char c div 16), hex_low_digit (of_char c mod 16)] = Some c"
proof -
  have "(of_char c :: nat) div 16 < 16" using of_char_less_256 [of c] by linarith
  moreover have "hex_lower CHR ''0'' = Some 0" by (simp add: hex_lower_def)
  ultimately show ?thesis by (simp add: hex4_def hex_low_digit_inv)
qed

lemma parse_unicode_escape: "parse_chars (unicode_escape c @ s) = push c (parse_chars s)"
  by (simp add: unicode_escape_def)

lemma value_start:
  "json_print e j \<noteq> [] \<and> \<not> json_ws (hd (json_print e j)) \<and> hd (json_print e j) \<notin> set '']}''"
proof (cases j)
  case (JNum n)
  have d: "\<not> json_ws c \<and> c \<notin> set '']}''" if "is_digit c" for c
    using that by (auto simp: is_digit_def json_ws_def)
  have "hd (nat_str m) \<in> set (nat_str m)" for m by (rule hd_in_set) simp
  then have "is_digit (hd (nat_str m))" for m by (blast intro: nat_str_digits)
  with d have "\<not> json_ws (hd (nat_str m)) \<and> hd (nat_str m) \<notin> set '']}''" for m by blast
  with JNum show ?thesis by (auto simp: int_str_def json_ws_def)
qed (auto simp: json_ws_def print_string_def)

lemma skip_print: "skip_ws (json_print e j @ r) = json_print e j @ r"
  using value_start [of e j] by (cases "json_print e j") (auto simp: skip_ws_def)

lemma skip_cons: "\<not> json_ws c \<Longrightarrow> skip_ws (c # s) = c # s"
  by (simp add: skip_ws_def)

lemma json_ws_punct [simp]:
  "\<not> json_ws CHR '',''" "\<not> json_ws CHR '']''" "\<not> json_ws CHR ''}''" "\<not> json_ws CHR '':''"
  "\<not> json_ws CHR ''[''" "\<not> json_ws CHR ''{''" "\<not> json_ws quote"
  by (simp_all add: json_ws_def)

definition stops :: "string \<Rightarrow> bool" where
  "stops r \<longleftrightarrow> r = [] \<or> hd r \<in> set '',]}''"

lemma nat_str_no_leading_zero: "hd (nat_str n) = CHR ''0'' \<Longrightarrow> nat_str n = ''0''"
proof (induction n rule: nat_str.induct)
  case (1 n)
  show ?case
  proof (cases "n < 10")
    case True
    then have "nat_str n = [digit_char n]" by (subst nat_str.simps) simp
    with 1(2) show ?thesis by simp
  next
    case False
    then have e: "nat_str n = nat_str (n div 10) @ [digit_char (n mod 10)]" by (subst nat_str.simps) simp
    with 1(2) have "hd (nat_str (n div 10)) = CHR ''0''" by simp
    with 1(1) False have "nat_str (n div 10) = ''0''" by simp
    then have "n div 10 = 0"
      using digits_val_nat_str [of "n div 10"] by (simp add: digits_val_def digit_val_def)
    with False show ?thesis by simp
  qed
qed

lemma take_digits:
  "stops r \<Longrightarrow> takeWhile is_digit (nat_str n @ r) = nat_str n \<and> dropWhile is_digit (nat_str n @ r) = r"
proof -
  assume "stops r"
  then have "r = [] \<or> \<not> is_digit (hd r)" by (auto simp: stops_def is_digit_def)
  then show ?thesis
    using nat_str_digits [of _ n] by (cases r) (auto simp: takeWhile_append dropWhile_append)
qed

lemma parse_int_print: "stops r \<Longrightarrow> parse_int (int_str n @ r) = Some (JNum n, r)"
proof -
  assume r: "stops r"
  have r2: "\<not> (r \<noteq> [] \<and> hd r \<in> set ''.eE'')" using r by (auto simp: stops_def)
  have z: "\<not> (hd (nat_str m) = CHR ''0'' \<and> nat_str m \<noteq> ''0'')" for m
    using nat_str_no_leading_zero by blast
  have m: "\<not> startsWith (nat_str m @ r) ''-''" for m
    using nat_str_no_char [of "CHR ''-''" m] nat_str_nonempty [of m]
    by (cases "nat_str m") (auto simp: is_digit_def)
  show ?thesis
    using z [of "nat n"] z [of "nat (- n)"] r2 m [of "nat n"] take_digits [OF r, of "nat n"] take_digits [OF r, of "nat (- n)"]
    by (simp add: parse_int_def int_str_def Let_def del: dropWhile_eq_Nil_conv)
qed

lemma alist_put_new: "k \<notin> fst ` set m \<Longrightarrow> alist_put k v m = m @ [(k, v)]"
  by (induction m) auto

lemma alist_spread_fresh: "distinct (map fst (a @ b)) \<Longrightarrow> alist_spread a b = a @ b"
proof (induction b arbitrary: a)
  case Nil
  then show ?case by (simp add: alist_spread_def)
next
  case (Cons kv b)
  obtain k v where kv: "kv = (k, v)" by (cases kv)
  with Cons.prems have "k \<notin> fst ` set a" by auto
  then have "alist_spread a (kv # b) = alist_spread (a @ [(k, v)]) b"
    by (simp add: alist_spread_def kv alist_put_new)
  with Cons.IH [of "a @ [(k, v)]"] Cons.prems kv show ?case by simp
qed

text \<open>The first character decides which branch the reader takes.\<close>

lemma int_str_head: "\<exists>c cs. int_str n = c # cs \<and> (is_digit c \<or> c = CHR ''-'')"
proof -
  have "\<exists>c cs. nat_str m = c # cs \<and> is_digit c" for m
    using nat_str_digits [of _ m] nat_str_nonempty [of m] by (cases "nat_str m") auto
  from this [of "nat n"] this [of "nat (- n)"] show ?thesis by (cases "n < 0") (auto simp: int_str_def)
qed

lemma parse_value_int:
  assumes "stops r"
  shows "parse_value (Suc f) (int_str n @ r) = Some (JNum n, r)"
proof -
  obtain c cs where c: "int_str n = c # cs" "is_digit c \<or> c = CHR ''-''" using int_str_head by blast
  then have "skip_ws (int_str n @ r) = c # cs @ r"
    by (auto simp: skip_ws_def json_ws_def is_digit_def)
  moreover have "parse_int (c # cs @ r) = Some (JNum n, r)"
    using parse_int_print [OF assms, of n] c by simp
  moreover have "c \<noteq> quote \<and> c \<notin> set ''[{ntf''" using c(2) by (auto simp: is_digit_def)
  ultimately show ?thesis by auto
qed

lemma json_tree_induct [case_names Null Bool Num Str Arr Obj Elems_Nil Elems_Cons Members_Nil Members_Cons]:
  assumes "P JNull" "\<And>b. P (JBool b)" "\<And>n. P (JNum n)" "\<And>s. P (JStr s)"
    and "\<And>xs. Q xs \<Longrightarrow> P (JArr xs)" "\<And>kvs. R kvs \<Longrightarrow> P (JObj kvs)"
    and "Q []" "\<And>x xs. P x \<Longrightarrow> Q xs \<Longrightarrow> Q (x # xs)"
    and "R []" "\<And>k x kvs. P x \<Longrightarrow> R kvs \<Longrightarrow> R ((k, x) # kvs)"
  shows "P j" and "Q xs" and "R kvs"
proof -
  have "\<And>e. P j" "\<And>e. Q xs" "\<And>e. R kvs" for e :: "char \<Rightarrow> string"
    by (induction e j and e xs and e kvs rule: json_print_print_elems_print_members.induct)
      (simp_all add: assms(1-7,9), (metis assms(7,8) assms(9,10))+)
  then show "P j" and "Q xs" and "R kvs" by blast+
qed

locale json_escape =
  fixes esc :: "char \<Rightarrow> string"
  assumes read_back: "parse_chars (esc c @ s) = push c (parse_chars s)"
begin

lemma parse_print_string: "parse_chars (concat (map esc s) @ quote # r) = Some (s, r)"
  by (induction s) (simp_all add: read_back)

lemma parse_print:
  shows "json_ok j \<Longrightarrow> stops r \<Longrightarrow> length (json_print esc j) \<le> f \<Longrightarrow>
      parse_value f (json_print esc j @ r) = Some (j, r)"
    and "list_all json_ok xs \<Longrightarrow> xs \<noteq> [] \<Longrightarrow> length (print_elems esc xs) < g \<Longrightarrow>
      parse_elems g (print_elems esc xs @ CHR '']'' # q) = Some (xs, q)"
    and "list_all (\<lambda>kv. json_ok (snd kv)) kvs \<Longrightarrow> kvs \<noteq> [] \<Longrightarrow> length (print_members esc kvs) < g \<Longrightarrow>
      parse_members g (print_members esc kvs @ CHR ''}'' # q) = Some (kvs, q)"
proof (induction j and xs and kvs arbitrary: r f and g q and g q rule: json_tree_induct)
  case Null
  then show ?case by (cases f) (simp_all add: skip_ws_def json_ws_def)
next
  case (Bool b)
  then show ?case by (cases f; cases b) (simp_all add: skip_ws_def json_ws_def)
next
  case (Num n)
  then obtain f' where "f = Suc f'" using value_start [of esc "JNum n"] by (cases f) auto
  with Num show ?case by (simp add: parse_value_int del: parse_value.simps)
next
  case (Str s)
  then obtain f' where "f = Suc f'" by (cases f) (auto simp: print_string_def)
  then show ?case by (simp add: print_string_def skip_cons parse_print_string)
next
  case (Arr xs)
  then obtain f' where f: "f = Suc f'" by (cases f) auto
  show ?case
  proof (cases xs)
    case Nil
    with f show ?thesis by (simp add: skip_cons)
  next
    case (Cons y ys)
    obtain c cs where c: "print_elems esc xs = c # cs" "\<not> json_ws c" "c \<noteq> CHR '']''"
      using Cons value_start [of esc y] by (cases "json_print esc y") auto
    then have "skip_ws (print_elems esc xs @ CHR '']'' # r) = print_elems esc xs @ CHR '']'' # r"
      by (simp add: skip_cons)
    moreover have "parse_elems f' (print_elems esc xs @ CHR '']'' # r) = Some (xs, r)"
      using Arr.IH [of f' r] Arr.prems f Cons by simp
    ultimately show ?thesis using f c by (simp add: skip_cons)
  qed
next
  case (Obj kvs)
  then obtain f' where f: "f = Suc f'" by (cases f) auto
  show ?case
  proof (cases kvs)
    case Nil
    with f show ?thesis by (simp add: skip_cons)
  next
    case (Cons y ys)
    obtain cs where c: "print_members esc kvs = quote # cs"
      using Cons by (cases y) (simp add: print_string_def)
    moreover have "parse_members f' (print_members esc kvs @ CHR ''}'' # r) = Some (kvs, r)"
      using Obj.IH [of f' r] Obj.prems f Cons by simp
    moreover have "alist_spread [] kvs = kvs"
      using Obj.prems(1) by (simp add: alist_spread_fresh)
    ultimately show ?thesis using f by (simp add: skip_cons)
  qed
next
  case Elems_Nil
  then show ?case by simp
next
  case (Elems_Cons x xs)
  then obtain g' where g: "g = Suc g'" by (cases g) auto
  let ?rest = "(if xs = [] then [] else '','' @ print_elems esc xs) @ CHR '']'' # q"
  have "stops ?rest" by (simp add: stops_def)
  then have v: "parse_value g' (json_print esc x @ ?rest) = Some (x, ?rest)"
    using Elems_Cons.IH(1) Elems_Cons.prems g by simp
  show ?case
  proof (cases "xs = []")
    case True
    with v g show ?thesis by (simp add: skip_cons)
  next
    case False
    then have "parse_elems g' (print_elems esc xs @ CHR '']'' # q) = Some (xs, q)"
      using Elems_Cons.IH(2) Elems_Cons.prems g by simp
    with False v g show ?thesis by (simp add: skip_cons)
  qed
next
  case Members_Nil
  then show ?case by simp
next
  case (Members_Cons k x kvs)
  then obtain g' where g: "g = Suc g'" by (cases g) auto
  let ?rest = "(if kvs = [] then [] else '','' @ print_members esc kvs) @ CHR ''}'' # q"
  have "stops ?rest" by (simp add: stops_def)
  then have v: "parse_value g' (json_print esc x @ ?rest) = Some (x, ?rest)"
    using Members_Cons.IH(1) Members_Cons.prems g by simp
  show ?case
  proof (cases "kvs = []")
    case True
    with v g show ?thesis
      by (simp add: print_string_def skip_cons parse_print_string)
  next
    case False
    then have "parse_members g' (print_members esc kvs @ CHR ''}'' # q) = Some (kvs, q)"
      using Members_Cons.IH(2) Members_Cons.prems g by simp
    with False v g show ?thesis
      by (simp add: print_string_def skip_cons parse_print_string)
  qed
qed

theorem parse_printed: "json_ok j \<Longrightarrow> JSON_parse (json_print esc j) = Inr j"
  using parse_print(1) [of j "[]" "length (json_print esc j) + 1"]
  by (simp add: JSON_parse_def stops_def skip_ws_def)

end

section \<open>JsonLd\<close>

text \<open>
  \<^verbatim>\<open>.replace(/</g, "\\u003c")\<close>; the two line separators the component also
  replaces are above 255.
\<close>

definition escape_lt :: "string \<Rightarrow> string" where
  "escape_lt s = concat (map (\<lambda>c. if c = CHR ''<'' then [backslash] @ ''u003c'' else [c]) s)"

definition JsonLd :: "json \<Rightarrow> string" where
  "JsonLd data = escape_lt (JSON_stringify data)"

lemma escape_lt_append [simp]: "escape_lt (s @ t) = escape_lt s @ escape_lt t"
  by (simp add: escape_lt_def)

lemma escape_lt_Cons [simp]:
  "escape_lt (c # s) = (if c = CHR ''<'' then [backslash] @ ''u003c'' else [c]) @ escape_lt s"
  by (simp add: escape_lt_def)

lemma escape_lt_Nil [simp]: "escape_lt [] = []"
  by (simp add: escape_lt_def)

lemma escape_lt_id: "CHR ''<'' \<notin> set s \<Longrightarrow> escape_lt s = s"
  by (induction s) auto

lemma escape_lt_set: "CHR ''<'' \<notin> set (escape_lt s)"
  by (induction s) auto

lemma escape_lt_string: "escape_lt (print_string e s) = print_string (\<lambda>c. escape_lt (e c)) s"
  by (induction s) (simp_all add: print_string_def)

lemma escape_lt_int: "escape_lt (int_str n) = int_str n"
proof (rule escape_lt_id)
  show "CHR ''<'' \<notin> set (int_str n)"
    using nat_str_no_char [of "CHR ''<''"] by (auto simp: int_str_def is_digit_def)
qed

lemma escape_lt_print:
  "escape_lt (json_print e j) = json_print (\<lambda>c. escape_lt (e c)) j"
  "escape_lt (print_elems e xs) = print_elems (\<lambda>c. escape_lt (e c)) xs"
  "escape_lt (print_members e kvs) = print_members (\<lambda>c. escape_lt (e c)) kvs"
  by (induction j and xs and kvs rule: json_tree_induct) (simp_all add: escape_lt_string escape_lt_int)

interpretation stringify: json_escape json_esc
proof
  fix c s
  have "simple_escape quote = Some quote" "simple_escape backslash = Some backslash"
    "simple_escape CHR ''b'' = Some CHR 0x08" "simple_escape CHR ''f'' = Some CHR 0x0C"
    "simple_escape CHR ''n'' = Some CHR 0x0A" "simple_escape CHR ''r'' = Some CHR 0x0D"
    "simple_escape CHR ''t'' = Some CHR 0x09"
    by (simp_all add: simple_escape_def)
  then show "parse_chars (json_esc c @ s) = push c (parse_chars s)"
    by (simp add: json_esc_def parse_unicode_escape)
qed

lemma hex4_lt: "hex4 ''003c'' = Some CHR ''<''"
  by code_simp

interpretation script: json_escape "\<lambda>c. escape_lt (json_esc c)"
proof
  fix c s
  show "parse_chars (escape_lt (json_esc c) @ s) = push c (parse_chars s)"
  proof (cases "c = CHR ''<''")
    case True
    then show ?thesis by (simp add: json_esc_def hex4_lt)
  next
    case False
    have "hex_low_digit d \<noteq> CHR ''<''" if "d < 16" for d
      using hex_low_digit_inv [OF that] by (auto simp: hex_lower_def)
    moreover have "(of_char c :: nat) div 16 < 16" using of_char_less_256 [of c] by linarith
    ultimately have "hex_low_digit (of_char c div 16) \<noteq> CHR ''<''" "hex_low_digit (of_char c mod 16) \<noteq> CHR ''<''"
      by simp_all
    then have "CHR ''<'' \<notin> set (json_esc c)"
      using False by (simp add: json_esc_def unicode_escape_def)
    then show ?thesis by (simp add: escape_lt_id stringify.read_back)
  qed
qed

text \<open>
  C40: structured data printed by \<^verbatim>\<open>JsonLd\<close> cannot end its script element: the text
  has no \<^verbatim>\<open><\<close>, and a reader of the element still gets exactly the data; the same
  reader inverts \<^verbatim>\<open>JSON.stringify\<close>.
\<close>

theorem json_ld_safe:
  assumes "json_ok data"
  shows "list_all (\<lambda>c. c \<noteq> CHR ''<'') (JsonLd data) \<and> JSON_parse (JsonLd data) = Inr data \<and>
    JSON_parse (JSON_stringify data) = Inr data"
proof -
  have "c \<noteq> CHR ''<''" if "c \<in> set (JsonLd data)" for c
    using that escape_lt_set [of "JSON_stringify data"] by (auto simp: JsonLd_def)
  then show ?thesis
    using script.parse_printed [OF assms] stringify.parse_printed [OF assms]
    by (simp add: JsonLd_def JSON_stringify_def escape_lt_print list_all_iff)
qed

theorem json_ld_safe_witness:
  "JSON_parse (JsonLd (JObj [(''name'', JStr ''</script>''), (''n'', JArr [JNum (- 7), JNull])])) =
     Inr (JObj [(''name'', JStr ''</script>''), (''n'', JArr [JNum (- 7), JNull])])"
proof -
  have "json_ok (JObj [(''name'', JStr ''</script>''), (''n'', JArr [JNum (- 7), JNull])])" by simp
  from json_ld_safe [OF this] show ?thesis by blast
qed

end
