(* ===== verification/Js_Act.thy ===== *)
theory Js_Act
  imports Js_Net
begin

text \<open>
  Event handlers. A handler of a React component changes the component's state, awaits calls
  and may throw; \<open>('w, 'a) act\<close> is such a piece of code over a state \<^typ>\<open>'w\<close>, with
  one combinator per construct of the language: sequencing after \<^verbatim>\<open>await\<close>,
  \<^verbatim>\<open>throw\<close>, \<^verbatim>\<open>try\<close>/\<^verbatim>\<open>catch\<close>, \<^verbatim>\<open>finally\<close> and a state
  setter. A component's state is a record that extends \<open>net\<close>, the CSRF module variable
  and the history of requests, so every handler of every component can call the API.

  The locale \<open>submit_handler\<close> is the contract the screens give their forms: whatever the
  server does, a submission returns without an unhandled rejection and the form is usable
  again.
\<close>

type_synonym ('w, 'a) act = "'w \<Rightarrow> 'w \<times> 'a result"

definition return_act :: "'a \<Rightarrow> ('w, 'a) act" where
  "return_act x w = (w, Inr x)"

definition throw_act :: "js_throw \<Rightarrow> ('w, 'a) act" where
  "throw_act e w = (w, Inl e)"

definition lift_act :: "'a result \<Rightarrow> ('w, 'a) act" where
  "lift_act r w = (w, r)"

definition set_act :: "('w \<Rightarrow> 'w) \<Rightarrow> ('w, unit) act" where
  "set_act f w = (f w, Inr ())"

definition bind_act :: "('w, 'a) act \<Rightarrow> ('a \<Rightarrow> ('w, 'b) act) \<Rightarrow> ('w, 'b) act" where
  "bind_act m f w = (case m w of (w', Inl e) \<Rightarrow> (w', Inl e) | (w', Inr x) \<Rightarrow> f x w')"

definition then_act :: "('w, 'a) act \<Rightarrow> ('w, 'b) act \<Rightarrow> ('w, 'b) act" where
  "then_act m n = bind_act m (\<lambda>_. n)"

definition catch_act :: "('w, 'a) act \<Rightarrow> (js_throw \<Rightarrow> ('w, 'a) act) \<Rightarrow> ('w, 'a) act" where
  "catch_act m f w = (case m w of (w', Inl e) \<Rightarrow> f e w' | (w', Inr x) \<Rightarrow> (w', Inr x))"

definition finally_act :: "('w, 'a) act \<Rightarrow> ('w \<Rightarrow> 'w) \<Rightarrow> ('w, 'a) act" where
  "finally_act m f w = (case m w of (w', r) \<Rightarrow> (f w', r))"

lemmas act_defs = return_act_def throw_act_def lift_act_def set_act_def bind_act_def then_act_def
  catch_act_def finally_act_def

named_theorems act_eqs \<open>what each combinator does to the state and the result\<close>

lemma act_run [act_eqs]:
  "return_act x w = (w, Inr x)" "throw_act e w = (w, Inl e)" "lift_act r w = (w, r)"
  "set_act f w = (f w, Inr ())"
  by (simp_all add: act_defs)

lemma bind_act_run [act_eqs]:
  "m w = (w', Inl e) \<Longrightarrow> bind_act m f w = (w', Inl e)"
  "m w = (w', Inr x) \<Longrightarrow> bind_act m f w = f x w'"
  by (simp_all add: bind_act_def)

lemma finally_act_run [act_eqs]:
  "fst (finally_act m f w) = f (fst (m w))" "snd (finally_act m f w) = snd (m w)"
  by (auto simp: finally_act_def split: prod.splits)

text \<open>Which states a piece of code can leave, and that it cannot throw.\<close>

definition leaves :: "('w \<Rightarrow> bool) \<Rightarrow> ('w \<Rightarrow> bool) \<Rightarrow> ('w, 'a) act \<Rightarrow> bool" where
  "leaves P Q m \<longleftrightarrow> (\<forall>w. P w \<longrightarrow> Q (fst (m w)))"

definition no_throw :: "('w, 'a) act \<Rightarrow> bool" where
  "no_throw m \<longleftrightarrow> (\<forall>w. \<not> isl (snd (m w)))"

named_theorems act_intros \<open>state predicates and absence of exceptions through the combinators\<close>

lemma leavesD: "leaves P Q m \<Longrightarrow> P w \<Longrightarrow> Q (fst (m w))"
  by (simp add: leaves_def)

lemma leavesI: "(\<And>w. P w \<Longrightarrow> Q (fst (m w))) \<Longrightarrow> leaves P Q m"
  by (simp add: leaves_def)

lemma leaves_return [act_intros]: "leaves P P (return_act x)"
  by (simp add: leaves_def act_eqs)

lemma leaves_throw [act_intros]: "leaves P P (throw_act e)"
  by (simp add: leaves_def act_eqs)

lemma leaves_lift [act_intros]: "leaves P P (lift_act r)"
  by (simp add: leaves_def act_eqs)

lemma leaves_set [act_intros]: "(\<And>w. P w \<Longrightarrow> Q (f w)) \<Longrightarrow> leaves P Q (set_act f)"
  by (simp add: leaves_def act_eqs)

lemma leaves_bind [act_intros]: "leaves P P m \<Longrightarrow> (\<And>x. leaves P P (f x)) \<Longrightarrow> leaves P P (bind_act m f)"
  by (fastforce simp: leaves_def bind_act_def split: prod.splits sum.splits)

lemma leaves_then [act_intros]: "leaves P P m \<Longrightarrow> leaves P P n \<Longrightarrow> leaves P P (then_act m n)"
  unfolding then_act_def by (rule leaves_bind)

lemma leaves_catch [act_intros]: "leaves P P m \<Longrightarrow> (\<And>e. leaves P P (f e)) \<Longrightarrow> leaves P P (catch_act m f)"
  by (fastforce simp: leaves_def catch_act_def split: prod.splits sum.splits)

lemma leaves_finally [act_intros]: "leaves P P m \<Longrightarrow> (\<And>w. P w \<Longrightarrow> P (f w)) \<Longrightarrow> leaves P P (finally_act m f)"
  by (simp add: leaves_def act_eqs)

lemma leaves_if [act_intros]: "(b \<Longrightarrow> leaves P Q m) \<Longrightarrow> (\<not> b \<Longrightarrow> leaves P Q n) \<Longrightarrow> leaves P Q (if b then m else n)"
  by simp

lemma leaves_any: "leaves P (\<lambda>_. True) m"
  by (simp add: leaves_def)

lemma finally_establishes: "(\<And>w. Q (f w)) \<Longrightarrow> leaves P Q (finally_act m f)"
  by (simp add: leaves_def act_eqs)

lemma no_throw_return [act_intros]: "no_throw (return_act x)"
  by (simp add: no_throw_def act_eqs)

lemma no_throw_set [act_intros]: "no_throw (set_act f)"
  by (simp add: no_throw_def act_eqs)

lemma no_throw_bind [act_intros]: "no_throw m \<Longrightarrow> (\<And>x. no_throw (f x)) \<Longrightarrow> no_throw (bind_act m f)"
  by (auto simp: no_throw_def bind_act_def split: prod.splits sum.splits) (metis isl_def snd_conv)

lemma no_throw_then [act_intros]: "no_throw m \<Longrightarrow> no_throw n \<Longrightarrow> no_throw (then_act m n)"
  unfolding then_act_def by (rule no_throw_bind)

lemma no_throw_catch [act_intros]: "(\<And>e. no_throw (f e)) \<Longrightarrow> no_throw (catch_act m f)"
  by (auto simp: no_throw_def catch_act_def split: prod.splits sum.splits)

lemma no_throw_finally [act_intros]: "no_throw m \<Longrightarrow> no_throw (finally_act m f)"
  by (simp add: no_throw_def act_eqs)

lemma no_throw_if [act_intros]: "(b \<Longrightarrow> no_throw m) \<Longrightarrow> (\<not> b \<Longrightarrow> no_throw n) \<Longrightarrow> no_throw (if b then m else n)"
  by simp

section \<open>Calling the API from a handler\<close>

record net =
  stored_token :: "string option"
  sent :: "request list"

definition api_call ::
  "(string option \<Rightarrow> request list \<Rightarrow> string option \<times> (request list \<times> 'a result)) \<Rightarrow> ('b net_scheme, 'a) act" where
  "api_call f w =
     (case f (stored_token w) (sent w) of (t, h, r) \<Rightarrow> (w\<lparr>stored_token := t, sent := h\<rparr>, r))"

lemma leaves_api_call [act_intros]: "(\<And>w t h. P w \<Longrightarrow> P (w\<lparr>stored_token := t, sent := h\<rparr>)) \<Longrightarrow> leaves P P (api_call f)"
  by (auto simp: leaves_def api_call_def split: prod.splits)

section \<open>The contract of a form\<close>

locale submit_handler =
  fixes handler :: "('w, unit) act"
    and busy :: "'w \<Rightarrow> bool"
  assumes no_rejection: "no_throw handler"
    and idle_after: "\<not> busy w \<Longrightarrow> \<not> busy (fst (handler w))"
begin

lemma result: "snd (handler w) = Inr ()"
  using no_rejection by (cases "snd (handler w)") (auto simp: no_throw_def dest: spec [of _ w])

text \<open>However often the form is submitted, it is usable again.\<close>

lemma idle_after_all: "\<not> busy w \<Longrightarrow> \<not> busy (((\<lambda>v. fst (handler v)) ^^ n) w)"
  by (induction n) (simp_all add: idle_after)

end

lemma submit_handlerI:
  "(\<And>w. \<not> isl (snd (handler w)) \<and> (\<not> busy w \<longrightarrow> \<not> busy (fst (handler w)))) \<Longrightarrow> submit_handler handler busy"
  by unfold_locales (auto simp: no_throw_def)

text \<open>
  The shape of every such handler: the flag and an old message are set, the call runs in
  \<^verbatim>\<open>try\<close>/\<^verbatim>\<open>catch\<close>, and \<^verbatim>\<open>finally\<close> clears the flag.
\<close>

named_theorems form_simps \<open>results of handlers of the usual shape\<close>

lemma form_state [form_simps]:
  "fst (then_act (set_act f) (finally_act m off) w) = off (fst (m (f w)))"
  by (simp add: then_act_def bind_act_def set_act_def act_eqs)

lemma form_result [form_simps]:
  "snd (then_act (set_act f) (finally_act m off) w) = snd (m (f w))"
  by (simp add: then_act_def bind_act_def set_act_def act_eqs)

lemma set_then [form_simps]: "then_act (set_act f) m w = m (f w)"
  by (simp add: then_act_def bind_act_def set_act_def)

lemma set_run [form_simps]: "set_act f w = (f w, Inr ())"
  by (simp add: set_act_def)

lemma catch_isl [form_simps]:
  "(\<And>e v. \<not> isl (snd (h e v))) \<Longrightarrow> \<not> isl (snd (catch_act m h w))"
  by (auto simp: catch_act_def split: prod.splits sum.splits)

lemma finally_run [form_simps]:
  "fst (finally_act m off w) = off (fst (m w))" "snd (finally_act m off w) = snd (m w)"
  by (simp_all add: act_eqs)

lemma catch_act_run [act_eqs]:
  "m w = (w', Inl e) \<Longrightarrow> catch_act m h w = h e w'"
  "snd (m w) = Inr x \<Longrightarrow> catch_act m h w = m w"
  by (auto simp: catch_act_def split: prod.splits sum.splits)

end
