(* ===== verification/Auth_Context.thy ===== *)
theory Auth_Context
  imports Auth_Api Webauthn Json_Text Js_Act State_Machine
begin

text \<open>
  \<^verbatim>\<open>sites/auth-adb-software-solutions/src/contexts/AuthContext.tsx\<close>: the
  \<^verbatim>\<open>AuthProvider\<close>'s state and its operations. The state extends \<open>net\<close>, and
  the screens' states extend it in turn, so an operation runs unchanged inside a screen.

  What a passkey login needs of \<open>Webauthn\<close> comes with the world: the authenticator, and
  the module variable of the active ceremony as a field of the state.
\<close>

record auth_state = net +
  user :: "CurrentUser option"
  loading :: bool
  requires2fa :: bool
  challengeToken :: "string option"
  ceremony_state :: webauthn_state

definition auth_init :: auth_state where
  "auth_init = \<lparr>stored_token = None, sent = [], user = None, loading = True, requires2fa = False,
     challengeToken = None, ceremony_state = wa_init\<rparr>"

text \<open>A failed call: the server's message or a default.\<close>

definition throw_message :: "json \<Rightarrow> string \<Rightarrow> ('w, 'a) act" where
  "throw_message data m = throw_act (Error (or_string (jstr data ''message'') m))"

text \<open>Reading a member of the parsed body; the body \<^verbatim>\<open>null\<close> throws.\<close>

definition with_object :: "json \<Rightarrow> (json \<Rightarrow> ('w, 'a) act) \<Rightarrow> ('w, 'a) act" where
  "with_object data f = bind_act (lift_act (non_null data)) f"

definition post_call :: "auth_world \<Rightarrow> auth_call \<Rightarrow> ('b net_scheme, json) act" where
  "post_call W c = bind_act (api_call (authApi_post W c)) (\<lambda>data. lift_act (non_null data))"

definition refreshUser :: "auth_world \<Rightarrow> ('b auth_state_scheme, unit) act" where
  "refreshUser W =
     finally_act
       (catch_act
          (bind_act (api_call (getCurrentUser W)) (\<lambda>(success, message, u).
             set_act (user_update (\<lambda>_. if success then u else None))))
          (\<lambda>error. set_act (user_update (\<lambda>_. None))))
       (loading_update (\<lambda>_. False))"

text \<open>The effect that runs when the provider is mounted, its two calls in order.\<close>

definition provider_mount :: "auth_world \<Rightarrow> ('b auth_state_scheme, unit) act" where
  "provider_mount W =
     then_act (api_call (\<lambda>tok h. case ensureCsrfToken W tok h of (h', tok') \<Rightarrow> (tok', h', Inr ())))
       (refreshUser W)"

definition login :: "auth_world \<Rightarrow> string \<Rightarrow> string \<Rightarrow> ('b auth_state_scheme, unit) act" where
  "login W e p =
     bind_act (post_call W (SignIn (Login e p))) (\<lambda>data.
       if \<not> jtrue data ''success'' then throw_message data ''Login failed''
       else if jtrue data ''requires2fa'' \<and> truthy_string (jstr data ''challengeToken'') then
         set_act (\<lambda>s. s\<lparr>challengeToken := jstr data ''challengeToken'', requires2fa := True\<rparr>)
       else refreshUser W)"

text \<open>The members of the server's options that \<^verbatim>\<open>parseAuthenticationOptions\<close> reads.\<close>

fun jstring_list :: "json option \<Rightarrow> string list option" where
  "jstring_list (Some (JArr xs)) = Some (map (\<lambda>x. case x of JStr s \<Rightarrow> s | _ \<Rightarrow> []) xs)"
| "jstring_list _ = None"

definition cred_of_json :: "json \<Rightarrow> cred_json" where
  "cred_of_json c = \<lparr>cj_id = jstr c ''id'', cj_transports = jstring_list (jget c ''transports'')\<rparr>"

definition creds_of_json :: "json option \<Rightarrow> (json + cred_json list) option" where
  "creds_of_json v = (case v of None \<Rightarrow> None | Some (JArr cs) \<Rightarrow> Some (Inr (map cred_of_json cs)) | Some j \<Rightarrow> Some (Inl j))"

definition authentication_of_json :: "json \<Rightarrow> authentication_json" where
  "authentication_of_json j =
     \<lparr>au_challenge = jstr j ''challenge'', au_rpId = jstr j ''rpId'',
      au_timeout = (case jget j ''timeout'' of Some (JNum n) \<Rightarrow> Some n | _ \<Rightarrow> None),
      au_userVerification = jstr j ''userVerification'',
      au_allowCredentials = creds_of_json (jget j ''allowCredentials'')\<rparr>"

text \<open>Options that arrive as text are parsed.\<close>

definition ceremony_options :: "json option \<Rightarrow> json result" where
  "ceremony_options v =
     (case v of Some (JStr s) \<Rightarrow> JSON_parse s | Some j \<Rightarrow> Inr j | None \<Rightarrow> Inr JNull)"

definition loginWithPasskey ::
  "auth_world \<Rightarrow> (request_options \<Rightarrow> assertion_credential option result) \<Rightarrow> ('b auth_state_scheme, unit) act" where
  "loginWithPasskey W authenticator =
     bind_act (post_call W (SignIn BeginDiscoverableAuth)) (\<lambda>beginData.
       if \<not> jtrue beginData ''success'' \<or> \<not> truthy (jget beginData ''options'')
       then throw_message beginData ''Failed to start passkey login''
       else bind_act (lift_act (ceremony_options (jget beginData ''options''))) (\<lambda>options.
         bind_act
           (\<lambda>s. case authenticateWithDiscoverableCredential authenticator (authentication_of_json options) (ceremony_state s)
                of (cs, r) \<Rightarrow> (s\<lparr>ceremony_state := cs\<rparr>, r))
           (\<lambda>credential. bind_act (post_call W (SignIn (CompleteDiscoverableAuth credential))) (\<lambda>completeData.
              if \<not> jtrue completeData ''success'' then throw_message completeData ''Passkey authentication failed''
              else refreshUser W))))"

definition verify2fa :: "auth_world \<Rightarrow> string \<Rightarrow> bool \<Rightarrow> ('b auth_state_scheme, unit) act" where
  "verify2fa W code isRecoveryCode s =
     (if \<not> truthy_string (challengeToken s) then throw_act (Error ''No 2FA challenge in progress'') s
      else bind_act (post_call W (SignIn (Verify2FA (the (challengeToken s)) code isRecoveryCode))) (\<lambda>data.
        if \<not> jtrue data ''success'' then throw_message data ''Verification failed''
        else then_act (set_act (\<lambda>s. s\<lparr>requires2fa := False, challengeToken := None\<rparr>)) (refreshUser W)) s)"

definition cancel2fa :: "('b auth_state_scheme, unit) act" where
  "cancel2fa = set_act (\<lambda>s. s\<lparr>requires2fa := False, challengeToken := None\<rparr>)"

definition logout :: "auth_world \<Rightarrow> ('b auth_state_scheme, unit) act" where
  "logout W = then_act (api_call (authApi_post W (SignIn Logout))) (set_act (user_update (\<lambda>_. None)))"

section \<open>The second factor\<close>

datatype auth_op =
    Refresh | Mount | DoLogin string string | DoPasskey | DoVerify string bool | Cancel | DoLogout

fun auth_op_act ::
  "auth_world \<Rightarrow> (request_options \<Rightarrow> assertion_credential option result) \<Rightarrow> auth_op \<Rightarrow> ('b auth_state_scheme, unit) act" where
  "auth_op_act W a Refresh = refreshUser W"
| "auth_op_act W a Mount = provider_mount W"
| "auth_op_act W a (DoLogin e p) = login W e p"
| "auth_op_act W a DoPasskey = loginWithPasskey W a"
| "auth_op_act W a (DoVerify c r) = verify2fa W c r"
| "auth_op_act W a Cancel = cancel2fa"
| "auth_op_act W a DoLogout = logout W"

text \<open>The screens show the second-factor form exactly when there is a challenge to answer.\<close>

definition challenge_inv :: "'b auth_state_scheme \<Rightarrow> bool" where
  "challenge_inv s \<longleftrightarrow> requires2fa s = truthy_string (challengeToken s)"

lemma challenge_inv_updates [simp]:
  "challenge_inv (s\<lparr>user := u\<rparr>) = challenge_inv s"
  "challenge_inv (s\<lparr>loading := l\<rparr>) = challenge_inv s"
  "challenge_inv (s\<lparr>ceremony_state := c\<rparr>) = challenge_inv s"
  "challenge_inv (s\<lparr>stored_token := t, sent := h\<rparr>) = challenge_inv s"
  "challenge_inv (s\<lparr>requires2fa := False, challengeToken := None\<rparr>)"
  by (simp_all add: challenge_inv_def)

lemma leaves_post_call [act_intros]:
  "(\<And>w t h. P w \<Longrightarrow> P (w\<lparr>stored_token := t, sent := h\<rparr>)) \<Longrightarrow> leaves P P (post_call W c)"
  by (simp add: post_call_def leaves_bind leaves_api_call leaves_lift)

lemma post_call_inv: "leaves challenge_inv challenge_inv (post_call W c)"
  by (rule leaves_post_call) simp

lemma throw_message_inv [act_intros]: "leaves P P (throw_message d m)"
  by (simp add: throw_message_def leaves_throw)

lemma refreshUser_inv [act_intros]: "leaves challenge_inv challenge_inv (refreshUser W)"
  unfolding refreshUser_def
  by (intro act_intros) (auto simp: leaves_def set_act_def split: prod.splits)

lemma provider_mount_inv: "leaves challenge_inv challenge_inv (provider_mount W)"
  unfolding provider_mount_def by (intro act_intros) auto

lemma login_inv: "leaves challenge_inv challenge_inv (login W e p)"
  unfolding login_def by (intro post_call_inv act_intros) (simp add: challenge_inv_def)

lemma loginWithPasskey_inv: "leaves challenge_inv challenge_inv (loginWithPasskey W a)"
proof -
  have "leaves challenge_inv challenge_inv
      (\<lambda>s. case authenticateWithDiscoverableCredential a j (ceremony_state s) of (cs, r) \<Rightarrow> (s\<lparr>ceremony_state := cs\<rparr>, r))" for j
    by (auto simp: leaves_def split: prod.splits)
  then show ?thesis unfolding loginWithPasskey_def by (intro post_call_inv act_intros)
qed

lemma verify2fa_inv: "leaves challenge_inv challenge_inv (verify2fa W c r)"
proof (rule leavesI)
  fix s :: "'b auth_state_scheme"
  assume s: "challenge_inv s"
  have "leaves challenge_inv challenge_inv
      (bind_act (post_call W (SignIn (Verify2FA (the (challengeToken s)) c r))) (\<lambda>data.
        if \<not> jtrue data ''success'' then throw_message data ''Verification failed''
        else then_act (set_act (\<lambda>s. s\<lparr>requires2fa := False, challengeToken := None\<rparr>)) (refreshUser W)))"
    by (intro post_call_inv act_intros) simp
  from leavesD [OF this s] s show "challenge_inv (fst (verify2fa W c r s))"
    by (simp add: verify2fa_def throw_act_def)
qed

lemma simple_ops_inv:
  "leaves challenge_inv challenge_inv cancel2fa" "leaves challenge_inv challenge_inv (logout W)"
  unfolding cancel2fa_def logout_def by (intro act_intros; simp)+

lemma auth_op_inv: "leaves challenge_inv challenge_inv (auth_op_act W a op)"
  by (cases op) (simp_all add: refreshUser_inv provider_mount_inv login_inv loginWithPasskey_inv verify2fa_inv simple_ops_inv)

inductive auth_step :: "auth_world \<Rightarrow> (request_options \<Rightarrow> assertion_credential option result) \<Rightarrow>
    auth_state \<Rightarrow> auth_state \<Rightarrow> bool" for W a where
  auth_do: "auth_step W a s (fst (auth_op_act W a op s))"

inductive_cases auth_stepE: "auth_step W a s t"

interpretation challenge_machine: safe_machine "(=) auth_init" "auth_step W a" challenge_inv for W a
proof
  show "challenge_inv s" if "auth_init = s" for s
    using that by (auto simp: auth_init_def challenge_inv_def)
  show "challenge_inv t" if "challenge_inv s" "auth_step W a s t" for s t
    using that(2,1) by (auto elim!: auth_stepE intro: leavesD [OF auth_op_inv])
qed

section \<open>Properties\<close>

text \<open>The state after a posted call and the answer to it.\<close>

definition after_post :: "auth_world \<Rightarrow> auth_call \<Rightarrow> 'b net_scheme \<Rightarrow> 'b net_scheme" where
  "after_post W c s =
     (let tok = snd (ensureCsrfToken W (stored_token s) (sent s)); h1 = sent s @ [csrf_request W]
      in s\<lparr>stored_token := tok,
           sent := h1 @ [signed_post W (getCsrfToken (w_cookies W h1) tok) (auth_request c)]\<rparr>)"

definition post_answer :: "auth_world \<Rightarrow> auth_call \<Rightarrow> 'b net_scheme \<Rightarrow> json result" where
  "post_answer W c s =
     (let h = sent (after_post W c s)
      in and_then (and_then (w_server W (butlast h) (last h)) json_body) non_null)"

lemma post_call_run: "post_call W c s = (after_post W c s, post_answer W c s)"
proof -
  obtain p b where pb: "auth_request c = (p, b)" by (cases "auth_request c")
  show ?thesis
    by (simp add: post_call_def bind_act_def api_call_def authApi_post_def pb postJson_eq Let_def
        after_post_def post_answer_def lift_act_def and_then_def butlast_append split: sum.splits)
qed

lemma after_post_fields [simp]:
  "user (after_post W c s) = user s" "requires2fa (after_post W c s) = requires2fa s"
  "challengeToken (after_post W c s) = challengeToken s" "loading (after_post W c s) = loading s"
  by (simp_all add: after_post_def Let_def)

lemma refreshUser_run:
  "snd (refreshUser W s) = Inr () \<and> \<not> loading (fst (refreshUser W s)) \<and>
   user (fst (refreshUser W s)) =
     (case snd (snd (getCurrentUser W (stored_token s) (sent s))) of
        Inr (True, m, u) \<Rightarrow> u | _ \<Rightarrow> None) \<and>
   requires2fa (fst (refreshUser W s)) = requires2fa s \<and>
   challengeToken (fst (refreshUser W s)) = challengeToken s"
  by (cases "getCurrentUser W (stored_token s) (sent s)")
    (auto simp: refreshUser_def finally_act_def catch_act_def bind_act_def api_call_def set_act_def
      split: prod.splits sum.splits)

text \<open>
  C18: however sign-ins, passkey logins, verifications, cancellations, sign-outs and refreshes
  succeed, fail or throw, the second-factor form is shown exactly when there is a challenge
  token to answer.
\<close>

theorem second_factor_form_iff_challenge:
  assumes "reachable ((=) auth_init) (auth_step W a) s"
  shows "requires2fa s = truthy_string (challengeToken s)"
  using challenge_machine.inv_reachable [OF assms] by (simp add: challenge_inv_def)

text \<open>
  C29: a password alone does not sign in to an account with a second factor. When the server
  answers a login with a challenge, the user stays as it was, nothing but the login itself is
  sent, and the challenge is recorded for \<^verbatim>\<open>verify2fa\<close>.
\<close>

theorem login_stops_at_second_factor:
  assumes "post_answer W (SignIn (Login e p)) s = Inr data" and "jtrue data ''success''"
    and "jtrue data ''requires2fa''" and "jstr data ''challengeToken'' = Some (c # t)"
  shows "login W e p s = ((after_post W (SignIn (Login e p)) s)\<lparr>challengeToken := Some (c # t), requires2fa := True\<rparr>, Inr ())
    \<and> user (fst (login W e p s)) = user s"
  using assms by (simp add: login_def bind_act_def post_call_run set_act_def)

text \<open>
  C35: \<^verbatim>\<open>verify2fa\<close> without a challenge sends nothing and throws; with one it posts that
  challenge; an answer that is no success throws and keeps the challenge for another try; a
  success ends the challenge, and the user is then what the server says.
\<close>

theorem verify2fa_spec:
  "(if \<not> truthy_string (challengeToken s)
    then verify2fa W c r s = (s, Inl (Error ''No 2FA challenge in progress''))
    else let call = SignIn (Verify2FA (the (challengeToken s)) c r)
      in (case post_answer W call s of
            Inl e \<Rightarrow> verify2fa W c r s = (after_post W call s, Inl e)
          | Inr data \<Rightarrow>
             if jtrue data ''success''
             then verify2fa W c r s = refreshUser W ((after_post W call s)\<lparr>requires2fa := False, challengeToken := None\<rparr>)
               \<and> challengeToken (fst (verify2fa W c r s)) = None \<and> snd (verify2fa W c r s) = Inr ()
             else isl (snd (verify2fa W c r s)) \<and> challengeToken (fst (verify2fa W c r s)) = challengeToken s))"
  using refreshUser_run
  by (auto simp: verify2fa_def throw_act_def bind_act_def post_call_run throw_message_def then_act_def
      set_act_def Let_def split: sum.splits)

text \<open>
  Refreshing never throws and always ends the loading state; a user is signed in exactly
  when the server's answer to \<^verbatim>\<open>/me\<close> is a success with a user, and every failure
  signs out.
\<close>

theorem refresh_fails_closed:
  "snd (refreshUser W s) = Inr () \<and> \<not> loading (fst (refreshUser W s)) \<and>
   (user (fst (refreshUser W s)) = Some u) =
     (\<exists>m. snd (snd (getCurrentUser W (stored_token s) (sent s))) = Inr (True, m, Some u))"
  using refreshUser_run [of W s] by (auto split: sum.splits bool.splits)

text \<open>A server with two-factor sign-in, for the examples.\<close>

definition demo_answer :: "string \<Rightarrow> json" where
  "demo_answer url =
     (if endsWith url ''/login'' then
        JObj [(''success'', JBool True), (''requires2fa'', JBool True), (''challengeToken'', JStr ''t0'')]
      else if endsWith url ''/csrf'' then JObj [(''token'', JStr ''k'')]
      else JObj [(''success'', JBool False)])"

definition demo_world :: auth_world where
  "demo_world = \<lparr>w_server = (\<lambda>h r. Inr \<lparr>status = 200, json_body = Inr (demo_answer (req_url r)), resp_headers = []\<rparr>),
     w_cookies = (\<lambda>h. []), w_api = ''http://localhost:8000''\<rparr>"

lemma demo_login_answer:
  "post_answer demo_world (SignIn (Login ''a@b.c'' ''pw'')) auth_init =
     Inr (JObj [(''success'', JBool True), (''requires2fa'', JBool True), (''challengeToken'', JStr ''t0'')])"
  by code_simp

theorem login_stops_at_second_factor_witness:
  "login demo_world ''a@b.c'' ''pw'' auth_init =
     ((after_post demo_world (SignIn (Login ''a@b.c'' ''pw'')) auth_init)\<lparr>challengeToken := Some ''t0'', requires2fa := True\<rparr>, Inr ())
   \<and> user (fst (login demo_world ''a@b.c'' ''pw'' auth_init)) = user auth_init"
  by (rule login_stops_at_second_factor [OF demo_login_answer]) (simp_all add: jtrue_def jstr_def)

theorem second_factor_form_iff_challenge_witness:
  "requires2fa (fst (login demo_world ''a@b.c'' ''pw'' auth_init)) =
     truthy_string (challengeToken (fst (login demo_world ''a@b.c'' ''pw'' auth_init)))"
proof (rule second_factor_form_iff_challenge)
  let ?a = "\<lambda>_. Inl (Error [])"
  have "auth_step demo_world ?a auth_init (fst (auth_op_act demo_world ?a (DoLogin ''a@b.c'' ''pw'') auth_init))"
    by (rule auth_do)
  with reach_init [of "(=) auth_init"]
  show "reachable ((=) auth_init) (auth_step demo_world ?a) (fst (login demo_world ''a@b.c'' ''pw'' auth_init))"
    by (auto intro: reach_step)
qed

end
