(* ===== verification/Sign_In_Screens.thy ===== *)
theory Sign_In_Screens
  imports Auth_Context
begin

text \<open>
  The screens of \<^verbatim>\<open>sites/auth-adb-software-solutions/src/screens\<close> around signing in:
  LoginPage, SignupPage, ForgotPasswordPage, ResetPasswordPage, VerifyEmailPage, LogoutPage,
  Setup2FAPage, and the TwoFactorVerification form. A screen's state is a record that extends
  the provider's, with one field per \<^verbatim>\<open>useState\<close>; a handler is one definition.
  What is drawn from the state is left out, except for the branch that decides which form is
  shown.
\<close>

section \<open>LoginPage\<close>

record login_page = auth_state +
  lp_email :: string
  lp_password :: string
  lp_isLoading :: bool
  lp_isPasskeyLoading :: bool
  lp_is2faLoading :: bool
  lp_isRedirecting :: bool
  lp_error :: "string option"
  lp_supportsPasskey :: bool
  lp_location :: "string option"

text \<open>The two effects: passkey support when mounted, and the redirect of a signed-in user.\<close>

definition lp_mount :: "browser \<Rightarrow> (login_page, unit) act" where
  "lp_mount b = set_act (lp_supportsPasskey_update (\<lambda>_. isWebAuthnSupported b))"

definition lp_user_effect ::
  "(string \<Rightarrow> string option) \<Rightarrow> auth_env \<Rightarrow> params option \<Rightarrow> (login_page, unit) act" where
  "lp_user_effect canon env query = set_act (\<lambda>s.
     case user s of None \<Rightarrow> s
     | Some u \<Rightarrow> s\<lparr>lp_isRedirecting := True, lp_location := Some (getRedirectUrl canon env query)\<rparr>)"

definition handleLogin :: "auth_world \<Rightarrow> (login_page, unit) act" where
  "handleLogin W s =
     then_act (set_act (\<lambda>s. s\<lparr>lp_isLoading := True, lp_error := None\<rparr>))
       (finally_act
         (catch_act (login W (lp_email s) (lp_password s))
           (\<lambda>err. set_act (lp_error_update (\<lambda>_. Some (case err of Err n m \<Rightarrow> m
              | NonError \<Rightarrow> ''An error occurred during login'')))))
         (lp_isLoading_update (\<lambda>_. False))) s"

definition handlePasskeyLogin ::
  "auth_world \<Rightarrow> (request_options \<Rightarrow> assertion_credential option result) \<Rightarrow> (login_page, unit) act" where
  "handlePasskeyLogin W authenticator =
     then_act (set_act (\<lambda>s. s\<lparr>lp_isPasskeyLoading := True, lp_error := None\<rparr>))
       (finally_act
         (catch_act (loginWithPasskey W authenticator)
           (\<lambda>err. case err of
              Err n m \<Rightarrow> (if n \<noteq> ''NotAllowedError''
                 then set_act (lp_error_update (\<lambda>_. Some (or_string (Some m) ''Passkey authentication failed'')))
                 else return_act ())
            | NonError \<Rightarrow> return_act ()))
         (lp_isPasskeyLoading_update (\<lambda>_. False)))"

definition handle2faVerify :: "auth_world \<Rightarrow> string \<Rightarrow> bool \<Rightarrow> (login_page, unit) act" where
  "handle2faVerify W code isRecoveryCode =
     then_act (set_act (\<lambda>s. s\<lparr>lp_is2faLoading := True, lp_error := None\<rparr>))
       (finally_act
         (catch_act (verify2fa W code isRecoveryCode)
           (\<lambda>err. case err of
              Err n m \<Rightarrow> set_act (lp_error_update (\<lambda>_. Some (or_string (Some m) ''Verification failed'')))
            | NonError \<Rightarrow> return_act ()))
         (lp_is2faLoading_update (\<lambda>_. False)))"

definition handle2faCancel :: "(login_page, unit) act" where
  "handle2faCancel = then_act (set_act (lp_error_update (\<lambda>_. None))) cancel2fa"

datatype login_view = TwoFactorForm | PasswordForm

definition login_view :: "login_page \<Rightarrow> login_view" where
  "login_view s = (if requires2fa s then TwoFactorForm else PasswordForm)"

text \<open>TwoFactorVerification: an empty code is not sent; what is sent is trimmed.\<close>

definition tfv_handleSubmit :: "(string \<Rightarrow> bool \<Rightarrow> ('w, unit) act) \<Rightarrow> string \<Rightarrow> bool \<Rightarrow> ('w, unit) act" where
  "tfv_handleSubmit onVerify code isRecoveryMode =
     (if trim code = [] then return_act () else onVerify (trim code) isRecoveryMode)"

section \<open>Passwords\<close>

text \<open>
  \<^verbatim>\<open>/^(?=.*[a-z])(?=.*[A-Z])(?=.*\d).{12,}$/\<close>: the dot matches any code unit but a
  line terminator, so the last part admits no line terminator anywhere.
\<close>

definition line_terminator :: "char \<Rightarrow> bool" where
  "line_terminator c \<longleftrightarrow> c = CHR 0x0A \<or> c = CHR 0x0D"

definition lookahead :: "(char \<Rightarrow> bool) \<Rightarrow> string \<Rightarrow> bool" where
  "lookahead p s = list_ex p (takeWhile (\<lambda>c. \<not> line_terminator c) s)"

definition in_range :: "char \<Rightarrow> char \<Rightarrow> char \<Rightarrow> bool" where
  "in_range a b c \<longleftrightarrow> (of_char a :: nat) \<le> of_char c \<and> (of_char c :: nat) \<le> of_char b"

definition validatePassword :: "string \<Rightarrow> bool" where
  "validatePassword password \<longleftrightarrow>
     lookahead (in_range CHR ''a'' CHR ''z'') password \<and>
     lookahead (in_range CHR ''A'' CHR ''Z'') password \<and>
     lookahead (in_range CHR ''0'' CHR ''9'') password \<and>
     12 \<le> length password \<and> list_all (\<lambda>c. \<not> line_terminator c) password"

definition password_rule :: string where
  "password_rule = ''Password must be 12+ characters with uppercase, lowercase, and number''"

section \<open>SignupPage\<close>

record signup_page = net +
  su_email :: string
  su_password :: string
  su_confirmPassword :: string
  su_firstName :: string
  su_lastName :: string
  su_isLoading :: bool
  su_error :: "string option"
  su_passwordError :: "string option"
  su_confirmPasswordError :: "string option"
  su_location :: "string option"

definition handlePasswordChange :: "string \<Rightarrow> (signup_page, unit) act" where
  "handlePasswordChange value = set_act (\<lambda>s. s\<lparr>su_password := value,
     su_passwordError := (if validatePassword value then None else Some password_rule)\<rparr>)"

definition handleConfirmPasswordChange :: "string \<Rightarrow> (signup_page, unit) act" where
  "handleConfirmPasswordChange value = set_act (\<lambda>s. s\<lparr>su_confirmPassword := value,
     su_confirmPasswordError := (if value = su_password s then None else Some ''Passwords do not match'')\<rparr>)"

definition handleSignup :: "auth_world \<Rightarrow> (signup_page, unit) act" where
  "handleSignup W s =
     then_act (set_act (\<lambda>s. s\<lparr>su_isLoading := True, su_error := None\<rparr>))
       (if \<not> validatePassword (su_password s) then
          set_act (\<lambda>s. s\<lparr>su_passwordError := Some password_rule, su_isLoading := False\<rparr>)
        else if su_password s \<noteq> su_confirmPassword s then
          set_act (\<lambda>s. s\<lparr>su_confirmPasswordError := Some ''Passwords do not match'', su_isLoading := False\<rparr>)
        else
          finally_act
            (catch_act
              (bind_act (post_call W (SignIn (Register (su_email s) (su_password s) (su_firstName s) (su_lastName s))))
                (\<lambda>result.
                   if jtrue result ''success''
                   then set_act (su_location_update (\<lambda>_. Some ''/login?message=verification-sent''))
                   else set_act (su_error_update (\<lambda>_. Some (or_string (jstr result ''message'') ''Registration failed'')))))
              (\<lambda>err. set_act (su_error_update (\<lambda>_. Some (case err of Err n m \<Rightarrow> m
                 | NonError \<Rightarrow> ''An error occurred during registration'')))))
            (su_isLoading_update (\<lambda>_. False))) s"

section \<open>ForgotPasswordPage and ResetPasswordPage\<close>

record forgot_page = net +
  fp_email :: string
  fp_isLoading :: bool
  fp_error :: "string option"
  fp_success :: bool

definition forgot_handleSubmit :: "auth_world \<Rightarrow> (forgot_page, unit) act" where
  "forgot_handleSubmit W s =
     then_act (set_act (\<lambda>s. s\<lparr>fp_isLoading := True, fp_error := None\<rparr>))
       (finally_act
         (catch_act
           (bind_act (post_call W (Account (RequestPasswordReset (fp_email s)))) (\<lambda>data.
              if jtrue data ''success'' then set_act (fp_success_update (\<lambda>_. True))
              else set_act (fp_success_update (\<lambda>_. True))))
           (\<lambda>err. set_act (fp_success_update (\<lambda>_. True))))
         (fp_isLoading_update (\<lambda>_. False))) s"

record reset_page = net +
  rp_password :: string
  rp_confirmPassword :: string
  rp_isLoading :: bool
  rp_error :: "string option"
  rp_success :: bool

definition reset_handleSubmit :: "auth_world \<Rightarrow> string option \<Rightarrow> (reset_page, unit) act" where
  "reset_handleSubmit W token s =
     then_act (set_act (rp_error_update (\<lambda>_. None)))
       (if \<not> truthy_string token then set_act (rp_error_update (\<lambda>_. Some ''Invalid reset link''))
        else if \<not> validatePassword (rp_password s) then set_act (rp_error_update (\<lambda>_. Some password_rule))
        else if rp_password s \<noteq> rp_confirmPassword s then
          set_act (rp_error_update (\<lambda>_. Some ''Passwords do not match''))
        else
          then_act (set_act (rp_isLoading_update (\<lambda>_. True)))
            (finally_act
              (catch_act
                (bind_act (post_call W (Account (ResetPassword (the token) (rp_password s)))) (\<lambda>data.
                   if jtrue data ''success'' then set_act (rp_success_update (\<lambda>_. True))
                   else set_act (rp_error_update (\<lambda>_. Some (or_string (jstr data ''message'') ''Failed to reset password'')))))
                (\<lambda>err. set_act (rp_error_update (\<lambda>_. Some (case err of Err n m \<Rightarrow> m | NonError \<Rightarrow> ''An error occurred'')))))
              (rp_isLoading_update (\<lambda>_. False)))) s"

section \<open>VerifyEmailPage and LogoutPage\<close>

datatype verify_status = VE_loading | VE_success | VE_error

record verify_page = net +
  ve_status :: verify_status
  ve_message :: string

definition verify_set :: "verify_status \<Rightarrow> string \<Rightarrow> (verify_page, unit) act" where
  "verify_set st m = set_act (\<lambda>s. s\<lparr>ve_status := st, ve_message := m\<rparr>)"

definition verify_effect :: "auth_world \<Rightarrow> string option \<Rightarrow> (verify_page, unit) act" where
  "verify_effect W token =
     (if \<not> truthy_string token then verify_set VE_error ''Invalid verification link''
      else catch_act
        (bind_act (post_call W (SignIn (VerifyEmail (the token)))) (\<lambda>result.
           if jtrue result ''success'' then verify_set VE_success ''Your email has been verified!''
           else verify_set VE_error (or_string (jstr result ''message'') ''Verification failed'')))
        (\<lambda>err. verify_set VE_error ''An error occurred during verification''))"

record logout_page = net +
  lo_location :: "string option"

definition performLogout :: "auth_world \<Rightarrow> auth_env \<Rightarrow> (logout_page, unit) act" where
  "performLogout W env =
     then_act
       (catch_act (bind_act (api_call (authApi_post W (SignIn Logout))) (\<lambda>_. return_act ())) (\<lambda>err. return_act ()))
       (set_act (lo_location_update (\<lambda>_. Some (getDefaultAppUrl env))))"

section \<open>Setup2FAPage\<close>

datatype setup_step = S_setup | S_verify | S_codes | S_complete

record setup_page = auth_state +
  sp_step :: setup_step
  sp_qrCodeDataUrl :: "string option"
  sp_secret :: "string option"
  sp_code :: string
  sp_recoveryCodes :: "json list"
  sp_isLoading :: bool
  sp_error :: "string option"

definition sp_init :: setup_page where
  "sp_init = auth_state.extend auth_init
     \<lparr>sp_step = S_setup, sp_qrCodeDataUrl = None, sp_secret = None, sp_code = [], sp_recoveryCodes = [],
      sp_isLoading = False, sp_error = None\<rparr>"

definition sp_report :: "js_throw \<Rightarrow> (setup_page, unit) act" where
  "sp_report err = (case err of Err n m \<Rightarrow> set_act (sp_error_update (\<lambda>_. Some m)) | NonError \<Rightarrow> return_act ())"

text \<open>\<open>toDataURL\<close> is the QR code library.\<close>

definition handleBeginSetup :: "auth_world \<Rightarrow> (string \<Rightarrow> string result) \<Rightarrow> (setup_page, unit) act" where
  "handleBeginSetup W toDataURL =
     then_act (set_act (\<lambda>s. s\<lparr>sp_isLoading := True, sp_error := None\<rparr>))
       (finally_act
         (catch_act
           (bind_act (post_call W (Account Begin2FASetup)) (\<lambda>data.
              if \<not> jtrue data ''success'' then throw_message data ''Failed to set up 2FA''
              else then_act
                (if truthy_string (jstr data ''qrCodeUri'')
                 then bind_act (lift_act (toDataURL (the (jstr data ''qrCodeUri''))))
                        (\<lambda>u. set_act (sp_qrCodeDataUrl_update (\<lambda>_. Some u)))
                 else return_act ())
                (set_act (\<lambda>s. s\<lparr>sp_secret := (if truthy_string (jstr data ''secret'') then jstr data ''secret'' else None),
                                sp_step := S_verify\<rparr>))))
           sp_report)
         (sp_isLoading_update (\<lambda>_. False)))"

definition json_list :: "json option \<Rightarrow> json list" where
  "json_list j = (case j of Some (JArr xs) \<Rightarrow> xs | _ \<Rightarrow> [])"

definition handleVerify :: "auth_world \<Rightarrow> (setup_page, unit) act" where
  "handleVerify W s =
     (if trim (sp_code s) = [] then return_act ()
      else then_act (set_act (\<lambda>s. s\<lparr>sp_isLoading := True, sp_error := None\<rparr>))
        (finally_act
          (catch_act
            (bind_act (post_call W (Account (Confirm2FASetup (trim (sp_code s))))) (\<lambda>data.
               if \<not> jtrue data ''success'' then throw_message data ''Verification failed''
               else then_act
                 (set_act (\<lambda>s. s\<lparr>sp_recoveryCodes := json_list (jget data ''recoveryCodes''), sp_step := S_codes\<rparr>))
                 (refreshUser W)))
            sp_report)
          (sp_isLoading_update (\<lambda>_. False)))) s"

definition handleContinue :: "(setup_page, unit) act" where
  "handleContinue = set_act (sp_step_update (\<lambda>_. S_complete))"

section \<open>Every form comes back\<close>

text \<open>Each form fulfils the contract of \<open>submit_handler\<close>.\<close>

interpretation login_form: submit_handler "handleLogin W" lp_isLoading for W
  by (rule submit_handlerI) (simp add: handleLogin_def form_simps)

interpretation passkey_form: submit_handler "handlePasskeyLogin W a" lp_isPasskeyLoading for W a
  by (rule submit_handlerI)
    (simp add: handlePasskeyLogin_def form_simps return_act_def split: js_throw.splits)

interpretation two_factor_form: submit_handler "handle2faVerify W c r" lp_is2faLoading for W c r
  by (rule submit_handlerI)
    (simp add: handle2faVerify_def form_simps return_act_def split: js_throw.splits)

interpretation signup_form: submit_handler "handleSignup W" su_isLoading for W
  by (rule submit_handlerI) (simp add: handleSignup_def form_simps)

interpretation forgot_form: submit_handler "forgot_handleSubmit W" fp_isLoading for W
  by (rule submit_handlerI) (simp add: forgot_handleSubmit_def form_simps)

interpretation reset_form: submit_handler "reset_handleSubmit W token" rp_isLoading for W token
  by (rule submit_handlerI) (simp add: reset_handleSubmit_def form_simps)

lemma sp_report_result [form_simps]: "snd (sp_report err w) = Inr ()"
  by (cases err) (simp_all add: sp_report_def set_act_def return_act_def)

interpretation setup_begin_form: submit_handler "handleBeginSetup W qr" sp_isLoading for W qr
  by (rule submit_handlerI) (simp add: handleBeginSetup_def form_simps)

interpretation setup_verify_form: submit_handler "handleVerify W" sp_isLoading for W
  by (rule submit_handlerI) (simp add: handleVerify_def form_simps return_act_def)

section \<open>Setting up the second factor\<close>

text \<open>The steps the page offers: each handler belongs to the button of one step.\<close>

inductive setup_rel :: "auth_world \<Rightarrow> (string \<Rightarrow> string result) \<Rightarrow> setup_page \<Rightarrow> setup_page \<Rightarrow> bool" for W qr where
  setup_begin: "sp_step s = S_setup \<Longrightarrow> setup_rel W qr s (fst (handleBeginSetup W qr s))"
| setup_type: "sp_step s = S_verify \<Longrightarrow> setup_rel W qr s (s\<lparr>sp_code := c\<rparr>)"
| setup_confirm: "sp_step s = S_verify \<Longrightarrow> setup_rel W qr s (fst (handleVerify W s))"
| setup_continue: "sp_step s = S_codes \<Longrightarrow> setup_rel W qr s (fst (handleContinue s))"

text \<open>
  A secret is known only after the setup has begun, and recovery codes only after the server
  confirmed a code.
\<close>

definition setup_inv :: "setup_page \<Rightarrow> bool" where
  "setup_inv s \<longleftrightarrow>
     (sp_step s = S_setup \<longrightarrow> sp_secret s = None) \<and>
     (sp_recoveryCodes s \<noteq> [] \<longrightarrow> sp_step s = S_codes \<or> sp_step s = S_complete)"

text \<open>The state a passed code leads to, and the predicate the calls in between keep.\<close>

definition setup_confirmed :: "auth_world \<Rightarrow> setup_page \<Rightarrow> bool" where
  "setup_confirmed W s \<longleftrightarrow> trim (sp_code s) \<noteq> [] \<and>
     (case post_answer W (Account (Confirm2FASetup (trim (sp_code s)))) s of
        Inl e \<Rightarrow> False | Inr data \<Rightarrow> jtrue data ''success'')"

lemma setup_after_post [simp]:
  "sp_step (after_post W c s) = sp_step s" "sp_secret (after_post W c s) = sp_secret s"
  "sp_recoveryCodes (after_post W c s) = sp_recoveryCodes s" "sp_code (after_post W c s) = sp_code s"
  by (simp_all add: after_post_def Let_def)

lemma setup_refresh [simp]:
  "sp_step (fst (refreshUser W s)) = sp_step s" "sp_secret (fst (refreshUser W s)) = sp_secret s"
  "sp_recoveryCodes (fst (refreshUser W s)) = sp_recoveryCodes s"
  by (auto simp: refreshUser_def finally_act_def catch_act_def bind_act_def api_call_def set_act_def
      split: prod.splits sum.splits)

lemma post_answer_setup [simp]:
  "post_answer W c (s\<lparr>sp_isLoading := l\<rparr>) = post_answer W c s"
  "post_answer W c (s\<lparr>sp_error := e\<rparr>) = post_answer W c s"
  by (simp_all add: post_answer_def after_post_def Let_def)

lemma sp_report_fields [simp]:
  "sp_step (fst (sp_report err s)) = sp_step s" "sp_secret (fst (sp_report err s)) = sp_secret s"
  "sp_recoveryCodes (fst (sp_report err s)) = sp_recoveryCodes s"
  by (cases err; simp add: sp_report_def set_act_def return_act_def)+

text \<open>The page after \<^verbatim>\<open>handleVerify\<close>, by the server's answer.\<close>

definition verify_call :: "setup_page \<Rightarrow> auth_call" where
  "verify_call s = Account (Confirm2FASetup (trim (sp_code s)))"

lemma handleVerify_cases:
  fixes W :: auth_world
  assumes t: "trim (sp_code s) \<noteq> []"
  defines "s1 \<equiv> after_post W (verify_call s) (s\<lparr>sp_isLoading := True, sp_error := None\<rparr>)"
  shows "post_answer W (verify_call s) s = Inl e \<Longrightarrow>
      fst (handleVerify W s) = (fst (sp_report e s1))\<lparr>sp_isLoading := False\<rparr>"
    and "post_answer W (verify_call s) s = Inr data \<Longrightarrow> \<not> jtrue data ''success'' \<Longrightarrow>
      fst (handleVerify W s) =
        (fst (sp_report (Error (or_string (jstr data ''message'') ''Verification failed'')) s1))\<lparr>sp_isLoading := False\<rparr>"
    and "post_answer W (verify_call s) s = Inr data \<Longrightarrow> jtrue data ''success'' \<Longrightarrow>
      fst (handleVerify W s) =
        (fst (refreshUser W (s1\<lparr>sp_recoveryCodes := json_list (jget data ''recoveryCodes''), sp_step := S_codes\<rparr>)))
          \<lparr>sp_isLoading := False\<rparr>"
proof -
  let ?s0 = "s\<lparr>sp_isLoading := True, sp_error := None\<rparr>"
  have a: "post_call W (verify_call s) ?s0 = (s1, post_answer W (verify_call s) s)"
    by (simp add: post_call_run s1_def)
  have r: "snd (refreshUser W v) = Inr ()" for v :: setup_page using refreshUser_run by blast
  let ?body = "bind_act (post_call W (verify_call s)) (\<lambda>data.
      if \<not> jtrue data ''success'' then throw_message data ''Verification failed''
      else then_act (set_act (\<lambda>s. s\<lparr>sp_recoveryCodes := json_list (jget data ''recoveryCodes''), sp_step := S_codes\<rparr>))
             (refreshUser W))"
  have h: "fst (handleVerify W s) = (fst (catch_act ?body sp_report ?s0))\<lparr>sp_isLoading := False\<rparr>"
    using t by (simp add: handleVerify_def form_simps verify_call_def)
  show "fst (handleVerify W s) = (fst (sp_report e s1))\<lparr>sp_isLoading := False\<rparr>"
    if "post_answer W (verify_call s) s = Inl e"
    using that h a by (simp add: bind_act_def catch_act_def)
  show "fst (handleVerify W s) =
        (fst (sp_report (Error (or_string (jstr data ''message'') ''Verification failed'')) s1))\<lparr>sp_isLoading := False\<rparr>"
    if "post_answer W (verify_call s) s = Inr data" "\<not> jtrue data ''success''"
    using that h a by (simp add: bind_act_def catch_act_def throw_message_def throw_act_def)
  show "fst (handleVerify W s) =
        (fst (refreshUser W (s1\<lparr>sp_recoveryCodes := json_list (jget data ''recoveryCodes''), sp_step := S_codes\<rparr>)))
          \<lparr>sp_isLoading := False\<rparr>"
    if d: "post_answer W (verify_call s) s = Inr data" "jtrue data ''success''"
  proof -
    have b: "?body ?s0 = refreshUser W (s1\<lparr>sp_recoveryCodes := json_list (jget data ''recoveryCodes''), sp_step := S_codes\<rparr>)"
      using d a by (simp add: bind_act_def [of "post_call W (verify_call s)"] form_simps)
    then have "catch_act ?body sp_report ?s0 = ?body ?s0" using r by (intro catch_act_run(2)) simp
    with b h show ?thesis by simp
  qed
qed

lemma handleVerify_step:
  "sp_step (fst (handleVerify W s)) = (if setup_confirmed W s then S_codes else sp_step s)"
  "sp_secret (fst (handleVerify W s)) = sp_secret s"
  "\<not> setup_confirmed W s \<Longrightarrow> sp_recoveryCodes (fst (handleVerify W s)) = sp_recoveryCodes s"
proof -
  have "sp_step (fst (handleVerify W s)) = (if setup_confirmed W s then S_codes else sp_step s) \<and>
    sp_secret (fst (handleVerify W s)) = sp_secret s \<and>
    (\<not> setup_confirmed W s \<longrightarrow> sp_recoveryCodes (fst (handleVerify W s)) = sp_recoveryCodes s)"
  proof (cases "trim (sp_code s) = []")
    case True
    then show ?thesis by (simp add: handleVerify_def return_act_def setup_confirmed_def)
  next
    case False
    show ?thesis
    proof (cases "post_answer W (verify_call s) s")
      case (Inl e)
      with handleVerify_cases(1) [OF False Inl] show ?thesis
        by (simp add: setup_confirmed_def verify_call_def)
    next
      case (Inr data)
      with handleVerify_cases(2,3) [OF False Inr] False show ?thesis
        by (cases "jtrue data ''success''") (simp_all add: setup_confirmed_def verify_call_def)
    qed
  qed
  then show "sp_step (fst (handleVerify W s)) = (if setup_confirmed W s then S_codes else sp_step s)"
    "sp_secret (fst (handleVerify W s)) = sp_secret s"
    "\<not> setup_confirmed W s \<Longrightarrow> sp_recoveryCodes (fst (handleVerify W s)) = sp_recoveryCodes s"
    by blast+
qed

text \<open>What all blocks of \<^verbatim>\<open>handleBeginSetup\<close> keep.\<close>

definition before_codes :: "setup_page \<Rightarrow> bool" where
  "before_codes s \<longleftrightarrow> (sp_step s = S_setup \<longrightarrow> sp_secret s = None) \<and> sp_recoveryCodes s = []"

lemma begin_keeps: "leaves before_codes before_codes (handleBeginSetup W qr)"
proof -
  have "leaves before_codes before_codes (sp_report err)" for err
    by (auto simp: sp_report_def before_codes_def intro!: act_intros split: js_throw.splits)
  then show ?thesis
    unfolding handleBeginSetup_def
    by (intro act_intros) (auto simp: before_codes_def)
qed

lemma setup_rel_inv: "setup_rel W qr s t \<Longrightarrow> setup_inv s \<Longrightarrow> setup_inv t"
proof (induction rule: setup_rel.induct)
  case (setup_begin s)
  then have "before_codes s" by (auto simp: setup_inv_def before_codes_def)
  from leavesD [OF begin_keeps this, of W qr] show ?case by (auto simp: setup_inv_def before_codes_def)
next
  case (setup_type s c)
  then show ?case by (simp add: setup_inv_def)
next
  case (setup_confirm s)
  then show ?case
    by (cases "setup_confirmed W s") (auto simp: setup_inv_def handleVerify_step)
next
  case (setup_continue s)
  then show ?case by (simp add: setup_inv_def handleContinue_def set_act_def)
qed

interpretation setup_machine: safe_machine "(=) sp_init" "setup_rel W qr" setup_inv for W qr
proof
  show "sp_init = s \<Longrightarrow> setup_inv s" for s
    by (auto simp: setup_inv_def sp_init_def auth_state.defs)
  show "setup_inv s \<Longrightarrow> setup_rel W qr s t \<Longrightarrow> setup_inv t" for s t
    by (rule setup_rel_inv)
qed

section \<open>Properties\<close>

text \<open>
  Recovery codes appear only after the server confirmed a code, and the secret only after
  the setup has begun, in every state the page can reach; and a submitted code leads to the
  codes step exactly when it is not blank and the server accepts it, and otherwise changes
  neither the step nor the secret.
\<close>

theorem two_factor_setup_order:
  assumes "reachable ((=) sp_init) (setup_rel W qr) s"
  shows "(sp_recoveryCodes s = [] \<or> sp_step s = S_codes \<or> sp_step s = S_complete) \<and>
    (sp_step s \<noteq> S_setup \<or> sp_secret s = None) \<and>
    sp_step (fst (handleVerify W s)) = (if setup_confirmed W s then S_codes else sp_step s) \<and>
    sp_secret (fst (handleVerify W s)) = sp_secret s"
  using setup_machine.inv_reachable [OF assms] handleVerify_step by (auto simp: setup_inv_def)

theorem two_factor_setup_order_witness:
  "sp_recoveryCodes (fst (handleBeginSetup demo_world Inr sp_init)) = [] \<or>
     sp_step (fst (handleBeginSetup demo_world Inr sp_init)) = S_codes \<or>
     sp_step (fst (handleBeginSetup demo_world Inr sp_init)) = S_complete"
proof -
  have "setup_rel demo_world Inr sp_init (fst (handleBeginSetup demo_world Inr sp_init))"
    by (rule setup_begin) (simp add: sp_init_def auth_state.defs)
  with reach_init [of "(=) sp_init"]
  have "reachable ((=) sp_init) (setup_rel demo_world Inr) (fst (handleBeginSetup demo_world Inr sp_init))"
    by (auto intro: reach_step)
  from two_factor_setup_order [OF this] show ?thesis by blast
qed

text \<open>
  C35: asking for a password reset tells the visitor nothing about the account. Whatever the
  server and the network do, the page ends in the same state: success, no error, idle.
\<close>

theorem forgot_password_reveals_nothing:
  "let t = fst (forgot_handleSubmit W s)
   in snd (forgot_handleSubmit W s) = Inr () \<and>
      (fp_email t, fp_isLoading t, fp_error t, fp_success t) = (fp_email s, False, None, True)"
proof -
  have e: "fp_email (after_post W c v) = fp_email v" "fp_error (after_post W c v) = fp_error v" for c v
    by (simp_all add: after_post_def Let_def)
  show ?thesis
    by (simp add: forgot_handleSubmit_def form_simps Let_def catch_act_def bind_act_def post_call_run e
        split: sum.splits)
qed

text \<open>
  A password leaves the browser only when it is strong and confirmed. The check accepts
  exactly the passwords of at least twelve characters in one line with a lower-case letter,
  an upper-case letter and a digit; signing up sends the registration when it passes and the
  confirmation is equal, and nothing at all otherwise.
\<close>

theorem signup_sends_only_strong_passwords:
  "validatePassword p =
     (12 \<le> length p \<and> list_all (\<lambda>c. \<not> line_terminator c) p \<and> list_ex (in_range CHR ''a'' CHR ''z'') p \<and>
      list_ex (in_range CHR ''A'' CHR ''Z'') p \<and> list_ex (in_range CHR ''0'' CHR ''9'') p) \<and>
   sent (fst (handleSignup W s)) =
     (if validatePassword (su_password s) \<and> su_password s = su_confirmPassword s
      then sent (after_post W (SignIn (Register (su_email s) (su_password s) (su_firstName s) (su_lastName s))) s)
      else sent s)"
proof -
  have t: "takeWhile (\<lambda>c. \<not> line_terminator c) p = p" if "list_all (\<lambda>c. \<not> line_terminator c) p"
    using that by (simp add: list_all_iff takeWhile_eq_all_conv)
  have l: "sent (after_post W c (s\<lparr>su_isLoading := a, su_error := b\<rparr>)) = sent (after_post W c s)" for c a b
    by (simp add: after_post_def Let_def)
  have "validatePassword p = (12 \<le> length p \<and> list_all (\<lambda>c. \<not> line_terminator c) p \<and>
      list_ex (in_range CHR ''a'' CHR ''z'') p \<and> list_ex (in_range CHR ''A'' CHR ''Z'') p \<and>
      list_ex (in_range CHR ''0'' CHR ''9'') p)"
  proof (cases "list_all (\<lambda>c. \<not> line_terminator c) p")
    case True
    then show ?thesis by (simp only: validatePassword_def lookahead_def t [OF True]) blast
  next
    case False
    then show ?thesis by (simp add: validatePassword_def)
  qed
  moreover have "sent (fst (handleSignup W s)) =
     (if validatePassword (su_password s) \<and> su_password s = su_confirmPassword s
      then sent (after_post W (SignIn (Register (su_email s) (su_password s) (su_firstName s) (su_lastName s))) s)
      else sent s)"
    by (auto simp: handleSignup_def form_simps catch_act_def bind_act_def post_call_run l split: sum.splits)
  ultimately show ?thesis by blast
qed

text \<open>
  No form of the sign-in screens can get stuck. Password login, passkey login, second
  factor, sign-up, password reset and both steps of the second-factor setup return without an
  unhandled rejection and, however often they are submitted, leave their form idle.
\<close>

theorem sign_in_forms_return_to_idle:
  "snd (handleLogin W l) = Inr () \<and> snd (handlePasskeyLogin W a l) = Inr () \<and>
   snd (handle2faVerify W c r l) = Inr () \<and> snd (handleSignup W su) = Inr () \<and>
   snd (reset_handleSubmit W t rp) = Inr () \<and> snd (handleBeginSetup W qr sp) = Inr () \<and>
   snd (handleVerify W sp) = Inr () \<and>
   \<not> lp_isLoading (((\<lambda>v. fst (handleLogin W v)) ^^ Suc n) l) \<and>
   \<not> lp_isPasskeyLoading (((\<lambda>v. fst (handlePasskeyLogin W a v)) ^^ Suc n) l) \<and>
   \<not> lp_is2faLoading (((\<lambda>v. fst (handle2faVerify W c r v)) ^^ Suc n) l) \<and>
   \<not> su_isLoading (((\<lambda>v. fst (handleSignup W v)) ^^ Suc n) su) \<and>
   \<not> sp_isLoading (((\<lambda>v. fst (handleBeginSetup W qr v)) ^^ Suc n) sp)"
  by (simp add: login_form.result passkey_form.result two_factor_form.result signup_form.result
      reset_form.result setup_begin_form.result setup_verify_form.result)
    (simp add: handleLogin_def handlePasskeyLogin_def handle2faVerify_def handleSignup_def
      handleBeginSetup_def form_simps)

end
