(* ===== verification/Security_Screens.thy ===== *)
theory Security_Screens
  imports Sign_In_Screens
begin

text \<open>
  The screens of \<^verbatim>\<open>sites/auth-adb-software-solutions/src\<close> behind the sign-in:
  SetupPasskeyPage, SecuritySettingsPage, OAuthConsentPage and ConnectedApplications.

  A handler of SecuritySettingsPage reads the lists of passkeys and sessions of the rendering
  it was created in; that list is an argument of the handler (\<open>captured\<close>), so that a
  handler can be run in a later state than the one its list comes from.
\<close>

section \<open>Registering a passkey\<close>

definition without :: "string list \<Rightarrow> json \<Rightarrow> (string \<times> json) list" where
  "without ks j = (case j of JObj kvs \<Rightarrow> filter (\<lambda>(k, v). k \<notin> set ks) kvs | _ \<Rightarrow> [])"

definition registration_of_json :: "json \<Rightarrow> registration_json" where
  "registration_of_json j =
     \<lparr>rg_challenge = jstr j ''challenge'',
      rg_user = map_option (\<lambda>u. \<lparr>uj_id = jstr u ''id'', uj_name = jstr u ''name'',
         uj_displayName = jstr u ''displayName'', uj_rest = without [''id'', ''name'', ''displayName''] u\<rparr>) (jget j ''user''),
      rg_rp = map_option (\<lambda>r. \<lparr>rj_id = jstr r ''id'', rj_name = jstr r ''name''\<rparr>) (jget j ''rp''),
      rg_pubKeyCredParams = jget j ''pubKeyCredParams'',
      rg_excludeCredentials = creds_of_json (jget j ''excludeCredentials''),
      rg_rest = without [''challenge'', ''user'', ''rp'', ''pubKeyCredParams'', ''excludeCredentials''] j\<rparr>"

type_synonym attestor = "creation_options \<Rightarrow> attestation_credential option result"

text \<open>The two calls around the authenticator, the same in both screens.\<close>

definition register_passkey :: "auth_world \<Rightarrow> attestor \<Rightarrow> string \<Rightarrow> ('b auth_state_scheme, unit) act" where
  "register_passkey W authenticator name =
     bind_act (post_call W (Passkey (BeginPasskeyRegistration name))) (\<lambda>beginData.
       if \<not> jtrue beginData ''success'' \<or> \<not> truthy (jget beginData ''options'')
       then throw_message beginData ''Failed to start registration''
       else bind_act (lift_act (ceremony_options (jget beginData ''options''))) (\<lambda>options.
         bind_act
           (\<lambda>s. case createPasskey authenticator (registration_of_json options) (ceremony_state s)
                of (cs, r) \<Rightarrow> (s\<lparr>ceremony_state := cs\<rparr>, r))
           (\<lambda>credential. bind_act (post_call W (Passkey (CompletePasskeyRegistration credential))) (\<lambda>completeData.
              if \<not> jtrue completeData ''success'' then throw_message completeData ''Failed to register passkey''
              else return_act ()))))"

record setup_passkey_page = auth_state +
  pp_passkeyName :: string
  pp_isRegistering :: bool
  pp_error :: "string option"
  pp_success :: bool

text \<open>A cancelled ceremony is not an error.\<close>

definition handleRegister :: "auth_world \<Rightarrow> attestor \<Rightarrow> (setup_passkey_page, unit) act" where
  "handleRegister W authenticator s =
     (if trim (pp_passkeyName s) = [] then
        set_act (pp_error_update (\<lambda>_. Some ''Please enter a name for your passkey''))
      else then_act (set_act (\<lambda>s. s\<lparr>pp_isRegistering := True, pp_error := None\<rparr>))
        (finally_act
          (catch_act
            (then_act (register_passkey W authenticator (trim (pp_passkeyName s)))
              (then_act (set_act (pp_success_update (\<lambda>_. True))) (refreshUser W)))
            (\<lambda>err. case err of
               Err n m \<Rightarrow> (if n \<noteq> ''NotAllowedError''
                  then set_act (pp_error_update (\<lambda>_. Some (or_string (Some m) ''Failed to register passkey'')))
                  else return_act ())
             | NonError \<Rightarrow> return_act ()))
          (pp_isRegistering_update (\<lambda>_. False)))) s"

section \<open>SecuritySettingsPage\<close>

datatype section_tab = Tab_passkeys | Tab_2fa | Tab_password | Tab_sessions

record security_page = auth_state +
  ss_activeSection :: section_tab
  ss_passkeys :: "json list"
  ss_isLoadingPasskeys :: bool
  ss_passkeyName :: string
  ss_isRegistering :: bool
  ss_passkeyError :: "string option"
  ss_passkeySuccess :: "string option"
  ss_has2fa :: bool
  ss_twoFaError :: "string option"
  ss_currentPassword :: string
  ss_newPassword :: string
  ss_confirmPassword :: string
  ss_isChangingPassword :: bool
  ss_passwordError :: "string option"
  ss_passwordSuccess :: "string option"
  ss_sessions :: "json list"
  ss_isLoadingSessions :: bool
  ss_sessionError :: "string option"
  ss_sessionSuccess :: "string option"
  ss_isRevokingAll :: bool

text \<open>A read whose body is used: the body \<^verbatim>\<open>null\<close> throws.\<close>

definition read_call :: "(string option \<Rightarrow> request list \<Rightarrow> string option \<times> (request list \<times> json result)) \<Rightarrow>
    ('b net_scheme, json) act" where
  "read_call f = bind_act (api_call f) (\<lambda>data. lift_act (non_null data))"

definition loadPasskeys :: "auth_world \<Rightarrow> (security_page, unit) act" where
  "loadPasskeys W =
     finally_act
       (catch_act
         (bind_act (read_call (getPasskeys W)) (\<lambda>data.
            if jtrue data ''success'' \<and> truthy (jget data ''passkeys'')
            then set_act (ss_passkeys_update (\<lambda>_. json_list (jget data ''passkeys'')))
            else return_act ()))
         (\<lambda>err. set_act (ss_passkeyError_update (\<lambda>_. Some ''Failed to load passkeys''))))
       (ss_isLoadingPasskeys_update (\<lambda>_. False))"

definition load2faStatus :: "auth_world \<Rightarrow> (security_page, unit) act" where
  "load2faStatus W =
     catch_act
       (bind_act (read_call (get2FAStatus W)) (\<lambda>data.
          if jtrue data ''success'' then set_act (ss_has2fa_update (\<lambda>_. jtrue data ''enabled''))
          else return_act ()))
       (\<lambda>err. set_act (ss_twoFaError_update (\<lambda>_. Some ''Failed to load 2FA status'')))"

definition loadSessions :: "auth_world \<Rightarrow> (security_page, unit) act" where
  "loadSessions W =
     finally_act
       (catch_act
         (bind_act (read_call (getSessions W)) (\<lambda>data.
            if jtrue data ''success'' \<and> truthy (jget data ''sessions'')
            then set_act (ss_sessions_update (\<lambda>_. json_list (jget data ''sessions'')))
            else return_act ()))
         (\<lambda>err. set_act (ss_sessionError_update (\<lambda>_. Some ''Failed to load sessions''))))
       (ss_isLoadingSessions_update (\<lambda>_. False))"

definition handleAddPasskey :: "auth_world \<Rightarrow> attestor \<Rightarrow> (security_page, unit) act" where
  "handleAddPasskey W authenticator s =
     (if trim (ss_passkeyName s) = [] then
        set_act (ss_passkeyError_update (\<lambda>_. Some ''Please enter a name for your passkey''))
      else then_act (set_act (\<lambda>s. s\<lparr>ss_isRegistering := True, ss_passkeyError := None, ss_passkeySuccess := None\<rparr>))
        (finally_act
          (catch_act
            (then_act (register_passkey W authenticator (trim (ss_passkeyName s)))
              (then_act (set_act (\<lambda>s. s\<lparr>ss_passkeySuccess := Some ''Passkey added successfully!'', ss_passkeyName := []\<rparr>))
                (bind_act (read_call (getPasskeys W)) (\<lambda>data.
                   if jtrue data ''success'' \<and> truthy (jget data ''passkeys'')
                   then set_act (ss_passkeys_update (\<lambda>_. json_list (jget data ''passkeys'')))
                   else return_act ()))))
            (\<lambda>err. case err of
               Err n m \<Rightarrow> (if n \<noteq> ''NotAllowedError''
                  then set_act (ss_passkeyError_update (\<lambda>_. Some (or_string (Some m) ''Failed to add passkey'')))
                  else return_act ())
             | NonError \<Rightarrow> return_act ()))
          (ss_isRegistering_update (\<lambda>_. False)))) s"

definition has_id :: "string \<Rightarrow> json \<Rightarrow> bool" where
  "has_id i j \<longleftrightarrow> jget j ''id'' = Some (JStr i)"

text \<open>\<open>confirmed\<close> is the answer to the browser's dialog.\<close>

definition handleDeletePasskey :: "auth_world \<Rightarrow> json list \<Rightarrow> bool \<Rightarrow> string \<Rightarrow> (security_page, unit) act" where
  "handleDeletePasskey W captured confirmed passkeyId =
     (if \<not> confirmed then return_act ()
      else catch_act
        (bind_act (post_call W (Passkey (DeletePasskey passkeyId))) (\<lambda>data.
           if jtrue data ''success''
           then set_act (\<lambda>s. s\<lparr>ss_passkeys := filter (\<lambda>p. \<not> has_id passkeyId p) captured,
                              ss_passkeySuccess := Some ''Passkey deleted''\<rparr>)
           else throw_message data ''Failed to delete passkey''))
        (\<lambda>err. case err of Err n m \<Rightarrow> set_act (ss_passkeyError_update (\<lambda>_. Some m)) | NonError \<Rightarrow> return_act ()))"

definition handleChangePassword :: "auth_world \<Rightarrow> (security_page, unit) act" where
  "handleChangePassword W s =
     then_act (set_act (\<lambda>s. s\<lparr>ss_passwordError := None, ss_passwordSuccess := None\<rparr>))
       (if ss_newPassword s \<noteq> ss_confirmPassword s then
          set_act (ss_passwordError_update (\<lambda>_. Some ''Passwords do not match''))
        else if length (ss_newPassword s) < 12 then
          set_act (ss_passwordError_update (\<lambda>_. Some ''Password must be at least 12 characters''))
        else
          then_act (set_act (ss_isChangingPassword_update (\<lambda>_. True)))
            (finally_act
              (catch_act
                (bind_act (post_call W (Account (ChangePassword (ss_currentPassword s) (ss_newPassword s)))) (\<lambda>data.
                   if jtrue data ''success''
                   then set_act (\<lambda>s. s\<lparr>ss_passwordSuccess := Some ''Password changed successfully'',
                          ss_currentPassword := [], ss_newPassword := [], ss_confirmPassword := []\<rparr>)
                   else throw_message data ''Failed to change password''))
                (\<lambda>err. case err of Err n m \<Rightarrow> set_act (ss_passwordError_update (\<lambda>_. Some m)) | NonError \<Rightarrow> return_act ()))
              (ss_isChangingPassword_update (\<lambda>_. False)))) s"

definition handleRevokeSession :: "auth_world \<Rightarrow> json list \<Rightarrow> bool \<Rightarrow> string \<Rightarrow> (security_page, unit) act" where
  "handleRevokeSession W captured confirmed sessionId =
     (if \<not> confirmed then return_act ()
      else then_act (set_act (\<lambda>s. s\<lparr>ss_sessionError := None, ss_sessionSuccess := None\<rparr>))
       (catch_act
        (bind_act (post_call W (Account (RevokeSession sessionId))) (\<lambda>data.
           if jtrue data ''success''
           then set_act (\<lambda>s. s\<lparr>ss_sessions := filter (\<lambda>x. \<not> has_id sessionId x) captured,
                              ss_sessionSuccess := Some ''Device logged out successfully''\<rparr>)
           else throw_message data ''Failed to log out device''))
        (\<lambda>err. case err of Err n m \<Rightarrow> set_act (ss_sessionError_update (\<lambda>_. Some m)) | NonError \<Rightarrow> return_act ())))"

text \<open>\<open>data.revoked_count || 0\<close>.\<close>

definition revoked_count :: "json \<Rightarrow> string" where
  "revoked_count data = (case jget data ''revoked_count'' of Some (JNum n) \<Rightarrow> int_str n | _ \<Rightarrow> ''0'')"

definition handleRevokeAllSessions :: "auth_world \<Rightarrow> json list \<Rightarrow> bool \<Rightarrow> (security_page, unit) act" where
  "handleRevokeAllSessions W captured confirmed =
     (if \<not> confirmed then return_act ()
      else then_act (set_act (\<lambda>s. s\<lparr>ss_isRevokingAll := True, ss_sessionError := None, ss_sessionSuccess := None\<rparr>))
       (finally_act
        (catch_act
         (bind_act (post_call W (Account RevokeAllSessions)) (\<lambda>data.
           if jtrue data ''success''
           then set_act (\<lambda>s. s\<lparr>ss_sessions := filter (\<lambda>x. jtrue x ''is_current'') captured,
                              ss_sessionSuccess := Some (''Logged out '' @ revoked_count data @ '' device(s) successfully'')\<rparr>)
           else throw_message data ''Failed to log out devices''))
         (\<lambda>err. case err of Err n m \<Rightarrow> set_act (ss_sessionError_update (\<lambda>_. Some m)) | NonError \<Rightarrow> return_act ()))
        (ss_isRevokingAll_update (\<lambda>_. False))))"

datatype device_icon = PhoneIcon | TabletIcon | ComputerIcon

definition getDeviceIcon :: "string \<Rightarrow> device_icon" where
  "getDeviceIcon deviceType =
     (if deviceType = ''mobile'' then PhoneIcon else if deviceType = ''tablet'' then TabletIcon else ComputerIcon)"

text \<open>
  Milliseconds since the epoch; an unreadable date (\<open>None\<close>) fails every comparison. The
  localised date is the browser's.
\<close>

definition ago :: "int \<Rightarrow> string \<Rightarrow> string" where
  "ago n unit = int_str n @ '' '' @ unit @ (if n > 1 then ''s'' else []) @ '' ago''"

definition formatLastActivity :: "(int option \<Rightarrow> string) \<Rightarrow> int \<Rightarrow> int option \<Rightarrow> string" where
  "formatLastActivity toLocaleDateString now date =
     (case date of None \<Rightarrow> toLocaleDateString None
      | Some d \<Rightarrow>
         (let diffMs = now - d; diffMins = diffMs div 60000; diffHours = diffMins div 60; diffDays = diffHours div 24
          in if diffMins < 1 then ''Just now''
             else if diffMins < 60 then ago diffMins ''minute''
             else if diffHours < 24 then ago diffHours ''hour''
             else if diffDays < 7 then ago diffDays ''day''
             else toLocaleDateString (Some d)))"

section \<open>OAuthConsentPage\<close>

datatype consent_state =
    CS_loading | CS_error string | CS_forbidden | CS_ready "json option" | CS_redirecting

record consent_page = net +
  cp_requestId :: "string option"
  cp_state :: consent_state
  cp_isSubmitting :: bool
  cp_location :: "string option"

definition consent_init :: consent_page where
  "consent_init = \<lparr>stored_token = None, sent = [], cp_requestId = None, cp_state = CS_loading,
     cp_isSubmitting = False, cp_location = None\<rparr>"

definition ERROR_MESSAGES :: "(string \<times> string) list" where
  "ERROR_MESSAGES =
     [(''invalid_client'', ''This application is not registered or has been disabled.''),
      (''invalid_request'', ''This sign-in link is invalid. Start the connection again from the application.'')]"

text \<open>
  The effect of the mounted page. \<^verbatim>\<open>void promise.then(...)\<close> has no handler for a
  rejection, which the result here still shows.
\<close>

definition consent_mount :: "auth_world \<Rightarrow> params \<Rightarrow> (consent_page, unit) act" where
  "consent_mount W params =
     (let error = params_get params ''error''; i = params_get params ''request''
      in if truthy_string error then
           set_act (cp_state_update (\<lambda>_. CS_error
             (nullish (map_of ERROR_MESSAGES (the error))
               (nullish (params_get params ''error_description'')
                 ''The authorisation request could not be processed.''))))
         else if \<not> truthy_string i then
           set_act (cp_state_update (\<lambda>_. CS_error ''No authorisation request was supplied.''))
         else then_act (set_act (cp_requestId_update (\<lambda>_. i)))
           (bind_act (api_call (getAuthorizationRequest W (the i))) (\<lambda>result.
              case result of
                OAuth_ok req \<Rightarrow> set_act (cp_state_update (\<lambda>_. CS_ready req))
              | OAuth_forbidden \<Rightarrow> set_act (cp_state_update (\<lambda>_. CS_forbidden))
              | OAuth_error m \<Rightarrow> set_act (cp_state_update (\<lambda>_. CS_error m)))))"

definition decide :: "auth_world \<Rightarrow> bool \<Rightarrow> (consent_page, unit) act" where
  "decide W approve s =
     (if \<not> truthy_string (cp_requestId s) then return_act ()
      else then_act (set_act (cp_isSubmitting_update (\<lambda>_. True)))
        (bind_act (api_call (oauth_decide W (the (cp_requestId s)) approve)) (\<lambda>result.
           case result of
             OAuth_ok redirectTo \<Rightarrow>
               set_act (\<lambda>s. s\<lparr>cp_state := CS_redirecting, cp_location := Some (nullish redirectTo ''undefined'')\<rparr>)
           | OAuth_forbidden \<Rightarrow> set_act (\<lambda>s. s\<lparr>cp_isSubmitting := False, cp_state := CS_forbidden\<rparr>)
           | OAuth_error m \<Rightarrow> set_act (\<lambda>s. s\<lparr>cp_isSubmitting := False, cp_state := CS_error m\<rparr>)))) s"

section \<open>ConnectedApplications\<close>

record connected_apps = net +
  ca_grants :: "json list option"
  ca_hidden :: bool
  ca_error :: "string option"

text \<open>The list the cast promises; \<open>None\<close> stands for \<^verbatim>\<open>null\<close> and a missing list.\<close>

definition grants_of :: "json option \<Rightarrow> json list option" where
  "grants_of j = (case j of Some (JArr xs) \<Rightarrow> Some xs | _ \<Rightarrow> None)"

definition grants_mount :: "auth_world \<Rightarrow> (connected_apps, unit) act" where
  "grants_mount W =
     bind_act (api_call (listGrants W)) (\<lambda>result.
       case result of
         OAuth_ok gs \<Rightarrow> set_act (ca_grants_update (\<lambda>_. grants_of gs))
       | OAuth_forbidden \<Rightarrow> set_act (ca_hidden_update (\<lambda>_. True))
       | OAuth_error m \<Rightarrow> set_act (ca_error_update (\<lambda>_. Some m)))"

definition revoke :: "auth_world \<Rightarrow> bool \<Rightarrow> string \<Rightarrow> (connected_apps, unit) act" where
  "revoke W confirmed grantId =
     (if \<not> confirmed then return_act ()
      else then_act (set_act (ca_error_update (\<lambda>_. None)))
        (bind_act (api_call (revokeGrant W grantId)) (\<lambda>result.
           case result of
             OAuth_ok u \<Rightarrow> set_act (ca_grants_update (\<lambda>current.
               Some (filter (\<lambda>g. \<not> has_id grantId g) (nullish current []))))
           | OAuth_forbidden \<Rightarrow> set_act (ca_error_update (\<lambda>_. Some ''Failed to revoke access.''))
           | OAuth_error m \<Rightarrow> set_act (ca_error_update (\<lambda>_. Some m)))))"

section \<open>Forms come back, with one exception\<close>

interpretation register_form: submit_handler "handleRegister W a" pp_isRegistering for W a
  by (rule submit_handlerI)
    (simp add: handleRegister_def form_simps return_act_def split: js_throw.splits)

interpretation add_passkey_form: submit_handler "handleAddPasskey W a" ss_isRegistering for W a
  by (rule submit_handlerI)
    (simp add: handleAddPasskey_def form_simps return_act_def split: js_throw.splits)

interpretation change_password_form: submit_handler "handleChangePassword W" ss_isChangingPassword for W
  by (rule submit_handlerI)
    (simp add: handleChangePassword_def form_simps return_act_def split: js_throw.splits)

interpretation revoke_all_form: submit_handler "handleRevokeAllSessions W captured confirmed" ss_isRevokingAll
  for W captured confirmed
  by (rule submit_handlerI)
    (simp add: handleRevokeAllSessions_def form_simps return_act_def split: js_throw.splits)

section \<open>Properties\<close>

text \<open>
  The settings forms return to idle too, and without an unhandled rejection: registering
  and adding a passkey, changing the password, logging out all other devices, and the three
  loads of the mounted page.
\<close>

theorem settings_forms_return_to_idle:
  "snd (handleRegister W a p) = Inr () \<and> snd (handleAddPasskey W a s) = Inr () \<and>
   snd (handleChangePassword W s) = Inr () \<and> snd (handleRevokeAllSessions W captured yes s) = Inr () \<and>
   \<not> ss_isLoadingPasskeys (fst (loadPasskeys W s)) \<and> \<not> ss_isLoadingSessions (fst (loadSessions W s)) \<and>
   \<not> ss_isRevokingAll (((\<lambda>v. fst (handleRevokeAllSessions W captured True v)) ^^ Suc n) s)"
  by (simp add: register_form.result add_passkey_form.result change_password_form.result
      revoke_all_form.result loadPasskeys_def loadSessions_def form_simps)
    (simp add: handleRevokeAllSessions_def form_simps)

text \<open>
  The consent page is the exception. When the decision's request is rejected, or the
  response's body is \<^verbatim>\<open>null\<close>, the rejection is not handled and the page stays in
  its submitting state with both buttons disabled.
\<close>

theorem consent_decision_can_hang:
  "snd (snd (oauth_decide W i approve (stored_token s) (sent s))) = Inl e \<Longrightarrow>
   cp_requestId s = Some i \<Longrightarrow> i \<noteq> [] \<Longrightarrow>
   snd (decide W approve s) = Inl e \<and> cp_isSubmitting (fst (decide W approve s)) \<and>
   cp_state (fst (decide W approve s)) = cp_state s"
  by (cases "oauth_decide W i approve (stored_token s) (sent s)"; cases i)
    (simp_all add: decide_def form_simps bind_act_def api_call_def)

definition offline_world :: auth_world where
  "offline_world = \<lparr>w_server = (\<lambda>h r. Inl TypeError), w_cookies = (\<lambda>h. []), w_api = ''http://localhost:8000''\<rparr>"

theorem consent_decision_can_hang_witness:
  "cp_isSubmitting (fst (decide offline_world True (consent_init\<lparr>cp_requestId := Some ''r1'', cp_state := CS_ready None\<rparr>)))"
proof -
  let ?s = "consent_init\<lparr>cp_requestId := Some ''r1'', cp_state := CS_ready None\<rparr>"
  have r: "snd (snd (oauth_decide offline_world ''r1'' True (stored_token ?s) (sent ?s))) = Inl TypeError"
    by code_simp
  show ?thesis using consent_decision_can_hang [OF r] by simp
qed

text \<open>
  The texts for a session's last activity round down in whole units. Under a minute ago
  (or in the future) is "Just now"; minutes below an hour, hours below a day and days below a
  week are counted in full; anything older, or no date, is the localised date.
\<close>

theorem formatLastActivity_spec:
  "formatLastActivity f now (Some d) =
     (if now - d < 60000 then ''Just now''
      else if now - d < 3600000 then ago ((now - d) div 60000) ''minute''
      else if now - d < 86400000 then ago ((now - d) div 3600000) ''hour''
      else if now - d < 604800000 then ago ((now - d) div 86400000) ''day''
      else f (Some d))"
proof -
  let ?d = "now - d"
  have h: "?d div 60000 div 60 = ?d div 3600000" "?d div 60000 div 60 div 24 = ?d div 86400000"
    by (simp_all flip: zdiv_zmult2_eq)
  have "?d div 60000 < 1 \<longleftrightarrow> ?d < 60000" "?d div 60000 < 60 \<longleftrightarrow> ?d < 3600000"
    "?d div 3600000 < 24 \<longleftrightarrow> ?d < 86400000" "?d div 86400000 < 7 \<longleftrightarrow> ?d < 604800000"
    by linarith+
  with h show ?thesis by (simp add: formatLastActivity_def Let_def)
qed

lemma delete_success:
  assumes "post_answer W (Passkey (DeletePasskey i)) s = Inr data" and "jtrue data ''success''"
  shows "ss_passkeys (fst (handleDeletePasskey W captured True i s)) = filter (\<lambda>p. \<not> has_id i p) captured"
  using assms by (simp add: handleDeletePasskey_def catch_act_def bind_act_def post_call_run set_act_def)

text \<open>
  Deleting two passkeys at once brings the first one back on the page. Each handler
  filters the list of the rendering it was created in, so when a second deletion with the
  same list ends after the first, the first passkey is shown again although the server has
  deleted it.
\<close>

theorem overlapping_deletes_resurrect:
  assumes "post_answer W (Passkey (DeletePasskey i)) s = Inr d1" and "jtrue d1 ''success''"
    and "post_answer W (Passkey (DeletePasskey j)) (fst (handleDeletePasskey W ps True i s)) = Inr d2"
    and "jtrue d2 ''success''" and "p \<in> set ps" and "has_id i p" and "i \<noteq> j"
  shows "p \<notin> set (ss_passkeys (fst (handleDeletePasskey W ps True i s))) \<and>
    p \<in> set (ss_passkeys (fst (handleDeletePasskey W ps True j (fst (handleDeletePasskey W ps True i s)))))"
  using assms delete_success [OF assms(1,2), of ps] delete_success [OF assms(3,4), of ps]
  by (auto simp: has_id_def)

definition two_passkeys :: "json list" where
  "two_passkeys = [JObj [(''id'', JStr ''a'')], JObj [(''id'', JStr ''b'')]]"

definition yes_world :: auth_world where
  "yes_world = \<lparr>w_server = (\<lambda>h r. Inr \<lparr>status = 200, json_body = Inr (JObj [(''success'', JBool True)]), resp_headers = []\<rparr>),
     w_cookies = (\<lambda>h. []), w_api = ''http://localhost:8000''\<rparr>"

definition security_demo :: security_page where
  "security_demo = auth_state.extend auth_init
     \<lparr>ss_activeSection = Tab_passkeys, ss_passkeys = two_passkeys, ss_isLoadingPasskeys = False,
      ss_passkeyName = [], ss_isRegistering = False, ss_passkeyError = None, ss_passkeySuccess = None,
      ss_has2fa = False, ss_twoFaError = None, ss_currentPassword = [], ss_newPassword = [],
      ss_confirmPassword = [], ss_isChangingPassword = False, ss_passwordError = None,
      ss_passwordSuccess = None, ss_sessions = [], ss_isLoadingSessions = False, ss_sessionError = None,
      ss_sessionSuccess = None, ss_isRevokingAll = False\<rparr>"

lemma yes_answer: "post_answer yes_world c s = Inr (JObj [(''success'', JBool True)])"
  by (simp add: post_answer_def yes_world_def Let_def non_null_def)

theorem overlapping_deletes_resurrect_witness:
  "JObj [(''id'', JStr ''a'')] \<in> set (ss_passkeys (fst (handleDeletePasskey yes_world two_passkeys True ''b''
     (fst (handleDeletePasskey yes_world two_passkeys True ''a'' security_demo)))))"
  using overlapping_deletes_resurrect [OF yes_answer _ yes_answer, of "JObj [(''id'', JStr ''a'')]" two_passkeys "''a''" "''b''" security_demo]
  by (simp add: two_passkeys_def has_id_def jtrue_def)

text \<open>
  The consent page's events: the mounted effect, and a decision with one of the two buttons,
  which are drawn in the ready state and disabled while a decision is under way.
\<close>

inductive consent_rel :: "auth_world \<Rightarrow> params \<Rightarrow> consent_page \<Rightarrow> consent_page \<Rightarrow> bool" for W ps where
  consent_load: "s = consent_init \<Longrightarrow> consent_rel W ps s (fst (consent_mount W ps s))"
| consent_decide: "cp_state s = CS_ready r \<Longrightarrow> \<not> cp_isSubmitting s \<Longrightarrow> consent_rel W ps s (fst (decide W approve s))"

definition consent_inv :: "consent_page \<Rightarrow> bool" where
  "consent_inv s \<longleftrightarrow>
     (case cp_location s of None \<Rightarrow> cp_state s \<noteq> CS_redirecting
      | Some u \<Rightarrow> cp_state s = CS_redirecting \<and> cp_isSubmitting s)"

lemma consent_mount_facts:
  "cp_location (fst (consent_mount W ps s)) = cp_location s"
  "cp_isSubmitting (fst (consent_mount W ps s)) = cp_isSubmitting s"
  "cp_state s \<noteq> CS_redirecting \<Longrightarrow> cp_state (fst (consent_mount W ps s)) \<noteq> CS_redirecting"
  by (auto simp: consent_mount_def Let_def form_simps bind_act_def api_call_def
      split: prod.splits sum.splits oauth_result.splits)

lemma decide_facts:
  assumes "cp_state s \<noteq> CS_redirecting" and "cp_location s = None"
  shows "consent_inv (fst (decide W approve s))"
  using assms
  by (auto simp: consent_inv_def decide_def return_act_def form_simps bind_act_def api_call_def
      split: prod.splits sum.splits oauth_result.splits)

interpretation consent_machine: safe_machine "(=) consent_init" "consent_rel W ps" consent_inv for W ps
proof
  show "consent_init = s \<Longrightarrow> consent_inv s" for s
    by (auto simp: consent_inv_def consent_init_def)
  show "consent_inv t" if "consent_inv s" "consent_rel W ps s t" for s t
    using that(2,1)
  proof (induction rule: consent_rel.induct)
    case (consent_load s)
    then show ?case by (simp add: consent_inv_def consent_mount_facts consent_init_def)
  next
    case (consent_decide s r approve)
    then show ?case by (intro decide_facts) (auto simp: consent_inv_def split: option.splits)
  qed
qed

text \<open>
  The consent page sends the browser away only after a decision the server accepted, and
  then stays in its redirecting state with no second decision possible.
\<close>

theorem consent_navigates_only_after_decision:
  assumes "reachable ((=) consent_init) (consent_rel W ps) s" and "cp_location s = Some u"
  shows "cp_state s = CS_redirecting \<and> cp_isSubmitting s \<and> \<not> consent_rel W ps s t"
  using consent_machine.inv_reachable [OF assms(1)] assms(2)
  by (auto simp: consent_inv_def consent_init_def elim!: consent_rel.cases)

definition consent_world :: auth_world where
  "consent_world = \<lparr>w_server = (\<lambda>h r. Inr \<lparr>status = 200,
       json_body = Inr (JObj [(''success'', JBool True), (''redirect_to'', JStr ''https://client.example/cb'')]),
       resp_headers = []\<rparr>),
     w_cookies = (\<lambda>h. []), w_api = ''http://localhost:8000''\<rparr>"

definition consent_ready :: consent_page where
  "consent_ready = fst (consent_mount consent_world [(''request'', ''r1'')] consent_init)"

lemma consent_demo:
  "cp_state consent_ready = CS_ready None"
  "cp_isSubmitting consent_ready = False"
  "cp_location (fst (decide consent_world True consent_ready)) = Some ''https://client.example/cb''"
  by code_simp+

theorem consent_navigates_only_after_decision_witness:
  "cp_state (fst (decide consent_world True consent_ready)) = CS_redirecting"
proof -
  let ?r = "consent_rel consent_world [(''request'', ''r1'')]"
  have "reachable ((=) consent_init) ?r consent_init" by (rule reach_init) simp
  then have "reachable ((=) consent_init) ?r consent_ready"
    unfolding consent_ready_def by (rule reach_step) (rule consent_load, simp)
  then have "reachable ((=) consent_init) ?r (fst (decide consent_world True consent_ready))"
    by (rule reach_step) (rule consent_decide [OF consent_demo(1)], simp add: consent_demo(2))
  from consent_navigates_only_after_decision [OF this consent_demo(3)] show ?thesis by blast
qed

lemma no_credential_result:
  assumes "r = Inl e \<or> r = Inr None"
  shows "\<exists>e'. snd (createPasskey (\<lambda>opt. r) opts cs) = Inl e'"
  using assms by (auto simp: createPasskey_def Let_def ceremony_result_def and_then_def split: prod.splits sum.splits)

lemma register_passkey_fails:
  assumes "r = Inl e \<or> r = Inr None"
  shows "\<exists>cs e'. register_passkey W (\<lambda>opt. r) name s =
    ((after_post W (Passkey (BeginPasskeyRegistration name)) s)\<lparr>ceremony_state := cs\<rparr>, Inl e')"
proof -
  let ?t = "after_post W (Passkey (BeginPasskeyRegistration name)) s"
  have same: "?t = ?t\<lparr>ceremony_state := ceremony_state ?t\<rparr>" by simp
  show ?thesis
  proof (cases "post_answer W (Passkey (BeginPasskeyRegistration name)) s")
    case (Inl e')
    then have "register_passkey W (\<lambda>opt. r) name s = (?t, Inl e')"
      by (simp add: register_passkey_def bind_act_def post_call_run)
    with same show ?thesis by metis
  next
    case (Inr data)
    show ?thesis
    proof (cases "jtrue data ''success'' \<and> truthy (jget data ''options'')")
      case False
      with Inr have "\<exists>e'. register_passkey W (\<lambda>opt. r) name s = (?t, Inl e')"
        by (auto simp: register_passkey_def bind_act_def post_call_run throw_message_def throw_act_def)
      with same show ?thesis by metis
    next
      case True
      show ?thesis
      proof (cases "ceremony_options (jget data ''options'')")
        case (Inl e')
        with Inr True have "register_passkey W (\<lambda>opt. r) name s = (?t, Inl e')"
          by (simp add: register_passkey_def bind_act_def post_call_run lift_act_def)
        with same show ?thesis by metis
      next
        case (Inr options)
        obtain cs x where c: "createPasskey (\<lambda>opt. r) (registration_of_json options) (ceremony_state ?t) = (cs, x)"
          by (cases "createPasskey (\<lambda>opt. r) (registration_of_json options) (ceremony_state ?t)")
        then obtain e' where "x = Inl e'"
          using no_credential_result [OF assms, of "registration_of_json options" "ceremony_state ?t"] by auto
        with c Inr True \<open>post_answer W _ s = Inr data\<close>
        have "register_passkey W (\<lambda>opt. r) name s = (?t\<lparr>ceremony_state := cs\<rparr>, Inl e')"
          by (simp add: register_passkey_def bind_act_def post_call_run lift_act_def)
        then show ?thesis by blast
      qed
    qed
  qed
qed

lemma passkey_page_fields [simp]:
  "pp_success (after_post W c s) = pp_success s"
  "sent (after_post W c (s\<lparr>pp_isRegistering := a, pp_error := b\<rparr>)) = sent (after_post W c s)"
  by (simp_all add: after_post_def Let_def)

lemma handleRegister_fails:
  assumes "r = Inl e \<or> r = Inr None"
  shows "pp_success (fst (handleRegister W (\<lambda>opt. r) s)) = pp_success s \<and>
    sent (fst (handleRegister W (\<lambda>opt. r) s)) =
      (if trim (pp_passkeyName s) = [] then sent s
       else sent (after_post W (Passkey (BeginPasskeyRegistration (trim (pp_passkeyName s)))) s))"
proof (cases "trim (pp_passkeyName s) = []")
  case True
  then show ?thesis by (simp add: handleRegister_def set_act_def)
next
  case False
  obtain cs e' where "register_passkey W (\<lambda>opt. r) (trim (pp_passkeyName s)) (s\<lparr>pp_isRegistering := True, pp_error := None\<rparr>) =
      ((after_post W (Passkey (BeginPasskeyRegistration (trim (pp_passkeyName s)))) (s\<lparr>pp_isRegistering := True, pp_error := None\<rparr>))
         \<lparr>ceremony_state := cs\<rparr>, Inl e')"
    using register_passkey_fails [OF assms] by blast
  with False show ?thesis
    by (auto simp: handleRegister_def form_simps catch_act_def then_act_def [of "register_passkey _ _ _"] bind_act_def
        set_act_def return_act_def split: js_throw.splits)
qed

text \<open>
  A passkey is reported as added only if the authenticator made one. When the ceremony is
  rejected or yields no credential, the page does not report success and nothing is sent
  after the request for options, whatever the server answers; without a name nothing is sent
  at all.
\<close>

theorem no_credential_no_passkey:
  "pp_success (fst (handleRegister W (\<lambda>opt. Inl e) s)) = pp_success s \<and>
   pp_success (fst (handleRegister W (\<lambda>opt. Inr None) s)) = pp_success s \<and>
   sent (fst (handleRegister W (\<lambda>opt. Inl e) s)) =
     (if trim (pp_passkeyName s) = [] then sent s
      else sent (after_post W (Passkey (BeginPasskeyRegistration (trim (pp_passkeyName s)))) s)) \<and>
   sent (fst (handleRegister W (\<lambda>opt. Inr None) s)) = sent (fst (handleRegister W (\<lambda>opt. Inl e) s))"
  using handleRegister_fails [of "Inl e" e W s] handleRegister_fails [of "Inr None" e W s] by auto

end
