(* ===== verification/Public_Api.thy ===== *)
theory Public_Api
  imports Js_Url Js_Net
begin

text \<open>
  \<^verbatim>\<open>packages/api-client/src/public/index.ts\<close>: the requests for public content, and
  \<^verbatim>\<open>apiOptions\<close>/\<^verbatim>\<open>optionalCollection\<close> of
  \<^verbatim>\<open>packages/ui/src/public/server.ts\<close> through which the public sites make them.

  The content itself is JSON whose shape the code's casts assert. The time limit of a request
  shows as a rejected \<^verbatim>\<open>fetch\<close> or body, which the server parameter covers.
\<close>

text \<open>A query: its members in the order they are written, each possibly \<^verbatim>\<open>undefined\<close>.\<close>

datatype query_field =
    Page "nat option" | PageSize "nat option" | Category "string option" | Query "string option"
  | Service "string option" | Featured "bool option"

type_synonym CollectionQuery = "query_field list"

definition bool_str :: "bool \<Rightarrow> string" where
  "bool_str b = (if b then ''true'' else ''false'')"

fun field_param :: "query_field \<Rightarrow> string \<times> string option" where
  "field_param (Page n) = (''page'', map_option nat_str n)"
| "field_param (PageSize n) = (''page_size'', map_option nat_str n)"
| "field_param (Category s) = (''category'', s)"
| "field_param (Query s) = (''q'', s)"
| "field_param (Service s) = (''service'', s)"
| "field_param (Featured b) = (''featured'', map_option bool_str b)"

record PublicApiOptions =
  baseUrl :: string
  opt_brand :: string

text \<open>\<^verbatim>\<open>PublicContentError\<close>.\<close>

definition PublicContentError :: "nat \<Rightarrow> js_throw" where
  "PublicContentError n = Err ''PublicContentError'' (''Public content request failed ('' @ nat_str n @ '').'')"

lemma PublicContentError_inject [simp]: "PublicContentError m = PublicContentError n \<longleftrightarrow> m = n"
  by (simp add: PublicContentError_def)

type_synonym host_parser = "string \<Rightarrow> string option"

definition publicApiUrl :: "host_parser \<Rightarrow> string \<Rightarrow> PublicApiOptions \<Rightarrow> params \<Rightarrow> url result" where
  "publicApiUrl canon path options query =
     (case parse_url canon (strip_slash (baseUrl options) @ ''/api/public/'' @ path) of
        None \<Rightarrow> Inl TypeError
      | Some url \<Rightarrow> Inr (foldl (\<lambda>u (key, v). url_set key v u) (url_set ''brand'' (opt_brand options) url) query))"

definition content_request :: "url \<Rightarrow> request" where
  "content_request url = \<lparr>req_url = href url, req_method = ''GET'', req_headers = [], req_body = NoBody,
     req_credentials = ''omit''\<rparr>"

definition fetchPublicContent :: "server \<Rightarrow> url \<Rightarrow> json io" where
  "fetchPublicContent srv url =
     bind_io (catch_io (fetch srv (content_request url)) (\<lambda>e. throw_io (PublicContentError 503))) (\<lambda>response.
       if \<not> ok response then throw_io (PublicContentError (status response))
       else lift_io (json_body response))"

text \<open>The entries of the query that are not \<^verbatim>\<open>undefined\<close>, printed.\<close>

definition query_params :: "CollectionQuery \<Rightarrow> params" where
  "query_params query = [(k, v). (k, Some v) \<leftarrow> map field_param query]"

definition getCollection :: "host_parser \<Rightarrow> server \<Rightarrow> string \<Rightarrow> PublicApiOptions \<Rightarrow> CollectionQuery \<Rightarrow> json io" where
  "getCollection canon srv resource options query =
     bind_io (lift_io (publicApiUrl canon (''collections/'' @ resource) options (query_params query)))
       (fetchPublicContent srv)"

definition getBlogPost :: "host_parser \<Rightarrow> server \<Rightarrow> string \<Rightarrow> PublicApiOptions \<Rightarrow> json io" where
  "getBlogPost canon srv slug options =
     bind_io (lift_io (publicApiUrl canon (''blog/posts/'' @ encodeURIComponent slug) options []))
       (fetchPublicContent srv)"

definition getPortfolio :: "host_parser \<Rightarrow> server \<Rightarrow> string \<Rightarrow> PublicApiOptions \<Rightarrow> json io" where
  "getPortfolio canon srv slug options =
     bind_io (lift_io (publicApiUrl canon (''portfolio/'' @ encodeURIComponent slug) options []))
       (fetchPublicContent srv)"

definition getCategories :: "host_parser \<Rightarrow> server \<Rightarrow> PublicApiOptions \<Rightarrow> json io" where
  "getCategories canon srv options =
     bind_io (lift_io (publicApiUrl canon ''blog/categories'' options [])) (fetchPublicContent srv)"

section \<open>The sites' side\<close>

record public_env =
  API_INTERNAL_URL :: "string option"
  PUBLIC_API_URL :: "string option"
  production :: bool

definition apiOptions :: "public_env \<Rightarrow> string \<Rightarrow> PublicApiOptions" where
  "apiOptions env brand =
     \<lparr>baseUrl = or_string (API_INTERNAL_URL env) (or_string (PUBLIC_API_URL env)
        (if production env then ''https://api.adbsoftwaresolutions.co.uk'' else ''http://localhost:8000'')),
      opt_brand = brand\<rparr>"

text \<open>The surroundings of a public site.\<close>

record public_world =
  pw_server :: server
  pw_canon :: host_parser
  pw_env :: public_env

record collection =
  c_available :: bool
  c_items :: "json list"
  c_total :: nat
  c_page :: nat
  c_page_size :: nat

definition json_items :: "json option \<Rightarrow> json list" where
  "json_items j = (case j of Some (JArr xs) \<Rightarrow> xs | _ \<Rightarrow> [])"

definition json_nat :: "json option \<Rightarrow> nat" where
  "json_nat j = (case j of Some (JNum n) \<Rightarrow> nat n | _ \<Rightarrow> 0)"

text \<open>\<^verbatim>\<open>{available: true, ...body}\<close>.\<close>

definition available_collection :: "json \<Rightarrow> collection" where
  "available_collection body =
     \<lparr>c_available = (case jget body ''available'' of None \<Rightarrow> True | Some v \<Rightarrow> truthy (Some v)),
      c_items = json_items (jget body ''items''), c_total = json_nat (jget body ''total''),
      c_page = json_nat (jget body ''page''), c_page_size = json_nat (jget body ''page_size'')\<rparr>"

text \<open>\<open>query.page || 1\<close>.\<close>

definition or_nat :: "nat option \<Rightarrow> nat \<Rightarrow> nat" where
  "or_nat a b = (case a of None \<Rightarrow> b | Some n \<Rightarrow> if n = 0 then b else n)"

definition query_page :: "CollectionQuery \<Rightarrow> nat option" where
  "query_page query = (case [n. Page n \<leftarrow> query] of [] \<Rightarrow> None | n # ns \<Rightarrow> n)"

definition query_page_size :: "CollectionQuery \<Rightarrow> nat option" where
  "query_page_size query = (case [n. PageSize n \<leftarrow> query] of [] \<Rightarrow> None | n # ns \<Rightarrow> n)"

definition unavailable_collection :: "CollectionQuery \<Rightarrow> collection" where
  "unavailable_collection query =
     \<lparr>c_available = False, c_items = [], c_total = 0, c_page = or_nat (query_page query) 1,
      c_page_size = or_nat (query_page_size query) 9\<rparr>"

definition optionalCollection :: "public_world \<Rightarrow> string \<Rightarrow> string \<Rightarrow> CollectionQuery \<Rightarrow> collection io" where
  "optionalCollection w resource brand query =
     catch_io
       (bind_io (getCollection (pw_canon w) (pw_server w) resource (apiOptions (pw_env w) brand) query)
         (\<lambda>body. return_io (available_collection body)))
       (\<lambda>e. return_io (unavailable_collection query))"

section \<open>Lemmas\<close>

text \<open>What every request for public content looks like.\<close>

definition public_request :: "string \<Rightarrow> request \<Rightarrow> bool" where
  "public_request brand r \<longleftrightarrow>
     req_method r = ''GET'' \<and> req_credentials r = ''omit'' \<and> req_headers r = [] \<and> req_body r = NoBody \<and>
     (\<exists>u. req_url r = href u \<and> params_get (u_params u) ''brand'' = Some brand \<and>
        length (filter (\<lambda>p. fst p = ''brand'') (u_params u)) = 1)"

lemma params_set_other: "k \<noteq> b \<Longrightarrow> filter (\<lambda>p. fst p = b) (params_set k v ps) = filter (\<lambda>p. fst p = b) ps"
proof (induction ps)
  case Nil
  then show ?case by simp
next
  case (Cons p ps)
  have "filter (\<lambda>p. fst p = b) (filter (\<lambda>p. fst p \<noteq> k) ps) = filter (\<lambda>p. fst p = b) ps" if "k \<noteq> b"
    using that unfolding filter_filter by (intro filter_cong) auto
  with Cons show ?case by (cases p) (auto simp del: filter_filter)
qed

lemma set_params_brand:
  assumes "list_all (\<lambda>kv. fst kv \<noteq> ''brand'') query"
  shows "filter (\<lambda>p. fst p = ''brand'') (u_params (foldl (\<lambda>u (key, v). url_set key v u) u query)) =
      filter (\<lambda>p. fst p = ''brand'') (u_params u)"
    and "params_get (u_params (foldl (\<lambda>u (key, v). url_set key v u) u query)) ''brand'' =
      params_get (u_params u) ''brand''"
  using assms by (induction query arbitrary: u) (auto simp: url_set_def params_set_other params_get_set)

lemma publicApiUrl_brand:
  assumes "publicApiUrl canon path options query = Inr u" and "list_all (\<lambda>kv. fst kv \<noteq> ''brand'') query"
  shows "params_get (u_params u) ''brand'' = Some (opt_brand options)"
    and "length (filter (\<lambda>p. fst p = ''brand'') (u_params u)) = 1"
  using assms(1) set_params_brand [OF assms(2)] params_set_count [of "''brand''" "opt_brand options"]
  by (auto simp: publicApiUrl_def url_set_def params_get_set split: option.splits)

lemma query_params_brand: "list_all (\<lambda>kv. fst kv \<noteq> ''brand'') (query_params q)"
proof -
  have "fst (field_param f) \<noteq> ''brand''" for f by (cases f) auto
  then show ?thesis by (auto simp: query_params_def list_all_iff split: prod.splits option.splits) (metis fst_conv)
qed

lemma sends_fetch_content [sends_intros]:
  "P (content_request u) \<Longrightarrow> sends P (fetchPublicContent srv u)"
  unfolding fetchPublicContent_def by (intro sends_intros)

lemma sends_url [sends_intros]:
  "(\<And>u. r = Inr u \<Longrightarrow> sends P (f u)) \<Longrightarrow> sends P (bind_io (lift_io r) f)"
  by (cases r) (auto simp: sends_def bind_io_def lift_io_def)

lemma content_request_public:
  assumes "publicApiUrl canon path options query = Inr u" and "list_all (\<lambda>kv. fst kv \<noteq> ''brand'') query"
  shows "public_request (opt_brand options) (content_request u)"
  unfolding public_request_def content_request_def using publicApiUrl_brand [OF assms] by auto

lemma content_sends:
  "list_all (\<lambda>kv. fst kv \<noteq> ''brand'') query \<Longrightarrow> sends (public_request (opt_brand options))
     (bind_io (lift_io (publicApiUrl canon path options query)) (fetchPublicContent srv))"
  by (rule sends_url, rule sends_fetch_content, rule content_request_public)

lemma getCollection_sends [sends_intros]:
  "sends (public_request (opt_brand options)) (getCollection canon srv resource options query)"
  unfolding getCollection_def by (rule content_sends) (rule query_params_brand)

lemma item_calls_send [sends_intros]:
  "sends (public_request (opt_brand options)) (getBlogPost canon srv slug options)"
  "sends (public_request (opt_brand options)) (getPortfolio canon srv slug options)"
  "sends (public_request (opt_brand options)) (getCategories canon srv options)"
  unfolding getBlogPost_def getPortfolio_def getCategories_def by (rule content_sends; simp)+

lemma optionalCollection_sends [sends_intros]:
  "sends (public_request brand) (optionalCollection w resource brand query)"
proof -
  have "opt_brand (apiOptions (pw_env w) brand) = brand" by (simp add: apiOptions_def)
  then have "sends (public_request brand) (getCollection (pw_canon w) (pw_server w) resource (apiOptions (pw_env w) brand) query)"
    by (metis getCollection_sends)
  then show ?thesis unfolding optionalCollection_def by (intro sends_intros)
qed

text \<open>An optional collection is a value, never an exception.\<close>

lemma optionalCollection_total [succeeds_intros]: "succeeds (optionalCollection w resource brand query)"
  unfolding optionalCollection_def by (intro succeeds_intros)

lemma optionalCollection_cases:
  "snd (optionalCollection w resource brand query h) =
     (case snd (getCollection (pw_canon w) (pw_server w) resource (apiOptions (pw_env w) brand) query h) of
        Inl e \<Rightarrow> Inr (unavailable_collection query)
      | Inr body \<Rightarrow> Inr (available_collection body))"
  by (auto simp: optionalCollection_def catch_io_def bind_io_def return_io_def split: prod.splits sum.splits)

text \<open>With the CMS unreachable.\<close>

definition offline :: "js_throw \<Rightarrow> public_world \<Rightarrow> public_world" where
  "offline e w = w\<lparr>pw_server := (\<lambda>h r. Inl e)\<rparr>"

lemma offline_content:
  "snd (bind_io (lift_io u) (fetchPublicContent (pw_server (offline e w))) h) =
     (case u of Inl x \<Rightarrow> Inl x | Inr v \<Rightarrow> Inl (PublicContentError 503))"
  by (cases u)
    (simp_all add: fetchPublicContent_def bind_io_def lift_io_def catch_io_def fetch_def throw_io_def offline_def)

lemma offline_optional:
  "snd (optionalCollection (offline e w) resource brand query h) = Inr (unavailable_collection query)"
  using offline_content unfolding optionalCollection_cases getCollection_def by (auto split: sum.splits)

end
