(* ===== verification/Js_Number.thy ===== *)
theory Js_Number
  imports Js_Prelude
begin

text \<open>
  \<^verbatim>\<open>Number(text)\<close> and the printing of numbers, as the modelled code uses them on
  query parameters. A number is \<^verbatim>\<open>NaN\<close>, an infinity, or an exact decimal
  \<^term>\<open>m / 10 ^ k\<close> with \<open>k\<close> as small as possible. Doubles agree with these exact values up
  to fifteen significant digits, which is the range the model is meant for; the exponent
  notation that printing uses from \<^verbatim>\<open>1e21\<close> on is left out.
\<close>

datatype number = NaN | Infinity bool | Dec int nat

text \<open>The decimal with trailing zeros of the fraction removed.\<close>

fun dec :: "int \<Rightarrow> nat \<Rightarrow> number" where
  "dec m 0 = Dec m 0"
| "dec m (Suc k) = (if m mod 10 = 0 then dec (m div 10) k else Dec m (Suc k))"

text \<open>\<open>m * 10 ^ e\<close>.\<close>

definition scaled :: "int \<Rightarrow> int \<Rightarrow> number" where
  "scaled m e = (if 0 \<le> e then Dec (m * 10 ^ nat e) 0 else dec m (nat (- e)))"

definition split_sign :: "string \<Rightarrow> int \<times> string" where
  "split_sign s = (case s of c # r \<Rightarrow> (if c = CHR ''-'' then (- 1, r) else if c = CHR ''+'' then (1, r) else (1, s))
     | [] \<Rightarrow> (1, s))"

text \<open>The exponent part: nothing, or \<^verbatim>\<open>e\<close> and a signed integer.\<close>

definition exponent_part :: "string \<Rightarrow> int option" where
  "exponent_part s = (case s of [] \<Rightarrow> Some 0
     | c # r \<Rightarrow> (if c = CHR ''e'' \<or> c = CHR ''E'' then
          (case split_sign r of (g, ds) \<Rightarrow>
            if ds \<noteq> [] \<and> list_all is_digit ds then Some (g * int (digits_val ds)) else None)
        else None))"

text \<open>An unsigned decimal literal.\<close>

definition decimal_literal :: "int \<Rightarrow> string \<Rightarrow> number" where
  "decimal_literal g s =
     (let a = takeWhile is_digit s; r = dropWhile is_digit s;
          (b, r') = (if startsWith r ''.'' then (takeWhile is_digit (tl r), dropWhile is_digit (tl r)) else ([], r))
      in if a = [] \<and> b = [] then NaN
         else (case exponent_part r' of None \<Rightarrow> NaN
               | Some e \<Rightarrow> scaled (g * int (digits_val (a @ b))) (e - int (length b))))"

definition radix_digit :: "nat \<Rightarrow> char \<Rightarrow> nat option" where
  "radix_digit b c =
     (let n = (of_char c :: nat);
          d = (if 48 \<le> n \<and> n \<le> 57 then n - 48 else if 97 \<le> n \<and> n \<le> 102 then n - 87
               else if 65 \<le> n \<and> n \<le> 70 then n - 55 else 99)
      in if d < b then Some d else None)"

definition radix_literal :: "nat \<Rightarrow> string \<Rightarrow> number" where
  "radix_literal b s =
     (if s = [] \<or> list_ex (\<lambda>c. radix_digit b c = None) s then NaN
      else Dec (foldl (\<lambda>n c. n * int b + int (the (radix_digit b c))) 0 s) 0)"

definition js_Number :: "string \<Rightarrow> number" where
  "js_Number text =
     (let s = trim text
      in if s = [] then Dec 0 0
         else if startsWith (toLowerCase s) ''0x'' then radix_literal 16 (drop 2 s)
         else if startsWith (toLowerCase s) ''0o'' then radix_literal 8 (drop 2 s)
         else if startsWith (toLowerCase s) ''0b'' then radix_literal 2 (drop 2 s)
         else (case split_sign s of (g, r) \<Rightarrow>
           if r = ''Infinity'' then Infinity (g = 1) else decimal_literal g r))"

definition isInteger :: "number \<Rightarrow> bool" where
  "isInteger n = (case n of Dec m k \<Rightarrow> k = 0 | _ \<Rightarrow> False)"

text \<open>\<open>n > i\<close>.\<close>

definition num_gt :: "number \<Rightarrow> int \<Rightarrow> bool" where
  "num_gt n i = (case n of NaN \<Rightarrow> False | Infinity p \<Rightarrow> p | Dec m k \<Rightarrow> m > i * 10 ^ k)"

definition pad_left :: "nat \<Rightarrow> string \<Rightarrow> string" where
  "pad_left k s = replicate (k - length s) CHR ''0'' @ s"

definition number_str :: "number \<Rightarrow> string" where
  "number_str n = (case n of
      NaN \<Rightarrow> ''NaN'' | Infinity p \<Rightarrow> (if p then ''Infinity'' else ''-Infinity'')
    | Dec m k \<Rightarrow> (if k = 0 then int_str m
        else (if m < 0 then ''-'' else []) @ nat_str (nat \<bar>m\<bar> div 10 ^ k) @ ''.'' @ pad_left k (nat_str (nat \<bar>m\<bar> mod 10 ^ k))))"

text \<open>What is printed for an integer is read back.\<close>

lemma nat_str_head: "\<exists>c s. nat_str n = c # s \<and> is_digit c"
  using nat_str_digits [of _ n] nat_str_nonempty [of n] by (cases "nat_str n") auto

lemma digit_not_space: "is_digit c \<Longrightarrow> \<not> js_space c"
  by (auto simp: is_digit_def js_space_def)

lemma trim_nat_str: "trim (nat_str n) = nat_str n"
proof (rule trim_id)
  have "hd (nat_str n) \<in> set (nat_str n)" "last (nat_str n) \<in> set (nat_str n)"
    by (simp_all add: hd_in_set last_in_set)
  then show "nat_str n = [] \<or> \<not> js_space (hd (nat_str n)) \<and> \<not> js_space (last (nat_str n))"
    by (blast dest: nat_str_digits digit_not_space)
qed

lemma radix_prefix:
  assumes "\<not> is_digit x" and "x \<notin> set (map lower_char s)"
  shows "\<not> startsWith (toLowerCase s) [CHR ''0'', x]"
  using assms by (auto simp: toLowerCase_def prefix_def dest: arg_cong [of _ _ set])

lemma lower_digits: "map lower_char (nat_str n) = nat_str n"
  by (rule map_idI) (auto simp: lower_char_def is_digit_def Let_def dest: nat_str_digits)

lemma js_Number_nat_str: "js_Number (nat_str n) = Dec (int n) 0"
proof -
  obtain c s where cs: "nat_str n = c # s" "is_digit c" using nat_str_head by blast
  have sg: "split_sign (nat_str n) = (1, nat_str n)"
    using cs by (auto simp: split_sign_def is_digit_def)
  have no: "\<not> startsWith (toLowerCase (nat_str n)) [CHR ''0'', x]" if "\<not> is_digit x" for x
    using that nat_str_no_char [OF that, of n] by (intro radix_prefix) (simp_all add: lower_digits)
  have i: "nat_str n \<noteq> ''Infinity''" using cs by (auto simp: is_digit_def)
  have t: "takeWhile is_digit (nat_str n) = nat_str n" "dropWhile is_digit (nat_str n) = []"
    using nat_str_digits [of _ n] by (auto simp: takeWhile_eq_all_conv)
  have "decimal_literal 1 (nat_str n) = Dec (int n) 0"
    by (simp add: decimal_literal_def t exponent_part_def scaled_def)
  with no [of "CHR ''x''"] no [of "CHR ''o''"] no [of "CHR ''b''"] sg i show ?thesis
    by (simp add: js_Number_def trim_nat_str Let_def is_digit_def)
qed

lemma number_str_int [simp]: "number_str (Dec m 0) = int_str m"
  by (simp add: number_str_def)

end
