(* ===== verification/Public_Site.thy ===== *)
theory Public_Site
  imports Public_Api Js_Number
begin

text \<open>
  \<^verbatim>\<open>packages/ui/src/public/server.ts\<close>: the metadata, structured data, home page
  content and sitemap of the three public sites, computed from the site's own copy and from
  what the CMS answers.

  The memoisation of React's \<^verbatim>\<open>cache\<close> is left out. The em dash in an image's
  alternative text is outside the model's characters, so that text is kept as the pair it
  joins. CMS items are JSON of the shape the casts assert.
\<close>

section \<open>The site's own copy\<close>

record copy_entry =
  en_slug :: string
  en_title :: string
  en_description :: string

record page_copy = copy_entry +
  en_noindex :: bool

record public_site =
  ps_brand :: string
  ps_name :: string
  ps_domain :: string
  ps_description :: string
  ps_services :: "copy_entry list"
  ps_areas :: "copy_entry list"
  ps_pages :: "page_copy list"
  ps_contact_title :: string
  ps_contact_introduction :: string

section \<open>Home page\<close>

text \<open>The four collections are requested together, in this order; the fallback comes last.\<close>

definition homeContent :: "public_world \<Rightarrow> public_site \<Rightarrow> (collection \<times> collection \<times> collection \<times> collection) io" where
  "homeContent w site =
     (let get = (\<lambda>resource. optionalCollection w resource (ps_brand site)) in
      bind_io (get ''portfolio'' [PageSize (Some 2), Featured (Some True)]) (\<lambda>featured.
      bind_io (get ''blog'' [PageSize (Some 2)]) (\<lambda>articles.
      bind_io (get ''testimonials'' [PageSize (Some 2)]) (\<lambda>testimonials.
      bind_io (get ''faqs'' [PageSize (Some 4)]) (\<lambda>faqs.
      bind_io (if c_total featured \<noteq> 0 then return_io featured
               else get ''portfolio'' [PageSize (Some 2)]) (\<lambda>work.
      return_io (work, articles, testimonials, faqs)))))))"

section \<open>Metadata\<close>

record metadata =
  md_title :: "string option"
  md_description :: "string option"
  md_canonical :: string
  md_index :: bool
  md_follow :: bool
  og_type :: string
  og_locale :: string
  og_url :: string
  og_siteName :: string
  og_title :: "string option"
  og_description :: "string option"
  og_image :: string
  og_image_size :: "nat \<times> nat"
  og_image_alt :: "string \<times> string"
  tw_card :: string
  tw_title :: "string option"
  tw_description :: "string option"
  tw_image :: string
  og_publishedTime :: "json option"
  og_modifiedTime :: "json option"

text \<open>A title that is \<^verbatim>\<open>undefined\<close> prints as that word in a template.\<close>

definition pageMetadata :: "public_site \<Rightarrow> string option \<Rightarrow> string option \<Rightarrow> string \<Rightarrow> bool \<Rightarrow> metadata" where
  "pageMetadata site title description path noindex =
     (let canonical = ps_domain site @ path;
          social = ps_domain site @ ''/social?title='' @ encodeURIComponent (nullish title ''undefined'')
      in \<lparr>md_title = title, md_description = description, md_canonical = canonical, md_index = (\<not> noindex),
          md_follow = True, og_type = ''website'', og_locale = ''en_GB'', og_url = canonical,
          og_siteName = ps_name site, og_title = title, og_description = description, og_image = social,
          og_image_size = (1200, 630), og_image_alt = (nullish title ''undefined'', ps_name site),
          tw_card = ''summary_large_image'', tw_title = title, tw_description = description, tw_image = social,
          og_publishedTime = None, og_modifiedTime = None\<rparr>)"

record site_metadata =
  sm_page :: metadata
  sm_title_default :: string
  sm_title_template :: string
  sm_base :: url
  sm_applicationName :: string

definition siteMetadata :: "host_parser \<Rightarrow> public_site \<Rightarrow> site_metadata result" where
  "siteMetadata canon site =
     (case parse_url canon (ps_domain site) of None \<Rightarrow> Inl TypeError
      | Some base \<Rightarrow> Inr \<lparr>sm_page = pageMetadata site (Some (ps_name site)) (Some (ps_description site)) ''/'' False,
          sm_title_default = ps_name site, sm_title_template = ''%s | '' @ ps_name site, sm_base = base,
          sm_applicationName = ps_name site\<rparr>)"

definition place :: "string \<Rightarrow> string \<Rightarrow> json" where
  "place kind name = JObj [(''@type'', JStr kind), (''name'', JStr name)]"

definition businessSchema :: "public_site \<Rightarrow> json" where
  "businessSchema site = JObj
     [(''@context'', JStr ''https://schema.org''), (''@type'', JStr ''ProfessionalService''),
      (''@id'', JStr (ps_domain site @ ''/#business'')), (''name'', JStr (ps_name site)),
      (''url'', JStr (ps_domain site)), (''description'', JStr (ps_description site)),
      (''image'', JStr (ps_domain site @ ''/social'')),
      (''logo'', JStr (ps_domain site @ ''/brand/logo-light.png'')),
      (''areaServed'', JArr [place ''City'' ''Manchester'', place ''Country'' ''United Kingdom'',
         place ''Country'' ''Australia'', place ''Country'' ''United States'']),
      (''founder'', place ''Person'' ''Adam Birds'')]"

definition breadcrumbSchema :: "public_site \<Rightarrow> string \<Rightarrow> string \<Rightarrow> json" where
  "breadcrumbSchema site title path = JObj
     [(''@context'', JStr ''https://schema.org''), (''@type'', JStr ''BreadcrumbList''),
      (''itemListElement'', JArr
         [JObj [(''@type'', JStr ''ListItem''), (''position'', JNum 1), (''name'', JStr ''Home''), (''item'', JStr (ps_domain site))],
          JObj [(''@type'', JStr ''ListItem''), (''position'', JNum 2), (''name'', JStr title), (''item'', JStr (ps_domain site @ path))]])]"

section \<open>Detail pages\<close>

text \<open>\<^verbatim>\<open>notFound()\<close> of the framework throws an error of its own.\<close>

definition not_found :: js_throw where
  "not_found = Err ''NextNotFound'' []"

definition detailContent :: "public_world \<Rightarrow> public_site \<Rightarrow> string \<Rightarrow> string \<Rightarrow> json io" where
  "detailContent w site resource slug =
     catch_io
       (if resource = ''blog'' then getBlogPost (pw_canon w) (pw_server w) slug (apiOptions (pw_env w) (ps_brand site))
        else getPortfolio (pw_canon w) (pw_server w) slug (apiOptions (pw_env w) (ps_brand site)))
       (\<lambda>failure. if failure = PublicContentError 404 then throw_io not_found else throw_io failure)"

definition has_key :: "json \<Rightarrow> string \<Rightarrow> bool" where
  "has_key j k = (case j of JObj kvs \<Rightarrow> k \<in> fst ` set kvs | _ \<Rightarrow> False)"

text \<open>\<open>a || b\<close> on two optional texts.\<close>

definition or_text :: "string option \<Rightarrow> string option \<Rightarrow> string option" where
  "or_text a b = (if truthy_string a then a else b)"

definition itemMetadata :: "public_site \<Rightarrow> string \<Rightarrow> json \<Rightarrow> metadata result" where
  "itemMetadata site route item =
     (let description = or_text (jstr item ''meta_description'')
            (if has_key item ''excerpt'' then jstr item ''excerpt'' else jstr item ''description'')
      in case description of None \<Rightarrow> Inl TypeError
       | Some d \<Rightarrow>
          (let result = pageMetadata site (jstr item ''title'') (Some (take 160 d)) route False
           in Inr (if has_key item ''excerpt''
             then result\<lparr>og_type := ''article'',
               og_publishedTime := (if truthy (jget item ''published_at'') then jget item ''published_at'' else None),
               og_modifiedTime := jget item ''updated_at''\<rparr>
             else result)))"

section \<open>Route metadata\<close>

datatype search_value = One string | Many "string list"

type_synonym search = "(string \<times> search_value) list"

definition search_number :: "search \<Rightarrow> string \<Rightarrow> number" where
  "search_number search k =
     (case map_of search k of None \<Rightarrow> NaN | Some (One s) \<Rightarrow> js_Number s | Some (Many ss) \<Rightarrow> js_Number (join '','' ss))"

definition search_truthy :: "search \<Rightarrow> string \<Rightarrow> bool" where
  "search_truthy search k =
     (case map_of search k of None \<Rightarrow> False | Some (One s) \<Rightarrow> s \<noteq> [] | Some (Many ss) \<Rightarrow> True)"

definition route_of :: "string list \<Rightarrow> string" where
  "route_of path = ''/'' @ join ''/'' path @ ''/''"

definition find_entry :: "string \<Rightarrow> 'a copy_entry_scheme list \<Rightarrow> 'a copy_entry_scheme option" where
  "find_entry slug entries = find (\<lambda>item. en_slug item = slug) entries"

text \<open>
  The table of fixed routes. It is an object literal, so a name every object inherits is found
  as well: a value whose members 0 and 1 are \<^verbatim>\<open>undefined\<close>.
\<close>

definition special_routes :: "public_site \<Rightarrow> (string \<times> string \<times> string) list" where
  "special_routes site =
     [(''services'', ''Services'', ps_description site),
      (''contact'', ps_contact_title site, ps_contact_introduction site),
      (''contact/thank-you'', ''Enquiry received'', ''Your enquiry has been received.''),
      (''portfolio'', ''Portfolio'', ''Projects and case studies from '' @ ps_name site @ ''.''),
      (''blog'', ''Blog'', ''Articles and practical notes from '' @ ps_name site @ ''.''),
      (''testimonials'', ''Client feedback'', ''Client feedback for '' @ ps_name site @ ''.''),
      (''faqs'', ''Frequently asked questions'',
         ''Questions about '' @ ps_name site @ '' services and working arrangements.'')]"

definition inherited_names :: "string list" where
  "inherited_names =
     [''constructor'', ''__defineGetter__'', ''__defineSetter__'', ''hasOwnProperty'', ''__lookupGetter__'',
      ''__lookupSetter__'', ''isPrototypeOf'', ''propertyIsEnumerable'', ''toString'', ''valueOf'', ''__proto__'',
      ''toLocaleString'']"

definition special_entry :: "public_site \<Rightarrow> string \<Rightarrow> (string option \<times> string option) option" where
  "special_entry site key =
     (case map_of (special_routes site) key of
        Some (t, d) \<Rightarrow> Some (Some t, Some d)
      | None \<Rightarrow> if key \<in> set inherited_names then Some (None, None) else None)"

definition json_array :: "json \<Rightarrow> json list result" where
  "json_array j = (case j of JArr xs \<Rightarrow> Inr xs | _ \<Rightarrow> Inl TypeError)"

definition categoryMetadata :: "public_world \<Rightarrow> public_site \<Rightarrow> string \<Rightarrow> string \<Rightarrow> search \<Rightarrow> metadata io" where
  "categoryMetadata w site route slug search =
     bind_io (getCategories (pw_canon w) (pw_server w) (apiOptions (pw_env w) (ps_brand site))) (\<lambda>j.
     bind_io (lift_io (json_array j)) (\<lambda>categories.
       case find (\<lambda>item. jget item ''slug'' = Some (JStr slug)) categories of
         None \<Rightarrow> throw_io not_found
       | Some category \<Rightarrow>
           bind_io (optionalCollection w ''blog'' (ps_brand site) [Category (Some slug), PageSize (Some 1)]) (\<lambda>content.
             return_io (pageMetadata site (jstr category ''name'')
               (Some (or_string (jstr category ''description'')
                 (''Articles about '' @ nullish (jstr category ''name'') ''undefined'' @ '' from '' @ ps_name site @ ''.'')))
               (if num_gt (search_number search ''page'') 1
                then route @ ''?page='' @ number_str (search_number search ''page'') else route)
               (c_total content = 0 \<or> search_truthy search ''q'')))))"

definition collection_routes :: "string list" where
  "collection_routes = [''portfolio'', ''blog'', ''testimonials'', ''faqs'']"

definition specialMetadata :: "public_world \<Rightarrow> public_site \<Rightarrow> string list \<Rightarrow> search \<Rightarrow> metadata io" where
  "specialMetadata w site path search =
     (case special_entry site (join ''/'' path) of
        None \<Rightarrow> throw_io not_found
      | Some (title, description) \<Rightarrow>
          bind_io
            (if path \<noteq> [] \<and> hd path \<in> set collection_routes
             then bind_io (optionalCollection w (hd path) (ps_brand site) [PageSize (Some 1)]) (\<lambda>c. return_io (Some c))
             else return_io None)
            (\<lambda>content.
              let pageNumber = search_number search ''page'';
                  canonical = (if isInteger pageNumber \<and> num_gt pageNumber 1
                    then route_of path @ ''?page='' @ number_str pageNumber else route_of path)
              in return_io (pageMetadata site title description canonical
                   (join ''/'' path = ''contact/thank-you'' \<or> search_truthy search ''q'' \<or>
                    (case content of None \<Rightarrow> False | Some c \<Rightarrow> c_total c = 0)))))"

definition routeMetadata :: "public_world \<Rightarrow> public_site \<Rightarrow> string list \<Rightarrow> search \<Rightarrow> metadata io" where
  "routeMetadata w site path search =
     (let route = route_of path;
          service = (case path of [s, slug] \<Rightarrow> (if s = ''services'' then find_entry slug (ps_services site) else None) | _ \<Rightarrow> None);
          area = (case path of [slug] \<Rightarrow> find_entry slug (ps_areas site) | _ \<Rightarrow> None);
          page = (case path of [slug] \<Rightarrow> find_entry slug (ps_pages site) | _ \<Rightarrow> None)
      in case service of
           Some s \<Rightarrow> return_io (pageMetadata site (Some (en_title s)) (Some (en_description s)) route False)
         | None \<Rightarrow>
        (case area of
           Some a \<Rightarrow> return_io (pageMetadata site (Some (en_title a)) (Some (en_description a)) route False)
         | None \<Rightarrow>
        (case page of
           Some p \<Rightarrow> return_io (pageMetadata site (Some (en_title p)) (Some (en_description p)) route (en_noindex p))
         | None \<Rightarrow>
        (case path of
           [r, slug] \<Rightarrow>
             (if r = ''blog'' \<or> r = ''portfolio''
              then bind_io (detailContent w site r slug) (\<lambda>item. lift_io (itemMetadata site route item))
              else specialMetadata w site path search)
         | [b, c, slug] \<Rightarrow>
             (if b = ''blog'' \<and> c = ''category'' then categoryMetadata w site route slug search
              else specialMetadata w site path search)
         | _ \<Rightarrow> specialMetadata w site path search))))"

section \<open>Sitemap\<close>

record sitemap_entry =
  se_url :: string
  se_lastModified :: "json option"

definition plain_entry :: "string \<Rightarrow> sitemap_entry" where
  "plain_entry u = \<lparr>se_url = u, se_lastModified = None\<rparr>"

definition sitemap_routes :: "public_site \<Rightarrow> string list" where
  "sitemap_routes site =
     [''/'', ''/services/'', ''/contact/''] @
     map (\<lambda>page. ''/'' @ en_slug page @ ''/'') (filter (\<lambda>page. \<not> en_noindex page) (ps_pages site)) @
     map (\<lambda>service. ''/services/'' @ en_slug service @ ''/'') (ps_services site) @
     map (\<lambda>area. ''/'' @ en_slug area @ ''/'') (ps_areas site)"

definition item_entries :: "public_site \<Rightarrow> string \<Rightarrow> collection \<Rightarrow> sitemap_entry list" where
  "item_entries site resource collection =
     map (\<lambda>item. \<lparr>se_url = ps_domain site @ ''/'' @ resource @ ''/'' @ nullish (jstr item ''slug'') ''undefined'' @ ''/'',
                    se_lastModified = jget item ''updated_at''\<rparr>)
       (filter (\<lambda>item. has_key item ''slug'') (c_items collection))"

fun sitemap_pages :: "public_world \<Rightarrow> public_site \<Rightarrow> string \<Rightarrow> collection \<Rightarrow> nat list \<Rightarrow> sitemap_entry list io" where
  "sitemap_pages w site resource first [] = return_io []"
| "sitemap_pages w site resource first (page # pages) =
     bind_io (if page = 1 then return_io first
              else optionalCollection w resource (ps_brand site) [PageSize (Some 50), Page (Some page)])
       (\<lambda>collection. bind_io (sitemap_pages w site resource first pages)
          (\<lambda>rest. return_io (item_entries site resource collection @ rest)))"

definition page_count :: "nat \<Rightarrow> nat" where
  "page_count n = (n + 49) div 50"

definition sitemap_resource :: "public_world \<Rightarrow> public_site \<Rightarrow> string \<Rightarrow> sitemap_entry list io" where
  "sitemap_resource w site resource =
     bind_io (optionalCollection w resource (ps_brand site) [PageSize (Some 50)]) (\<lambda>first.
       if \<not> c_available first \<or> c_total first = 0 then return_io []
       else bind_io
         (if resource \<noteq> ''portfolio'' \<and> resource \<noteq> ''blog'' then return_io []
          else sitemap_pages w site resource first [1 ..< page_count (c_total first) + 1])
         (\<lambda>items. return_io (plain_entry (ps_domain site @ ''/'' @ resource @ ''/'') # items)))"

fun sitemap_resources :: "public_world \<Rightarrow> public_site \<Rightarrow> string list \<Rightarrow> sitemap_entry list io" where
  "sitemap_resources w site [] = return_io []"
| "sitemap_resources w site (r # rs) =
     bind_io (sitemap_resource w site r) (\<lambda>a. bind_io (sitemap_resources w site rs) (\<lambda>b. return_io (a @ b)))"

fun sitemap_categories :: "public_world \<Rightarrow> public_site \<Rightarrow> json list \<Rightarrow> sitemap_entry list io" where
  "sitemap_categories w site [] = return_io []"
| "sitemap_categories w site (category # cs) =
     bind_io (optionalCollection w ''blog'' (ps_brand site)
         [Category (jstr category ''slug''), PageSize (Some 1)]) (\<lambda>collection.
       bind_io (sitemap_categories w site cs) (\<lambda>rest.
         return_io (if c_total collection \<noteq> 0
           then plain_entry (ps_domain site @ ''/blog/category/'' @ nullish (jstr category ''slug'') ''undefined'' @ ''/'') # rest
           else rest)))"

definition publicSitemap :: "public_world \<Rightarrow> public_site \<Rightarrow> sitemap_entry list io" where
  "publicSitemap w site =
     bind_io (sitemap_resources w site collection_routes) (\<lambda>items.
     bind_io
       (catch_io
         (bind_io (getCategories (pw_canon w) (pw_server w) (apiOptions (pw_env w) (ps_brand site))) (\<lambda>j.
            bind_io (lift_io (json_array j)) (sitemap_categories w site)))
         (\<lambda>e. return_io []))
       (\<lambda>categories.
          return_io (map (\<lambda>route. plain_entry (ps_domain site @ route)) (sitemap_routes site) @ items @ categories)))"

section \<open>Lemmas\<close>

lemma homeContent_sends: "sends (public_request (ps_brand site)) (homeContent w site)"
  unfolding homeContent_def Let_def by (intro sends_intros)

lemma homeContent_succeeds: "succeeds (homeContent w site)"
  unfolding homeContent_def Let_def by (intro succeeds_intros)

lemma brand_of_options [simp]: "opt_brand (apiOptions env brand) = brand"
  by (simp add: apiOptions_def)

lemma item_sends [sends_intros]:
  "sends (public_request brand) (getBlogPost canon srv slug (apiOptions env brand))"
  "sends (public_request brand) (getPortfolio canon srv slug (apiOptions env brand))"
  "sends (public_request brand) (getCategories canon srv (apiOptions env brand))"
  by (metis item_calls_send brand_of_options)+

lemma detailContent_sends [sends_intros]: "sends (public_request (ps_brand site)) (detailContent w site resource slug)"
  unfolding detailContent_def by (intro sends_intros)

lemma categoryMetadata_sends [sends_intros]:
  "sends (public_request (ps_brand site)) (categoryMetadata w site route slug search)"
  unfolding categoryMetadata_def by (intro sends_bind sends_intros) (auto intro!: sends_intros split: option.splits)

lemma specialMetadata_sends [sends_intros]:
  "sends (public_request (ps_brand site)) (specialMetadata w site path search)"
  unfolding specialMetadata_def by (auto simp: Let_def intro!: sends_intros split: option.splits)

lemma routeMetadata_sends: "sends (public_request (ps_brand site)) (routeMetadata w site path search)"
  unfolding routeMetadata_def Let_def
  by (auto intro!: sends_intros split: option.splits list.splits)

lemma sitemap_pages_sends [sends_intros]:
  "sends (public_request (ps_brand site)) (sitemap_pages w site resource first pages)"
  by (induction pages) (auto intro!: sends_intros)

lemma sitemap_resource_sends [sends_intros]: "sends (public_request (ps_brand site)) (sitemap_resource w site resource)"
  unfolding sitemap_resource_def by (intro sends_intros)

lemma sitemap_resources_sends [sends_intros]: "sends (public_request (ps_brand site)) (sitemap_resources w site rs)"
  by (induction rs) (auto intro!: sends_intros)

lemma sitemap_categories_sends [sends_intros]: "sends (public_request (ps_brand site)) (sitemap_categories w site cs)"
  by (induction cs) (auto intro!: sends_intros)

lemma publicSitemap_sends: "sends (public_request (ps_brand site)) (publicSitemap w site)"
  unfolding publicSitemap_def by (intro sends_intros)

lemma sitemap_pages_succeeds [succeeds_intros]: "succeeds (sitemap_pages w site resource first pages)"
  by (induction pages) (auto intro!: succeeds_intros)

lemma sitemap_resource_succeeds [succeeds_intros]: "succeeds (sitemap_resource w site resource)"
  unfolding sitemap_resource_def by (intro succeeds_intros)

lemma sitemap_resources_succeeds [succeeds_intros]: "succeeds (sitemap_resources w site rs)"
  by (induction rs) (auto intro!: succeeds_intros)

lemma sitemap_offline:
  "\<exists>h'. sitemap_resource (offline e w) site r h = (h', Inr [])"
  "\<exists>h'. sitemap_resources (offline e w) site rs h = (h', Inr [])"
proof -
  have one: "\<exists>h'. sitemap_resource (offline e w) site r h = (h', Inr [])" for r h
    using offline_optional [of e w r "ps_brand site" "[PageSize (Some 50)]" h]
    by (cases "optionalCollection (offline e w) r (ps_brand site) [PageSize (Some 50)] h")
      (auto simp: sitemap_resource_def bind_io_def return_io_def unavailable_collection_def)
  then show "\<exists>h'. sitemap_resource (offline e w) site r h = (h', Inr [])" .
  show "\<exists>h'. sitemap_resources (offline e w) site rs h = (h', Inr [])"
  proof (induction rs arbitrary: h)
    case Nil
    then show ?case by (simp add: return_io_def)
  next
    case (Cons r rs)
    obtain h1 where "sitemap_resource (offline e w) site r h = (h1, Inr [])" using one by blast
    moreover obtain h2 where "sitemap_resources (offline e w) site rs h1 = (h2, Inr [])" using Cons by blast
    ultimately show ?case by (simp add: bind_io_def return_io_def)
  qed
qed

definition static_sitemap :: "public_site \<Rightarrow> sitemap_entry list" where
  "static_sitemap site = map (\<lambda>route. plain_entry (ps_domain site @ route)) (sitemap_routes site)"

lemma publicSitemap_static:
  "\<exists>more. snd (publicSitemap w site h) = Inr (static_sitemap site @ more)"
proof -
  obtain h1 items where 1: "sitemap_resources w site collection_routes h = (h1, Inr items)"
    by (rule succeedsE [OF sitemap_resources_succeeds])
  let ?cats = "catch_io
      (bind_io (getCategories (pw_canon w) (pw_server w) (apiOptions (pw_env w) (ps_brand site)))
        (\<lambda>j. bind_io (lift_io (json_array j)) (sitemap_categories w site)))
      (\<lambda>e. return_io [])"
  have "succeeds ?cats" by (intro succeeds_intros)
  then obtain h2 cats where 2: "?cats h1 = (h2, Inr cats)" by (rule succeedsE)
  show ?thesis
    by (simp add: publicSitemap_def bind_io_def [of "sitemap_resources _ _ _"] 1 bind_io_def [of ?cats] 2
        return_io_def static_sitemap_def)
qed

lemma publicSitemap_offline: "snd (publicSitemap (offline e w) site h) = Inr (static_sitemap site)"
proof -
  obtain h1 where 1: "sitemap_resources (offline e w) site collection_routes h = (h1, Inr [])"
    using sitemap_offline(2) by blast
  let ?get = "getCategories (pw_canon (offline e w)) (pw_server (offline e w)) (apiOptions (pw_env (offline e w)) (ps_brand site))"
  obtain h2 x where 2: "?get h1 = (h2, Inl x)"
  proof (cases "?get h1")
    case (Pair h2 r)
    have "snd (?get h1) \<noteq> Inr y" for y
      unfolding getCategories_def offline_content by (auto split: sum.splits)
    with Pair that show ?thesis by (cases r) auto
  qed
  show ?thesis
    by (simp add: publicSitemap_def bind_io_def [of "sitemap_resources _ _ _"] 1 bind_io_def catch_io_def 2
        return_io_def static_sitemap_def)
qed

section \<open>Properties\<close>

text \<open>
  The public sites fetch content anonymously and for their own brand. Whatever the route,
  the query string and the server's answers, every request of the home page, of a route's
  metadata and of the sitemap is a GET without credentials, headers or body whose URL names
  the site's brand exactly once.
\<close>

theorem public_requests_branded:
  "sends (public_request (ps_brand site)) (homeContent w site) \<and>
   sends (public_request (ps_brand site)) (routeMetadata w site path search) \<and>
   sends (public_request (ps_brand site)) (publicSitemap w site)"
  using homeContent_sends routeMetadata_sends publicSitemap_sends by blast

text \<open>
  The CMS cannot take the code-owned pages off the sitemap. The sitemap never fails and
  always starts with them, in order and without the pages marked noindex; when the CMS is
  unreachable it is exactly them, and the home page still gets its four (empty) collections.
\<close>

theorem sitemap_keeps_own_pages:
  "(\<exists>more. snd (publicSitemap w site h) = Inr (static_sitemap site @ more)) \<and>
   snd (publicSitemap (offline e w) site h) = Inr (static_sitemap site) \<and>
   length (static_sitemap site) = 3 + length (filter (\<lambda>p. \<not> en_noindex p) (ps_pages site)) +
     length (ps_services site) + length (ps_areas site) \<and>
   (\<exists>c. snd (homeContent w site h) = Inr c)"
  using publicSitemap_static publicSitemap_offline homeContent_succeeds
  by (simp add: static_sitemap_def sitemap_routes_def succeeds_def)

text \<open>A site and a world for the examples.\<close>

definition demo_site :: public_site where
  "demo_site = \<lparr>ps_brand = ''adb-technology'', ps_name = ''ADB Technology'', ps_domain = ''https://technology.example'',
     ps_description = ''Support'', ps_services = [\<lparr>en_slug = ''support'', en_title = ''IT support'', en_description = ''Help''\<rparr>],
     ps_areas = [], ps_pages = [], ps_contact_title = ''Contact'', ps_contact_introduction = ''Hello''\<rparr>"

definition demo_public :: public_world where
  "demo_public = \<lparr>pw_server = (\<lambda>h r. Inl TypeError), pw_canon = (\<lambda>s. Some s),
     pw_env = \<lparr>API_INTERNAL_URL = None, PUBLIC_API_URL = None, production = True\<rparr>\<rparr>"

text \<open>
  A path that is the name of an inherited object property is not reported as missing. For
  \<^verbatim>\<open>/constructor/\<close> the metadata is produced, to be indexed and without a title, while
  any other unknown path gives the framework's not-found error.
\<close>

theorem inherited_name_is_a_route:
  "md_title (pageMetadata demo_site None None (route_of [''constructor'']) False) = None \<and>
   routeMetadata demo_public demo_site [''constructor''] [] h =
     (h, Inr (pageMetadata demo_site None None (route_of [''constructor'']) False)) \<and>
   routeMetadata demo_public demo_site [''no-such-page''] [] h = (h, Inl not_found)"
proof -
  have i: "special_entry demo_site ''constructor'' = Some (None, None)" by code_simp
  have n: "special_entry demo_site ''no-such-page'' = None" by code_simp
  have f: "ps_areas demo_site = []" "ps_pages demo_site = []" by (simp_all add: demo_site_def)
  have "''constructor'' \<notin> set collection_routes" by (simp add: collection_routes_def)
  moreover have "md_title (pageMetadata s None None r b) = None" for s r b
    by (simp add: pageMetadata_def Let_def)
  ultimately show ?thesis
    by (simp add: routeMetadata_def specialMetadata_def i n find_entry_def f return_io_def
        bind_io_def throw_io_def search_number_def search_truthy_def isInteger_def Let_def)
qed

text \<open>
  The page after an enquiry is never indexed, whatever the site, the query and the server.
\<close>

theorem thank_you_page_not_indexed:
  "\<exists>m. routeMetadata w site [''contact'', ''thank-you''] search h = (h, Inr m) \<and> \<not> md_index m"
proof -
  have j: "join ''/'' [''contact'', ''thank-you''] = ''contact/thank-you''" by simp
  have "special_entry site ''contact/thank-you'' = Some (Some ''Enquiry received'', Some ''Your enquiry has been received.'')"
    by (simp add: special_entry_def special_routes_def)
  then show ?thesis
    by (simp add: routeMetadata_def specialMetadata_def collection_routes_def return_io_def bind_io_def
        pageMetadata_def Let_def)
qed

end
