(* ===== verification/Public_Pages.thy ===== *)
theory Public_Pages
  imports Public_Site Js_Act
begin

text \<open>
  What the public sites show: the page of a route (\<^verbatim>\<open>PublicPages.tsx\<close>), the
  collection and detail pages (\<^verbatim>\<open>Editorial.tsx\<close>) and the enquiry form
  (\<^verbatim>\<open>ContactForm.tsx\<close>), all in \<^verbatim>\<open>packages/ui/src/public\<close>.

  A component is modelled by the data it draws: which of its branches is shown and the links,
  texts and structured data in it. Markup and texts with characters outside the model (the
  arrows of link labels) are left out.
\<close>

section \<open>PublicPages\<close>

datatype page_view =
    ServicePage copy_entry | AreaPage copy_entry | InfoPage page_copy | ServicesPage | ContactPage | ThankYouPage
  | EditorialCollectionPage string "string option" | EditorialDetailPage string string

text \<open>\<open>None\<close> is the framework's not-found page.\<close>

definition publicPages :: "public_site \<Rightarrow> string list \<Rightarrow> page_view option" where
  "publicPages site path =
     (let key = join ''/'' path;
          single = (case path of [slug] \<Rightarrow>
             (case find_entry slug (ps_areas site) of
                Some area \<Rightarrow> Some (AreaPage area)
              | None \<Rightarrow> map_option InfoPage (find_entry slug (ps_pages site)))
             | _ \<Rightarrow> None)
      in case path of
           [a, b] \<Rightarrow>
             (if a = ''services'' then map_option ServicePage (find_entry b (ps_services site))
              else if key = ''contact/thank-you'' then Some ThankYouPage
              else if a = ''blog'' \<or> a = ''portfolio'' then Some (EditorialDetailPage a b)
              else None)
         | _ \<Rightarrow>
             (if single \<noteq> None then single
              else if key = ''services'' then Some ServicesPage
              else if key = ''contact'' then Some ContactPage
              else if key = ''contact/thank-you'' then Some ThankYouPage
              else (case path of
                 [a] \<Rightarrow> (if a \<in> set collection_routes then Some (EditorialCollectionPage a None) else None)
               | [a, b, c] \<Rightarrow> (if a = ''blog'' \<and> b = ''category'' then Some (EditorialCollectionPage ''blog'' (Some c)) else None)
               | _ \<Rightarrow> None)))"

section \<open>EditorialCollection\<close>

text \<open>\<open>Number(value || 1)\<close>, kept when it is a positive integer.\<close>

definition collectionNumber :: "search_value option \<Rightarrow> nat" where
  "collectionNumber value =
     (case (case value of None \<Rightarrow> Dec 1 0 | Some (One s) \<Rightarrow> (if s = [] then Dec 1 0 else js_Number s)
            | Some (Many ss) \<Rightarrow> js_Number (join '','' ss)) of
        Dec m k \<Rightarrow> (if k = 0 \<and> m > 0 then nat m else 1)
      | _ \<Rightarrow> 1)"

datatype collection_body =
    Unavailable
  | NoItems bool string
  | Items "json list"

record pagination =
  pg_page :: nat
  pg_pages :: nat
  pg_previous :: "string option"
  pg_next :: "string option"

record collection_view =
  cv_title :: string
  cv_description :: string
  cv_search_action :: "string option"
  cv_q :: string
  cv_category_links :: "(string \<times> bool) list"
  cv_body :: collection_body
  cv_pagination :: "pagination option"

definition collection_title :: "string \<Rightarrow> string" where
  "collection_title resource = nullish (map_of
     [(''blog'', ''From the blog''), (''portfolio'', ''Selected work''), (''testimonials'', ''Client feedback''),
      (''faqs'', ''Frequently asked questions'')] resource) []"

definition collection_description :: "string \<Rightarrow> string" where
  "collection_description resource = nullish (map_of
     [(''blog'', ''Practical articles from the work, and notes on the decisions behind it.''),
      (''portfolio'', ''Real projects, their starting point and the work delivered.''),
      (''testimonials'', ''Feedback from people who have worked with the business.''),
      (''faqs'', ''Questions about the services and working arrangements.'')] resource) []"

definition page_link :: "string \<Rightarrow> nat \<Rightarrow> string \<Rightarrow> string" where
  "page_link path page q =
     path @ ''?'' @ params_str ([(''page'', nat_str page)] @ (if q \<noteq> [] then [(''q'', q)] else []))"

definition collection_pagination :: "string \<Rightarrow> nat \<Rightarrow> nat \<Rightarrow> string \<Rightarrow> pagination option" where
  "collection_pagination path page n q =
     (if n > 9 then Some
        \<lparr>pg_page = page, pg_pages = (n + 8) div 9,
         pg_previous = (if page > 1 then Some (page_link path (page - 1) q) else None),
         pg_next = (if page * 9 < n then Some (page_link path (page + 1) q) else None)\<rparr>
      else None)"

definition search_text :: "search \<Rightarrow> string" where
  "search_text search = (case map_of search ''q'' of Some (One s) \<Rightarrow> take 200 s | _ \<Rightarrow> [])"

definition category_title :: "json list \<Rightarrow> string option \<Rightarrow> string \<Rightarrow> string" where
  "category_title categories category title =
     (case category of None \<Rightarrow> title
      | Some slug \<Rightarrow> if slug = [] then title else
         (case find (\<lambda>item. jget item ''slug'' = Some (JStr slug)) categories of
            None \<Rightarrow> title | Some item \<Rightarrow> or_string (jstr item ''name'') title))"

definition editorialCollection ::
  "public_world \<Rightarrow> public_site \<Rightarrow> string \<Rightarrow> search \<Rightarrow> string option \<Rightarrow> collection_view io" where
  "editorialCollection w site resource search category =
     (let page = collectionNumber (map_of search ''page''); q = search_text search in
      bind_io (optionalCollection w resource (ps_brand site)
          [Page (Some page), PageSize (Some 9), Query (Some q), Category category]) (\<lambda>response.
        if c_available response \<and> page > 1 \<and> c_items response = [] then throw_io not_found
        else bind_io
          (if resource = ''blog''
           then bind_io (catch_io (getCategories (pw_canon w) (pw_server w) (apiOptions (pw_env w) (ps_brand site)))
                   (\<lambda>e. return_io (JArr [])))
                 (\<lambda>j. return_io (json_items (Some j)))
           else return_io []) (\<lambda>categories.
        let path = (if truthy_string category then ''/blog/category/'' @ the category @ ''/'' else ''/'' @ resource @ ''/'')
        in return_io
          \<lparr>cv_title = category_title categories category (collection_title resource),
           cv_description = collection_description resource,
           cv_search_action = (if resource = ''blog'' \<or> resource = ''portfolio'' then Some path else None),
           cv_q = q,
           cv_category_links = map (\<lambda>item. (''/blog/category/'' @ nullish (jstr item ''slug'') ''undefined'' @ ''/'',
               category \<noteq> None \<and> jstr item ''slug'' = category)) categories,
           cv_body = (if \<not> c_available response then Unavailable
             else if c_items response = [] then NoItems (q \<noteq> []) (if q \<noteq> [] then path else ''/contact/'')
             else Items (c_items response)),
           cv_pagination = collection_pagination path page (c_total response) q\<rparr>)))"

section \<open>EditorialDetail\<close>

text \<open>The structured data of a post or a project; an undefined member is not printed.\<close>

definition json_member :: "string \<Rightarrow> json option \<Rightarrow> (string \<times> json) list" where
  "json_member k v = (case v of None \<Rightarrow> [] | Some j \<Rightarrow> [(k, j)])"

definition or_member :: "json option \<Rightarrow> json option \<Rightarrow> json option" where
  "or_member a b = (if truthy a then a else b)"

definition detail_image :: "json \<Rightarrow> json option" where
  "detail_image item = or_member (jget item ''featured_image_url'')
     (if has_key item ''image_url'' then jget item ''image_url'' else None)"

definition detail_schema :: "public_site \<Rightarrow> string \<Rightarrow> json \<Rightarrow> json" where
  "detail_schema site path item =
     (let post = has_key item ''excerpt'' in JObj
       ([(''@context'', JStr ''https://schema.org''),
         (''@type'', JStr (if post then ''BlogPosting'' else ''CreativeWork''))] @
        json_member ''headline'' (jget item ''title'') @ json_member ''name'' (jget item ''title'') @
        [(''url'', JStr (ps_domain site @ path))] @
        json_member ''description'' (if post then jget item ''excerpt'' else jget item ''description'') @
        json_member ''dateModified'' (jget item ''updated_at'') @
        [(''publisher'', JObj [(''@id'', JStr (ps_domain site @ ''/#business''))])] @
        (if post then
           [(''author'', JObj ((''@type'', JStr ''Person'') # json_member ''name'' (jget item ''author'')))] @
           (if truthy (jget item ''published_at'') then json_member ''datePublished'' (jget item ''published_at'') else [])
         else []) @
        (if truthy (detail_image item) then json_member ''image'' (detail_image item) else [])))"

record detail_view =
  dv_schema :: json
  dv_breadcrumb :: json
  dv_back :: string
  dv_image :: "(json \<times> string) option"
  dv_parts :: "json option list"
  dv_links :: "json list"

definition image_alt :: "json \<Rightarrow> string" where
  "image_alt item = or_string (jstr item ''featured_image_alt'')
     (or_string (if has_key item ''image_alt'' then jstr item ''image_alt'' else None) (nullish (jstr item ''title'') []))"

definition editorialDetail :: "public_world \<Rightarrow> public_site \<Rightarrow> string \<Rightarrow> string \<Rightarrow> detail_view io" where
  "editorialDetail w site resource slug =
     bind_io (detailContent w site resource slug) (\<lambda>item.
       let path = ''/'' @ resource @ ''/'' @ slug @ ''/'';
           link = (\<lambda>k. if truthy (jget item k) then [the (jget item k)] else [])
       in return_io
         \<lparr>dv_schema = detail_schema site path item,
          dv_breadcrumb = breadcrumbSchema site (nullish (jstr item ''title'') []) path,
          dv_back = ''/'' @ resource @ ''/'',
          dv_image = (if truthy (detail_image item) then Some (the (detail_image item), image_alt item) else None),
          dv_parts = (if has_key item ''excerpt'' then [jget item ''content'']
             else [jget item ''challenge'', jget item ''solution'', jget item ''results'']),
          dv_links = (if has_key item ''excerpt'' then [] else link ''project_url'' @ link ''github_url'')\<rparr>)"

section \<open>ContactForm\<close>

record contact_form =
  cf_sent :: "request list"
  cf_error :: string
  cf_sending :: bool
  cf_location :: "string option"

definition fetch_act :: "server \<Rightarrow> request \<Rightarrow> (contact_form, response) act" where
  "fetch_act srv r s = (s\<lparr>cf_sent := cf_sent s @ [r]\<rparr>, srv (cf_sent s) r)"

definition field :: "(string \<times> string) list \<Rightarrow> string \<Rightarrow> string" where
  "field data k = or_string (map_of data k) []"

definition contact_body :: "copy_entry list \<Rightarrow> (string \<times> string) list \<Rightarrow> string \<Rightarrow> json" where
  "contact_body services data pathname =
     (let selection = (case map_of data ''service'' of None \<Rightarrow> None | Some slug \<Rightarrow> find_entry slug services)
      in JObj [(''name'', JStr (field data ''name'')), (''email'', JStr (field data ''email'')),
               (''company'', JStr (field data ''company'')), (''website'', JStr (field data ''website'')),
               (''source_path'', JStr pathname),
               (''message'', JStr ((case selection of None \<Rightarrow> []
                  | Some s \<Rightarrow> ''Service: '' @ en_title s @ [CHR 0x0A, CHR 0x0A]) @ field data ''message''))])"

definition contact_failure :: string where
  "contact_failure = ''Your enquiry could not be sent. Please try again.''"

definition contact_post :: "json \<Rightarrow> request" where
  "contact_post body = \<lparr>req_url = ''/api/contact'', req_method = ''POST'',
     req_headers = [(''Content-Type'', ''application/json'')], req_body = JsonBody body, req_credentials = ''same-origin''\<rparr>"

text \<open>The message of a refused enquiry; an unreadable body counts as empty, \<^verbatim>\<open>null\<close> throws.\<close>

definition refusal :: "response \<Rightarrow> js_throw" where
  "refusal response =
     (case json_body response of
        Inl e \<Rightarrow> Error contact_failure
      | Inr result \<Rightarrow> (if result = JNull then TypeError
          else Error (or_string (jstr result ''message'') contact_failure)))"

definition contact_submit :: "server \<Rightarrow> copy_entry list \<Rightarrow> (string \<times> string) list \<Rightarrow> string \<Rightarrow> (contact_form, unit) act" where
  "contact_submit srv services data pathname s =
     (if cf_sending s then return_act ()
      else then_act (set_act (\<lambda>s. s\<lparr>cf_sending := True, cf_error := []\<rparr>))
        (catch_act
          (bind_act (fetch_act srv (contact_post (contact_body services data pathname))) (\<lambda>response.
             if \<not> ok response then throw_act (refusal response)
             else set_act (cf_location_update (\<lambda>_. Some ''/contact/thank-you/''))))
          (\<lambda>failure. set_act (\<lambda>s. s\<lparr>cf_error := (case failure of Err n m \<Rightarrow> m | NonError \<Rightarrow> contact_failure),
                                    cf_sending := False\<rparr>)))) s"

section \<open>Lemmas\<close>

lemma join_two_slash: "CHR ''/'' \<in> set (join ''/'' (a # b # ws))"
  by simp

lemma key_without_slash: "CHR ''/'' \<notin> set k \<Longrightarrow> join ''/'' path = k \<Longrightarrow> path = [k] \<or> path = [] \<and> k = []"
  by (cases path rule: list.exhaust; cases "tl path") (auto simp: neq_Nil_conv)

lemma special_keys:
  "special_entry site key \<noteq> None \<Longrightarrow> key \<notin> set inherited_names \<Longrightarrow>
     key \<in> set [''services'', ''contact'', ''contact/thank-you'', ''portfolio'', ''blog'', ''testimonials'', ''faqs'']"
  by (auto simp: special_entry_def special_routes_def split: if_splits)

lemma no_page_no_special:
  assumes "publicPages site path = None" and "join ''/'' path \<notin> set inherited_names"
  shows "special_entry site (join ''/'' path) = None"
proof (rule ccontr)
  assume "special_entry site (join ''/'' path) \<noteq> None"
  from special_keys [OF this assms(2)]
  consider "join ''/'' path = ''contact/thank-you''"
    | k where "join ''/'' path = k" "k \<in> set [''services'', ''contact'', ''portfolio'', ''blog'', ''testimonials'', ''faqs'']"
    by auto
  then show False
  proof cases
    case 1
    then have "publicPages site path \<noteq> None \<or> (\<exists>b. path = [''services'', b])"
      by (auto simp: publicPages_def Let_def split: list.splits option.splits)
    with assms(1) 1 show False by auto
  next
    case 2
    then have "path = [k]" using key_without_slash [of k path] by auto
    with 2 assms(1) show False
      by (auto simp: publicPages_def Let_def collection_routes_def split: option.splits if_splits)
  qed
qed

text \<open>The links of the pagination carry the page and the search text.\<close>

definition link_query :: "string \<Rightarrow> params option" where
  "link_query link = search_params (dropWhile (\<lambda>c. c \<noteq> CHR ''?'') link)"

lemma page_link_query:
  "CHR ''?'' \<notin> set path \<Longrightarrow>
   link_query (page_link path n q) = Some ((''page'', nat_str n) # (if q \<noteq> [] then [(''q'', q)] else []))"
proof -
  assume "CHR ''?'' \<notin> set path"
  then have "dropWhile (\<lambda>c. c \<noteq> CHR ''?'') (path @ ''?'' @ r) = ''?'' @ r" for r
    by (subst dropWhile_append2) auto
  then show ?thesis
    using search_params_str [of "(''page'', nat_str n) # (if q \<noteq> [] then [(''q'', q)] else [])"]
    by (simp add: link_query_def page_link_def)
qed

lemma collectionNumber_nat: "n > 0 \<Longrightarrow> collectionNumber (Some (One (nat_str n))) = n"
  by (simp add: collectionNumber_def js_Number_nat_str)

section \<open>Properties\<close>

text \<open>
  A route without a page has no metadata either. Where \<^verbatim>\<open>PublicPages\<close> answers not
  found, \<^verbatim>\<open>routeMetadata\<close> throws the same, without a request to the CMS, for every
  path that is not the name of an inherited object property.
\<close>

theorem missing_page_has_no_metadata:
  assumes "publicPages site path = None" and "join ''/'' path \<notin> set inherited_names"
  shows "routeMetadata w site path search h = (h, Inl not_found)"
proof -
  have s: "specialMetadata w site path search h = (h, Inl not_found)"
    by (simp add: specialMetadata_def no_page_no_special [OF assms] throw_io_def)
  show ?thesis
  proof (cases path)
    case Nil
    with s show ?thesis by (simp add: routeMetadata_def Let_def)
  next
    case (Cons a r)
    show ?thesis
    proof (cases r)
      case Nil
      with Cons assms(1) have "find_entry a (ps_areas site) = None" "find_entry a (ps_pages site) = None"
        by (auto simp: publicPages_def Let_def split: option.splits if_splits)
      with s Cons Nil show ?thesis by (simp add: routeMetadata_def Let_def)
    next
      case (Cons b t)
      show ?thesis
      proof (cases t)
        case Nil
        with \<open>path = a # r\<close> Cons assms(1)
        have "a = ''services'' \<Longrightarrow> find_entry b (ps_services site) = None" "a \<noteq> ''blog'' \<and> a \<noteq> ''portfolio''"
          by (auto simp: publicPages_def Let_def split: option.splits if_splits)
        with s \<open>path = a # r\<close> Cons Nil show ?thesis by (auto simp: routeMetadata_def Let_def)
      next
        case (Cons c t')
        with \<open>path = a # r\<close> \<open>r = b # t\<close> assms(1)
        have "t' = [] \<Longrightarrow> \<not> (a = ''blog'' \<and> b = ''category'')"
          by (auto simp: publicPages_def Let_def split: option.splits if_splits)
        with s \<open>path = a # r\<close> \<open>r = b # t\<close> Cons show ?thesis
          by (auto simp: routeMetadata_def Let_def split: list.splits)
      qed
    qed
  qed
qed

theorem missing_page_has_no_metadata_witness:
  "routeMetadata demo_public demo_site [''services'', ''gardening''] [] [] = ([], Inl not_found)"
proof -
  have 1: "publicPages demo_site [''services'', ''gardening''] = None"
    by (simp add: publicPages_def find_entry_def demo_site_def)
  have 2: "join ''/'' [''services'', ''gardening''] \<notin> set inherited_names"
    by (simp add: inherited_names_def)
  show ?thesis using missing_page_has_no_metadata [OF 1 2] .
qed

text \<open>
  The pagination leads through the collection. A next link is shown exactly before the
  last page and a previous link exactly after the first one, and following a link shows the
  neighbouring page with the same search: the page number and the text survive printing and
  parsing, whatever characters the text has.
\<close>

theorem pagination_links_roundtrip:
  assumes "9 < n" and "0 < page" and "CHR ''?'' \<notin> set path"
  shows "case collection_pagination path page n q of
      None \<Rightarrow> False
    | Some pg \<Rightarrow>
        (pg_next pg = None) = (pg_pages pg \<le> page) \<and> (pg_previous pg = None) = (page = 1) \<and>
        list_all (\<lambda>(link, target). case link of None \<Rightarrow> True | Some l \<Rightarrow>
            (case link_query l of None \<Rightarrow> False
             | Some ps \<Rightarrow> collectionNumber (map_option One (params_get ps ''page'')) = target \<and>
                 nullish (params_get ps ''q'') [] = q))
          [(pg_next pg, page + 1), (pg_previous pg, page - 1)]"
proof -
  have m: "page * 9 < n \<longleftrightarrow> \<not> (n + 8) div 9 \<le> page"
    by linarith
  show ?thesis
    using assms m
    by (auto simp: collection_pagination_def page_link_query params_get_def collectionNumber_nat)
qed

theorem pagination_links_roundtrip_witness:
  "link_query (page_link ''/blog/'' 3 ''tea & cake'') = Some [(''page'', ''3''), (''q'', ''tea & cake'')]
   \<and> (case collection_pagination ''/blog/'' 2 40 ''tea & cake'' of None \<Rightarrow> False | Some pg \<Rightarrow> pg_next pg \<noteq> None)"
proof -
  have p: "(9::nat) < 40" "(0::nat) < 2" "CHR ''?'' \<notin> set ''/blog/''" by simp_all
  have "nat_str 3 = ''3''" by code_simp
  then show ?thesis
    using pagination_links_roundtrip [OF p, of "''tea & cake''"] page_link_query [OF p(3), of 3 "''tea & cake''"]
    by (auto simp: collection_pagination_def)
qed

text \<open>
  The page a category's metadata names is not always the page that is shown. With
  \<^verbatim>\<open>?page=1.5\<close> the collection shows page 1, while the canonical address of the
  category ends in \<^verbatim>\<open>?page=1.5\<close>; the other collections drop such a number.
\<close>

theorem category_canonical_names_no_page:
  "collectionNumber (map_of [(''page'', One ''1.5'')] ''page'') = 1 \<and>
   num_gt (search_number [(''page'', One ''1.5'')] ''page'') 1 \<and>
   number_str (search_number [(''page'', One ''1.5'')] ''page'') = ''1.5'' \<and>
   isInteger (search_number [(''page'', One ''1.5'')] ''page'') = False"
  by code_simp

text \<open>
  The enquiry form never stays busy without leaving the page. A submission while one is
  under way sends nothing; otherwise it sends one request, and either goes to the thank-you
  page, for a successful answer, or is usable again.
\<close>

theorem contact_form_not_stuck:
  "let t = fst (contact_submit srv services data pathname s) in
   snd (contact_submit srv services data pathname s) = Inr () \<and>
   (if cf_sending s then t = s
    else cf_sent t = cf_sent s @ [contact_post (contact_body services data pathname)] \<and>
      (case srv (cf_sent s) (contact_post (contact_body services data pathname)) of
         Inl e \<Rightarrow> \<not> cf_sending t \<and> cf_location t = cf_location s
       | Inr r \<Rightarrow> cf_sending t = ok r \<and>
           cf_location t = (if ok r then Some ''/contact/thank-you/'' else cf_location s)))"
  by (auto simp: contact_submit_def return_act_def form_simps catch_act_def bind_act_def fetch_act_def
      throw_act_def Let_def split: sum.splits)

end
