(* ===== verification/Public_Contact.thy ===== *)
theory Public_Contact
  imports Public_Api Json_Text State_Machine
begin

text \<open>
  \<^verbatim>\<open>packages/ui/src/public/contact.ts\<close>: the route that takes an enquiry from a
  visitor of a public site and passes it to the API.

  The body arrives as a stream of byte chunks. Decoding the bytes is modelled for texts in the
  model's characters; any other body counts as unreadable. A body member the visitor leaves
  out is \<^verbatim>\<open>undefined\<close>, which \<^verbatim>\<open>JSON.stringify\<close> leaves out too.
\<close>

text \<open>Responses of the route: status and body.\<close>

record reply =
  rp_status :: nat
  rp_body :: json

definition reply_message :: "nat \<Rightarrow> string \<Rightarrow> reply" where
  "reply_message st m = \<lparr>rp_status = st, rp_body = JObj [(''message'', JStr m)]\<rparr>"

record incoming =
  in_url :: string
  in_origin :: "string option"
  in_forwarded :: "string option"
  in_body :: "nat list list option"

section \<open>Reading the body\<close>

text \<open>
  The reader: what is still to come, what was kept and how much that is. The loop ends at the
  end of the stream or with the first chunk that takes the size past the limit.
\<close>

record body_reader =
  br_todo :: "nat list list"
  br_chunks :: "nat list list"
  br_size :: nat
  br_too_long :: bool

definition body_limit :: nat where
  "body_limit = 32000"

text \<open>One turn of the loop that does not end it.\<close>

definition read_chunk :: "body_reader \<Rightarrow> body_reader option" where
  "read_chunk r =
     (if br_too_long r then None
      else case br_todo r of
        [] \<Rightarrow> None
      | value # rest \<Rightarrow>
          (let size = br_size r + length value in
           if size > body_limit then Some (r\<lparr>br_todo := [], br_size := size, br_too_long := True\<rparr>)
           else Some (r\<lparr>br_todo := rest, br_chunks := br_chunks r @ [value], br_size := size\<rparr>)))"

definition reader_start :: "nat list list \<Rightarrow> body_reader" where
  "reader_start body = \<lparr>br_todo = body, br_chunks = [], br_size = 0, br_too_long = False\<rparr>"

function read_all :: "body_reader \<Rightarrow> body_reader" where
  "read_all r = (case read_chunk r of None \<Rightarrow> r | Some r' \<Rightarrow> read_all r')"
  by pat_completeness auto

termination
  by (relation "measure (\<lambda>r. length (br_todo r))")
    (auto simp: read_chunk_def Let_def split: if_splits list.splits)

declare read_all.simps [simp del]

definition text_decode :: "nat list \<Rightarrow> string option" where
  "text_decode bs = utf8_dec bs"

text \<open>The payload, or \<open>None\<close> for a body that is no JSON object.\<close>

definition read_payload :: "nat list list \<Rightarrow> json option" where
  "read_payload chunks =
     (case text_decode (concat chunks) of None \<Rightarrow> None
      | Some t \<Rightarrow> (case JSON_parse t of Inr (JObj kvs) \<Rightarrow> Some (JObj kvs) | _ \<Rightarrow> None))"

section \<open>Passing it on\<close>

text \<open>A member of the object literal whose value may be \<^verbatim>\<open>undefined\<close>.\<close>

definition optional_member :: "string \<Rightarrow> json option \<Rightarrow> (string \<times> json) list" where
  "optional_member k v = (case v of None \<Rightarrow> [] | Some j \<Rightarrow> [(k, j)])"

definition or_json :: "json option \<Rightarrow> string \<Rightarrow> json" where
  "or_json v d = (if truthy v then the v else JStr d)"

definition enquiry_body :: "json \<Rightarrow> json" where
  "enquiry_body payload = JObj
     (optional_member ''name'' (jget payload ''name'') @ optional_member ''email'' (jget payload ''email'') @
      optional_member ''company'' (jget payload ''company'') @ optional_member ''message'' (jget payload ''message'') @
      [(''website'', or_json (jget payload ''website'') []),
       (''source_path'', or_json (jget payload ''source_path'') ''/contact/'')])"

definition enquiry_request :: "url \<Rightarrow> string option \<Rightarrow> json \<Rightarrow> request" where
  "enquiry_request url forwarded payload =
     \<lparr>req_url = href url, req_method = ''POST'',
      req_headers = [(''Content-Type'', ''application/json'')] @
        (if truthy_string forwarded then [(''X-Forwarded-For'', the forwarded)] else []),
      req_body = JsonBody (enquiry_body payload), req_credentials = ''omit''\<rparr>"

definition could_not_send :: reply where
  "could_not_send = reply_message 503 ''Your enquiry could not be sent. Please try again.''"

text \<open>What the visitor is told about the API's answer.\<close>

definition enquiry_reply :: "response \<Rightarrow> reply" where
  "enquiry_reply response =
     (if \<not> ok response then
        (if status response = 429 then
           reply_message 429 ''Too many enquiries have been sent. Please try again later.''
         else if status response = 422 then
           reply_message 400 ''Please check your name, email address and message.''
         else could_not_send)
      else (case json_body response of
              Inl e \<Rightarrow> could_not_send
            | Inr result \<Rightarrow> (if jtrue result ''success'' then \<lparr>rp_status = 200, rp_body = JObj [(''success'', JBool True)]\<rparr>
                             else could_not_send)))"

definition contact_url :: "public_world \<Rightarrow> string \<Rightarrow> url result" where
  "contact_url w brand =
     (case parse_url (pw_canon w) (strip_slash (baseUrl (apiOptions (pw_env w) brand)) @ ''/api/website/contact'') of
        None \<Rightarrow> Inl TypeError | Some url \<Rightarrow> Inr (url_set ''brand'' brand url))"

text \<open>The origin check; \<open>Inl\<close> when the request's own URL cannot be parsed.\<close>

definition foreign_origin :: "public_world \<Rightarrow> incoming \<Rightarrow> bool result" where
  "foreign_origin w i =
     (if \<not> truthy_string (in_origin i) then Inr False
      else (case url_origin (pw_canon w) (in_url i) of
              None \<Rightarrow> Inl TypeError | Some own \<Rightarrow> Inr (in_origin i \<noteq> Some own)))"

definition send_enquiry :: "public_world \<Rightarrow> string \<Rightarrow> string option \<Rightarrow> json \<Rightarrow> reply io" where
  "send_enquiry w brand forwarded payload =
     bind_io (lift_io (contact_url w brand)) (\<lambda>url.
       catch_io
         (bind_io (fetch (pw_server w) (enquiry_request url forwarded payload)) (\<lambda>r. return_io (enquiry_reply r)))
         (\<lambda>e. return_io could_not_send))"

definition handlePublicContact :: "public_world \<Rightarrow> string \<Rightarrow> incoming \<Rightarrow> reply io" where
  "handlePublicContact w brand i =
     bind_io (lift_io (foreign_origin w i)) (\<lambda>foreign.
       if foreign then return_io (reply_message 403 ''Please submit the form from this website.'')
       else (case in_body i of
          None \<Rightarrow> return_io (reply_message 400 ''Please complete the enquiry form.'')
        | Some body \<Rightarrow>
            (let r = read_all (reader_start body) in
             if br_too_long r then return_io (reply_message 413 ''Your enquiry is too long.'')
             else (case read_payload (br_chunks r) of
                None \<Rightarrow> return_io (reply_message 400 ''Please complete the enquiry form.'')
              | Some payload \<Rightarrow> send_enquiry w brand (in_forwarded i) payload))))"

section \<open>The reading loop\<close>

definition chunk_step :: "body_reader \<Rightarrow> body_reader \<Rightarrow> bool" where
  "chunk_step r r' \<longleftrightarrow> read_chunk r = Some r'"

text \<open>What is kept fits the limit, and is exactly what has been read of the body.\<close>

definition reader_inv :: "nat list list \<Rightarrow> body_reader \<Rightarrow> bool" where
  "reader_inv body r \<longleftrightarrow>
     length (concat (br_chunks r)) \<le> body_limit \<and>
     (if br_too_long r then br_todo r = [] \<and> body_limit < length (concat body)
      else body = br_chunks r @ br_todo r \<and> br_size r = length (concat (br_chunks r)))"

interpretation reader: bounded_machine "(=) (reader_start body)" chunk_step "reader_inv body" "\<lambda>r. length (br_todo r)"
  for body
proof
  show "reader_start body = r \<Longrightarrow> reader_inv body r" for r
    by (auto simp: reader_start_def reader_inv_def)
  show "reader_inv body t" if "reader_inv body r" "chunk_step r t" for r t
    using that by (auto simp: chunk_step_def read_chunk_def reader_inv_def Let_def split: if_splits list.splits)
  show "length (br_todo t) < length (br_todo r)" if "reader_inv body r" "chunk_step r t" for r t
    using that by (auto simp: chunk_step_def read_chunk_def Let_def split: if_splits list.splits)
qed

text \<open>The loop is a run of these steps to a state without a next one.\<close>

lemma read_all_reachable:
  "reachable ((=) s) chunk_step r \<Longrightarrow> reachable ((=) s) chunk_step (read_all r) \<and> read_chunk (read_all r) = None"
proof (induction r rule: read_all.induct)
  case (1 r)
  show ?case
  proof (cases "read_chunk r")
    case None
    with 1(2) show ?thesis by (simp add: read_all.simps [of r])
  next
    case (Some r')
    then have "reachable ((=) s) chunk_step r'"
      by (intro reach_step [OF 1(2)]) (simp add: chunk_step_def)
    with 1(1) [OF Some] Some show ?thesis by (simp add: read_all.simps [of r])
  qed
qed

lemma read_all_result:
  shows "length (concat (br_chunks (read_all (reader_start body)))) \<le> body_limit"
    and "br_too_long (read_all (reader_start body)) \<longleftrightarrow> body_limit < length (concat body)"
    and "\<not> br_too_long (read_all (reader_start body)) \<Longrightarrow> br_chunks (read_all (reader_start body)) = body"
proof -
  let ?r = "read_all (reader_start body)"
  have "reachable ((=) (reader_start body)) chunk_step (reader_start body)" by (rule reach_init) simp
  then have "reachable ((=) (reader_start body)) chunk_step ?r" and stop: "read_chunk ?r = None"
    using read_all_reachable by blast+
  then have inv: "reader_inv body ?r" by (intro reader.inv_reachable)
  have fin: "br_todo ?r = []" if "\<not> br_too_long ?r"
    using stop that by (auto simp: read_chunk_def Let_def split: list.splits if_splits)
  show "length (concat (br_chunks ?r)) \<le> body_limit" using inv by (simp add: reader_inv_def)
  show "\<not> br_too_long ?r \<Longrightarrow> br_chunks ?r = body" using inv fin by (simp add: reader_inv_def)
  show "br_too_long ?r \<longleftrightarrow> body_limit < length (concat body)"
    using inv fin by (auto simp: reader_inv_def split: if_splits)
qed

section \<open>Properties\<close>


text \<open>
  The visitor cannot choose the business an enquiry goes to, and is told the truth about
  it. Whatever the payload, the one request sent names the site's brand; the reply is 200
  exactly when the API accepted the enquiry, and otherwise 400, 429 or 503, never an
  exception.
\<close>

theorem enquiry_brand_and_outcome:
  "case contact_url w brand of
     Inl e \<Rightarrow> send_enquiry w brand forwarded payload h = (h, Inl e)
   | Inr url \<Rightarrow>
       params_get (u_params url) ''brand'' = Some brand \<and>
       fst (send_enquiry w brand forwarded payload h) = h @ [enquiry_request url forwarded payload] \<and>
       (\<exists>r. snd (send_enquiry w brand forwarded payload h) = Inr r \<and> rp_status r \<in> {200, 400, 429, 503} \<and>
          (rp_status r = 200) =
            (\<exists>resp body. pw_server w h (enquiry_request url forwarded payload) = Inr resp \<and> ok resp \<and>
               json_body resp = Inr body \<and> jtrue body ''success''))"
  by (auto simp: contact_url_def send_enquiry_def bind_io_def lift_io_def catch_io_def fetch_def return_io_def
      enquiry_reply_def could_not_send_def reply_message_def split: option.splits sum.splits)

end
