(* ===== verification/Public_Privacy.thy ===== *)
theory Public_Privacy
  imports Js_Net
begin

text \<open>
  The privacy choices of the public sites, in \<^verbatim>\<open>packages/ui/src/public\<close>:
  \<^verbatim>\<open>privacy.ts\<close>, the theme toggle and the preferences form that use it, and the
  analytics component that must follow it.

  The browser is a state: the module variable of this tab, the cookie jar, the stored theme
  (absent when storage is blocked) and what has been done with the analytics library. The jar
  is a list of cookies by name and domain (the empty domain for a host-only cookie); a cookie
  text is written by its name, value, domain and age. Event listeners are the components'
  own update functions, called in \<^verbatim>\<open>savePrivacyPreferences\<close> by the event.
\<close>

section \<open>Cookies\<close>

record cookie =
  ck_name :: string
  ck_domain :: string
  ck_value :: string

text \<open>\<^verbatim>\<open>document.cookie\<close>: the pairs in the order of the jar.\<close>

definition document_cookie :: "cookie list \<Rightarrow> string" where
  "document_cookie jar = join ''; '' (map (\<lambda>c. ck_name c @ ''='' @ ck_value c) jar)"

text \<open>What the browser makes of an assigned cookie text.\<close>

definition same_cookie :: "cookie \<Rightarrow> cookie \<Rightarrow> bool" where
  "same_cookie c d \<longleftrightarrow> ck_name c = ck_name d \<and> ck_domain c = ck_domain d"

definition set_cookie :: "cookie \<Rightarrow> cookie list \<Rightarrow> cookie list" where
  "set_cookie c jar =
     (if list_ex (same_cookie c) jar then map (\<lambda>d. if same_cookie c d then c else d) jar else jar @ [c])"

definition expire_cookie :: "cookie \<Rightarrow> cookie list \<Rightarrow> cookie list" where
  "expire_cookie c jar = filter (\<lambda>d. \<not> same_cookie c d) jar"

text \<open>A leading dot of a domain attribute is ignored.\<close>

definition cookie_domain :: "string \<Rightarrow> string" where
  "cookie_domain d = (if startsWith d ''.'' then tl d else d)"

section \<open>privacy.ts\<close>

record preferences =
  rememberTheme :: bool
  analytics :: bool

definition default_preferences :: preferences where
  "default_preferences = \<lparr>rememberTheme = True, analytics = True\<rparr>"

definition PRIVACY_COOKIE :: string where
  "PRIVACY_COOKIE = ''adb-public-privacy''"

record page_browser =
  sessionPreferences :: "preferences option"
  jar :: "cookie list"
  hostname :: string
  storage_blocked :: bool
  stored_theme :: "string option"

definition bit_char :: "bool \<Rightarrow> char" where
  "bit_char b = (if b then CHR ''1'' else CHR ''0'')"

text \<open>The value \<^verbatim>\<open>t.a.\<close> with two bits.\<close>

definition preference_value :: "preferences \<Rightarrow> string" where
  "preference_value p = [CHR ''t'', bit_char (rememberTheme p), CHR ''a'', bit_char (analytics p)]"

definition is_bit :: "char \<Rightarrow> bool" where
  "is_bit c \<longleftrightarrow> c = CHR ''0'' \<or> c = CHR ''1''"

text \<open>\<^verbatim>\<open>/^t[01]a[01]$/\<close>, and its reading.\<close>

definition read_value :: "string \<Rightarrow> preferences option" where
  "read_value s =
     (case s of [t, x, a, y] \<Rightarrow>
        (if t = CHR ''t'' \<and> is_bit x \<and> a = CHR ''a'' \<and> is_bit y
         then Some \<lparr>rememberTheme = (x = CHR ''1''), analytics = (y = CHR ''1'')\<rparr> else None)
      | _ \<Rightarrow> None)"

definition stored_preference :: "string \<Rightarrow> string option" where
  "stored_preference cookie_text =
     (case find (\<lambda>part. startsWith part (PRIVACY_COOKIE @ ''='')) (cookie_parts cookie_text) of
        None \<Rightarrow> None
      | Some part \<Rightarrow> (case split_on CHR ''='' part of _ # v # _ \<Rightarrow> Some v | _ \<Rightarrow> None))"

definition readPrivacyPreferences :: "page_browser \<Rightarrow> preferences" where
  "readPrivacyPreferences b =
     (case sessionPreferences b of
        Some p \<Rightarrow> p
      | None \<Rightarrow> (case stored_preference (document_cookie (jar b)) of
           None \<Rightarrow> default_preferences
         | Some s \<Rightarrow> (case read_value s of None \<Rightarrow> default_preferences | Some p \<Rightarrow> p)))"

text \<open>
  Both choices granted is the default, so the cookie is then expired. The event that ends the
  operation is the caller's: the listeners run in the resulting state.
\<close>

definition savePrivacyPreferences :: "preferences \<Rightarrow> page_browser \<Rightarrow> page_browser" where
  "savePrivacyPreferences p b =
     (let c = \<lparr>ck_name = PRIVACY_COOKIE, ck_domain = [], ck_value = preference_value p\<rparr>;
          duration = (if rememberTheme p \<and> analytics p then 0 else 31536000 :: nat)
      in b\<lparr>sessionPreferences := Some p,
           jar := (if duration = 0 then expire_cookie c (jar b) else set_cookie c (jar b)),
           stored_theme := (if \<not> rememberTheme p \<and> \<not> storage_blocked b then None else stored_theme b)\<rparr>)"

definition analytics_cookie :: "string \<Rightarrow> bool" where
  "analytics_cookie name \<longleftrightarrow> name = ''_ga'' \<or> startsWith name ''_ga_''"

definition cookie_names :: "string \<Rightarrow> string list" where
  "cookie_names cookie_text =
     filter analytics_cookie (map (\<lambda>part. hd (split_on CHR ''='' part)) (cookie_parts cookie_text))"

text \<open>No domain, the host name, and the host name and each of its parents with a dot.\<close>

definition clear_domains :: "string \<Rightarrow> string list" where
  "clear_domains host =
     [[], host] @ (let parts = split_on CHR ''.'' host in map (\<lambda>i. ''.'' @ join ''.'' (drop i parts)) [0 ..< length parts])"

definition clearAnalyticsCookies :: "page_browser \<Rightarrow> page_browser" where
  "clearAnalyticsCookies b =
     b\<lparr>jar := foldl (\<lambda>j name. foldl (\<lambda>j domain.
          expire_cookie \<lparr>ck_name = name, ck_domain = cookie_domain domain, ck_value = []\<rparr> j) j (clear_domains (hostname b)))
        (jar b) (cookie_names (document_cookie (jar b)))\<rparr>"

section \<open>ThemeToggle\<close>

record theme_state = page_browser +
  theme :: string
  shell_theme :: "string option"

definition theme_mount :: "'a theme_state_scheme \<Rightarrow> 'a theme_state_scheme" where
  "theme_mount s =
     (if storage_blocked s \<and> rememberTheme (readPrivacyPreferences (page_browser.truncate s)) then s
      else let saved = (if rememberTheme (readPrivacyPreferences (page_browser.truncate s)) then stored_theme s else None)
      in if saved = Some ''light'' then s\<lparr>theme := ''light'', shell_theme := Some ''light''\<rparr> else s)"

definition theme_toggle :: "'a theme_state_scheme \<Rightarrow> 'a theme_state_scheme" where
  "theme_toggle s =
     (let next = (if theme s = ''dark'' then ''light'' else ''dark'')
      in s\<lparr>theme := next, shell_theme := Some next,
           stored_theme := (if rememberTheme (readPrivacyPreferences (page_browser.truncate s)) \<and> \<not> storage_blocked s
                            then Some next else stored_theme s)\<rparr>)"

section \<open>PrivacyPreferences\<close>

record preferences_form = page_browser +
  pf_preferences :: preferences
  pf_saved :: bool

definition pf_update :: "preferences_form \<Rightarrow> preferences_form" where
  "pf_update s = s\<lparr>pf_preferences := readPrivacyPreferences (page_browser.truncate s)\<rparr>"

definition pf_change_analytics :: "bool \<Rightarrow> preferences_form \<Rightarrow> preferences_form" where
  "pf_change_analytics v s = s\<lparr>pf_saved := False, pf_preferences := (pf_preferences s)\<lparr>analytics := v\<rparr>\<rparr>"

definition pf_change_theme :: "bool \<Rightarrow> preferences_form \<Rightarrow> preferences_form" where
  "pf_change_theme v s = s\<lparr>pf_saved := False, pf_preferences := (pf_preferences s)\<lparr>rememberTheme := v\<rparr>\<rparr>"

definition with_browser :: "(page_browser \<Rightarrow> page_browser) \<Rightarrow> preferences_form \<Rightarrow> preferences_form" where
  "with_browser f s =
     (let b = f (page_browser.truncate s)
      in s\<lparr>sessionPreferences := sessionPreferences b, jar := jar b, stored_theme := stored_theme b\<rparr>)"

text \<open>Saving: the event runs the form's own listener before the call returns.\<close>

definition pf_save :: "preferences_form \<Rightarrow> preferences_form" where
  "pf_save s = (pf_update (with_browser (savePrivacyPreferences (pf_preferences s)) s))\<lparr>pf_saved := True\<rparr>"

section \<open>Analytics\<close>

text \<open>
  The calls queued for the analytics library, whether its script element is in the page, and
  the flag that disables it.
\<close>

datatype ga_call = GaConsent | GaStart | GaConfig string string string | GaPageView string string string string

record analytics_state = page_browser +
  an_calls :: "ga_call list"
  an_gtag :: bool
  an_script :: bool
  an_disabled :: bool
  an_origin :: string
  an_pathname :: string
  an_title :: string
  an_referrer_origin :: string

definition is_upper_or_digit :: "char \<Rightarrow> bool" where
  "is_upper_or_digit c \<longleftrightarrow> is_digit c \<or> (65 \<le> (of_char c :: nat) \<and> (of_char c :: nat) \<le> 90)"

text \<open>\<^verbatim>\<open>/^G-[A-Z0-9]+$/\<close>.\<close>

definition valid_measurement :: "string \<Rightarrow> bool" where
  "valid_measurement m \<longleftrightarrow> startsWith m ''G-'' \<and> drop 2 m \<noteq> [] \<and> list_all is_upper_or_digit (drop 2 m)"

definition an_enabled :: "analytics_state \<Rightarrow> bool" where
  "an_enabled s = analytics (readPrivacyPreferences (page_browser.truncate s))"

definition an_clear :: "analytics_state \<Rightarrow> analytics_state" where
  "an_clear s = s\<lparr>jar := jar (clearAnalyticsCookies (page_browser.truncate s))\<rparr>"

text \<open>\<^verbatim>\<open>update\<close>: on mounting and on every change of the preferences.\<close>

definition an_update :: "string \<Rightarrow> analytics_state \<Rightarrow> analytics_state" where
  "an_update m s0 =
     (let enabled = an_enabled s0; s = s0\<lparr>an_disabled := \<not> enabled\<rparr> in
      if \<not> enabled then an_clear s
      else if an_script s then s
      else s\<lparr>an_gtag := True, an_script := True,
             an_calls := an_calls s @ [GaConsent, GaStart, GaConfig m (an_origin s @ an_pathname s) (an_referrer_origin s)]\<rparr>)"

text \<open>\<^verbatim>\<open>pageView\<close>.\<close>

definition an_page_view :: "string \<Rightarrow> analytics_state \<Rightarrow> analytics_state" where
  "an_page_view m s =
     (if \<not> an_enabled s then s
      else if an_gtag s then s\<lparr>an_calls := an_calls s @
        [GaPageView m (an_origin s @ an_pathname s) (an_title s) (an_referrer_origin s)]\<rparr>
      else s)"

text \<open>The two effects; neither does anything for a text that is no measurement id.\<close>

definition an_mount :: "string \<Rightarrow> analytics_state \<Rightarrow> analytics_state" where
  "an_mount m s = (if valid_measurement m then an_page_view m (an_update m s) else s)"

definition an_navigate :: "string \<Rightarrow> string \<Rightarrow> analytics_state \<Rightarrow> analytics_state" where
  "an_navigate m pathname s =
     (if valid_measurement m then an_page_view m (s\<lparr>an_pathname := pathname\<rparr>) else s\<lparr>an_pathname := pathname\<rparr>)"

text \<open>The event of a changed preference: both listeners, in the order they were added.\<close>

definition an_changed :: "string \<Rightarrow> preferences \<Rightarrow> analytics_state \<Rightarrow> analytics_state" where
  "an_changed m p s0 =
     (let b = savePrivacyPreferences p (page_browser.truncate s0);
          s = s0\<lparr>sessionPreferences := sessionPreferences b, jar := jar b, stored_theme := stored_theme b\<rparr>
      in if valid_measurement m then an_page_view m (an_update m s) else s)"

definition an_unmount :: "analytics_state \<Rightarrow> analytics_state" where
  "an_unmount s = s\<lparr>an_script := False\<rparr>"

section \<open>Lemmas\<close>

text \<open>A jar whose names and values need no quoting, and in which the choice has one place.\<close>

definition plain_jar :: "cookie list \<Rightarrow> bool" where
  "plain_jar j \<longleftrightarrow> list_all (\<lambda>c. plain_cookie (ck_name c, ck_value c)) j"

definition one_choice :: "cookie list \<Rightarrow> bool" where
  "one_choice j \<longleftrightarrow> list_all (\<lambda>c. ck_name c \<noteq> PRIVACY_COOKIE \<or> ck_domain c = []) j"

lemma document_cookie_string: "document_cookie j = cookie_string (map (\<lambda>c. (ck_name c, ck_value c)) j)"
  by (simp add: document_cookie_def cookie_string_def comp_def)

lemma document_parts:
  "plain_jar j \<Longrightarrow> j \<noteq> [] \<Longrightarrow> cookie_parts (document_cookie j) = map (\<lambda>c. ck_name c @ CHR ''='' # ck_value c) j"
  by (simp add: document_cookie_string cookie_parts_string plain_jar_def list_all_iff)

lemma document_empty: "cookie_parts (document_cookie []) = [[]]"
  by (simp add: document_cookie_def cookie_parts_def trim_def trim_start_def)

lemma privacy_name: "CHR ''='' \<notin> set PRIVACY_COOKIE"
  by (simp add: PRIVACY_COOKIE_def)

lemma stored_preference_jar:
  assumes "plain_jar j"
  shows "stored_preference (document_cookie j) =
    map_option (\<lambda>c. takeWhile (\<lambda>x. x \<noteq> CHR ''='') (ck_value c)) (find (\<lambda>c. ck_name c = PRIVACY_COOKIE) j)"
proof (cases "j = []")
  case True
  then show ?thesis by (simp add: stored_preference_def document_empty)
next
  case False
  have "(case find (\<lambda>part. startsWith part (PRIVACY_COOKIE @ ''='')) (map (\<lambda>c. ck_name c @ CHR ''='' # ck_value c) l) of
        None \<Rightarrow> None
      | Some part \<Rightarrow> (case split_on CHR ''='' part of _ # v # _ \<Rightarrow> Some v | _ \<Rightarrow> None)) =
      map_option (\<lambda>c. takeWhile (\<lambda>x. x \<noteq> CHR ''='') (ck_value c)) (find (\<lambda>c. ck_name c = PRIVACY_COOKIE) l)"
    if "plain_jar l" for l
    using that
  proof (induction l)
    case Nil
    then show ?case by simp
  next
    case (Cons c l)
    then have p: "plain_cookie (ck_name c, ck_value c)" by (simp add: plain_jar_def)
    then have n: "CHR ''='' \<notin> set (ck_name c)" by (auto simp: plain_cookie_def cookie_token_def)
    have s: "split_on CHR ''='' (ck_name c @ CHR ''='' # ck_value c) = ck_name c # split_on CHR ''='' (ck_value c)"
      by (rule trim_cookie(3) [OF p])
    obtain w ws where w: "split_on CHR ''='' (ck_value c) = w # ws"
      by (cases "split_on CHR ''='' (ck_value c)") auto
    then have "w = takeWhile (\<lambda>x. x \<noteq> CHR ''='') (ck_value c)"
      using hd_split_on [of "CHR ''=''" "ck_value c"] by simp
    with Cons s w pair_prefix [OF privacy_name n] show ?case
      by (cases "ck_name c = PRIVACY_COOKIE") (simp_all add: plain_jar_def)
  qed
  with assms False show ?thesis by (simp add: stored_preference_def document_parts)
qed

lemma read_preference_value [simp]: "read_value (preference_value p) = Some p"
  by (cases p) (simp add: read_value_def preference_value_def bit_char_def is_bit_def)

lemma preference_value_plain:
  "takeWhile (\<lambda>x. x \<noteq> CHR ''='') (preference_value p) = preference_value p"
  "plain_cookie (PRIVACY_COOKIE, preference_value p)"
  by (auto simp: preference_value_def bit_char_def plain_cookie_def cookie_token_def PRIVACY_COOKIE_def js_space_def)

lemma find_set_cookie:
  assumes "one_choice j" and "ck_name c = PRIVACY_COOKIE" and "ck_domain c = []"
  shows "find (\<lambda>d. ck_name d = PRIVACY_COOKIE) (set_cookie c j) = Some c"
proof (cases "list_ex (same_cookie c) j")
  case True
  then have "find (\<lambda>d. ck_name d = PRIVACY_COOKIE) (map (\<lambda>d. if same_cookie c d then c else d) j) = Some c"
    using assms by (induction j) (auto simp: same_cookie_def one_choice_def)
  with True show ?thesis by (simp add: set_cookie_def)
next
  case False
  then have "find (\<lambda>d. ck_name d = PRIVACY_COOKIE) (j @ [c]) = Some c"
    using assms by (induction j) (auto simp: same_cookie_def one_choice_def)
  with False show ?thesis by (simp add: set_cookie_def)
qed

lemma plain_set_cookie: "plain_jar j \<Longrightarrow> plain_cookie (ck_name c, ck_value c) \<Longrightarrow> plain_jar (set_cookie c j)"
  by (auto simp: set_cookie_def plain_jar_def list_all_iff)

lemma plain_expire: "plain_jar j \<Longrightarrow> plain_jar (expire_cookie c j)"
  by (auto simp: expire_cookie_def plain_jar_def list_all_iff)

lemma find_expire_cookie:
  assumes "one_choice j" and "ck_name c = PRIVACY_COOKIE" and "ck_domain c = []"
  shows "find (\<lambda>d. ck_name d = PRIVACY_COOKIE) (expire_cookie c j) = None"
  using assms by (auto simp: find_None_iff expire_cookie_def same_cookie_def one_choice_def list_all_iff)

text \<open>What is left of the jar after the loops of \<^verbatim>\<open>clearAnalyticsCookies\<close>.\<close>

lemma expire_domains:
  "c \<in> set (foldl (\<lambda>j d. expire_cookie \<lparr>ck_name = n, ck_domain = cookie_domain d, ck_value = []\<rparr> j) j ds) \<longleftrightarrow>
     c \<in> set j \<and> \<not> (ck_name c = n \<and> ck_domain c \<in> cookie_domain ` set ds)"
  by (induction ds arbitrary: j) (auto simp: expire_cookie_def same_cookie_def)

lemma expire_names:
  "c \<in> set (foldl (\<lambda>j n. foldl (\<lambda>j d. expire_cookie \<lparr>ck_name = n, ck_domain = cookie_domain d, ck_value = []\<rparr> j) j ds) j ns) \<longleftrightarrow>
     c \<in> set j \<and> \<not> (ck_name c \<in> set ns \<and> ck_domain c \<in> cookie_domain ` set ds)"
  by (induction ns arbitrary: j) (auto simp: expire_domains)

lemma cookie_names_jar:
  assumes "plain_jar j"
  shows "set (cookie_names (document_cookie j)) = {n \<in> ck_name ` set j. analytics_cookie n}"
proof (cases "j = []")
  case True
  then show ?thesis by (simp add: cookie_names_def document_empty analytics_cookie_def)
next
  case False
  have "hd (split_on CHR ''='' (ck_name c @ CHR ''='' # ck_value c)) = ck_name c" if "c \<in> set j" for c
  proof -
    have "plain_cookie (ck_name c, ck_value c)" using assms that by (auto simp: plain_jar_def list_all_iff)
    from trim_cookie(3) [OF this] show ?thesis by simp
  qed
  then show ?thesis using assms False by (auto simp: cookie_names_def document_parts)
qed

lemma clearAnalytics_jar:
  assumes "plain_jar (jar b)"
  shows "c \<in> set (jar (clearAnalyticsCookies b)) \<longleftrightarrow>
    c \<in> set (jar b) \<and> \<not> (analytics_cookie (ck_name c) \<and> ck_domain c \<in> cookie_domain ` set (clear_domains (hostname b)))"
  using assms by (auto simp: clearAnalyticsCookies_def expire_names cookie_names_jar)

lemma choice_after_save:
  "readPrivacyPreferences (savePrivacyPreferences p b) = p"
  by (simp add: readPrivacyPreferences_def savePrivacyPreferences_def Let_def)

section \<open>Properties\<close>

text \<open>
  A visitor's privacy choice outlives the tab. After saving, the tab itself and any page
  loaded later with the same cookies read exactly the saved choice, whichever of the four it
  is, with any other cookies present; and no other cookie is touched.
\<close>

theorem privacy_choice_roundtrip:
  assumes "plain_jar (jar b)" and "one_choice (jar b)"
  shows "readPrivacyPreferences (savePrivacyPreferences p b) = p \<and>
    readPrivacyPreferences ((savePrivacyPreferences p b)\<lparr>sessionPreferences := None\<rparr>) = p \<and>
    filter (\<lambda>c. ck_name c \<noteq> PRIVACY_COOKIE) (jar (savePrivacyPreferences p b)) =
      filter (\<lambda>c. ck_name c \<noteq> PRIVACY_COOKIE) (jar b)"
proof -
  let ?c = "\<lparr>ck_name = PRIVACY_COOKIE, ck_domain = [], ck_value = preference_value p\<rparr>"
  have set: "stored_preference (document_cookie (set_cookie ?c (jar b))) = Some (preference_value p)"
    using plain_set_cookie [OF assms(1), of ?c] find_set_cookie [OF assms(2), of ?c]
    by (simp add: stored_preference_jar preference_value_plain)
  have exp: "stored_preference (document_cookie (expire_cookie ?c (jar b))) = None"
    using plain_expire [OF assms(1), of ?c] find_expire_cookie [OF assms(2), of ?c]
    by (simp add: stored_preference_jar)
  have others: "filter (\<lambda>c. ck_name c \<noteq> PRIVACY_COOKIE) (set_cookie ?c j) = filter (\<lambda>c. ck_name c \<noteq> PRIVACY_COOKIE) j"
    "filter (\<lambda>c. ck_name c \<noteq> PRIVACY_COOKIE) (expire_cookie ?c j) = filter (\<lambda>c. ck_name c \<noteq> PRIVACY_COOKIE) j" for j
  proof -
    have "filter (\<lambda>c. ck_name c \<noteq> PRIVACY_COOKIE) (map (\<lambda>d. if same_cookie ?c d then ?c else d) j) =
        filter (\<lambda>c. ck_name c \<noteq> PRIVACY_COOKIE) j"
      by (induction j) (auto simp: same_cookie_def)
    then show "filter (\<lambda>c. ck_name c \<noteq> PRIVACY_COOKIE) (set_cookie ?c j) = filter (\<lambda>c. ck_name c \<noteq> PRIVACY_COOKIE) j"
      by (simp add: set_cookie_def)
    show "filter (\<lambda>c. ck_name c \<noteq> PRIVACY_COOKIE) (expire_cookie ?c j) = filter (\<lambda>c. ck_name c \<noteq> PRIVACY_COOKIE) j"
      by (induction j) (auto simp: expire_cookie_def same_cookie_def)
  qed
  show ?thesis
  proof (cases "rememberTheme p \<and> analytics p")
    case True
    then have "p = default_preferences" by (cases p) (simp add: default_preferences_def)
    with True exp others show ?thesis
      by (auto simp: readPrivacyPreferences_def savePrivacyPreferences_def Let_def)
  next
    case False
    with set others show ?thesis
      by (auto simp: readPrivacyPreferences_def savePrivacyPreferences_def Let_def)
  qed
qed

definition demo_jar :: "cookie list" where
  "demo_jar = [\<lparr>ck_name = ''_ga'', ck_domain = ''example.uk'', ck_value = ''GA1.2''\<rparr>,
     \<lparr>ck_name = ''lang'', ck_domain = [], ck_value = ''en''\<rparr>]"

definition demo_browser :: page_browser where
  "demo_browser = \<lparr>sessionPreferences = None, jar = demo_jar, hostname = ''www.example.uk'', storage_blocked = False,
     stored_theme = None\<rparr>"

lemma demo_jar_plain: "plain_jar demo_jar" "one_choice demo_jar"
  by (simp_all add: demo_jar_def plain_jar_def one_choice_def plain_cookie_def cookie_token_def js_space_def PRIVACY_COOKIE_def)

theorem privacy_choice_roundtrip_witness:
  "readPrivacyPreferences ((savePrivacyPreferences \<lparr>rememberTheme = True, analytics = False\<rparr> demo_browser)\<lparr>sessionPreferences := None\<rparr>)
     = \<lparr>rememberTheme = True, analytics = False\<rparr>"
proof -
  have "plain_jar (jar demo_browser)" "one_choice (jar demo_browser)"
    using demo_jar_plain by (simp_all add: demo_browser_def)
  from privacy_choice_roundtrip [OF this] show ?thesis by blast
qed

text \<open>The state after a change of the preferences, before the listeners.\<close>

definition an_saved :: "preferences \<Rightarrow> analytics_state \<Rightarrow> analytics_state" where
  "an_saved p s =
     (let b = savePrivacyPreferences p (page_browser.truncate s)
      in s\<lparr>sessionPreferences := sessionPreferences b, jar := jar b, stored_theme := stored_theme b\<rparr>)"

lemma an_saved_facts:
  "an_enabled (an_saved p s) = analytics p" "an_calls (an_saved p s) = an_calls s"
  "an_script (an_saved p s) = an_script s" "an_gtag (an_saved p s) = an_gtag s"
  "hostname (an_saved p s) = hostname s" "jar (an_saved p s) = jar (savePrivacyPreferences p (page_browser.truncate s))"
  by (simp_all add: an_saved_def an_enabled_def savePrivacyPreferences_def readPrivacyPreferences_def Let_def
      page_browser.defs)

lemma an_enabled_updates [simp]:
  "an_enabled (s\<lparr>an_disabled := d\<rparr>) = an_enabled s" "an_enabled (s\<lparr>an_pathname := q\<rparr>) = an_enabled s"
  "an_enabled (s\<lparr>an_disabled := d, an_gtag := g, an_script := c, an_calls := l\<rparr>) = an_enabled s"
  by (simp_all add: an_enabled_def page_browser.defs)

lemma an_clear_facts:
  "an_calls (an_clear s) = an_calls s" "an_disabled (an_clear s) = an_disabled s" "hostname (an_clear s) = hostname s"
  "sessionPreferences s = Some p \<Longrightarrow> an_enabled (an_clear s) = analytics p"
  by (simp_all add: an_clear_def an_enabled_def readPrivacyPreferences_def page_browser.defs)

lemma an_changed_saved:
  "valid_measurement m \<Longrightarrow> an_changed m p s = an_page_view m (an_update m (an_saved p s))"
  by (simp add: an_changed_def an_saved_def Let_def)

lemma an_saved_session: "sessionPreferences (an_saved p s) = Some p"
  by (simp add: an_saved_def savePrivacyPreferences_def Let_def)

lemma saved_jar_plain: "plain_jar (jar b) \<Longrightarrow> plain_jar (jar (savePrivacyPreferences p b))"
  by (simp add: savePrivacyPreferences_def Let_def plain_expire plain_set_cookie preference_value_plain)

text \<open>
  Opting out of analytics takes effect at once. After the change the library is disabled,
  no further call is queued, now or on a later page view, and no analytics cookie of the host
  or one of its parent domains is left; opting in enables the library, and when its script is
  not in the page yet, queues the consent settings first.
\<close>

theorem analytics_follow_choice:
  assumes "valid_measurement m" and "plain_jar (jar s)"
  shows "an_disabled (an_changed m p s) = (\<not> analytics p) \<and>
    (if analytics p
     then an_script (an_changed m p s) \<and>
       (an_script s \<or> take 1 (drop (length (an_calls s)) (an_calls (an_changed m p s))) = [GaConsent])
     else an_calls (an_changed m p s) = an_calls s \<and>
       an_calls (an_navigate m path (an_changed m p s)) = an_calls s \<and>
       list_all (\<lambda>c. \<not> analytics_cookie (ck_name c) \<or> ck_domain c \<notin> cookie_domain ` set (clear_domains (hostname s)))
         (jar (an_changed m p s)))"
proof (cases "analytics p")
  case True
  then show ?thesis
    using assms(1)
    by (auto simp: an_changed_saved an_update_def an_page_view_def an_saved_facts Let_def)
next
  case False
  let ?s1 = "(an_saved p s)\<lparr>an_disabled := True\<rparr>"
  have e: "\<not> an_enabled (an_clear ?s1)"
    using False an_clear_facts(4) [of ?s1 p] by (simp add: an_saved_session)
  then have c: "an_changed m p s = an_clear ?s1"
    using False assms(1) by (simp add: an_changed_saved an_update_def an_page_view_def an_saved_facts Let_def)
  have "plain_jar (jar (savePrivacyPreferences p (page_browser.truncate s)))"
    using assms(2) by (intro saved_jar_plain) (simp add: page_browser.defs)
  then have "\<not> (analytics_cookie (ck_name x) \<and> ck_domain x \<in> cookie_domain ` set (clear_domains (hostname s)))"
    if "x \<in> set (jar (an_clear ?s1))" for x
    using that clearAnalytics_jar [of "page_browser.truncate ?s1" x]
    by (simp add: an_clear_def page_browser.defs an_saved_facts)
  moreover have "\<not> an_enabled ((an_clear ?s1)\<lparr>an_pathname := path\<rparr>)" using e by simp
  ultimately show ?thesis
    using False assms(1) by (auto simp: c an_clear_facts an_saved_facts an_navigate_def an_page_view_def list_all_iff)
qed

definition demo_analytics :: analytics_state where
  "demo_analytics = page_browser.extend demo_browser
     \<lparr>an_calls = [], an_gtag = False, an_script = False, an_disabled = False, an_origin = ''https://www.example.uk'',
      an_pathname = ''/'', an_title = ''Home'', an_referrer_origin = []\<rparr>"

theorem analytics_follow_choice_witness:
  "an_disabled (an_changed ''G-AB12'' \<lparr>rememberTheme = True, analytics = False\<rparr> (an_mount ''G-AB12'' demo_analytics))"
proof -
  have v: "valid_measurement ''G-AB12''" by code_simp
  have "jar (an_mount ''G-AB12'' demo_analytics) = demo_jar" by code_simp
  then have "plain_jar (jar (an_mount ''G-AB12'' demo_analytics))" using demo_jar_plain by simp
  from analytics_follow_choice [OF v this, of "\<lparr>rememberTheme = True, analytics = False\<rparr>"] show ?thesis by simp
qed

end
