(* ===== verification/Observability.thy ===== *)
theory Observability
  imports Js_Net State_Machine
begin

text \<open>
  \<^verbatim>\<open>packages/observability/src\<close>: the request metrics each site serves, the start-up
  hook that begins tracking, and the two routes for health and metrics.

  The state is what hangs on \<^verbatim>\<open>globalThis\<close> and what the library keeps: whether the
  metrics exist, whether tracking has begun, the subscribed handlers, the start times of the
  responses in progress, and the observations of the histogram. The histogram's buckets and
  the text format belong to the library. Times are in milliseconds.
\<close>

record observation =
  ob_method :: string
  ob_status :: string
  ob_seconds :: rat

record obs_state =
  os_metrics :: bool
  os_tracking :: bool
  os_subscribers :: nat
  os_started :: "(nat \<times> rat) list"
  os_observed :: "observation list"

definition os_init :: obs_state where
  "os_init = \<lparr>os_metrics = False, os_tracking = False, os_subscribers = 0, os_started = [], os_observed = []\<rparr>"

definition UNTRACKED :: "string list" where
  "UNTRACKED = [''/healthz'', ''/metrics'']"

definition METHODS :: "string list" where
  "METHODS = [''GET'', ''HEAD'', ''POST'', ''PUT'', ''PATCH'', ''DELETE'', ''OPTIONS'']"

text \<open>\<^verbatim>\<open>metrics()\<close>: the one registry of the process, created on first use.\<close>

definition metrics :: "obs_state \<Rightarrow> obs_state" where
  "metrics s = s\<lparr>os_metrics := True\<rparr>"

text \<open>\<^verbatim>\<open>.replace(/(.)\/$/, "$1")\<close>; the dot is no line terminator.\<close>

definition drop_last_slash :: "string \<Rightarrow> string" where
  "drop_last_slash s =
     (case rev s of a # b # r \<Rightarrow> (if a = CHR ''/'' \<and> b \<noteq> CHR 0x0A \<and> b \<noteq> CHR 0x0D then rev (b # r) else s)
      | _ \<Rightarrow> s)"

definition request_path :: "string option \<Rightarrow> string" where
  "request_path url = drop_last_slash (hd (split_on CHR ''?'' (nullish url ''/'')))"

definition method_label :: "string option \<Rightarrow> string" where
  "method_label method =
     (let upper = toUpperCase (nullish method []) in if upper \<in> set METHODS then upper else ''other'')"

definition observeRequest :: "string option \<Rightarrow> string option \<Rightarrow> nat \<Rightarrow> rat \<Rightarrow> obs_state \<Rightarrow> obs_state" where
  "observeRequest method url statusCode seconds s =
     (if request_path url \<in> set UNTRACKED then s
      else s\<lparr>os_observed := os_observed s @
        [\<lparr>ob_method = method_label method, ob_status = nat_str statusCode, ob_seconds = seconds\<rparr>]\<rparr>)"

definition trackHttpRequests :: "obs_state \<Rightarrow> obs_state" where
  "trackHttpRequests s =
     (if os_tracking s then s else s\<lparr>os_tracking := True, os_subscribers := os_subscribers s + 1\<rparr>)"

text \<open>\<^verbatim>\<open>register\<close> of the instrumentation, with the runtime it runs in.\<close>

definition register :: "string option \<Rightarrow> obs_state \<Rightarrow> obs_state" where
  "register runtime s = (if runtime = Some ''nodejs'' then trackHttpRequests s else s)"

text \<open>The two channel handlers.\<close>

definition on_start :: "nat \<Rightarrow> rat \<Rightarrow> obs_state \<Rightarrow> obs_state" where
  "on_start response now s = s\<lparr>os_started := alist_put response now (os_started s)\<rparr>"

definition on_finish :: "nat \<Rightarrow> rat \<Rightarrow> string option \<Rightarrow> string option \<Rightarrow> nat \<Rightarrow> obs_state \<Rightarrow> obs_state" where
  "on_finish response now method url statusCode s =
     (case map_of (os_started s) response of
        None \<Rightarrow> s
      | Some start \<Rightarrow> observeRequest method url statusCode ((now - start) / 1000) (metrics s))"

text \<open>The platform calls each handler once per subscription.\<close>

definition publish :: "(obs_state \<Rightarrow> obs_state) \<Rightarrow> obs_state \<Rightarrow> obs_state" where
  "publish handler s = (handler ^^ os_subscribers s) s"

text \<open>\<^verbatim>\<open>routes.ts\<close>: the health route never looks at the state.\<close>

definition healthz :: "int \<Rightarrow> json" where
  "healthz uptime = JObj [(''status'', JStr ''ok''),
     (''checks'', JObj [(''server'', JObj [(''ok'', JBool True), (''uptime_seconds'', JNum uptime)])])]"

definition prometheus :: "(obs_state \<Rightarrow> string) \<Rightarrow> obs_state \<Rightarrow> obs_state \<times> string" where
  "prometheus render s = (metrics s, render (metrics s))"

section \<open>Events of a process\<close>

text \<open>Start-up hooks (one per bundle), requests that begin and responses that end, in any order.\<close>

inductive obs_step :: "obs_state \<Rightarrow> obs_state \<Rightarrow> bool" where
  obs_register: "obs_step s (register runtime s)"
| obs_start: "obs_step s (publish (on_start response now) s)"
| obs_finish: "obs_step s (publish (on_finish response now method url statusCode) s)"
| obs_scrape: "obs_step s (fst (prometheus render s))"

inductive_cases obs_stepE: "obs_step s t"

definition good_observation :: "observation \<Rightarrow> bool" where
  "good_observation o' \<longleftrightarrow> ob_method o' \<in> insert ''other'' (set METHODS) \<and> list_all is_digit (ob_status o')"

definition obs_inv :: "obs_state \<Rightarrow> bool" where
  "obs_inv s \<longleftrightarrow> os_subscribers s = (if os_tracking s then 1 else 0) \<and> list_all good_observation (os_observed s)"

lemma observe_inv: "obs_inv s \<Longrightarrow> obs_inv (observeRequest method url st sec s)"
  using nat_str_digits [of _ st]
  by (auto simp: obs_inv_def observeRequest_def good_observation_def method_label_def Let_def list_all_iff)

lemma on_finish_inv: "obs_inv s \<Longrightarrow> obs_inv (on_finish response now method url st s)"
proof -
  assume "obs_inv s"
  then have "obs_inv (metrics s)" by (simp add: metrics_def obs_inv_def)
  with \<open>obs_inv s\<close> show ?thesis by (auto simp: on_finish_def observe_inv split: option.splits)
qed

lemma on_start_inv: "obs_inv s \<Longrightarrow> obs_inv (on_start response now s)"
  by (simp add: on_start_def obs_inv_def)

lemma publish_inv: "(\<And>t. obs_inv t \<Longrightarrow> obs_inv (f t)) \<Longrightarrow> obs_inv s \<Longrightarrow> obs_inv (publish f s)"
proof -
  assume f: "\<And>t. obs_inv t \<Longrightarrow> obs_inv (f t)" and s: "obs_inv s"
  have "obs_inv ((f ^^ n) s)" for n by (induction n) (auto intro: f s)
  then show ?thesis by (simp add: publish_def)
qed

lemma register_inv: "obs_inv s \<Longrightarrow> obs_inv (register runtime s)"
  by (simp add: register_def trackHttpRequests_def obs_inv_def)

lemma scrape_inv: "obs_inv s \<Longrightarrow> obs_inv (fst (prometheus render s))"
  by (simp add: prometheus_def metrics_def obs_inv_def)

interpretation observer: safe_machine "(=) os_init" obs_step obs_inv
proof
  show "os_init = s \<Longrightarrow> obs_inv s" for s by (auto simp: os_init_def obs_inv_def)
  show "obs_inv t" if "obs_inv s" "obs_step s t" for s t
    using that(2,1)
    by (auto elim!: obs_stepE intro!: publish_inv on_start_inv on_finish_inv register_inv scrape_inv
        simp del: fst_conv)
qed

section \<open>Properties\<close>

text \<open>
  The request metrics stay bounded and count each response once. However often the
  start-up hook runs, there is at most one subscription, so a finished response adds one
  observation, when its start was seen and its path is not a health or metrics path, and none
  otherwise; and in every state all labels are a known method or "other" and a status number,
  never a path.
\<close>

theorem metrics_bounded_and_counted_once:
  assumes "reachable ((=) os_init) obs_step s"
  shows "os_subscribers s \<le> 1 \<and>
    list_all (\<lambda>b. ob_method b \<in> insert ''other'' (set METHODS) \<and> list_all is_digit (ob_status b)) (os_observed s) \<and>
    length (os_observed (publish (on_finish response now method url statusCode) s)) =
      length (os_observed s) +
        (if os_tracking s \<and> map_of (os_started s) response \<noteq> None \<and> request_path url \<notin> set UNTRACKED then 1 else 0)"
proof -
  have inv: "obs_inv s" by (rule observer.inv_reachable [OF assms])
  then have n: "os_subscribers s = (if os_tracking s then 1 else 0)" by (simp add: obs_inv_def)
  have "length (os_observed (on_finish response now method url statusCode s)) = length (os_observed s) +
      (if map_of (os_started s) response \<noteq> None \<and> request_path url \<notin> set UNTRACKED then 1 else 0)"
    by (auto simp: on_finish_def observeRequest_def metrics_def split: option.splits)
  with inv n show ?thesis by (auto simp: publish_def obs_inv_def good_observation_def list_all_iff)
qed

lemma two_starts: "reachable ((=) os_init) obs_step (register (Some ''nodejs'') (register (Some ''nodejs'') os_init))"
proof -
  have "reachable ((=) os_init) obs_step os_init" by (rule reach_init) simp
  then have "reachable ((=) os_init) obs_step (register (Some ''nodejs'') os_init)"
    by (rule reach_step) (rule obs_register)
  then show ?thesis by (rule reach_step) (rule obs_register)
qed

theorem metrics_bounded_and_counted_once_witness:
  "os_subscribers (register (Some ''nodejs'') (register (Some ''nodejs'') os_init)) \<le> 1"
  using metrics_bounded_and_counted_once [OF two_starts] by blast

end
