(* ===== verification/Admin_Fetch.thy ===== *)
theory Admin_Fetch
  imports Js_Net
begin

text \<open>
  \<^verbatim>\<open>sites/adb-software-solutions/src/lib/api/fetch.ts\<close>: the calls of the admin
  application to its API. Every method that is not safe is sent with a CSRF token, taken from
  the cookie or fetched first; \<^verbatim>\<open>fetchAPI\<close> turns a failed response into an
  exception with the server's message.

  The server and the cookies are parameters (\<open>Js_Net\<close>); without a document there are no
  cookies. A body is the JSON text of a value, another text, or a form.
\<close>

record admin_world =
  aw_server :: server
  aw_document :: "cookies option"
  aw_api :: string

definition SAFE_METHODS :: "string list" where
  "SAFE_METHODS = [''GET'', ''HEAD'', ''OPTIONS'']"

text \<open>The first part of the cookie string that starts with the name and an equals sign.\<close>

definition getCookie :: "string option \<Rightarrow> string \<Rightarrow> string option result" where
  "getCookie cookie name =
     (case cookie of
        None \<Rightarrow> Inr None
      | Some text \<Rightarrow>
          (let prefix = name @ ''=''
           in case find (\<lambda>value. startsWith value prefix) (cookie_parts text) of
                None \<Rightarrow> Inr None
              | Some value \<Rightarrow>
                  and_then (decodeURIComponent (drop (length prefix) value)) (\<lambda>v. Inr (Some v))))"

definition document_cookie :: "admin_world \<Rightarrow> request list \<Rightarrow> string option" where
  "document_cookie w h = map_option (\<lambda>c. c h) (aw_document w)"

definition csrf_cookie :: "admin_world \<Rightarrow> string option io" where
  "csrf_cookie w h = (h, getCookie (document_cookie w h) ''csrftoken'')"

definition token_request :: "admin_world \<Rightarrow> request" where
  "token_request w = \<lparr>req_url = aw_api w @ ''/api/auth/csrf'', req_method = ''GET'', req_headers = [],
     req_body = NoBody, req_credentials = ''include''\<rparr>"

text \<open>\<open>getCookie("csrftoken") ?? payload.token ?? null\<close>: a cookie, even an empty one, wins.\<close>

definition ensureCsrfToken :: "admin_world \<Rightarrow> string option io" where
  "ensureCsrfToken w =
     bind_io (csrf_cookie w) (\<lambda>existing.
       if truthy_string existing then return_io existing
       else bind_io (fetch (aw_server w) (token_request w)) (\<lambda>response.
         if \<not> ok response then throw_io (Error ''Unable to initialise CSRF protection'')
         else bind_io (lift_io (json_body response)) (\<lambda>payload.
           bind_io (csrf_cookie w) (\<lambda>cookie.
             if cookie \<noteq> None then return_io cookie
             else bind_io (lift_io (non_null payload)) (\<lambda>p. return_io (jstr p ''token''))))))"

section \<open>fetchRawAPI\<close>

record request_init =
  ri_method :: "string option"
  ri_headers :: "(string \<times> string) list"
  ri_body :: req_body

definition no_options :: request_init where
  "no_options = \<lparr>ri_method = None, ri_headers = [], ri_body = NoBody\<rparr>"

definition just_post :: request_init where
  "just_post = \<lparr>ri_method = Some ''POST'', ri_headers = [], ri_body = NoBody\<rparr>"

text \<open>\<open>new Headers(options.headers)\<close>: names in lower case, values of equal names joined.\<close>

definition headers_append :: "(string \<times> string) list \<Rightarrow> string \<times> string \<Rightarrow> (string \<times> string) list" where
  "headers_append hs kv =
     (let k = toLowerCase (fst kv)
      in case map_of hs k of
           None \<Rightarrow> alist_put k (snd kv) hs
         | Some v \<Rightarrow> alist_put k (v @ '', '' @ snd kv) hs)"

definition new_Headers :: "(string \<times> string) list \<Rightarrow> (string \<times> string) list" where
  "new_Headers = foldl headers_append []"

fun body_truthy :: "req_body \<Rightarrow> bool" where
  "body_truthy NoBody = False"
| "body_truthy (TextBody s) = (s \<noteq> [])"
| "body_truthy (JsonBody j) = True"
| "body_truthy FormBody = True"

definition content_headers :: "request_init \<Rightarrow> (string \<times> string) list" where
  "content_headers options =
     (let headers = new_Headers (ri_headers options); isFormData = (ri_body options = FormBody)
      in if map_of headers ''content-type'' = None \<and> body_truthy (ri_body options) \<and> \<not> isFormData
         then alist_put ''content-type'' ''application/json'' headers else headers)"

definition api_request :: "string \<Rightarrow> request_init \<Rightarrow> (string \<times> string) list \<Rightarrow> request" where
  "api_request url options headers =
     \<lparr>req_url = url, req_method = toUpperCase (nullish (ri_method options) ''GET''), req_headers = headers,
      req_body = ri_body options, req_credentials = ''include''\<rparr>"

definition fetchRawAPI :: "admin_world \<Rightarrow> string \<Rightarrow> request_init \<Rightarrow> response io" where
  "fetchRawAPI w url options =
     (let method = toUpperCase (nullish (ri_method options) ''GET''); headers = content_headers options
      in if method \<notin> set SAFE_METHODS then
           bind_io (ensureCsrfToken w) (\<lambda>csrfToken.
             if \<not> truthy_string csrfToken then throw_io (Error ''Unable to obtain a CSRF token'')
             else fetch (aw_server w)
                    (api_request url options (alist_put ''x-csrftoken'' (the csrfToken) headers)))
         else fetch (aw_server w) (api_request url options headers))"

section \<open>fetchAPI\<close>

text \<open>\<open>String(value)\<close> of a JSON value, as \<^verbatim>\<open>new Error(value)\<close> applies it.\<close>

fun js_text :: "json \<Rightarrow> string" where
  "js_text JNull = ''null''"
| "js_text (JBool b) = (if b then ''true'' else ''false'')"
| "js_text (JNum n) = int_str n"
| "js_text (JStr s) = s"
| "js_text (JArr xs) = join '','' (map (\<lambda>x. if x = JNull then [] else js_text x) xs)"
| "js_text (JObj kvs) = ''[object Object]''"

definition error_text :: "json \<Rightarrow> string \<Rightarrow> string" where
  "error_text error fallback =
     (if truthy (jget error ''detail'') then js_text (the (jget error ''detail''))
      else if truthy (jget error ''message'') then js_text (the (jget error ''message''))
      else fallback)"

text \<open>The exception for a failed response; \<open>unreadable\<close> is the message for a body that is no JSON.\<close>

definition response_error :: "response \<Rightarrow> string \<Rightarrow> string \<Rightarrow> js_throw" where
  "response_error response unreadable fallback =
     (let error = (case json_body response of Inl e \<Rightarrow> JObj [(''message'', JStr unreadable)] | Inr j \<Rightarrow> j)
      in if error = JNull then TypeError else Error (error_text error fallback))"

definition fetchAPI :: "admin_world \<Rightarrow> string \<Rightarrow> request_init \<Rightarrow> json io" where
  "fetchAPI w url options =
     bind_io (fetchRawAPI w url options) (\<lambda>response.
       if \<not> ok response then throw_io (response_error response ''Unknown error'' ''API request failed'')
       else if status response = 204 then return_io JNull
       else lift_io (json_body response))"

text \<open>The callback of \<^verbatim>\<open>useAPI\<close> logs the exception and throws it again.\<close>

definition useAPI_fetch :: "admin_world \<Rightarrow> string \<Rightarrow> json io" where
  "useAPI_fetch w url = catch_io (fetchAPI w url no_options) (\<lambda>error. throw_io error)"

section \<open>Lemmas\<close>

text \<open>A request the API accepts: with the session's cookies and, unless its method is safe, a token.\<close>

definition signed_request :: "request \<Rightarrow> bool" where
  "signed_request r \<longleftrightarrow> req_credentials r = ''include'' \<and>
     (req_method r \<in> set SAFE_METHODS \<or> truthy_string (map_of (req_headers r) ''x-csrftoken''))"

lemma sends_ensure [sends_intros]: "P (token_request w) \<Longrightarrow> sends P (ensureCsrfToken w)"
proof -
  have c: "sends P (csrf_cookie w)" by (simp add: sends_def csrf_cookie_def)
  assume "P (token_request w)"
  then show ?thesis unfolding ensureCsrfToken_def by (intro sends_intros c)
qed

lemma token_request_signed [simp]: "signed_request (token_request w)"
  by (simp add: signed_request_def token_request_def SAFE_METHODS_def)

lemma sends_raw:
  assumes "P (token_request w)"
    and "\<And>hs. toUpperCase (nullish (ri_method options) ''GET'') \<in> set SAFE_METHODS \<or>
           truthy_string (map_of hs ''x-csrftoken'') \<Longrightarrow> P (api_request url options hs)"
  shows "sends P (fetchRawAPI w url options)"
  unfolding fetchRawAPI_def Let_def 
  by (intro sends_intros) (auto intro!: assms simp: truthy_string_def split: option.splits)

lemma sends_api [sends_intros]:
  assumes "P (token_request w)"
    and "\<And>hs. toUpperCase (nullish (ri_method options) ''GET'') \<in> set SAFE_METHODS \<or>
           truthy_string (map_of hs ''x-csrftoken'') \<Longrightarrow> P (api_request url options hs)"
  shows "sends P (fetchAPI w url options)"
  unfolding fetchAPI_def by (intro sends_intros sends_raw assms)

lemma api_request_signed:
  "toUpperCase (nullish (ri_method options) ''GET'') \<in> set SAFE_METHODS \<or>
     truthy_string (map_of hs ''x-csrftoken'') \<Longrightarrow> signed_request (api_request url options hs)"
  by (simp add: signed_request_def api_request_def)

lemma raw_signed: "sends signed_request (fetchRawAPI w url options)"
  by (rule sends_raw) (simp_all add: api_request_signed)

text \<open>A safe method goes out at once.\<close>

lemma fetchRawAPI_safe:
  "toUpperCase (nullish (ri_method options) ''GET'') \<in> set SAFE_METHODS \<Longrightarrow>
   fetchRawAPI w url options = fetch (aw_server w) (api_request url options (content_headers options))"
  by (simp add: fetchRawAPI_def)

lemma fetchAPI_get:
  "fetchAPI w url no_options h =
     (h @ [api_request url no_options []],
      and_then (aw_server w h (api_request url no_options [])) (\<lambda>response.
        if \<not> ok response then Inl (response_error response ''Unknown error'' ''API request failed'')
        else if status response = 204 then Inr JNull else json_body response))"
proof -
  have m: "toUpperCase (nullish (ri_method no_options) ''GET'') \<in> set SAFE_METHODS" by code_simp
  have c: "content_headers no_options = []" by code_simp
  show ?thesis
    by (auto simp: fetchAPI_def fetchRawAPI_safe [OF m] c bind_io_def fetch_def throw_io_def return_io_def
        lift_io_def and_then_def split: sum.splits)
qed

lemma post_not_safe: "toUpperCase ''POST'' \<notin> set SAFE_METHODS"
  by (simp add: toUpperCase_def upper_char_def SAFE_METHODS_def)

section \<open>Properties\<close>


lemma encoded_cookie: "cookie_token k \<Longrightarrow> plain_cookie (k, encodeURIComponent v)"
proof -
  have "c \<noteq> CHR '';'' \<and> \<not> js_space c" if "uri_component_char c" for c
    using that by (auto simp: uri_component_char_def uri_unreserved_def js_space_def is_alnum_def Let_def)
  then show "cookie_token k \<Longrightarrow> plain_cookie (k, encodeURIComponent v)"
    by (auto simp: plain_cookie_def list_all_iff dest: encodeURIComponent_chars)
qed

lemma find_encoded:
  assumes "list_all (\<lambda>kv. cookie_token (fst kv)) kvs" and "CHR ''='' \<notin> set name"
  shows "find (\<lambda>value. startsWith value (name @ ''='')) (map (\<lambda>(k, v). k @ CHR ''='' # encodeURIComponent v) kvs) =
    map_option (\<lambda>v. name @ CHR ''='' # encodeURIComponent v) (map_of kvs name)"
  using assms(1)
proof (induction kvs)
  case Nil
  then show ?case by simp
next
  case (Cons kv kvs)
  obtain k v where kv: "kv = (k, v)" by (cases kv)
  with Cons.prems have "CHR ''='' \<notin> set k" by (auto simp: cookie_token_def)
  with Cons kv assms(2) show ?case by (auto simp: pair_prefix)
qed

text \<open>
  C39: \<^verbatim>\<open>getCookie\<close> reads back exactly the value that was stored under a name, for
  every text once it is percent-encoded, wherever the cookie stands among the others; a name
  that is not there gives \<^verbatim>\<open>null\<close>.
\<close>

theorem cookie_roundtrip:
  assumes "list_all (\<lambda>kv. cookie_token (fst kv)) kvs" and "kvs \<noteq> []" and "CHR ''='' \<notin> set name"
  shows "getCookie (Some (cookie_string (map (\<lambda>(k, v). (k, encodeURIComponent v)) kvs))) name = Inr (map_of kvs name)"
proof -
  let ?e = "map (\<lambda>(k, v). (k, encodeURIComponent v)) kvs"
  have p: "list_all plain_cookie ?e" using assms(1) encoded_cookie by (auto simp: list_all_iff)
  have "cookie_parts (cookie_string ?e) = map (\<lambda>(k, v). k @ CHR ''='' # v) ?e"
    using assms(2) by (intro cookie_parts_string [OF p]) simp
  also have "\<dots> = map (\<lambda>(k, v). k @ CHR ''='' # encodeURIComponent v) kvs" by (induction kvs) auto
  finally show ?thesis
    using find_encoded [OF assms(1,3)]
    by (cases "map_of kvs name") (simp_all add: getCookie_def component_codec.dec_enc)
qed

theorem cookie_roundtrip_witness:
  "getCookie (Some (cookie_string (map (\<lambda>(k, v). (k, encodeURIComponent v))
     [(''theme'', ''dark''), (''csrftoken'', ''a=b; c'')]))) ''csrftoken'' = Inr (Some ''a=b; c'')"
  by (subst cookie_roundtrip) (simp_all add: cookie_token_def js_space_def)

text \<open>
  A token the server sends is ignored while the cookie is there but empty: the request then
  fails although the token endpoint answered with a token.
\<close>

lemma empty_cookie_hides_token:
  assumes "document_cookie w h = Some ''csrftoken=''"
    and "document_cookie w (h @ [token_request w]) = Some ''csrftoken=''"
    and "aw_server w h (token_request w) =
      Inr \<lparr>status = 200, json_body = Inr (JObj [(''token'', JStr t)]), resp_headers = []\<rparr>"
  shows "snd (fetchRawAPI w url just_post h) = Inl (Error ''Unable to obtain a CSRF token'')"
proof -
  have "getCookie (Some ''csrftoken='') ''csrftoken'' = Inr (Some [])" by code_simp
  then show ?thesis
    using assms post_not_safe
    by (simp add: fetchRawAPI_def just_post_def ensureCsrfToken_def csrf_cookie_def bind_io_def return_io_def
        lift_io_def throw_io_def fetch_def ok_def)
qed

end
