(* ===== verification/Admin_Endpoints.thy ===== *)
theory Admin_Endpoints
  imports Js_Net
begin

text \<open>
  The addresses of the admin API, \<^verbatim>\<open>sites/adb-software-solutions/src/lib/api/endpoints.ts\<close>
  with \<^verbatim>\<open>leadEmail.ts\<close>, \<^verbatim>\<open>overview.ts\<close>, \<^verbatim>\<open>ticketFocus.ts\<close>
  and the paths of \<^verbatim>\<open>credentialVault.ts\<close> and \<^verbatim>\<open>celery.ts\<close>. One datatype per
  member of the source's object, one constructor per function; an endpoint is its path below
  \<^verbatim>\<open>/api/\<close> as segments, with the query a caller passes as text.

  Ids are numbers, printed in decimal; ids and keys that are texts are percent-encoded by the
  source. \<^verbatim>\<open>StaffAccessAPI\<close>, whose user ids are put in as they are, is at the end.
\<close>

type_synonym endpoint = "string list \<times> string"

definition endpoint_url :: "string \<Rightarrow> endpoint \<Rightarrow> string" where
  "endpoint_url api e =
     api @ ''/api/'' @ join ''/'' (fst e) @ (if snd e = [] then [] else ''?'' @ snd e)"

definition adm :: "string list \<Rightarrow> endpoint" where
  "adm segs = (''admin'' # segs, [])"

definition adm_query :: "string list \<Rightarrow> string \<Rightarrow> endpoint" where
  "adm_query segs query = (''admin'' # segs, query)"

section \<open>The calls\<close>

datatype clients_call =
    Clients_list | Clients_get int | Clients_create | Clients_update int | Clients_delete int
  | Contacts_create int | Contacts_get int int | Contacts_update int int

fun clients_endpoint :: "clients_call \<Rightarrow> endpoint" where
  "clients_endpoint Clients_list = adm [''clients'']"
| "clients_endpoint (Clients_get i) = adm [''clients'', int_str i]"
| "clients_endpoint Clients_create = adm [''clients'']"
| "clients_endpoint (Clients_update i) = adm [''clients'', int_str i]"
| "clients_endpoint (Clients_delete i) = adm [''clients'', int_str i]"
| "clients_endpoint (Contacts_create i) = adm [''clients'', int_str i, ''contacts'']"
| "clients_endpoint (Contacts_get i k) = adm [''clients'', int_str i, ''contacts'', int_str k]"
| "clients_endpoint (Contacts_update i k) = adm [''clients'', int_str i, ''contacts'', int_str k]"

datatype tasks_call =
    Projects_list | Projects_get int | Projects_create | Projects_update int | Projects_taskWorkspace int
  | Tasks_list string | Tasks_get int | Tasks_create | Tasks_update int | Tasks_complete int | Tasks_reopen int
  | Tasks_options | Tasks_move int | Tasks_relations int | Tasks_subtasks int | Tasks_dependencies int
  | Tasks_removeDependency int int

fun tasks_endpoint :: "tasks_call \<Rightarrow> endpoint" where
  "tasks_endpoint Projects_list = adm [''projects'']"
| "tasks_endpoint (Projects_get i) = adm [''projects'', int_str i]"
| "tasks_endpoint Projects_create = adm [''projects'']"
| "tasks_endpoint (Projects_update i) = adm [''projects'', int_str i]"
| "tasks_endpoint (Projects_taskWorkspace i) = adm [''task-workspaces'', ''projects'', int_str i]"
| "tasks_endpoint (Tasks_list query) = adm_query [''tasks''] query"
| "tasks_endpoint (Tasks_get i) = adm [''tasks'', int_str i]"
| "tasks_endpoint Tasks_create = adm [''tasks'']"
| "tasks_endpoint (Tasks_update i) = adm [''tasks'', int_str i]"
| "tasks_endpoint (Tasks_complete i) = adm [''tasks'', int_str i, ''complete'']"
| "tasks_endpoint (Tasks_reopen i) = adm [''tasks'', int_str i, ''reopen'']"
| "tasks_endpoint Tasks_options = adm [''task-options'']"
| "tasks_endpoint (Tasks_move i) = adm [''task-workspaces'', ''tasks'', int_str i, ''move'']"
| "tasks_endpoint (Tasks_relations i) = adm [''task-relations'', ''tasks'', int_str i]"
| "tasks_endpoint (Tasks_subtasks i) = adm [''task-relations'', ''tasks'', int_str i, ''subtasks'']"
| "tasks_endpoint (Tasks_dependencies i) = adm [''task-relations'', ''tasks'', int_str i, ''dependencies'']"
| "tasks_endpoint (Tasks_removeDependency i b) =
     adm [''task-relations'', ''tasks'', int_str i, ''dependencies'', int_str b]"

datatype lists_call =
    Lists_list | Lists_get int | Lists_create | Lists_update int | Lists_workspace int | Lists_sections int
  | Lists_quickTask int

fun lists_endpoint :: "lists_call \<Rightarrow> endpoint" where
  "lists_endpoint Lists_list = adm [''task-lists'']"
| "lists_endpoint (Lists_get i) = adm [''task-lists'', int_str i]"
| "lists_endpoint Lists_create = adm [''task-lists'']"
| "lists_endpoint (Lists_update i) = adm [''task-lists'', int_str i]"
| "lists_endpoint (Lists_workspace i) = adm [''task-workspaces'', ''lists'', int_str i]"
| "lists_endpoint (Lists_sections i) = adm [''task-workspaces'', ''lists'', int_str i, ''sections'']"
| "lists_endpoint (Lists_quickTask i) = adm [''task-workspaces'', ''lists'', int_str i, ''quick-task'']"

datatype time_call =
    Time_list string | Time_create | Time_options | Time_report string
  | Timer_current | Timer_start | Timer_stop | Timer_cancel

fun time_endpoint :: "time_call \<Rightarrow> endpoint" where
  "time_endpoint (Time_list query) = adm_query [''time-records''] query"
| "time_endpoint Time_create = adm [''time-entries'']"
| "time_endpoint Time_options = adm [''time-entry-options'']"
| "time_endpoint (Time_report query) = adm_query [''time-reports'', ''summary''] query"
| "time_endpoint Timer_current = adm [''time-timer'']"
| "time_endpoint Timer_start = adm [''time-timer'', ''start'']"
| "time_endpoint Timer_stop = adm [''time-timer'', ''stop'']"
| "time_endpoint Timer_cancel = adm [''time-timer'', ''cancel'']"

datatype leads_call =
    Leads_list | Leads_get int | Leads_create | Leads_update int | Leads_options | Leads_stage int
  | Leads_createSource | Leads_createStatus | Leads_assignment int | Leads_convert int

fun leads_endpoint :: "leads_call \<Rightarrow> endpoint" where
  "leads_endpoint Leads_list = adm [''leads'']"
| "leads_endpoint (Leads_get i) = adm [''leads'', int_str i]"
| "leads_endpoint Leads_create = adm [''leads'']"
| "leads_endpoint (Leads_update i) = adm [''leads'', int_str i]"
| "leads_endpoint Leads_options = adm [''lead-options'']"
| "leads_endpoint (Leads_stage i) = adm [''leads'', int_str i, ''stage'']"
| "leads_endpoint Leads_createSource = adm [''lead-sources'']"
| "leads_endpoint Leads_createStatus = adm [''lead-statuses'']"
| "leads_endpoint (Leads_assignment i) = adm [''leads'', int_str i, ''assignment'']"
| "leads_endpoint (Leads_convert i) = adm [''leads'', int_str i, ''convert'']"

text \<open>\<^verbatim>\<open>LeadEmailAPI\<close>.\<close>

datatype lead_email_call = LeadEmail_options int | LeadEmail_conversations int | LeadEmail_send int

fun lead_email_endpoint :: "lead_email_call \<Rightarrow> endpoint" where
  "lead_email_endpoint (LeadEmail_options i) = adm [''leads'', int_str i, ''email-options'']"
| "lead_email_endpoint (LeadEmail_conversations i) = adm [''leads'', int_str i, ''conversations'']"
| "lead_email_endpoint (LeadEmail_send i) = adm [''leads'', int_str i, ''email'']"

datatype tickets_call =
    Tickets_list string | Tickets_get int | Tickets_reply int | Tickets_notes int | Tickets_queues
  | Attachments_download int | Operations_options int | Operations_assignment int | Operations_status int
  | Operations_priority int | Operations_queue int

fun tickets_endpoint :: "tickets_call \<Rightarrow> endpoint" where
  "tickets_endpoint (Tickets_list query) = adm_query [''tickets''] query"
| "tickets_endpoint (Tickets_get i) = adm [''tickets'', int_str i]"
| "tickets_endpoint (Tickets_reply i) = adm [''tickets'', int_str i, ''reply'']"
| "tickets_endpoint (Tickets_notes i) = adm [''tickets'', int_str i, ''notes'']"
| "tickets_endpoint Tickets_queues = adm [''ticket-queues'']"
| "tickets_endpoint (Attachments_download i) = adm [''ticket-attachments'', int_str i, ''download'']"
| "tickets_endpoint (Operations_options i) = adm [''tickets'', int_str i, ''operations'']"
| "tickets_endpoint (Operations_assignment i) = adm [''tickets'', int_str i, ''assignment'']"
| "tickets_endpoint (Operations_status i) = adm [''tickets'', int_str i, ''status'']"
| "tickets_endpoint (Operations_priority i) = adm [''tickets'', int_str i, ''priority'']"
| "tickets_endpoint (Operations_queue i) = adm [''tickets'', int_str i, ''queue'']"

datatype ticketing_call =
    Ticketing_runtime | Ticketing_graphConnections | Ticketing_mailboxes | Ticketing_vendors
  | Ticketing_vendorEnabled int | Ticketing_vendorRules | Ticketing_vendorRuleEnabled int

fun ticketing_endpoint :: "ticketing_call \<Rightarrow> endpoint" where
  "ticketing_endpoint Ticketing_runtime = adm [''settings'', ''ticketing'', ''runtime'']"
| "ticketing_endpoint Ticketing_graphConnections = adm [''settings'', ''ticketing'', ''graph-connections'']"
| "ticketing_endpoint Ticketing_mailboxes = adm [''settings'', ''ticketing'', ''mailboxes'']"
| "ticketing_endpoint Ticketing_vendors = adm [''settings'', ''ticketing'', ''vendors'']"
| "ticketing_endpoint (Ticketing_vendorEnabled i) =
     adm [''settings'', ''ticketing'', ''vendors'', int_str i, ''enabled'']"
| "ticketing_endpoint Ticketing_vendorRules = adm [''settings'', ''ticketing'', ''vendor-sender-rules'']"
| "ticketing_endpoint (Ticketing_vendorRuleEnabled i) =
     adm [''settings'', ''ticketing'', ''vendor-sender-rules'', int_str i, ''enabled'']"

datatype monitoring_call =
    Monitoring_overview | Monitoring_get int string | Monitoring_update int | Monitoring_pause int
  | Monitoring_resume int | Monitoring_acknowledge int

fun monitoring_endpoint :: "monitoring_call \<Rightarrow> endpoint" where
  "monitoring_endpoint Monitoring_overview = adm [''monitoring'', ''overview'']"
| "monitoring_endpoint (Monitoring_get i query) = adm_query [''monitoring'', ''checks'', int_str i] query"
| "monitoring_endpoint (Monitoring_update i) = adm [''monitoring'', ''checks'', int_str i]"
| "monitoring_endpoint (Monitoring_pause i) = adm [''monitoring'', ''checks'', int_str i, ''pause'']"
| "monitoring_endpoint (Monitoring_resume i) = adm [''monitoring'', ''checks'', int_str i, ''resume'']"
| "monitoring_endpoint (Monitoring_acknowledge i) = adm [''monitoring'', ''incidents'', int_str i, ''acknowledge'']"

text \<open>
  The website's content: every collection has list, create, update and delete; three of them
  also have get.
\<close>

datatype website_collection = Portfolio | Testimonials | Posts | Categories | Tags | Faqs | FaqCategories

fun website_path :: "website_collection \<Rightarrow> string list" where
  "website_path Portfolio = [''website'', ''portfolio'']"
| "website_path Testimonials = [''website'', ''testimonials'']"
| "website_path Posts = [''website'', ''blog'', ''posts'']"
| "website_path Categories = [''website'', ''blog'', ''categories'']"
| "website_path Tags = [''website'', ''blog'', ''tags'']"
| "website_path Faqs = [''website'', ''faqs'']"
| "website_path FaqCategories = [''website'', ''faqs'', ''categories'']"

datatype website_call =
    Portfolio_get int | Testimonials_get int | Posts_get int
  | Website_list website_collection | Website_create website_collection
  | Website_update website_collection int | Website_delete website_collection int

fun website_endpoint :: "website_call \<Rightarrow> endpoint" where
  "website_endpoint (Portfolio_get i) = adm (website_path Portfolio @ [int_str i])"
| "website_endpoint (Testimonials_get i) = adm (website_path Testimonials @ [int_str i])"
| "website_endpoint (Posts_get i) = adm (website_path Posts @ [int_str i])"
| "website_endpoint (Website_list c) = adm (website_path c)"
| "website_endpoint (Website_create c) = adm (website_path c)"
| "website_endpoint (Website_update c i) = adm (website_path c @ [int_str i])"
| "website_endpoint (Website_delete c i) = adm (website_path c @ [int_str i])"

text \<open>The members with one call, \<^verbatim>\<open>OverviewAPI\<close> and \<^verbatim>\<open>TicketFocusAPI\<close>.\<close>

datatype summary_call =
    Dashboard_summary | Brands_list | Credentials_list | KnowledgeBase_list | Infrastructure_summary

fun summary_endpoint :: "summary_call \<Rightarrow> endpoint" where
  "summary_endpoint Dashboard_summary = adm [''dashboard'']"
| "summary_endpoint Brands_list = adm [''brands'']"
| "summary_endpoint Credentials_list = adm [''credentials'']"
| "summary_endpoint KnowledgeBase_list = adm [''knowledge-base'']"
| "summary_endpoint Infrastructure_summary = adm [''infrastructure'', ''summary'']"

datatype overview_call = Overview_clients string | Overview_leads string

fun overview_endpoint :: "overview_call \<Rightarrow> endpoint" where
  "overview_endpoint (Overview_clients query) = adm_query [''client-overview''] query"
| "overview_endpoint (Overview_leads query) = adm_query [''lead-overview''] query"

datatype focus_call = Focus_list string | Focus_queuePreferences

fun focus_endpoint :: "focus_call \<Rightarrow> endpoint" where
  "focus_endpoint (Focus_list query) = adm_query [''ticket-focus''] query"
| "focus_endpoint Focus_queuePreferences = adm [''ticket-focus'', ''queue-preferences'']"

text \<open>\<^verbatim>\<open>CredentialVaultAPI\<close>.\<close>

datatype vault_call =
    Vault_options | Vault_list string | Vault_get int | Vault_create | Vault_update int | Vault_archive int
  | Vault_reveal int | Vault_copy int string | Vault_download int string | Vault_migrateLegacy int

fun vault_endpoint :: "vault_call \<Rightarrow> endpoint" where
  "vault_endpoint Vault_options = adm [''credential-options'']"
| "vault_endpoint (Vault_list query) = adm_query [''credentials''] query"
| "vault_endpoint (Vault_get i) = adm [''credentials'', int_str i]"
| "vault_endpoint Vault_create = adm [''credentials'']"
| "vault_endpoint (Vault_update i) = adm [''credentials'', int_str i]"
| "vault_endpoint (Vault_archive i) = adm [''credentials'', int_str i, ''archive'']"
| "vault_endpoint (Vault_reveal i) = adm [''credentials'', int_str i, ''reveal'']"
| "vault_endpoint (Vault_copy i k) = adm [''credentials'', int_str i, ''secrets'', encodeURIComponent k, ''copy'']"
| "vault_endpoint (Vault_download i k) =
     adm [''credentials'', int_str i, ''secrets'', encodeURIComponent k, ''download'']"
| "vault_endpoint (Vault_migrateLegacy i) = adm [''credentials'', int_str i, ''migrate-legacy-secrets'']"

text \<open>\<^verbatim>\<open>celeryAPI\<close>: the arguments are the task's id, the page and the filters.\<close>

datatype celery_call =
    Celery_logs string int string | Celery_overview | Celery_history int string string
  | Celery_revoke string | Celery_run string

fun celery_endpoint :: "celery_call \<Rightarrow> endpoint" where
  "celery_endpoint (Celery_logs i page level) =
     adm_query [''celery'', ''tasks'', encodeURIComponent i, ''logs'']
       (params_str [(''page'', int_str page), (''page_size'', ''100''), (''level'', level)])"
| "celery_endpoint Celery_overview = adm [''celery'', ''overview'']"
| "celery_endpoint (Celery_history page state search) =
     adm_query [''celery'', ''tasks'']
       (params_str [(''page'', int_str page), (''page_size'', ''25''), (''state'', state), (''search'', search)])"
| "celery_endpoint (Celery_revoke i) = adm [''celery'', ''tasks'', encodeURIComponent i, ''revoke'']"
| "celery_endpoint (Celery_run n) = adm [''celery'', ''schedules'', encodeURIComponent n, ''run'']"

datatype admin_call =
    Clients clients_call | Tasks tasks_call | TaskLists lists_call | TimeEntries time_call
  | Leads leads_call | LeadEmail lead_email_call | Tickets tickets_call | Ticketing ticketing_call
  | Monitoring monitoring_call | Website website_call | Summary summary_call | Overview overview_call
  | TicketFocus focus_call | Vault vault_call | Celery celery_call

fun admin_endpoint :: "admin_call \<Rightarrow> endpoint" where
  "admin_endpoint (Clients c) = clients_endpoint c"
| "admin_endpoint (Tasks c) = tasks_endpoint c"
| "admin_endpoint (TaskLists c) = lists_endpoint c"
| "admin_endpoint (TimeEntries c) = time_endpoint c"
| "admin_endpoint (Leads c) = leads_endpoint c"
| "admin_endpoint (LeadEmail c) = lead_email_endpoint c"
| "admin_endpoint (Tickets c) = tickets_endpoint c"
| "admin_endpoint (Ticketing c) = ticketing_endpoint c"
| "admin_endpoint (Monitoring c) = monitoring_endpoint c"
| "admin_endpoint (Website c) = website_endpoint c"
| "admin_endpoint (Summary c) = summary_endpoint c"
| "admin_endpoint (Overview c) = overview_endpoint c"
| "admin_endpoint (TicketFocus c) = focus_endpoint c"
| "admin_endpoint (Vault c) = vault_endpoint c"
| "admin_endpoint (Celery c) = celery_endpoint c"

section \<open>Addresses and resources\<close>

text \<open>
  The resource a call is about: calls that differ only in the method (create/list,
  update/get/delete) are about the same one.
\<close>

fun resource :: "admin_call \<Rightarrow> admin_call" where
  "resource (Clients Clients_create) = Clients Clients_list"
| "resource (Clients (Clients_update i)) = Clients (Clients_get i)"
| "resource (Clients (Clients_delete i)) = Clients (Clients_get i)"
| "resource (Clients (Contacts_update i k)) = Clients (Contacts_get i k)"
| "resource (Tasks Projects_create) = Tasks Projects_list"
| "resource (Tasks (Projects_update i)) = Tasks (Projects_get i)"
| "resource (Tasks Tasks_create) = Tasks (Tasks_list [])"
| "resource (Tasks (Tasks_update i)) = Tasks (Tasks_get i)"
| "resource (TaskLists Lists_create) = TaskLists Lists_list"
| "resource (TaskLists (Lists_update i)) = TaskLists (Lists_get i)"
| "resource (Leads Leads_create) = Leads Leads_list"
| "resource (Leads (Leads_update i)) = Leads (Leads_get i)"
| "resource (Monitoring (Monitoring_update i)) = Monitoring (Monitoring_get i [])"
| "resource (Website (Portfolio_get i)) = Website (Website_update Portfolio i)"
| "resource (Website (Testimonials_get i)) = Website (Website_update Testimonials i)"
| "resource (Website (Posts_get i)) = Website (Website_update Posts i)"
| "resource (Website (Website_create c)) = Website (Website_list c)"
| "resource (Website (Website_delete c i)) = Website (Website_update c i)"
| "resource (Summary Credentials_list) = Vault (Vault_list [])"
| "resource (Vault Vault_create) = Vault (Vault_list [])"
| "resource (Vault (Vault_update i)) = Vault (Vault_get i)"
| "resource c = c"

lemma int_str_word [simp]: "\<not> is_digit c \<Longrightarrow> c \<noteq> CHR ''-'' \<Longrightarrow> int_str i \<noteq> c # s"
  using nat_str_digits [of c "nat i"] by (auto simp: int_str_def)

lemma int_str_word' [simp]: "\<not> is_digit c \<Longrightarrow> c \<noteq> CHR ''-'' \<Longrightarrow> c # s \<noteq> int_str i"
  using int_str_word by metis

lemma params_str_inject [simp]: "params_str ps = params_str qs \<longleftrightarrow> ps = qs"
  by (metis option.inject search_params_str)

lemma encoded_inject [simp]: "encodeURIComponent a = encodeURIComponent b \<longleftrightarrow> a = b"
  by (rule component_codec.enc_inject)

lemma adm_simps [simp]:
  "adm s = adm t \<longleftrightarrow> s = t" "adm_query s q = adm_query t r \<longleftrightarrow> s = t \<and> q = r"
  "adm s = adm_query t r \<longleftrightarrow> s = t \<and> r = []" "adm_query t r = adm s \<longleftrightarrow> s = t \<and> r = []"
  by (auto simp: adm_def adm_query_def)

lemma resource_endpoint [simp]: "admin_endpoint (resource c) = admin_endpoint c"
  by (cases c rule: resource.cases) (simp_all add: adm_def adm_query_def)

text \<open>The word after \<^verbatim>\<open>admin\<close> tells the groups apart.\<close>

definition areas :: "(string \<times> nat) list" where
  "areas = [(''clients'', 0), (''projects'', 1), (''task-workspaces'', 1), (''tasks'', 1), (''task-options'', 1),
     (''task-relations'', 1), (''task-lists'', 1), (''time-records'', 2), (''time-entries'', 2),
     (''time-entry-options'', 2), (''time-reports'', 2), (''time-timer'', 2), (''leads'', 3), (''lead-options'', 3),
     (''lead-sources'', 3), (''lead-statuses'', 3), (''tickets'', 4), (''ticket-queues'', 4),
     (''ticket-attachments'', 4), (''settings'', 5), (''monitoring'', 6), (''website'', 7), (''dashboard'', 8),
     (''brands'', 8), (''knowledge-base'', 8), (''infrastructure'', 8), (''client-overview'', 9),
     (''lead-overview'', 9), (''ticket-focus'', 10), (''credentials'', 11), (''credential-options'', 11),
     (''celery'', 12)]"

definition area :: "endpoint \<Rightarrow> nat option" where
  "area e = map_of areas (hd (tl (fst e)))"

lemma area_adm: "area (adm (s # r)) = map_of areas s" "area (adm_query (s # r) q) = map_of areas s"
  by (simp_all add: area_def adm_def adm_query_def)

lemma area_clients: "area (clients_endpoint c) = Some 0"
  by (cases c) (simp_all add: area_adm areas_def)

lemma area_tasks: "area (tasks_endpoint c) = Some 1"
  by (cases c) (simp_all add: area_adm areas_def)

lemma area_lists: "area (lists_endpoint c) = Some 1"
  by (cases c) (simp_all add: area_adm areas_def)

lemma area_time: "area (time_endpoint c) = Some 2"
  by (cases c) (simp_all add: area_adm areas_def)

lemma area_leads: "area (leads_endpoint c) = Some 3"
  by (cases c) (simp_all add: area_adm areas_def)

lemma area_lead_email: "area (lead_email_endpoint c) = Some 3"
  by (cases c) (simp_all add: area_adm areas_def)

lemma area_tickets: "area (tickets_endpoint c) = Some 4"
  by (cases c) (simp_all add: area_adm areas_def)

lemma area_ticketing: "area (ticketing_endpoint c) = Some 5"
  by (cases c) (simp_all add: area_adm areas_def)

lemma area_monitoring: "area (monitoring_endpoint c) = Some 6"
  by (cases c) (simp_all add: area_adm areas_def)

lemma area_overview: "area (overview_endpoint c) = Some 9"
  by (cases c) (simp_all add: area_adm areas_def)

lemma area_focus: "area (focus_endpoint c) = Some 10"
  by (cases c) (simp_all add: area_adm areas_def)

lemma area_vault: "area (vault_endpoint c) = Some 11"
  by (cases c) (simp_all add: area_adm areas_def)

lemma area_celery: "area (celery_endpoint c) = Some 12"
  by (cases c) (simp_all add: area_adm areas_def)

lemma website_path_head: "\<exists>r. website_path c = ''website'' # r"
  by (cases c) simp_all

lemma area_website: "area (website_endpoint j) = Some 7"
proof -
  have "area (adm (website_path c @ s)) = Some 7" for c s
    using website_path_head [of c] by (auto simp: area_adm areas_def)
  from this [of _ "[]"] this show ?thesis by (cases j) (simp_all del: website_path.simps)
qed

lemma area_summary: "area (summary_endpoint s) = (if s = Credentials_list then Some 11 else Some 8)"
  by (cases s) (simp_all add: area_adm areas_def)

lemmas area_facts =
  area_clients area_tasks area_lists area_time area_leads area_lead_email area_tickets area_ticketing
  area_monitoring area_overview area_focus area_vault area_celery area_website area_summary

text \<open>Within a group.\<close>

named_theorems endpoint_inject \<open>within a group, equal endpoints are the same resource\<close>

lemma clients_inject [endpoint_inject]:
  "clients_endpoint c = clients_endpoint d \<longleftrightarrow> resource (Clients c) = resource (Clients d)"
  by (cases c; cases d) (auto simp: is_digit_def)

lemma tasks_inject [endpoint_inject]:
  "tasks_endpoint c = tasks_endpoint d \<longleftrightarrow> resource (Tasks c) = resource (Tasks d)"
  by (cases c; cases d) (auto simp: is_digit_def)

lemma lists_inject [endpoint_inject]:
  "lists_endpoint c = lists_endpoint d \<longleftrightarrow> resource (TaskLists c) = resource (TaskLists d)"
  by (cases c; cases d) (auto simp: is_digit_def)

lemma tasks_lists [endpoint_inject]: "tasks_endpoint c \<noteq> lists_endpoint d" "lists_endpoint d \<noteq> tasks_endpoint c"
  by (cases c; cases d; simp add: is_digit_def)+

lemma time_inject [endpoint_inject]:
  "time_endpoint c = time_endpoint d \<longleftrightarrow> resource (TimeEntries c) = resource (TimeEntries d)"
  by (cases c; cases d) (auto simp: is_digit_def)

lemma leads_inject [endpoint_inject]:
  "leads_endpoint c = leads_endpoint d \<longleftrightarrow> resource (Leads c) = resource (Leads d)"
  by (cases c; cases d) (auto simp: is_digit_def)

lemma lead_email_inject [endpoint_inject]:
  "lead_email_endpoint c = lead_email_endpoint d \<longleftrightarrow> resource (LeadEmail c) = resource (LeadEmail d)"
  by (cases c; cases d) auto

lemma leads_lead_email [endpoint_inject]:
  "leads_endpoint a \<noteq> lead_email_endpoint c" "lead_email_endpoint c \<noteq> leads_endpoint a"
  by (cases a; cases c; simp)+

lemma tickets_inject [endpoint_inject]:
  "tickets_endpoint c = tickets_endpoint d \<longleftrightarrow> resource (Tickets c) = resource (Tickets d)"
  by (cases c; cases d) (auto simp: is_digit_def)

lemma ticketing_inject [endpoint_inject]:
  "ticketing_endpoint c = ticketing_endpoint d \<longleftrightarrow> resource (Ticketing c) = resource (Ticketing d)"
  by (cases c; cases d) (auto simp: is_digit_def)

lemma monitoring_inject [endpoint_inject]:
  "monitoring_endpoint c = monitoring_endpoint d \<longleftrightarrow> resource (Monitoring c) = resource (Monitoring d)"
  by (cases c; cases d) (auto simp: is_digit_def)

lemma overview_inject [endpoint_inject]:
  "overview_endpoint c = overview_endpoint d \<longleftrightarrow> resource (Overview c) = resource (Overview d)"
  by (cases c; cases d) (auto simp: is_digit_def)

lemma focus_inject [endpoint_inject]:
  "focus_endpoint c = focus_endpoint d \<longleftrightarrow> resource (TicketFocus c) = resource (TicketFocus d)"
  by (cases c; cases d) (auto simp: is_digit_def)

lemma vault_inject [endpoint_inject]:
  "vault_endpoint c = vault_endpoint d \<longleftrightarrow> resource (Vault c) = resource (Vault d)"
  by (cases c; cases d) (auto simp: is_digit_def)

lemma celery_inject [endpoint_inject]:
  "celery_endpoint c = celery_endpoint d \<longleftrightarrow> resource (Celery c) = resource (Celery d)"
  by (cases c; cases d) (auto simp: is_digit_def)

lemma summary_inject [endpoint_inject]:
  "summary_endpoint c = summary_endpoint d \<longleftrightarrow> resource (Summary c) = resource (Summary d)"
  by (cases c; cases d) auto

lemma summary_vault_inject [endpoint_inject]:
  "summary_endpoint c = vault_endpoint v \<longleftrightarrow> resource (Summary c) = resource (Vault v)"
  by (cases c; cases v) auto

lemma vault_summary_inject [endpoint_inject]:
  "vault_endpoint v = summary_endpoint c \<longleftrightarrow> resource (Vault v) = resource (Summary c)"
  using summary_vault_inject by metis

lemma website_paths_inject:
  "website_path c = website_path d \<longleftrightarrow> c = d"
  "website_path c @ [int_str i] = website_path d @ [int_str j] \<longleftrightarrow> c = d \<and> i = j"
  "website_path c @ [int_str i] \<noteq> website_path d" "website_path d \<noteq> website_path c @ [int_str i]"
  by (cases c; cases d; simp add: is_digit_def)+

lemma website_inject [endpoint_inject]:
  "website_endpoint c = website_endpoint d \<longleftrightarrow> resource (Website c) = resource (Website d)"
  by (cases c; cases d) (simp_all add: website_paths_inject del: website_path.simps)

lemma area_apart: "area e \<noteq> area f \<Longrightarrow> (e = f) = False"
  by metis

text \<open>Two calls have the same endpoint exactly when they are about the same resource.\<close>

lemma admin_endpoint_inject: "admin_endpoint c = admin_endpoint d \<longleftrightarrow> resource c = resource d"
proof
  assume "resource c = resource d"
  then show "admin_endpoint c = admin_endpoint d" by (metis resource_endpoint)
next
  assume "admin_endpoint c = admin_endpoint d"
  then show "resource c = resource d"
    by (cases c; cases d) (simp_all add: endpoint_inject area_apart area_facts)
qed

section \<open>Reading an address back\<close>

definition plain_segment :: "string \<Rightarrow> bool" where
  "plain_segment s \<longleftrightarrow> CHR ''/'' \<notin> set s \<and> CHR ''?'' \<notin> set s"

definition well_formed :: "endpoint \<Rightarrow> bool" where
  "well_formed e \<longleftrightarrow> fst e \<noteq> [] \<and> list_all plain_segment (fst e)"

lemma int_str_plain [simp]: "plain_segment (int_str i)"
proof -
  have "\<not> is_digit CHR ''/''" "\<not> is_digit CHR ''?''" by (simp_all add: is_digit_def)
  then show ?thesis using nat_str_no_char by (auto simp: plain_segment_def int_str_def)
qed

lemma encoded_plain [simp]: "plain_segment (encodeURIComponent s)"
  using component_codec.enc_avoids uri_component_separators by (simp add: plain_segment_def)

lemma well_formed_adm:
  "well_formed (adm segs) \<longleftrightarrow> list_all plain_segment segs"
  "well_formed (adm_query segs q) \<longleftrightarrow> list_all plain_segment segs"
  by (simp_all add: well_formed_def adm_def adm_query_def plain_segment_def [of "''admin''"])

lemma groups_well_formed:
  "well_formed (clients_endpoint a)" "well_formed (tasks_endpoint b)" "well_formed (lists_endpoint c)"
  "well_formed (time_endpoint d)" "well_formed (leads_endpoint e)" "well_formed (lead_email_endpoint f)"
  "well_formed (tickets_endpoint g)" "well_formed (ticketing_endpoint h)" "well_formed (monitoring_endpoint i)"
  "well_formed (summary_endpoint s)" "well_formed (overview_endpoint k)" "well_formed (focus_endpoint l)"
  "well_formed (vault_endpoint m)" "well_formed (celery_endpoint n)"
  subgoal by (cases a) (simp_all add: well_formed_adm, simp_all add: plain_segment_def)
  subgoal by (cases b) (simp_all add: well_formed_adm, simp_all add: plain_segment_def)
  subgoal by (cases c) (simp_all add: well_formed_adm, simp_all add: plain_segment_def)
  subgoal by (cases d) (simp_all add: well_formed_adm, simp_all add: plain_segment_def)
  subgoal by (cases e) (simp_all add: well_formed_adm, simp_all add: plain_segment_def)
  subgoal by (cases f) (simp_all add: well_formed_adm, simp_all add: plain_segment_def)
  subgoal by (cases g) (simp_all add: well_formed_adm, simp_all add: plain_segment_def)
  subgoal by (cases h) (simp_all add: well_formed_adm, simp_all add: plain_segment_def)
  subgoal by (cases i) (simp_all add: well_formed_adm, simp_all add: plain_segment_def)
  subgoal by (cases s) (simp_all add: well_formed_adm, simp_all add: plain_segment_def)
  subgoal by (cases k) (simp_all add: well_formed_adm, simp_all add: plain_segment_def)
  subgoal by (cases l) (simp_all add: well_formed_adm, simp_all add: plain_segment_def)
  subgoal by (cases m) (simp_all add: well_formed_adm, simp_all add: plain_segment_def)
  subgoal by (cases n) (simp_all add: well_formed_adm del: params_str_def, simp_all add: plain_segment_def)
  done

lemma website_well_formed: "well_formed (website_endpoint w)"
proof -
  have p: "list_all plain_segment (website_path c)" for c by (cases c) (simp_all add: plain_segment_def)
  then show ?thesis by (cases w) (simp_all add: well_formed_adm del: website_path.simps)
qed

lemma admin_well_formed: "well_formed (admin_endpoint c)"
  by (cases c) (simp_all add: groups_well_formed website_well_formed)

text \<open>Path segments and query of an address below a known API base.\<close>

definition read_endpoint :: "string \<Rightarrow> string \<Rightarrow> endpoint" where
  "read_endpoint api url =
     (let rest = drop (length api + 5) url
      in (split_on CHR ''/'' (takeWhile (\<lambda>c. c \<noteq> CHR ''?'') rest), drop 1 (dropWhile (\<lambda>c. c \<noteq> CHR ''?'') rest)))"

lemma join_chars: "c \<in> set (join sep ws) \<Longrightarrow> c \<in> set sep \<or> (\<exists>w \<in> set ws. c \<in> set w)"
  by (induction sep ws rule: join.induct) auto

lemma read_endpoint_url: "well_formed e \<Longrightarrow> read_endpoint api (endpoint_url api e) = e"
proof -
  assume wf: "well_formed e"
  let ?p = "join ''/'' (fst e)"
  have q: "\<forall>c \<in> set ?p. c \<noteq> CHR ''?''"
    using wf join_chars [of _ "''/''" "fst e"] by (fastforce simp: well_formed_def plain_segment_def list_all_iff)
  have s: "split_on CHR ''/'' ?p = fst e"
    by (rule split_on_join) (use wf in \<open>auto simp: well_formed_def plain_segment_def list_all_iff\<close>)
  have "drop (length api + 5) (endpoint_url api e) = ?p @ (if snd e = [] then [] else ''?'' @ snd e)"
    by (simp add: endpoint_url_def)
  then show ?thesis using q s
    by (cases e) (simp add: read_endpoint_def Let_def takeWhile_append2 dropWhile_append2)
qed

section \<open>Properties\<close>

text \<open>
  The address of every admin call is read back as exactly its path segments and query, so
  no id, key or filter can change the path it is put in; and two calls have the same address
  exactly when they are about the same resource and differ at most in the method.
\<close>

theorem admin_addresses_faithful:
  "read_endpoint api (endpoint_url api (admin_endpoint c)) = admin_endpoint c \<and>
   (endpoint_url api (admin_endpoint c) = endpoint_url api (admin_endpoint d)) = (resource c = resource d)"
  by (metis admin_endpoint_inject admin_well_formed read_endpoint_url)

section \<open>StaffAccessAPI\<close>

datatype staff_call =
    Staff_list string | Staff_options | Staff_invite | Staff_detail string | Staff_update string
  | Staff_activate string | Staff_deactivate string | Staff_resendInvitation string

fun staff_path :: "staff_call \<Rightarrow> string" where
  "staff_path (Staff_list query) = ''users'' @ (if query = [] then [] else ''?'' @ query)"
| "staff_path Staff_options = ''options''"
| "staff_path Staff_invite = ''users/invite''"
| "staff_path (Staff_detail userId) = ''users/'' @ userId"
| "staff_path (Staff_update userId) = ''users/'' @ userId @ ''/access''"
| "staff_path (Staff_activate userId) = ''users/'' @ userId @ ''/activate''"
| "staff_path (Staff_deactivate userId) = ''users/'' @ userId @ ''/deactivate''"
| "staff_path (Staff_resendInvitation userId) = ''users/'' @ userId @ ''/resend-invitation''"

definition StaffAccessAPI :: "string \<Rightarrow> staff_call \<Rightarrow> string" where
  "StaffAccessAPI api c = api @ ''/api/admin/access/'' @ staff_path c"

text \<open>
  The ids are not encoded: for ids without separators other than the word
  \<^verbatim>\<open>invite\<close> the calls about a user are told apart.
\<close>

definition staff_id :: "string \<Rightarrow> bool" where
  "staff_id s \<longleftrightarrow> s \<noteq> [] \<and> plain_segment s \<and> s \<noteq> ''invite''"

fun staff_user :: "staff_call \<Rightarrow> string option" where
  "staff_user (Staff_detail i) = Some i"
| "staff_user (Staff_update i) = Some i"
| "staff_user (Staff_activate i) = Some i"
| "staff_user (Staff_deactivate i) = Some i"
| "staff_user (Staff_resendInvitation i) = Some i"
| "staff_user c = None"

lemma slash_split:
  "CHR ''/'' \<notin> set a \<Longrightarrow> CHR ''/'' \<notin> set b \<Longrightarrow> a @ CHR ''/'' # s = b @ CHR ''/'' # t \<longleftrightarrow> a = b \<and> s = t"
  by (metis list.inject split_on_append same_append_eq)

lemma slash_split':
  "CHR ''/'' \<notin> set a \<Longrightarrow> a \<noteq> b @ CHR ''/'' # t" "CHR ''/'' \<notin> set a \<Longrightarrow> b @ CHR ''/'' # t \<noteq> a"
  by auto

lemma staff_calls_inject:
  "pred_option staff_id (staff_user c) \<Longrightarrow> pred_option staff_id (staff_user d) \<Longrightarrow>
   StaffAccessAPI api c = StaffAccessAPI api d \<longleftrightarrow> c = d"
  by (cases c; cases d)
    (auto simp: StaffAccessAPI_def staff_id_def plain_segment_def slash_split slash_split' split: if_splits)

end
