(* ===== verification/Live_Events.thy ===== *)
theory Live_Events
  imports Json_Text State_Machine "HOL-Library.List_Lexorder" "HOL-Library.Char_ord"
begin

text \<open>
  \<^verbatim>\<open>sites/adb-software-solutions/src/contexts/LiveEventsContext.tsx\<close>: the event stream
  that keeps the admin screens fresh. The provider turns server events into messages to its
  listeners; \<^verbatim>\<open>useLiveRefresh\<close> is one listener, which delays and merges refreshes of
  its screen with a timer and three flags.

  The timers of the browser are the list \<open>timers\<close>; any of them may fire at any time, a
  refresh may finish at any time, and events come in any order. The safety lemmas are
  invariants of that step relation, from mounting to long after unmounting.
\<close>

section \<open>The provider\<close>

text \<open>What a \<^verbatim>\<open>change\<close> event does: nothing, a message to the listeners, or a silent
  refresh of the signed-in user with a message that anything may have changed.\<close>

datatype change_effect = Ignore_event | Emit "string list" | Access_changed

fun json_strings :: "json list \<Rightarrow> string list option" where
  "json_strings [] = Some []"
| "json_strings (JStr s # js) = map_option (Cons s) (json_strings js)"
| "json_strings (j # js) = None"

definition change_event :: "string \<Rightarrow> change_effect" where
  "change_event data =
     (case JSON_parse data of
        Inl e \<Rightarrow> Ignore_event
      | Inr payload \<Rightarrow>
          (case jget payload ''topics'' of
             Some (JArr js) \<Rightarrow>
               (case json_strings js of
                  None \<Rightarrow> Ignore_event
                | Some topics \<Rightarrow> if ''access'' \<in> set topics then Access_changed else Emit topics)
           | _ \<Rightarrow> Ignore_event))"

record live_provider =
  connected :: bool
  source_open :: bool
  user_refreshes :: nat
  emitted :: "string list option list"

definition provider_start :: live_provider where
  "provider_start = \<lparr>connected = False, source_open = True, user_refreshes = 0, emitted = []\<rparr>"

definition emit :: "string list option \<Rightarrow> live_provider \<Rightarrow> live_provider" where
  "emit topics p = p\<lparr>emitted := emitted p @ [topics]\<rparr>"

datatype source_event = Ready | Change_event string | Source_error | Unavailable | Expired | Visibility bool

text \<open>An event of the stream arrives only while the stream is open.\<close>

definition on_source :: "source_event \<Rightarrow> live_provider \<Rightarrow> live_provider" where
  "on_source e p =
     (case e of
        Visibility hidden \<Rightarrow> if hidden then p else emit None p
      | _ \<Rightarrow>
          if \<not> source_open p then p
          else (case e of
              Ready \<Rightarrow> emit None (p\<lparr>connected := True\<rparr>)
            | Change_event data \<Rightarrow>
                (case change_event data of
                   Ignore_event \<Rightarrow> p
                 | Emit topics \<Rightarrow> emit (Some topics) p
                 | Access_changed \<Rightarrow> emit None (p\<lparr>user_refreshes := Suc (user_refreshes p)\<rparr>))
            | Source_error \<Rightarrow> p\<lparr>connected := False\<rparr>
            | Unavailable \<Rightarrow> p\<lparr>connected := False\<rparr>
            | Expired \<Rightarrow> p\<lparr>source_open := False, connected := False, user_refreshes := Suc (user_refreshes p)\<rparr>
            | Visibility hidden \<Rightarrow> p))"

section \<open>useLiveRefresh\<close>

text \<open>
  The variables of the effect, then the surroundings: the timers that are set, the number the
  next timer gets, whether the document is hidden, and how many refreshes are in flight.
  \<open>stale\<close> is a ghost: a change the screen cares about came in after its last refresh began.
\<close>

record live_refresh =
  timer :: "nat option"
  running :: bool
  pending :: bool
  active :: bool
  timers :: "nat list"
  next_timer :: nat
  hidden :: bool
  in_flight :: nat
  stale :: bool

definition topic_key :: "string list \<Rightarrow> string" where
  "topic_key topics = join '','' (sort topics)"

definition key_matches :: "string \<Rightarrow> string list \<Rightarrow> bool" where
  "key_matches key changed = list_ex (\<lambda>topic. topic \<in> set (split_on CHR '','' key)) changed"

definition setTimeout :: "live_refresh \<Rightarrow> live_refresh" where
  "setTimeout s = s\<lparr>timer := Some (next_timer s), timers := next_timer s # timers s, next_timer := Suc (next_timer s)\<rparr>"

definition schedule :: "string \<Rightarrow> string list option \<Rightarrow> live_refresh \<Rightarrow> live_refresh" where
  "schedule key changed s =
     (if (case changed of None \<Rightarrow> False | Some c \<Rightarrow> \<not> key_matches key c) then s
      else (let s' = s\<lparr>stale := True\<rparr> in if timer s = None then setTimeout s' else s'))"

text \<open>\<^verbatim>\<open>invoke\<close> up to the call of the screen's refresh.\<close>

definition invoke :: "live_refresh \<Rightarrow> live_refresh" where
  "invoke s0 =
     (let s = s0\<lparr>timer := None\<rparr>
      in if \<not> active s \<or> hidden s then s
         else if running s then s\<lparr>pending := True\<rparr>
         else s\<lparr>running := True, in_flight := Suc (in_flight s), stale := False\<rparr>)"

text \<open>The \<^verbatim>\<open>finally\<close> block, after the refresh returned or threw.\<close>

definition settle :: "live_refresh \<Rightarrow> live_refresh" where
  "settle s0 =
     (let s = s0\<lparr>running := False, in_flight := in_flight s0 - 1\<rparr>
      in if pending s \<and> active s then setTimeout (s\<lparr>pending := False\<rparr>) else s)"

definition fire :: "nat \<Rightarrow> live_refresh \<Rightarrow> live_refresh" where
  "fire i s = invoke (s\<lparr>timers := removeAll i (timers s)\<rparr>)"

definition unmount :: "live_refresh \<Rightarrow> live_refresh" where
  "unmount s =
     s\<lparr>active := False,
       timers := (case timer s of None \<Rightarrow> timers s | Some i \<Rightarrow> removeAll i (timers s))\<rparr>"

definition effect_start :: "string \<Rightarrow> bool \<Rightarrow> bool \<Rightarrow> live_refresh" where
  "effect_start key is_connected is_hidden =
     (let s = \<lparr>timer = None, running = False, pending = False, active = True, timers = [], next_timer = 0,
               hidden = is_hidden, in_flight = 0, stale = False\<rparr>
      in if is_connected then schedule key None s else s)"

text \<open>Listener and interval are removed by unmounting, so they act only on an active effect.\<close>

inductive live_step :: "string \<Rightarrow> live_refresh \<Rightarrow> live_refresh \<Rightarrow> bool" for key :: string where
  Message: "active s \<Longrightarrow> live_step key s (schedule key changed s)"
| Interval: "active s \<Longrightarrow> live_step key s (schedule key None s)"
| Fire: "i \<in> set (timers s) \<Longrightarrow> live_step key s (fire i s)"
| Settle: "0 < in_flight s \<Longrightarrow> live_step key s (settle s)"
| Hide: "live_step key s (s\<lparr>hidden := True\<rparr>)"
| Show: "active s \<Longrightarrow> live_step key s (schedule key None (s\<lparr>hidden := False\<rparr>))"
| Show_unmounted: "\<not> active s \<Longrightarrow> live_step key s (s\<lparr>hidden := False\<rparr>)"
| Unmount: "active s \<Longrightarrow> live_step key s (unmount s)"

inductive_cases live_stepE: "live_step key s t"

section \<open>Invariants\<close>

text \<open>
  A timer the effect knows of is set; at most one refresh is in flight; a change the screen
  has not been refreshed for is covered, by a timer or by a refresh that will schedule one.
\<close>

definition covered :: "live_refresh \<Rightarrow> bool" where
  "covered s \<longleftrightarrow> timers s \<noteq> [] \<or> running s \<and> pending s"

definition live_inv :: "live_refresh \<Rightarrow> bool" where
  "live_inv s \<longleftrightarrow>
     in_flight s = (if running s then 1 else 0) \<and> (active s \<and> pending s \<longrightarrow> running s) \<and>
     (active s \<and> timer s \<noteq> None \<longrightarrow> the (timer s) \<in> set (timers s)) \<and>
     (active s \<and> stale s \<longrightarrow> covered s \<or> hidden s)"

definition live_init :: "string \<Rightarrow> live_refresh \<Rightarrow> bool" where
  "live_init key s \<longleftrightarrow> (\<exists>c h. s = effect_start key c h)"

lemma schedule_inv: "live_inv s \<Longrightarrow> active s \<Longrightarrow> live_inv (schedule key changed s)"
  by (auto simp: schedule_def live_inv_def covered_def setTimeout_def Let_def split: option.splits)

lemma schedule_all:
  "live_inv s \<Longrightarrow> active s \<Longrightarrow> live_inv (schedule key None (s\<lparr>hidden := b\<rparr>))"
  by (auto simp: schedule_def live_inv_def covered_def setTimeout_def Let_def)

lemma fire_inv:
  assumes "live_inv s" and "i \<in> set (timers s)"
  shows "live_inv (fire i s)"
  using assms by (auto simp: fire_def invoke_def live_inv_def covered_def Let_def)

lemma settle_inv: "live_inv s \<Longrightarrow> live_inv (settle s)"
  by (auto simp: settle_def live_inv_def covered_def setTimeout_def Let_def)

lemma unmount_inv: "live_inv s \<Longrightarrow> live_inv (unmount s)"
  by (auto simp: unmount_def live_inv_def)

lemma start_inv: "live_inv (effect_start key c h)"
  by (simp add: effect_start_def schedule_def setTimeout_def live_inv_def covered_def Let_def)

lemma hide_inv: "live_inv s \<Longrightarrow> live_inv (s\<lparr>hidden := True\<rparr>)"
  by (simp add: live_inv_def)

lemma show_unmounted_inv: "live_inv s \<Longrightarrow> \<not> active s \<Longrightarrow> live_inv (s\<lparr>hidden := False\<rparr>)"
  by (simp add: live_inv_def)

lemmas live_invs = schedule_inv fire_inv settle_inv unmount_inv schedule_all hide_inv show_unmounted_inv

lemma live_step_inv: "live_step key s t \<Longrightarrow> live_inv s \<Longrightarrow> live_inv t"
  by (induction rule: live_step.induct) (simp_all add: live_invs)

interpretation live: safe_machine "live_init key" "live_step key" live_inv
  by unfold_locales (auto simp: live_init_def intro: start_inv live_step_inv)

text \<open>After unmounting nothing starts: the flag stays false and no further refresh begins.\<close>

definition ended :: "nat \<Rightarrow> live_refresh \<Rightarrow> bool" where
  "ended n s \<longleftrightarrow> \<not> active s \<and> in_flight s \<le> n"

lemma ended_step: "ended n s \<Longrightarrow> live_step key s t \<Longrightarrow> ended n t"
  by (elim live_stepE) (auto simp: ended_def fire_def invoke_def settle_def unmount_def Let_def)

interpretation ended: safe_machine "ended n" "live_step key" "ended n"
  by unfold_locales (auto intro: ended_step)

section \<open>Properties\<close>


definition live_run :: "live_refresh list" where
  "live_run =
     (let s0 = effect_start ''leads'' True False;
          s1 = fire 0 s0; s2 = schedule ''leads'' (Some [''tickets'', ''leads'']) s1; s3 = fire 1 s2
      in [s1, s2, s3])"


text \<open>
  Once its effect is cleaned up a screen is never refreshed again, whatever timers are
  left and in whatever order they fire.
\<close>

theorem no_refresh_after_unmount:
  assumes "is_run (live_step key) (unmount s) ts" and "t \<in> set ts"
  shows "in_flight t \<le> in_flight s \<and> \<not> active t"
proof -
  have "ended (in_flight s) (unmount s)" by (simp add: ended_def unmount_def)
  from ended.inv_run [OF this assms(1)] assms(2) show ?thesis by (simp add: ended_def)
qed

text \<open>A run in which the block after a refresh replaces the handle of a timer that is set.\<close>

definition two_timers :: live_refresh where
  "two_timers =
     (let s0 = effect_start ''leads'' True False; s1 = fire 0 s0; s2 = schedule ''leads'' None s1;
          s3 = fire 1 s2; s4 = schedule ''leads'' None s3
      in settle s4)"

lemma two_timers_eq:
  "two_timers = \<lparr>timer = Some 3, running = False, pending = False, active = True, timers = [3, 2], next_timer = 4,
     hidden = False, in_flight = 0, stale = True\<rparr>"
  by code_simp

theorem no_refresh_after_unmount_witness:
  "is_run (live_step ''leads'') (unmount two_timers) [fire 2 (unmount two_timers)] \<and>
   in_flight (fire 2 (unmount two_timers)) \<le> in_flight two_timers \<and> timers (unmount two_timers) = [2]"
proof -
  have t: "timers (unmount two_timers) = [2]" by (simp add: two_timers_eq unmount_def)
  have r: "is_run (live_step ''leads'') (unmount two_timers) [fire 2 (unmount two_timers)]"
    by (simp add: t Fire)
  show ?thesis using no_refresh_after_unmount [OF r] r t by simp
qed

text \<open>
  The block that runs after a refresh can replace the handle of a timer that is set. Two
  timers are then set for one screen although the effect keeps a single handle, the screen
  is refreshed twice, and unmounting cancels only one of them.
\<close>

theorem timer_handle_replaced:
  "reachable (live_init ''leads'') (live_step ''leads'') two_timers \<and>
   timers two_timers = [3, 2] \<and> timer two_timers = Some 3 \<and> timers (unmount two_timers) = [2]"
proof -
  let ?r = "reachable (live_init ''leads'') (live_step ''leads'')"
  let ?s0 = "effect_start ''leads'' True False"
  let ?s1 = "fire 0 ?s0" let ?s2 = "schedule ''leads'' None ?s1" let ?s3 = "fire 1 ?s2"
  let ?s4 = "schedule ''leads'' None ?s3"
  note defs = effect_start_def schedule_def setTimeout_def fire_def invoke_def Let_def
  have "?r ?s0" by (rule reach_init) (auto simp: live_init_def)
  then have "?r ?s1" by (rule reach_step) (rule Fire, simp add: defs)
  then have "?r ?s2" by (rule reach_step) (rule Interval, simp add: defs)
  then have "?r ?s3" by (rule reach_step) (rule Fire, simp add: defs)
  then have "?r ?s4" by (rule reach_step) (rule Interval, simp add: defs)
  then have "?r (settle ?s4)" by (rule reach_step) (rule Settle, simp add: defs)
  then have "?r two_timers" by (simp only: two_timers_def Let_def)
  then show ?thesis by (simp add: two_timers_eq unmount_def)
qed

section \<open>Topics\<close>

text \<open>The key keeps exactly the topics: a message concerns the screen when it names one of them.\<close>

lemma key_matches_topics:
  assumes "topics \<noteq> []" and "list_all (\<lambda>t. CHR '','' \<notin> set t) topics"
  shows "key_matches (topic_key topics) changed \<longleftrightarrow> (\<exists>t \<in> set changed. t \<in> set topics)"
proof -
  have "length (sort topics) \<noteq> 0" using assms(1) by simp
  then have "sort topics \<noteq> []" by (metis list.size(3))
  moreover have "\<forall>w \<in> set (sort topics). CHR '','' \<notin> set w" using assms(2) by (simp add: list_all_iff)
  ultimately have "split_on CHR '','' (join '','' (sort topics)) = sort topics"
    by (rule split_on_join)
  then show ?thesis by (simp add: key_matches_def topic_key_def list_ex_iff)
qed

lemma json_strings_JStr [simp]: "json_strings (map JStr ts) = Some ts"
  by (induction ts) simp_all

lemma json_strings_Some: "json_strings js = Some ts \<longleftrightarrow> js = map JStr ts"
  by (induction js arbitrary: ts rule: json_strings.induct) auto

text \<open>
  An event that carries a list of topics is passed on exactly as the server wrote it, or
  as a change of access when it names it; every other text the stream can carry, malformed or
  not, leaves the provider as it is.
\<close>

theorem change_events_roundtrip:
  "change_event (JSON_stringify (JObj [(''topics'', JArr (map JStr ts))])) =
     (if ''access'' \<in> set ts then Access_changed else Emit ts) \<and>
   (case JSON_parse data of
      Inr (JObj kvs) \<Rightarrow> (change_event data = Ignore_event) = (map_of kvs ''topics'' \<notin> range (\<lambda>ts. Some (JArr (map JStr ts))))
    | _ \<Rightarrow> on_source (Change_event data) p = p)"
proof
  have "json_ok (JObj [(''topics'', JArr (map JStr ts))])" by (simp add: list_all_iff)
  then have "JSON_parse (JSON_stringify (JObj [(''topics'', JArr (map JStr ts))])) = Inr (JObj [(''topics'', JArr (map JStr ts))])"
    by (rule stringify.parse_printed [folded JSON_stringify_def])
  then show "change_event (JSON_stringify (JObj [(''topics'', JArr (map JStr ts))])) =
     (if ''access'' \<in> set ts then Access_changed else Emit ts)"
    by (simp add: change_event_def)
  show "case JSON_parse data of
      Inr (JObj kvs) \<Rightarrow> (change_event data = Ignore_event) = (map_of kvs ''topics'' \<notin> range (\<lambda>ts. Some (JArr (map JStr ts))))
    | _ \<Rightarrow> on_source (Change_event data) p = p"
    by (auto simp: change_event_def on_source_def json_strings_Some split: sum.splits json.splits option.splits if_splits)
qed

end
