(* ===== verification/Admin_Access.thy ===== *)
theory Admin_Access
  imports Admin_Fetch Js_Act
begin

text \<open>
  The admin application's configuration (\<^verbatim>\<open>lib/config.ts\<close>,
  \<^verbatim>\<open>lib/canonical.ts\<close>), its authentication context
  (\<^verbatim>\<open>contexts/AuthContext.tsx\<close>) and the permission rules of
  \<^verbatim>\<open>resourceCreation.ts\<close>, which decide what a member of staff is offered.
\<close>

section \<open>Configuration\<close>

definition stripTrailingSlash :: "string \<Rightarrow> string" where
  "stripTrailingSlash = strip_slash"

definition admin_API_URL :: "string option \<Rightarrow> string" where
  "admin_API_URL env = stripTrailingSlash (or_string env ''http://localhost:8000'')"

definition admin_AUTH_URL :: "string option \<Rightarrow> string" where
  "admin_AUTH_URL env = stripTrailingSlash (or_string env ''http://localhost:3004'')"

text \<open>\<open>href\<close> is \<^verbatim>\<open>window.location.href\<close>, \<open>None\<close> outside a browser.\<close>

definition target_of :: "string option \<Rightarrow> string option \<Rightarrow> string option" where
  "target_of returnTo href = (if truthy_string returnTo then returnTo else href)"

definition getAdminLoginUrl :: "string \<Rightarrow> string option \<Rightarrow> string option \<Rightarrow> string" where
  "getAdminLoginUrl auth href returnTo =
     (case target_of returnTo href of
        None \<Rightarrow> auth @ ''/login''
      | Some target \<Rightarrow>
          if target = [] then auth @ ''/login'' else auth @ ''/login?next='' @ encodeURIComponent target)"

definition getAccountUrl :: "string \<Rightarrow> string option \<Rightarrow> string option \<Rightarrow> string" where
  "getAccountUrl auth href returnTo =
     (case target_of returnTo href of
        None \<Rightarrow> auth @ ''/account/security''
      | Some target \<Rightarrow>
          if target = [] then auth @ ''/account/security''
          else auth @ ''/account/security?next='' @ encodeURIComponent target)"

definition getBaseUrl :: "string option \<Rightarrow> string" where
  "getBaseUrl env = or_string env ''http://localhost:3000''"

definition getCanonicalUrl :: "string option \<Rightarrow> string \<Rightarrow> string" where
  "getCanonicalUrl env path =
     (let normalizedPath = (if startsWith path ''/'' then path else ''/'' @ path);
          cleanPath = (if normalizedPath = ''/'' then ''/'' else strip_slash normalizedPath)
      in getBaseUrl env @ cleanPath)"

section \<open>The signed-in user\<close>

record object_scope =
  scope_all :: "json option"
  scope_ids :: "json option"

record admin_user =
  au_id :: "json option"
  au_email :: "json option"
  au_firstName :: "json option"
  au_lastName :: "json option"
  au_isStaff :: "json option"
  au_isSuperuser :: "json option"
  au_permissions :: "json option"
  au_clients :: "json option"
  au_ticketQueues :: "json option"

text \<open>Reading a member of \<^verbatim>\<open>undefined\<close> or \<^verbatim>\<open>null\<close> throws.\<close>

definition member_of :: "json option \<Rightarrow> string \<Rightarrow> json option result" where
  "member_of j k = (case j of None \<Rightarrow> Inl TypeError | Some v \<Rightarrow> if v = JNull then Inl TypeError else Inr (jget v k))"

definition transformUser :: "json \<Rightarrow> admin_user result" where
  "transformUser data =
     and_then (member_of (jget data ''scope'') ''clients'') (\<lambda>clients.
       and_then (member_of (jget data ''scope'') ''ticket_queues'') (\<lambda>queues.
         Inr \<lparr>au_id = jget data ''id'', au_email = jget data ''email'', au_firstName = jget data ''first_name'',
              au_lastName = jget data ''last_name'', au_isStaff = jget data ''is_staff'',
              au_isSuperuser = jget data ''is_superuser'', au_permissions = jget data ''permissions'',
              au_clients = clients, au_ticketQueues = queues\<rparr>))"

record admin_auth = net +
  user :: "admin_user option"
  isLoading :: bool

definition admin_auth_init :: admin_auth where
  "admin_auth_init = \<lparr>stored_token = None, sent = [], user = None, isLoading = True\<rparr>"

definition io_act :: "'a io \<Rightarrow> ('b net_scheme, 'a) act" where
  "io_act m = api_call (\<lambda>tok h. (tok, m h))"

definition me_request :: "admin_world \<Rightarrow> request" where
  "me_request w = \<lparr>req_url = aw_api w @ ''/api/auth/me'', req_method = ''GET'', req_headers = [],
     req_body = NoBody, req_credentials = ''include''\<rparr>"

definition setUser :: "admin_user option \<Rightarrow> (admin_auth, unit) act" where
  "setUser u = set_act (\<lambda>s. s\<lparr>user := u\<rparr>)"

definition setIsLoading :: "bool \<Rightarrow> bool \<Rightarrow> admin_auth \<Rightarrow> admin_auth" where
  "setIsLoading silent b s = (if silent then s else s\<lparr>isLoading := b\<rparr>)"

definition admin_refreshUser :: "admin_world \<Rightarrow> bool \<Rightarrow> (admin_auth, unit) act" where
  "admin_refreshUser w silent =
     finally_act
       (catch_act
         (then_act (set_act (setIsLoading silent True))
           (bind_act (io_act (fetch (aw_server w) (me_request w))) (\<lambda>response.
             if \<not> ok response then setUser None
             else bind_act (lift_act (and_then (json_body response) non_null)) (\<lambda>data.
               if jtrue data ''success'' \<and> jtrue data ''user''
               then bind_act (lift_act (transformUser (the (jget data ''user'')))) (\<lambda>u. setUser (Some u))
               else setUser None))))
         (\<lambda>e. setUser None))
       (setIsLoading silent False)"

definition admin_logout :: "admin_world \<Rightarrow> (admin_auth, unit) act" where
  "admin_logout w =
     finally_act
       (then_act (io_act (fetchAPI w (aw_api w @ ''/api/auth/logout'') just_post)) (return_act ()))
       (\<lambda>s. s\<lparr>user := None\<rparr>)"

text \<open>The address \<^verbatim>\<open>login\<close> navigates to.\<close>

definition admin_login :: "string \<Rightarrow> string \<Rightarrow> string" where
  "admin_login auth href = getAdminLoginUrl auth (Some href) None"

text \<open>
  \<^verbatim>\<open>permissions.includes(p)\<close>; \<open>None\<close> where it throws, for a user whose
  permissions are missing.
\<close>

definition permission_included :: "json option \<Rightarrow> string \<Rightarrow> bool option" where
  "permission_included ps p =
     (case ps of Some (JArr js) \<Rightarrow> Some (JStr p \<in> set js) | Some (JStr s) \<Rightarrow> Some (str_includes s p) | _ \<Rightarrow> None)"

definition hasPermission :: "admin_user option \<Rightarrow> string \<Rightarrow> bool option" where
  "hasPermission u permission =
     (case u of
        None \<Rightarrow> Some False
      | Some v \<Rightarrow> if au_isSuperuser v = Some (JBool True) then Some True
                  else permission_included (au_permissions v) permission)"

section \<open>Lemmas\<close>

lemma io_act_run: "io_act m s = (s\<lparr>sent := fst (m (sent s))\<rparr>, snd (m (sent s)))"
  by (simp add: io_act_def api_call_def split: prod.splits)

lemma transformUser_cases:
  "transformUser data = (case jget data ''scope'' of
     None \<Rightarrow> Inl TypeError
   | Some sc \<Rightarrow> if sc = JNull then Inl TypeError else transformUser data)"
  by (simp add: transformUser_def member_of_def split: option.splits)

text \<open>The user a response signs in.\<close>

definition answered_user :: "response result \<Rightarrow> admin_user option" where
  "answered_user r =
     (case r of
        Inl e \<Rightarrow> None
      | Inr response \<Rightarrow>
          if \<not> ok response then None
          else (case json_body response of
                  Inl e \<Rightarrow> None
                | Inr data \<Rightarrow>
                    if jtrue data ''success'' \<and> jtrue data ''user''
                    then (case transformUser (the (jget data ''user'')) of Inl e \<Rightarrow> None | Inr u \<Rightarrow> Some u)
                    else None))"

lemma jtrue_JNull [simp]: "\<not> jtrue JNull k"
  by (simp add: jtrue_def)

lemma admin_refreshUser_eq:
  "admin_refreshUser w silent s =
     (s\<lparr>sent := sent s @ [me_request w], user := answered_user (aw_server w (sent s) (me_request w)),
        isLoading := (if silent then isLoading s else False)\<rparr>, Inr ())"
  by (auto simp: admin_refreshUser_def finally_act_def catch_act_def then_act_def bind_act_def set_act_def lift_act_def
      setUser_def setIsLoading_def io_act_run fetch_def answered_user_def and_then_def non_null_def
      split: sum.splits prod.splits)

section \<open>Properties\<close>

text \<open>
  C34: the signed-in user is only ever what the last answer says. A refresh never throws, ends
  loading unless it is silent, and leaves no user behind when the call fails, is refused, or
  its answer lacks the user or the user's scope; a logout forgets the user and reports its own failure.
\<close>

theorem admin_user_fails_closed:
  "admin_refreshUser w silent s =
     (s\<lparr>sent := sent s @ [me_request w], user := answered_user (aw_server w (sent s) (me_request w)),
        isLoading := (if silent then isLoading s else False)\<rparr>, Inr ()) \<and>
   user (fst (admin_logout w s)) = None \<and>
   isl (snd (admin_logout w s)) = isl (snd (fetchAPI w (aw_api w @ ''/api/auth/logout'') just_post (sent s)))"
proof (intro conjI)
  show "isl (snd (admin_logout w s)) = isl (snd (fetchAPI w (aw_api w @ ''/api/auth/logout'') just_post (sent s)))"
    by (auto simp: admin_logout_def act_eqs then_act_def bind_act_def io_act_run return_act_def
        split: prod.splits sum.splits)
qed (simp_all add: admin_refreshUser_eq admin_logout_def act_eqs)

text \<open>A user the API answered with permissions as a list of texts.\<close>

definition well_typed :: "admin_user \<Rightarrow> bool" where
  "well_typed u \<longleftrightarrow> (case au_permissions u of Some (JArr js) \<Rightarrow> True | _ \<Rightarrow> False)"

definition grants :: "admin_user option \<Rightarrow> string \<Rightarrow> bool" where
  "grants u p = (case u of None \<Rightarrow> False
     | Some v \<Rightarrow> au_isSuperuser v = Some (JBool True) \<or> (case au_permissions v of Some (JArr js) \<Rightarrow> JStr p \<in> set js | _ \<Rightarrow> False))"

lemma hasPermission_grants: "pred_option well_typed u \<Longrightarrow> hasPermission u p = Some (grants u p)"
  by (auto simp: hasPermission_def permission_included_def grants_def well_typed_def
      split: option.splits json.splits)

section \<open>Which resources a user may create\<close>

record creation =
  cr_label :: string
  cr_family :: string
  cr_permission :: "string option"

definition creation :: "string \<Rightarrow> string \<Rightarrow> string \<Rightarrow> creation" where
  "creation l f p = \<lparr>cr_label = l, cr_family = f, cr_permission = Some p\<rparr>"

definition catalogue :: "string \<Rightarrow> creation" where
  "catalogue l = \<lparr>cr_label = l, cr_family = ''catalogue'', cr_permission = None\<rparr>"

definition RESOURCE_CREATION :: "(string \<times> creation) list" where
  "RESOURCE_CREATION =
    [(''server'', creation ''Server'' ''compute'' ''add_serverprofile''),
     (''network'', creation ''Network'' ''compute'' ''add_network''),
     (''subnet'', creation ''Subnet'' ''compute'' ''add_subnet''),
     (''database_instance'', creation ''Database instance'' ''data'' ''add_databaseinstance''),
     (''logical_database'', creation ''Logical database'' ''data'' ''add_logicaldatabase''),
     (''application'', creation ''Application'' ''data'' ''add_applicationprofile''),
     (''application_environment'', creation ''Application environment'' ''data'' ''add_applicationenvironment''),
     (''source_repository'', creation ''Source repository'' ''data'' ''add_sourcerepository''),
     (''website'', creation ''Website'' ''web'' ''add_websiteprofile''),
     (''website_endpoint'', creation ''Website endpoint'' ''web'' ''add_websiteendpoint''),
     (''domain'', creation ''Domain'' ''web'' ''add_domainprofile''),
     (''dns_zone'', creation ''DNS zone'' ''web'' ''add_dnszone''),
     (''tls_certificate'', creation ''TLS certificate'' ''web'' ''add_tlscertificate''),
     (''provider_account'', creation ''Provider account'' ''catalogue'' ''add_provideraccount''),
     (''storage'', creation ''Storage'' ''operational'' ''add_storageprofile''),
     (''backup_plan'', creation ''Backup plan'' ''operational'' ''add_backupplanprofile''),
     (''container_stack'', creation ''Container stack'' ''operational'' ''add_containerstackprofile''),
     (''kubernetes_cluster'', creation ''Kubernetes cluster'' ''operational'' ''add_kubernetesclusterprofile''),
     (''kubernetes_namespace'', creation ''Kubernetes namespace'' ''operational'' ''add_kubernetesnamespaceprofile''),
     (''kubernetes_workload'', creation ''Kubernetes workload'' ''operational'' ''add_kubernetesworkloadprofile''),
     (''system_service'', creation ''System service'' ''operational'' ''add_systemserviceprofile''),
     (''scheduled_job'', creation ''Scheduled job'' ''operational'' ''add_scheduledjobprofile''),
     (''api'', catalogue ''API''), (''bot'', catalogue ''Bot''), (''mobile_app'', catalogue ''Mobile app''),
     (''licence'', catalogue ''Licence''), (''email_system'', catalogue ''Email system''),
     (''network_device'', catalogue ''Network device''), (''other'', catalogue ''Other'')]"

definition RESOURCE_TYPES :: "string list" where
  "RESOURCE_TYPES = map fst RESOURCE_CREATION"

definition BASIC_RESOURCE_TYPES :: "string list" where
  "BASIC_RESOURCE_TYPES =
     [''api'', ''bot'', ''mobile_app'', ''licence'', ''email_system'', ''network_device'', ''other'']"

definition isCatalogueResourceType :: "string \<Rightarrow> bool" where
  "isCatalogueResourceType value \<longleftrightarrow>
     value = ''provider_account'' \<or> list_ex (\<lambda>type. type = value) BASIC_RESOURCE_TYPES"

definition infra :: "string \<Rightarrow> string" where
  "infra p = ''infrastructure.'' @ p"

definition canCreateResource :: "string \<Rightarrow> (string \<Rightarrow> bool) \<Rightarrow> bool" where
  "canCreateResource type has =
     (let permission = (case map_of RESOURCE_CREATION type of None \<Rightarrow> None | Some c \<Rightarrow> cr_permission c)
      in has (infra ''view_infrastructureresource'') \<and> has (infra ''add_infrastructureresource'') \<and>
         (\<not> truthy_string permission \<or> has (infra (the permission))) \<and>
         (type \<noteq> ''provider_account'' \<or> has (infra ''view_serviceprovider'')))"

text \<open>What a type requires, as a set.\<close>

definition required :: "string \<Rightarrow> string set" where
  "required type =
     infra ` ({''view_infrastructureresource'', ''add_infrastructureresource''} \<union>
       (case map_of RESOURCE_CREATION type of None \<Rightarrow> {} | Some c \<Rightarrow> set_option (cr_permission c)) \<union>
       (if type = ''provider_account'' then {''view_serviceprovider''} else {}))"

lemma permission_nonempty:
  "map_of RESOURCE_CREATION type = Some c \<Longrightarrow> cr_permission c \<noteq> Some []"
  by (auto simp: RESOURCE_CREATION_def creation_def catalogue_def split: if_splits)

lemma canCreateResource_required: "canCreateResource type has \<longleftrightarrow> required type \<subseteq> {p. has p}"
proof (cases "map_of RESOURCE_CREATION type")
  case None
  then show ?thesis by (auto simp: canCreateResource_def required_def)
next
  case (Some c)
  then show ?thesis
    using permission_nonempty [OF Some]
    by (cases "cr_permission c") (auto simp: canCreateResource_def required_def truthy_string_def)
qed

lemma catalogue_types:
  "filter isCatalogueResourceType RESOURCE_TYPES =
   filter (\<lambda>t. case map_of RESOURCE_CREATION t of None \<Rightarrow> False | Some c \<Rightarrow> cr_family c = ''catalogue'') RESOURCE_TYPES"
  by code_simp


definition demo_staff :: admin_user where
  "demo_staff = \<lparr>au_id = None, au_email = None, au_firstName = None, au_lastName = None,
     au_isStaff = Some (JBool True), au_isSuperuser = Some (JBool False),
     au_permissions = Some (JArr [JStr (infra ''view_infrastructureresource''),
       JStr (infra ''add_infrastructureresource''), JStr (infra ''add_provideraccount'')]),
     au_clients = None, au_ticketQueues = None\<rparr>"


end
