(* ===== verification/Admin_Vault.thy ===== *)
theory Admin_Vault
  imports Admin_Access Admin_Endpoints Js_Number
begin

text \<open>
  The admin application's calls with effects beyond a request: downloading and copying a
  secret of the credential vault (\<^verbatim>\<open>lib/api/credentialVault.ts\<close>), the calls of
  \<^verbatim>\<open>lib/api/celery.ts\<close>, and the context of the knowledge base
  (\<^verbatim>\<open>knowledge-base/context.ts\<close>), which its links carry as a query.

  Reading a response as a file, clicking a link and writing to the clipboard belong to the
  browser: they are parameters that succeed or throw. The browser's side effects are recorded:
  the object URLs that exist, the files saved and what was put on the clipboard.
\<close>

section \<open>Secrets\<close>

record vault_browser = net +
  object_urls :: "nat list"
  next_url :: nat
  saved_files :: "(string \<times> nat) list"
  clipboard :: "string list"

record vault_world =
  vw_api :: admin_world
  vw_blob :: "response \<Rightarrow> unit result"
  vw_click :: "string \<Rightarrow> unit result"
  vw_write :: "string \<Rightarrow> unit result"

definition quote_char :: char where
  "quote_char = CHR 0x22"

text \<open>
  The first group of \<^verbatim>\<open>disposition.match(/filename="([^"]+)"/i)\<close>: at the first
  place where the word, in any case, is followed by a non-empty quoted text.
\<close>

fun match_filename :: "string \<Rightarrow> string option" where
  "match_filename [] = None"
| "match_filename (c # s) =
     (let w = take 10 (c # s); r = drop 10 (c # s); name = takeWhile (\<lambda>x. x \<noteq> quote_char) r
      in if toLowerCase w = ''filename='' @ [quote_char] \<and> name \<noteq> [] \<and> quote_char \<in> set r
         then Some name else match_filename s)"

definition secret_filename :: "response \<Rightarrow> string \<Rightarrow> string" where
  "secret_filename response fieldKey =
     or_string (match_filename (nullish (map_of (resp_headers response) ''content-disposition'') []))
       (fieldKey @ ''.txt'')"

definition vault_url :: "admin_world \<Rightarrow> vault_call \<Rightarrow> string" where
  "vault_url w c = endpoint_url (aw_api w) (admin_endpoint (Vault c))"

definition createObjectURL :: "(vault_browser, nat) act" where
  "createObjectURL s =
     (s\<lparr>object_urls := next_url s # object_urls s, next_url := Suc (next_url s)\<rparr>, Inr (next_url s))"

definition revokeObjectURL :: "nat \<Rightarrow> vault_browser \<Rightarrow> vault_browser" where
  "revokeObjectURL u s = s\<lparr>object_urls := removeAll u (object_urls s)\<rparr>"

definition click_download :: "vault_world \<Rightarrow> string \<Rightarrow> nat \<Rightarrow> (vault_browser, unit) act" where
  "click_download w filename u =
     then_act (lift_act (vw_click w filename))
       (set_act (\<lambda>s. s\<lparr>saved_files := saved_files s @ [(filename, u)]\<rparr>))"

definition downloadCredentialSecret :: "vault_world \<Rightarrow> int \<Rightarrow> string \<Rightarrow> (vault_browser, unit) act" where
  "downloadCredentialSecret w credentialId fieldKey =
     bind_act (io_act (fetchRawAPI (vw_api w) (vault_url (vw_api w) (Vault_download credentialId fieldKey)) just_post))
       (\<lambda>response.
          if \<not> ok response
          then throw_act (response_error response ''Unable to download credential secret.''
                           ''Unable to download credential secret.'')
          else bind_act (lift_act (vw_blob w response)) (\<lambda>blob.
            let filename = secret_filename response fieldKey
            in bind_act createObjectURL (\<lambda>objectUrl.
                 finally_act (click_download w filename objectUrl) (revokeObjectURL objectUrl))))"

text \<open>What \<^verbatim>\<open>writeText(payload.value)\<close> writes.\<close>

definition as_text :: "json option \<Rightarrow> string" where
  "as_text j = (case j of None \<Rightarrow> ''undefined'' | Some v \<Rightarrow> js_text v)"

definition copyCredentialSecret :: "vault_world \<Rightarrow> int \<Rightarrow> string \<Rightarrow> (vault_browser, unit) act" where
  "copyCredentialSecret w credentialId fieldKey =
     bind_act (io_act (fetchAPI (vw_api w) (vault_url (vw_api w) (Vault_copy credentialId fieldKey)) just_post))
       (\<lambda>payload. bind_act (lift_act (and_then (non_null payload) (\<lambda>p. Inr (as_text (jget p ''value'')))))
          (\<lambda>text. then_act (lift_act (vw_write w text))
             (set_act (\<lambda>s. s\<lparr>clipboard := clipboard s @ [text]\<rparr>))))"

section \<open>Background tasks\<close>

definition celery_options :: "celery_call \<Rightarrow> request_init" where
  "celery_options c = (case c of Celery_revoke i \<Rightarrow> just_post | Celery_run n \<Rightarrow> just_post | _ \<Rightarrow> no_options)"

definition celeryAPI :: "admin_world \<Rightarrow> celery_call \<Rightarrow> json io" where
  "celeryAPI w c = fetchAPI w (endpoint_url (aw_api w) (admin_endpoint (Celery c))) (celery_options c)"

section \<open>The context of the knowledge base\<close>

datatype KnowledgeContext = Internal | Client int

definition MAX_SAFE_INTEGER :: int where
  "MAX_SAFE_INTEGER = 9007199254740991"

definition isSafeInteger :: "number \<Rightarrow> bool" where
  "isSafeInteger n = (case n of Dec m k \<Rightarrow> k = 0 \<and> \<bar>m\<bar> \<le> MAX_SAFE_INTEGER | _ \<Rightarrow> False)"

definition parseKnowledgeContext :: "string option \<Rightarrow> string option \<Rightarrow> KnowledgeContext option" where
  "parseKnowledgeContext ownership clientId =
     (if ownership = Some ''internal''
      then (if truthy_string clientId then None else Some Internal)
      else if truthy_string ownership \<and> ownership \<noteq> Some ''client'' then None
      else (let i = (if truthy_string clientId then js_Number (the clientId) else NaN)
            in case i of
                 Dec m k \<Rightarrow> if isSafeInteger i \<and> num_gt i 0 then Some (Client m) else None
               | _ \<Rightarrow> None))"

definition knowledgeContextParams :: "KnowledgeContext \<Rightarrow> params" where
  "knowledgeContextParams context =
     (case context of
        Internal \<Rightarrow> [(''ownership_type'', ''internal'')]
      | Client i \<Rightarrow> params_set ''client_id'' (int_str i) [(''ownership_type'', ''client'')])"

definition knowledgeBaseHref :: "KnowledgeContext \<Rightarrow> string" where
  "knowledgeBaseHref context = ''/admin/knowledge-base?'' @ params_str (knowledgeContextParams context)"

section \<open>Lemmas\<close>

lemma createObjectURL_run:
  "createObjectURL s = (s\<lparr>object_urls := next_url s # object_urls s, next_url := Suc (next_url s)\<rparr>, Inr (next_url s))"
  by (simp add: createObjectURL_def)

text \<open>The object URLs that exist have been handed out.\<close>

definition urls_fresh :: "vault_browser \<Rightarrow> bool" where
  "urls_fresh s \<longleftrightarrow> list_all (\<lambda>u. u < next_url s) (object_urls s)"

lemma removeAll_fresh: "list_all (\<lambda>u. u < n) us \<Longrightarrow> removeAll n us = us"
  for n :: nat
  by (induction us) auto

lemma click_download_run:
  "click_download w f u s = (case vw_click w f of
      Inl e \<Rightarrow> (s, Inl e)
    | Inr x \<Rightarrow> (s\<lparr>saved_files := saved_files s @ [(f, u)]\<rparr>, Inr ()))"
  by (simp add: click_download_def then_act_def bind_act_def lift_act_def set_act_def split: sum.splits)

definition vault_step :: "vault_world \<Rightarrow> int \<Rightarrow> string \<Rightarrow> vault_browser \<Rightarrow> response \<Rightarrow> vault_browser \<times> unit result" where
  "vault_step w i k s r =
     (if \<not> ok r then (s, Inl (response_error r ''Unable to download credential secret.'' ''Unable to download credential secret.''))
      else case vw_blob w r of
          Inl e \<Rightarrow> (s, Inl e)
        | Inr b \<Rightarrow> (case vw_click w (secret_filename r k) of
              Inl e \<Rightarrow> (s\<lparr>next_url := Suc (next_url s)\<rparr>, Inl e)
            | Inr x \<Rightarrow> (s\<lparr>next_url := Suc (next_url s), saved_files := saved_files s @ [(secret_filename r k, next_url s)]\<rparr>, Inr ())))"

lemma download_eq:
  assumes "urls_fresh s"
  shows "downloadCredentialSecret w i k s =
    (case fetchRawAPI (vw_api w) (vault_url (vw_api w) (Vault_download i k)) just_post (sent s) of
       (h, Inl e) \<Rightarrow> (s\<lparr>sent := h\<rparr>, Inl e)
     | (h, Inr r) \<Rightarrow> vault_step w i k (s\<lparr>sent := h\<rparr>) r)"
proof -
  have f: "removeAll (next_url s) (object_urls s) = object_urls s"
    using assms by (intro removeAll_fresh) (simp add: urls_fresh_def)
  show ?thesis
    by (simp add: downloadCredentialSecret_def bind_act_def io_act_run throw_act_def lift_act_def finally_act_def
        createObjectURL_run click_download_run revokeObjectURL_def vault_step_def f Let_def
        split: prod.splits sum.splits)
qed

lemma vault_step_urls: "object_urls (fst (vault_step w i k s r)) = object_urls s"
  by (simp add: vault_step_def split: sum.splits)

lemma vault_step_saved:
  "saved_files (fst (vault_step w i k s r)) =
     saved_files s @ (if isl (snd (vault_step w i k s r)) then [] else [(secret_filename r k, next_url s)])"
  by (simp add: vault_step_def split: sum.splits)

lemma vault_step_error: "\<not> ok r \<Longrightarrow> isl (snd (vault_step w i k s r))"
  by (simp add: vault_step_def)

section \<open>Properties\<close>

text \<open>
  C36: after the download of a secret, whichever step failed, no object URL to the secret is
  left in the browser; a file was saved exactly if the call returned, once, under the name the
  server chose or the key of the field; and every request was signed.
\<close>

theorem secret_download_leaves_nothing:
  assumes "urls_fresh s"
  shows "object_urls (fst (downloadCredentialSecret w i k s)) = object_urls s \<and>
    (case snd (downloadCredentialSecret w i k s) of
       Inl e \<Rightarrow> saved_files (fst (downloadCredentialSecret w i k s)) = saved_files s
     | Inr u \<Rightarrow> (case snd (fetchRawAPI (vw_api w) (vault_url (vw_api w) (Vault_download i k)) just_post (sent s)) of
           Inl e \<Rightarrow> False
         | Inr r \<Rightarrow> ok r \<and> saved_files (fst (downloadCredentialSecret w i k s)) =
                       saved_files s @ [(secret_filename r k, next_url s)]))"
proof -
  obtain h r where f: "fetchRawAPI (vw_api w) (vault_url (vw_api w) (Vault_download i k)) just_post (sent s) = (h, r)"
    by (cases "fetchRawAPI (vw_api w) (vault_url (vw_api w) (Vault_download i k)) just_post (sent s)")
  show ?thesis
  proof (cases r)
    case (Inl e)
    with f show ?thesis by (simp add: download_eq [OF assms])
  next
    case (Inr resp)
    let ?t = "vault_step w i k (s\<lparr>sent := h\<rparr>) resp"
    have "ok resp" if "\<not> isl (snd ?t)" using that vault_step_error by metis
    then show ?thesis
      using f Inr vault_step_urls [of w i k "s\<lparr>sent := h\<rparr>" resp] vault_step_saved [of w i k "s\<lparr>sent := h\<rparr>" resp]
      by (cases "snd ?t") (simp_all add: download_eq [OF assms])
  qed
qed

definition demo_vault :: vault_world where
  "demo_vault =
     \<lparr>vw_api = \<lparr>aw_server = (\<lambda>h r. Inr \<lparr>status = 200, json_body = Inr (JObj [(''token'', JStr ''t'')]),
                    resp_headers = [(''content-disposition'', ''attachment; Filename='' @ [quote_char] @ ''key.pem'' @ [quote_char])]\<rparr>),
        aw_document = None, aw_api = ''https://api''\<rparr>,
      vw_blob = (\<lambda>r. Inr ()), vw_click = (\<lambda>f. Inr ()), vw_write = (\<lambda>s. Inr ())\<rparr>"

definition demo_vault_browser :: vault_browser where
  "demo_vault_browser = \<lparr>stored_token = None, sent = [], object_urls = [], next_url = 0, saved_files = [], clipboard = []\<rparr>"

theorem secret_download_leaves_nothing_witness:
  "object_urls (fst (downloadCredentialSecret demo_vault 7 ''private key'' demo_vault_browser)) = [] \<and>
   saved_files (fst (downloadCredentialSecret demo_vault 7 ''private key'' demo_vault_browser)) = [(''key.pem'', 0)]"
proof -
  have f: "urls_fresh demo_vault_browser" by (simp add: urls_fresh_def demo_vault_browser_def)
  have "saved_files (fst (downloadCredentialSecret demo_vault 7 ''private key'' demo_vault_browser)) = [(''key.pem'', 0)]"
    by code_simp
  then show ?thesis
    using secret_download_leaves_nothing [OF f, of demo_vault 7 "''private key''"] by (simp add: demo_vault_browser_def)
qed

lemma js_Number_int_str: "0 \<le> i \<Longrightarrow> js_Number (int_str i) = Dec i 0"
  using js_Number_nat_str [of "nat i"] by (simp add: int_str_def)

text \<open>The context a link carries, read back from its query.\<close>

definition context_of_query :: "string \<Rightarrow> KnowledgeContext option" where
  "context_of_query query =
     (case search_params query of
        None \<Rightarrow> None
      | Some ps \<Rightarrow> parseKnowledgeContext (params_get ps ''ownership_type'') (params_get ps ''client_id''))"

text \<open>
  A link to the knowledge base carries its context faithfully: the page it leads to reads
  the same context back, for the internal base and for every client id a page accepts; and
  an accepted id is always a positive integer that is exact as a number.
\<close>

theorem knowledge_context_roundtrip:
  "(context_of_query (drop 21 (knowledgeBaseHref (Client i))) = Some (Client i)) = (0 < i \<and> i \<le> MAX_SAFE_INTEGER) \<and>
   context_of_query (drop 21 (knowledgeBaseHref Internal)) = Some Internal \<and>
   (case parseKnowledgeContext ownership clientId of Some (Client j) \<Rightarrow> 0 < j \<and> j \<le> MAX_SAFE_INTEGER | _ \<Rightarrow> True)"
proof (intro conjI)
  have q: "search_params (drop 21 (knowledgeBaseHref c)) = Some (knowledgeContextParams c)" for c
    using search_params_str [of "knowledgeContextParams c"] by (simp add: knowledgeBaseHref_def)
  have c: "parseKnowledgeContext (Some ''client'') (Some (int_str i)) =
      (case js_Number (int_str i) of Dec m k \<Rightarrow> if isSafeInteger (Dec m k) \<and> num_gt (Dec m k) 0 then Some (Client m) else None
       | _ \<Rightarrow> None)"
    by (auto simp: parseKnowledgeContext_def truthy_string_def int_str_def split: number.splits)
  have b: "parseKnowledgeContext o' c' = Some (Client j) \<Longrightarrow> 0 < j \<and> j \<le> MAX_SAFE_INTEGER" for o' c' j
    by (auto simp: parseKnowledgeContext_def isSafeInteger_def num_gt_def Let_def split: if_splits number.splits)
  show "(context_of_query (drop 21 (knowledgeBaseHref (Client i))) = Some (Client i)) = (0 < i \<and> i \<le> MAX_SAFE_INTEGER)"
  proof
    assume "context_of_query (drop 21 (knowledgeBaseHref (Client i))) = Some (Client i)"
    then show "0 < i \<and> i \<le> MAX_SAFE_INTEGER" using b by (auto simp: context_of_query_def q)
  next
    assume "0 < i \<and> i \<le> MAX_SAFE_INTEGER"
    then show "context_of_query (drop 21 (knowledgeBaseHref (Client i))) = Some (Client i)"
      by (simp add: context_of_query_def q knowledgeContextParams_def params_get_def c js_Number_int_str
          isSafeInteger_def num_gt_def)
  qed
  show "context_of_query (drop 21 (knowledgeBaseHref Internal)) = Some Internal"
    by (simp add: context_of_query_def q knowledgeContextParams_def params_get_def parseKnowledgeContext_def)
  show "case parseKnowledgeContext ownership clientId of Some (Client j) \<Rightarrow> 0 < j \<and> j \<le> MAX_SAFE_INTEGER | _ \<Rightarrow> True"
    using b by (auto split: option.splits KnowledgeContext.splits)
qed

end
