(* ===== verification/Js_Date.thy ===== *)
theory Js_Date
  imports Js_Number "HOL-Library.List_Lexorder" "HOL-Library.Char_ord"
begin

text \<open>
  Calendar days as the language computes them: a day is its number since 1 January 1970, in
  the proleptic Gregorian calendar, and \<^verbatim>\<open>MakeDay\<close> accepts months and days out of
  range, which is how the code moves between months. A \<^verbatim>\<open>Date\<close> the code uses only
  for its calendar day is modelled by that number; years outside the range the platform
  supports are not excluded.

  The theorems: the conversions between numbers and (year, month, day) are inverse and
  monotone, and for years of four digits the ISO text of a date is read back and compares, as
  a string, like the date.
\<close>

section \<open>Years\<close>

definition leap :: "int \<Rightarrow> bool" where
  "leap y \<longleftrightarrow> y mod 4 = 0 \<and> (y mod 100 \<noteq> 0 \<or> y mod 400 = 0)"

definition DayFromYear :: "int \<Rightarrow> int" where
  "DayFromYear y = 365 * (y - 1970) + (y - 1969) div 4 - (y - 1901) div 100 + (y - 1601) div 400"

lemma div_plus_one: "0 < k \<Longrightarrow> (x + 1) div k = x div k + (if (x + 1) mod k = 0 then 1 else 0)"
  for x k :: int
proof -
  assume k: "0 < k"
  define q where "q = x div k"
  define r where "r = x mod k"
  have x: "x = k * q + r" and r: "0 \<le> r" "r < k" using k by (simp_all add: q_def r_def)
  show ?thesis
  proof (cases "r + 1 = k")
    case True
    then have "x + 1 = k * (q + 1) + 0" using x by (simp add: algebra_simps)
    then have "(x + 1) div k = q + 1" "(x + 1) mod k = 0"
      using k by (metis int_div_pos_eq order_refl, metis int_mod_pos_eq order_refl)
    then show ?thesis by (simp add: q_def)
  next
    case False
    then have e: "x + 1 = k * q + (r + 1)" "0 \<le> r + 1" "r + 1 < k" using x r by simp_all
    have "(x + 1) div k = q" by (rule int_div_pos_eq [OF e])
    moreover have "(x + 1) mod k = r + 1" by (rule int_mod_pos_eq [OF e])
    ultimately show ?thesis using r by (simp add: q_def)
  qed
qed

lemma div_step: "0 < k \<Longrightarrow> (y - k * c) div k = (y - (k * c + 1)) div k + (if y mod k = 0 then 1 else 0)"
  for y k c :: int
proof -
  assume "0 < k"
  moreover have "(y - k * c) mod k = y mod k" using mod_mult_self2 [of y k "- c"] by simp
  moreover have "y - (k * c + 1) + 1 = y - k * c" by simp
  ultimately show ?thesis using div_plus_one [of k "y - (k * c + 1)"] by metis
qed

lemma leap_mods: "y mod 100 = 0 \<Longrightarrow> y mod 4 = 0" "y mod 400 = 0 \<Longrightarrow> y mod 100 = 0" for y :: int
  using mod_mod_cancel [of 4 100 y] mod_mod_cancel [of 100 400 y] by simp_all

lemma DayFromYear_Suc: "DayFromYear (y + 1) = DayFromYear y + (if leap y then 366 else 365)"
proof -
  define a b c where abc: "a = (y - (4 * 492 + 1)) div 4" "b = (y - (100 * 19 + 1)) div 100" "c = (y - (400 * 4 + 1)) div 400"
  have 0: "DayFromYear y = 365 * (y - 1970) + a - b + c"
  proof -
    have "y - (4 * 492 + 1) = y - 1969" "y - (100 * 19 + 1) = y - 1901" "y - (400 * 4 + 1) = y - 1601" by simp_all
    then show ?thesis by (simp only: DayFromYear_def abc)
  qed
  have "y + 1 - 1969 = y - 4 * 492" "y + 1 - 1901 = y - 100 * 19" "y + 1 - 1601 = y - 400 * 4" by simp_all
  then have "DayFromYear (y + 1) = 365 * (y + 1 - 1970) + (y - 4 * 492) div 4 - (y - 100 * 19) div 100 + (y - 400 * 4) div 400"
    by (simp only: DayFromYear_def)
  also have "\<dots> = 365 * (y + 1 - 1970) + (a + (if y mod 4 = 0 then 1 else 0)) - (b + (if y mod 100 = 0 then 1 else 0)) +
      (c + (if y mod 400 = 0 then 1 else 0))"
    unfolding abc by (subst div_step, simp, subst div_step, simp, subst div_step, simp, rule refl)
  finally have 1: "DayFromYear (y + 1) = 365 * (y + 1 - 1970) + (a + (if y mod 4 = 0 then 1 else 0)) -
      (b + (if y mod 100 = 0 then 1 else 0)) + (c + (if y mod 400 = 0 then 1 else 0))" .
  define P Q R where PQR: "P = (y mod 4 = 0)" "Q = (y mod 100 = 0)" "R = (y mod 400 = 0)"
  have "Q \<longrightarrow> P" "R \<longrightarrow> Q" unfolding PQR using leap_mods [of y] by blast+
  moreover have "leap y = (P \<and> (\<not> Q \<or> R))" by (simp only: leap_def PQR)
  ultimately show ?thesis
    unfolding 0 1 PQR [symmetric] by (cases P; cases Q; cases R) simp_all
qed

lemma DayFromYear_mono: "y \<le> z \<Longrightarrow> DayFromYear y \<le> DayFromYear z"
proof (induction z rule: int_ge_induct)
  case base
  then show ?case by simp
next
  case (step z)
  then show ?case using DayFromYear_Suc [of z] by auto
qed

text \<open>A year whose first day is not after a day, close enough to start the search from.\<close>

definition first_guess :: "int \<Rightarrow> int" where
  "first_guess n = 1960 + (if n < 0 then n div 365 else n div 366)"

lemma div_bounds: "0 < c \<Longrightarrow> c * (x div c) \<le> x \<and> x < c * (x div c) + c" for x c :: int
  using pos_mod_sign [of c x] pos_mod_bound [of c x] mult_div_mod_eq [of c x] by linarith

lemma first_guess_le: "DayFromYear (first_guess n) \<le> n"
proof -
  define k where "k = first_guess n - 1960"
  have D: "DayFromYear (first_guess n) = 365 * (k - 10) + (k - 9) div 4 - (k + 59) div 100 + (k + 359) div 400"
    by (simp add: DayFromYear_def k_def algebra_simps)
  define u v w where uvw: "u = (k - 9) div 4" "v = (k + 59) div 100" "w = (k + 359) div 400"
  have b: "4 * u \<le> k - 9" "k + 59 < 100 * v + 100" "400 * w \<le> k + 359"
    using div_bounds [of 4 "k - 9"] div_bounds [of 100 "k + 59"] div_bounds [of 400 "k + 359"] by (simp_all add: uvw)
  have "DayFromYear (first_guess n) = 365 * (k - 10) + u - v + w" using D by (simp only: uvw)
  moreover have "365 * (k - 10) + u - v + w \<le> n"
  proof (cases "n < 0")
    case True
    define q where "q = n div 365"
    have "k = q" using True by (simp add: k_def first_guess_def q_def)
    moreover have "365 * q \<le> n" using div_bounds [of 365 n] by (simp add: q_def)
    ultimately have k: "k = q" "365 * k \<le> n" by simp_all
    then have "400 * u - 400 * v + 400 * w \<le> 97 * k" "k \<le> 0" using b True by linarith+
    then have "u - v + w \<le> 3650" by linarith
    with k(2) show ?thesis by (simp add: right_diff_distrib)
  next
    case False
    define q where "q = n div 366"
    have "k = q" using False by (simp add: k_def first_guess_def q_def)
    moreover have "366 * q \<le> n" "n < 366 * q + 366" using div_bounds [of 366 n] by (simp_all add: q_def)
    ultimately have k: "k = q" "366 * k \<le> n" "n < 366 * k + 366" by simp_all
    then have "u - v + w \<le> k + 3650" using b False by linarith
    with k(2) show ?thesis by (simp add: right_diff_distrib)
  qed
  ultimately show ?thesis by simp
qed

function year_search :: "int \<Rightarrow> int \<Rightarrow> int" where
  "year_search y n = (if DayFromYear (y + 1) \<le> n then year_search (y + 1) n else y)"
  by auto

termination
  by (relation "measure (\<lambda>(y, n). nat (n + 1 - DayFromYear y))") (auto simp: DayFromYear_Suc split: if_splits)

declare year_search.simps [simp del]

definition YearFromDay :: "int \<Rightarrow> int" where
  "YearFromDay n = year_search (first_guess n) n"

lemma year_search_bounds:
  "DayFromYear y \<le> n \<Longrightarrow> DayFromYear (year_search y n) \<le> n \<and> n < DayFromYear (year_search y n + 1)"
proof (induction y n rule: year_search.induct)
  case (1 y n)
  then show ?case by (subst (1 2) year_search.simps) auto
qed

lemma YearFromDay_bounds: "DayFromYear (YearFromDay n) \<le> n" "n < DayFromYear (YearFromDay n + 1)"
  using year_search_bounds [OF first_guess_le] by (simp_all add: YearFromDay_def)

lemma YearFromDay_unique:
  assumes "DayFromYear y \<le> n" and "n < DayFromYear (y + 1)"
  shows "YearFromDay n = y"
proof (rule ccontr)
  assume "YearFromDay n \<noteq> y"
  then consider "YearFromDay n + 1 \<le> y" | "y + 1 \<le> YearFromDay n" by linarith
  then show False
    using assms YearFromDay_bounds [of n] by cases (auto dest: DayFromYear_mono)
qed

section \<open>Months and days\<close>

type_synonym civil = "int \<times> nat \<times> nat"

text \<open>Year, month from 0, day of the month from 1.\<close>

definition months :: "int \<Rightarrow> nat list" where
  "months y = [31, if leap y then 29 else 28, 31, 30, 31, 30, 31, 31, 30, 31, 30, 31]"

definition valid_civil :: "civil \<Rightarrow> bool" where
  "valid_civil c = (case c of (y, m, d) \<Rightarrow> m < 12 \<and> 1 \<le> d \<and> d \<le> months y ! m)"

definition day_of :: "civil \<Rightarrow> int" where
  "day_of c = (case c of (y, m, d) \<Rightarrow> DayFromYear y + int (sum_list (take m (months y))) + int d - 1)"

text \<open>Month and day of the month, from a day of the year.\<close>

fun split_months :: "nat list \<Rightarrow> nat \<Rightarrow> nat \<times> nat" where
  "split_months [] r = (0, r)"
| "split_months (k # ks) r = (if r < k then (0, r) else (case split_months ks (r - k) of (m, d) \<Rightarrow> (Suc m, d)))"

definition civil_of :: "int \<Rightarrow> civil" where
  "civil_of n =
     (let y = YearFromDay n; (m, d) = split_months (months y) (nat (n - DayFromYear y)) in (y, m, Suc d))"

lemma months_length [simp]: "length (months y) = 12"
  by (simp add: months_def)

lemma months_sum: "int (sum_list (months y)) = DayFromYear (y + 1) - DayFromYear y"
  by (simp add: months_def DayFromYear_Suc)

lemma split_months_sum:
  "r < sum_list ks \<Longrightarrow> split_months ks r = (m, d) \<Longrightarrow> m < length ks \<and> d < ks ! m \<and> r = sum_list (take m ks) + d"
proof (induction ks arbitrary: r m d)
  case Nil
  then show ?case by simp
next
  case (Cons k ks)
  show ?case
  proof (cases "r < k")
    case True
    with Cons.prems show ?thesis by auto
  next
    case False
    obtain m' d' where s: "split_months ks (r - k) = (m', d')" by (cases "split_months ks (r - k)")
    with Cons.prems False have "m = Suc m'" "d = d'" by auto
    moreover have "r - k < sum_list ks" using Cons.prems(1) False by simp
    ultimately show ?thesis using Cons.IH [OF _ s] False by auto
  qed
qed

lemma split_months_unique:
  "m < length ks \<Longrightarrow> d < ks ! m \<Longrightarrow> split_months ks (sum_list (take m ks) + d) = (m, d)"
proof (induction ks arbitrary: m)
  case Nil
  then show ?case by simp
next
  case (Cons k ks)
  then show ?case by (cases m) auto
qed

lemma take_months_less: "m < length ks \<Longrightarrow> d < ks ! m \<Longrightarrow> sum_list (take m ks) + d < sum_list ks" for ks :: "nat list"
proof (induction ks arbitrary: m)
  case Nil
  then show ?case by simp
next
  case (Cons k ks)
  then show ?case by (cases m) auto
qed

lemma civil_of_valid: "valid_civil (civil_of n)"
  and day_of_civil_of [simp]: "day_of (civil_of n) = n"
proof -
  define y where "y = YearFromDay n"
  obtain m d where s: "split_months (months y) (nat (n - DayFromYear y)) = (m, d)"
    by (cases "split_months (months y) (nat (n - DayFromYear y))")
  have b: "DayFromYear y \<le> n" "n < DayFromYear (y + 1)" using YearFromDay_bounds [of n] by (simp_all add: y_def)
  then have "nat (n - DayFromYear y) < sum_list (months y)" using months_sum [of y] by linarith
  from split_months_sum [OF this s] b have
    "m < 12" "d < months y ! m" "n = DayFromYear y + int (sum_list (take m (months y))) + int d" by auto
  moreover have "civil_of n = (y, m, Suc d)" by (simp add: civil_of_def y_def [symmetric] s)
  ultimately show "valid_civil (civil_of n)" "day_of (civil_of n) = n"
    by (simp_all add: valid_civil_def day_of_def)
qed

lemma civil_of_day_of [simp]:
  assumes "valid_civil c"
  shows "civil_of (day_of c) = c"
proof -
  obtain y m d where c: "c = (y, m, d)" by (cases c)
  have v: "m < length (months y)" "d - 1 < months y ! m" "1 \<le> d" using assms c by (auto simp: valid_civil_def)
  let ?r = "sum_list (take m (months y)) + (d - 1)"
  have n: "day_of c = DayFromYear y + int ?r" using c v(3) by (simp add: day_of_def)
  moreover have "int ?r < DayFromYear (y + 1) - DayFromYear y"
    using take_months_less [OF v(1,2)] months_sum [of y] by linarith
  ultimately have y: "YearFromDay (day_of c) = y" by (intro YearFromDay_unique) linarith+
  have "nat (day_of c - DayFromYear y) = ?r" using n by simp
  then have "split_months (months y) (nat (day_of c - DayFromYear y)) = (m, d - 1)"
    using split_months_unique [OF v(1,2)] by simp
  then show ?thesis using v(3) unfolding civil_of_def Let_def y by (simp add: c)
qed

text \<open>\<^verbatim>\<open>MakeDay\<close>: month and day may be out of range.\<close>

definition MakeDay :: "int \<Rightarrow> int \<Rightarrow> int \<Rightarrow> int" where
  "MakeDay y m d = day_of (y + m div 12, nat (m mod 12), 1) + d - 1"

definition getDay :: "int \<Rightarrow> int" where
  "getDay n = (n + 4) mod 7"

lemma MakeDay_valid: "valid_civil (y, m, d) \<Longrightarrow> MakeDay y (int m) (int d) = day_of (y, m, d)"
  by (simp add: MakeDay_def day_of_def valid_civil_def)

lemma months_pos: "m < 12 \<Longrightarrow> 28 \<le> months y ! m \<and> months y ! m \<le> 31"
proof -
  assume "m < 12"
  then have "months y ! m \<in> set (months y)" by simp
  then show ?thesis by (auto simp: months_def split: if_splits)
qed

lemma first_of_month_valid: "valid_civil (y + m div 12, nat (m mod 12), 1)"
proof -
  have "nat (m mod 12) < 12" using pos_mod_bound [of 12 m] by linarith
  then show ?thesis using months_pos [of "nat (m mod 12)" "y + m div 12"] by (simp add: valid_civil_def)
qed

text \<open>The order of days is the order of dates.\<close>

fun civil_less :: "civil \<Rightarrow> civil \<Rightarrow> bool" where
  "civil_less (y, m, d) (y', m', d') = (y < y' \<or> y = y' \<and> (m < m' \<or> m = m' \<and> d < d'))"

lemma civil_less_total: "a = b \<or> civil_less a b \<or> civil_less b a"
  by (cases a; cases b) auto

lemma take_sum_mono: "m < m' \<Longrightarrow> m < length ks \<Longrightarrow> sum_list (take m ks) + ks ! m \<le> sum_list (take m' ks)" for ks :: "nat list"
proof (induction ks arbitrary: m m')
  case Nil
  then show ?case by simp
next
  case (Cons k ks)
  then show ?case by (cases m; cases m') auto
qed

lemma day_of_bounds:
  assumes "valid_civil (y, m, d)"
  shows "DayFromYear y \<le> day_of (y, m, d)" and "day_of (y, m, d) < DayFromYear (y + 1)"
proof -
  have "sum_list (take m (months y)) + (d - 1) < sum_list (months y)" "1 \<le> d"
    using assms take_months_less [of m "months y" "d - 1"] by (auto simp: valid_civil_def)
  then show "DayFromYear y \<le> day_of (y, m, d)" "day_of (y, m, d) < DayFromYear (y + 1)"
    using months_sum [of y] by (auto simp: day_of_def)
qed

lemma day_of_less:
  assumes "valid_civil a" and "valid_civil b" and "civil_less a b"
  shows "day_of a < day_of b"
proof -
  obtain y m d y' m' d' where ab: "a = (y, m, d)" "b = (y', m', d')" by (cases a; cases b)
  consider (year) "y < y'" | (month) "y = y'" "m < m'" | (day) "y = y'" "m = m'" "d < d'"
    using assms(3) ab by auto
  then show ?thesis
  proof cases
    case year
    then have "DayFromYear (y + 1) \<le> DayFromYear y'" by (intro DayFromYear_mono) simp
    then show ?thesis using day_of_bounds [of y m d] day_of_bounds [of y' m' d'] assms ab by auto
  next
    case month
    then have "sum_list (take m (months y)) + months y ! m \<le> sum_list (take m' (months y))"
      using assms ab by (intro take_sum_mono) (auto simp: valid_civil_def)
    moreover have "d \<le> months y ! m" "1 \<le> d'" using assms ab by (auto simp: valid_civil_def)
    ultimately show ?thesis using month ab by (simp add: day_of_def)
  next
    case day
    then show ?thesis using ab by (simp add: day_of_def)
  qed
qed

lemma civil_less_iff: "civil_less (civil_of m) (civil_of n) \<longleftrightarrow> m < n"
  using day_of_less [OF civil_of_valid civil_of_valid, of m n] day_of_less [OF civil_of_valid civil_of_valid, of n m]
    civil_less_total [of "civil_of m" "civil_of n"] by (metis day_of_civil_of less_asym less_irrefl)

section \<open>ISO texts\<close>

definition pad2 :: "nat \<Rightarrow> string" where
  "pad2 n = pad_left 2 (nat_str n)"

definition iso_text :: "civil \<Rightarrow> string" where
  "iso_text c = (case c of (y, m, d) \<Rightarrow> int_str y @ ''-'' @ pad2 (m + 1) @ ''-'' @ pad2 d)"

text \<open>A number in exactly \<open>k\<close> digits.\<close>

fun dig :: "nat \<Rightarrow> nat \<Rightarrow> string" where
  "dig 0 n = []"
| "dig (Suc k) n = dig k (n div 10) @ [digit_char (n mod 10)]"

lemma length_dig [simp]: "length (dig k n) = k"
  by (induction k arbitrary: n) simp_all

lemma nat_str_dig: "10 ^ k \<le> n \<Longrightarrow> n < 10 ^ Suc k \<Longrightarrow> nat_str n = dig (Suc k) n"
proof (induction k arbitrary: n)
  case 0
  then show ?case by (subst nat_str.simps) simp
next
  case (Suc k)
  have "10 ^ k \<le> n div 10" "n div 10 < 10 ^ Suc k"
    using Suc.prems by (simp_all add: less_eq_div_iff_mult_less_eq div_less_iff_less_mult mult.commute)
  then have "nat_str (n div 10) = dig (Suc k) (n div 10)" by (rule Suc.IH)
  moreover have "\<not> n < 10" using Suc.prems(1) by (metis le_antisym less_imp_le_nat not_less one_le_numeral power_increasing power_one_right le_trans Suc_le_eq zero_less_Suc One_nat_def)
  ultimately show ?case by (subst nat_str.simps) simp
qed

lemma char_of_48 [simp]: "char_of (48 :: nat) = CHR ''0''"
  by code_simp

lemma pad2_dig: "n < 100 \<Longrightarrow> pad2 n = dig 2 n"
proof (cases "n < 10")
  case True
  then show ?thesis by (simp add: pad2_def pad_left_def nat_str.simps numeral_2_eq_2 digit_char_def)
next
  case False
  assume "n < 100"
  with False have "nat_str n = dig 2 n" using nat_str_dig [of 1 n] by (simp add: numeral_2_eq_2)
  then show ?thesis by (simp add: pad2_def pad_left_def)
qed

lemma digit_char_less: "a < 10 \<Longrightarrow> b < 10 \<Longrightarrow> digit_char a < digit_char b \<longleftrightarrow> a < b"
  by (simp add: digit_char_def less_char_def)

lemma digit_char_inject: "a < 10 \<Longrightarrow> b < 10 \<Longrightarrow> digit_char a = digit_char b \<longleftrightarrow> a = b"
  by (metis digit_val_digit_char)

lemma append_less:
  "length xs = length ys \<Longrightarrow> xs @ u < ys @ v \<longleftrightarrow> xs < ys \<or> xs = ys \<and> u < v" for xs :: "'a::linorder list"
  by (induction xs ys rule: list_induct2) auto

lemma dig_inject: "n < 10 ^ k \<Longrightarrow> m < 10 ^ k \<Longrightarrow> dig k n = dig k m \<longleftrightarrow> n = m"
proof (induction k arbitrary: n m)
  case 0
  then show ?case by simp
next
  case (Suc k)
  have "n div 10 < 10 ^ k" "m div 10 < 10 ^ k" using Suc.prems by (simp_all add: div_less_iff_less_mult mult.commute)
  then have "dig (Suc k) n = dig (Suc k) m \<longleftrightarrow> n div 10 = m div 10 \<and> n mod 10 = m mod 10"
    using Suc.IH by (simp add: digit_char_inject)
  then show ?case by (metis div_mult_mod_eq)
qed

lemma dig_less: "n < 10 ^ k \<Longrightarrow> m < 10 ^ k \<Longrightarrow> dig k n < dig k m \<longleftrightarrow> n < m"
proof (induction k arbitrary: n m)
  case 0
  then show ?case by simp
next
  case (Suc k)
  have b: "n div 10 < 10 ^ k" "m div 10 < 10 ^ k" using Suc.prems by (simp_all add: div_less_iff_less_mult mult.commute)
  then have "dig (Suc k) n < dig (Suc k) m \<longleftrightarrow> n div 10 < m div 10 \<or> n div 10 = m div 10 \<and> n mod 10 < m mod 10"
    using Suc.IH by (simp add: append_less dig_inject digit_char_less)
  also have "\<dots> \<longleftrightarrow> n < m"
    using div_mult_mod_eq [of n 10] div_mult_mod_eq [of m 10] mod_less_divisor [of 10 n] mod_less_divisor [of 10 m]
    by linarith
  finally show ?case .
qed

definition year4 :: "civil \<Rightarrow> bool" where
  "year4 c \<longleftrightarrow> 1000 \<le> fst c \<and> fst c \<le> 9999"

lemma iso_text_dig:
  assumes "valid_civil (y, m, d)" and "year4 (y, m, d)"
  shows "iso_text (y, m, d) = dig 4 (nat y) @ CHR ''-'' # dig 2 (m + 1) @ CHR ''-'' # dig 2 d"
    and "nat y < 10 ^ 4" and "m + 1 < 10 ^ 2" and "d < 10 ^ 2"
proof -
  have y: "1000 \<le> nat y" "nat y < 10000" "0 \<le> y" using assms(2) by (auto simp: year4_def)
  have md: "m < 12" "d \<le> 31" using assms(1) months_pos [of m y] by (auto simp: valid_civil_def)
  have "nat_str (nat y) = dig (Suc 3) (nat y)" using y by (intro nat_str_dig) simp_all
  moreover have "Suc 3 = 4" by simp
  ultimately have "nat_str (nat y) = dig 4 (nat y)" by metis
  with y md show "iso_text (y, m, d) = dig 4 (nat y) @ CHR ''-'' # dig 2 (m + 1) @ CHR ''-'' # dig 2 d"
    by (simp add: iso_text_def int_str_def pad2_dig)
  show "nat y < 10 ^ 4" "m + 1 < 10 ^ 2" "d < 10 ^ 2" using y md by simp_all
qed

text \<open>ISO texts compare as strings like the dates they print.\<close>

lemma iso_text_less:
  assumes "valid_civil a" "year4 a" and "valid_civil b" "year4 b"
  shows "iso_text a < iso_text b \<longleftrightarrow> civil_less a b"
proof -
  obtain y m d y' m' d' where ab: "a = (y, m, d)" "b = (y', m', d')" by (cases a; cases b)
  note A = iso_text_dig [OF assms(1,2) [unfolded ab]] and B = iso_text_dig [OF assms(3,4) [unfolded ab]]
  have "nat y < nat y' \<longleftrightarrow> y < y'" "nat y = nat y' \<longleftrightarrow> y = y'" using assms(2,4) ab by (auto simp: year4_def)
  then show ?thesis
    using A(2-4) B(2-4)
    by (simp add: ab A(1) B(1) append_less dig_less dig_inject del: power_Suc)
qed

lemma iso_text_inject:
  assumes "valid_civil a" "year4 a" and "valid_civil b" "year4 b"
  shows "iso_text a = iso_text b \<longleftrightarrow> a = b"
  using iso_text_less [OF assms] iso_text_less [OF assms(3,4,1,2)] civil_less_total [of a b]
  by (metis less_irrefl)

end
