(* ===== verification/Admin_Screens.thy ===== *)
theory Admin_Screens
  imports Admin_Access Admin_Endpoints
begin

text \<open>
  What the workspaces of the admin application share: calls of \<^verbatim>\<open>fetchAPI\<close> from a
  handler, the message shown for an exception, and lookups in lists the API answered. Loaded
  data stays JSON, as the code's casts leave it; list elements are objects.
\<close>

definition api_get :: "admin_world \<Rightarrow> string \<Rightarrow> ('b net_scheme, json) act" where
  "api_get w url = io_act (fetchAPI w url no_options)"

definition api_send :: "admin_world \<Rightarrow> string \<Rightarrow> string \<Rightarrow> req_body \<Rightarrow> ('b net_scheme, json) act" where
  "api_send w method url body =
     io_act (fetchAPI w url \<lparr>ri_method = Some method, ri_headers = [], ri_body = body\<rparr>)"

definition call_url :: "admin_world \<Rightarrow> admin_call \<Rightarrow> string" where
  "call_url w c = endpoint_url (aw_api w) (admin_endpoint c)"

text \<open>\<^verbatim>\<open>e instanceof Error ? e.message : fallback\<close>.\<close>

definition message_of :: "string \<Rightarrow> js_throw \<Rightarrow> string" where
  "message_of fallback e = (case e of Err n m \<Rightarrow> m | NonError \<Rightarrow> fallback)"

definition json_list :: "json option \<Rightarrow> json list" where
  "json_list j = (case j of Some (JArr xs) \<Rightarrow> xs | _ \<Rightarrow> [])"

text \<open>\<^verbatim>\<open>xs.find((item) => item.id === i)\<close>.\<close>

definition find_id :: "json list \<Rightarrow> int \<Rightarrow> json option" where
  "find_id xs i = find (\<lambda>item. jget item ''id'' = Some (JNum i)) xs"

lemma find_id_member: "find_id xs i = Some item \<Longrightarrow> item \<in> set xs \<and> jget item ''id'' = Some (JNum i)"
  by (auto simp: find_id_def find_Some_iff)

text \<open>The members of an object literal that are not \<^verbatim>\<open>undefined\<close>.\<close>

definition object_of :: "(string \<times> json option) list \<Rightarrow> json" where
  "object_of kvs = JObj [(k, v). (k, Some v) \<leftarrow> kvs]"

lemma object_of_simps [simp]:
  "object_of [] = JObj []"
  "object_of ((k, Some v) # r) = (case object_of r of JObj kvs \<Rightarrow> JObj ((k, v) # kvs))"
  "object_of ((k, None) # r) = object_of r"
  by (simp_all add: object_of_def)

lemma api_get_sent:
  "sent (fst (api_get w url s)) = sent s @ [api_request url no_options []]"
  by (simp add: api_get_def io_act_run fetchAPI_get)

text \<open>A handler that only talks to the API keeps the rest of the state.\<close>

lemma io_act_keeps [act_intros]: "(\<And>s h. P s \<Longrightarrow> P (s\<lparr>sent := h\<rparr>)) \<Longrightarrow> leaves P P (io_act m)"
  by (auto simp: leaves_def io_act_run)

lemma api_keeps [act_intros]:
  "(\<And>s h. P s \<Longrightarrow> P (s\<lparr>sent := h\<rparr>)) \<Longrightarrow> leaves P P (api_get w url)"
  "(\<And>s h. P s \<Longrightarrow> P (s\<lparr>sent := h\<rparr>)) \<Longrightarrow> leaves P P (api_send w m url b)"
  unfolding api_get_def api_send_def by (blast intro: io_act_keeps)+

lemma jget_object_of:
  "distinct (map fst kvs) \<Longrightarrow> jget (object_of kvs) k = (case map_of kvs k of None \<Rightarrow> None | Some v \<Rightarrow> v)"
proof (induction kvs)
  case Nil
  then show ?case by simp
next
  case (Cons kv kvs)
  obtain k' v where kv: "kv = (k', v)" by (cases kv)
  have new: "map_of kvs k' = None" using Cons.prems kv by (simp add: map_of_eq_None_iff)
  show ?case
  proof (cases v)
    case None
    with Cons kv new show ?thesis by auto
  next
    case (Some x)
    obtain m where "object_of kvs = JObj m" by (simp add: object_of_def)
    with Cons kv Some show ?thesis by auto
  qed
qed

section \<open>What a handler sends\<close>

definition act_sends :: "(request \<Rightarrow> bool) \<Rightarrow> ('b net_scheme, 'a) act \<Rightarrow> bool" where
  "act_sends P m \<longleftrightarrow> (\<forall>s. \<exists>new. sent (fst (m s)) = sent s @ new \<and> (\<forall>r \<in> set new. P r))"

named_theorems act_sends_intros \<open>which requests a handler can send\<close>

lemma act_sends_silent: "(\<And>s. sent (fst (m s)) = sent s) \<Longrightarrow> act_sends P m"
  by (simp add: act_sends_def)

lemma act_sends_set [act_sends_intros]: "(\<And>s. sent (f s) = sent s) \<Longrightarrow> act_sends P (set_act f)"
  by (rule act_sends_silent) (simp add: act_eqs)

lemma act_sends_basic [act_sends_intros]:
  "act_sends P (return_act x)" "act_sends P (throw_act e)" "act_sends P (lift_act r)"
  by (rule act_sends_silent, simp add: act_eqs)+

lemma act_sends_io [act_sends_intros]: "sends P m \<Longrightarrow> act_sends P (io_act m)"
  by (auto simp: act_sends_def sends_def io_act_run)

lemma act_sends_bind [act_sends_intros]:
  assumes m: "act_sends P m" and f: "\<And>x. act_sends P (f x)"
  shows "act_sends P (bind_act m f)"
  unfolding act_sends_def
proof
  fix s
  obtain s' r where ms: "m s = (s', r)" by (cases "m s")
  then obtain a where a: "sent s' = sent s @ a" "\<forall>q \<in> set a. P q" using m by (metis act_sends_def fst_conv)
  show "\<exists>new. sent (fst (bind_act m f s)) = sent s @ new \<and> (\<forall>r \<in> set new. P r)"
  proof (cases r)
    case (Inl e)
    with ms a show ?thesis by (simp add: bind_act_def)
  next
    case (Inr x)
    obtain b where "sent (fst (f x s')) = sent s' @ b" "\<forall>q \<in> set b. P q" using f by (metis act_sends_def)
    with ms a Inr have "sent (fst (bind_act m f s)) = sent s @ (a @ b) \<and> (\<forall>q \<in> set (a @ b). P q)"
      by (auto simp: bind_act_def)
    then show ?thesis by blast
  qed
qed

lemma act_sends_then [act_sends_intros]: "act_sends P m \<Longrightarrow> act_sends P n \<Longrightarrow> act_sends P (then_act m n)"
  unfolding then_act_def by (rule act_sends_bind)

lemma act_sends_catch [act_sends_intros]:
  assumes m: "act_sends P m" and f: "\<And>e. act_sends P (f e)"
  shows "act_sends P (catch_act m f)"
  unfolding act_sends_def
proof
  fix s
  obtain s' r where ms: "m s = (s', r)" by (cases "m s")
  then obtain a where a: "sent s' = sent s @ a" "\<forall>q \<in> set a. P q" using m by (metis act_sends_def fst_conv)
  show "\<exists>new. sent (fst (catch_act m f s)) = sent s @ new \<and> (\<forall>r \<in> set new. P r)"
  proof (cases r)
    case (Inr x)
    with ms a show ?thesis by (simp add: catch_act_def)
  next
    case (Inl e)
    obtain b where "sent (fst (f e s')) = sent s' @ b" "\<forall>q \<in> set b. P q" using f by (metis act_sends_def)
    with ms a Inl have "sent (fst (catch_act m f s)) = sent s @ (a @ b) \<and> (\<forall>q \<in> set (a @ b). P q)"
      by (auto simp: catch_act_def)
    then show ?thesis by blast
  qed
qed

lemma act_sends_finally [act_sends_intros]:
  "act_sends P m \<Longrightarrow> (\<And>s. sent (f s) = sent s) \<Longrightarrow> act_sends P (finally_act m f)"
  by (simp add: act_sends_def act_eqs)

lemma act_sends_if [act_sends_intros]:
  "(b \<Longrightarrow> act_sends P m) \<Longrightarrow> (\<not> b \<Longrightarrow> act_sends P n) \<Longrightarrow> act_sends P (if b then m else n)"
  by simp

lemma act_sends_apply: "(\<And>s. \<exists>m. act_sends P m \<and> f s = m s) \<Longrightarrow> act_sends P f"
  unfolding act_sends_def by metis

lemma act_sends_get [act_sends_intros]: "P (api_request url no_options []) \<Longrightarrow> act_sends P (api_get w url)"
  unfolding api_get_def by (intro act_sends_intros) (auto simp: sends_def fetchAPI_get)

text \<open>A posting call: the token request, then the call itself, signed.\<close>

definition sent_as :: "string \<Rightarrow> string \<Rightarrow> req_body \<Rightarrow> request \<Rightarrow> bool" where
  "sent_as method url body r \<longleftrightarrow>
     req_url r = url \<and> req_method r = toUpperCase method \<and> req_body r = body \<and> signed_request r"

lemma token_request_body [simp]: "req_body (token_request w) = NoBody"
  by (simp add: token_request_def)

lemma act_sends_send:
  assumes "P (token_request w)" and "\<And>r. sent_as m url b r \<Longrightarrow> P r"
  shows "act_sends P (api_send w m url b)"
  unfolding api_send_def
  using assms api_request_signed [of "\<lparr>ri_method = Some m, ri_headers = [], ri_body = b\<rparr>" _ url]
  by (intro act_sends_intros sends_api) (auto simp: sent_as_def api_request_def)

end
