(* ===== verification/Admin_Time.thy ===== *)
theory Admin_Time
  imports Admin_Screens Js_Date
begin

text \<open>
  \<^verbatim>\<open>app/(admin)/admin/time-tracking/TimeTrackingWorkspace.tsx\<close>: recording time by hand
  or with a timer, and browsing what was recorded. The handlers and effects of the component
  over its state; what it draws is left out.

  A duration is an exact fraction of hours, where the platform computes with doubles. The
  two calls of \<^verbatim>\<open>Promise.all\<close> are made in the order they are written, and the first
  of them that fails is the one reported.
\<close>

section \<open>Contexts\<close>

datatype context_type = CtInternal | CtClient | CtProject | CtTask | CtTicket

record context_selection =
  sel_type :: context_type
  sel_target :: "int option"

definition INTERNAL_CONTEXT :: context_selection where
  "INTERNAL_CONTEXT = \<lparr>sel_type = CtInternal, sel_target = None\<rparr>"

record context_payload =
  cp_ownership_type :: "json option"
  cp_client_id :: "json option"
  cp_project_id :: "json option"
  cp_task_id :: "json option"
  cp_ticket_id :: "json option"
  cp_internal :: bool

definition queryId :: "string option \<Rightarrow> int option" where
  "queryId value =
     (if \<not> truthy_string value then None
      else (case js_Number (the value) of
              Dec m k \<Rightarrow> if k = 0 \<and> m > 0 then Some m else None
            | _ \<Rightarrow> None))"

fun first_context :: "(context_type \<times> string) list \<Rightarrow> params \<Rightarrow> context_selection" where
  "first_context [] ps = INTERNAL_CONTEXT"
| "first_context ((t, key) # cs) ps =
     (case queryId (params_get ps key) of
        Some i \<Rightarrow> \<lparr>sel_type = t, sel_target = Some i\<rparr>
      | None \<Rightarrow> first_context cs ps)"

definition initialContextFromParams :: "params \<Rightarrow> context_selection" where
  "initialContextFromParams ps =
     first_context [(CtTask, ''task_id''), (CtTicket, ''ticket_id''), (CtProject, ''project_id''),
       (CtClient, ''client_id'')] ps"

definition options_list :: "json \<Rightarrow> string \<Rightarrow> json list" where
  "options_list options k = json_list (jget options k)"

definition is_internal :: "json option \<Rightarrow> bool" where
  "is_internal ownership \<longleftrightarrow> ownership = Some (JStr ''internal'')"

definition resolveContext :: "context_selection \<Rightarrow> json \<Rightarrow> context_payload option" where
  "resolveContext selection options =
     (case (sel_type selection, sel_target selection) of
        (CtInternal, t) \<Rightarrow> Some \<lparr>cp_ownership_type = Some (JStr ''internal''), cp_client_id = Some JNull,
           cp_project_id = Some JNull, cp_task_id = Some JNull, cp_ticket_id = Some JNull, cp_internal = True\<rparr>
      | (_, None) \<Rightarrow> None
      | (CtClient, Some i) \<Rightarrow> map_option (\<lambda>client.
           \<lparr>cp_ownership_type = Some (JStr ''client''), cp_client_id = jget client ''id'', cp_project_id = Some JNull,
            cp_task_id = Some JNull, cp_ticket_id = Some JNull, cp_internal = False\<rparr>)
           (find_id (options_list options ''clients'') i)
      | (CtProject, Some i) \<Rightarrow> map_option (\<lambda>project.
           \<lparr>cp_ownership_type = jget project ''ownership_type'', cp_client_id = jget project ''client_id'',
            cp_project_id = jget project ''id'', cp_task_id = Some JNull, cp_ticket_id = Some JNull,
            cp_internal = is_internal (jget project ''ownership_type'')\<rparr>)
           (find_id (options_list options ''projects'') i)
      | (CtTask, Some i) \<Rightarrow> map_option (\<lambda>task.
           \<lparr>cp_ownership_type = jget task ''ownership_type'', cp_client_id = jget task ''client_id'',
            cp_project_id = jget task ''project_id'', cp_task_id = jget task ''id'', cp_ticket_id = Some JNull,
            cp_internal = is_internal (jget task ''ownership_type'')\<rparr>)
           (find_id (options_list options ''tasks'') i)
      | (CtTicket, Some i) \<Rightarrow> map_option (\<lambda>ticket.
           \<lparr>cp_ownership_type = Some (JStr (if truthy (jget ticket ''client_id'') then ''client'' else ''internal'')),
            cp_client_id = jget ticket ''client_id'', cp_project_id = Some JNull, cp_task_id = Some JNull,
            cp_ticket_id = jget ticket ''id'', cp_internal = (jget ticket ''client_id'' = Some JNull)\<rparr>)
           (find_id (options_list options ''tickets'') i))"

text \<open>\<^verbatim>\<open>{...payload}\<close>.\<close>

definition payload_members :: "context_payload \<Rightarrow> (string \<times> json option) list" where
  "payload_members p =
     [(''ownership_type'', cp_ownership_type p), (''client_id'', cp_client_id p), (''project_id'', cp_project_id p),
      (''task_id'', cp_task_id p), (''ticket_id'', cp_ticket_id p), (''internal'', Some (JBool (cp_internal p)))]"

definition contextLabel :: "json \<Rightarrow> json option" where
  "contextLabel entry =
     (if truthy (jget entry ''task_title'') then jget entry ''task_title''
      else if truthy (jget entry ''ticket_reference'') then
        Some (JStr (js_text (the (jget entry ''ticket_reference'')) @ '': '' @
          (if truthy (jget entry ''ticket_subject'') then js_text (the (jget entry ''ticket_subject'')) else ''Ticket'')))
      else if truthy (jget entry ''project_name'') then jget entry ''project_name''
      else if truthy (jget entry ''client_name'') then jget entry ''client_name''
      else Some (JStr ''ADB Internal''))"

definition contextLink :: "json \<Rightarrow> string option" where
  "contextLink entry =
     (if truthy (jget entry ''task_id'') then Some (''/admin/tasks/'' @ js_text (the (jget entry ''task_id'')))
      else if truthy (jget entry ''ticket_id'') then Some (''/admin/tickets/'' @ js_text (the (jget entry ''ticket_id'')))
      else if truthy (jget entry ''project_id'') then Some (''/admin/projects/'' @ js_text (the (jget entry ''project_id'')))
      else if truthy (jget entry ''client_id'') then Some (''/admin/clients/'' @ js_text (the (jget entry ''client_id'')))
      else None)"

section \<open>Durations\<close>

text \<open>Hours and sixtieths of hours: a fraction with its positive denominator, or no finite number.\<close>

datatype duration = Hours int int | Unlimited bool | Not_a_number

fun hours_and_minutes :: "number \<Rightarrow> number \<Rightarrow> duration" where
  "hours_and_minutes (Dec h j) (Dec m k) = Hours (h * 60 * 10 ^ k + m * 10 ^ j) (60 * 10 ^ (j + k))"
| "hours_and_minutes NaN m = Not_a_number"
| "hours_and_minutes h NaN = Not_a_number"
| "hours_and_minutes (Infinity p) (Infinity q) = (if p = q then Unlimited p else Not_a_number)"
| "hours_and_minutes (Infinity p) (Dec m k) = Unlimited p"
| "hours_and_minutes (Dec h j) (Infinity q) = Unlimited q"

fun not_positive :: "duration \<Rightarrow> bool" where
  "not_positive (Hours n d) = (n \<le> 0)"
| "not_positive (Unlimited p) = (\<not> p)"
| "not_positive Not_a_number = False"

text \<open>\<^verbatim>\<open>duration.toFixed(4)\<close>: to the nearest of four decimals, the larger of two.\<close>

definition ten_thousandths :: "int \<Rightarrow> int \<Rightarrow> int" where
  "ten_thousandths n d = (20000 * n + d) div (2 * d)"

fun toFixed4 :: "duration \<Rightarrow> string" where
  "toFixed4 (Hours n d) =
     (let q = ten_thousandths n d
      in (if n < 0 then ''-'' else []) @ nat_str (nat \<bar>q\<bar> div 10000) @ ''.'' @ pad_left 4 (nat_str (nat \<bar>q\<bar> mod 10000)))"
| "toFixed4 (Unlimited p) = (if p then ''Infinity'' else ''-Infinity'')"
| "toFixed4 Not_a_number = ''NaN''"

text \<open>\<open>Number(text || 0)\<close>.\<close>

definition number_or_zero :: "string \<Rightarrow> number" where
  "number_or_zero text = (if text = [] then Dec 0 0 else js_Number text)"

definition formatElapsed :: "int \<Rightarrow> string" where
  "formatElapsed seconds =
     (let safe = nat (max 0 seconds)
      in join '':'' (map (\<lambda>part. pad_left 2 (nat_str part)) [safe div 3600, safe mod 3600 div 60, safe mod 60]))"

text \<open>The seconds the page shows for a timer: \<open>started\<close> and \<open>now\<close> in milliseconds.\<close>

definition elapsed :: "int \<Rightarrow> int \<Rightarrow> int \<Rightarrow> int" where
  "elapsed server_seconds now started = max server_seconds ((now - started) div 1000)"

section \<open>State and handlers\<close>

datatype browse_mode = BrowseClients | BrowseProjects | BrowseInternal
datatype recording_panel = Manual | Timer

record drilldown =
  ds_type :: browse_mode
  ds_id :: "int option"
  ds_label :: "json option"

record time_page = net +
  tp_options :: "json option"
  tp_timer :: "json option"
  tp_summary :: "json option"
  tp_entries :: "json option"
  tp_period :: string
  tp_browseMode :: browse_mode
  tp_scope :: "drilldown option"
  tp_page :: nat
  tp_recordingPanel :: "recording_panel option"
  tp_loading :: bool
  tp_reportLoading :: bool
  tp_saving :: bool
  tp_error :: "string option"
  tp_refreshVersion :: nat
  tp_manualContext :: context_selection
  tp_manualDate :: string
  tp_manualHours :: string
  tp_manualMinutes :: string
  tp_manualDescription :: string
  tp_manualBillable :: bool
  tp_timerContext :: context_selection
  tp_timerDescription :: string
  tp_timerBillable :: bool

text \<open>\<open>null\<close> from the API is no timer.\<close>

definition json_value :: "json \<Rightarrow> json option" where
  "json_value j = (if j = JNull then None else Some j)"

definition tp_fail :: "string \<Rightarrow> js_throw \<Rightarrow> (time_page, unit) act" where
  "tp_fail fallback e = set_act (tp_error_update (\<lambda>_. Some (message_of fallback e)))"

definition selectBrowseMode :: "browse_mode \<Rightarrow> time_page \<Rightarrow> time_page" where
  "selectBrowseMode mode s =
     s\<lparr>tp_browseMode := mode, tp_page := 1,
       tp_scope := (if mode = BrowseInternal
                    then Some \<lparr>ds_type = BrowseInternal, ds_id = None, ds_label = Some (JStr ''ADB Internal'')\<rparr>
                    else None)\<rparr>"

definition select_initial :: "context_selection \<Rightarrow> json \<Rightarrow> time_page \<Rightarrow> time_page" where
  "select_initial initial options s =
     (case (sel_type initial, sel_target initial) of
        (CtClient, Some i) \<Rightarrow>
          (case find_id (options_list options ''clients'') i of
             Some c \<Rightarrow> s\<lparr>tp_browseMode := BrowseClients,
                         tp_scope := Some \<lparr>ds_type = BrowseClients, ds_id = Some i, ds_label = jget c ''name''\<rparr>\<rparr>
           | None \<Rightarrow> s)
      | (CtProject, Some i) \<Rightarrow>
          (case find_id (options_list options ''projects'') i of
             Some p \<Rightarrow> s\<lparr>tp_browseMode := BrowseProjects,
                         tp_scope := Some \<lparr>ds_type = BrowseProjects, ds_id = Some i, ds_label = jget p ''name''\<rparr>\<rparr>
           | None \<Rightarrow> s)
      | _ \<Rightarrow> s)"

definition both :: "('w, 'a) act \<Rightarrow> ('w, 'b) act \<Rightarrow> ('w, 'a \<times> 'b) act" where
  "both m n s =
     (case m s of (s1, r) \<Rightarrow> (case n s1 of (s2, q) \<Rightarrow>
        (s2, and_then r (\<lambda>x. and_then q (\<lambda>y. Inr (x, y))))))"

lemma leaves_both [act_intros]:
  "leaves P P m \<Longrightarrow> leaves P P n \<Longrightarrow> leaves P P (both m n)"
  by (fastforce simp: leaves_def both_def split: prod.splits)

definition loadBootstrap :: "admin_world \<Rightarrow> context_selection \<Rightarrow> (time_page, unit) act" where
  "loadBootstrap w initial =
     finally_act
       (catch_act
         (then_act (set_act (\<lambda>s. s\<lparr>tp_loading := True, tp_error := None\<rparr>))
           (bind_act (both (api_get w (call_url w (TimeEntries Time_options)))
                           (api_get w (call_url w (TimeEntries Timer_current))))
             (\<lambda>(options, timer).
                set_act (\<lambda>s. select_initial initial options
                               (s\<lparr>tp_options := Some options, tp_timer := json_value timer\<rparr>)))))
         (tp_fail ''Unable to load time tracking.''))
       (tp_loading_update (\<lambda>_. False))"

definition loadSummary :: "admin_world \<Rightarrow> string \<Rightarrow> (time_page, unit) act" where
  "loadSummary w period =
     finally_act
       (catch_act
         (then_act (set_act (tp_reportLoading_update (\<lambda>_. True)))
           (bind_act (api_get w (call_url w (TimeEntries (Time_report (params_str [(''period'', period)])))))
             (\<lambda>j. set_act (tp_summary_update (\<lambda>_. Some j)))))
         (tp_fail ''Unable to load time summary.''))
       (tp_reportLoading_update (\<lambda>_. False))"

definition entries_query :: "string \<Rightarrow> nat \<Rightarrow> drilldown \<Rightarrow> params" where
  "entries_query period page scope =
     (let q = [(''period'', period), (''page'', nat_str page), (''page_size'', ''50'')];
          hasId = (case ds_id scope of None \<Rightarrow> False | Some i \<Rightarrow> i \<noteq> 0)
      in if ds_type scope = BrowseClients \<and> hasId then params_set ''client_id'' (int_str (the (ds_id scope))) q
         else if ds_type scope = BrowseProjects \<and> hasId then params_set ''project_id'' (int_str (the (ds_id scope))) q
         else if ds_type scope = BrowseInternal then params_set ''ownership_type'' ''internal'' q
         else q)"

definition loadEntries :: "admin_world \<Rightarrow> string \<Rightarrow> nat \<Rightarrow> drilldown option \<Rightarrow> (time_page, unit) act" where
  "loadEntries w period page scope =
     (case scope of
        None \<Rightarrow> set_act (tp_entries_update (\<lambda>_. None))
      | Some sc \<Rightarrow>
          finally_act
            (catch_act
              (then_act (set_act (tp_reportLoading_update (\<lambda>_. True)))
                (bind_act (api_get w (aw_api w @ ''/api/admin/time-reports/entries?'' @
                                        params_str (entries_query period page sc)))
                  (\<lambda>j. set_act (tp_entries_update (\<lambda>_. Some j)))))
              (tp_fail ''Unable to load time entries.''))
            (tp_reportLoading_update (\<lambda>_. False)))"

text \<open>\<open>options ? resolveContext(selection, options) : null\<close>.\<close>

definition current_payload :: "(time_page \<Rightarrow> context_selection) \<Rightarrow> time_page \<Rightarrow> context_payload option" where
  "current_payload sel s =
     (case tp_options s of None \<Rightarrow> None | Some options \<Rightarrow> resolveContext (sel s) options)"

definition manual_duration :: "time_page \<Rightarrow> duration" where
  "manual_duration s = hours_and_minutes (number_or_zero (tp_manualHours s)) (number_or_zero (tp_manualMinutes s))"

definition billable_member :: "context_payload \<Rightarrow> bool \<Rightarrow> json" where
  "billable_member p billable = JBool (if cp_internal p then False else billable)"

definition manual_body :: "context_payload \<Rightarrow> time_page \<Rightarrow> json" where
  "manual_body p s = object_of (payload_members p @
     [(''date'', Some (JStr (tp_manualDate s))), (''duration_hours'', Some (JStr (toFixed4 (manual_duration s)))),
      (''description'', Some (JStr (tp_manualDescription s))),
      (''billable'', Some (billable_member p (tp_manualBillable s)))])"

definition start_saving :: "time_page \<Rightarrow> time_page" where
  "start_saving s = s\<lparr>tp_saving := True, tp_error := None\<rparr>"

definition save :: "(time_page, unit) act \<Rightarrow> string \<Rightarrow> (time_page, unit) act" where
  "save m fallback =
     then_act (set_act start_saving)
       (finally_act (catch_act m (tp_fail fallback)) (tp_saving_update (\<lambda>_. False)))"

definition addManualEntry :: "admin_world \<Rightarrow> (time_page, unit) act" where
  "addManualEntry w s =
     (case current_payload tp_manualContext s of
        None \<Rightarrow> (s\<lparr>tp_error := Some ''Select a valid context before recording time.''\<rparr>, Inr ())
      | Some p \<Rightarrow>
          if not_positive (manual_duration s)
          then (s\<lparr>tp_error := Some ''Tracked time must be greater than zero.''\<rparr>, Inr ())
          else save
            (then_act (api_send w ''POST'' (call_url w (TimeEntries Time_create)) (JsonBody (manual_body p s)))
              (set_act (\<lambda>t. t\<lparr>tp_manualHours := ''0'', tp_manualMinutes := ''30'', tp_manualDescription := [],
                              tp_recordingPanel := None, tp_refreshVersion := Suc (tp_refreshVersion t)\<rparr>)))
            ''Unable to record time.'' s)"

definition timer_body :: "context_payload \<Rightarrow> time_page \<Rightarrow> json" where
  "timer_body p s = object_of (payload_members p @
     [(''description'', Some (JStr (tp_timerDescription s))),
      (''billable'', Some (billable_member p (tp_timerBillable s)))])"

definition startTimer :: "admin_world \<Rightarrow> (time_page, unit) act" where
  "startTimer w s =
     (case current_payload tp_timerContext s of
        None \<Rightarrow> (s\<lparr>tp_error := Some ''Select a valid context before starting the timer.''\<rparr>, Inr ())
      | Some p \<Rightarrow> save
          (bind_act (api_send w ''POST'' (call_url w (TimeEntries Timer_start)) (JsonBody (timer_body p s)))
            (\<lambda>started. set_act (\<lambda>t. t\<lparr>tp_timer := json_value started, tp_recordingPanel := None\<rparr>)))
          ''Unable to start timer.'' s)"

definition stopTimer :: "admin_world \<Rightarrow> (time_page, unit) act" where
  "stopTimer w =
     save
       (then_act (api_send w ''POST'' (call_url w (TimeEntries Timer_stop)) (JsonBody (JObj [])))
         (set_act (\<lambda>t. t\<lparr>tp_timer := None, tp_timerDescription := [], tp_refreshVersion := Suc (tp_refreshVersion t)\<rparr>)))
       ''Unable to stop timer.''"

definition cancelTimer :: "admin_world \<Rightarrow> (time_page, unit) act" where
  "cancelTimer w =
     save
       (then_act (api_send w ''POST'' (call_url w (TimeEntries Timer_cancel)) NoBody)
         (set_act (tp_timer_update (\<lambda>_. None))))
       ''Unable to cancel timer.''"

section \<open>Lemmas\<close>

lemma hours_denominator: "hours_and_minutes h m = Hours n d \<Longrightarrow> 0 < d"
  by (cases "(h, m)" rule: hours_and_minutes.cases) (auto split: if_splits)

lemma foldl_zeros: "foldl (\<lambda>n c. n * 10 + digit_val c) 0 (replicate k CHR ''0'') = 0"
  by (induction k) (simp_all add: digit_val_def)

lemma digits_val_pad [simp]: "digits_val (pad_left k (nat_str n)) = n"
  using digits_val_nat_str [of n] by (simp add: digits_val_def pad_left_def foldl_zeros)

lemma pad_left_digits: "c \<in> set (pad_left k (nat_str n)) \<Longrightarrow> is_digit c"
  by (auto simp: pad_left_def is_digit_def dest: nat_str_digits split: if_splits)

lemma hms: "t div 3600 * 3600 + t mod 3600 div 60 * 60 + t mod 60 = t" for t :: nat
proof -
  have "t mod 60 = t mod 3600 mod 60" by (simp add: mod_mod_cancel)
  then show ?thesis by (simp only: add.assoc div_mult_mod_eq)
qed

lemma hms_bounds: "t mod 3600 div 60 < 60" "t mod 60 < 60" for t :: nat
proof -
  show "t mod 3600 div 60 < 60" by (rule less_mult_imp_div_less) simp
qed simp

text \<open>What a request that records time says about billing.\<close>

definition billing_ok :: "request \<Rightarrow> bool" where
  "billing_ok r \<longleftrightarrow> signed_request r \<and>
     (case req_body r of
        JsonBody j \<Rightarrow> jget j ''internal'' = Some (JBool True) \<longrightarrow> jget j ''billable'' = Some (JBool False)
      | _ \<Rightarrow> True)"

lemma body_members:
  "jget (manual_body p s) ''internal'' = Some (JBool (cp_internal p))"
  "jget (manual_body p s) ''billable'' = Some (billable_member p (tp_manualBillable s))"
  "jget (timer_body p s) ''internal'' = Some (JBool (cp_internal p))"
  "jget (timer_body p s) ''billable'' = Some (billable_member p (tp_timerBillable s))"
  by (simp_all add: manual_body_def timer_body_def payload_members_def jget_object_of)

lemma token_request_billing: "billing_ok (token_request w)"
  by (simp add: billing_ok_def)

lemma save_sends: "act_sends P m \<Longrightarrow> act_sends P (save m f)"
  unfolding save_def tp_fail_def by (intro act_sends_intros) (simp_all add: start_saving_def)

lemma addManualEntry_cases:
  "\<exists>m. act_sends billing_ok m \<and> addManualEntry w s = m s"
proof (cases "current_payload tp_manualContext s = None \<or> not_positive (manual_duration s)")
  case True
  let ?e = "\<lambda>m. set_act (\<lambda>s. s\<lparr>tp_error := Some m\<rparr>) :: (time_page, unit) act"
  have "act_sends billing_ok (?e m)" for m by (intro act_sends_intros) simp
  moreover have "\<exists>m. addManualEntry w s = ?e m s"
    using True by (auto simp: addManualEntry_def act_eqs split: option.splits)
  ultimately show ?thesis by blast
next
  case False
  then obtain p where p: "current_payload tp_manualContext s = Some p" by auto
  let ?m = "save (then_act (api_send w ''POST'' (call_url w (TimeEntries Time_create)) (JsonBody (manual_body p s)))
              (set_act (\<lambda>t. t\<lparr>tp_manualHours := ''0'', tp_manualMinutes := ''30'', tp_manualDescription := [],
                              tp_recordingPanel := None, tp_refreshVersion := Suc (tp_refreshVersion t)\<rparr>)))
            ''Unable to record time.''"
  have "act_sends billing_ok ?m"
    by (intro save_sends act_sends_intros act_sends_send)
      (auto simp: token_request_billing billing_ok_def sent_as_def body_members billable_member_def)
  moreover have "addManualEntry w s = ?m s" using False p by (simp add: addManualEntry_def)
  ultimately show ?thesis by blast
qed

lemma startTimer_cases: "\<exists>m. act_sends billing_ok m \<and> startTimer w s = m s"
proof (cases "current_payload tp_timerContext s")
  case None
  let ?m = "set_act (\<lambda>s. s\<lparr>tp_error := Some ''Select a valid context before starting the timer.''\<rparr>)"
  have "act_sends billing_ok ?m" by (intro act_sends_intros) simp
  moreover have "startTimer w s = ?m s" using None by (simp add: startTimer_def act_eqs)
  ultimately show ?thesis by blast
next
  case (Some p)
  let ?m = "save (bind_act (api_send w ''POST'' (call_url w (TimeEntries Timer_start)) (JsonBody (timer_body p s)))
            (\<lambda>started. set_act (\<lambda>t. t\<lparr>tp_timer := json_value started, tp_recordingPanel := None\<rparr>)))
          ''Unable to start timer.''"
  have "act_sends billing_ok ?m"
    by (intro save_sends act_sends_intros act_sends_send)
      (auto simp: token_request_billing billing_ok_def sent_as_def body_members billable_member_def)
  moreover have "startTimer w s = ?m s" using Some by (simp add: startTimer_def)
  ultimately show ?thesis by blast
qed

text \<open>The forms: whatever the server does, saving ends.\<close>

lemma save_idle: "\<not> isl (snd (save m f s)) \<and> \<not> tp_saving (fst (save m f s))"
  by (auto simp: save_def form_simps tp_fail_def intro: catch_isl)

lemma save_form: "(\<And>s. \<not> isl (snd (h s)) \<and> (\<not> tp_saving s \<longrightarrow> \<not> tp_saving (fst (h s)))) \<Longrightarrow> submit_handler h tp_saving"
  by (rule submit_handlerI)

interpretation manual_entry: submit_handler "addManualEntry w" tp_saving
  by (rule save_form) (use save_idle in \<open>auto simp: addManualEntry_def split: option.splits\<close>)

interpretation start_timer: submit_handler "startTimer w" tp_saving
  by (rule save_form) (use save_idle in \<open>auto simp: startTimer_def split: option.splits\<close>)

interpretation stop_timer: submit_handler "stopTimer w" tp_saving
  by (rule save_form) (use save_idle in \<open>auto simp: stopTimer_def\<close>)

interpretation cancel_timer: submit_handler "cancelTimer w" tp_saving
  by (rule save_form) (use save_idle in \<open>auto simp: cancelTimer_def\<close>)

section \<open>Properties\<close>

text \<open>
  C31: internal work is never recorded as billable. Whatever the form holds, the options the
  API answered and the server does, every request that adds an entry or starts a timer is
  signed, and one that says it is internal says that it is not billable; the four forms
  return without an unhandled rejection and can be used again.
\<close>

theorem internal_time_never_billable:
  "act_sends billing_ok (addManualEntry w) \<and> act_sends billing_ok (startTimer w) \<and>
   (if tp_saving s then True
    else list_all (\<lambda>h. snd (h s) = Inr () \<and> \<not> tp_saving (fst (h s)))
           [addManualEntry w, startTimer w, stopTimer w, cancelTimer w])"
  using addManualEntry_cases startTimer_cases
    manual_entry.result manual_entry.idle_after start_timer.result start_timer.idle_after
    stop_timer.result stop_timer.idle_after cancel_timer.result cancel_timer.idle_after
  by (auto intro!: act_sends_apply)

text \<open>
  The elapsed time reads back as the seconds it shows, never negative, with minutes and
  seconds below sixty; and the duration an entry is sent with is the entered one, off by at
  most half a unit of the fourth decimal (0.18 seconds).
\<close>

theorem shown_time_exact:
  "(case map digits_val (split_on CHR '':'' (formatElapsed seconds)) of
      [h, m, s] \<Rightarrow> int (h * 3600 + m * 60 + s) = max 0 seconds \<and> m < 60 \<and> s < 60
    | _ \<Rightarrow> False) \<and>
   (case hours_and_minutes h m of
      Hours n d \<Rightarrow> 0 < d \<and> 2 * \<bar>d * ten_thousandths n d - 10000 * n\<bar> \<le> d
    | _ \<Rightarrow> (\<exists>p. h = Infinity p) \<or> (\<exists>p. m = Infinity p) \<or> h = NaN \<or> m = NaN)"
proof
  let ?t = "nat (max 0 seconds)"
  let ?p = "\<lambda>n. pad_left 2 (nat_str n)"
  have nc: "CHR '':'' \<notin> set (?p n)" for n using pad_left_digits [of "CHR '':''" 2 n] by (auto simp: is_digit_def)
  have s: "split_on CHR '':'' (formatElapsed seconds) = [?p (?t div 3600), ?p (?t mod 3600 div 60), ?p (?t mod 60)]"
    unfolding formatElapsed_def Let_def by (subst split_on_join) (auto simp: nc)
  show "case map digits_val (split_on CHR '':'' (formatElapsed seconds)) of
      [h, m, s] \<Rightarrow> int (h * 3600 + m * 60 + s) = max 0 seconds \<and> m < 60 \<and> s < 60 | _ \<Rightarrow> False"
    unfolding s using hms_bounds [of ?t] by (simp del: of_nat_add of_nat_mult add: hms)
next
  have r: "2 * \<bar>d * ten_thousandths n d - 10000 * n\<bar> \<le> d" if "0 < d" for n d
  proof -
    define q where "q = ten_thousandths n d"
    have "2 * d * q \<le> 20000 * n + d" "20000 * n + d < 2 * d * q + 2 * d"
      using div_bounds [of "2 * d" "20000 * n + d"] that unfolding q_def ten_thousandths_def by simp_all
    moreover define e where "e = d * q"
    moreover have "2 * d * q = 2 * e" by (simp add: e_def)
    ultimately have "2 * e - 20000 * n \<le> d" "20000 * n - 2 * e \<le> d" by linarith+
    then have "2 * \<bar>e - 10000 * n\<bar> \<le> d" by (simp add: abs_if right_diff_distrib)
    then show ?thesis by (simp only: e_def q_def)
  qed
  show "case hours_and_minutes h m of
      Hours n d \<Rightarrow> 0 < d \<and> 2 * \<bar>d * ten_thousandths n d - 10000 * n\<bar> \<le> d
    | _ \<Rightarrow> (\<exists>p. h = Infinity p) \<or> (\<exists>p. m = Infinity p) \<or> h = NaN \<or> m = NaN"
  proof (cases "hours_and_minutes h m")
    case (Hours n d)
    with r hours_denominator show ?thesis by simp
  next
    case Unlimited
    then show ?thesis by (cases "(h, m)" rule: hours_and_minutes.cases) auto
  next
    case Not_a_number
    then show ?thesis by (cases "(h, m)" rule: hours_and_minutes.cases) auto
  qed
qed

end
