(* ===== verification/Admin_Calendar.thy ===== *)
theory Admin_Calendar
  imports Admin_Screens Js_Date
begin

text \<open>
  \<^verbatim>\<open>app/(admin)/admin/calendar/CalendarWorkspace.tsx\<close>: the month grid, which items a
  cell shows, moving between months, and creating an event. A \<^verbatim>\<open>Date\<close> of the grid
  is at noon local time and used for its calendar day only, so it is a day number.

  Reading the text of a date-and-time field in the local time zone and printing it in UTC is
  the platform's: \<open>to_iso\<close>, which throws for a text that is no time. The list of upcoming
  events, which compares times of the present moment, is left out.
\<close>

section \<open>The grid\<close>

text \<open>The \<^verbatim>\<open>Date\<close> constructor takes a year from 0 to 99 for one of the twentieth century.\<close>

definition localDate :: "int \<Rightarrow> int \<Rightarrow> int \<Rightarrow> int" where
  "localDate year month day = MakeDay (if 0 \<le> year \<and> year \<le> 99 then 1900 + year else year) month day"

definition isoDate :: "int \<Rightarrow> string" where
  "isoDate value = iso_text (civil_of value)"

definition addDays :: "int \<Rightarrow> int \<Rightarrow> int" where
  "addDays value days = (case civil_of value of (y, m, d) \<Rightarrow> MakeDay y (int m) (int d + days))"

definition getFullYear :: "int \<Rightarrow> int" where
  "getFullYear n = fst (civil_of n)"

definition getMonth :: "int \<Rightarrow> int" where
  "getMonth n = int (fst (snd (civil_of n)))"

definition monthGrid :: "int \<Rightarrow> int list" where
  "monthGrid anchor =
     (let first = localDate (getFullYear anchor) (getMonth anchor) 1;
          mondayOffset = (getDay first + 6) mod 7;
          start = addDays first (- mondayOffset)
      in map (\<lambda>index. addDays start (int index)) [0..<42])"

definition moveMonth :: "int \<Rightarrow> int \<Rightarrow> int" where
  "moveMonth offset current = localDate (getFullYear current) (getMonth current + offset) 1"

section \<open>Items\<close>

text \<open>\<open>item[k] <= key\<close> and \<open>item[k] >= key\<close> for texts.\<close>

definition date_le :: "json \<Rightarrow> string \<Rightarrow> string \<Rightarrow> bool" where
  "date_le item k key = (case jget item k of Some (JStr s) \<Rightarrow> s \<le> key | _ \<Rightarrow> False)"

definition date_ge :: "json \<Rightarrow> string \<Rightarrow> string \<Rightarrow> bool" where
  "date_ge item k key = (case jget item k of Some (JStr s) \<Rightarrow> s \<ge> key | _ \<Rightarrow> False)"

definition item_on :: "json \<Rightarrow> string \<Rightarrow> bool" where
  "item_on item dateKey \<longleftrightarrow> date_le item ''start_date'' dateKey \<and> date_ge item ''end_date'' dateKey"

definition kind_is :: "json \<Rightarrow> string \<Rightarrow> bool" where
  "kind_is item k \<longleftrightarrow> jget item ''kind'' = Some (JStr k)"

definition visibleItems :: "json option \<Rightarrow> string \<Rightarrow> json list" where
  "visibleItems data filter' =
     (case data of
        None \<Rightarrow> []
      | Some d \<Rightarrow> filter (\<lambda>item. filter' = ''all'' \<or> kind_is item filter') (json_list (jget d ''items'')))"

text \<open>The items of a cell: the first four, and how many more there are.\<close>

definition cell_items :: "json list \<Rightarrow> int \<Rightarrow> json list \<times> nat" where
  "cell_items items day =
     (let shown = filter (\<lambda>item. item_on item (isoDate day)) items in (take 4 shown, length shown - 4))"

definition itemHref :: "json \<Rightarrow> string option" where
  "itemHref item =
     (if kind_is item ''task'' then Some (''/admin/tasks/'' @ js_text (the (jget item ''id'')))
      else if kind_is item ''project'' then Some (''/admin/projects/'' @ js_text (the (jget item ''id'')))
      else None)"

definition itemContext :: "json \<Rightarrow> json" where
  "itemContext item =
     (if kind_is item ''task'' \<and> truthy (jget item ''project_name'') then the (jget item ''project_name'')
      else if kind_is item ''event'' \<and> truthy (jget item ''location'') then the (jget item ''location'')
      else if truthy (jget item ''client_name'') then the (jget item ''client_name'')
      else JStr ''ADB Internal'')"

definition itemPrefix :: "json \<Rightarrow> string" where
  "itemPrefix item = (if kind_is item ''project'' then ''P'' else if kind_is item ''event'' then ''E'' else ''T'')"

section \<open>State and handlers\<close>

record calendar_page = net +
  cal_anchor :: int
  cal_filter :: string
  cal_data :: "json option"
  cal_loading :: bool
  cal_error :: "string option"
  cal_showCreate :: bool
  cal_creating :: bool
  ev_title :: string
  ev_type :: string
  ev_start :: string
  ev_end :: string
  ev_location :: string
  ev_meetingUrl :: string

definition calendar_query :: "int \<Rightarrow> params" where
  "calendar_query anchor =
     (let days = monthGrid anchor
      in [(''date_from'', isoDate (hd days)), (''date_to'', isoDate (last days))])"

definition cal_load :: "admin_world \<Rightarrow> (calendar_page, unit) act" where
  "cal_load w s =
     finally_act
       (catch_act
         (then_act (set_act (\<lambda>s. s\<lparr>cal_loading := True, cal_error := None\<rparr>))
           (bind_act (api_get w (aw_api w @ ''/api/admin/calendar?'' @ params_str (calendar_query (cal_anchor s))))
             (\<lambda>j. set_act (cal_data_update (\<lambda>_. Some j)))))
         (\<lambda>e. set_act (cal_error_update (\<lambda>_. Some (message_of ''Unable to load the calendar.'' e)))))
       (cal_loading_update (\<lambda>_. False)) s"

definition event_body :: "calendar_page \<Rightarrow> string \<Rightarrow> string \<Rightarrow> json" where
  "event_body s starts ends =
     JObj [(''ownership_type'', JStr ''internal''), (''title'', JStr (trim (ev_title s))),
       (''event_type'', JStr (ev_type s)), (''starts_at'', JStr starts), (''ends_at'', JStr ends),
       (''location'', JStr (trim (ev_location s))), (''meeting_url'', JStr (trim (ev_meetingUrl s)))]"

definition createEvent :: "(string \<Rightarrow> string result) \<Rightarrow> admin_world \<Rightarrow> (calendar_page, unit) act" where
  "createEvent to_iso w s =
     (if trim (ev_title s) = [] \<or> ev_start s = [] \<or> ev_end s = [] then (s, Inr ())
      else finally_act
        (catch_act
          (then_act (set_act (\<lambda>s. s\<lparr>cal_creating := True, cal_error := None\<rparr>))
            (bind_act (lift_act (to_iso (ev_start s))) (\<lambda>starts.
               bind_act (lift_act (to_iso (ev_end s))) (\<lambda>ends.
                 then_act (api_send w ''POST'' (aw_api w @ ''/api/admin/calendar/events'') (JsonBody (event_body s starts ends)))
                   (then_act (set_act (\<lambda>t. t\<lparr>ev_title := [], ev_start := [], ev_end := [], ev_location := [],
                                             ev_meetingUrl := [], cal_showCreate := False\<rparr>))
                     (cal_load w))))))
          (\<lambda>e. set_act (cal_error_update (\<lambda>_. Some (message_of ''Unable to create the Event.'' e)))))
        (cal_creating_update (\<lambda>_. False)) s)"

section \<open>Lemmas\<close>

lemma addDays_plus [simp]: "addDays n k = n + k"
proof -
  obtain y m d where c: "civil_of n = (y, m, d)" by (cases "civil_of n")
  have v: "valid_civil (y, m, d)" using civil_of_valid [of n] c by simp
  have "day_of (y, m, d) = n" using day_of_civil_of [of n] c by simp
  moreover have "MakeDay y (int m) (int d + k) = MakeDay y (int m) (int d) + k" by (simp add: MakeDay_def)
  ultimately show ?thesis using MakeDay_valid [OF v] by (simp add: addDays_def c)
qed

definition month_start :: "int \<Rightarrow> int" where
  "month_start anchor = localDate (getFullYear anchor) (getMonth anchor) 1"

lemma monthGrid_eq:
  "monthGrid a = map (\<lambda>i. month_start a - (getDay (month_start a) + 6) mod 7 + int i) [0..<42]"
  by (simp add: monthGrid_def month_start_def Let_def)

lemma getDay_minus: "getDay (n - (getDay n + 6) mod 7) = 1"
proof -
  define k where "k = n + 4"
  define r where "r = (k mod 7 + 6) mod 7"
  have "r = (k + 6) mod 7" by (simp add: r_def mod_add_left_eq)
  then have "(k - r) mod 7 = (k - (k + 6)) mod 7" by (simp add: mod_diff_right_eq)
  then have "(n - r + 4) mod 7 = 1" by (simp add: k_def algebra_simps)
  then show ?thesis by (simp add: getDay_def r_def k_def)
qed

lemma month_day: "1 \<le> d \<Longrightarrow> MakeDay y m d = MakeDay y m 1 + (d - 1)"
  by (simp add: MakeDay_def)

text \<open>Moving between months: the first day of the month that many months away.\<close>

lemma civil_of_first: "civil_of (MakeDay y m 1) = (y + m div 12, nat (m mod 12), 1)"
  using civil_of_day_of [OF first_of_month_valid [of y m]] by (simp add: MakeDay_def)

lemma moveMonth_index:
  assumes "100 \<le> getFullYear a"
  shows "12 * getFullYear (moveMonth k a) + getMonth (moveMonth k a) = 12 * getFullYear a + getMonth a + k"
proof -
  define m where "m = getMonth a + k"
  have "12 * (m div 12) + m mod 12 = m" by (rule mult_div_mod_eq)
  moreover have "0 \<le> m mod 12" by simp
  ultimately show ?thesis using assms
    by (simp add: moveMonth_def localDate_def getFullYear_def [of "MakeDay _ _ _"] getMonth_def [of "MakeDay _ _ _"]
        civil_of_first m_def [symmetric] distrib_left)
qed

lemma moveMonth_first: "snd (snd (civil_of (moveMonth k a))) = 1"
  by (simp add: moveMonth_def localDate_def civil_of_first)

lemma iso_le:
  assumes "valid_civil a" "year4 a" and "year4 (civil_of n)"
  shows "iso_text a \<le> isoDate n \<longleftrightarrow> day_of a \<le> n" and "isoDate n \<le> iso_text a \<longleftrightarrow> n \<le> day_of a"
proof -
  have c: "a = civil_of (day_of a)" using assms(1) by simp
  have 1: "iso_text a < isoDate n \<longleftrightarrow> day_of a < n"
    unfolding isoDate_def by (subst iso_text_less [OF assms(1,2) civil_of_valid assms(3)], subst c) (simp add: civil_less_iff)
  have 2: "isoDate n < iso_text a \<longleftrightarrow> n < day_of a"
    unfolding isoDate_def using civil_less_iff [of n "day_of a"] c iso_text_less [OF civil_of_valid assms(3) assms(1,2)] by simp
  show "iso_text a \<le> isoDate n \<longleftrightarrow> day_of a \<le> n" using 2 by (metis not_less)
  show "isoDate n \<le> iso_text a \<longleftrightarrow> n \<le> day_of a" using 1 by (metis not_less)
qed

lemma cal_load_result:
  "snd (cal_load w s) = Inr () \<and> cal_creating (fst (cal_load w s)) = cal_creating s"
  by (auto simp: cal_load_def finally_act_def catch_act_def then_act_def bind_act_def set_act_def api_get_def io_act_run
      split: prod.splits sum.splits)

interpretation event_form: submit_handler "createEvent to_iso w" cal_creating
  by (rule submit_handlerI) (auto simp: createEvent_def form_simps intro!: catch_isl)

interpretation calendar_view: submit_handler "cal_load w" cal_loading
  by (rule submit_handlerI) (auto simp: cal_load_def form_simps intro!: catch_isl)

section \<open>Properties\<close>

text \<open>
  C38: for every date of the year 100 or later the grid shows 42 consecutive days that begin on a Monday and contain
  every day of the date's month; moving by any number of months lands on the first day of the
  month that many months away.
\<close>

theorem calendar_grid_covers_month:
  assumes "100 \<le> getFullYear a"
  shows "(case civil_of a of (y, m, d) \<Rightarrow>
      list_all (\<lambda>k. day_of (y, m, k) \<in> set (monthGrid a)) [1..<Suc (months y ! m)]) \<and>
   monthGrid a = map (\<lambda>i. hd (monthGrid a) + int i) [0..<42] \<and> getDay (hd (monthGrid a)) = 1 \<and>
   snd (snd (civil_of (moveMonth k a))) = 1 \<and>
   12 * getFullYear (moveMonth k a) + getMonth (moveMonth k a) = 12 * getFullYear a + getMonth a + k"
proof (intro conjI)
  let ?o = "(getDay (month_start a) + 6) mod 7"
  have o: "0 \<le> ?o" "?o \<le> 6" using pos_mod_bound [of 7 "getDay (month_start a) + 6"] by simp_all
  have h: "hd (monthGrid a) = month_start a - ?o" by (simp add: monthGrid_eq hd_map)
  show "monthGrid a = map (\<lambda>i. hd (monthGrid a) + int i) [0..<42]" unfolding h by (rule monthGrid_eq)
  show "getDay (hd (monthGrid a)) = 1" by (simp add: h getDay_minus)
  show "case civil_of a of (y, m, d) \<Rightarrow> list_all (\<lambda>k. day_of (y, m, k) \<in> set (monthGrid a)) [1..<Suc (months y ! m)]"
  proof (cases "civil_of a")
    case (fields y m d)
    then have v: "m < 12" using civil_of_valid [of a] by (simp add: valid_civil_def)
    have s: "month_start a = day_of (y, m, 1)"
      using fields v assms MakeDay_valid [of y m 1] months_pos [OF v, of y]
      by (simp add: month_start_def localDate_def getFullYear_def getMonth_def valid_civil_def)
    have "day_of (y, m, k) \<in> set (monthGrid a)" if "1 \<le> k" "k \<le> months y ! m" for k
    proof -
      have "k \<le> 31" using that months_pos [OF v, of y] by simp
      have "day_of (y, m, k) = month_start a - ?o + int (nat ?o + (k - 1))"
        using s o that(1) by (simp add: day_of_def)
      moreover have "nat ?o + (k - 1) < 42" using o \<open>k \<le> 31\<close> by linarith
      ultimately show ?thesis
        using o by (auto simp: monthGrid_eq image_iff intro!: bexI [of _ "nat ?o + (k - 1)"])
    qed
    then have "list_all (\<lambda>k. day_of (y, m, k) \<in> set (monthGrid a)) [1..<Suc (months y ! m)]"
      unfolding list_all_iff by (metis One_nat_def atLeastLessThanSuc_atLeastAtMost atLeastAtMost_iff set_upt)
    with fields show ?thesis by simp
  qed
qed (simp_all add: moveMonth_first moveMonth_index [OF assms])

theorem calendar_grid_covers_month_witness:
  "getFullYear 19782 = 2024 \<and> getDay (hd (monthGrid 19782)) = 1 \<and>
   12 * getFullYear (moveMonth (- 2) 19782) + getMonth (moveMonth (- 2) 19782) = 12 * 2023 + 11"
proof -
  have y: "getFullYear 19782 = 2024" "getMonth 19782 = 1" by code_simp+
  show ?thesis using calendar_grid_covers_month [of 19782 "- 2"] by (simp add: y)
qed

text \<open>
  The comparison of texts that decides which cells show an item agrees with the calendar:
  an item that runs from one date to another is shown exactly on the days in between.
\<close>

theorem cell_shows_running_items:
  assumes "valid_civil a" "year4 a" and "valid_civil b" "year4 b" and "year4 (civil_of n)"
    and "jget item ''start_date'' = Some (JStr (iso_text a))" and "jget item ''end_date'' = Some (JStr (iso_text b))"
  shows "item_on item (isoDate n) = (day_of a \<le> n \<and> n \<le> day_of b)"
  using assms(6,7) iso_le(1) [OF assms(1,2,5)] iso_le(2) [OF assms(3,4,5)]
  by (simp add: item_on_def date_le_def date_ge_def)

definition demo_item :: json where
  "demo_item = JObj [(''start_date'', JStr ''2024-02-28''), (''end_date'', JStr ''2024-03-01'')]"

lemma demo_dates:
  "iso_text (2024, Suc 0, 28) = ''2024-02-28''" "iso_text (2024, 2, Suc 0) = ''2024-03-01''"
  "civil_of 19782 = (2024, 1, 29)" "civil_of 19784 = (2024, 2, 2)"
  "day_of (2024, Suc 0, 28) = 19781" "day_of (2024, 2, Suc 0) = 19783"
  "valid_civil (2024, Suc 0, 28)" "valid_civil (2024, 2, Suc 0)"
  by code_simp+

theorem cell_shows_running_items_witness:
  "item_on demo_item (isoDate 19782) \<and> \<not> item_on demo_item (isoDate 19784)"
  using cell_shows_running_items [of "(2024, 1, 28)" "(2024, 2, 1)" 19782 demo_item]
    cell_shows_running_items [of "(2024, 1, 28)" "(2024, 2, 1)" 19784 demo_item]
  by (simp add: demo_dates year4_def demo_item_def)

end
