(* ===== verification/Admin_Ordering.thy ===== *)
theory Admin_Ordering
  imports Admin_Screens Js_Number Complex_Main "HOL-Library.Multiset"
begin

text \<open>
  Reordering by drag and drop: the workflow columns of a task list
  (\<^verbatim>\<open>task-lists/[id]/TaskListSectionManager.tsx\<close>) and its tasks
  (\<^verbatim>\<open>task-lists/[id]/TaskListWorkspaceView.tsx\<close>). The browser names the neighbours
  between which the dragged item was dropped; the server gives the item an order key between
  theirs and lists by order key. The answers of the API have the members and types the code
  casts them to.
\<close>

section \<open>Answers\<close>

definition json_int :: "json option \<Rightarrow> int" where
  "json_int j = (case j of Some (JNum n) \<Rightarrow> n | _ \<Rightarrow> 0)"

definition json_text :: "json option \<Rightarrow> string" where
  "json_text j = (case j of Some (JStr s) \<Rightarrow> s | _ \<Rightarrow> [])"

definition json_true :: "json option \<Rightarrow> bool" where
  "json_true j \<longleftrightarrow> j = Some (JBool True)"

record column =
  sec_id :: int
  sec_name :: string

definition read_section :: "json \<Rightarrow> column" where
  "read_section j = \<lparr>sec_id = json_int (jget j ''id''), sec_name = json_text (jget j ''name'')\<rparr>"

definition read_sections :: "json \<Rightarrow> column list" where
  "read_sections data = map read_section (json_list (jget data ''sections''))"

section \<open>Neighbours\<close>

fun findIndex :: "('a \<Rightarrow> bool) \<Rightarrow> 'a list \<Rightarrow> nat option" where
  "findIndex p [] = None"
| "findIndex p (x # xs) = (if p x then Some 0 else map_option Suc (findIndex p xs))"

definition remaining :: "('a \<Rightarrow> int) \<Rightarrow> 'a list \<Rightarrow> number \<Rightarrow> 'a list" where
  "remaining ident xs dragged = filter (\<lambda>x. Dec (ident x) 0 \<noteq> dragged) xs"

text \<open>The item before the target, and the last item, when the dragged one is taken out.\<close>

definition previous_id :: "('a \<Rightarrow> int) \<Rightarrow> 'a list \<Rightarrow> number \<Rightarrow> int \<Rightarrow> int option" where
  "previous_id ident xs dragged target =
     (case findIndex (\<lambda>x. ident x = target) (remaining ident xs dragged) of
        Some (Suc i) \<Rightarrow> Some (ident (remaining ident xs dragged ! i))
      | _ \<Rightarrow> None)"

definition last_id :: "('a \<Rightarrow> int) \<Rightarrow> 'a list \<Rightarrow> number \<Rightarrow> int option" where
  "last_id ident xs dragged =
     (if remaining ident xs dragged = [] then None else Some (ident (last (remaining ident xs dragged))))"

definition id_json :: "int option \<Rightarrow> json" where
  "id_json i = (case i of None \<Rightarrow> JNull | Some n \<Rightarrow> JNum n)"

section \<open>The columns of a task list\<close>

record section_page = net +
  sm_sections :: "column list"
  sm_names :: "int \<Rightarrow> string option"
  sm_canChange :: bool
  sm_draggedId :: "int option"
  sm_savingId :: "int option"
  sm_error :: "string option"
  sm_changed :: nat

definition sections_url :: "admin_world \<Rightarrow> int \<Rightarrow> string" where
  "sections_url w taskListId = call_url w (TaskLists (Lists_sections taskListId))"

definition sm_load :: "admin_world \<Rightarrow> int \<Rightarrow> (section_page, unit) act" where
  "sm_load w taskListId =
     catch_act
       (then_act (set_act (sm_error_update (\<lambda>_. None)))
         (bind_act (api_get w (call_url w (TaskLists (Lists_workspace taskListId)))) (\<lambda>j.
            bind_act (lift_act (non_null j)) (\<lambda>data.
              set_act (\<lambda>s. s\<lparr>sm_sections := read_sections data,
                             sm_names := map_of (map (\<lambda>c. (sec_id c, sec_name c)) (rev (read_sections data))),
                             sm_canChange := json_true (jget data ''can_change'')\<rparr>)))))
       (\<lambda>e. set_act (sm_error_update (\<lambda>_. Some (message_of ''Unable to load workflow columns.'' e))))"

text \<open>\<open>sm_changed\<close> counts the calls of \<^verbatim>\<open>onChanged\<close>.\<close>

definition sm_rename :: "admin_world \<Rightarrow> int \<Rightarrow> column \<Rightarrow> (section_page, unit) act" where
  "sm_rename w taskListId column s =
     (let name = (case sm_names s (sec_id column) of None \<Rightarrow> [] | Some n \<Rightarrow> trim n)
      in if name = [] then (s\<lparr>sm_names := (sm_names s)(sec_id column \<mapsto> sec_name column)\<rparr>, Inr ())
         else if name = sec_name column then (s, Inr ())
         else then_act (set_act (\<lambda>s. s\<lparr>sm_savingId := Some (sec_id column), sm_error := None\<rparr>))
           (finally_act
             (catch_act
               (then_act (api_send w ''PATCH'' (sections_url w taskListId @ ''/'' @ int_str (sec_id column))
                            (JsonBody (JObj [(''name'', JStr name)])))
                 (then_act (sm_load w taskListId) (set_act (sm_changed_update Suc))))
               (\<lambda>e. set_act (\<lambda>t. t\<lparr>sm_error := Some (message_of ''Unable to rename section.'' e),
                                  sm_names := (sm_names t)(sec_id column \<mapsto> sec_name column)\<rparr>)))
             (sm_savingId_update (\<lambda>_. None))) s)"

definition sm_move_body :: "int option \<Rightarrow> int option \<Rightarrow> json" where
  "sm_move_body before after = JObj [(''before_section_id'', id_json before), (''after_section_id'', id_json after)]"

definition sm_move :: "admin_world \<Rightarrow> int \<Rightarrow> int \<Rightarrow> int option \<Rightarrow> int option \<Rightarrow> (section_page, unit) act" where
  "sm_move w taskListId sectionId before after =
     then_act (set_act (\<lambda>s. s\<lparr>sm_savingId := Some sectionId, sm_error := None\<rparr>))
       (finally_act
         (catch_act
           (then_act (api_send w ''POST'' (sections_url w taskListId @ ''/'' @ int_str sectionId @ ''/move'')
                        (JsonBody (sm_move_body before after)))
             (then_act (sm_load w taskListId) (set_act (sm_changed_update Suc))))
           (\<lambda>e. set_act (sm_error_update (\<lambda>_. Some (message_of ''Unable to reorder sections.'' e)))))
         (\<lambda>s. s\<lparr>sm_savingId := None, sm_draggedId := None\<rparr>))"

definition sm_dropBefore :: "admin_world \<Rightarrow> int \<Rightarrow> int \<Rightarrow> (section_page, unit) act" where
  "sm_dropBefore w taskListId targetId s =
     (case sm_draggedId s of
        None \<Rightarrow> (s, Inr ())
      | Some d \<Rightarrow>
          if d = 0 \<or> d = targetId then (s, Inr ())
          else sm_move w taskListId d (previous_id sec_id (sm_sections s) (Dec d 0) targetId) (Some targetId) s)"

definition sm_dropAtEnd :: "admin_world \<Rightarrow> int \<Rightarrow> (section_page, unit) act" where
  "sm_dropAtEnd w taskListId s =
     (case sm_draggedId s of
        None \<Rightarrow> (s, Inr ())
      | Some d \<Rightarrow>
          if d = 0 then (s, Inr ())
          else sm_move w taskListId d (last_id sec_id (sm_sections s) (Dec d 0)) None s)"

section \<open>The tasks of a task list\<close>

record task_row =
  tk_id :: int
  tk_start :: "string option"
  tk_due :: "string option"

definition json_date :: "json option \<Rightarrow> string option" where
  "json_date j = (case j of Some (JStr s) \<Rightarrow> Some s | _ \<Rightarrow> None)"

definition read_task :: "json \<Rightarrow> task_row" where
  "read_task j = \<lparr>tk_id = json_int (jget j ''id''), tk_start = json_date (jget j ''start_date''),
     tk_due = json_date (jget j ''due_date'')\<rparr>"

record task_workspace =
  tw_id :: int
  tw_sections :: "(int \<times> task_row list) list"
  tw_unsectioned :: "task_row list"
  tw_can_change_task :: bool

definition read_workspace :: "json \<Rightarrow> task_workspace" where
  "read_workspace data =
     \<lparr>tw_id = json_int (jget data ''id''),
      tw_sections = map (\<lambda>j. (json_int (jget j ''id''), map read_task (json_list (jget j ''tasks''))))
        (json_list (jget data ''sections'')),
      tw_unsectioned = map read_task (json_list (jget data ''unsectioned_tasks'')),
      tw_can_change_task = json_true (jget data ''can_change_task'')\<rparr>"

definition allTopLevelTasks :: "task_workspace \<Rightarrow> task_row list" where
  "allTopLevelTasks workspace = tw_unsectioned workspace @ concat (map snd (tw_sections workspace))"

datatype view_mode = View_list | View_board | View_timeline

fun view_text :: "view_mode \<Rightarrow> string" where
  "view_text View_list = ''list''"
| "view_text View_board = ''board''"
| "view_text View_timeline = ''timeline''"

record list_page = net +
  lp_workspace :: "task_workspace option"
  lp_view :: view_mode
  lp_dragged :: "int option"
  lp_newSection :: string
  lp_creating :: bool
  lp_loading :: bool
  lp_error :: "string option"
  lp_storage :: "string \<Rightarrow> string option"

definition lp_fail :: "string \<Rightarrow> js_throw \<Rightarrow> (list_page, unit) act" where
  "lp_fail fallback e = set_act (lp_error_update (\<lambda>_. Some (message_of fallback e)))"

definition lp_load :: "admin_world \<Rightarrow> int \<Rightarrow> (list_page, unit) act" where
  "lp_load w taskListId =
     finally_act
       (catch_act
         (then_act (set_act (\<lambda>s. s\<lparr>lp_loading := True, lp_error := None\<rparr>))
           (bind_act (api_get w (call_url w (TaskLists (Lists_workspace taskListId)))) (\<lambda>j.
              set_act (lp_workspace_update (\<lambda>_. if j = JNull then None else Some (read_workspace j))))))
         (lp_fail ''Unable to load task list.''))
       (lp_loading_update (\<lambda>_. False))"

definition view_key :: "int \<Rightarrow> string" where
  "view_key taskListId = ''task-list-view:'' @ int_str taskListId"

definition restore_view :: "int \<Rightarrow> list_page \<Rightarrow> list_page" where
  "restore_view taskListId s =
     (let stored = lp_storage s (view_key taskListId)
      in if stored = Some ''list'' then s\<lparr>lp_view := View_list\<rparr>
         else if stored = Some ''board'' then s\<lparr>lp_view := View_board\<rparr>
         else if stored = Some ''timeline'' then s\<lparr>lp_view := View_timeline\<rparr>
         else s)"

definition changeView :: "int \<Rightarrow> view_mode \<Rightarrow> list_page \<Rightarrow> list_page" where
  "changeView taskListId v s =
     s\<lparr>lp_view := v, lp_storage := (lp_storage s)(view_key taskListId \<mapsto> view_text v)\<rparr>"

definition createSection :: "admin_world \<Rightarrow> int \<Rightarrow> (list_page, unit) act" where
  "createSection w taskListId s =
     (if trim (lp_newSection s) = [] then (s, Inr ())
      else then_act (set_act (lp_creating_update (\<lambda>_. True)))
        (finally_act
          (catch_act
            (then_act (api_send w ''POST'' (sections_url w taskListId)
                         (JsonBody (JObj [(''name'', JStr (trim (lp_newSection s)))])))
              (then_act (set_act (lp_newSection_update (\<lambda>_. []))) (lp_load w taskListId)))
            (lp_fail ''Unable to add section.''))
          (lp_creating_update (\<lambda>_. False))) s)"

definition move_task_body :: "int \<Rightarrow> int option \<Rightarrow> int option \<Rightarrow> int option \<Rightarrow> json" where
  "move_task_body listId sectionId before after =
     JObj [(''task_list_id'', JNum listId), (''section_id'', id_json sectionId),
       (''before_task_id'', id_json before), (''after_task_id'', id_json after)]"

text \<open>The address of the move: for a whole number the one of \<^verbatim>\<open>AdminAPI.tasks.move\<close>.\<close>

definition task_move_url :: "admin_world \<Rightarrow> number \<Rightarrow> string" where
  "task_move_url w n = endpoint_url (aw_api w) (adm [''task-workspaces'', ''tasks'', number_str n, ''move''])"

lemma task_move_url_int: "task_move_url w (Dec i 0) = call_url w (Tasks (Tasks_move i))"
  by (simp add: task_move_url_def call_url_def)

definition moveTask ::
  "admin_world \<Rightarrow> int \<Rightarrow> number \<Rightarrow> int option \<Rightarrow> int option \<Rightarrow> int option \<Rightarrow> (list_page, unit) act" where
  "moveTask w taskListId taskId sectionId before after s =
     (case lp_workspace s of
        None \<Rightarrow> (s, Inr ())
      | Some workspace \<Rightarrow>
          if \<not> tw_can_change_task workspace then (s, Inr ())
          else finally_act
            (catch_act
              (then_act (api_send w ''POST'' (task_move_url w taskId)
                           (JsonBody (move_task_body (tw_id workspace) sectionId before after)))
                (lp_load w taskListId))
              (lp_fail ''Unable to move task.''))
            (lp_dragged_update (\<lambda>_. None)) s)"

text \<open>A drag puts the task's id into the drag data; \<open>data\<close> is what a drop reads there.\<close>

definition handleDragStart :: "int \<Rightarrow> list_page \<Rightarrow> list_page \<times> string option" where
  "handleDragStart taskId s =
     (case lp_workspace s of
        Some workspace \<Rightarrow>
          if tw_can_change_task workspace then (s\<lparr>lp_dragged := Some taskId\<rparr>, Some (int_str taskId)) else (s, None)
      | None \<Rightarrow> (s, None))"

definition taskIdFromDrop :: "string \<Rightarrow> int option \<Rightarrow> number" where
  "taskIdFromDrop data dragged =
     (if data \<noteq> [] then js_Number data else case dragged of Some i \<Rightarrow> Dec i 0 | None \<Rightarrow> Dec 0 0)"

definition falsy_number :: "number \<Rightarrow> bool" where
  "falsy_number n \<longleftrightarrow> n = NaN \<or> n = Dec 0 0"

definition may_change :: "list_page \<Rightarrow> bool" where
  "may_change s = (case lp_workspace s of None \<Rightarrow> False | Some workspace \<Rightarrow> tw_can_change_task workspace)"

definition lp_dropAtEnd :: "admin_world \<Rightarrow> int \<Rightarrow> string \<Rightarrow> int option \<Rightarrow> task_row list \<Rightarrow> (list_page, unit) act" where
  "lp_dropAtEnd w taskListId data sectionId tasks s =
     (let taskId = taskIdFromDrop data (lp_dragged s)
      in if \<not> may_change s \<or> falsy_number taskId then (s, Inr ())
         else moveTask w taskListId taskId sectionId (last_id tk_id tasks taskId) None s)"

definition lp_dropBefore ::
  "admin_world \<Rightarrow> int \<Rightarrow> string \<Rightarrow> int option \<Rightarrow> task_row list \<Rightarrow> int \<Rightarrow> (list_page, unit) act" where
  "lp_dropBefore w taskListId data sectionId tasks targetId s =
     (let taskId = taskIdFromDrop data (lp_dragged s)
      in if \<not> may_change s \<or> falsy_number taskId \<or> taskId = Dec targetId 0 then (s, Inr ())
         else moveTask w taskListId taskId sectionId (previous_id tk_id tasks taskId targetId) (Some targetId) s)"

section \<open>Adding a task\<close>

record quick_add = net +
  qa_title :: string
  qa_saving :: bool

text \<open>\<^verbatim>\<open>QuickAdd\<close> leaves a failure to its caller: there is no \<^verbatim>\<open>catch\<close>.\<close>

definition quick_submit :: "admin_world \<Rightarrow> int \<Rightarrow> int option \<Rightarrow> (quick_add, unit) act \<Rightarrow> (quick_add, unit) act" where
  "quick_submit w taskListId sectionId onCreated s =
     (if trim (qa_title s) = [] then (s, Inr ())
      else then_act (set_act (qa_saving_update (\<lambda>_. True)))
        (finally_act
          (then_act (api_send w ''POST'' (call_url w (TaskLists (Lists_quickTask taskListId)))
                       (JsonBody (JObj [(''title'', JStr (trim (qa_title s))), (''section_id'', id_json sectionId)])))
            (then_act (set_act (qa_title_update (\<lambda>_. []))) onCreated))
          (qa_saving_update (\<lambda>_. False))) s)"

section \<open>Order keys\<close>

text \<open>
  What the server does with a move: the item gets an order key, and the list is read by order
  key. A board is a list of ids with their keys.
\<close>

type_synonym board = "(int \<times> rat) list"

definition ordered :: "board \<Rightarrow> bool" where
  "ordered b \<longleftrightarrow> sorted_wrt (<) (map snd b) \<and> distinct (map fst b)"

text \<open>The dragged item gets the key \<open>k\<close>, wherever it was before.\<close>

definition place :: "int \<Rightarrow> rat \<Rightarrow> board \<Rightarrow> board" where
  "place d k b = (d, k) # filter (\<lambda>p. fst p \<noteq> d) b"

definition shown :: "board \<Rightarrow> int list" where
  "shown b = map fst (sort_key snd b)"

definition between :: "board \<Rightarrow> int option \<Rightarrow> int option \<Rightarrow> rat \<Rightarrow> bool" where
  "between b before after k \<longleftrightarrow>
     list_all (\<lambda>(i, x). (before = Some i \<longrightarrow> x < k) \<and> (after = Some i \<longrightarrow> k < x)) b"

text \<open>The reference: the dragged item right before the target, or at the end.\<close>

definition moved_before :: "int \<Rightarrow> int \<Rightarrow> int list \<Rightarrow> int list" where
  "moved_before d target ids = concat (map (\<lambda>i. if i = target then [d, i] else [i]) (removeAll d ids))"

definition moved_to_end :: "int \<Rightarrow> int list \<Rightarrow> int list" where
  "moved_to_end d ids = removeAll d ids @ [d]"

lemma findIndex_split:
  "findIndex p xs = Some n \<Longrightarrow> n < length xs \<and> p (xs ! n) \<and> list_all (\<lambda>x. \<not> p x) (take n xs)"
proof (induction xs arbitrary: n)
  case Nil
  then show ?case by simp
next
  case (Cons x xs)
  then show ?case by (cases n) (auto split: if_splits)
qed

lemma findIndex_None: "findIndex p xs = None \<longleftrightarrow> list_all (\<lambda>x. \<not> p x) xs"
  by (induction xs) auto

lemma remaining_ids: "map ident (remaining ident xs (Dec d 0)) = removeAll d (map ident xs)"
  by (induction xs) (auto simp: remaining_def)

lemma previous_id_split:
  assumes ids: "removeAll d (map ident xs) = A @ target # B" and new: "target \<notin> set A"
  shows "previous_id ident xs (Dec d 0) target = (if A = [] then None else Some (last A))"
proof -
  let ?r = "remaining ident xs (Dec d 0)"
  have r: "map ident ?r = A @ target # B" by (simp add: remaining_ids ids)
  have l: "length A < length ?r" using arg_cong [OF r, of length] by simp
  have "\<exists>n. findIndex (\<lambda>x. ident x = target) ?r = Some n"
  proof (rule ccontr)
    assume "\<not> ?thesis"
    then have "list_all (\<lambda>x. ident x \<noteq> target) ?r" by (simp add: findIndex_None [symmetric])
    then have "target \<notin> set (map ident ?r)" by (auto simp: list_all_iff)
    with r show False by simp
  qed
  then obtain n where n: "findIndex (\<lambda>x. ident x = target) ?r = Some n" by blast
  have nl: "n < length ?r" and nt: "ident (?r ! n) = target" and nb: "list_all (\<lambda>x. ident x \<noteq> target) (take n ?r)"
    using findIndex_split [OF n] by auto
  have at: "map ident ?r ! n = target" using nl nt by simp
  have "n = length A"
  proof (cases n "length A" rule: linorder_cases)
    case less
    then have "A ! n = target" using at r by (simp add: nth_append)
    with less new show ?thesis by (metis nth_mem)
  next
    case greater
    have "ident (?r ! length A) = target" using l r by (metis nth_append_length nth_map)
    moreover have "?r ! length A \<in> set (take n ?r)" using greater nl by (metis in_set_conv_nth length_take min.absorb4 nth_take)
    ultimately show ?thesis using nb by (auto simp: list_all_iff)
  qed
  moreover have "ident (?r ! m) = A ! m" if "m < length A" for m
  proof -
    have "map ident ?r ! m = A ! m" using r that by (simp add: nth_append)
    then show ?thesis using that l by simp
  qed
  ultimately show ?thesis
    using n by (cases A rule: rev_cases) (auto simp: previous_id_def split: nat.splits)
qed

lemma last_id_split: "last_id ident xs (Dec d 0) = (if removeAll d (map ident xs) = [] then None else Some (last (removeAll d (map ident xs))))"
  unfolding remaining_ids [symmetric] last_id_def by (simp add: last_map)

text \<open>A list with strictly increasing keys is the only one that sorts to itself.\<close>

lemma shown_unique:
  assumes "mset b = mset c" and "sorted_wrt (<) (map snd c)"
  shows "shown b = map fst c"
proof -
  have d: "distinct (map snd c)" using assms(2) by (simp add: strict_sorted_iff)
  have i: "inj_on snd (set b)" using d assms(1) by (metis distinct_map mset_eq_setD)
  have s: "sorted (map snd c)" using assms(2) by (simp add: strict_sorted_iff)
  have "sort_key snd b = c" using sort_key_inj_key_eq [OF assms(1) i s] .
  then show ?thesis by (simp add: shown_def)
qed

lemma shown_place:
  assumes o: "ordered b" and r: "filter (\<lambda>p. fst p \<noteq> d) b = A @ B"
    and lo: "A \<noteq> [] \<Longrightarrow> snd (last A) < k" and hi: "B \<noteq> [] \<Longrightarrow> k < snd (hd B)"
  shows "shown (place d k b) = map fst A @ d # map fst B"
proof -
  have "sorted_wrt (<) (map snd (A @ B))"
    unfolding r [symmetric] using o by (simp add: ordered_def sorted_wrt_map sorted_wrt_filter)
  then have s: "sorted_wrt (<) (map snd A)" "sorted_wrt (<) (map snd B)" by (simp_all add: sorted_wrt_append)
  have a: "x < k" if "x \<in> set (map snd A)" for x
  proof (cases A rule: rev_cases)
    case Nil
    with that show ?thesis by simp
  next
    case (snoc A' p)
    with that s(1) lo show ?thesis by (auto simp: sorted_wrt_append)
  qed
  have c: "k < x" if "x \<in> set (map snd B)" for x
  proof (cases B)
    case Nil
    with that show ?thesis by simp
  next
    case (Cons p B')
    with that s(2) hi show ?thesis by auto
  qed
  have "sorted_wrt (<) (map snd (A @ (d, k) # B))"
    using s a c by (fastforce simp: sorted_wrt_append)
  moreover have "mset (place d k b) = mset (A @ (d, k) # B)" by (simp add: place_def r)
  ultimately show ?thesis using shown_unique by fastforce
qed

lemma removeAll_board: "removeAll d (map fst b) = map fst (filter (\<lambda>p. fst p \<noteq> d) b)"
  by (induction b) auto

lemma placed_before:
  assumes o: "ordered b" and x: "map fst b = map ident xs" and t: "t \<in> set (map fst b)" "t \<noteq> d"
    and k: "between b (previous_id ident xs (Dec d 0) t) (Some t) k"
  shows "shown (place d k b) = moved_before d t (map fst b)"
proof -
  let ?r = "filter (\<lambda>p. fst p \<noteq> d) b"
  have "t \<in> set (map fst ?r)" using t by auto
  then obtain A q B where r: "?r = A @ q # B" and q: "fst q = t" by (auto dest: split_list)
  have dr: "distinct (map fst ?r)" using o by (simp add: ordered_def distinct_map_filter)
  then have n: "t \<notin> set (map fst A)" "t \<notin> set (map fst B)" using r q by auto
  have R: "removeAll d (map fst b) = map fst A @ t # map fst B"
    using r q by (simp add: removeAll_board)
  from previous_id_split [OF this [unfolded x] n(1)]
  have pv: "previous_id ident xs (Dec d 0) t = (if A = [] then None else Some (fst (last A)))"
    by (simp add: last_map)
  have inb: "set A \<subseteq> set b" "q \<in> set b" using arg_cong [OF r, of set] by auto
  have "snd (last A) < k" if "A \<noteq> []"
  proof -
    have "last A \<in> set b" using that inb by auto
    with k pv that show ?thesis by (force simp: between_def list_all_iff)
  qed
  moreover have "k < snd q" using k inb(2) q by (force simp: between_def list_all_iff)
  ultimately have "shown (place d k b) = map fst A @ d # map fst (q # B)"
    using shown_place [OF o r] by simp
  moreover have "concat (map (\<lambda>i. if i = t then [d, i] else [i]) ys) = ys" if "t \<notin> set ys" for ys
    using that by (induction ys) auto
  ultimately show ?thesis using n q by (simp add: moved_before_def R del: map_map)
qed

lemma placed_at_end:
  assumes o: "ordered b" and x: "map fst b = map ident xs"
    and k: "between b (last_id ident xs (Dec d 0)) None k"
  shows "shown (place d k b) = moved_to_end d (map fst b)"
proof -
  let ?r = "filter (\<lambda>p. fst p \<noteq> d) b"
  have "snd (last ?r) < k" if "?r \<noteq> []"
  proof -
    have "last ?r \<in> set ?r" using that by (rule last_in_set)
    then have "last ?r \<in> set b" by simp
    moreover have "last_id ident xs (Dec d 0) = Some (fst (last ?r))"
      using that by (simp add: last_id_split x [symmetric] removeAll_board last_map)
    ultimately show ?thesis using k by (force simp: between_def list_all_iff)
  qed
  then show ?thesis
    using shown_place [OF o, of d ?r "[]" k] by (simp add: moved_to_end_def removeAll_board)
qed

section \<open>Properties\<close>

interpretation section_rename: submit_handler "sm_rename w taskListId column" "\<lambda>s. sm_savingId s \<noteq> None"
  by (rule submit_handlerI) (auto simp: sm_rename_def Let_def form_simps intro!: catch_isl)

interpretation section_move: submit_handler "sm_move w taskListId sectionId before after" "\<lambda>s. sm_savingId s \<noteq> None"
  by (rule submit_handlerI) (auto simp: sm_move_def form_simps intro!: catch_isl)

interpretation section_create: submit_handler "createSection w taskListId" lp_creating
  by (rule submit_handlerI) (auto simp: createSection_def lp_fail_def form_simps intro!: catch_isl)


definition demo_board :: board where
  "demo_board = [(1, 1), (2, 2), (3, 3)]"

definition demo_tasks :: "task_row list" where
  "demo_tasks = map (\<lambda>i. \<lparr>tk_id = i, tk_start = None, tk_due = None\<rparr>) [1, 2, 3]"

definition demo_list_page :: list_page where
  "demo_list_page = \<lparr>stored_token = None, sent = [],
     lp_workspace = Some \<lparr>tw_id = 7, tw_sections = [(5, demo_tasks)], tw_unsectioned = [], tw_can_change_task = True\<rparr>,
     lp_view = View_board, lp_dragged = Some 1, lp_newSection = [], lp_creating = False, lp_loading = False,
     lp_error = None, lp_storage = (\<lambda>k. None)\<rparr>"


text \<open>The columns behave the same way.\<close>

lemma column_lands_where_dropped:
  assumes "ordered b" and "d \<noteq> 0" and "sm_draggedId s = Some d" and "map fst b = map sec_id (sm_sections s)"
    and "t \<in> set (map fst b)" and "t \<noteq> d" and "between b p (Some t) k"
    and "p = previous_id sec_id (sm_sections s) (Dec d 0) t"
  shows "sm_dropBefore w L t s = sm_move w L d p (Some t) s \<and> shown (place d k b) = moved_before d t (map fst b)"
  using assms placed_before [OF assms(1,4,5,6)] by (simp add: sm_dropBefore_def)

text \<open>
  A task that cannot be added is not reported: the call's failure leaves the form unchanged
  and nothing is shown.
\<close>

lemma quick_add_failure_unreported:
  assumes "trim (qa_title s) \<noteq> []" and "snd (api_send w ''POST'' (call_url w (TaskLists (Lists_quickTask L)))
    (JsonBody (JObj [(''title'', JStr (trim (qa_title s))), (''section_id'', id_json i)])) (s\<lparr>qa_saving := True\<rparr>)) = Inl e"
  shows "snd (quick_submit w L i f s) = Inl e"
  using assms by (auto simp: quick_submit_def then_act_def bind_act_def set_act_def finally_act_def split: prod.splits)

end
