(* ===== verification/Admin_Timeline.thy ===== *)
theory Admin_Timeline
  imports Admin_Ordering Js_Date
begin

text \<open>
  The geometry of the admin application's charts: the timeline of a project
  (\<^verbatim>\<open>projects/[id]/ProjectTimelineWorkspace.tsx\<close>), the timeline view of a task list
  (\<^verbatim>\<open>task-lists/[id]/TaskListWorkspaceView.tsx\<close>) and the history of a monitoring check
  (\<^verbatim>\<open>monitoring/checks/[id]/MonitoringHistoryChart.tsx\<close>).

  Times are milliseconds. \<open>stamp\<close> is the local midnight that begins a date and \<open>local_date\<close> the
  local date of a time, both of the browser's time zone. Positions are exact fractions, where
  the platform computes with doubles.
\<close>

definition DAY_MS :: int where
  "DAY_MS = 86400000"

section \<open>The timeline of a project\<close>

datatype zoom = Zoom_day | Zoom_week | Zoom_month

fun pixelsPerDay :: "zoom \<Rightarrow> int" where
  "pixelsPerDay Zoom_day = 42"
| "pixelsPerDay Zoom_week = 18"
| "pixelsPerDay Zoom_month = 7"

fun tickDays :: "zoom \<Rightarrow> nat" where
  "tickDays Zoom_day = 1"
| "tickDays Zoom_week = 7"
| "tickDays Zoom_month = 30"

fun zoom_text :: "zoom \<Rightarrow> string" where
  "zoom_text Zoom_day = ''day''"
| "zoom_text Zoom_week = ''week''"
| "zoom_text Zoom_month = ''month''"

record timeline_task = task_row +
  tt_blocked_by :: "int list"

record positioned =
  po_task :: timeline_task
  po_left :: rat
  po_width :: rat
  po_row :: nat

record timeline =
  tl_start :: int
  tl_end :: int
  tl_totalDays :: int
  tl_width :: rat
  tl_pixelsPerDay :: rat
  tl_tickDays :: nat
  tl_positioned :: "positioned list"
  tl_connectors :: "(positioned \<times> positioned) list"
  tl_ticks :: "(int \<times> rat) list"

text \<open>
  Without tasks there is no timeline. Without any date \<^verbatim>\<open>Math.min()\<close> is infinite and
  no position is a number.
\<close>

datatype timeline_view = No_timeline | No_positions | Timeline timeline

definition dates_of :: "(string option \<times> string option) list \<Rightarrow> string list" where
  "dates_of ds = map the (filter truthy_string (concat (map (\<lambda>(a, b). [a, b]) ds)))"

definition bar_start :: "(string \<Rightarrow> int) \<Rightarrow> string \<Rightarrow> 'a task_row_scheme \<Rightarrow> int" where
  "bar_start stamp fallback t = stamp (or_string (tk_start t) (or_string (tk_due t) fallback))"

definition bar_end :: "(string \<Rightarrow> int) \<Rightarrow> string \<Rightarrow> 'a task_row_scheme \<Rightarrow> int" where
  "bar_end stamp fallback t = stamp (or_string (tk_due t) (or_string (tk_start t) fallback)) + DAY_MS"

definition days :: "int \<Rightarrow> rat" where
  "days ms = of_int ms / of_int DAY_MS"

definition position_task ::
  "(string \<Rightarrow> int) \<Rightarrow> (int \<Rightarrow> string) \<Rightarrow> int \<Rightarrow> rat \<Rightarrow> timeline_task \<Rightarrow> nat \<Rightarrow> positioned" where
  "position_task stamp local_date start ppd t row =
     \<lparr>po_task = t,
      po_left = days (bar_start stamp (local_date start) t - start) * ppd,
      po_width = max 12 (days (bar_end stamp (local_date start) t - bar_start stamp (local_date start) t) * ppd),
      po_row = row\<rparr>"

text \<open>\<^verbatim>\<open>positions.get(id)\<close>: of several tasks with one id the last one.\<close>

definition position_of :: "positioned list \<Rightarrow> int \<Rightarrow> positioned option" where
  "position_of ps i = find (\<lambda>p. tk_id (po_task p) = i) (rev ps)"

definition connectors_of :: "positioned list \<Rightarrow> (positioned \<times> positioned) list" where
  "connectors_of ps =
     concat (map (\<lambda>target. concat (map (\<lambda>i. case position_of ps i of None \<Rightarrow> [] | Some source \<Rightarrow> [(source, target)])
       (tt_blocked_by (po_task target)))) ps)"

definition ticks_of :: "int \<Rightarrow> int \<Rightarrow> nat \<Rightarrow> rat \<Rightarrow> (int \<times> rat) list" where
  "ticks_of start totalDays step ppd =
     map (\<lambda>day. (start + int day * DAY_MS, of_nat day * ppd))
       (filter (\<lambda>day. step dvd day) [0..<nat totalDays + 1])"

definition project_timeline ::
  "(string \<Rightarrow> int) \<Rightarrow> (int \<Rightarrow> string) \<Rightarrow> zoom \<Rightarrow> timeline_task list \<Rightarrow> timeline_view" where
  "project_timeline stamp local_date z tasks =
     (let stamps = map stamp (dates_of (map (\<lambda>t. (tk_start t, tk_due t)) tasks))
      in if tasks = [] then No_timeline
         else if stamps = [] then No_positions
         else
           (let start = Min (set stamps) - 3 * DAY_MS;
                end' = Max (set stamps) + 4 * DAY_MS;
                totalDays = max 7 \<lceil>days (end' - start)\<rceil>;
                width = max 900 (of_int (totalDays * pixelsPerDay z));
                ppd = width / of_int totalDays;
                positioned = map (\<lambda>(row, t). position_task stamp local_date start ppd t row) (enumerate 0 tasks)
            in Timeline \<lparr>tl_start = start, tl_end = end', tl_totalDays = totalDays, tl_width = width,
                 tl_pixelsPerDay = ppd, tl_tickDays = tickDays z, tl_positioned = positioned,
                 tl_connectors = connectors_of positioned, tl_ticks = ticks_of start totalDays (tickDays z) ppd\<rparr>))"

record timeline_page = net +
  pt_data :: "json option"
  pt_zoom :: zoom
  pt_loading :: bool
  pt_error :: "string option"
  pt_storage :: "string \<Rightarrow> string option"

definition pt_load :: "admin_world \<Rightarrow> int \<Rightarrow> (timeline_page, unit) act" where
  "pt_load w projectId =
     finally_act
       (catch_act
         (then_act (set_act (\<lambda>s. s\<lparr>pt_loading := True, pt_error := None\<rparr>))
           (bind_act (api_get w (aw_api w @ ''/api/admin/task-timeline/projects/'' @ int_str projectId))
             (\<lambda>j. set_act (pt_data_update (\<lambda>_. if j = JNull then None else Some j)))))
         (\<lambda>e. set_act (pt_error_update (\<lambda>_. Some (message_of ''Unable to load project timeline.'' e)))))
       (pt_loading_update (\<lambda>_. False))"

definition zoom_key :: "int \<Rightarrow> string" where
  "zoom_key projectId = ''project-timeline-zoom:'' @ int_str projectId"

definition restore_zoom :: "int \<Rightarrow> timeline_page \<Rightarrow> timeline_page" where
  "restore_zoom projectId s =
     (let stored = pt_storage s (zoom_key projectId)
      in if stored = Some ''day'' then s\<lparr>pt_zoom := Zoom_day\<rparr>
         else if stored = Some ''week'' then s\<lparr>pt_zoom := Zoom_week\<rparr>
         else if stored = Some ''month'' then s\<lparr>pt_zoom := Zoom_month\<rparr>
         else s)"

definition changeZoom :: "int \<Rightarrow> zoom \<Rightarrow> timeline_page \<Rightarrow> timeline_page" where
  "changeZoom projectId z s =
     s\<lparr>pt_zoom := z, pt_storage := (pt_storage s)(zoom_key projectId \<mapsto> zoom_text z)\<rparr>"

definition elbow :: "positioned \<Rightarrow> positioned \<Rightarrow> rat" where
  "elbow source target =
     (let sourceX = po_left source + po_width source; targetX = po_left target
      in if targetX > sourceX + 24 then sourceX + (targetX - sourceX) / 2 else sourceX + 24)"

section \<open>The timeline of a task list\<close>

record list_timeline =
  lt_tasks :: "task_row list"
  lt_start :: int
  lt_end :: int
  lt_duration :: int

definition task_list_timeline :: "(string \<Rightarrow> int) \<Rightarrow> task_workspace \<Rightarrow> list_timeline option" where
  "task_list_timeline stamp workspace =
     (let tasks = filter (\<lambda>t. truthy_string (tk_start t) \<or> truthy_string (tk_due t)) (allTopLevelTasks workspace);
          timestamps = map stamp (dates_of (map (\<lambda>t. (tk_start t, tk_due t)) tasks))
      in if tasks = [] then None
         else
           (let first = Min (set timestamps); last' = Max (set timestamps);
                start = first - 2 * DAY_MS;
                end' = (if first = last' then last' + 7 * DAY_MS else last') + 2 * DAY_MS
            in Some \<lparr>lt_tasks = tasks, lt_start = start, lt_end = end', lt_duration = max DAY_MS (end' - start)\<rparr>))"

text \<open>The bar of a task in percent: its left edge and its width.\<close>

definition list_bar :: "(string \<Rightarrow> int) \<Rightarrow> list_timeline \<Rightarrow> task_row \<Rightarrow> rat \<times> rat" where
  "list_bar stamp chart t =
     (let left = of_int (bar_start stamp [] t - lt_start chart) / of_int (lt_duration chart) * 100;
          width = max (12 / 10) (of_int (bar_end stamp [] t - bar_start stamp [] t) / of_int (lt_duration chart) * 100)
      in (max 0 left, min (100 - max 0 left) width))"

section \<open>The history of a check\<close>

text \<open>\<open>tr_at\<close> is what \<^verbatim>\<open>Date.parse\<close> gives for the start, \<open>None\<close> for \<^verbatim>\<open>NaN\<close>.\<close>

record timing =
  tr_id :: int
  tr_at :: "int option"
  tr_duration :: "rat option"
  tr_success :: bool

definition earlier :: "timing \<Rightarrow> timing \<Rightarrow> bool" where
  "earlier a b \<longleftrightarrow> the (tr_at a) < the (tr_at b) \<or> tr_at a = tr_at b \<and> tr_id a \<le> tr_id b"

definition chart_points :: "timing list \<Rightarrow> timing list" where
  "chart_points results =
     sort_key (\<lambda>p. the (tr_at p)) (sort_key tr_id (filter (\<lambda>r. tr_at r \<noteq> None \<and> tr_duration r \<noteq> None) results))"

definition maxDuration :: "timing list \<Rightarrow> rat" where
  "maxDuration points = fold max (map (\<lambda>p. the (tr_duration p)) (filter tr_success points)) 1"

definition first_at :: "timing list \<Rightarrow> int" where
  "first_at points = (case points of [] \<Rightarrow> 0 | p # _ \<Rightarrow> the (tr_at p))"

definition last_at :: "timing list \<Rightarrow> int" where
  "last_at points = (if points = [] then 0 else the (tr_at (last points)))"

definition chart_x :: "timing list \<Rightarrow> timing \<Rightarrow> rat" where
  "chart_x points p =
     (let start = first_at points; end' = last_at points
      in if start = end' then 435
         else 70 + of_int (the (tr_at p) - start) / of_int (end' - start) * 730)"

definition chart_y :: "timing list \<Rightarrow> timing \<Rightarrow> rat" where
  "chart_y points p = 220 - the (tr_duration p) / maxDuration points * 180"

text \<open>
  The loop that builds the line: the open segment and the finished ones. A segment is the list
  of its points; the code keeps the text of its path.
\<close>

definition segment_step :: "timing \<Rightarrow> timing list \<times> timing list list \<Rightarrow> timing list \<times> timing list list" where
  "segment_step p st =
     (case st of (segment, segments) \<Rightarrow>
        if tr_success p then (segment @ [p], segments)
        else if segment \<noteq> [] then ([], segments @ [segment]) else (segment, segments))"

definition chart_segments :: "timing list \<Rightarrow> timing list list" where
  "chart_segments points =
     (case fold segment_step points ([], []) of (segment, segments) \<Rightarrow>
        if segment \<noteq> [] then segments @ [segment] else segments)"

section \<open>Lemmas\<close>

lemma truthy_string_iff: "truthy_string x \<longleftrightarrow> (\<exists>s. x = Some s \<and> s \<noteq> [])"
  by (cases x) (simp_all add: truthy_string_def)

lemma dates_of_Cons:
  "set (dates_of ((a, b) # ds)) = (case a of Some s \<Rightarrow> {s} - {[]} | None \<Rightarrow> {}) \<union>
     (case b of Some s \<Rightarrow> {s} - {[]} | None \<Rightarrow> {}) \<union> set (dates_of ds)"
  by (auto simp: dates_of_def truthy_string_iff split: option.splits)

lemma dates_of_member:
  "s \<in> set (dates_of ds) \<longleftrightarrow> s \<noteq> [] \<and> (\<exists>d \<in> set ds. fst d = Some s \<or> snd d = Some s)"
proof (induction ds)
  case Nil
  then show ?case by (simp add: dates_of_def)
next
  case (Cons d ds)
  then show ?case by (cases d) (auto simp: dates_of_Cons split: option.splits)
qed

definition dated :: "'a task_row_scheme \<Rightarrow> bool" where
  "dated t \<longleftrightarrow> truthy_string (tk_start t) \<or> truthy_string (tk_due t)"

lemma or_string_dates:
  "truthy_string a \<or> truthy_string b \<Longrightarrow> \<exists>s. s \<noteq> [] \<and> or_string a (or_string b f) = s \<and> (a = Some s \<or> b = Some s)"
  by (auto simp: truthy_string_iff or_string_def split: option.splits)

lemma bar_dates:
  assumes "dated t" and "(tk_start t, tk_due t) \<in> set ds"
  shows "\<exists>s \<in> set (dates_of ds). bar_start stamp f t = stamp s"
    and "\<exists>s \<in> set (dates_of ds). bar_end stamp f t = stamp s + DAY_MS"
  using or_string_dates [of "tk_start t" "tk_due t" f] or_string_dates [of "tk_due t" "tk_start t" f] assms
  by (force simp: dated_def bar_start_def bar_end_def dates_of_member)+

lemma bar_within:
  assumes "dated t" and "(tk_start t, tk_due t) \<in> set ds" and "S = set (map stamp (dates_of ds))"
  shows "Min S \<le> bar_start stamp f t" "bar_start stamp f t \<le> Max S" "bar_end stamp f t \<le> Max S + DAY_MS"
proof -
  have f: "finite S" by (simp add: assms(3))
  obtain x where x: "x \<in> S" "bar_start stamp f t = x" using bar_dates(1) [OF assms(1,2), of stamp f] by (auto simp: assms(3))
  obtain y where y: "y \<in> S" "bar_end stamp f t = y + DAY_MS" using bar_dates(2) [OF assms(1,2), of stamp f] by (auto simp: assms(3))
  from x y f show "Min S \<le> bar_start stamp f t" "bar_start stamp f t \<le> Max S" "bar_end stamp f t \<le> Max S + DAY_MS"
    by simp_all
qed

lemma days_simps [simp]: "days (a - b) = days a - days b" "days (a + b) = days a + days b" "days DAY_MS = 1"
  "days (n * DAY_MS) = of_int n"
  by (simp_all add: days_def DAY_MS_def diff_divide_distrib add_divide_distrib)

lemma days_mono: "a \<le> b \<Longrightarrow> days a \<le> days b"
  by (simp add: days_def DAY_MS_def divide_right_mono)

lemma days_numeral [simp]: "days (numeral k * DAY_MS) = numeral k"
  using days_simps(4) [of "numeral k"] by simp

text \<open>A bar that keeps three days to the left and three to the right fits into the chart.\<close>

lemma bar_fits:
  fixes ppd width :: rat
  assumes l: "3 \<le> l" "l \<le> e - 4" and r: "r \<le> e - 3" and e: "e \<le> n" and w: "width = n * ppd" and p: "7 \<le> ppd"
  shows "0 < l * ppd" "l * ppd + max 12 ((r - l) * ppd) \<le> width"
proof -
  show "0 < l * ppd" using l p by simp
  have "l * ppd + 4 * ppd \<le> e * ppd" using mult_right_mono [of "l + 4" e ppd] l p by (simp add: distrib_right)
  moreover have "r * ppd \<le> e * ppd" by (rule mult_right_mono) (use r p in simp_all)
  moreover have "e * ppd \<le> width" using mult_right_mono [OF e, of ppd] p w by simp
  ultimately have "l * ppd + 12 \<le> width" "l * ppd + (r * ppd - l * ppd) \<le> width" using p by linarith+
  then show "l * ppd + max 12 ((r - l) * ppd) \<le> width"
    unfolding max_def left_diff_distrib by (simp only: split: if_split) blast
qed

lemma project_timeline_fields:
  assumes "project_timeline stamp local_date z tasks = Timeline v"
  shows "tl_start v = Min (set (map stamp (dates_of (map (\<lambda>t. (tk_start t, tk_due t)) tasks)))) - 3 * DAY_MS"
    "tl_end v = Max (set (map stamp (dates_of (map (\<lambda>t. (tk_start t, tk_due t)) tasks)))) + 4 * DAY_MS"
    "tl_totalDays v = max 7 \<lceil>days (tl_end v - tl_start v)\<rceil>"
    "tl_width v = max 900 (of_int (tl_totalDays v * pixelsPerDay z))"
    "tl_pixelsPerDay v = tl_width v / of_int (tl_totalDays v)"
    "tl_positioned v = map (\<lambda>(row, t). position_task stamp local_date (tl_start v) (tl_pixelsPerDay v) t row) (enumerate 0 tasks)"
    "tl_ticks v = ticks_of (tl_start v) (tl_totalDays v) (tl_tickDays v) (tl_pixelsPerDay v)"
proof -
  have a: "tasks \<noteq> []" using assms by (auto simp: project_timeline_def)
  have b: "map stamp (dates_of (map (\<lambda>t. (tk_start t, tk_due t)) tasks)) \<noteq> []"
  proof
    assume e: "map stamp (dates_of (map (\<lambda>t. (tk_start t, tk_due t)) tasks)) = []"
    have "project_timeline stamp local_date z tasks = No_positions"
      unfolding project_timeline_def Let_def if_not_P [OF a] if_P [OF e] by (rule refl)
    with assms show False by simp
  qed
  note v = assms [unfolded project_timeline_def Let_def if_not_P [OF a] if_not_P [OF b] timeline_view.inject, symmetric]
  show "tl_start v = Min (set (map stamp (dates_of (map (\<lambda>t. (tk_start t, tk_due t)) tasks)))) - 3 * DAY_MS"
    "tl_end v = Max (set (map stamp (dates_of (map (\<lambda>t. (tk_start t, tk_due t)) tasks)))) + 4 * DAY_MS"
    "tl_totalDays v = max 7 \<lceil>days (tl_end v - tl_start v)\<rceil>"
    "tl_width v = max 900 (of_int (tl_totalDays v * pixelsPerDay z))"
    "tl_pixelsPerDay v = tl_width v / of_int (tl_totalDays v)"
    "tl_positioned v = map (\<lambda>(row, t). position_task stamp local_date (tl_start v) (tl_pixelsPerDay v) t row) (enumerate 0 tasks)"
    "tl_ticks v = ticks_of (tl_start v) (tl_totalDays v) (tl_tickDays v) (tl_pixelsPerDay v)"
    unfolding v by (simp_all only: timeline.simps)
qed

lemma task_list_timeline_fields:
  assumes "task_list_timeline stamp ws = Some c"
  shows "lt_tasks c = filter (\<lambda>t. truthy_string (tk_start t) \<or> truthy_string (tk_due t)) (allTopLevelTasks ws)"
    "lt_start c = Min (set (map stamp (dates_of (map (\<lambda>t. (tk_start t, tk_due t)) (lt_tasks c))))) - 2 * DAY_MS"
    "Max (set (map stamp (dates_of (map (\<lambda>t. (tk_start t, tk_due t)) (lt_tasks c))))) + 2 * DAY_MS \<le> lt_end c"
    "lt_duration c = max DAY_MS (lt_end c - lt_start c)"
proof -
  let ?ts = "filter (\<lambda>t. truthy_string (tk_start t) \<or> truthy_string (tk_due t)) (allTopLevelTasks ws)"
  have a: "?ts \<noteq> []" using assms by (auto simp: task_list_timeline_def)
  note c = assms [unfolded task_list_timeline_def Let_def if_not_P [OF a] option.inject, symmetric]
  show "lt_tasks c = ?ts" "lt_start c = Min (set (map stamp (dates_of (map (\<lambda>t. (tk_start t, tk_due t)) (lt_tasks c))))) - 2 * DAY_MS"
     "lt_duration c = max DAY_MS (lt_end c - lt_start c)"
    unfolding c by (simp_all only: list_timeline.simps)
  have "lt_end c = (if Min (set (map stamp (dates_of (map (\<lambda>t. (tk_start t, tk_due t)) (lt_tasks c))))) = Max (set (map stamp (dates_of (map (\<lambda>t. (tk_start t, tk_due t)) (lt_tasks c))))) then Max (set (map stamp (dates_of (map (\<lambda>t. (tk_start t, tk_due t)) (lt_tasks c))))) + 7 * DAY_MS else Max (set (map stamp (dates_of (map (\<lambda>t. (tk_start t, tk_due t)) (lt_tasks c)))))) + 2 * DAY_MS"
    unfolding c by (simp only: list_timeline.simps)
  then show "Max (set (map stamp (dates_of (map (\<lambda>t. (tk_start t, tk_due t)) (lt_tasks c))))) + 2 * DAY_MS \<le> lt_end c"
    by (simp only: DAY_MS_def split: if_split) linarith
qed

lemma project_timeline_scale:
  assumes "project_timeline stamp local_date z tasks = Timeline v"
  shows "tl_width v = of_int (tl_totalDays v) * tl_pixelsPerDay v" "7 \<le> tl_pixelsPerDay v" "7 \<le> tl_totalDays v"
    "days (tl_end v - tl_start v) \<le> of_int (tl_totalDays v)"
proof -
  note d = project_timeline_fields(3) [OF assms] and w = project_timeline_fields(4) [OF assms]
    and p = project_timeline_fields(5) [OF assms]
  have t: "7 \<le> tl_totalDays v" unfolding d by (rule max.cobounded1)
  show "7 \<le> tl_totalDays v" by (fact t)
  have pos: "(0 :: rat) < of_int (tl_totalDays v)" using t by simp
  then show "tl_width v = of_int (tl_totalDays v) * tl_pixelsPerDay v" by (simp add: p)
  have "(7 :: rat) \<le> of_int (pixelsPerDay z)" by (cases z) simp_all
  then have "7 * of_int (tl_totalDays v) \<le> (of_int (tl_totalDays v * pixelsPerDay z) :: rat)"
    using mult_right_mono [of 7 "of_int (pixelsPerDay z) :: rat" "of_int (tl_totalDays v)"] pos by (simp add: mult.commute)
  then have "7 * of_int (tl_totalDays v) \<le> tl_width v" by (simp add: w)
  then show "7 \<le> tl_pixelsPerDay v" using pos by (simp add: p pos_le_divide_eq)
  show "days (tl_end v - tl_start v) \<le> of_int (tl_totalDays v)"
    using le_of_int_ceiling [of "days (tl_end v - tl_start v)"] unfolding d of_int_max by (rule order_trans) (rule max.cobounded2)
qed


lemma project_positioned:
  assumes v: "project_timeline stamp local_date z tasks = Timeline v" and p: "p \<in> set (tl_positioned v)"
    and d: "dated (po_task p)"
  shows "0 < po_left p \<and> po_left p + po_width p \<le> tl_width v"
proof -
  define ds where "ds = map (\<lambda>t. (tk_start t, tk_due t)) tasks"
  define S where "S = set (map stamp (dates_of ds))"
  have s: "tl_start v = Min S - 3 * DAY_MS" "tl_end v = Max S + 4 * DAY_MS"
    and ps: "tl_positioned v = map (\<lambda>(row, t). position_task stamp local_date (tl_start v) (tl_pixelsPerDay v) t row) (enumerate 0 tasks)"
    unfolding ds_def S_def by (rule project_timeline_fields [OF v])+
  from p ps obtain row t where t: "t \<in> set tasks"
    and pp: "p = position_task stamp local_date (tl_start v) (tl_pixelsPerDay v) t row"
    by (auto simp: enumerate_eq_zip dest: set_zip_rightD)
  have dt: "dated t" using d by (simp add: pp position_task_def)
  have m: "(tk_start t, tk_due t) \<in> set ds" using t by (auto simp: ds_def)
  let ?f = "local_date (tl_start v)"
  note b = bar_within [OF dt m S_def, of ?f]
  define l where "l = days (bar_start stamp ?f t - tl_start v)"
  define r where "r = days (bar_end stamp ?f t - tl_start v)"
  define e where "e = days (tl_end v - tl_start v)"
  have "3 \<le> l" "l \<le> e - 4" "r \<le> e - 3"
    using days_mono [OF b(1)] days_mono [OF b(2)] days_mono [OF b(3)] by (simp_all add: l_def r_def e_def s)
  from bar_fits [OF this _ project_timeline_scale(1,2) [OF v]] project_timeline_scale(4) [OF v]
  show ?thesis by (simp add: pp position_task_def l_def r_def e_def)
qed


lemma ticks_inside:
  assumes "width = of_int n * ppd" and "7 \<le> ppd" and "7 \<le> n"
  shows "list_all (\<lambda>(stamp, left). 0 \<le> left \<and> left \<le> width) (ticks_of start n k ppd)"
proof -
  have "0 \<le> of_nat m * ppd \<and> of_nat m * ppd \<le> width" if "m \<le> nat n" for m
  proof -
    have "int m \<le> n" using that assms(3) by linarith
    then have "(of_nat m :: rat) \<le> of_int n" by (metis of_int_le_iff of_int_of_nat_eq)
    then show ?thesis using assms(2) by (simp add: assms(1) mult_right_mono)
  qed
  then show ?thesis by (simp add: ticks_of_def list_all_iff)
qed

text \<open>In a task list every bar is visible and within its row.\<close>

lemma list_bar_inside:
  assumes c: "task_list_timeline stamp ws = Some c" and t: "t \<in> set (lt_tasks c)"
  shows "0 < fst (list_bar stamp c t) \<and> 0 < snd (list_bar stamp c t) \<and>
    fst (list_bar stamp c t) + snd (list_bar stamp c t) \<le> 100"
proof -
  define ds where "ds = map (\<lambda>t. (tk_start t, tk_due t)) (lt_tasks c)"
  define S where "S = set (map stamp (dates_of ds))"
  have s: "lt_start c = Min S - 2 * DAY_MS" "Max S + 2 * DAY_MS \<le> lt_end c"
    "lt_duration c = max DAY_MS (lt_end c - lt_start c)" and d: "dated t"
    unfolding ds_def S_def using task_list_timeline_fields [OF c] t by (simp_all add: dated_def)
  have m: "(tk_start t, tk_due t) \<in> set ds" using t by (auto simp: ds_def)
  note b = bar_within [OF d m S_def, of "[]"]
  define x where "x = bar_start stamp [] t - lt_start c"
  have x: "0 < x" "x < lt_duration c" using b s by (auto simp: x_def DAY_MS_def)
  define q :: rat where "q = of_int x / of_int (lt_duration c)"
  have "0 < q" "q < 1" using x by (simp_all add: q_def)
  moreover obtain y where "list_bar stamp c t = (max 0 (q * 100), min (100 - max 0 (q * 100)) (max (12 / 10) y))"
    unfolding list_bar_def Let_def x_def [symmetric] q_def [symmetric] by blast
  ultimately show ?thesis by (auto simp: max_def min_def)
qed

section \<open>The line of a check\<close>

text \<open>
  The reference: maximal runs of successful points, cut at every other point.
\<close>

fun success_runs :: "timing list \<Rightarrow> timing list \<Rightarrow> timing list list" where
  "success_runs run [] = (if run = [] then [] else [run])"
| "success_runs run (p # ps) =
     (if tr_success p then success_runs (run @ [p]) ps
      else (if run = [] then [] else [run]) @ success_runs [] ps)"

lemma segments_runs:
  "(case fold segment_step ps (run, done') of (segment, segments) \<Rightarrow>
      if segment \<noteq> [] then segments @ [segment] else segments) = done' @ success_runs run ps"
proof (induction ps arbitrary: run done')
  case (Cons p ps)
  show ?case
    using Cons [of "run @ [p]" done'] Cons [of "[]" "done' @ [run]"] Cons [of "[]" done']
    by (auto simp: segment_step_def)
qed simp

lemma runs_points: "concat (success_runs run ps) = run @ filter tr_success ps"
  by (induction run ps rule: success_runs.induct) auto

lemma chart_points_sorted:
  "sorted_wrt (\<lambda>a b. the (tr_at a) \<le> the (tr_at b)) (chart_points results)"
  using sorted_sort_key [of "\<lambda>p. the (tr_at p)"] by (simp add: chart_points_def sorted_map)

lemma fold_max_ge: "(x :: rat) \<le> fold max xs x" "y \<in> set xs \<Longrightarrow> y \<le> fold max xs x"
proof -
  have m: "z \<le> fold max ys z" for ys and z :: rat
  proof (induction ys arbitrary: z)
    case (Cons a ys)
    show ?case using Cons [of "max a z"] by simp
  qed simp
  then show "x \<le> fold max xs x" .
  show "y \<le> fold max xs x" if "y \<in> set xs"
    using that
  proof (induction xs arbitrary: x)
    case (Cons a xs)
    then show ?case using m [of "max a x" xs] by auto
  qed simp
qed

lemma maxDuration_ge:
  "1 \<le> maxDuration ps" "p \<in> set ps \<Longrightarrow> tr_success p \<Longrightarrow> the (tr_duration p) \<le> maxDuration ps"
  unfolding maxDuration_def by (auto intro!: fold_max_ge)

lemma chart_x_bounds:
  assumes "p \<in> set (chart_points rs)"
  shows "70 \<le> chart_x (chart_points rs) p \<and> chart_x (chart_points rs) p \<le> 800"
proof -
  let ?ps = "chart_points rs"
  have ne: "?ps \<noteq> []" using assms by auto
  have lo: "first_at ?ps \<le> the (tr_at p)" and hi: "the (tr_at p) \<le> last_at ?ps"
  proof -
    obtain i where i: "i < length ?ps" "p = ?ps ! i" using assms by (metis in_set_conv_nth)
    have le: "the (tr_at (?ps ! j)) \<le> the (tr_at (?ps ! k))" if "j \<le> k" "k < length ?ps" for j k
      using that sorted_wrt_nth_less [OF chart_points_sorted [of rs], of j k] by (cases "j = k") auto
    show "first_at ?ps \<le> the (tr_at p)" using le [of 0 i] i ne by (cases ?ps) (auto simp: first_at_def)
    show "the (tr_at p) \<le> last_at ?ps" using le [of i "length ?ps - 1"] i ne by (simp add: last_at_def last_conv_nth)
  qed
  show ?thesis
  proof (cases "first_at ?ps = last_at ?ps")
    case True
    then show ?thesis by (simp add: chart_x_def)
  next
    case False
    then have d: "first_at ?ps < last_at ?ps" using lo hi by simp
    define q :: rat where "q = of_int (the (tr_at p) - first_at ?ps) / of_int (last_at ?ps - first_at ?ps)"
    have "(0 :: rat) < of_int (last_at ?ps - first_at ?ps)" using d by (simp only: of_int_0_less_iff)
    then have "0 \<le> q" "q \<le> 1" using lo hi unfolding q_def by (simp_all add: divide_le_eq_1 zero_le_divide_iff del: of_int_diff)
    moreover have "chart_x ?ps p = 70 + q * 730" using False by (simp add: chart_x_def Let_def q_def)
    ultimately show ?thesis by linarith
  qed
qed

lemma chart_y_bounds:
  assumes "p \<in> set ps" and "tr_success p" and "0 \<le> the (tr_duration p)"
  shows "40 \<le> chart_y ps p \<and> chart_y ps p \<le> 220"
proof -
  define q where "q = the (tr_duration p) / maxDuration ps"
  have "0 \<le> q" "q \<le> 1"
    using maxDuration_ge(1) [of ps] maxDuration_ge(2) [OF assms(1,2)] assms(3) by (simp_all add: q_def divide_le_eq_1)
  then show ?thesis unfolding chart_y_def q_def [symmetric] by simp
qed

section \<open>Properties\<close>

text \<open>
  Every dated task is drawn inside the timeline of its project: its bar begins after the
  left edge and ends before the right one, whatever the dates, the zoom and the time zone, also
  for a task that is due before it starts. The chart is at least as wide as 900 pixels and seven
  pixels a day, and no tick lies outside.
\<close>

theorem timeline_shows_every_bar:
  "case project_timeline stamp local_date z tasks of
     Timeline v \<Rightarrow>
       list_all (\<lambda>p. 0 < po_left p \<and> po_left p + po_width p \<le> tl_width v \<and> 12 \<le> po_width p)
         (filter (\<lambda>p. dated (po_task p)) (tl_positioned v)) \<and>
       map po_task (tl_positioned v) = tasks \<and> 900 \<le> tl_width v \<and> 7 \<le> tl_pixelsPerDay v \<and>
       list_all (\<lambda>(stamp, left). 0 \<le> left \<and> left \<le> tl_width v) (tl_ticks v)
   | No_timeline \<Rightarrow> tasks = []
   | No_positions \<Rightarrow> list_all (\<lambda>t. \<not> dated t) tasks"
proof (cases "project_timeline stamp local_date z tasks")
  case No_timeline
  then show ?thesis by (auto simp: project_timeline_def Let_def split: if_splits)
next
  case No_positions
  then have "dates_of (map (\<lambda>t. (tk_start t, tk_due t)) tasks) = []"
    by (auto simp: project_timeline_def Let_def split: if_splits)
  then have "\<not> dated t" if "t \<in> set tasks" for t
    using bar_dates(1) [of t "map (\<lambda>t. (tk_start t, tk_due t)) tasks"] that by auto
  with No_positions show ?thesis by (simp add: list_all_iff)
next
  case (Timeline v)
  note sc = project_timeline_scale [OF Timeline]
  have ps: "tl_positioned v = map (\<lambda>(row, t). position_task stamp local_date (tl_start v) (tl_pixelsPerDay v) t row) (enumerate 0 tasks)"
    and ts: "tl_ticks v = ticks_of (tl_start v) (tl_totalDays v) (tl_tickDays v) (tl_pixelsPerDay v)" and w: "900 \<le> tl_width v"
    using project_timeline_fields(4,6,7) [OF Timeline] by (simp_all only: max.cobounded1)
  have f: "map (po_task \<circ> (\<lambda>(row, t). position_task stamp local_date a b t row)) xs = map snd xs" for a b xs
    by (induction xs) (auto simp: position_task_def)
  have "map po_task (tl_positioned v) = tasks" by (simp add: ps f)
  moreover have "12 \<le> po_width p" if "p \<in> set (tl_positioned v)" for p
    using that by (auto simp: ps position_task_def)
  moreover have "list_all (\<lambda>(stamp, left). 0 \<le> left \<and> left \<le> tl_width v) (tl_ticks v)"
    unfolding ts by (rule ticks_inside [OF sc(1-3)])
  ultimately show ?thesis
    using project_positioned [OF Timeline] sc(2) w by (simp add: Timeline list_all_iff)
qed

text \<open>
  The history of a check draws every finished observation inside the chart, in the order
  of time, and its line is broken exactly at the failures: the segments are the maximal runs
  of successful observations, none of them empty, and together they are all successful ones.
\<close>

theorem history_line_breaks_at_failures:
  "chart_segments (chart_points results) = success_runs [] (chart_points results) \<and>
   concat (chart_segments (chart_points results)) = filter tr_success (chart_points results) \<and>
   sorted_wrt (\<lambda>a b. the (tr_at a) \<le> the (tr_at b)) (chart_points results) \<and>
   list_all (\<lambda>p. 70 \<le> chart_x (chart_points results) p \<and> chart_x (chart_points results) p \<le> 800)
     (chart_points results) \<and>
   list_all (\<lambda>p. 40 \<le> chart_y (chart_points results) p \<and> chart_y (chart_points results) p \<le> 220)
     (filter (\<lambda>p. tr_success p \<and> 0 \<le> the (tr_duration p)) (chart_points results))"
  using segments_runs [of "chart_points results" "[]" "[]"] runs_points [of "[]" "chart_points results"]
  by (simp add: chart_segments_def list_all_iff chart_points_sorted chart_x_bounds chart_y_bounds)

end
