(* ===== verification/Admin_Staff.thy ===== *)
theory Admin_Staff
  imports Admin_Ordering Admin_Time State_Machine
begin

text \<open>
  \<^verbatim>\<open>app/(admin)/admin/access/StaffAccessEditor.tsx\<close>: inviting members of staff and
  editing what they may reach. The draft of the form, the effect that keeps the default queues
  within the accessible ones, the payload and the handlers. The answers of the API have the
  members and types the code casts them to.

  The rule the server applies to the default queues is that of
  \<^verbatim>\<open>backend/apps/access_control/services.py\<close>: they must be enabled and accessible, and
  all of them is the same as no preference.
\<close>

section \<open>The draft\<close>

datatype default_mode = Mode_all | Mode_selected

record access_draft =
  group_ids :: "int list"
  direct_permission_ids :: "int list"
  all_clients :: bool
  client_ids :: "int list"
  all_ticket_queues :: bool
  ticket_queue_ids :: "int list"
  default_ticket_queue_ids :: "int list"
  default_mode :: default_mode

definition EMPTY_ACCESS :: access_draft where
  "EMPTY_ACCESS = \<lparr>group_ids = [], direct_permission_ids = [], all_clients = False, client_ids = [],
     all_ticket_queues = False, ticket_queue_ids = [], default_ticket_queue_ids = [], default_mode = Mode_all\<rparr>"

definition toggleId :: "int list \<Rightarrow> int \<Rightarrow> int list" where
  "toggleId values i = (if i \<in> set values then filter (\<lambda>value. value \<noteq> i) values else values @ [i])"

definition personName :: "json \<Rightarrow> string" where
  "personName person =
     (let name = join '' '' (filter (\<lambda>s. s \<noteq> []) [json_text (jget person ''first_name''), json_text (jget person ''last_name'')])
      in if name = [] then json_text (jget person ''email'') else name)"

definition replace_underscores :: "string \<Rightarrow> string" where
  "replace_underscores s = map (\<lambda>c. if c = CHR ''_'' then CHR '' '' else c) s"

definition permissionGroupLabel :: "json \<Rightarrow> string" where
  "permissionGroupLabel capability = replace_underscores (json_text (jget capability ''app_label''))"

text \<open>A \<^verbatim>\<open>Map\<close> from labels to lists, in the order of first insertion.\<close>

definition capabilityGroups :: "json list \<Rightarrow> (string \<times> json list) list" where
  "capabilityGroups capabilities =
     foldl (\<lambda>groups c. let label = permissionGroupLabel c
                       in alist_put label (nullish (map_of groups label) [] @ [c]) groups) [] capabilities"

text \<open>The ticket queues of the options, with whether they are enabled.\<close>

type_synonym queue_options = "(int \<times> bool) list"

definition read_queues :: "json \<Rightarrow> queue_options" where
  "read_queues options =
     map (\<lambda>q. (json_int (jget q ''id''), json_true (jget q ''enabled''))) (json_list (jget options ''ticket_queues''))"

definition accessibleEnabledQueueIds :: "queue_options option \<Rightarrow> access_draft \<Rightarrow> int list" where
  "accessibleEnabledQueueIds options access =
     (case options of
        None \<Rightarrow> []
      | Some queues \<Rightarrow> map fst (filter (\<lambda>(i, enabled).
          enabled \<and> (all_ticket_queues access \<or> i \<in> set (ticket_queue_ids access))) queues))"

definition restrict_defaults :: "queue_options option \<Rightarrow> access_draft \<Rightarrow> access_draft" where
  "restrict_defaults options access =
     access\<lparr>default_ticket_queue_ids :=
       filter (\<lambda>i. i \<in> set (accessibleEnabledQueueIds options access)) (default_ticket_queue_ids access)\<rparr>"

record staff_write =
  sw_group_ids :: "int list"
  sw_direct_permission_ids :: "int list"
  sw_all_clients :: bool
  sw_client_ids :: "int list"
  sw_all_ticket_queues :: bool
  sw_ticket_queue_ids :: "int list"
  sw_default_ticket_queue_ids :: "int list"

definition writePayload :: "queue_options option \<Rightarrow> access_draft \<Rightarrow> staff_write" where
  "writePayload options access =
     \<lparr>sw_group_ids = group_ids access, sw_direct_permission_ids = direct_permission_ids access,
      sw_all_clients = all_clients access, sw_client_ids = (if all_clients access then [] else client_ids access),
      sw_all_ticket_queues = all_ticket_queues access,
      sw_ticket_queue_ids = (if all_ticket_queues access then [] else ticket_queue_ids access),
      sw_default_ticket_queue_ids =
        (if default_mode access = Mode_all then accessibleEnabledQueueIds options access
         else default_ticket_queue_ids access)\<rparr>"

definition ints_json :: "int list \<Rightarrow> json" where
  "ints_json is = JArr (map JNum is)"

definition write_members :: "staff_write \<Rightarrow> (string \<times> json) list" where
  "write_members p =
     [(''group_ids'', ints_json (sw_group_ids p)), (''direct_permission_ids'', ints_json (sw_direct_permission_ids p)),
      (''all_clients'', JBool (sw_all_clients p)), (''client_ids'', ints_json (sw_client_ids p)),
      (''all_ticket_queues'', JBool (sw_all_ticket_queues p)), (''ticket_queue_ids'', ints_json (sw_ticket_queue_ids p)),
      (''default_ticket_queue_ids'', ints_json (sw_default_ticket_queue_ids p))]"

definition json_ints :: "json option \<Rightarrow> int list" where
  "json_ints j = map (\<lambda>x. json_int (Some x)) (json_list j)"

definition member2 :: "json option \<Rightarrow> string \<Rightarrow> json option" where
  "member2 j k = (case j of None \<Rightarrow> None | Some v \<Rightarrow> jget v k)"

text \<open>The draft of a loaded user, from its \<^verbatim>\<open>access\<close>.\<close>

definition draft_of :: "json option \<Rightarrow> access_draft" where
  "draft_of access =
     (let defaults = json_ints (member2 access ''default_ticket_queue_ids'')
      in \<lparr>group_ids = json_ints (member2 access ''group_ids''),
          direct_permission_ids = json_ints (member2 access ''direct_permission_ids''),
          all_clients = json_true (member2 (member2 access ''clients'') ''all''),
          client_ids = json_ints (member2 (member2 access ''clients'') ''ids''),
          all_ticket_queues = json_true (member2 (member2 access ''ticket_queues'') ''all''),
          ticket_queue_ids = json_ints (member2 (member2 access ''ticket_queues'') ''ids''),
          default_ticket_queue_ids = defaults,
          default_mode = (if defaults = [] then Mode_all else Mode_selected)\<rparr>)"

section \<open>The page\<close>

record staff_page = net +
  st_options :: "queue_options option"
  st_user :: "json option"
  st_access :: access_draft
  st_firstName :: string
  st_lastName :: string
  st_email :: string
  st_isLoading :: bool
  st_isSaving :: bool
  st_error :: "string option"
  st_notice :: "string option"
  st_pushed :: "string list"

definition staff_init :: staff_page where
  "staff_init = \<lparr>stored_token = None, sent = [], st_options = None, st_user = None, st_access = EMPTY_ACCESS,
     st_firstName = [], st_lastName = [], st_email = [], st_isLoading = True, st_isSaving = False,
     st_error = None, st_notice = None, st_pushed = []\<rparr>"

definition staff_url :: "admin_world \<Rightarrow> staff_call \<Rightarrow> string" where
  "staff_url w c = StaffAccessAPI (aw_api w) c"

definition st_fail :: "string \<Rightarrow> js_throw \<Rightarrow> (staff_page, unit) act" where
  "st_fail fallback e = set_act (st_error_update (\<lambda>_. Some (message_of fallback e)))"

text \<open>What a finished load sets; the effect of the default queues follows, as its inputs are new.\<close>

definition loaded :: "json \<Rightarrow> json option \<Rightarrow> staff_page \<Rightarrow> staff_page" where
  "loaded options person s =
     (let s1 = s\<lparr>st_options := Some (read_queues options), st_user := person\<rparr>;
          s2 = (case person of None \<Rightarrow> s1 | Some u \<Rightarrow> s1\<lparr>st_access := draft_of (jget u ''access'')\<rparr>)
      in s2\<lparr>st_access := restrict_defaults (st_options s2) (st_access s2)\<rparr>)"

definition fetch_user :: "admin_world \<Rightarrow> string option \<Rightarrow> (staff_page, json option) act" where
  "fetch_user w userId =
     (if truthy_string userId
      then bind_act (api_get w (staff_url w (Staff_detail (the userId))))
             (\<lambda>j. return_act (if j = JNull then None else Some j))
      else return_act None)"

definition st_load :: "admin_world \<Rightarrow> bool \<Rightarrow> string option \<Rightarrow> (staff_page, unit) act" where
  "st_load w canAdminister userId =
     (if \<not> canAdminister then set_act (st_isLoading_update (\<lambda>_. False))
      else finally_act
        (catch_act
          (then_act (set_act (\<lambda>s. s\<lparr>st_isLoading := True, st_error := None\<rparr>))
            (bind_act (both (api_get w (staff_url w Staff_options)) (fetch_user w userId))
              (\<lambda>(options, person). set_act (loaded options person))))
          (st_fail ''Unable to load staff access.''))
        (st_isLoading_update (\<lambda>_. False)))"

definition can_manage :: "staff_page \<Rightarrow> bool" where
  "can_manage s = (case st_user s of None \<Rightarrow> False | Some u \<Rightarrow> truthy (jget u ''can_manage''))"

definition writable :: "string option \<Rightarrow> staff_page \<Rightarrow> bool" where
  "writable userId s \<longleftrightarrow> \<not> truthy_string userId \<or> can_manage s"

definition invite_body :: "staff_page \<Rightarrow> json" where
  "invite_body s = JObj (write_members (writePayload (st_options s) (st_access s)) @
     [(''email'', JStr (st_email s)), (''first_name'', JStr (st_firstName s)), (''last_name'', JStr (st_lastName s))])"

definition update_body :: "staff_page \<Rightarrow> json" where
  "update_body s = JObj (write_members (writePayload (st_options s) (st_access s)))"

definition user_of :: "json \<Rightarrow> json option" where
  "user_of response = jget response ''user''"

definition save_access :: "admin_world \<Rightarrow> string option \<Rightarrow> json \<Rightarrow> (staff_page, unit) act" where
  "save_access w userId access_body =
     (if \<not> truthy_string userId then
        bind_act (api_send w ''POST'' (staff_url w Staff_invite) (JsonBody access_body)) (\<lambda>response.
          bind_act (lift_act (member_of (user_of response) ''id'')) (\<lambda>i.
            set_act (\<lambda>t. t\<lparr>st_pushed := st_pushed t @ [''/admin/access/users/'' @ js_text (nullish i JNull)]\<rparr>)))
      else
        bind_act (api_send w ''PUT'' (staff_url w (Staff_update (the userId))) (JsonBody access_body)) (\<lambda>nextUser.
          set_act (\<lambda>t. t\<lparr>st_user := (if nextUser = JNull then None else Some nextUser),
                         st_notice := Some ''Staff access updated.''\<rparr>)))"

definition st_submit :: "admin_world \<Rightarrow> string option \<Rightarrow> (staff_page, unit) act" where
  "st_submit w userId s =
     (if \<not> writable userId s then (s, Inr ())
      else finally_act
        (catch_act
          (then_act (set_act (\<lambda>s. s\<lparr>st_isSaving := True, st_error := None, st_notice := None\<rparr>))
            (save_access w userId (if \<not> truthy_string userId then invite_body s else update_body s)))
          (st_fail ''Unable to save staff access.''))
        (st_isSaving_update (\<lambda>_. False)) s)"

text \<open>\<^verbatim>\<open>await fetchAPI(..., { method: "POST" })\<close> and the use of its answer.\<close>

definition st_call :: "admin_world \<Rightarrow> staff_call \<Rightarrow> (json \<Rightarrow> staff_page \<Rightarrow> staff_page) \<Rightarrow> string \<Rightarrow> (staff_page, unit) act" where
  "st_call w c f fallback =
     finally_act
       (catch_act
         (then_act (set_act (\<lambda>s. s\<lparr>st_isSaving := True, st_error := None\<rparr>))
           (bind_act (api_send w ''POST'' (staff_url w c) NoBody) (\<lambda>j.
              bind_act (lift_act (non_null j)) (\<lambda>response. set_act (f response)))))
         (st_fail fallback))
       (st_isSaving_update (\<lambda>_. False))"

definition changeStatus :: "admin_world \<Rightarrow> string option \<Rightarrow> bool \<Rightarrow> (staff_page, unit) act" where
  "changeStatus w userId active s =
     (if \<not> truthy_string userId \<or> \<not> can_manage s then (s, Inr ())
      else st_call w (if active then Staff_activate (the userId) else Staff_deactivate (the userId))
        (\<lambda>response t. t\<lparr>st_user := user_of response, st_notice := Some (json_text (jget response ''message''))\<rparr>)
        ''Unable to change account status.'' s)"

definition setup_pending :: "staff_page \<Rightarrow> bool" where
  "setup_pending s = (case st_user s of None \<Rightarrow> False | Some u \<Rightarrow> truthy (jget u ''setup_pending''))"

definition resendInvitation :: "admin_world \<Rightarrow> string option \<Rightarrow> (staff_page, unit) act" where
  "resendInvitation w userId s =
     (if \<not> truthy_string userId \<or> \<not> can_manage s \<or> \<not> setup_pending s then (s, Inr ())
      else st_call w (Staff_resendInvitation (the userId))
        (\<lambda>response t. t\<lparr>st_user := user_of response,
           st_notice := Some (if truthy (jget response ''invitation_email_sent'')
             then ''Invitation email sent with a fresh one-hour setup link.''
             else ''A fresh setup link was created, but the invitation email could not be sent.'')\<rparr>)
        ''Unable to resend invitation.'' s)"

section \<open>Editing\<close>

datatype staff_edit =
    Toggle_group int | Toggle_permission int | Set_all_clients bool | Toggle_client int
  | Set_all_queues bool | Toggle_queue int | Set_mode default_mode | Toggle_default int

text \<open>
  A change of the draft. The effect runs after the changes its inputs depend on: the queues
  that are accessible.
\<close>

fun edit_access :: "queue_options option \<Rightarrow> staff_edit \<Rightarrow> access_draft \<Rightarrow> access_draft" where
  "edit_access opts (Toggle_group i) a = a\<lparr>group_ids := toggleId (group_ids a) i\<rparr>"
| "edit_access opts (Toggle_permission i) a = a\<lparr>direct_permission_ids := toggleId (direct_permission_ids a) i\<rparr>"
| "edit_access opts (Set_all_clients b) a = a\<lparr>all_clients := b\<rparr>"
| "edit_access opts (Toggle_client i) a = a\<lparr>client_ids := toggleId (client_ids a) i\<rparr>"
| "edit_access opts (Set_all_queues b) a = restrict_defaults opts (a\<lparr>all_ticket_queues := b\<rparr>)"
| "edit_access opts (Toggle_queue i) a = restrict_defaults opts (a\<lparr>ticket_queue_ids := toggleId (ticket_queue_ids a) i\<rparr>)"
| "edit_access opts (Set_mode m) a = a\<lparr>default_mode := m\<rparr>"
| "edit_access opts (Toggle_default i) a = a\<lparr>default_ticket_queue_ids := toggleId (default_ticket_queue_ids a) i\<rparr>"

text \<open>Default queues are offered only when they are accessible and enabled.\<close>

fun offered :: "staff_edit \<Rightarrow> staff_page \<Rightarrow> bool" where
  "offered (Toggle_default i) s =
     (default_mode (st_access s) = Mode_selected \<and> i \<in> set (accessibleEnabledQueueIds (st_options s) (st_access s)))"
| "offered e s = True"

definition staff_edited :: "staff_edit \<Rightarrow> staff_page \<Rightarrow> staff_page" where
  "staff_edited e s = s\<lparr>st_access := edit_access (st_options s) e (st_access s)\<rparr>"

inductive staff_step :: "admin_world \<Rightarrow> bool \<Rightarrow> string option \<Rightarrow> staff_page \<Rightarrow> staff_page \<Rightarrow> bool"
  for w :: admin_world and can :: bool and userId :: "string option" where
  step_load: "staff_step w can userId s (fst (st_load w can userId s))"
| step_edit: "can \<Longrightarrow> writable userId s \<Longrightarrow> offered e s \<Longrightarrow> staff_step w can userId s (staff_edited e s)"
| step_submit: "staff_step w can userId s (fst (st_submit w userId s))"
| step_status: "staff_step w can userId s (fst (changeStatus w userId active s))"
| step_resend: "staff_step w can userId s (fst (resendInvitation w userId s))"

section \<open>The server\<close>

definition queues_in_scope :: "queue_options \<Rightarrow> staff_write \<Rightarrow> int list" where
  "queues_in_scope queues p =
     map fst (filter (\<lambda>(i, enabled). enabled \<and> (sw_all_ticket_queues p \<or> i \<in> set (sw_ticket_queue_ids p))) queues)"

definition server_accepts :: "queue_options \<Rightarrow> staff_write \<Rightarrow> bool" where
  "server_accepts queues p = list_all (\<lambda>i. i \<in> set (queues_in_scope queues p)) (sw_default_ticket_queue_ids p)"

definition stored_defaults :: "queue_options \<Rightarrow> staff_write \<Rightarrow> int list" where
  "stored_defaults queues p =
     (if set (sw_default_ticket_queue_ids p) = set (queues_in_scope queues p) then []
      else sort (remdups (sw_default_ticket_queue_ids p)))"

text \<open>What the server answers for the member of staff afterwards.\<close>

definition access_answer :: "queue_options \<Rightarrow> staff_write \<Rightarrow> json" where
  "access_answer queues p = JObj
     [(''group_ids'', ints_json (sw_group_ids p)), (''direct_permission_ids'', ints_json (sw_direct_permission_ids p)),
      (''clients'', JObj [(''all'', JBool (sw_all_clients p)), (''ids'', ints_json (sw_client_ids p))]),
      (''ticket_queues'', JObj [(''all'', JBool (sw_all_ticket_queues p)), (''ids'', ints_json (sw_ticket_queue_ids p))]),
      (''default_ticket_queue_ids'', ints_json (stored_defaults queues p))]"

text \<open>The queues a draft makes the default work view.\<close>

definition effective_defaults :: "queue_options option \<Rightarrow> access_draft \<Rightarrow> int set" where
  "effective_defaults opts a =
     (if default_mode a = Mode_all then set (accessibleEnabledQueueIds opts a) else set (default_ticket_queue_ids a))"

section \<open>Lemmas\<close>

definition staff_inv :: "staff_page \<Rightarrow> bool" where
  "staff_inv s \<longleftrightarrow>
     set (default_ticket_queue_ids (st_access s)) \<subseteq> set (accessibleEnabledQueueIds (st_options s) (st_access s))"

lemma accessible_cong:
  "all_ticket_queues a = all_ticket_queues b \<Longrightarrow> ticket_queue_ids a = ticket_queue_ids b \<Longrightarrow>
   accessibleEnabledQueueIds opts a = accessibleEnabledQueueIds opts b"
  by (simp add: accessibleEnabledQueueIds_def split: option.splits)

lemma restrict_accessible [simp]:
  "accessibleEnabledQueueIds opts (restrict_defaults o' a) = accessibleEnabledQueueIds opts a"
  by (simp add: restrict_defaults_def accessibleEnabledQueueIds_def split: option.splits)

lemma accessible_ignores [simp]:
  "accessibleEnabledQueueIds opts (a\<lparr>group_ids := g\<rparr>) = accessibleEnabledQueueIds opts a"
  "accessibleEnabledQueueIds opts (a\<lparr>direct_permission_ids := g\<rparr>) = accessibleEnabledQueueIds opts a"
  "accessibleEnabledQueueIds opts (a\<lparr>all_clients := b\<rparr>) = accessibleEnabledQueueIds opts a"
  "accessibleEnabledQueueIds opts (a\<lparr>client_ids := g\<rparr>) = accessibleEnabledQueueIds opts a"
  "accessibleEnabledQueueIds opts (a\<lparr>default_ticket_queue_ids := g\<rparr>) = accessibleEnabledQueueIds opts a"
  "accessibleEnabledQueueIds opts (a\<lparr>default_mode := m\<rparr>) = accessibleEnabledQueueIds opts a"
  by (simp_all add: accessibleEnabledQueueIds_def split: option.splits)

lemma restrict_inv: "staff_inv (s\<lparr>st_access := restrict_defaults (st_options s) a\<rparr>)"
  by (auto simp: staff_inv_def) (auto simp: restrict_defaults_def)

lemma edit_inv: "staff_inv s \<Longrightarrow> offered e s \<Longrightarrow> staff_inv (staff_edited e s)"
  using restrict_inv [of s]
  by (cases e) (auto simp: staff_edited_def, auto simp: staff_inv_def toggleId_def split: if_splits)

lemma loaded_inv: "staff_inv (loaded opts person s)"
  by (auto simp: loaded_def Let_def restrict_inv)

lemma staff_inv_frame:
  "st_access t = st_access s \<Longrightarrow> st_options t = st_options s \<Longrightarrow> staff_inv s \<Longrightarrow> staff_inv t"
  by (simp add: staff_inv_def)

lemma staff_api [act_intros]: "leaves staff_inv staff_inv (api_get w u)" "leaves staff_inv staff_inv (api_send w m u b)"
  by (intro act_intros; simp add: staff_inv_def)+

lemma staff_fail [act_intros]: "leaves staff_inv staff_inv (st_fail f e)"
  unfolding st_fail_def by (intro act_intros) (simp add: staff_inv_def)

lemma staff_load_inv: "leaves staff_inv staff_inv (st_load w can userId)"
  unfolding st_load_def fetch_user_def
  by (intro act_intros; (simp add: staff_inv_def split_def)?; (intro act_intros)?; simp add: loaded_inv)

lemma staff_call_inv:
  "(\<And>r s. st_access (f r s) = st_access s \<and> st_options (f r s) = st_options s) \<Longrightarrow> leaves staff_inv staff_inv (st_call w c f m)"
  unfolding st_call_def by (intro act_intros) (auto simp: staff_inv_def)

lemma staff_frame_set [act_intros]:
  "(\<And>s. st_access (f s) = st_access s \<and> st_options (f s) = st_options s) \<Longrightarrow> leaves staff_inv staff_inv (set_act f)"
  by (intro leaves_set) (auto simp: staff_inv_def)

lemma staff_save_inv: "leaves staff_inv staff_inv (save_access w userId b)"
  unfolding save_access_def by (intro act_intros) simp_all

lemma staff_submit_inv: "staff_inv s \<Longrightarrow> staff_inv (fst (st_submit w userId s))"
proof -
  have L: "leaves staff_inv staff_inv
    (finally_act (catch_act (then_act (set_act (\<lambda>s. s\<lparr>st_isSaving := True, st_error := None, st_notice := None\<rparr>))
       (save_access w userId b)) (st_fail m)) (st_isSaving_update (\<lambda>_. False)))" for b m
    by (intro leaves_finally leaves_catch leaves_then staff_save_inv staff_fail staff_frame_set) (auto simp: staff_inv_def)
  show "staff_inv s \<Longrightarrow> ?thesis" using leavesD [OF L] by (simp add: st_submit_def)
qed

lemma staff_status_inv: "staff_inv s \<Longrightarrow> staff_inv (fst (changeStatus w userId active s))"
  unfolding changeStatus_def
  by (auto intro!: leavesD [of staff_inv staff_inv] staff_call_inv)

lemma staff_resend_inv: "staff_inv s \<Longrightarrow> staff_inv (fst (resendInvitation w userId s))"
  unfolding resendInvitation_def
  by (auto intro!: leavesD [of staff_inv staff_inv] staff_call_inv)

lemma staff_step_inv: "staff_step w can userId s t \<Longrightarrow> staff_inv s \<Longrightarrow> staff_inv t"
  by (induction rule: staff_step.induct)
    (auto intro: leavesD [OF staff_load_inv] edit_inv staff_submit_inv staff_status_inv staff_resend_inv)

interpretation staff: safe_machine "\<lambda>s. s = staff_init" "staff_step w can userId" staff_inv
  by unfold_locales (simp add: staff_init_def staff_inv_def EMPTY_ACCESS_def, fast intro: staff_step_inv)

interpretation staff_form: submit_handler "st_submit w userId" st_isSaving
  by (rule submit_handlerI) (auto simp: st_submit_def form_simps st_fail_def intro!: catch_isl)

interpretation staff_status: submit_handler "changeStatus w userId active" st_isSaving
  by (rule submit_handlerI) (auto simp: changeStatus_def st_call_def form_simps st_fail_def intro!: catch_isl)

interpretation staff_resend: submit_handler "resendInvitation w userId" st_isSaving
  by (rule submit_handlerI) (auto simp: resendInvitation_def st_call_def form_simps st_fail_def intro!: catch_isl)

lemma payload_scope:
  "set (queues_in_scope q (writePayload (Some q) a)) = set (accessibleEnabledQueueIds (Some q) a)"
  by (auto simp: queues_in_scope_def writePayload_def accessibleEnabledQueueIds_def split: if_splits)

lemma json_ints_json [simp]: "json_ints (Some (ints_json xs)) = xs"
  by (simp add: json_ints_def ints_json_def json_list_def json_int_def o_def)

lemma payload_fields [simp]:
  "sw_group_ids (writePayload o' a) = group_ids a" "sw_direct_permission_ids (writePayload o' a) = direct_permission_ids a"
  "sw_all_clients (writePayload o' a) = all_clients a" "sw_all_ticket_queues (writePayload o' a) = all_ticket_queues a"
  "sw_client_ids (writePayload o' a) = (if all_clients a then [] else client_ids a)"
  "sw_ticket_queue_ids (writePayload o' a) = (if all_ticket_queues a then [] else ticket_queue_ids a)"
  by (simp_all add: writePayload_def)

lemma draft_answer:
  "draft_of (Some (access_answer q p)) =
     \<lparr>group_ids = sw_group_ids p, direct_permission_ids = sw_direct_permission_ids p, all_clients = sw_all_clients p,
      client_ids = sw_client_ids p, all_ticket_queues = sw_all_ticket_queues p,
      ticket_queue_ids = sw_ticket_queue_ids p, default_ticket_queue_ids = stored_defaults q p,
      default_mode = (if stored_defaults q p = [] then Mode_all else Mode_selected)\<rparr>"
  by (simp add: draft_of_def access_answer_def member2_def json_true_def Let_def)

section \<open>Properties\<close>

text \<open>
  C20: the access the form writes is one the server accepts. In every state the editor can reach,
  by any sequence of loads, edits, submissions, status changes and resent invitations, failed
  ones included, the default queues of the payload are enabled queues within the scope of the
  payload itself; and a payload that grants everything names nothing: no client ids beside all
  clients, no queue ids beside all queues.
\<close>

theorem staff_payload_within_scope:
  assumes "reachable (\<lambda>s. s = staff_init) (staff_step w can userId) s" and "st_options s = Some q"
  shows "server_accepts q (writePayload (st_options s) (st_access s)) \<and>
    (all_clients (st_access s) \<longrightarrow> sw_client_ids (writePayload (st_options s) (st_access s)) = []) \<and>
    (all_ticket_queues (st_access s) \<longrightarrow> sw_ticket_queue_ids (writePayload (st_options s) (st_access s)) = [])"
  using staff.inv_reachable [OF assms(1)] payload_scope [of q "st_access s"]
  by (auto simp: assms(2) staff_inv_def server_accepts_def list_all_iff) (auto simp: writePayload_def split: if_splits)

definition demo_staff_options :: json where
  "demo_staff_options = JObj [(''ticket_queues'',
     JArr [JObj [(''id'', JNum 1), (''enabled'', JBool True)], JObj [(''id'', JNum 2), (''enabled'', JBool False)]])]"

definition demo_staff_world :: admin_world where
  "demo_staff_world = \<lparr>aw_server = (\<lambda>h r. Inr \<lparr>status = 200, json_body = Inr demo_staff_options, resp_headers = []\<rparr>),
     aw_document = None, aw_api = ''https://api''\<rparr>"

definition demo_staff_state :: staff_page where
  "demo_staff_state = staff_edited (Toggle_default 1) (staff_edited (Set_mode Mode_selected)
     (staff_edited (Set_all_queues True) (fst (st_load demo_staff_world True None staff_init))))"

lemma demo_staff_loaded:
  "fst (st_load demo_staff_world True None staff_init) =
     staff_init\<lparr>st_options := Some [(1, True), (2, False)], st_isLoading := False,
       sent := sent (fst (st_load demo_staff_world True None staff_init))\<rparr>"
  by code_simp

lemma demo_staff_reachable:
  "reachable (\<lambda>s. s = staff_init) (staff_step demo_staff_world True None) demo_staff_state"
proof -
  let ?r = "reachable (\<lambda>s. s = staff_init) (staff_step demo_staff_world True None)"
  let ?s = "fst (st_load demo_staff_world True None staff_init)"
  have "?r ?s" by (rule reach_step, rule reach_init, rule refl, rule step_load)
  then have 1: "?r (staff_edited (Set_all_queues True) ?s)" (is "reachable _ _ ?t")
    by (rule reach_step) (rule step_edit, simp_all add: writable_def)
  then have 2: "?r (staff_edited (Set_mode Mode_selected) ?t)" (is "reachable _ _ ?u")
    by (rule reach_step) (rule step_edit, simp_all add: writable_def)
  have "offered (Toggle_default 1) ?u"
    by (subst demo_staff_loaded) (simp add: staff_edited_def accessibleEnabledQueueIds_def restrict_defaults_def staff_init_def EMPTY_ACCESS_def)
  then show ?thesis
    unfolding demo_staff_state_def by (intro reach_step [OF 2] step_edit) (simp_all add: writable_def)
qed

theorem staff_payload_within_scope_witness:
  "server_accepts [(1, True), (2, False)] (writePayload (st_options demo_staff_state) (st_access demo_staff_state)) \<and>
   sw_default_ticket_queue_ids (writePayload (st_options demo_staff_state) (st_access demo_staff_state)) = [1]"
proof -
  have s: "st_options demo_staff_state = Some [(1, True), (2, False)]"
    "st_access demo_staff_state = EMPTY_ACCESS\<lparr>all_ticket_queues := True, default_mode := Mode_selected, default_ticket_queue_ids := [1]\<rparr>"
    unfolding demo_staff_state_def by (subst demo_staff_loaded,
      simp add: staff_edited_def restrict_defaults_def staff_init_def EMPTY_ACCESS_def toggleId_def)+
  show ?thesis
    using staff_payload_within_scope [OF demo_staff_reachable s(1)] by (simp add: s writePayload_def)
qed

text \<open>
  The draft survives saving. When the server answers with what it stored, the groups,
  capabilities and scopes read back as written, and the default work view is the same: the
  server stores \<open>all accessible\<close> as no preference, and the form reads no preference as
  \<open>all accessible\<close>. The one exception is a selection of no queue at all, which comes back
  as all of them.
\<close>

theorem staff_access_roundtrip:
  assumes "set (default_ticket_queue_ids a) \<subseteq> set (accessibleEnabledQueueIds (Some q) a)"
  shows "let b = draft_of (Some (access_answer q (writePayload (Some q) a))) in
    group_ids b = group_ids a \<and> direct_permission_ids b = direct_permission_ids a \<and>
    all_clients b = all_clients a \<and> all_ticket_queues b = all_ticket_queues a \<and>
    writePayload (Some q) (b\<lparr>default_mode := Mode_all\<rparr>) = writePayload (Some q) (a\<lparr>default_mode := Mode_all\<rparr>) \<and>
    effective_defaults (Some q) b =
      (if default_mode a = Mode_selected \<and> default_ticket_queue_ids a = [] then set (accessibleEnabledQueueIds (Some q) a)
       else effective_defaults (Some q) a)"
proof -
  let ?p = "writePayload (Some q) a"
  define b where "b = draft_of (Some (access_answer q ?p))"
  have f: "group_ids b = group_ids a" "direct_permission_ids b = direct_permission_ids a" "all_clients b = all_clients a"
    "all_ticket_queues b = all_ticket_queues a" "client_ids b = sw_client_ids ?p" "ticket_queue_ids b = sw_ticket_queue_ids ?p"
    "default_ticket_queue_ids b = stored_defaults q ?p" "default_mode b = (if stored_defaults q ?p = [] then Mode_all else Mode_selected)"
    by (simp_all add: b_def draft_answer)
  have acc: "accessibleEnabledQueueIds (Some q) b = accessibleEnabledQueueIds (Some q) a"
    by (auto simp: accessibleEnabledQueueIds_def f intro!: arg_cong [of _ _ "map fst"] filter_cong)
  have "writePayload (Some q) (b\<lparr>default_mode := Mode_all\<rparr>) = writePayload (Some q) (a\<lparr>default_mode := Mode_all\<rparr>)"
    by (simp add: writePayload_def f acc)
  moreover have "effective_defaults (Some q) b =
      (if default_mode a = Mode_selected \<and> default_ticket_queue_ids a = [] then set (accessibleEnabledQueueIds (Some q) a)
       else effective_defaults (Some q) a)"
  proof (cases "default_mode a")
    case Mode_all
    then have "stored_defaults q ?p = []"
      unfolding stored_defaults_def payload_scope by (simp add: writePayload_def)
    with Mode_all show ?thesis by (simp add: effective_defaults_def f acc)
  next
    case Mode_selected
    then have d: "sw_default_ticket_queue_ids ?p = default_ticket_queue_ids a" by (simp add: writePayload_def)
    have "sort (remdups ys) = [] \<longleftrightarrow> ys = []" for ys :: "int list"
      by (metis set_empty set_remdups set_sort)
    then show ?thesis
      using Mode_selected acc by (auto simp: effective_defaults_def f stored_defaults_def payload_scope d)
  qed
  ultimately show ?thesis by (simp add: b_def [symmetric] f Let_def)
qed

definition demo_draft :: access_draft where
  "demo_draft = EMPTY_ACCESS\<lparr>group_ids := [4], ticket_queue_ids := [1, 3], default_mode := Mode_selected, default_ticket_queue_ids := [3]\<rparr>"

theorem staff_access_roundtrip_witness:
  "effective_defaults (Some [(1, True), (2, True), (3, True)])
     (draft_of (Some (access_answer [(1, True), (2, True), (3, True)] (writePayload (Some [(1, True), (2, True), (3, True)]) demo_draft)))) = {3}"
proof -
  have "set (default_ticket_queue_ids demo_draft) \<subseteq> set (accessibleEnabledQueueIds (Some [(1, True), (2, True), (3, True)]) demo_draft)"
    by (simp add: demo_draft_def accessibleEnabledQueueIds_def EMPTY_ACCESS_def)
  from staff_access_roundtrip [OF this] show ?thesis
    by (simp add: Let_def effective_defaults_def demo_draft_def)
qed

text \<open>Grouping the capabilities by their label loses none of them.\<close>

lemma capability_groups_lossless:
  "map_of (capabilityGroups cs) label = (let g = filter (\<lambda>c. permissionGroupLabel c = label) cs in if g = [] then None else Some g)"
proof (induction cs rule: rev_induct)
  case Nil
  then show ?case by (simp add: capabilityGroups_def)
next
  case (snoc c cs)
  then show ?case by (auto simp: capabilityGroups_def Let_def)
qed

end
