(* ===== verification/Admin_Credentials.thy ===== *)
theory Admin_Credentials
  imports Admin_Ordering Admin_Time State_Machine
begin

text \<open>
  \<^verbatim>\<open>app/(admin)/admin/credentials/CredentialForm.tsx\<close>: creating and editing a
  credential. The form's field_list, the two effects that follow a change of the template and of
  the owner, the payloads and the submission. The answers of the API have the members and
  types the code casts them to; \<open>to_iso\<close> is the platform's reading of a date-and-time field.

  The rules the server applies to a payload are those of
  \<^verbatim>\<open>backend/apps/credentials/ninja/views.py\<close>.
\<close>

section \<open>Templates and resources\<close>

datatype storage = Username | Url | Metadata | Secret

record cred_field =
  cf_key :: string
  cf_storage :: storage
  cf_required :: bool

record cred_type =
  ct_id :: int
  ct_fields :: "cred_field list"

record cred_resource =
  cr_id :: int
  cr_client :: "int option"

record cred_options =
  co_types :: "cred_type list"
  co_resources :: "cred_resource list"

definition read_storage :: "json option \<Rightarrow> storage" where
  "read_storage j =
     (if json_text j = ''username'' then Username else if json_text j = ''url'' then Url
      else if json_text j = ''metadata'' then Metadata else Secret)"

definition read_field :: "json \<Rightarrow> cred_field" where
  "read_field j = \<lparr>cf_key = json_text (jget j ''key''), cf_storage = read_storage (jget j ''storage''),
     cf_required = json_true (jget j ''required'')\<rparr>"

definition json_id :: "json option \<Rightarrow> int option" where
  "json_id j = (case j of Some (JNum n) \<Rightarrow> Some n | _ \<Rightarrow> None)"

definition read_options :: "json \<Rightarrow> cred_options" where
  "read_options j =
     \<lparr>co_types = map (\<lambda>t. \<lparr>ct_id = json_int (jget t ''id''), ct_fields = map read_field (json_list (jget t ''fields''))\<rparr>)
        (json_list (jget j ''types'')),
      co_resources = map (\<lambda>r. \<lparr>cr_id = json_int (jget r ''id''), cr_client = json_id (jget r ''client_id'')\<rparr>)
        (json_list (jget j ''resources''))\<rparr>"

record cred_link =
  lk_resource :: int
  lk_purpose :: "string option"
  lk_primary :: "bool option"

text \<open>The credential being edited.\<close>

record credential =
  cd_id :: int
  cd_username :: string
  cd_url :: string
  cd_metadata :: "(string \<times> string) list"
  cd_secret_keys :: "string list"
  cd_links :: "cred_link list"

section \<open>The form\<close>

datatype ownership = Owned_internal | Owned_client

record cred_form = net +
  fm_options :: "cred_options option"
  fm_isLoading :: bool
  fm_loadError :: "string option"
  fm_isSaving :: bool
  fm_saveError :: "string option"
  fm_name :: string
  fm_typeId :: string
  fm_ownership :: ownership
  fm_clientId :: string
  fm_status :: string
  fm_description :: string
  fm_expiresAt :: string
  fm_values :: "(string \<times> string) list"
  fm_clear :: "string list"
  fm_links :: "cred_link list"
  fm_saved :: "json list"

definition initialValues :: "credential \<Rightarrow> cred_field list \<Rightarrow> (string \<times> string) list" where
  "initialValues credential field_list =
     foldl (\<lambda>values field. alist_put (cf_key field)
       (case cf_storage field of
          Username \<Rightarrow> cd_username credential
        | Url \<Rightarrow> cd_url credential
        | Metadata \<Rightarrow> nullish (map_of (cd_metadata credential) (cf_key field)) []
        | Secret \<Rightarrow> []) values) [] field_list"

definition kept_values :: "(string \<times> string) list \<Rightarrow> cred_field list \<Rightarrow> (string \<times> string) list" where
  "kept_values current field_list =
     foldl (\<lambda>values field. alist_put (cf_key field) (nullish (map_of current (cf_key field)) []) values) [] field_list"

definition selectedType :: "cred_form \<Rightarrow> cred_type option" where
  "selectedType s =
     (case fm_options s of
        None \<Rightarrow> None
      | Some opts \<Rightarrow> find (\<lambda>t. Dec (ct_id t) 0 = js_Number (fm_typeId s)) (co_types opts))"

definition visibleResources :: "cred_form \<Rightarrow> cred_resource list" where
  "visibleResources s =
     (case fm_options s of
        None \<Rightarrow> []
      | Some opts \<Rightarrow>
          if fm_ownership s = Owned_internal then co_resources opts
          else filter (\<lambda>r. map_option (\<lambda>i. Dec i 0) (cr_client r) = Some (js_Number (fm_clientId s))) (co_resources opts))"

text \<open>The effect of a new template: the values of its field_list, and nothing to clear.\<close>

definition type_effect :: "credential option \<Rightarrow> cred_form \<Rightarrow> cred_form" where
  "type_effect cred s =
     (case selectedType s of
        None \<Rightarrow> s
      | Some t \<Rightarrow> s\<lparr>fm_values := (case cred of Some c \<Rightarrow> initialValues c (ct_fields t)
                                  | None \<Rightarrow> kept_values (fm_values s) (ct_fields t)),
                    fm_clear := []\<rparr>)"

text \<open>The effect of new visible resources: links to others are dropped.\<close>

definition links_effect :: "cred_form \<Rightarrow> cred_form" where
  "links_effect s =
     (if fm_options s = None then s
      else s\<lparr>fm_links := filter (\<lambda>l. lk_resource l \<in> cr_id ` set (visibleResources s)) (fm_links s)\<rparr>)"

definition options_loaded :: "credential option \<Rightarrow> json \<Rightarrow> cred_form \<Rightarrow> cred_form" where
  "options_loaded cred j s =
     (let opts = read_options j;
          first = (case co_types opts of [] \<Rightarrow> [] | t # _ \<Rightarrow> int_str (ct_id t));
          s1 = s\<lparr>fm_options := Some opts, fm_typeId := (if fm_typeId s = [] then first else fm_typeId s)\<rparr>
      in links_effect (type_effect cred s1))"

definition loadOptions :: "admin_world \<Rightarrow> credential option \<Rightarrow> (cred_form, unit) act" where
  "loadOptions w cred =
     finally_act
       (catch_act
         (then_act (set_act (\<lambda>s. s\<lparr>fm_isLoading := True, fm_loadError := None\<rparr>))
           (bind_act (api_get w (call_url w (Vault Vault_options))) (\<lambda>j.
              bind_act (lift_act (non_null j)) (\<lambda>loaded. set_act (options_loaded cred loaded)))))
         (\<lambda>e. set_act (fm_loadError_update (\<lambda>_. Some (message_of ''Unable to load credential options.'' e)))))
       (fm_isLoading_update (\<lambda>_. False))"

definition updateValue :: "string \<Rightarrow> string \<Rightarrow> cred_form \<Rightarrow> cred_form" where
  "updateValue fieldKey value s =
     s\<lparr>fm_values := alist_put fieldKey value (fm_values s),
       fm_clear := (if value \<noteq> [] then filter (\<lambda>key. key \<noteq> fieldKey) (fm_clear s) else fm_clear s)\<rparr>"

definition setClear :: "string \<Rightarrow> bool \<Rightarrow> cred_form \<Rightarrow> cred_form" where
  "setClear fieldKey checked s =
     s\<lparr>fm_clear := (if checked then fm_clear s @ [fieldKey] else filter (\<lambda>key. key \<noteq> fieldKey) (fm_clear s))\<rparr>"

definition toggleResource :: "int \<Rightarrow> cred_form \<Rightarrow> cred_form" where
  "toggleResource resourceId s =
     s\<lparr>fm_links :=
       (if list_ex (\<lambda>l. lk_resource l = resourceId) (fm_links s)
        then filter (\<lambda>l. lk_resource l \<noteq> resourceId) (fm_links s)
        else fm_links s @ [\<lparr>lk_resource = resourceId, lk_purpose = Some [], lk_primary = Some (fm_links s = [])\<rparr>])\<rparr>"

definition updateResourceLink :: "int \<Rightarrow> (cred_link \<Rightarrow> cred_link) \<Rightarrow> cred_form \<Rightarrow> cred_form" where
  "updateResourceLink resourceId changes s =
     s\<lparr>fm_links := map (\<lambda>l. if lk_resource l = resourceId then changes l else l) (fm_links s)\<rparr>"

definition values_json :: "(string \<times> string) list \<Rightarrow> json" where
  "values_json kvs = JObj (map (\<lambda>(k, v). (k, JStr v)) kvs)"

definition link_json :: "cred_link \<Rightarrow> json" where
  "link_json l = object_of
     [(''resource_id'', Some (JNum (lk_resource l))), (''purpose'', map_option JStr (lk_purpose l)),
      (''is_primary'', map_option JBool (lk_primary l))]"

definition apiDateTimeValue :: "(string \<Rightarrow> string result) \<Rightarrow> string \<Rightarrow> json result" where
  "apiDateTimeValue to_iso value = (if value = [] then Inr JNull else and_then (to_iso value) (\<lambda>t. Inr (JStr t)))"

definition update_payload :: "(string \<Rightarrow> string result) \<Rightarrow> cred_form \<Rightarrow> json result" where
  "update_payload to_iso s =
     and_then (apiDateTimeValue to_iso (fm_expiresAt s)) (\<lambda>expires. Inr (JObj
       ([(''name'', JStr (trim (fm_name s))), (''status'', JStr (fm_status s)),
         (''description'', JStr (trim (fm_description s))), (''values'', values_json (fm_values s)),
         (''clear_secret_fields'', JArr (map JStr (fm_clear s))), (''resource_links'', JArr (map link_json (fm_links s)))] @
        (if fm_expiresAt s \<noteq> [] then [(''expires_at'', expires)] else [(''clear_expires_at'', JBool True)]))))"

definition ownership_text :: "ownership \<Rightarrow> string" where
  "ownership_text o' = (case o' of Owned_internal \<Rightarrow> ''internal'' | Owned_client \<Rightarrow> ''client'')"

text \<open>\<^verbatim>\<open>JSON.stringify\<close> prints what is no finite number as \<^verbatim>\<open>null\<close>.\<close>

definition number_json :: "number \<Rightarrow> json" where
  "number_json n = (case n of Dec m k \<Rightarrow> if k = 0 then JNum m else JNull | _ \<Rightarrow> JNull)"

definition create_payload :: "(string \<Rightarrow> string result) \<Rightarrow> cred_type \<Rightarrow> cred_form \<Rightarrow> json result" where
  "create_payload to_iso t s =
     and_then (apiDateTimeValue to_iso (fm_expiresAt s)) (\<lambda>expires. Inr (JObj
       [(''name'', JStr (trim (fm_name s))), (''credential_type_id'', JNum (ct_id t)),
        (''ownership_type'', JStr (ownership_text (fm_ownership s))),
        (''client_id'', if fm_ownership s = Owned_client then number_json (js_Number (fm_clientId s)) else JNull),
        (''status'', JStr (fm_status s)), (''description'', JStr (trim (fm_description s))), (''expires_at'', expires),
        (''values'', values_json (fm_values s)), (''resource_links'', JArr (map link_json (fm_links s)))]))"

definition send_credential ::
  "(string \<Rightarrow> string result) \<Rightarrow> admin_world \<Rightarrow> credential option \<Rightarrow> cred_type \<Rightarrow> cred_form \<Rightarrow> (cred_form, json) act" where
  "send_credential to_iso w cred t s =
     (case cred of
        Some c \<Rightarrow> bind_act (lift_act (update_payload to_iso s)) (\<lambda>payload.
          api_send w ''PUT'' (call_url w (Vault (Vault_update (cd_id c)))) (JsonBody payload))
      | None \<Rightarrow> bind_act (lift_act (create_payload to_iso t s)) (\<lambda>payload.
          api_send w ''POST'' (call_url w (Vault Vault_create)) (JsonBody payload)))"

text \<open>\<open>fm_saved\<close> holds what was passed to \<^verbatim>\<open>onSaved\<close>.\<close>

definition cred_submit ::
  "(string \<Rightarrow> string result) \<Rightarrow> admin_world \<Rightarrow> credential option \<Rightarrow> (cred_form, unit) act" where
  "cred_submit to_iso w cred s =
     (case selectedType s of
        None \<Rightarrow> (s\<lparr>fm_saveError := Some ''Choose a credential type.''\<rparr>, Inr ())
      | Some t \<Rightarrow>
          if fm_ownership s = Owned_client \<and> fm_clientId s = []
          then (s\<lparr>fm_saveError := Some ''Choose the client that owns this credential.''\<rparr>, Inr ())
          else finally_act
            (catch_act
              (then_act (set_act (\<lambda>s. s\<lparr>fm_isSaving := True, fm_saveError := None\<rparr>))
                (bind_act (send_credential to_iso w cred t s)
                  (\<lambda>saved. set_act (fm_saved_update (\<lambda>ss. ss @ [saved])))))
              (\<lambda>e. set_act (fm_saveError_update (\<lambda>_. Some (message_of ''Unable to save this credential.'' e)))))
            (fm_isSaving_update (\<lambda>_. False)) s)"

section \<open>Editing\<close>

datatype cred_edit =
    Choose_type string | Choose_ownership ownership | Choose_client string | Type_value string string
  | Set_clear string bool | Toggle_resource int | Set_purpose int string | Set_primary int bool
  | Type_name string | Type_description string | Choose_status string | Type_expiry string

fun cred_edited :: "credential option \<Rightarrow> cred_edit \<Rightarrow> cred_form \<Rightarrow> cred_form" where
  "cred_edited cred (Choose_type i) s =
     (let s' = s\<lparr>fm_typeId := i\<rparr> in if selectedType s' = selectedType s then s' else type_effect cred s')"
| "cred_edited cred (Choose_ownership o') s =
     links_effect (s\<lparr>fm_ownership := o', fm_clientId := (if o' = Owned_internal then [] else fm_clientId s)\<rparr>)"
| "cred_edited cred (Choose_client i) s = links_effect (s\<lparr>fm_clientId := i\<rparr>)"
| "cred_edited cred (Type_value k v) s = updateValue k v s"
| "cred_edited cred (Set_clear k b) s = setClear k b s"
| "cred_edited cred (Toggle_resource r) s = toggleResource r s"
| "cred_edited cred (Set_purpose r v) s = updateResourceLink r (lk_purpose_update (\<lambda>_. Some v)) s"
| "cred_edited cred (Set_primary r b) s = updateResourceLink r (lk_primary_update (\<lambda>_. Some b)) s"
| "cred_edited cred (Type_name v) s = s\<lparr>fm_name := v\<rparr>"
| "cred_edited cred (Type_description v) s = s\<lparr>fm_description := v\<rparr>"
| "cred_edited cred (Choose_status v) s = s\<lparr>fm_status := v\<rparr>"
| "cred_edited cred (Type_expiry v) s = s\<lparr>fm_expiresAt := v\<rparr>"

definition type_fields :: "cred_form \<Rightarrow> cred_field list" where
  "type_fields s = (case selectedType s of None \<Rightarrow> [] | Some t \<Rightarrow> ct_fields t)"

text \<open>What the page offers: inputs for the template's fields, clearing for stored optional secrets.\<close>

fun cred_offered :: "credential option \<Rightarrow> cred_edit \<Rightarrow> cred_form \<Rightarrow> bool" where
  "cred_offered cred (Choose_type i) s = (cred = None)"
| "cred_offered cred (Type_value k v) s = (k \<in> cf_key ` set (type_fields s))"
| "cred_offered cred (Set_clear k b) s =
     (case cred of None \<Rightarrow> False
      | Some c \<Rightarrow> k \<in> set (cd_secret_keys c) \<and>
          list_ex (\<lambda>f. cf_key f = k \<and> cf_storage f = Secret \<and> \<not> cf_required f) (type_fields s))"
| "cred_offered cred (Toggle_resource r) s = (r \<in> cr_id ` set (visibleResources s))"
| "cred_offered cred e s = True"

inductive cred_step :: "(string \<Rightarrow> string result) \<Rightarrow> admin_world \<Rightarrow> credential option \<Rightarrow> cred_form \<Rightarrow> cred_form \<Rightarrow> bool"
  for to_iso :: "string \<Rightarrow> string result" and w :: admin_world and cred :: "credential option" where
  cred_load: "cred_step to_iso w cred s (fst (loadOptions w cred s))"
| cred_edit: "cred_offered cred e s \<Longrightarrow> cred_step to_iso w cred s (cred_edited cred e s)"
| cred_send: "cred_step to_iso w cred s (fst (cred_submit to_iso w cred s))"

definition cred_init :: "credential option \<Rightarrow> cred_form \<Rightarrow> bool" where
  "cred_init cred s \<longleftrightarrow>
     fm_options s = None \<and> fm_values s = [] \<and> fm_clear s = [] \<and>
     (case cred of Some c \<Rightarrow> fm_links s = cd_links c \<and> distinct (map lk_resource (cd_links c))
      | None \<Rightarrow> length (fm_links s) \<le> 1)"

section \<open>The server\<close>

definition server_takes :: "cred_type \<Rightarrow> (string \<times> string) list \<Rightarrow> string list \<Rightarrow> cred_link list \<Rightarrow> bool" where
  "server_takes t values clear links \<longleftrightarrow>
     list_all (\<lambda>(k, v). k \<in> cf_key ` set (ct_fields t)) values \<and>
     list_all (\<lambda>k. list_ex (\<lambda>f. cf_key f = k \<and> cf_storage f = Secret \<and> \<not> cf_required f) (ct_fields t)) clear \<and>
     distinct (map lk_resource links)"

section \<open>Lemmas\<close>

definition form_inv :: "cred_form \<Rightarrow> bool" where
  "form_inv s \<longleftrightarrow>
     distinct (map lk_resource (fm_links s)) \<and>
     (fm_options s \<noteq> None \<longrightarrow> lk_resource ` set (fm_links s) \<subseteq> cr_id ` set (visibleResources s)) \<and>
     (selectedType s \<noteq> None \<longrightarrow>
        fst ` set (fm_values s) \<subseteq> cf_key ` set (type_fields s) \<and>
        (\<forall>k \<in> set (fm_clear s). \<exists>f \<in> set (type_fields s). cf_key f = k \<and> cf_storage f = Secret \<and> \<not> cf_required f))"

lemma keys_foldl_put: "fst ` set (foldl (\<lambda>values f. alist_put (g f) (h f) values) acc fs) = fst ` set acc \<union> g ` set fs"
  by (induction fs arbitrary: acc) (auto simp: keys_alist_put)

lemma value_keys:
  "fst ` set (initialValues c fs) = cf_key ` set fs" "fst ` set (kept_values v fs) = cf_key ` set fs"
  by (simp_all add: initialValues_def kept_values_def keys_foldl_put)

lemma selected_frame:
  "fm_options t = fm_options s \<Longrightarrow> fm_typeId t = fm_typeId s \<Longrightarrow> selectedType t = selectedType s"
  by (simp add: selectedType_def split: option.splits)

lemma visible_frame:
  "fm_options t = fm_options s \<Longrightarrow> fm_ownership t = fm_ownership s \<Longrightarrow> fm_clientId t = fm_clientId s \<Longrightarrow>
   visibleResources t = visibleResources s"
  by (simp add: visibleResources_def split: option.splits)

lemma type_effect_fields [simp]:
  "fm_options (type_effect cred s) = fm_options s" "fm_typeId (type_effect cred s) = fm_typeId s"
  "fm_links (type_effect cred s) = fm_links s" "fm_ownership (type_effect cred s) = fm_ownership s"
  "fm_clientId (type_effect cred s) = fm_clientId s"
  by (simp_all add: type_effect_def split: option.splits)

lemma links_effect_fields [simp]:
  "fm_options (links_effect s) = fm_options s" "fm_typeId (links_effect s) = fm_typeId s"
  "fm_values (links_effect s) = fm_values s" "fm_clear (links_effect s) = fm_clear s"
  "fm_ownership (links_effect s) = fm_ownership s" "fm_clientId (links_effect s) = fm_clientId s"
  by (simp_all add: links_effect_def)

text \<open>What each effect establishes, whatever was before.\<close>

definition values_fit :: "cred_form \<Rightarrow> bool" where
  "values_fit s \<longleftrightarrow> (selectedType s \<noteq> None \<longrightarrow>
     fst ` set (fm_values s) \<subseteq> cf_key ` set (type_fields s) \<and>
     (\<forall>k \<in> set (fm_clear s). \<exists>f \<in> set (type_fields s). cf_key f = k \<and> cf_storage f = Secret \<and> \<not> cf_required f))"

definition links_fit :: "cred_form \<Rightarrow> bool" where
  "links_fit s \<longleftrightarrow> distinct (map lk_resource (fm_links s)) \<and>
     (fm_options s \<noteq> None \<longrightarrow> lk_resource ` set (fm_links s) \<subseteq> cr_id ` set (visibleResources s))"

lemma form_inv_parts: "form_inv s \<longleftrightarrow> links_fit s \<and> values_fit s"
  by (simp add: form_inv_def links_fit_def values_fit_def)

lemma fields_frame: "selectedType t = selectedType s \<Longrightarrow> type_fields t = type_fields s"
  by (simp add: type_fields_def)

lemma values_fit_frame:
  "fm_options t = fm_options s \<Longrightarrow> fm_typeId t = fm_typeId s \<Longrightarrow> fm_values t = fm_values s \<Longrightarrow> fm_clear t = fm_clear s \<Longrightarrow>
   values_fit t = values_fit s"
  using selected_frame [of t s] fields_frame [of t s] by (simp add: values_fit_def)

lemma links_fit_frame:
  "fm_options t = fm_options s \<Longrightarrow> fm_ownership t = fm_ownership s \<Longrightarrow> fm_clientId t = fm_clientId s \<Longrightarrow>
   fm_links t = fm_links s \<Longrightarrow> links_fit t = links_fit s"
  using visible_frame [of t s] by (simp add: links_fit_def)

lemma type_effect_fits: "values_fit (type_effect cred s)"
proof (cases "selectedType s")
  case None
  then have "selectedType (type_effect cred s) = None" using selected_frame [of "type_effect cred s" s] by simp
  then show ?thesis by (simp add: values_fit_def)
next
  case (Some t)
  then have "type_fields (type_effect cred s) = ct_fields t"
    using selected_frame [of "type_effect cred s" s] by (simp add: type_fields_def)
  with Some show ?thesis by (auto simp: values_fit_def type_effect_def value_keys split: option.splits)
qed

lemma distinct_filter_links: "distinct (map lk_resource ls) \<Longrightarrow> distinct (map lk_resource (filter P ls))"
  by (rule distinct_map_filter)

lemma links_effect_fits: "distinct (map lk_resource (fm_links s)) \<Longrightarrow> links_fit (links_effect s)"
  using visible_frame [of "links_effect s" s]
  by (auto simp: links_fit_def) (auto simp: links_effect_def distinct_filter_links split: if_splits)

lemma options_loaded_inv: "distinct (map lk_resource (fm_links s)) \<Longrightarrow> form_inv (options_loaded cred j s)"
  unfolding form_inv_parts options_loaded_def Let_def
proof (intro conjI)
  let ?s = "s\<lparr>fm_options := Some (read_options j), fm_typeId := (if fm_typeId s = [] then
    (case co_types (read_options j) of [] \<Rightarrow> [] | t # _ \<Rightarrow> int_str (ct_id t)) else fm_typeId s)\<rparr>"
  assume d: "distinct (map lk_resource (fm_links s))"
  then show "links_fit (links_effect (type_effect cred ?s))" by (intro links_effect_fits) simp
  show "values_fit (links_effect (type_effect cred ?s))"
    using type_effect_fits [of cred ?s] values_fit_frame [of "links_effect (type_effect cred ?s)" "type_effect cred ?s"] by simp
qed

lemma edit_frames [simp]:
  "fm_options (updateResourceLink r f s) = fm_options s" "fm_ownership (updateResourceLink r f s) = fm_ownership s"
  "fm_clientId (updateResourceLink r f s) = fm_clientId s" "fm_typeId (updateResourceLink r f s) = fm_typeId s"
  "fm_values (updateResourceLink r f s) = fm_values s" "fm_clear (updateResourceLink r f s) = fm_clear s"
  "fm_options (setClear k b s) = fm_options s" "fm_ownership (setClear k b s) = fm_ownership s"
  "fm_clientId (setClear k b s) = fm_clientId s" "fm_typeId (setClear k b s) = fm_typeId s"
  "fm_links (setClear k b s) = fm_links s"
  "fm_options (updateValue k v s) = fm_options s" "fm_ownership (updateValue k v s) = fm_ownership s"
  "fm_clientId (updateValue k v s) = fm_clientId s" "fm_typeId (updateValue k v s) = fm_typeId s"
  "fm_links (updateValue k v s) = fm_links s"
  "fm_options (toggleResource r s) = fm_options s" "fm_ownership (toggleResource r s) = fm_ownership s"
  "fm_clientId (toggleResource r s) = fm_clientId s" "fm_typeId (toggleResource r s) = fm_typeId s"
  "fm_values (toggleResource r s) = fm_values s" "fm_clear (toggleResource r s) = fm_clear s"
  by (simp_all add: updateResourceLink_def setClear_def updateValue_def toggleResource_def)

lemma updateValue_fits: "k \<in> cf_key ` set (type_fields s) \<Longrightarrow> values_fit s \<Longrightarrow> values_fit (updateValue k v s)"
  using selected_frame [of "updateValue k v s" s] fields_frame [of "updateValue k v s" s]
  by (auto simp: values_fit_def updateValue_def keys_alist_put)

lemma setClear_fits:
  "list_ex (\<lambda>f. cf_key f = k \<and> cf_storage f = Secret \<and> \<not> cf_required f) (type_fields s) \<Longrightarrow> values_fit s \<Longrightarrow>
   values_fit (setClear k b s)"
  using selected_frame [of "setClear k b s" s] fields_frame [of "setClear k b s" s]
  by (auto simp: values_fit_def setClear_def list_ex_iff)

lemma toggleResource_fits: "r \<in> cr_id ` set (visibleResources s) \<Longrightarrow> links_fit s \<Longrightarrow> links_fit (toggleResource r s)"
  using visible_frame [of "toggleResource r s" s]
  by (auto simp: links_fit_def list_ex_iff toggleResource_def distinct_filter_links)

lemma updateResourceLink_fits:
  assumes "\<And>l. lk_resource (f l) = lk_resource l" and "links_fit s"
  shows "links_fit (updateResourceLink r f s)"
proof -
  have "map lk_resource (fm_links (updateResourceLink r f s)) = map lk_resource (fm_links s)"
    using assms(1) by (simp add: updateResourceLink_def)
  moreover from arg_cong [OF this, of set]
  have "lk_resource ` set (fm_links (updateResourceLink r f s)) = lk_resource ` set (fm_links s)" by simp
  ultimately show ?thesis
    using assms(2) visible_frame [of "updateResourceLink r f s" s]
    by (simp only: links_fit_def edit_frames) simp
qed

lemma choose_type_inv: "form_inv s \<Longrightarrow> form_inv (cred_edited cred (Choose_type i) s)"
proof -
  assume inv: "form_inv s"
  let ?s = "s\<lparr>fm_typeId := i\<rparr>"
  have l: "links_fit ?s" using inv links_fit_frame [of ?s s] by (simp add: form_inv_parts)
  show ?thesis
  proof (cases "selectedType ?s = selectedType s")
    case True
    then have "values_fit ?s" using inv fields_frame [OF True] by (simp add: form_inv_parts values_fit_def)
    with True l show ?thesis by (simp add: form_inv_parts)
  next
    case False
    moreover have "links_fit (type_effect cred ?s)" using l links_fit_frame [of "type_effect cred ?s" ?s] by simp
    ultimately show ?thesis by (simp add: form_inv_parts type_effect_fits)
  qed
qed

lemma cred_edit_inv: "cred_offered cred e s \<Longrightarrow> form_inv s \<Longrightarrow> form_inv (cred_edited cred e s)"
proof (cases e)
  case (Choose_type i)
  assume "form_inv s"
  then show ?thesis unfolding Choose_type by (rule choose_type_inv)
next
  case (Choose_ownership o')
  let ?s = "s\<lparr>fm_ownership := o', fm_clientId := (if o' = Owned_internal then [] else fm_clientId s)\<rparr>"
  assume "form_inv s"
  then show ?thesis
    using links_effect_fits [of ?s] values_fit_frame [of "links_effect ?s" s]
    by (simp add: Choose_ownership form_inv_parts links_fit_def)
next
  case (Choose_client i)
  let ?s = "s\<lparr>fm_clientId := i\<rparr>"
  assume "form_inv s"
  then show ?thesis
    using links_effect_fits [of ?s] values_fit_frame [of "links_effect ?s" s]
    by (simp add: Choose_client form_inv_parts links_fit_def)
next
  case (Type_value k v)
  assume "cred_offered cred e s" "form_inv s"
  then show ?thesis using links_fit_frame [of "updateValue k v s" s]
    by (simp add: Type_value form_inv_parts updateValue_fits)
next
  case (Set_clear k b)
  assume "cred_offered cred e s" "form_inv s"
  then show ?thesis using links_fit_frame [of "setClear k b s" s] setClear_fits [of k s b]
    by (simp add: Set_clear form_inv_parts split: option.splits)
next
  case (Toggle_resource r)
  assume "cred_offered cred e s" "form_inv s"
  then show ?thesis using values_fit_frame [of "toggleResource r s" s] toggleResource_fits [of r s]
    by (simp add: Toggle_resource form_inv_parts)
next
  case (Set_purpose r v)
  assume "form_inv s"
  then show ?thesis using values_fit_frame [of "updateResourceLink r (lk_purpose_update (\<lambda>_. Some v)) s" s]
    by (simp add: Set_purpose form_inv_parts updateResourceLink_fits)
next
  case (Set_primary r v)
  assume "form_inv s"
  then show ?thesis using values_fit_frame [of "updateResourceLink r (lk_primary_update (\<lambda>_. Some v)) s" s]
    by (simp add: Set_primary form_inv_parts updateResourceLink_fits)
qed (auto simp: form_inv_parts elim: iffD2 [OF values_fit_frame, rotated 4] iffD2 [OF links_fit_frame, rotated 4])

lemma form_inv_frame:
  "fm_options t = fm_options s \<Longrightarrow> fm_typeId t = fm_typeId s \<Longrightarrow> fm_values t = fm_values s \<Longrightarrow> fm_clear t = fm_clear s \<Longrightarrow>
   fm_ownership t = fm_ownership s \<Longrightarrow> fm_clientId t = fm_clientId s \<Longrightarrow> fm_links t = fm_links s \<Longrightarrow> form_inv s \<Longrightarrow> form_inv t"
  using values_fit_frame [of t s] links_fit_frame [of t s] by (simp add: form_inv_parts)

lemma form_set_frame [act_intros]:
  "(\<And>s. fm_options (f s) = fm_options s \<and> fm_typeId (f s) = fm_typeId s \<and> fm_values (f s) = fm_values s \<and>
     fm_clear (f s) = fm_clear s \<and> fm_ownership (f s) = fm_ownership s \<and> fm_clientId (f s) = fm_clientId s \<and>
     fm_links (f s) = fm_links s) \<Longrightarrow> leaves form_inv form_inv (set_act f)"
  by (intro leaves_set) (metis form_inv_frame)

lemma form_api [act_intros]: "leaves form_inv form_inv (api_get w u)" "leaves form_inv form_inv (api_send w m u b)"
  by (intro api_keeps; erule form_inv_frame [rotated -1]; simp)+

lemma load_options_inv: "leaves form_inv form_inv (loadOptions w cred)"
proof -
  have l: "leaves form_inv form_inv (set_act (options_loaded cred j))" for j
    by (intro leaves_set options_loaded_inv) (simp add: form_inv_def)
  show ?thesis
    unfolding loadOptions_def
    by (intro leaves_finally leaves_catch leaves_then leaves_bind leaves_lift form_api l form_set_frame)
      (simp_all, erule form_inv_frame [rotated -1], simp_all)
qed

lemma send_inv: "leaves form_inv form_inv (send_credential to_iso w cred t s)"
  unfolding send_credential_def by (auto split: option.split intro!: act_intros)

lemma cred_submit_inv: "form_inv s \<Longrightarrow> form_inv (fst (cred_submit to_iso w cred s))"
proof -
  have L: "leaves form_inv form_inv
    (finally_act (catch_act (then_act (set_act (\<lambda>s. s\<lparr>fm_isSaving := True, fm_saveError := None\<rparr>))
       (bind_act (send_credential to_iso w cred t v) (\<lambda>saved. set_act (fm_saved_update (\<lambda>ss. ss @ [saved])))))
       (\<lambda>e. set_act (fm_saveError_update (\<lambda>_. Some (message_of m e))))) (fm_isSaving_update (\<lambda>_. False)))" for t v m
    by (intro leaves_finally leaves_catch leaves_then leaves_bind send_inv form_set_frame)
      (simp_all, erule form_inv_frame [rotated -1], simp_all)
  show "form_inv s \<Longrightarrow> ?thesis"
    using leavesD [OF L] form_inv_frame [of "s\<lparr>fm_saveError := _\<rparr>" s] by (simp add: cred_submit_def split: option.split)
qed

lemma cred_init_inv: "cred_init cred s \<Longrightarrow> form_inv s"
  by (cases "fm_links s") (auto simp: cred_init_def form_inv_def selectedType_def split: option.splits)

lemma cred_step_inv: "cred_step to_iso w cred s t \<Longrightarrow> form_inv s \<Longrightarrow> form_inv t"
  by (induction rule: cred_step.induct) (auto intro: leavesD [OF load_options_inv] cred_edit_inv cred_submit_inv)

interpretation cred: safe_machine "cred_init cred" "cred_step to_iso w cred" form_inv
  by unfold_locales (rule cred_init_inv, assumption, fast intro: cred_step_inv)

interpretation cred_form: submit_handler "cred_submit to_iso w cred" fm_isSaving
  by (rule submit_handlerI) (auto simp: cred_submit_def form_simps split: option.split intro!: catch_isl)

section \<open>Properties\<close>


definition demo_cred_options :: json where
  "demo_cred_options = JObj [(''types'', JArr [JObj [(''id'', JNum 1), (''fields'', JArr [
     JObj [(''key'', JStr ''password''), (''storage'', JStr ''secret''), (''required'', JBool False)]])]]),
     (''resources'', JArr [JObj [(''id'', JNum 9), (''client_id'', JNull)]])]"

definition demo_cred_world :: admin_world where
  "demo_cred_world = \<lparr>aw_server = (\<lambda>h r. Inr \<lparr>status = 200, json_body = Inr demo_cred_options, resp_headers = []\<rparr>),
     aw_document = None, aw_api = ''https://api''\<rparr>"

definition demo_cred :: credential where
  "demo_cred = \<lparr>cd_id = 3, cd_username = [], cd_url = [], cd_metadata = [], cd_secret_keys = [''password''],
     cd_links = [\<lparr>lk_resource = 8, lk_purpose = None, lk_primary = None\<rparr>]\<rparr>"

definition demo_cred_form :: cred_form where
  "demo_cred_form = \<lparr>stored_token = None, sent = [], fm_options = None, fm_isLoading = True, fm_loadError = None,
     fm_isSaving = False, fm_saveError = None, fm_name = ''db'', fm_typeId = ''1'', fm_ownership = Owned_internal,
     fm_clientId = [], fm_status = ''active'', fm_description = [], fm_expiresAt = [], fm_values = [], fm_clear = [],
     fm_links = cd_links demo_cred, fm_saved = []\<rparr>"

definition demo_cred_state :: cred_form where
  "demo_cred_state = cred_edited (Some demo_cred) (Set_clear ''password'' True)
     (cred_edited (Some demo_cred) (Toggle_resource 9) (fst (loadOptions demo_cred_world (Some demo_cred) demo_cred_form)))"

lemma demo_cred_loaded:
  "fst (loadOptions demo_cred_world (Some demo_cred) demo_cred_form) = demo_cred_form\<lparr>
     fm_options := Some \<lparr>co_types = [\<lparr>ct_id = 1, ct_fields = [\<lparr>cf_key = ''password'', cf_storage = Secret, cf_required = False\<rparr>]\<rparr>],
       co_resources = [\<lparr>cr_id = 9, cr_client = None\<rparr>]\<rparr>,
     fm_isLoading := False, fm_values := [(''password'', [])], fm_links := [],
     sent := sent (fst (loadOptions demo_cred_world (Some demo_cred) demo_cred_form))\<rparr>"
  by code_simp

definition demo_cred_type :: cred_type where
  "demo_cred_type = \<lparr>ct_id = 1, ct_fields = [\<lparr>cf_key = ''password'', cf_storage = Secret, cf_required = False\<rparr>]\<rparr>"

lemma demo_cred_number: "js_Number ''1'' = Dec 1 0"
  by code_simp

lemma cred_reach_edit:
  "reachable (cred_init cred) (cred_step to_iso w cred) s \<Longrightarrow> cred_offered cred e s \<Longrightarrow>
   reachable (cred_init cred) (cred_step to_iso w cred) (cred_edited cred e s)"
  by (erule reach_step) (rule cred_edit)

lemma demo_cred_reachable:
  "reachable (cred_init (Some demo_cred)) (cred_step to_iso demo_cred_world (Some demo_cred)) demo_cred_state"
proof -
  let ?l = "fst (loadOptions demo_cred_world (Some demo_cred) demo_cred_form)"
  let ?t = "cred_edited (Some demo_cred) (Toggle_resource 9) ?l"
  let ?r = "reachable (cred_init (Some demo_cred)) (cred_step to_iso demo_cred_world (Some demo_cred))"
  have "?r demo_cred_form" by (rule reach_init) (simp add: cred_init_def demo_cred_form_def demo_cred_def)
  then have "?r ?l" by (rule reach_step, intro cred_load)
  moreover have "cred_offered (Some demo_cred) (Toggle_resource 9) ?l"
    by (subst demo_cred_loaded) (simp add: visibleResources_def demo_cred_form_def)
  ultimately have "?r ?t" by (rule cred_reach_edit)
  moreover have "cred_offered (Some demo_cred) (Set_clear ''password'' True) ?t"
    by (subst demo_cred_loaded)
      (simp add: type_fields_def selectedType_def demo_cred_form_def demo_cred_def toggleResource_def demo_cred_number)
  ultimately show ?thesis unfolding demo_cred_state_def by (rule cred_reach_edit)
qed


text \<open>Opening a credential never fills in a stored secret.\<close>

lemma secrets_start_empty:
  "f \<in> set fs \<Longrightarrow> distinct (map cf_key fs) \<Longrightarrow> cf_storage f = Secret \<Longrightarrow> map_of (initialValues c fs) (cf_key f) = Some []"
proof (induction fs rule: rev_induct)
  case Nil
  then show ?case by simp
next
  case (snoc g fs)
  have "cf_key g \<notin> cf_key ` set fs" using snoc.prems(2) by simp
  then have "g \<noteq> f \<Longrightarrow> f \<in> set fs \<and> cf_key g \<noteq> cf_key f" using snoc.prems(1) by auto
  with snoc show ?case by (cases "g = f") (auto simp: initialValues_def)
qed

end
