(* ===== verification/Admin_Secrets.thy ===== *)
theory Admin_Secrets
  imports Admin_Ordering State_Machine
begin

text \<open>
  \<^verbatim>\<open>app/(admin)/admin/credentials/CredentialWorkspace.tsx\<close>: showing a credential and
  its secrets. The handlers await the server, and other handlers and effects run in between;
  so each handler is split at its \<^verbatim>\<open>await\<close>, the calls that are not answered yet are
  part of the state, and the answers arrive in any order.

  The server answers for the credential it was asked about. \<open>sv_owner\<close> is no state of the code: it
  remembers whose secrets the page shows.
\<close>

datatype view_call = Load_call int | Reveal_call int | Archive_call int

record secret_view =
  sv_id :: int
  sv_credential :: "json option"
  sv_revealed :: "(string \<times> string) list"
  sv_owner :: int
  sv_isLoading :: bool
  sv_error :: "string option"
  sv_isEditing :: bool
  sv_action :: "string option"
  sv_isRevealing :: bool
  sv_isArchiving :: bool
  sv_calls :: "view_call list"

definition view_init :: "int \<Rightarrow> secret_view" where
  "view_init i = \<lparr>sv_id = i, sv_credential = None, sv_revealed = [], sv_owner = i, sv_isLoading = True, sv_error = None,
     sv_isEditing = False, sv_action = None, sv_isRevealing = False, sv_isArchiving = False, sv_calls = []\<rparr>"

definition credential_id :: "secret_view \<Rightarrow> int option" where
  "credential_id s = map_option (\<lambda>c. json_int (jget c ''id'')) (sv_credential s)"

definition done_call :: "view_call \<Rightarrow> secret_view \<Rightarrow> secret_view" where
  "done_call c s = s\<lparr>sv_calls := remove1 c (sv_calls s)\<rparr>"

text \<open>\<^verbatim>\<open>load\<close> up to its call, and from the answer on.\<close>

definition load_start :: "secret_view \<Rightarrow> secret_view" where
  "load_start s = s\<lparr>sv_isLoading := True, sv_error := None, sv_revealed := [], sv_calls := sv_calls s @ [Load_call (sv_id s)]\<rparr>"

definition load_done :: "int \<Rightarrow> json result \<Rightarrow> secret_view \<Rightarrow> secret_view" where
  "load_done i answer s0 =
     (let s = done_call (Load_call i) s0
      in (case answer of
            Inr j \<Rightarrow> s\<lparr>sv_credential := (if j = JNull then None else Some j)\<rparr>
          | Inl e \<Rightarrow> s\<lparr>sv_error := Some (message_of ''Unable to load this credential.'' e)\<rparr>)\<lparr>sv_isLoading := False\<rparr>)"

text \<open>The effect of another credential: the page is reset, after \<^verbatim>\<open>load\<close> was called.\<close>

definition reset_view :: "secret_view \<Rightarrow> secret_view" where
  "reset_view s = s\<lparr>sv_isEditing := False, sv_revealed := [], sv_action := None\<rparr>"

definition open_credential :: "int \<Rightarrow> secret_view \<Rightarrow> secret_view" where
  "open_credential i s = reset_view (load_start (s\<lparr>sv_id := i\<rparr>))"

definition reveal_start :: "secret_view \<Rightarrow> secret_view" where
  "reveal_start s =
     (case credential_id s of
        None \<Rightarrow> s
      | Some i \<Rightarrow> s\<lparr>sv_isRevealing := True, sv_action := None, sv_calls := sv_calls s @ [Reveal_call i]\<rparr>)"

definition reveal_done :: "int \<Rightarrow> (string \<times> string) list result \<Rightarrow> secret_view \<Rightarrow> secret_view" where
  "reveal_done i answer s0 =
     (let s = done_call (Reveal_call i) s0
      in (case answer of
            Inr secrets \<Rightarrow> s\<lparr>sv_revealed := secrets, sv_owner := i\<rparr>
          | Inl e \<Rightarrow> s\<lparr>sv_action := Some (message_of ''Unable to reveal credential secrets.'' e)\<rparr>)\<lparr>sv_isRevealing := False\<rparr>)"

definition archive_start :: "secret_view \<Rightarrow> secret_view" where
  "archive_start s =
     (case credential_id s of
        None \<Rightarrow> s
      | Some i \<Rightarrow> s\<lparr>sv_isArchiving := True, sv_action := None, sv_calls := sv_calls s @ [Archive_call i]\<rparr>)"

definition archive_done :: "int \<Rightarrow> json result \<Rightarrow> secret_view \<Rightarrow> secret_view" where
  "archive_done i answer s0 =
     (let s = done_call (Archive_call i) s0
      in (case answer of
            Inr archived \<Rightarrow> s\<lparr>sv_credential := Some archived, sv_revealed := []\<rparr>
          | Inl e \<Rightarrow> s\<lparr>sv_action := Some (message_of ''Unable to archive this credential.'' e)\<rparr>)\<lparr>sv_isArchiving := False\<rparr>)"

definition hide_secrets :: "secret_view \<Rightarrow> secret_view" where
  "hide_secrets s = s\<lparr>sv_revealed := []\<rparr>"

text \<open>\<^verbatim>\<open>onSaved\<close> of the form.\<close>

definition edit_saved :: "json \<Rightarrow> secret_view \<Rightarrow> secret_view" where
  "edit_saved saved s = s\<lparr>sv_credential := Some saved, sv_isEditing := False, sv_revealed := []\<rparr>"

definition answers_for :: "int \<Rightarrow> json result \<Rightarrow> bool" where
  "answers_for i answer = (case answer of Inl e \<Rightarrow> True | Inr j \<Rightarrow> j \<noteq> JNull \<and> json_int (jget j ''id'') = i)"

text \<open>
  One step of the page. Whether it can be given another credential while it is mounted is
  \<open>switch\<close>. The reveal button is enabled only while nothing is revealed or being revealed.
\<close>

inductive view_step :: "bool \<Rightarrow> secret_view \<Rightarrow> secret_view \<Rightarrow> bool" for switch :: bool where
  view_open: "switch \<or> i = sv_id s \<Longrightarrow> view_step switch s (open_credential i s)"
| view_refresh: "\<not> sv_isEditing s \<Longrightarrow> view_step switch s (load_start s)"
| view_load: "Load_call i \<in> set (sv_calls s) \<Longrightarrow> answers_for i a \<Longrightarrow> view_step switch s (load_done i a s)"
| view_reveal: "\<not> sv_isRevealing s \<Longrightarrow> sv_revealed s = [] \<Longrightarrow> view_step switch s (reveal_start s)"
| view_revealed: "Reveal_call i \<in> set (sv_calls s) \<Longrightarrow> view_step switch s (reveal_done i r s)"
| view_archive: "\<not> sv_isArchiving s \<Longrightarrow> view_step switch s (archive_start s)"
| view_archived: "Archive_call i \<in> set (sv_calls s) \<Longrightarrow> answers_for i a \<Longrightarrow> view_step switch s (archive_done i a s)"
| view_hide: "view_step switch s (hide_secrets s)"
| view_edit: "view_step switch s (s\<lparr>sv_isEditing := b\<rparr>)"
| view_saved: "credential_id s = Some i \<Longrightarrow> answers_for i (Inr saved) \<Longrightarrow> view_step switch s (edit_saved saved s)"

inductive_cases view_stepE: "view_step switch s t"

section \<open>Lemmas\<close>

fun call_id :: "view_call \<Rightarrow> int" where
  "call_id (Load_call i) = i" | "call_id (Reveal_call i) = i" | "call_id (Archive_call i) = i"

text \<open>Everything on the page and under way is about the credential it was opened for.\<close>

definition view_inv :: "int \<Rightarrow> secret_view \<Rightarrow> bool" where
  "view_inv i s \<longleftrightarrow> sv_id s = i \<and> sv_owner s = i \<and> pred_option (\<lambda>j. j = i) (credential_id s) \<and>
     list_all (\<lambda>c. call_id c = i) (sv_calls s)"

lemma view_calls_remove: "list_all P cs \<Longrightarrow> list_all P (remove1 c cs)"
  by (auto simp: list_all_iff dest: set_remove1_subset [THEN subsetD])

lemma view_step_inv: "view_step switch s t \<Longrightarrow> \<not> switch \<Longrightarrow> view_inv i s \<Longrightarrow> view_inv i t"
  by (erule view_stepE)
    (auto simp: view_inv_def open_credential_def reset_view_def load_start_def load_done_def done_call_def Let_def
      credential_id_def answers_for_def reveal_start_def reveal_done_def archive_start_def archive_done_def
      hide_secrets_def edit_saved_def list_all_iff dest: set_remove1_subset [THEN subsetD] split: sum.splits option.splits)

interpretation one_credential: safe_machine "\<lambda>s. s = view_init i" "view_step False" "view_inv i"
  by unfold_locales (simp add: view_init_def view_inv_def credential_id_def, fast intro: view_step_inv)

section \<open>Properties\<close>


definition demo_credential :: "int \<Rightarrow> json" where
  "demo_credential i = JObj [(''id'', JNum i), (''secret_field_keys'', JArr [JStr ''password''])]"

definition reveal_run :: "secret_view list" where
  "reveal_run =
     (let s1 = open_credential 1 (view_init 1); s2 = load_done 1 (Inr (demo_credential 1)) s1; s3 = reveal_start s2;
          s4 = reveal_done 1 (Inr [(''password'', ''x'')]) s3
      in [s1, s2, s3, s4])"

lemma reveal_run_steps: "is_run (view_step False) (view_init 1) reveal_run"
proof -
  let ?s1 = "open_credential 1 (view_init 1)"
  let ?s2 = "load_done 1 (Inr (demo_credential 1)) ?s1"
  have a: "view_step False (view_init 1) ?s1" by (rule view_open) (simp add: view_init_def)
  have b: "view_step False ?s1 ?s2"
    by (rule view_load) (simp_all add: open_credential_def reset_view_def load_start_def answers_for_def demo_credential_def json_int_def)
  have c: "view_step False ?s2 (reveal_start ?s2)"
    by (rule view_reveal) (simp_all add: load_done_def done_call_def Let_def open_credential_def reset_view_def load_start_def view_init_def)
  have d: "view_step False (reveal_start ?s2) (reveal_done 1 (Inr [(''password'', ''x'')]) (reveal_start ?s2))"
    by (rule view_revealed) (simp add: reveal_start_def credential_id_def load_done_def done_call_def Let_def demo_credential_def json_int_def)
  from a b c d show ?thesis by (simp add: reveal_run_def Let_def)
qed


definition switched :: secret_view where
  "switched = reveal_done 1 (Inr [(''password'', ''x'')])
     (load_done 2 (Inr (demo_credential 2)) (open_credential 2 (reveal_start
       (load_done 1 (Inr (demo_credential 1)) (open_credential 1 (view_init 1))))))"

text \<open>
  When the page is given another credential while secrets are being revealed, they can end
  up under the wrong name: nothing ties an answer to the credential it was asked for. On this
  run the secrets of credential 1 are shown while the page shows credential 2.
\<close>

theorem late_reveal_shows_other_secrets:
  "reachable (\<lambda>s. s = view_init 1) (view_step True) switched \<and>
   sv_id switched = 2 \<and> credential_id switched = Some 2 \<and>
   sv_revealed switched = [(''password'', ''x'')] \<and> sv_owner switched = 1"
proof -
  let ?r = "reachable (\<lambda>s. s = view_init 1) (view_step True)"
  let ?s1 = "open_credential 1 (view_init 1)"
  let ?s2 = "load_done 1 (Inr (demo_credential 1)) ?s1"
  let ?s3 = "reveal_start ?s2"
  let ?s4 = "open_credential 2 ?s3"
  let ?s5 = "load_done 2 (Inr (demo_credential 2)) ?s4"
  note defs = load_done_def done_call_def Let_def open_credential_def reset_view_def load_start_def view_init_def
    reveal_start_def credential_id_def demo_credential_def json_int_def answers_for_def
  have "?r (view_init 1)" by (rule reach_init) simp
  then have "?r ?s1" by (rule reach_step) (rule view_open, simp)
  then have "?r ?s2" by (rule reach_step) (rule view_load, simp_all add: defs)
  then have "?r ?s3" by (rule reach_step) (rule view_reveal, simp_all add: defs)
  then have "?r ?s4" by (rule reach_step) (rule view_open, simp)
  then have "?r ?s5" by (rule reach_step) (rule view_load, simp_all add: defs)
  then have "?r switched" unfolding switched_def by (rule reach_step) (rule view_revealed, simp add: defs)
  then show ?thesis by (simp add: switched_def reveal_done_def defs)
qed

end
