(* ===== verification/Analytics_Client.thy ===== *)
theory Analytics_Client
  imports Admin_Fetch Js_Url Js_Date
begin

text \<open>
  \<^verbatim>\<open>sites/analytics-adb-software-solutions/src/app/client.ts\<close>,
  \<^verbatim>\<open>lib/experience.ts\<close>, the reporting period of
  \<^verbatim>\<open>components/experience/ExperienceProvider.tsx\<close> and
  \<^verbatim>\<open>PeriodControls.tsx\<close>: the calls of the analytics application, its period as query
  parameters, and the daily series of a report.

  Parameters: the server, the environment, the host parser of the platform's URLs, and
  \<open>other\<close>, what \<^verbatim>\<open>Date.parse\<close> makes of a text that is not a calendar
  date (milliseconds, or \<open>None\<close> for \<^verbatim>\<open>NaN\<close>); the language leaves that to
  the engine. Numbers in rows are integers, ratios are exact.
\<close>

record analytics_env =
  ne_api :: "string option"
  ne_auth :: "string option"
  ne_analytics :: "string option"
  ne_production :: bool

definition an_API_URL :: "analytics_env \<Rightarrow> string" where
  "an_API_URL e = nullish (ne_api e)
     (if ne_production e then ''https://api.adbsoftwaresolutions.co.uk'' else ''http://localhost:8000'')"

definition an_AUTH_URL :: "analytics_env \<Rightarrow> string" where
  "an_AUTH_URL e = nullish (ne_auth e)
     (if ne_production e then ''https://auth.adbsoftwaresolutions.co.uk'' else ''http://localhost:3004'')"

definition an_ANALYTICS_URL :: "analytics_env \<Rightarrow> string" where
  "an_ANALYTICS_URL e = nullish (ne_analytics e)
     (if ne_production e then ''https://analytics.adbsoftwaresolutions.co.uk'' else ''http://localhost:3005'')"

record analytics_world =
  nw_server :: server
  nw_canon :: "string \<Rightarrow> string option"
  nw_env :: analytics_env

text \<open>
  \<^verbatim>\<open>ApiError\<close>: an \<^verbatim>\<open>Error\<close> with the status; the name of the exception
  value stands for its class and status.
\<close>

definition ApiError :: "nat \<Rightarrow> string \<Rightarrow> js_throw" where
  "ApiError n m = Err (''ApiError '' @ nat_str n) m"

definition is_ApiError :: "nat \<Rightarrow> js_throw \<Rightarrow> bool" where
  "is_ApiError n e = (case e of Err name m \<Rightarrow> name = ''ApiError '' @ nat_str n | NonError \<Rightarrow> False)"

text \<open>\<^verbatim>\<open>new URL(path, base)\<close> for a path that begins with a single slash.\<close>

definition createApiUrl :: "(string \<Rightarrow> string option) \<Rightarrow> string \<Rightarrow> string \<Rightarrow> url result" where
  "createApiUrl canon path base =
     (case url_origin canon (if endsWith base ''/'' then base else base @ ''/'') of
        None \<Rightarrow> Inl TypeError
      | Some origin \<Rightarrow> (case parse_url canon (origin @ path) of None \<Rightarrow> Inl TypeError | Some u \<Rightarrow> Inr u))"

definition an_apiUrl :: "analytics_world \<Rightarrow> string \<Rightarrow> string result" where
  "an_apiUrl w path =
     and_then (createApiUrl (nw_canon w) (''/api/analytics'' @ path) (an_API_URL (nw_env w))) (\<lambda>u. Inr (href u))"

definition csrf_call :: "string \<Rightarrow> request" where
  "csrf_call url = \<lparr>req_url = url, req_method = ''GET'', req_headers = [], req_body = NoBody, req_credentials = ''include''\<rparr>"

definition header_text :: "json option \<Rightarrow> string" where
  "header_text v = (case v of None \<Rightarrow> ''undefined'' | Some j \<Rightarrow> js_text j)"

definition an_headers :: "analytics_world \<Rightarrow> string \<Rightarrow> (string \<times> string) list io" where
  "an_headers w m =
     (if m = ''GET'' then return_io []
      else bind_io (lift_io (createApiUrl (nw_canon w) ''/api/csrf'' (an_API_URL (nw_env w)))) (\<lambda>u.
        bind_io (fetch (nw_server w) (csrf_call (href u))) (\<lambda>csrf.
          if \<not> ok csrf then throw_io (ApiError (status csrf) ''Could not establish a secure session.'')
          else bind_io (lift_io (json_body csrf)) (\<lambda>j.
            bind_io (lift_io (non_null j)) (\<lambda>token.
              return_io [(''X-CSRFToken'', header_text (jget token ''csrf_token'')), (''Content-Type'', ''application/json'')])))))"

definition an_request :: "string \<Rightarrow> string \<Rightarrow> json option \<Rightarrow> (string \<times> string) list \<Rightarrow> request" where
  "an_request url m body headers =
     \<lparr>req_url = url, req_method = m, req_headers = headers,
      req_body = (case body of None \<Rightarrow> NoBody | Some j \<Rightarrow> JsonBody j), req_credentials = ''include''\<rparr>"

definition an_error :: "nat \<Rightarrow> json \<Rightarrow> js_throw" where
  "an_error n r = ApiError n
     (case jget r ''detail'' of Some (JStr s) \<Rightarrow> s
      | _ \<Rightarrow> ''The request could not be completed. Check the supplied values.'')"

definition an_api :: "analytics_world \<Rightarrow> string \<Rightarrow> string \<Rightarrow> json option \<Rightarrow> json io" where
  "an_api w path m body =
     bind_io (an_headers w m) (\<lambda>headers.
       bind_io (lift_io (an_apiUrl w path)) (\<lambda>url.
         bind_io (fetch (nw_server w) (an_request url m body headers)) (\<lambda>response.
           bind_io (lift_io (json_body response)) (\<lambda>r.
             if ok response then return_io r
             else bind_io (lift_io (non_null r)) (\<lambda>r. throw_io (an_error (status response) r))))))"

definition an_loginUrl :: "analytics_world \<Rightarrow> string \<Rightarrow> url result" where
  "an_loginUrl w returnTo =
     (case url_origin (nw_canon w) (an_AUTH_URL (nw_env w)) of
        None \<Rightarrow> Inl TypeError
      | Some origin \<Rightarrow>
          (case parse_url (nw_canon w) (origin @ ''/login'') of
             None \<Rightarrow> Inl TypeError | Some u \<Rightarrow> Inr (url_set ''next'' returnTo u)))"

section \<open>Dates of the period\<close>

abbreviation day_ms :: int where "day_ms \<equiv> 86400000"

abbreviation RangeError :: js_throw where "RangeError \<equiv> Err ''RangeError'' ''Invalid time value''"

definition iso_year :: "int \<Rightarrow> string" where
  "iso_year y =
     (if 0 \<le> y \<and> y \<le> 9999 then pad_left 4 (nat_str (nat y))
      else (if y < 0 then ''-'' else ''+'') @ pad_left 6 (nat_str (nat \<bar>y\<bar>)))"

text \<open>\<^verbatim>\<open>new Date(t).toISOString().slice(0, 10)\<close>, which throws outside the range of dates.\<close>

definition iso_slice :: "int \<Rightarrow> string result" where
  "iso_slice t =
     (if \<bar>t\<bar> > 100000000 * day_ms then Inl RangeError
      else (case civil_of (t div day_ms) of (y, m, d) \<Rightarrow>
        Inr (take 10 (iso_year y @ ''-'' @ pad2 (m + 1) @ ''-'' @ pad2 d))))"

record period =
  p_start :: string
  p_end :: string

definition initialDates :: "int \<Rightarrow> period result" where
  "initialDates now =
     (let end' = now - 3 * day_ms; start = end' - 27 * day_ms
      in and_then (iso_slice start) (\<lambda>s. and_then (iso_slice end') (\<lambda>e. Inr \<lparr>p_start = s, p_end = e\<rparr>)))"

text \<open>\<^verbatim>\<open>/^\d{4}-\d{2}-\d{2}$/\<close>, and the date such a text names.\<close>

definition date_form :: "string \<Rightarrow> bool" where
  "date_form s \<longleftrightarrow> length s = 10 \<and> list_all is_digit (take 4 s) \<and> s ! 4 = CHR ''-'' \<and>
     list_all is_digit (take 2 (drop 5 s)) \<and> s ! 7 = CHR ''-'' \<and> list_all is_digit (drop 8 s)"

definition iso_civil :: "string \<Rightarrow> civil option" where
  "iso_civil s =
     (let c = (int (digits_val (take 4 s)), digits_val (take 2 (drop 5 s)) - 1, digits_val (drop 8 s))
      in if date_form s \<and> 1 \<le> digits_val (take 2 (drop 5 s)) \<and> valid_civil c then Some c else None)"

text \<open>\<^verbatim>\<open>Date.parse\<close> of a date, and of a date with \<^verbatim>\<open>T00:00:00Z\<close> appended.\<close>

definition date_parse :: "(string \<Rightarrow> int option) \<Rightarrow> string \<Rightarrow> int option" where
  "date_parse other s = (case iso_civil s of Some c \<Rightarrow> Some (day_of c * day_ms) | None \<Rightarrow> other s)"

definition midnight :: "(string \<Rightarrow> int option) \<Rightarrow> string \<Rightarrow> int option" where
  "midnight other s =
     (case iso_civil s of Some c \<Rightarrow> Some (day_of c * day_ms) | None \<Rightarrow> other (s @ ''T00:00:00Z''))"

text \<open>\<^verbatim>\<open>valid\<close> and \<^verbatim>\<open>period\<close> of the provider, from the address and the default.\<close>

definition valid_date :: "(string \<Rightarrow> int option) \<Rightarrow> string option \<Rightarrow> bool" where
  "valid_date other v = (case v of None \<Rightarrow> False | Some s \<Rightarrow> s \<noteq> [] \<and> date_form s \<and> date_parse other s \<noteq> None)"

definition selected_period :: "(string \<Rightarrow> int option) \<Rightarrow> params \<Rightarrow> period \<Rightarrow> period" where
  "selected_period other search fallback =
     \<lparr>p_start = (if valid_date other (params_get search ''start'') then the (params_get search ''start'') else p_start fallback),
      p_end = (if valid_date other (params_get search ''end'') then the (params_get search ''end'') else p_end fallback)\<rparr>"

definition comparison :: "params \<Rightarrow> bool" where
  "comparison search \<longleftrightarrow> params_get search ''compare'' \<noteq> Some ''0''"

definition period_params :: "period \<Rightarrow> params" where
  "period_params p = [(''start'', p_start p), (''end'', p_end p)]"

definition nav_query :: "period \<Rightarrow> params \<Rightarrow> string" where
  "nav_query p search =
     ''?'' @ params_str (period_params p @ (if params_get search ''compare'' = Some ''0'' then [(''compare'', ''0'')] else []))"

definition siteHref :: "int \<Rightarrow> period option \<Rightarrow> string \<Rightarrow> string" where
  "siteHref i p sect =
     ''/dashboard/websites/'' @ int_str i @ sect @
     (case p of None \<Rightarrow> [] | Some p \<Rightarrow> ''?'' @ params_str (period_params p))"

definition exploreHref :: "int \<Rightarrow> string \<Rightarrow> period \<Rightarrow> string \<Rightarrow> string" where
  "exploreHref i report p value =
     siteHref i None ''/explore'' @ ''?'' @
     params_str (period_params p @ [(''report'', report)] @ (if value \<noteq> [] then [(''value'', value)] else []))"

text \<open>\<^verbatim>\<open>PeriodControls\<close>: what each control makes of the query.\<close>

definition update_period :: "params \<Rightarrow> period \<Rightarrow> params" where
  "update_period query p = params_set ''end'' (p_end p) (params_set ''start'' (p_start p) query)"

definition toggle_compare :: "params \<Rightarrow> bool \<Rightarrow> params" where
  "toggle_compare query b = params_set ''compare'' (if b then ''1'' else ''0'') query"

definition preset :: "(string \<Rightarrow> int option) \<Rightarrow> int \<Rightarrow> int \<Rightarrow> period result" where
  "preset other now n =
     and_then (initialDates now) (\<lambda>p.
       case midnight other (p_end p) of
         None \<Rightarrow> Inl RangeError
       | Some e \<Rightarrow> and_then (iso_slice (e - (n - 1) * day_ms)) (\<lambda>s. Inr (p\<lparr>p_start := s\<rparr>)))"

section \<open>Numbers and series\<close>

definition row_number :: "json option \<Rightarrow> int option" where
  "row_number v = (case v of Some (JNum n) \<Rightarrow> Some n | _ \<Rightarrow> None)"

definition change :: "json option \<Rightarrow> json option \<Rightarrow> rat option" where
  "change current previous =
     (case (row_number current, row_number previous) of
        (Some a, Some b) \<Rightarrow> (if b = 0 then None else Some (of_int (a - b) / of_int b * 100))
      | _ \<Rightarrow> None)"

definition normalize_date :: "json option \<Rightarrow> string" where
  "normalize_date v =
     filter (\<lambda>c. c \<noteq> CHR ''-'') (case v of None \<Rightarrow> [] | Some j \<Rightarrow> if j = JNull then [] else js_text j)"

text \<open>\<^verbatim>\<open>new Map(rows.map((row) => [normalize(row.date), row]))\<close>: of equal dates the last row.\<close>

definition rows_by_date :: "json list \<Rightarrow> string \<Rightarrow> json option" where
  "rows_by_date rows = map_of (rev (map (\<lambda>row. (normalize_date (jget row ''date''), row)) rows))"

record series_row =
  sr_date :: string
  sr_previous_date :: string
  sr_value :: "int option"
  sr_previous :: "int option"

definition row_value :: "json list \<Rightarrow> string \<Rightarrow> string \<Rightarrow> int option" where
  "row_value rows metric date =
     row_number (Option.bind (rows_by_date rows (normalize_date (Some (JStr date)))) (\<lambda>row. jget row metric))"

definition series_at :: "json list \<Rightarrow> json list \<Rightarrow> string \<Rightarrow> int \<Rightarrow> int \<Rightarrow> int \<Rightarrow> series_row result" where
  "series_at current previous metric start len i =
     and_then (iso_slice (start + i * day_ms)) (\<lambda>date.
       and_then (iso_slice (start + (i - len) * day_ms)) (\<lambda>prior.
         Inr \<lparr>sr_date = date, sr_previous_date = prior,
              sr_value = row_value current metric date, sr_previous = row_value previous metric prior\<rparr>))"

text \<open>\<^verbatim>\<open>Math.round\<close> of the quotient, and the length capped at a leap year.\<close>

definition series_length :: "int \<Rightarrow> int \<Rightarrow> int" where
  "series_length start end' = (2 * (end' - start) + day_ms) div (2 * day_ms) + 1"

definition series ::
  "(string \<Rightarrow> int option) \<Rightarrow> json list \<Rightarrow> json list \<Rightarrow> string \<Rightarrow> period \<Rightarrow> series_row list result" where
  "series other current previous metric p =
     (case (midnight other (p_start p), midnight other (p_end p)) of
        (Some start, Some end') \<Rightarrow>
          (let len = series_length start end'
           in map_result (\<lambda>i. series_at current previous metric start len (int i)) [0..<nat (min (max len 0) 366)])
      | _ \<Rightarrow> Inr [])"

section \<open>Lemmas\<close>

lemma dig_zeros: "dig k 0 = replicate k CHR ''0''"
  by (induction k) (simp_all add: replicate_append_same digit_char_def)

lemma pad_left_snoc: "pad_left (Suc k) (s @ [c]) = pad_left k s @ [c]"
  by (simp add: pad_left_def)

lemma pad_left_dig: "n < 10 ^ Suc k \<Longrightarrow> pad_left (Suc k) (nat_str n) = dig (Suc k) n"
proof (induction k arbitrary: n)
  case 0
  then show ?case by (subst nat_str.simps) (simp add: pad_left_def)
next
  case (Suc k)
  have less: "n div 10 < 10 ^ Suc k" using Suc.prems by (simp add: div_less_iff_less_mult mult.commute)
  show ?case
  proof (cases "n < 10")
    case True
    then show ?thesis by (subst nat_str.simps) (simp add: pad_left_def dig_zeros replicate_append_same)
  next
    case False
    have "pad_left (Suc (Suc k)) (nat_str n) = pad_left (Suc k) (nat_str (n div 10)) @ [digit_char (n mod 10)]"
      using False by (subst nat_str.simps) (simp add: pad_left_snoc)
    then show ?thesis unfolding Suc.IH [OF less] by simp
  qed
qed

lemma digits_val_dig: "digits_val (dig k n) = n mod 10 ^ k"
proof (induction k arbitrary: n)
  case 0
  then show ?case by (simp add: digits_val_def)
next
  case (Suc k)
  have "digits_val (dig (Suc k) n) = digits_val (dig k (n div 10)) * 10 + n mod 10" by (simp add: digits_val_def)
  also have "\<dots> = n mod 10 ^ Suc k" unfolding Suc by (simp add: mod_mult2_eq mult.commute)
  finally show ?case .
qed

lemma dig_digits: "list_all is_digit (dig k n)"
  by (induction k arbitrary: n) simp_all

lemma digits_val_less: "list_all is_digit s \<Longrightarrow> digits_val s < 10 ^ length s"
proof (induction s rule: rev_induct)
  case Nil
  then show ?case by (simp add: digits_val_def)
next
  case (snoc c s)
  have "digit_val c < 10" using snoc.prems by (auto simp: is_digit_def digit_val_def)
  then show ?case using snoc by (simp add: digits_val_def)
qed

definition iso_digits :: "civil \<Rightarrow> string" where
  "iso_digits c = (case c of (y, m, d) \<Rightarrow> dig 4 (nat y) @ CHR ''-'' # dig 2 (m + 1) @ CHR ''-'' # dig 2 d)"

lemma iso_civil_digits:
  assumes "valid_civil (y, m, d)" and "0 \<le> y" and "y \<le> 9999"
  shows "iso_civil (iso_digits (y, m, d)) = Some (y, m, d)"
proof -
  have b: "nat y < 10 ^ 4" "m + 1 < 10 ^ 2" "d < 10 ^ 2"
    using assms months_pos [of m y] by (auto simp: valid_civil_def)
  have t: "take 4 (iso_digits (y, m, d)) = dig 4 (nat y)" "take 2 (drop 5 (iso_digits (y, m, d))) = dig 2 (m + 1)"
    "drop 8 (iso_digits (y, m, d)) = dig 2 d" "iso_digits (y, m, d) ! 4 = CHR ''-''" "iso_digits (y, m, d) ! 7 = CHR ''-''"
    "length (iso_digits (y, m, d)) = 10"
    by (simp_all add: iso_digits_def nth_append)
  have f: "date_form (iso_digits (y, m, d))" unfolding date_form_def t by (simp only: dig_digits simp_thms)
  show ?thesis unfolding iso_civil_def t using f b assms by (simp add: digits_val_dig)
qed

text \<open>The years with four digits.\<close>

definition four_digits :: "int \<Rightarrow> bool" where
  "four_digits n \<longleftrightarrow> DayFromYear 0 \<le> n \<and> n < DayFromYear 10000"

lemma four_digits_year: "four_digits n \<Longrightarrow> civil_of n = (y, m, d) \<Longrightarrow> 0 \<le> y \<and> y \<le> 9999"
proof -
  assume n: "four_digits n" and c: "civil_of n = (y, m, d)"
  have y: "y = YearFromDay n" using c by (simp add: civil_of_def Let_def split: prod.splits)
  have "DayFromYear 0 < DayFromYear (y + 1)" "DayFromYear y < DayFromYear 10000"
    using n YearFromDay_bounds [of n] by (simp_all add: y four_digits_def)
  then show ?thesis using DayFromYear_mono [of "y + 1" 0] DayFromYear_mono [of 10000 y] by linarith
qed

lemma iso_slice_day:
  assumes "four_digits (t div day_ms)"
  shows "iso_slice t = Inr (iso_digits (civil_of (t div day_ms)))"
    and "iso_civil (iso_digits (civil_of (t div day_ms))) = Some (civil_of (t div day_ms))"
proof -
  obtain y m d where c: "civil_of (t div day_ms) = (y, m, d)" by (cases "civil_of (t div day_ms)")
  have y: "0 \<le> y" "y \<le> 9999" using four_digits_year [OF assms c] by auto
  have v: "valid_civil (y, m, d)" using civil_of_valid [of "t div day_ms"] by (simp add: c)
  have md: "Suc m < 100" "d < 100" using v months_pos [of m y] by (auto simp: valid_civil_def)
  have "nat y < 10 ^ Suc 3" using y by simp
  then have yd: "pad_left 4 (nat_str (nat y)) = dig 4 (nat y)" using pad_left_dig [of "nat y" 3] by (simp del: dig.simps)
  have r: "\<not> \<bar>t\<bar> > 100000000 * day_ms"
  proof -
    define q where "q = t div day_ms"
    have "day_ms * q \<le> t" "t < day_ms * q + day_ms" unfolding q_def using div_bounds [of day_ms t] by simp_all
    moreover have "- 1000000 < q" "q < 3000000"
      using assms unfolding four_digits_def q_def [symmetric] by (simp_all add: DayFromYear_def)
    ultimately show ?thesis by linarith
  qed
  show "iso_slice t = Inr (iso_digits (civil_of (t div day_ms)))"
    using r y unfolding iso_slice_def if_not_P [OF r] c by (simp del: dig.simps add: iso_digits_def iso_year_def yd pad2_dig [OF md(1)] pad2_dig [OF md(2)])
  show "iso_civil (iso_digits (civil_of (t div day_ms))) = Some (civil_of (t div day_ms))"
    unfolding c using v y by (rule iso_civil_digits)
qed

lemma iso_digits_read: "four_digits n \<Longrightarrow> iso_civil (iso_digits (civil_of n)) = Some (civil_of n)"
  using iso_slice_day(2) [of "n * day_ms"] by simp

lemma iso_civil_bounds: "iso_civil s = Some c \<Longrightarrow> valid_civil c \<and> four_digits (day_of c)"
proof -
  assume s: "iso_civil s = Some c"
  obtain y m d where c: "c = (y, m, d)" by (cases c)
  have f: "date_form s" and v: "valid_civil (y, m, d)" and y: "y = int (digits_val (take 4 s))"
    using s by (auto simp: iso_civil_def c Let_def split: if_splits)
  have "digits_val (take 4 s) < 10 ^ 4"
    using f digits_val_less [of "take 4 s"] by (simp add: date_form_def)
  then have "0 \<le> y" "y + 1 \<le> 10000" by (simp_all add: y)
  then have "DayFromYear 0 \<le> DayFromYear y" "DayFromYear (y + 1) \<le> DayFromYear 10000" by (simp_all add: DayFromYear_mono)
  with day_of_bounds [OF v] v show ?thesis by (simp add: four_digits_def c)
qed


text \<open>Requests: a continuation only sees what its first part can return.\<close>

lemma sends_bind_answer:
  assumes m: "sends P m" and q: "\<And>h h' x. m h = (h', Inr x) \<Longrightarrow> Q x" and f: "\<And>x. Q x \<Longrightarrow> sends P (f x)"
  shows "sends P (bind_io m f)"
proof -
  have "bind_io m f = bind_io m (\<lambda>x. if Q x then f x else throw_io TypeError)"
    by (rule ext) (auto simp: bind_io_def dest: q split: prod.splits sum.splits)
  then show ?thesis by (simp only:) (intro sends_intros m f)
qed

lemma bind_io_Inr: "bind_io m f h = (h', Inr y) \<Longrightarrow> \<exists>g x. m h = (g, Inr x) \<and> f x g = (h', Inr y)"
  by (auto simp: bind_io_def split: prod.splits sum.splits)

lemma an_headers_signed:
  assumes "an_headers w m h = (h', Inr hs)"
  shows "m = ''GET'' \<or> (\<exists>t. map_of hs ''X-CSRFToken'' = Some t)"
  using assms by (auto simp: an_headers_def return_io_def throw_io_def dest!: bind_io_Inr split: if_splits)

lemma an_api_signed:
  "sends (\<lambda>r. req_credentials r = ''include'' \<and>
       ((\<exists>url. r = csrf_call url) \<or>
        (req_method r = m \<and> (m = ''GET'' \<or> (\<exists>t. map_of (req_headers r) ''X-CSRFToken'' = Some t))))) (an_api w path m body)"
  unfolding an_api_def
  by (rule sends_bind_answer [where Q = "\<lambda>hs. m = ''GET'' \<or> (\<exists>t. map_of hs ''X-CSRFToken'' = Some t)"])
    (unfold an_headers_def, intro sends_intros, simp_all add: csrf_call_def, fold an_headers_def,
      erule an_headers_signed, intro sends_intros, auto simp: an_request_def)

lemma an_headers_refused:
  "m \<noteq> ''GET'' \<Longrightarrow>
   (case createApiUrl (nw_canon w) ''/api/csrf'' (an_API_URL (nw_env w)) of
      Inl e \<Rightarrow> an_headers w m h = (h, Inl TypeError)
    | Inr u \<Rightarrow>
        (case nw_server w h (csrf_call (href u)) of
           Inl e \<Rightarrow> an_headers w m h = (h @ [csrf_call (href u)], Inl e)
         | Inr r \<Rightarrow> ok r \<or> an_headers w m h =
             (h @ [csrf_call (href u)], Inl (ApiError (status r) ''Could not establish a secure session.''))))"
  by (auto simp: an_headers_def bind_io_def lift_io_def fetch_def throw_io_def createApiUrl_def split: sum.splits option.splits)

lemma an_api_refused:
  assumes "m \<noteq> ''GET''"
  shows "case createApiUrl (nw_canon w) ''/api/csrf'' (an_API_URL (nw_env w)) of
      Inl e \<Rightarrow> an_api w path m body h = (h, Inl TypeError)
    | Inr u \<Rightarrow>
        (case nw_server w h (csrf_call (href u)) of
           Inl e \<Rightarrow> an_api w path m body h = (h @ [csrf_call (href u)], Inl e)
         | Inr r \<Rightarrow> ok r \<or> an_api w path m body h =
             (h @ [csrf_call (href u)], Inl (ApiError (status r) ''Could not establish a secure session.'')))"
proof -
  have "an_headers w m h = (h', Inl e) \<Longrightarrow> an_api w path m body h = (h', Inl e)" for h' e
    by (simp add: an_api_def bind_io_def)
  with an_headers_refused [OF assms, of w h] show ?thesis by (auto split: sum.splits)
qed

lemma midnight_iso: "iso_civil s = Some c \<Longrightarrow> midnight other s = Some (day_of c * day_ms)"
  by (simp add: midnight_def)

lemma series_length_days: "series_length (a * day_ms) (b * day_ms) = b - a + 1"
  using div_mult_self3 [of "2 * day_ms" "b - a" day_ms] by (simp add: series_length_def algebra_simps)

lemma series_at_day:
  assumes "four_digits (a + i)" and "four_digits (a + i - n)"
  shows "series_at current previous metric (a * day_ms) n i =
    Inr \<lparr>sr_date = iso_digits (civil_of (a + i)), sr_previous_date = iso_digits (civil_of (a + i - n)),
         sr_value = row_value current metric (iso_digits (civil_of (a + i))),
         sr_previous = row_value previous metric (iso_digits (civil_of (a + i - n)))\<rparr>"
proof -
  have e: "a * day_ms + i * day_ms = (a + i) * day_ms" "a * day_ms + (i - n) * day_ms = (a + i - n) * day_ms" by algebra+
  have d: "((a + i) * day_ms) div day_ms = a + i" "((a + i - n) * day_ms) div day_ms = a + i - n" by simp_all
  show ?thesis
    unfolding series_at_def e using iso_slice_day(1) [of "(a + i) * day_ms"] iso_slice_day(1) [of "(a + i - n) * day_ms"] assms
    by (simp add: d)
qed

text \<open>Of rows with distinct dates, each is found under its own.\<close>

lemma row_value_unique:
  assumes "row \<in> set rows" and "distinct (map (\<lambda>row. normalize_date (jget row ''date'')) rows)"
    and "normalize_date (jget row ''date'') = normalize_date (Some (JStr date))"
  shows "row_value rows metric date = row_number (jget row metric)"
proof -
  have "distinct (map fst (rev (map (\<lambda>row. (normalize_date (jget row ''date''), row)) rows)))"
    using assms(2) by (simp add: rev_map [symmetric] comp_def)
  then have "rows_by_date rows (normalize_date (jget row ''date'')) = Some row"
    unfolding rows_by_date_def using assms(1) by (intro map_of_is_SomeI) auto
  then show ?thesis by (simp add: row_value_def assms(3) [symmetric])
qed

lemma period_series:
  assumes "iso_civil (p_start p) = Some a" and "iso_civil (p_end p) = Some b"
    and "four_digits (2 * day_of a - day_of b - 1)"
  shows "\<exists>rows. series other current previous metric p = Inr rows \<and>
    int (length rows) = min (max (day_of b - day_of a + 1) 0) 366 \<and>
    list_all (\<lambda>(i, row). iso_civil (sr_date row) = Some (civil_of (day_of a + int i)) \<and>
        iso_civil (sr_previous_date row) = Some (civil_of (day_of a + int i - (day_of b - day_of a + 1))) \<and>
        sr_value row = row_value current metric (sr_date row) \<and>
        sr_previous row = row_value previous metric (sr_previous_date row))
      (enumerate 0 rows)"
proof -
  define n where "n = day_of b - day_of a + 1"
  define point where "point i = series_at current previous metric (day_of a * day_ms) n (int i)" for i
  define row where "row i = \<lparr>sr_date = iso_digits (civil_of (day_of a + int i)),
    sr_previous_date = iso_digits (civil_of (day_of a + int i - n)),
    sr_value = row_value current metric (iso_digits (civil_of (day_of a + int i))),
    sr_previous = row_value previous metric (iso_digits (civil_of (day_of a + int i - n)))\<rparr>" for i
  let ?is = "[0..<nat (min (max n 0) 366)]"
  have days: "four_digits (day_of a + int i)" "four_digits (day_of a + int i - n)" if "i \<in> set ?is" for i
    using that assms(3) iso_civil_bounds [OF assms(1)] iso_civil_bounds [OF assms(2)]
    by (auto simp: four_digits_def n_def)
  have "map_result point ?is = Inr (map row ?is)"
    using days by (simp add: map_result_Inr list_all2_map2 list_all2_same point_def row_def series_at_day del: upt_rec)
  then have "series other current previous metric p = Inr (map row ?is)"
    by (simp add: series_def midnight_iso [OF assms(1)] midnight_iso [OF assms(2)] series_length_days n_def [symmetric] Let_def
        point_def [abs_def])
  moreover have "list_all (\<lambda>(i, r). i \<in> set ?is \<and> r = row i) (enumerate 0 (map row ?is))"
    by (auto simp: list_all_iff in_set_enumerate_eq)
  ultimately show ?thesis
    using days unfolding n_def [symmetric]
    by (intro exI [of _ "map row ?is"]) (auto simp: list_all_iff row_def iso_digits_read)
qed


section \<open>Properties\<close>

text \<open>
  The chart of a report has one point for every day of the period. For two calendar dates
  the points are consecutive days from the first one, all of the period or its first 366 days,
  none when the end lies before the start; and the day each point is compared with lies exactly
  one period before it. The values are those of the rows of these days.
\<close>

theorem series_covers_period:
  assumes "iso_civil (p_start p) = Some a" and "iso_civil (p_end p) = Some b"
    and "four_digits (2 * day_of a - day_of b - 1)"
  shows "\<exists>rows. series other current previous metric p = Inr rows \<and>
    int (length rows) = min (max (day_of b - day_of a + 1) 0) 366 \<and>
    list_all (\<lambda>(i, row). iso_civil (sr_date row) = Some (civil_of (day_of a + int i)) \<and>
        iso_civil (sr_previous_date row) = Some (civil_of (day_of a + int i - (day_of b - day_of a + 1))) \<and>
        sr_value row = row_value current metric (sr_date row) \<and>
        sr_previous row = row_value previous metric (sr_previous_date row))
      (enumerate 0 rows)"
  by (rule period_series [OF assms])

definition demo_rows :: "json list" where
  "demo_rows = [JObj [(''date'', JStr ''20260301''), (''sessions'', JNum 5)], JObj [(''date'', JStr ''2026-03-02''), (''sessions'', JNum 8)]]"

definition demo_period :: period where
  "demo_period = \<lparr>p_start = ''2026-02-28'', p_end = ''2026-03-02''\<rparr>"

lemma demo_dates_read: "iso_civil ''2026-02-28'' = Some (2026, 1, 28)" "iso_civil ''2026-03-02'' = Some (2026, 2, 2)"
  by code_simp+

theorem series_covers_period_witness:
  "\<exists>rows. series (\<lambda>s. None) demo_rows [] ''sessions'' demo_period = Inr rows \<and> length rows = 3"
proof -
  have "iso_civil (p_start demo_period) = Some (2026, 1, 28)" "iso_civil (p_end demo_period) = Some (2026, 2, 2)"
    using demo_dates_read by (simp_all add: demo_period_def)
  moreover have d: "day_of (2026, 1, 28) = 20512" "day_of (2026, 2, 2) = 20514" by code_simp+
  moreover have "four_digits (2 * day_of (2026, 1, 28) - day_of (2026, 2, 2) - 1)"
    unfolding d by (simp add: four_digits_def DayFromYear_def)
  ultimately show ?thesis
    using series_covers_period [of demo_period "(2026, 1, 28)" "(2026, 2, 2)" "\<lambda>s. None" demo_rows "[]" "''sessions''"]
    by (auto simp: d)
qed

text \<open>
  The presets of the period cover what they say. Choosing the last 7, 28 or 90 days gives a
  period that ends three days ago, and its report has exactly as many points; the default period
  is the one of 28 days.
\<close>

theorem presets_cover_their_days:
  assumes "n \<in> {7, 28, 90}" and "four_digits (now div day_ms - 200)" and "four_digits (now div day_ms)"
  shows "\<exists>p rows. preset other now n = Inr p \<and> iso_civil (p_end p) = Some (civil_of (now div day_ms - 3)) \<and>
    iso_civil (p_start p) = Some (civil_of (now div day_ms - 2 - n)) \<and>
    series other current previous metric p = Inr rows \<and> int (length rows) = n \<and>
    (n = 28 \<longrightarrow> initialDates now = Inr p)"
proof -
  define t where "t = now div day_ms"
  have e: "(now - 3 * day_ms) div day_ms = t - 3" "(now - 3 * day_ms - 27 * day_ms) div day_ms = t - 30"
    unfolding t_def using div_mult_self3 [of day_ms "-3" now] div_mult_self3 [of day_ms "-30" now] by simp_all
  have f: "four_digits (t - 3)" "four_digits (t - 30)" "four_digits (t - 2 - n)" "four_digits (t - 3 - 2 * n + 1)"
    using assms unfolding t_def [symmetric] by (auto simp: four_digits_def)
  have i: "initialDates now = Inr \<lparr>p_start = iso_digits (civil_of (t - 30)), p_end = iso_digits (civil_of (t - 3))\<rparr>"
    using f iso_slice_day(1) [of "now - 3 * day_ms", unfolded e] iso_slice_day(1) [of "now - 3 * day_ms - 27 * day_ms", unfolded e]
    unfolding initialDates_def Let_def by (simp only: and_then_simps)
  define p where "p = \<lparr>p_start = iso_digits (civil_of (t - 2 - n)), p_end = iso_digits (civil_of (t - 3))\<rparr>"
  have ms: "(t - 3) * day_ms - (n - 1) * day_ms = (t - 2 - n) * day_ms" by algebra
  have "preset other now n = Inr p"
  proof -
    have "iso_slice ((t - 3) * day_ms - (n - 1) * day_ms) = Inr (iso_digits (civil_of (t - 2 - n)))"
      unfolding ms using iso_slice_day(1) [of "(t - 2 - n) * day_ms"] f by (simp del: left_diff_distrib left_diff_distrib')
    then show ?thesis
      unfolding preset_def i and_then_simps period.simps midnight_iso [OF iso_digits_read [OF f(1)]] day_of_civil_of option.case p_def
      by (simp only: and_then_simps period.simps)
  qed
  moreover have c: "iso_civil (p_start p) = Some (civil_of (t - 2 - n))" "iso_civil (p_end p) = Some (civil_of (t - 3))"
    using f by (simp_all add: p_def iso_digits_read)
  moreover have "four_digits (2 * day_of (civil_of (t - 2 - n)) - day_of (civil_of (t - 3)) - 1)"
    using f(4) by (simp add: algebra_simps)
  then obtain rows where "series other current previous metric p = Inr rows" "int (length rows) = n"
    using period_series [OF c, of other current previous metric] assms(1) by auto
  moreover have "n = 28 \<longrightarrow> initialDates now = Inr p" by (simp add: i p_def)
  ultimately show ?thesis unfolding t_def by blast
qed


theorem presets_cover_their_days_witness:
  "\<exists>p rows. preset (\<lambda>s. None) (20514 * day_ms) 7 = Inr p \<and> series (\<lambda>s. None) [] [] [] p = Inr rows \<and> length rows = 7"
proof -
  have f: "four_digits (20514 * day_ms div day_ms - 200)" "four_digits (20514 * day_ms div day_ms)"
    by (simp_all add: four_digits_def DayFromYear_def)
  show ?thesis using presets_cover_their_days [OF _ f, of 7 "\<lambda>s. None" "[]" "[]" "[]"] by fastforce
qed

definition query_of :: "string \<Rightarrow> params" where
  "query_of url = nullish (search_params (dropWhile (\<lambda>c. c \<noteq> CHR ''?'') url)) []"


lemma query_of_link [simp]: "CHR ''?'' \<notin> set pre \<Longrightarrow> query_of (pre @ ''?'' @ params_str ps) = ps"
proof -
  assume "CHR ''?'' \<notin> set pre"
  then have "dropWhile (\<lambda>c. c \<noteq> CHR ''?'') (pre @ ''?'' @ params_str ps) = ''?'' @ params_str ps"
    by (auto simp: dropWhile_append)
  then show ?thesis unfolding query_of_def by (simp only: search_params_str nullish_simps)
qed

lemma int_str_no_query: "CHR ''?'' \<notin> set (int_str i)"
  by (simp add: int_str_def nat_str_no_char is_digit_def)

lemma selected_period_keeps:
  assumes "valid_date other (Some (p_start p))" and "valid_date other (Some (p_end p))"
    and "params_get q ''start'' = Some (p_start p)" and "params_get q ''end'' = Some (p_end p)"
  shows "selected_period other q f = p"
  by (simp add: selected_period_def assms)

text \<open>
  A period that was chosen stays chosen. Every link of the application to another page, to a
  website or to a report of it carries the period in its query, where the next page finds it,
  whatever its own default; the navigation also carries the choice not to compare; and the
  controls change only what they say. A link to a website carries no such choice: comparison is
  on again there.
\<close>

theorem chosen_period_is_kept:
  assumes "valid_date other (Some (p_start p))" and "valid_date other (Some (p_end p))" and "CHR ''?'' \<notin> set sect"
  shows "selected_period other (query_of (siteHref i (Some p) sect)) f = p \<and>
    comparison (query_of (siteHref i (Some p) sect)) \<and>
    selected_period other (query_of (exploreHref i report p value)) f = p \<and>
    params_get (query_of (exploreHref i report p value)) ''report'' = Some report \<and>
    params_get (query_of (exploreHref i report p value)) ''value'' = (if value = [] then None else Some value) \<and>
    selected_period other (query_of (nav_query p q)) f = p \<and> comparison (query_of (nav_query p q)) = comparison q \<and>
    selected_period other (update_period q p) f = p \<and> comparison (update_period q p) = comparison q \<and>
    comparison (toggle_compare q b) = b \<and> selected_period other (toggle_compare q b) f = selected_period other q f"
proof -
  have site: "query_of (siteHref i (Some p) sect) = period_params p"
    using query_of_link [of "''/dashboard/websites/'' @ int_str i @ sect" "period_params p"] assms(3) int_str_no_query
    by (simp add: siteHref_def)
  have explore: "query_of (exploreHref i report p value) =
      period_params p @ [(''report'', report)] @ (if value \<noteq> [] then [(''value'', value)] else [])"
    using query_of_link [of "''/dashboard/websites/'' @ int_str i @ ''/explore''"] int_str_no_query
    by (simp add: siteHref_def exploreHref_def)
  have nav: "query_of (nav_query p q) =
      period_params p @ (if params_get q ''compare'' = Some ''0'' then [(''compare'', ''0'')] else [])"
    using query_of_link [of "[]"] by (simp add: nav_query_def)
  have update: "params_get (update_period q p) ''start'' = Some (p_start p)" "params_get (update_period q p) ''end'' = Some (p_end p)"
    "comparison (update_period q p) = comparison q"
    by (simp_all add: update_period_def comparison_def params_get_set)
  have toggle: "comparison (toggle_compare q b) = b" "selected_period other (toggle_compare q b) f = selected_period other q f"
    by (simp_all add: toggle_compare_def comparison_def selected_period_def params_get_set)
  have kept: "selected_period other (period_params p @ r) f = p" for r
    by (rule selected_period_keeps [OF assms(1,2)]) (simp_all add: period_params_def params_get_def)
  have read: "comparison (period_params p)"
    "params_get (period_params p @ [(''report'', report)] @ (if value \<noteq> [] then [(''value'', value)] else [])) ''report'' = Some report"
    "params_get (period_params p @ [(''report'', report)] @ (if value \<noteq> [] then [(''value'', value)] else [])) ''value'' =
      (if value = [] then None else Some value)"
    "comparison (period_params p @ (if params_get q ''compare'' = Some ''0'' then [(''compare'', ''0'')] else [])) = comparison q"
    by (simp_all add: period_params_def params_get_def comparison_def)
  show ?thesis
    unfolding site explore nav
    by (intro conjI)
      (simp_all only: kept kept [of "[]", unfolded append_Nil2] read selected_period_keeps [OF assms(1,2) update(1,2)] update(3) toggle)
qed


theorem chosen_period_is_kept_witness:
  "selected_period (\<lambda>s. None) (query_of (siteHref 7 (Some demo_period) [])) \<lparr>p_start = [], p_end = []\<rparr> = demo_period"
proof -
  have "valid_date (\<lambda>s. None) (Some (p_start demo_period))" "valid_date (\<lambda>s. None) (Some (p_end demo_period))"
    by code_simp+
  then show ?thesis using chosen_period_is_kept [of "\<lambda>s. None" demo_period "[]"] by simp
qed

text \<open>
  The analytics application signs what it changes. A call sends the token request and its own
  request and nothing else, both with the session's cookies; a call that is no
  \<^verbatim>\<open>GET\<close> goes out with a token header. When the server refuses a token, only the
  token request was sent and the caller gets the status of the refusal.
\<close>

theorem analytics_calls_signed:
  "sends (\<lambda>r. req_credentials r = ''include'' \<and>
       ((\<exists>url. r = csrf_call url) \<or>
        (req_method r = m \<and> (m = ''GET'' \<or> (\<exists>t. map_of (req_headers r) ''X-CSRFToken'' = Some t))))) (an_api w path m body) \<and>
   (case createApiUrl (nw_canon w) ''/api/csrf'' (an_API_URL (nw_env w)) of
      Inl e \<Rightarrow> m = ''GET'' \<or> an_api w path m body h = (h, Inl TypeError)
    | Inr u \<Rightarrow>
        (case nw_server w h (csrf_call (href u)) of
           Inl e \<Rightarrow> m = ''GET'' \<or> an_api w path m body h = (h @ [csrf_call (href u)], Inl e)
         | Inr r \<Rightarrow> m = ''GET'' \<or> ok r \<or>
             an_api w path m body h =
               (h @ [csrf_call (href u)], Inl (ApiError (status r) ''Could not establish a secure session.''))))"
  by (rule conjI, rule an_api_signed, cases "m = ''GET''")
    (simp split: sum.splits, insert an_api_refused [of m w path body h], auto split: sum.splits)

end
