(* ===== verification/Analytics_Resource.thy ===== *)
theory Analytics_Resource
  imports Analytics_Client State_Machine
begin

text \<open>
  \<^verbatim>\<open>sites/analytics-adb-software-solutions/src/components/experience/useResource.ts\<close>:
  the hook every page of the analytics application loads its data with.

  React renders the component, runs the effect later when its dependencies (path and revision)
  have changed, and first cleans up the effect's previous run; answers arrive at any time and in
  any order. Each run of the effect has a number: the closure's \<^verbatim>\<open>active\<close> is true
  while the component is mounted and no later run began. \<^verbatim>\<open>then\<close> or
  \<^verbatim>\<open>catch\<close> and \<^verbatim>\<open>finally\<close> are separate steps.

  \<open>rs_failed\<close> is no state of the code: it remembers that the latest run failed.
\<close>

record resource =
  rs_path :: "string option"
  rs_interval :: bool
  rs_result :: "(string \<times> json) option"
  rs_error :: string
  rs_loading :: bool
  rs_revision :: nat
  rs_mounted :: bool
  rs_ran :: "(string option \<times> nat) option"
  rs_run :: nat
  rs_calls :: "(nat \<times> string) list"
  rs_finals :: "nat list"
  rs_login :: bool
  rs_failed :: bool

definition resource_init :: "string option \<Rightarrow> bool \<Rightarrow> resource" where
  "resource_init path interval = \<lparr>rs_path = path, rs_interval = interval, rs_result = None, rs_error = [], rs_loading = True,
     rs_revision = 0, rs_mounted = True, rs_ran = None, rs_run = 0, rs_calls = [], rs_finals = [],
     rs_login = False, rs_failed = False\<rparr>"

definition run_active :: "nat \<Rightarrow> resource \<Rightarrow> bool" where
  "run_active k s \<longleftrightarrow> rs_mounted s \<and> k = rs_run s"

text \<open>What the hook returns as \<^verbatim>\<open>data\<close>.\<close>

definition rs_data :: "resource \<Rightarrow> json option" where
  "rs_data s = (case rs_result s of
      Some (p, d) \<Rightarrow> (if rs_path s = Some p then Some d else None) | None \<Rightarrow> None)"

definition rs_reload :: "resource \<Rightarrow> resource" where
  "rs_reload s = s\<lparr>rs_revision := rs_revision s + 1\<rparr>"

text \<open>The effect: the clean-up of its previous run and its body.\<close>

definition effects_due :: "resource \<Rightarrow> bool" where
  "effects_due s \<longleftrightarrow> rs_mounted s \<and> rs_ran s \<noteq> Some (rs_path s, rs_revision s)"

definition load_effect :: "resource \<Rightarrow> resource" where
  "load_effect s =
     (let s1 = s\<lparr>rs_run := rs_run s + 1, rs_ran := Some (rs_path s, rs_revision s)\<rparr>
      in case rs_path s of
           Some p \<Rightarrow>
             (if p = [] then s1\<lparr>rs_loading := False\<rparr>
              else s1\<lparr>rs_loading := True, rs_error := [], rs_failed := False, rs_calls := rs_calls s @ [(rs_run s + 1, p)]\<rparr>)
         | None \<Rightarrow> s1\<lparr>rs_loading := False\<rparr>)"

definition load_error :: "js_throw \<Rightarrow> string" where
  "load_error e = (case e of Err n m \<Rightarrow> m | NonError \<Rightarrow> ''This report could not be loaded.'')"

definition load_answer :: "nat \<Rightarrow> string \<Rightarrow> json result \<Rightarrow> resource \<Rightarrow> resource" where
  "load_answer k p answer s0 =
     (let s = s0\<lparr>rs_calls := remove1 (k, p) (rs_calls s0), rs_finals := rs_finals s0 @ [k]\<rparr>
      in if \<not> run_active k s then s
         else (case answer of
            Inr data \<Rightarrow> s\<lparr>rs_result := Some (p, data)\<rparr>
          | Inl err \<Rightarrow> s\<lparr>rs_login := rs_login s \<or> is_ApiError 401 err, rs_error := load_error err, rs_failed := True\<rparr>))"

definition load_finally :: "nat \<Rightarrow> resource \<Rightarrow> resource" where
  "load_finally k s0 =
     (let s = s0\<lparr>rs_finals := remove1 k (rs_finals s0)\<rparr>
      in if run_active k s then s\<lparr>rs_loading := False\<rparr> else s)"

text \<open>
  One step of a page with the hook. \<open>answers p d\<close>: the server may answer a request for
  \<open>p\<close> with \<open>d\<close>.
\<close>

inductive resource_step :: "(string \<Rightarrow> json \<Rightarrow> bool) \<Rightarrow> resource \<Rightarrow> resource \<Rightarrow> bool"
  for answers :: "string \<Rightarrow> json \<Rightarrow> bool" where
  res_render: "rs_mounted s \<Longrightarrow> resource_step answers s (s\<lparr>rs_path := p\<rparr>)"
| res_effect: "effects_due s \<Longrightarrow> resource_step answers s (load_effect s)"
| res_answer: "(k, p) \<in> set (rs_calls s) \<Longrightarrow> pred_sum (\<lambda>e. True) (answers p) a \<Longrightarrow>
    resource_step answers s (load_answer k p a s)"
| res_finally: "k \<in> set (rs_finals s) \<Longrightarrow> resource_step answers s (load_finally k s)"
| res_reload: "rs_mounted s \<Longrightarrow> resource_step answers s (rs_reload s)"
| res_tick: "rs_mounted s \<Longrightarrow> rs_interval s \<Longrightarrow> truthy_string (rs_path s) \<Longrightarrow> resource_step answers s (rs_reload s)"
| res_unmount: "rs_mounted s \<Longrightarrow> resource_step answers s (s\<lparr>rs_mounted := False\<rparr>)"

inductive_cases resource_stepE: "resource_step answers s t"

section \<open>Lemmas\<close>

text \<open>The run is under way while it waits for its answer or for \<^verbatim>\<open>finally\<close>.\<close>

definition under_way :: "resource \<Rightarrow> bool" where
  "under_way s \<longleftrightarrow> rs_run s \<in> fst ` set (rs_calls s) \<or> rs_run s \<in> set (rs_finals s)"

definition resource_inv :: "(string \<Rightarrow> json \<Rightarrow> bool) \<Rightarrow> resource \<Rightarrow> bool" where
  "resource_inv answers s \<longleftrightarrow>
     pred_option (\<lambda>(p, d). answers p d) (rs_result s) \<and>
     list_all (\<lambda>(k, p). k \<le> rs_run s \<and> (k = rs_run s \<longrightarrow> map_option fst (rs_ran s) = Some (Some p))) (rs_calls s) \<and>
     list_all (\<lambda>k. k \<le> rs_run s) (rs_finals s) \<and>
     distinct (map fst (rs_calls s) @ rs_finals s) \<and>
     (rs_ran s = None \<longrightarrow> rs_loading s \<and> rs_calls s = [] \<and> rs_finals s = []) \<and>
     (rs_mounted s \<and> rs_ran s \<noteq> None \<longrightarrow> rs_loading s = under_way s) \<and>
     (\<forall>p r. rs_ran s = Some (Some p, r) \<longrightarrow> rs_mounted s \<longrightarrow> p \<noteq> [] \<longrightarrow>
        rs_run s \<in> fst ` set (rs_calls s) \<or> rs_failed s \<or> map_option fst (rs_result s) = Some p)"

lemma remove_call:
  "distinct (map fst cs) \<Longrightarrow> (k, p) \<in> set cs \<Longrightarrow>
   set (remove1 (k, p) cs) = set cs - {(k, p)} \<and> fst ` set (remove1 (k, p) cs) = fst ` set cs - {k} \<and>
   distinct (map fst (remove1 (k, p) cs))"
proof (induction cs)
  case Nil
  then show ?case by simp
next
  case (Cons c cs)
  show ?case
  proof (cases "c = (k, p)")
    case True
    then show ?thesis using Cons.prems by force
  next
    case False
    then have "(k, p) \<in> set cs" using Cons.prems(2) by simp
    then have "k \<in> fst ` set cs" by force
    with Cons False show ?thesis by auto
  qed
qed

lemma resource_effect_inv: "effects_due s \<Longrightarrow> resource_inv answers s \<Longrightarrow> resource_inv answers (load_effect s)"
  by (cases "rs_path s")
    (auto simp: resource_inv_def load_effect_def Let_def under_way_def effects_due_def list_all_iff)

lemma answer_inv:
  assumes "(k, p) \<in> set (rs_calls s)" and "pred_sum (\<lambda>e. True) (answers p) a" and "resource_inv answers s"
  shows "resource_inv answers (load_answer k p a s)"
proof -
  have d: "distinct (map fst (rs_calls s))" and f: "distinct (rs_finals s)" "fst ` set (rs_calls s) \<inter> set (rs_finals s) = {}"
    using assms(3) by (simp_all add: resource_inv_def)
  note r = remove_call [OF d assms(1)]
  have k: "k \<in> fst ` set (rs_calls s)" using assms(1) by force
  have kp: "k \<le> rs_run s" "k = rs_run s \<Longrightarrow> map_option fst (rs_ran s) = Some (Some p)" "rs_ran s \<noteq> None"
    using assms(1,3) by (auto simp: resource_inv_def list_all_iff)
  define cs where "cs = remove1 (k, p) (rs_calls s)"
  define fs where "fs = rs_finals s @ [k]"
  have all: "\<And>k' p'. (k', p') \<in> set (rs_calls s) \<Longrightarrow> k' \<le> rs_run s \<and> (k' = rs_run s \<longrightarrow> map_option fst (rs_ran s) = Some (Some p'))"
    "\<And>k'. k' \<in> set (rs_finals s) \<Longrightarrow> k' \<le> rs_run s"
    using assms(3) by (auto simp: resource_inv_def list_all_iff)
  have sub: "set cs \<subseteq> set (rs_calls s)" "fst ` set cs = fst ` set (rs_calls s) - {k}" "distinct (map fst cs)"
    using r by (auto simp: cs_def)
  have moved: "distinct (map fst cs @ fs)" "list_all (\<lambda>k. k \<le> rs_run s) fs"
    "list_all (\<lambda>(k, p). k \<le> rs_run s \<and> (k = rs_run s \<longrightarrow> map_option fst (rs_ran s) = Some (Some p))) cs"
  proof -
    have "k \<notin> set (rs_finals s)" using f(2) k by blast
    then show "distinct (map fst cs @ fs)" using sub(2,3) f by (auto simp: fs_def)
    show "list_all (\<lambda>k. k \<le> rs_run s) fs" using all(2) kp(1) by (auto simp: fs_def list_all_iff)
    show "list_all (\<lambda>(k, p). k \<le> rs_run s \<and> (k = rs_run s \<longrightarrow> map_option fst (rs_ran s) = Some (Some p))) cs"
      using all(1) sub(1) unfolding list_all_iff by blast
  qed
  have u: "(rs_run s \<in> fst ` set cs \<or> rs_run s \<in> set fs) = under_way s" "k \<noteq> rs_run s \<Longrightarrow> (rs_run s \<in> fst ` set cs) = (rs_run s \<in> fst ` set (rs_calls s))"
    using k sub(2) by (auto simp: fs_def under_way_def)
  have old: "pred_option (\<lambda>(p, d). answers p d) (rs_result s)" "rs_mounted s \<Longrightarrow> rs_loading s = under_way s"
    "rs_ran s = Some (Some q, n) \<Longrightarrow> rs_mounted s \<Longrightarrow> q \<noteq> [] \<Longrightarrow>
       rs_run s \<in> fst ` set (rs_calls s) \<or> rs_failed s \<or> map_option fst (rs_result s) = Some q" for q n
    using assms(3) kp(3) by (auto simp: resource_inv_def)
  define t where "t = load_answer k p a s"
  have t: "rs_calls t = cs" "rs_finals t = fs" "rs_run t = rs_run s" "rs_ran t = rs_ran s" "rs_mounted t = rs_mounted s"
    "rs_loading t = rs_loading s"
    by (simp_all add: t_def load_answer_def Let_def cs_def fs_def split: sum.splits)
  have w: "under_way t = under_way s" unfolding under_way_def [of t] t using u(1) .
  have result: "pred_option (\<lambda>(p, d). answers p d) (rs_result t)"
    using old(1) assms(2) by (cases a) (simp_all add: t_def load_answer_def Let_def)
  have outcome: "rs_run s \<in> fst ` set cs \<or> rs_failed t \<or> map_option fst (rs_result t) = Some q"
    if "rs_ran s = Some (Some q, n)" "rs_mounted s" "q \<noteq> []" for q n
  proof (cases "k = rs_run s")
    case True
    then have "p = q" using kp(2) that(1) by simp
    then show ?thesis using True that by (cases a) (simp_all add: t_def load_answer_def Let_def run_active_def)
  next
    case False
    then have "rs_failed t = rs_failed s" "rs_result t = rs_result s"
      by (simp_all add: t_def load_answer_def Let_def run_active_def)
    then show ?thesis using old(3) [OF that] u(2) [OF False] by simp
  qed
  have "resource_inv answers t"
    unfolding resource_inv_def t w using moved old(2) kp(3) result outcome by blast
  then show ?thesis by (simp add: t_def)
qed

lemma finally_inv:
  assumes "k \<in> set (rs_finals s)" and "resource_inv answers s"
  shows "resource_inv answers (load_finally k s)"
proof -
  have f: "distinct (rs_finals s)" "fst ` set (rs_calls s) \<inter> set (rs_finals s) = {}" "distinct (map fst (rs_calls s))"
    using assms(2) by (simp_all add: resource_inv_def)
  have "set (remove1 k (rs_finals s)) = set (rs_finals s) - {k}" using f by simp
  moreover have "k = rs_run s \<Longrightarrow> k \<notin> fst ` set (rs_calls s)" using f assms(1) by blast
  ultimately show ?thesis
    using assms f unfolding resource_inv_def load_finally_def Let_def run_active_def under_way_def
    by (auto simp: list_all_iff)
qed

lemma resource_reload_inv: "resource_inv answers s \<Longrightarrow> resource_inv answers (rs_reload s)"
  by (simp add: rs_reload_def resource_inv_def under_way_def)

lemma resource_render_inv: "resource_inv answers s \<Longrightarrow> resource_inv answers (s\<lparr>rs_path := p\<rparr>)"
  by (simp add: resource_inv_def under_way_def)

lemma resource_unmount_inv: "resource_inv answers s \<Longrightarrow> resource_inv answers (s\<lparr>rs_mounted := False\<rparr>)"
  by (simp add: resource_inv_def under_way_def)

lemma resource_step_inv: "resource_step answers s t \<Longrightarrow> resource_inv answers s \<Longrightarrow> resource_inv answers t"
  by (erule resource_stepE) (simp_all add: resource_effect_inv answer_inv finally_inv resource_reload_inv resource_render_inv resource_unmount_inv)

lemma resource_init_inv: "resource_inv answers (resource_init path interval)"
  by (simp add: resource_inv_def resource_init_def)

interpretation hook: safe_machine "\<lambda>s. s = resource_init path interval" "resource_step answers" "resource_inv answers"
  by unfold_locales (simp add: resource_init_inv, rule resource_step_inv)

section \<open>Properties\<close>

text \<open>
  C15: a page never shows the data of another address. In every state the hook can reach, by any
  sequence of renderings with other paths, reloads, polls and answers in any order, what it
  returns as data is an answer of the server for the path it is rendered with. Once its effect
  has run for the current path and revision, it is loading exactly as long as the latest request
  is under way, and it never ends with neither data nor a failure.
\<close>

theorem resource_shows_its_path:
  assumes "reachable (\<lambda>s. s = resource_init path interval) (resource_step answers) s"
  shows "pred_option (\<lambda>d. pred_option (\<lambda>p. answers p d) (rs_path s) \<and> rs_path s \<noteq> None) (rs_data s) \<and>
    (rs_mounted s \<and> \<not> effects_due s \<longrightarrow>
       rs_loading s = under_way s \<and>
       (truthy_string (rs_path s) \<and> \<not> rs_loading s \<longrightarrow> rs_data s \<noteq> None \<or> rs_failed s))"
proof -
  have i: "resource_inv answers s" by (rule hook.inv_reachable [OF assms])
  have "pred_option (\<lambda>d. pred_option (\<lambda>p. answers p d) (rs_path s) \<and> rs_path s \<noteq> None) (rs_data s)"
    using i by (auto simp: resource_inv_def rs_data_def split: option.splits)
  moreover have "rs_loading s = under_way s" if "rs_mounted s" "\<not> effects_due s"
    using i that by (auto simp: resource_inv_def effects_due_def)
  moreover have "rs_data s \<noteq> None \<or> rs_failed s"
    if m: "rs_mounted s" "\<not> effects_due s" and p: "rs_path s = Some (c # cs)" and l: "\<not> rs_loading s" for c cs
  proof -
    have "rs_run s \<notin> fst ` set (rs_calls s)" using l calculation(2) [OF m] by (simp add: under_way_def)
    moreover have "rs_ran s = Some (Some (c # cs), rs_revision s)" using m p by (simp add: effects_due_def)
    ultimately have "rs_failed s \<or> map_option fst (rs_result s) = Some (c # cs)"
      using i m(1) unfolding resource_inv_def by blast
    then show ?thesis using p by (auto simp: rs_data_def)
  qed
  ultimately show ?thesis by (auto simp: truthy_string_def split: option.splits) (metis list.exhaust)
qed


definition demo_run :: "resource list" where
  "demo_run =
     (let s1 = load_effect (resource_init (Some ''/session'') False);
          s2 = load_answer 1 ''/session'' (Inr (JStr ''x'')) s1; s3 = load_finally 1 s2
      in [s1, s2, s3])"

lemma demo_run_steps: "is_run (resource_step (\<lambda>p d. d = JStr ''x'')) (resource_init (Some ''/session'') False) demo_run"
  by (simp add: demo_run_def Let_def, intro conjI)
    (rule res_effect, code_simp, rule res_answer, code_simp, simp, rule res_finally, code_simp)

lemma demo_run_last:
  "last demo_run = (resource_init (Some ''/session'') False)\<lparr>rs_result := Some (''/session'', JStr ''x''), rs_loading := False,
     rs_ran := Some (Some ''/session'', 0), rs_run := 1\<rparr>"
  by code_simp

theorem resource_shows_its_path_witness:
  "rs_data (last demo_run) = Some (JStr ''x'') \<and> \<not> rs_loading (last demo_run) \<and> \<not> under_way (last demo_run)"
proof -
  have "reachable (\<lambda>s. s = resource_init (Some ''/session'') False) (resource_step (\<lambda>p d. d = JStr ''x'')) (last demo_run)"
    by (rule run_reachable [OF reach_init demo_run_steps]) (simp_all add: demo_run_def Let_def)
  from resource_shows_its_path [OF this] show ?thesis
    unfolding demo_run_last by (simp add: effects_due_def resource_init_def rs_data_def)
qed

end
