(* ===== verification/Js_Sort.thy ===== *)
theory Js_Sort
  imports Main "HOL-Library.Multiset"
begin

text \<open>
  \<^verbatim>\<open>Array.prototype.sort\<close> with a comparator: a stable sort, which is what the
  language defines for comparators that are consistent.
\<close>

fun insert_by :: "('a \<Rightarrow> 'a \<Rightarrow> 'n::linordered_idom) \<Rightarrow> 'a \<Rightarrow> 'a list \<Rightarrow> 'a list" where
  "insert_by cmp x [] = [x]"
| "insert_by cmp x (y # ys) = (if cmp x y \<le> 0 then x # y # ys else y # insert_by cmp x ys)"

definition js_sort :: "('a \<Rightarrow> 'a \<Rightarrow> 'n::linordered_idom) \<Rightarrow> 'a list \<Rightarrow> 'a list" where
  "js_sort cmp xs = foldr (insert_by cmp) xs []"

lemma set_insert_by [simp]: "mset (insert_by cmp x ys) = add_mset x (mset ys)"
  by (induction ys) auto

lemma mset_js_sort [simp]: "mset (js_sort cmp xs) = mset xs"
  unfolding js_sort_def by (induction xs) simp_all

lemma set_js_sort [simp]: "set (js_sort cmp xs) = set xs"
  by (metis mset_js_sort set_mset_mset)

text \<open>A comparator that is a difference of keys sorts by the key, and keeps the order of equal keys.\<close>

lemma sorted_insert_key:
  "(\<And>y. y \<in> set ys \<Longrightarrow> cmp x y \<le> 0 \<longleftrightarrow> f x \<le> f y) \<Longrightarrow> sorted_wrt (\<lambda>a b. f a \<le> f b) ys \<Longrightarrow>
   sorted_wrt (\<lambda>a b. f a \<le> f b) (insert_by cmp x ys)" for f :: "'a \<Rightarrow> 'b::linorder"
proof (induction ys)
  case Nil
  then show ?case by simp
next
  case (Cons y ys)
  have "set (insert_by cmp x ys) = insert x (set ys)" by (metis set_mset_add_mset_insert set_insert_by set_mset_mset)
  with Cons show ?case by (auto simp: not_le intro: order_trans less_imp_le)
qed

lemma js_sort_sorted:
  "(\<And>x y. x \<in> set xs \<Longrightarrow> y \<in> set xs \<Longrightarrow> cmp x y \<le> 0 \<longleftrightarrow> f x \<le> f y) \<Longrightarrow> sorted_wrt (\<lambda>a b. f a \<le> f b) (js_sort cmp xs)"
  for f :: "'a \<Rightarrow> 'b::linorder"
  unfolding js_sort_def
proof (induction xs)
  case Nil
  then show ?case by simp
next
  case (Cons x xs)
  have s: "set (foldr (insert_by cmp) xs []) = set xs" using set_js_sort [of cmp xs] by (simp add: js_sort_def)
  have "sorted_wrt (\<lambda>a b. f a \<le> f b) (foldr (insert_by cmp) xs [])" by (rule Cons.IH) (simp add: Cons.prems)
  then show ?case unfolding foldr_Cons comp_def by (rule sorted_insert_key [rotated]) (simp add: Cons.prems s)
qed

lemma insert_by_stable:
  "(\<And>y. y \<in> set ys \<Longrightarrow> cmp x y \<le> 0 \<longleftrightarrow> f x \<le> f y) \<Longrightarrow> filter (\<lambda>y. f y = k) (insert_by cmp x ys) = filter (\<lambda>y. f y = k) (x # ys)"
  for f :: "'a \<Rightarrow> 'b::linorder"
  by (induction ys) auto

lemma js_sort_stable:
  "(\<And>x y. x \<in> set xs \<Longrightarrow> y \<in> set xs \<Longrightarrow> cmp x y \<le> 0 \<longleftrightarrow> f x \<le> f y) \<Longrightarrow>
   filter (\<lambda>y. f y = k) (js_sort cmp xs) = filter (\<lambda>y. f y = k) xs" for f :: "'a \<Rightarrow> 'b::linorder"
  unfolding js_sort_def
proof (induction xs)
  case Nil
  then show ?case by simp
next
  case (Cons x xs)
  have s: "set (foldr (insert_by cmp) xs []) = set xs" using set_js_sort [of cmp xs] by (simp add: js_sort_def)
  have "filter (\<lambda>y. f y = k) (insert_by cmp x (foldr (insert_by cmp) xs [])) = filter (\<lambda>y. f y = k) (x # foldr (insert_by cmp) xs [])"
    by (rule insert_by_stable) (simp add: s Cons.prems)
  then show ?case using Cons by simp
qed

end
