(* ===== verification/Analytics_Reports.thy ===== *)
theory Analytics_Reports
  imports Analytics_Resource Json_Text Admin_Screens Js_Sort
begin

text \<open>
  What the pages of the analytics application compute from the data they loaded:
  \<^verbatim>\<open>components/experience/PortfolioPage.tsx\<close> (which view is shown, the order of
  the websites and their status), \<^verbatim>\<open>components/reports/ReportTable.tsx\<close>
  (sorting, comparison with the previous period) and the requests of
  \<^verbatim>\<open>components/reports/ReportExplorer.tsx\<close>. \<open>collate\<close> is \<^verbatim>\<open>localeCompare\<close>.
\<close>

section \<open>The portfolio\<close>

record insight =
  in_website_id :: int
  in_level :: string
  in_report :: string
  in_value :: string
  in_change :: "rat option"

record site_summary =
  ss_id :: int
  ss_name :: string
  ss_domain :: string
  ss_providers :: "string list"
  ss_ga4_current :: "json option"
  ss_ga4_previous :: "json option"
  ss_gsc_current :: "json option"
  ss_insights :: "insight list"
  ss_syncing :: bool
  ss_issues :: "string list"

definition insight_score :: "insight \<Rightarrow> rat" where
  "insight_score item =
     (if in_level item = ''attention'' then 200 + \<bar>nullish (in_change item) 0\<bar>
      else if in_level item = ''opportunity'' then 100 else 20)"

definition attentionScore :: "site_summary \<Rightarrow> rat" where
  "attentionScore site =
     (if ss_issues site \<noteq> [] then 1000
      else if ss_syncing site then 0
      else foldl max 0 (map insight_score (ss_insights site)))"

text \<open>\<^verbatim>\<open>row?.totalUsers\<close> of a row that may be missing.\<close>

definition metric_of :: "json option \<Rightarrow> string \<Rightarrow> json option" where
  "metric_of row key = Option.bind row (\<lambda>r. jget r key)"

definition visitors :: "site_summary \<Rightarrow> int" where
  "visitors site = nullish (row_number (metric_of (ss_ga4_current site) ''totalUsers'')) (- 1)"

definition site_matches :: "string \<Rightarrow> site_summary \<Rightarrow> bool" where
  "site_matches search site = str_includes (toLowerCase (ss_domain site @ '' '' @ ss_name site)) (toLowerCase search)"

definition site_order :: "(string \<Rightarrow> string \<Rightarrow> int) \<Rightarrow> string \<Rightarrow> site_summary \<Rightarrow> site_summary \<Rightarrow> rat" where
  "site_order collate order a b =
     (if order = ''name'' then of_int (collate (ss_domain a) (ss_domain b))
      else if order = ''visitors'' then of_int (visitors b - visitors a)
      else attentionScore b - attentionScore a)"

definition filtered_sites :: "(string \<Rightarrow> string \<Rightarrow> int) \<Rightarrow> string \<Rightarrow> string \<Rightarrow> site_summary list \<Rightarrow> site_summary list" where
  "filtered_sites collate search order sites = js_sort (site_order collate order) (filter (site_matches search) sites)"

definition site_status :: "site_summary \<Rightarrow> string" where
  "site_status site =
     (let current = metric_of (ss_ga4_current site) ''totalUsers'';
          delta = change (map_option JNum (row_number current)) (metric_of (ss_ga4_previous site) ''totalUsers'')
      in if ss_issues site \<noteq> [] then ''Connection needs attention''
         else if ss_syncing site then ''Updating reports''
         else if list_ex (\<lambda>item. in_level item = ''attention'') (ss_insights site) then ''Worth a closer look''
         else if (case delta of None \<Rightarrow> False | Some d \<Rightarrow> 20 \<le> d) then ''Building momentum''
         else if ss_ga4_current site = None \<and> ss_gsc_current site = None then ''Awaiting reports''
         else ''Your website at a glance'')"

text \<open>The session: the role and the number of websites of each business.\<close>

datatype portfolio_view = Waiting | Onboarding "(string \<times> nat) option" | Loading | Failed string | Shown json

definition portfolio_view :: "(string \<times> nat) list \<Rightarrow> resource \<Rightarrow> portfolio_view" where
  "portfolio_view businesses hook =
     (if \<not> list_ex (\<lambda>b. 0 < snd b) businesses then
        (let workspace = find (\<lambda>b. fst b \<noteq> ''viewer'') businesses
         in if workspace = None \<and> businesses \<noteq> [] then Waiting else Onboarding workspace)
      else (case rs_data hook of
        Some d \<Rightarrow> Shown d
      | None \<Rightarrow> if rs_loading hook then Loading
                else Failed (if rs_error hook = [] then ''No portfolio data is available.'' else rs_error hook)))"

section \<open>Tables\<close>

record table_order =
  to_key :: string
  to_desc :: bool

definition table_order_init :: table_order where
  "table_order_init = \<lparr>to_key = [], to_desc = True\<rparr>"

definition choose_column :: "string \<Rightarrow> table_order \<Rightarrow> table_order" where
  "choose_column key order = \<lparr>to_key = key, to_desc = (if to_key order = key then \<not> to_desc order else True)\<rparr>"

text \<open>\<^verbatim>\<open>String(value)\<close> of a cell: a number, a text, \<^verbatim>\<open>null\<close> or missing.\<close>

definition cell_text :: "json option \<Rightarrow> string" where
  "cell_text v = (case v of None \<Rightarrow> ''undefined'' | Some j \<Rightarrow> js_text j)"

text \<open>
  \<^verbatim>\<open>n - Number(value)\<close>, of which the sort reads the sign: an infinite difference
  is one of size 1, and \<^verbatim>\<open>NaN\<close> counts as 0.
\<close>

definition minus_cell :: "int \<Rightarrow> json option \<Rightarrow> rat" where
  "minus_cell n v =
     (case v of
        None \<Rightarrow> 0
      | Some j \<Rightarrow>
          (case (case j of JNum m \<Rightarrow> Dec m 0 | JNull \<Rightarrow> Dec 0 0 | JBool b \<Rightarrow> Dec (if b then 1 else 0) 0
             | JStr s \<Rightarrow> js_Number s | _ \<Rightarrow> NaN) of
             Dec m k \<Rightarrow> of_int n - of_int m / 10 ^ k
           | Infinity p \<Rightarrow> (if p then - 1 else 1)
           | NaN \<Rightarrow> 0))"

definition compare_cells :: "(string \<Rightarrow> string \<Rightarrow> int) \<Rightarrow> json option \<Rightarrow> json option \<Rightarrow> rat" where
  "compare_cells collate a b =
     (case row_number a of Some n \<Rightarrow> minus_cell n b | None \<Rightarrow> of_int (collate (cell_text a) (cell_text b)))"

definition compare_rows :: "(string \<Rightarrow> string \<Rightarrow> int) \<Rightarrow> table_order \<Rightarrow> json \<Rightarrow> json \<Rightarrow> rat" where
  "compare_rows collate order a b =
     compare_cells collate (jget a (to_key order)) (jget b (to_key order)) * (if to_desc order then - 1 else 1)"

definition sorted_rows :: "(string \<Rightarrow> string \<Rightarrow> int) \<Rightarrow> table_order \<Rightarrow> json list \<Rightarrow> json list" where
  "sorted_rows collate order rows =
     (if to_key order = [] then rows else js_sort (compare_rows collate order) rows)"

text \<open>Rows of two periods belong together when all their texts agree.\<close>

definition text_members :: "json \<Rightarrow> json" where
  "text_members row = JArr [JArr [JStr k, JStr v]. (k, JStr v) \<leftarrow> (case row of JObj kvs \<Rightarrow> kvs | _ \<Rightarrow> [])]"

definition identity :: "json \<Rightarrow> string" where
  "identity row = JSON_stringify (text_members row)"

definition COMPARED :: "string list" where
  "COMPARED = [''clicks'', ''sessions'', ''screenPageViews'', ''eventCount'', ''activeUsers'']"

text \<open>A row and the member \<^verbatim>\<open>change rate\<close> that is added to it, if any.\<close>

definition compared_row :: "json list \<Rightarrow> json \<Rightarrow> json \<times> (string \<times> rat option) option" where
  "compared_row previous row =
     (case find (\<lambda>key. row_number (jget row key) \<noteq> None) COMPARED of
        None \<Rightarrow> (row, None)
      | Some metric \<Rightarrow>
          (let prior = map_of (rev (map (\<lambda>r. (identity r, r)) previous)) (identity row);
               baseline = row_number (metric_of prior metric)
           in (row, Some (metric @ '' change rate'',
                 (case (row_number (jget row metric), baseline) of
                    (Some n, Some b) \<Rightarrow> (if b \<noteq> 0 then Some (of_int (n - b) / of_int b) else None)
                  | _ \<Rightarrow> None)))))"

definition compareRows :: "json list \<Rightarrow> json list \<Rightarrow> (json \<times> (string \<times> rat option) option) list" where
  "compareRows rows previous = map (compared_row previous) rows"


section \<open>The report explorer\<close>

definition GSC_SECTIONS :: "string list" where
  "GSC_SECTIONS = [''search'', ''queries'', ''search-pages'', ''opportunities'']"

definition report_provider :: "string \<Rightarrow> string" where
  "report_provider sect = (if sect \<in> set GSC_SECTIONS then ''gsc'' else ''ga4'')"

definition REPORT_NAMES :: "(string \<times> string) list" where
  "REPORT_NAMES = [(''overview'', ''overview''), (''search'', ''overview''), (''search-pages'', ''pages''),
     (''audience'', ''devices''), (''key-events'', ''events'')]"

definition report_name :: "string \<Rightarrow> string \<Rightarrow> string \<Rightarrow> string" where
  "report_name sect breakdown searchBreakdown =
     (if sect = ''audience'' then breakdown
      else if sect = ''search'' then searchBreakdown
      else nullish (map_of REPORT_NAMES sect) sect)"

record report_view = net +
  rp_report :: "json option"
  rp_extra :: "json list"
  rp_notice :: string
  rp_busy :: bool
  rp_error :: string
  rp_events :: "json list"
  rp_jobs :: "json list"
  rp_sync :: nat
  rp_selected :: "json option"
  rp_parameterRows :: "json list option"
  rp_refreshes :: nat

record report_props =
  pr_website :: int
  pr_section :: string
  pr_breakdown :: string
  pr_searchBreakdown :: string
  pr_start :: string
  pr_end :: string
  pr_filter :: string
  pr_page :: int

definition report_query :: "report_props \<Rightarrow> string" where
  "report_query p = params_str [(''start'', pr_start p), (''end'', pr_end p), (''search'', pr_filter p), (''page'', int_str (pr_page p))]"

definition website_url :: "report_props \<Rightarrow> string \<Rightarrow> string" where
  "website_url p rest = ''/websites/'' @ int_str (pr_website p) @ rest"

definition props_name :: "report_props \<Rightarrow> string" where
  "props_name p = report_name (pr_section p) (pr_breakdown p) (pr_searchBreakdown p)"

definition report_url :: "report_props \<Rightarrow> string \<Rightarrow> string \<Rightarrow> string" where
  "report_url p n rest =
     website_url p (''/reports/'' @ report_provider (pr_section p) @ ''/'' @ n @ ''?'' @ report_query p @ rest)"

definition an_get :: "analytics_world \<Rightarrow> string \<Rightarrow> ('b net_scheme, json) act" where
  "an_get w path = bind_act (io_act (an_api w path ''GET'' None)) (\<lambda>j. lift_act (non_null j))"

text \<open>\<^verbatim>\<open>if (active) ...\<close>: the run of the effect was not cleaned up by then.\<close>

definition when_act :: "bool \<Rightarrow> ('w \<Rightarrow> 'w) \<Rightarrow> ('w, unit) act" where
  "when_act b f = set_act (if b then f else (\<lambda>s. s))"

definition opportunity_row :: "json \<Rightarrow> json" where
  "opportunity_row item =
     JObj [(''subject'', nullish (jget item ''subject'') JNull),
           (''opportunity'', JStr (join '' '' (map js_text (json_list (jget item ''reasons'')))))]"

definition realtime_report :: "json \<Rightarrow> string \<Rightarrow> json" where
  "realtime_report value now =
     JObj [(''current'', JObj [(''rows'', nullish (jget value ''totals'') JNull), (''complete'', JBool True),
             (''measurement'', JStr ''Last 30 minutes''), (''updated_at'', JStr now)]),
           (''previous'', JNull), (''total'', JNum (int (length (json_list (jget value ''rows''))))),
           (''status'', JStr ''available''), (''last_synced_at'', JNull), (''error_code'', JStr [])]"

definition current_member :: "json \<Rightarrow> string \<Rightarrow> json option" where
  "current_member value key = Option.bind (jget value ''current'') (\<lambda>c. jget c key)"

text \<open>\<^verbatim>\<open>fetchData\<close>; \<open>active n\<close> is the flag after the n-th answer.\<close>

definition fetchData :: "analytics_world \<Rightarrow> (nat \<Rightarrow> bool) \<Rightarrow> string \<Rightarrow> report_props \<Rightarrow> (report_view, unit) act" where
  "fetchData w active now p =
     (if pr_section p = ''realtime'' then
        bind_act (an_get w (website_url p ''/realtime'')) (\<lambda>value.
          when_act (active 0) (\<lambda>s. s\<lparr>rp_extra := json_list (jget value ''rows''),
            rp_notice := nullish (jstr value ''limitations'') [], rp_report := Some (realtime_report value now)\<rparr>))
      else if pr_section p = ''opportunities'' then
        bind_act (an_get w (website_url p (''/opportunities?'' @ report_query p))) (\<lambda>value.
          when_act (active 0) (\<lambda>s. s\<lparr>rp_extra := map opportunity_row (json_list (jget value ''items'')),
            rp_notice := ''Heuristic suggestions, using at least 100 impressions. Review alongside the full context.''\<rparr>))
      else
        then_act
          (bind_act (an_get w (report_url p (props_name p) [])) (\<lambda>value.
            when_act (active 0) (\<lambda>s. s\<lparr>rp_report := Some value,
              rp_notice := nullish (jstring (current_member value ''limitations'')) []\<rparr>)))
          (then_act
            (if pr_section p = ''key-events'' then
               bind_act (an_get w (website_url p ''/key-events'')) (\<lambda>configured.
                 when_act (active 1) (\<lambda>s. s\<lparr>rp_events := json_list (jget configured ''items'')\<rparr>))
             else return_act ())
            (if pr_section p \<in> {''overview'', ''search'', ''events''} \<and> (pr_section p \<noteq> ''search'' \<or> props_name p = ''overview'') then
               bind_act (an_get w (report_url p ''trend'' ''&page_size=400'')) (\<lambda>trend.
                 when_act (active 2) (\<lambda>s. s\<lparr>rp_extra := json_list (current_member trend ''rows'')\<rparr>))
             else return_act ())))"

definition error_string :: "js_throw \<Rightarrow> string" where
  "error_string e = (case e of Err n m \<Rightarrow> (if m = [] then ''Error'' else ''Error: '' @ m) | NonError \<Rightarrow> ''[object Object]'')"

text \<open>The effect: the reset, the run, and its end with the flag as it is then.\<close>

definition report_effect :: "analytics_world \<Rightarrow> (nat \<Rightarrow> bool) \<Rightarrow> bool \<Rightarrow> string \<Rightarrow> report_props \<Rightarrow> (report_view, unit) act" where
  "report_effect w active linked now p =
     (if \<not> linked then return_act ()
      else then_act (set_act (\<lambda>s. s\<lparr>rp_busy := True, rp_error := [], rp_selected := None, rp_extra := [], rp_parameterRows := None\<rparr>))
        (finally_act
          (catch_act (fetchData w active now p)
            (\<lambda>e. when_act (active 3) (rp_error_update (\<lambda>_. error_string e))))
          (if active 4 then rp_busy_update (\<lambda>_. False) else (\<lambda>s. s))))"

text \<open>One poll of the synchronisation jobs; \<open>completed\<close> is the variable of the polling effect.\<close>

definition completed_jobs :: "json list \<Rightarrow> string" where
  "completed_jobs jobs =
     join '','' (sort (map (\<lambda>j. cell_text (jget j ''id'')) (filter (\<lambda>j. jstr j ''status'' = Some ''complete'') jobs)))"

definition poll_answer :: "bool \<Rightarrow> json list \<Rightarrow> report_view \<times> string \<Rightarrow> report_view \<times> string" where
  "poll_answer active jobs st =
     (case st of (s, completed) \<Rightarrow>
        if \<not> active then (s, completed)
        else (let signature = completed_jobs jobs
              in (s\<lparr>rp_jobs := jobs,
                    rp_sync := (if signature \<noteq> [] \<and> signature \<noteq> completed then rp_sync s + 1 else rp_sync s)\<rparr>, signature)))"

definition start_sync :: "analytics_world \<Rightarrow> report_props \<Rightarrow> (report_view, unit) act" where
  "start_sync w p =
     finally_act
       (catch_act
         (then_act (set_act (rp_busy_update (\<lambda>_. True)))
           (then_act
             (bind_act (io_act (an_api w (website_url p ''/sync'') ''POST''
                (Some (JObj [(''start'', JStr (pr_start p)), (''end'', JStr (pr_end p))])))) (\<lambda>j. return_act ()))
             (set_act (\<lambda>s. s\<lparr>rp_notice :=
               ''Synchronization queued for this range and the previous period. Refresh reports once it completes.'',
               rp_refreshes := rp_refreshes s + 1\<rparr>))))
         (\<lambda>e. set_act (rp_error_update (\<lambda>_. error_string e))))
       (rp_busy_update (\<lambda>_. False))"

text \<open>The rows that are shown, and the jobs that keep the synchronisation button disabled.\<close>

definition shown_rows :: "report_props \<Rightarrow> report_view \<Rightarrow> json list" where
  "shown_rows p s =
     filter (\<lambda>row. pr_section p \<noteq> ''key-events'' \<or> minus_cell 0 (jget row ''keyEvents'') < 0)
       (json_list (Option.bind (rp_report s) (\<lambda>r. current_member r ''rows'')))"

definition activeJobs :: "report_view \<Rightarrow> json list" where
  "activeJobs s = filter (\<lambda>j. jstr j ''status'' \<in> Some ` {''queued'', ''running'', ''retrying''}) (rp_jobs s)"


section \<open>Lemmas\<close>

lemma score_nonneg: "0 \<le> attentionScore site"
proof -
  have "a \<le> foldl max a xs" for a :: rat and xs by (induction xs arbitrary: a) (simp, metis foldl_Cons max.bounded_iff)
  then show ?thesis by (auto simp: attentionScore_def)
qed


lemma no_number [simp]: "row_number None = None"
  by (simp add: row_number_def)

lemma attention_order: "site_order collate ''attention'' a b \<le> 0 \<longleftrightarrow> - attentionScore a \<le> - attentionScore b"
  by (simp add: site_order_def)

lemma map_of_rev_unique:
  "distinct (map f xs) \<Longrightarrow> x \<in> set xs \<Longrightarrow> map_of (rev (map (\<lambda>r. (f r, r)) xs)) (f x) = Some x"
  by (rule map_of_is_SomeI) (auto simp: rev_map [symmetric] comp_def)

section \<open>Properties\<close>

text \<open>
  The portfolio lists each matching website once, those that need attention first. Sorted by
  attention, the websites appear by falling score, equal scores in the order the server gave
  them; whatever the order chosen, none is lost or shown twice.
\<close>

theorem portfolio_lists_every_match:
  "mset (filtered_sites collate search order sites) = filter_mset (site_matches search) (mset sites) \<and>
   sorted_wrt (\<lambda>a b. attentionScore b \<le> attentionScore a) (filtered_sites collate search ''attention'' sites) \<and>
   filter (\<lambda>s. attentionScore s = k) (filtered_sites collate search ''attention'' sites) =
     filter (\<lambda>s. attentionScore s = k) (filter (site_matches search) sites)"
proof -
  have c: "site_order collate ''attention'' a b \<le> 0 \<longleftrightarrow> - attentionScore a \<le> - attentionScore b" for a b
    by (rule attention_order)
  have "sorted_wrt (\<lambda>a b. - attentionScore a \<le> - attentionScore b) (filtered_sites collate search ''attention'' sites)"
    unfolding filtered_sites_def by (rule js_sort_sorted) (rule c)
  moreover have "filter (\<lambda>s. - attentionScore s = - k) (filtered_sites collate search ''attention'' sites) =
      filter (\<lambda>s. - attentionScore s = - k) (filter (site_matches search) sites)"
    unfolding filtered_sites_def by (rule js_sort_stable) (rule c)
  ultimately show ?thesis by (simp add: filtered_sites_def)
qed

text \<open>
  A failed connection, scored 1000, is not always first: a website whose visitors rose by more
  than 800 percent has a higher score.
\<close>

lemma change_outranks_issues:
  "ss_issues site = [] \<Longrightarrow> \<not> ss_syncing site \<Longrightarrow> ss_insights site = [item] \<Longrightarrow> in_level item = ''attention'' \<Longrightarrow>
   in_change item = Some c \<Longrightarrow> 800 < c \<Longrightarrow> 1000 < attentionScore site"
  by (simp add: attentionScore_def insight_score_def)

definition column :: "string \<Rightarrow> json \<Rightarrow> int" where
  "column key row = nullish (row_number (jget row key)) 0"

lemma compare_numbers:
  assumes "row_number (jget a (to_key order)) \<noteq> None" and "row_number (jget b (to_key order)) \<noteq> None"
  shows "compare_rows collate order a b =
    of_int ((column (to_key order) a - column (to_key order) b) * (if to_desc order then - 1 else 1))"
  using assms by (auto simp: compare_rows_def compare_cells_def column_def minus_cell_def row_number_def split: option.splits json.splits)

definition number_row :: json where "number_row = JObj [(''clicks'', JNum 5)]"
definition null_row :: json where "null_row = JObj [(''clicks'', JNull)]"

text \<open>
  Choosing a column of numbers sorts by them. The rows shown are the rows given, by falling
  values at first and by rising ones when the column is chosen again, rows of equal values in the
  order they came in. In a column that mixes numbers and missing values there is no such order:
  the comparison is by number when the first cell is one and by text otherwise, so that of a
  number and a \<^verbatim>\<open>null\<close> each is placed after the other when rising, and each before
  the other when falling.
\<close>

theorem table_sorts_numbers:
  assumes "key \<noteq> []" and "list_all (\<lambda>row. row_number (jget row key) \<noteq> None) rows" and "0 < collate ''null'' ''5''"
  shows "mset (sorted_rows collate \<lparr>to_key = key, to_desc = desc\<rparr> rows) = mset rows \<and>
    sorted_wrt (\<lambda>a b. column key b \<le> column key a) (sorted_rows collate (choose_column key table_order_init) rows) \<and>
    sorted_wrt (\<lambda>a b. column key a \<le> column key b)
      (sorted_rows collate (choose_column key (choose_column key table_order_init)) rows) \<and>
    filter (\<lambda>row. column key row = v) (sorted_rows collate \<lparr>to_key = key, to_desc = desc\<rparr> rows) =
      filter (\<lambda>row. column key row = v) rows \<and>
    0 < compare_rows collate \<lparr>to_key = ''clicks'', to_desc = False\<rparr> number_row null_row \<and>
    0 < compare_rows collate \<lparr>to_key = ''clicks'', to_desc = False\<rparr> null_row number_row"
proof -
  let ?n = "\<lambda>row. row_number (jget row key) \<noteq> None"
  have n: "?n row" if "row \<in> set rows" for row using that assms(2) by (auto simp: list_all_iff)
  have c: "compare_rows collate \<lparr>to_key = key, to_desc = d\<rparr> a b \<le> 0 \<longleftrightarrow>
      (if d then - column key a \<le> - column key b else column key a \<le> column key b)" if "a \<in> set rows" "b \<in> set rows" for a b d
    using compare_numbers [of a "\<lparr>to_key = key, to_desc = d\<rparr>" b] n that by simp
  have falling: "sorted_wrt (\<lambda>a b. - column key a \<le> - column key b) (js_sort (compare_rows collate \<lparr>to_key = key, to_desc = True\<rparr>) rows)"
    by (rule js_sort_sorted) (simp only: c if_True)
  have rising: "sorted_wrt (\<lambda>a b. column key a \<le> column key b) (js_sort (compare_rows collate \<lparr>to_key = key, to_desc = False\<rparr>) rows)"
    by (rule js_sort_sorted) (simp only: c if_False)
  have stable: "filter (\<lambda>row. column key row = v) (js_sort (compare_rows collate \<lparr>to_key = key, to_desc = d\<rparr>) rows) =
      filter (\<lambda>row. column key row = v) rows" for d
  proof (cases d)
    case True
    then show ?thesis
      using js_sort_stable [of rows "compare_rows collate \<lparr>to_key = key, to_desc = d\<rparr>" "\<lambda>row. - column key row" "- v"] c by simp
  next
    case False
    then show ?thesis
      using js_sort_stable [of rows "compare_rows collate \<lparr>to_key = key, to_desc = d\<rparr>" "column key" v] c by simp
  qed
  have five: "int_str 5 = ''5''" by code_simp
  have mixed: "0 < compare_rows collate \<lparr>to_key = ''clicks'', to_desc = False\<rparr> number_row null_row"
    "0 < compare_rows collate \<lparr>to_key = ''clicks'', to_desc = False\<rparr> null_row number_row"
    using assms(3) by (simp_all add: compare_rows_def compare_cells_def number_row_def null_row_def row_number_def minus_cell_def
        cell_text_def five)
  show ?thesis
    using falling rising stable mixed assms(1)
    by (simp add: sorted_rows_def choose_column_def table_order_init_def)
qed

theorem table_sorts_numbers_witness:
  "sorted_rows (\<lambda>a b. if a = ''null'' then 1 else - 1) \<lparr>to_key = ''clicks'', to_desc = True\<rparr> [JObj [(''clicks'', JNum 2)], number_row]
     = [number_row, JObj [(''clicks'', JNum 2)]] \<and>
   mset (sorted_rows (\<lambda>a b. if a = ''null'' then 1 else - 1) \<lparr>to_key = ''clicks'', to_desc = True\<rparr>
     [JObj [(''clicks'', JNum 2)], number_row]) = {#JObj [(''clicks'', JNum 2)], number_row#}"
  using table_sorts_numbers [of "''clicks''" "[JObj [(''clicks'', JNum 2)], number_row]" "\<lambda>a b. if a = ''null'' then 1 else - 1" True]
  by (simp add: number_row_def row_number_def sorted_rows_def js_sort_def compare_rows_def compare_cells_def minus_cell_def)


text \<open>
  Rows of two periods are compared by their texts. When no two rows of the previous period
  agree in all texts, a row with one of the compared metrics gets the change of that metric
  against the one previous row with the same texts; there is none without such a row, and none
  for a baseline of 0 or without a number. No row is dropped or moved.
\<close>

theorem change_rate_of_same_texts:
  assumes "distinct (map identity previous)" and "row \<in> set rows"
    and "find (\<lambda>key. row_number (jget row key) \<noteq> None) COMPARED = Some metric"
  shows "map fst (compareRows rows previous) = rows \<and>
    (row, Some (metric @ '' change rate'',
       (case find (\<lambda>r. identity r = identity row) previous of
          None \<Rightarrow> None
        | Some r \<Rightarrow> map_option (\<lambda>c. c / 100) (change (jget row metric) (jget r metric))))) \<in> set (compareRows rows previous)"
proof -
  define prior where "prior = map_of (rev (map (\<lambda>r. (identity r, r)) previous)) (identity row)"
  have prior: "prior = find (\<lambda>r. identity r = identity row) previous"
  proof (cases "find (\<lambda>r. identity r = identity row) previous")
    case None
    then have "identity row \<notin> identity ` set previous" by (auto simp: find_None_iff)
    then show ?thesis unfolding None prior_def by (auto simp: map_of_eq_None_iff image_image)
  next
    case (Some r)
    then have "r \<in> set previous" "identity r = identity row" by (auto simp: find_Some_iff)
    then show ?thesis unfolding Some prior_def using map_of_rev_unique [OF assms(1)] by metis
  qed
  obtain n where n: "row_number (jget row metric) = Some n" using assms(3) by (auto simp: find_Some_iff)
  have "compared_row previous row = (row, Some (metric @ '' change rate'',
      (case prior of None \<Rightarrow> None | Some r \<Rightarrow> map_option (\<lambda>c. c / 100) (change (jget row metric) (jget r metric)))))"
    unfolding compared_row_def assms(3) option.case Let_def prior_def [symmetric] n
    by (cases prior) (simp_all add: metric_of_def change_def n split: option.split, simp add: field_simps)
  moreover have "fst (compared_row previous r) = r" for r by (simp add: compared_row_def Let_def split: option.splits)
  ultimately show ?thesis using assms(2) by (force simp: compareRows_def prior comp_def intro: image_eqI [of _ _ row])
qed

definition demo_now :: json where "demo_now = JObj [(''page'', JStr ''/a''), (''clicks'', JNum 6)]"
definition demo_before :: json where "demo_before = JObj [(''page'', JStr ''/a''), (''clicks'', JNum 4)]"

theorem change_rate_of_same_texts_witness:
  "(demo_now, Some (''clicks change rate'', Some (1 / 2))) \<in> set (compareRows [demo_now] [demo_before])"
proof -
  have i: "identity demo_before = identity demo_now" by code_simp
  have m: "find (\<lambda>key. row_number (jget demo_now key) \<noteq> None) COMPARED = Some ''clicks''" by code_simp
  have c: "jget demo_now ''clicks'' = Some (JNum 6)" "jget demo_before ''clicks'' = Some (JNum 4)" by code_simp+
  from change_rate_of_same_texts [OF _ _ m, of "[demo_before]" "[demo_now]"] show ?thesis
    by (simp add: i c change_def row_number_def)
qed

definition about_website :: "analytics_world \<Rightarrow> report_props \<Rightarrow> request \<Rightarrow> bool" where
  "about_website w p r \<longleftrightarrow> req_method r = ''GET'' \<and> (\<exists>rest. an_apiUrl w (website_url p rest) = Inr (req_url r))"

lemma an_get_sends [act_sends_intros]: "act_sends (about_website w p) (an_get w (website_url p rest))"
proof -
  have "sends (about_website w p) (an_api w (website_url p rest) ''GET'' None)"
    by (auto simp: sends_def an_api_def an_headers_def io_defs fetch_def about_website_def an_request_def split: sum.splits)
  then show ?thesis unfolding an_get_def by (intro act_sends_intros)
qed

lemma when_act_sends [act_sends_intros]: "(\<And>s. sent (f s) = sent s) \<Longrightarrow> act_sends P (when_act b f)"
  unfolding when_act_def by (rule act_sends_set) simp

lemma fetchData_sends: "act_sends (about_website w p) (fetchData w active now p)"
  unfolding fetchData_def report_url_def by (intro act_sends_intros) simp_all

text \<open>Everything on the page but the history of requests.\<close>

definition same_page :: "report_view \<Rightarrow> report_view \<Rightarrow> bool" where
  "same_page s t \<longleftrightarrow> (\<exists>h. t = s\<lparr>sent := h\<rparr>)"

lemma an_get_same: "leaves (same_page s) (same_page s) (an_get w path)"
  unfolding an_get_def by (intro act_intros io_act_keeps) (auto simp: same_page_def)

lemma inactive_same: "leaves (same_page s) (same_page s) (when_act False f)"
  unfolding when_act_def by (intro act_intros) simp

lemma fetchData_inactive: "leaves (same_page s) (same_page s) (fetchData w (\<lambda>n. False) now p)"
  unfolding fetchData_def by (intro act_intros an_get_same inactive_same)

text \<open>
  A run of the report effect that was replaced changes nothing any more. Whatever the section
  and the answers, when the effect has been cleaned up before an answer arrives, only the history
  of requests grows; and every request of a run is a \<^verbatim>\<open>GET\<close> for the website the page is about.
\<close>

theorem replaced_run_changes_nothing:
  "act_sends (about_website w p) (report_effect w active linked now p) \<and>
   same_page (if linked then s\<lparr>rp_busy := True, rp_error := [], rp_selected := None, rp_extra := [], rp_parameterRows := None\<rparr> else s)
     (fst (report_effect w (\<lambda>n. False) linked now p s))"
proof (rule conjI)
  show "act_sends (about_website w p) (report_effect w active linked now p)"
    unfolding report_effect_def by (intro act_sends_intros fetchData_sends) simp_all
next
  let ?t = "s\<lparr>rp_busy := True, rp_error := [], rp_selected := None, rp_extra := [], rp_parameterRows := None\<rparr>"
  have "leaves (same_page ?t) (same_page ?t)
      (finally_act (catch_act (fetchData w (\<lambda>n. False) now p) (\<lambda>e. when_act False (rp_error_update (\<lambda>_. error_string e)))) (\<lambda>s. s))"
    by (intro act_intros fetchData_inactive inactive_same) simp
  moreover have "same_page ?t ?t" unfolding same_page_def by (rule exI [of _ "sent s"]) simp
  ultimately have "same_page ?t (fst (report_effect w (\<lambda>n. False) True now p s))"
    using leavesD [of "same_page ?t" "same_page ?t"] by (simp add: report_effect_def set_then)
  then show "same_page (if linked then ?t else s) (fst (report_effect w (\<lambda>n. False) linked now p s))"
    by (cases linked) (auto simp: report_effect_def same_page_def return_act_def intro!: exI [of _ "sent s"])
qed


text \<open>While it is not replaced, a run ends with the page usable, and so does a request to synchronise.\<close>

lemma report_idle [form_simps]: "\<not> rp_busy (rp_busy_update (\<lambda>_. False) s)" by simp

interpretation report_load: submit_handler "report_effect w (\<lambda>n. True) linked now p" rp_busy
  by (rule submit_handlerI) (cases linked, simp_all add: report_effect_def form_simps when_act_def return_act_def)

interpretation report_sync: submit_handler "start_sync w p" rp_busy
  by (rule submit_handlerI) (simp add: start_sync_def form_simps)

text \<open>
  Polling: the reports are loaded again exactly when the completed jobs changed, so an answer
  that repeats changes nothing.
\<close>

lemma poll_repeats:
  "poll_answer True jobs (poll_answer True jobs st) = poll_answer True jobs st"
  by (cases st) (simp add: poll_answer_def Let_def)

lemma poll_counts:
  "rp_sync (fst (poll_answer active jobs (s, completed))) =
     rp_sync s + (if active \<and> completed_jobs jobs \<notin> {[], completed} then 1 else 0)"
  by (simp add: poll_answer_def Let_def)

definition next_period :: resource where
  "next_period = (last demo_run)\<lparr>rs_path := Some ''/portfolio?start=2026-02-01''\<rparr>"

text \<open>
  For a moment, a page that was given another period claims that its data could not be
  loaded. The hook forgets its data with the rendering, but says that it is loading only once its
  effect has run: in between it has no data, no error and is not loading, which the portfolio
  shows as a failure, although no request has failed.
\<close>

theorem failure_shown_before_loading:
  "reachable (\<lambda>s. s = resource_init (Some ''/session'') False) (resource_step (\<lambda>p d. d = JStr ''x'')) next_period \<and>
   \<not> rs_failed next_period \<and> rs_error next_period = [] \<and>
   portfolio_view [(''owner'', 1)] (last demo_run) = Shown (JStr ''x'') \<and>
   portfolio_view [(''owner'', 1)] next_period = Failed ''No portfolio data is available.'' \<and>
   portfolio_view [(''owner'', 1)] (load_effect next_period) = Loading"
proof -
  let ?r = "reachable (\<lambda>s. s = resource_init (Some ''/session'') False) (resource_step (\<lambda>p d. d = JStr ''x''))"
  have "?r (last demo_run)"
    by (rule run_reachable [OF reach_init demo_run_steps]) (simp_all add: demo_run_def Let_def)
  then have "?r next_period"
    unfolding next_period_def by (rule reach_step) (rule res_render, simp add: demo_run_last resource_init_def)
  then show ?thesis
    by (simp add: next_period_def demo_run_last resource_init_def portfolio_view_def rs_data_def load_effect_def Let_def)
qed

end
