(* ===== verification/Infra_Form.thy ===== *)
theory Infra_Form
  imports Admin_Time Admin_Vault Json_Text State_Machine
begin

text \<open>
  What the forms for infrastructure resources share
  (\<^verbatim>\<open>app/(admin)/admin/infrastructure/resources/*InfrastructureForm.tsx\<close>): how a
  stored value becomes the text of an input, how the text of an input becomes a member of the
  request, and saving.

  The state of such a form is one variable per input; \<open>fi_text\<close> maps the name of the
  variable to its text, \<open>fi_flag\<close> those that are booleans. The request body is the text of the
  object the code builds, whose members are texts, numbers, booleans, lists and
  \<^verbatim>\<open>null\<close>.

  The locale \<open>form_field\<close> is the contract of a kind of input: a stored value of that kind is
  saved as it was loaded.
\<close>

section \<open>Inputs\<close>

datatype form_value = V_text string | V_num number | V_bool bool | V_null | V_texts "string list" | V_nums "number list"

text \<open>\<^verbatim>\<open>stringValue\<close>, and \<^verbatim>\<open>textValue\<close> of the forms that do not expect lists.\<close>

definition stringValue :: "json option \<Rightarrow> string" where
  "stringValue v = (case v of None \<Rightarrow> [] | Some JNull \<Rightarrow> [] | Some (JArr xs) \<Rightarrow> [] | Some j \<Rightarrow> js_text j)"

definition textValue :: "json option \<Rightarrow> string" where
  "textValue v = (case v of None \<Rightarrow> [] | Some JNull \<Rightarrow> [] | Some j \<Rightarrow> js_text j)"

text \<open>\<^verbatim>\<open>value || default\<close> of a text.\<close>

definition or_default :: "string \<Rightarrow> string \<Rightarrow> string" where
  "or_default s d = (if s = [] then d else s)"

definition numberValue :: "json option \<Rightarrow> string" where
  "numberValue v = (case v of Some (JNum n) \<Rightarrow> int_str n | _ \<Rightarrow> [])"

text \<open>The three states of an optional boolean, as the two words of the form.\<close>

definition booleanValue :: "string \<Rightarrow> string \<Rightarrow> json option \<Rightarrow> string" where
  "booleanValue yes no v = (case v of Some (JBool b) \<Rightarrow> (if b then yes else no) | _ \<Rightarrow> [])"

definition booleanPayload :: "string \<Rightarrow> string \<Rightarrow> string \<Rightarrow> form_value" where
  "booleanPayload yes no s = (if s = yes then V_bool True else if s = no then V_bool False else V_null)"

definition js_elements :: "json \<Rightarrow> json list" where
  "js_elements j = (case j of JArr xs \<Rightarrow> xs | _ \<Rightarrow> [])"

definition listValue :: "json option \<Rightarrow> string" where
  "listValue v = (case v of Some (JArr xs) \<Rightarrow> join [CHR 0x0A] (map (\<lambda>x. if x = JNull then [] else js_text x) xs) | _ \<Rightarrow> [])"

text \<open>\<^verbatim>\<open>s.split(/[\n,]+/).map(trim).filter(Boolean)\<close>: empty parts are dropped in the end.\<close>

definition listPayload :: "string \<Rightarrow> form_value" where
  "listPayload s =
     V_texts (filter (\<lambda>p. p \<noteq> []) (map trim (split_on CHR '','' (map (\<lambda>c. if c = CHR 0x0A then CHR '','' else c) s))))"

text \<open>The first 16 characters of a time stamp: date, hours and minutes.\<close>

definition dateTimeLocalValue :: "json option \<Rightarrow> string" where
  "dateTimeLocalValue v =
     (let rendered = stringValue v in if CHR ''T'' \<in> set rendered then take 16 rendered else rendered)"

definition numberOrNull :: "string \<Rightarrow> form_value" where
  "numberOrNull s = (if trim s = [] then V_null else V_num (js_Number (trim s)))"

definition trimmed :: "string \<Rightarrow> form_value" where
  "trimmed s = V_text (trim s)"

definition trimmedOrNull :: "string \<Rightarrow> form_value" where
  "trimmedOrNull s = (if trim s = [] then V_null else V_text (trim s))"

definition textOrNull :: "string \<Rightarrow> form_value" where
  "textOrNull s = (if s = [] then V_null else V_text s)"

definition required_number :: "string \<Rightarrow> form_value" where
  "required_number s = V_num (js_Number s)"

section \<open>The request body\<close>

text \<open>\<^verbatim>\<open>JSON.stringify\<close> of the payload: a number that is not finite prints as null.\<close>

definition number_text :: "number \<Rightarrow> string" where
  "number_text n = (case n of Dec m k \<Rightarrow> number_str n | _ \<Rightarrow> ''null'')"

definition value_text :: "form_value \<Rightarrow> string" where
  "value_text v =
     (case v of
        V_text s \<Rightarrow> print_string json_esc s | V_num n \<Rightarrow> number_text n
      | V_bool b \<Rightarrow> (if b then ''true'' else ''false'') | V_null \<Rightarrow> ''null''
      | V_texts ss \<Rightarrow> ''['' @ join '','' (map (print_string json_esc) ss) @ '']''
      | V_nums ns \<Rightarrow> ''['' @ join '','' (map number_text ns) @ '']'')"

type_synonym payload = "(string \<times> form_value) list"

definition payload_text :: "payload \<Rightarrow> string" where
  "payload_text p = ''{'' @ join '','' (map (\<lambda>(k, v). print_string json_esc k @ '':'' @ value_text v) p) @ ''}''"

section \<open>The state of a form and saving\<close>

record infra_form = net +
  fi_options :: "json option"
  fi_clients :: "json option"
  fi_loading :: bool
  fi_saving :: bool
  fi_error :: "string option"
  fi_type :: string
  fi_ownership :: string
  fi_clientId :: string
  fi_clientName :: "string option"
  fi_text :: "string \<Rightarrow> string"
  fi_flag :: "string \<Rightarrow> bool"
  fi_sources :: "number list"
  fi_created :: "json option list"
  fi_saved :: nat

definition set_text :: "string \<Rightarrow> string \<Rightarrow> infra_form \<Rightarrow> infra_form" where
  "set_text var value s = s\<lparr>fi_text := (fi_text s)(var := value)\<rparr>"

definition set_texts :: "(string \<times> string) list \<Rightarrow> infra_form \<Rightarrow> infra_form" where
  "set_texts kvs s = s\<lparr>fi_text := (\<lambda>x. case map_of kvs x of Some v \<Rightarrow> v | None \<Rightarrow> fi_text s x)\<rparr>"

text \<open>The variables of every form, from the details of a resource.\<close>

definition common_fields :: "json \<Rightarrow> (string \<times> string) list" where
  "common_fields detail =
     [(''name'', nullish (jstr detail ''name'') []), (''lifecycle'', nullish (jstr detail ''lifecycle_status'') []),
      (''environment'', nullish (jstr detail ''environment'') []), (''criticality'', nullish (jstr detail ''criticality'') []),
      (''description'', nullish (jstr detail ''description'') [])]"

text \<open>
  Taking over the details of the resource that is edited: first what all resources have, then
  the members of its type, whose absence throws.
\<close>

definition members :: "json \<Rightarrow> json" where
  "members detail = nullish (jget detail ''values'') JNull"

definition take_details :: "(json \<Rightarrow> string) \<Rightarrow> json \<Rightarrow> infra_form \<Rightarrow> infra_form" where
  "take_details client detail s =
     set_texts (common_fields detail)
       (s\<lparr>fi_type := nullish (jstr detail ''resource_type'') [], fi_ownership := nullish (jstr detail ''ownership_type'') [],
          fi_clientId := client detail\<rparr>)"

definition truthy_client :: "json \<Rightarrow> string" where
  "truthy_client detail = (if truthy (jget detail ''client_id'') then js_text (the (jget detail ''client_id'')) else [])"

definition non_null_client :: "json \<Rightarrow> string" where
  "non_null_client detail =
     (case jget detail ''client_id'' of None \<Rightarrow> ''undefined'' | Some JNull \<Rightarrow> [] | Some j \<Rightarrow> js_text j)"

definition open_resource ::
  "(json \<Rightarrow> infra_form \<Rightarrow> infra_form) \<Rightarrow> (json \<Rightarrow> infra_form \<Rightarrow> infra_form) \<Rightarrow> json \<Rightarrow> (infra_form, unit) act" where
  "open_resource taken put detail =
     then_act (set_act (taken detail))
       (bind_act (lift_act (non_null (members detail))) (\<lambda>values. set_act (put values)))"

lemma opened: "members detail \<noteq> JNull \<Longrightarrow> fst (open_resource taken put detail s) = put (members detail) (taken detail s)"
  by (simp add: open_resource_def non_null_def act_eqs bind_act_def then_act_def)

lemma text_of_map: "fi_text (set_texts kvs s) x = (case map_of kvs x of Some v \<Rightarrow> v | None \<Rightarrow> fi_text s x)"
  by (simp add: set_texts_def)

lemma set_texts_keeps [simp]:
  "fi_type (set_texts kvs s) = fi_type s" "fi_ownership (set_texts kvs s) = fi_ownership s"
  "fi_clientId (set_texts kvs s) = fi_clientId s" "fi_options (set_texts kvs s) = fi_options s"
  "fi_flag (set_texts kvs s) = fi_flag s" "fi_sources (set_texts kvs s) = fi_sources s"
  by (simp_all add: set_texts_def)

text \<open>Comparing texts character by character and bit by bit, only as far as they agree.\<close>

lemma list_eq: "(x # xs = y # ys) = (if x = y then xs = ys else False)"
  by simp

lemma char_eq:
  "(Char a0 a1 a2 a3 a4 a5 a6 a7 = Char b0 b1 b2 b3 b4 b5 b6 b7) =
   (if a0 = b0 then if a1 = b1 then if a2 = b2 then if a3 = b3 then if a4 = b4 then if a5 = b5 then if a6 = b6 then a7 = b7
    else False else False else False else False else False else False else False)"
  by simp

definition common_payload :: "(string \<Rightarrow> string) \<Rightarrow> payload" where
  "common_payload fv =
     [(''name'', trimmed (fv ''name'')), (''lifecycle_status'', V_text (fv ''lifecycle'')),
      (''environment'', V_text (fv ''environment'')), (''criticality'', V_text (fv ''criticality'')),
      (''description'', trimmed (fv ''description''))]"

definition owner_payload :: "infra_form \<Rightarrow> payload" where
  "owner_payload s =
     [(''ownership_type'', V_text (fi_ownership s)),
      (''client_id'', if fi_ownership s = ''client'' then required_number (fi_clientId s) else V_null)]"

lemma both_return: "bind_act (both m (return_act x)) f = bind_act m (\<lambda>a. f (a, x))"
  by (rule ext) (auto simp: bind_act_def both_def return_act_def split: prod.splits sum.splits)

definition details_url :: "admin_world \<Rightarrow> int \<Rightarrow> string" where
  "details_url w i = aw_api w @ ''/api/admin/infrastructure/resources/'' @ int_str i @ ''/specialist-edit''"

definition guard_act :: "bool \<Rightarrow> ('w, unit) act \<Rightarrow> ('w, unit) act" where
  "guard_act active m = (if active then m else return_act ())"

text \<open>
  The part of \<^verbatim>\<open>submit\<close> that all forms have; \<open>edited\<close> is the resource being edited.
\<close>

definition request_resource :: "admin_world \<Rightarrow> int option \<Rightarrow> string \<Rightarrow> payload \<Rightarrow> (infra_form, unit) act" where
  "request_resource w edited base body =
     (case edited of
        None \<Rightarrow> bind_act (api_send w ''POST'' base (TextBody (payload_text body))) (\<lambda>saved.
          bind_act (lift_act (non_null saved)) (\<lambda>j. set_act (\<lambda>s. s\<lparr>fi_created := fi_created s @ [jget j ''resource_id'']\<rparr>)))
      | Some i \<Rightarrow> bind_act (api_send w ''PUT'' (base @ ''/'' @ int_str i) (TextBody (payload_text body))) (\<lambda>saved.
          set_act (\<lambda>s. s\<lparr>fi_saved := fi_saved s + 1\<rparr>)))"

definition send_resource ::
  "admin_world \<Rightarrow> int option \<Rightarrow> string \<Rightarrow> payload result \<Rightarrow> string \<Rightarrow> (infra_form, unit) act" where
  "send_resource w edited base body fallback =
     finally_act
       (catch_act
         (then_act (set_act (\<lambda>s. s\<lparr>fi_saving := True, fi_error := None\<rparr>))
           (bind_act (lift_act body) (request_resource w edited base)))
         (\<lambda>e. set_act (fi_error_update (\<lambda>_. Some (message_of fallback e)))))
       (fi_saving_update (\<lambda>_. False))"

definition save_resource ::
  "admin_world \<Rightarrow> int option \<Rightarrow> string \<Rightarrow> (infra_form \<Rightarrow> payload result) \<Rightarrow> string \<Rightarrow> (infra_form, unit) act" where
  "save_resource w edited base body fallback s = send_resource w edited base (body s) fallback s"

text \<open>The checks before saving: the first that applies is shown and nothing is sent.\<close>

definition first_problem :: "(bool \<times> string) list \<Rightarrow> string option" where
  "first_problem checks = map_option snd (find fst checks)"

definition checked_save ::
  "(infra_form \<Rightarrow> (bool \<times> string) list) \<Rightarrow> (infra_form, unit) act \<Rightarrow> (infra_form, unit) act" where
  "checked_save checks saving s =
     (case first_problem (checks s) of
        Some message \<Rightarrow> (s\<lparr>fi_error := Some message\<rparr>, Inr ())
      | None \<Rightarrow> saving s)"

definition saving_fallback :: "int option \<Rightarrow> string" where
  "saving_fallback edited =
     ''Unable to '' @ (if edited \<noteq> None then ''update'' else ''create'') @ '' this infrastructure resource.''"

section \<open>Options of the forms\<close>

text \<open>\<^verbatim>\<open>optionAllowed\<close>: what a resource of this owner may refer to.\<close>

definition optionAllowed :: "json \<Rightarrow> string \<Rightarrow> string \<Rightarrow> bool" where
  "optionAllowed option ownership clientId =
     (let internal = (jstr option ''ownership_type'' = Some ''internal'')
      in if ownership = ''internal'' then internal
         else internal \<or> (case jget option ''client_id'' of Some (JNum n) \<Rightarrow> js_Number clientId = Dec n 0 | _ \<Rightarrow> False))"

definition allowed_options :: "string \<Rightarrow> infra_form \<Rightarrow> json list" where
  "allowed_options collection s =
     filter (\<lambda>option. optionAllowed option (fi_ownership s) (fi_clientId s))
       (json_list (Option.bind (fi_options s) (\<lambda>opts. jget opts collection)))"

text \<open>The values a select offers: none, or the id of an option.\<close>

definition option_values :: "json list \<Rightarrow> string list" where
  "option_values options = [] # map (\<lambda>option. stringValue (jget option ''resource_id'')) options"

section \<open>The contract of an input\<close>

fun stored :: "form_value \<Rightarrow> json option \<Rightarrow> bool" where
  "stored (V_text s) v = (v = Some (JStr s))"
| "stored (V_num n) v = (case v of Some (JNum m) \<Rightarrow> n = Dec m 0 | _ \<Rightarrow> False)"
| "stored (V_bool b) v = (v = Some (JBool b))"
| "stored V_null v = (v = Some JNull)"
| "stored (V_texts ss) v = (v = Some (JArr (map JStr ss)))"
| "stored (V_nums ns) v = (\<exists>ms. v = Some (JArr (map JNum ms)) \<and> ns = map (\<lambda>m. Dec m 0) ms)"

locale form_field =
  fixes load :: "json option \<Rightarrow> string"
    and save :: "string \<Rightarrow> form_value"
    and proper :: "json option \<Rightarrow> bool"
  assumes save_load: "proper v \<Longrightarrow> stored (save (load v)) v"

definition proper_text :: "json option \<Rightarrow> bool" where
  "proper_text v = (case v of Some (JStr s) \<Rightarrow> trim s = s | _ \<Rightarrow> False)"

definition proper_choice :: "json option \<Rightarrow> bool" where
  "proper_choice v = (case v of Some (JStr s) \<Rightarrow> s \<noteq> [] | _ \<Rightarrow> False)"

definition proper_number :: "json option \<Rightarrow> bool" where
  "proper_number v = (case v of Some (JNum n) \<Rightarrow> 0 \<le> n | Some JNull \<Rightarrow> True | _ \<Rightarrow> False)"

definition proper_reference :: "json option \<Rightarrow> bool" where
  "proper_reference v = (case v of Some (JNum n) \<Rightarrow> 0 \<le> n | _ \<Rightarrow> False)"

definition proper_boolean :: "json option \<Rightarrow> bool" where
  "proper_boolean v = (case v of Some (JBool b) \<Rightarrow> True | Some JNull \<Rightarrow> True | _ \<Rightarrow> False)"

definition proper_flag :: "json option \<Rightarrow> bool" where
  "proper_flag v = (case v of Some (JBool b) \<Rightarrow> True | _ \<Rightarrow> False)"

definition proper_optional :: "json option \<Rightarrow> bool" where
  "proper_optional v = (case v of Some (JStr s) \<Rightarrow> s \<noteq> [] \<and> trim s = s | Some JNull \<Rightarrow> True | _ \<Rightarrow> False)"

definition proper_raw :: "json option \<Rightarrow> bool" where
  "proper_raw v = (case v of Some (JStr s) \<Rightarrow> s \<noteq> [] | Some JNull \<Rightarrow> True | _ \<Rightarrow> False)"

text \<open>A time without seconds and zone, as the input shows it.\<close>

definition proper_minutes :: "json option \<Rightarrow> bool" where
  "proper_minutes v = (case v of Some (JStr s) \<Rightarrow> s \<noteq> [] \<and> length s \<le> 16 | Some JNull \<Rightarrow> True | _ \<Rightarrow> False)"

definition proper_list :: "json option \<Rightarrow> bool" where
  "proper_list v = (case v of
      Some (JArr xs) \<Rightarrow> list_all (\<lambda>x. case x of JStr s \<Rightarrow> s \<noteq> [] \<and> trim s = s \<and> CHR '','' \<notin> set s \<and> CHR 0x0A \<notin> set s | _ \<Rightarrow> False) xs
    | _ \<Rightarrow> False)"

lemma trim_nil: "trim [] = []"
  by (simp add: trim_def trim_start_def)

lemma trim_int_str: "0 \<le> n \<Longrightarrow> trim (int_str n) = int_str n \<and> int_str n \<noteq> []"
  using nat_str_nonempty [of "nat n"] by (simp add: int_str_def trim_nat_str)

lemma map_join: "map f (join [c] ss) = join [f c] (map (map f) ss)"
proof (induction ss)
  case Nil
  then show ?case by simp
next
  case (Cons w ws)
  then show ?case by (cases ws) simp_all
qed

lemma list_round_trip:
  assumes "list_all (\<lambda>s. s \<noteq> [] \<and> trim s = s \<and> CHR '','' \<notin> set s \<and> CHR 0x0A \<notin> set s) ss"
  shows "listPayload (join [CHR 0x0A] ss) = V_texts ss"
proof (cases "ss = []")
  case True
  then show ?thesis by (simp add: listPayload_def trim_def trim_start_def)
next
  case False
  have id: "map (\<lambda>c. if c = CHR 0x0A then CHR '','' else c) s = s" if "s \<in> set ss" for s
    using assms that by (intro map_idI) (auto simp: list_all_iff)
  have "split_on CHR '','' (map (\<lambda>c. if c = CHR 0x0A then CHR '','' else c) (join [CHR 0x0A] ss)) = ss"
    unfolding map_join using assms False by (simp add: id cong: map_cong) (simp add: split_on_join list_all_iff)
  moreover have "map trim ss = ss" using assms by (intro map_idI) (simp add: list_all_iff)
  moreover have "filter (\<lambda>p. p \<noteq> []) ss = ss" using assms by (simp add: list_all_iff filter_id_conv)
  ultimately show ?thesis by (simp add: listPayload_def)
qed

interpretation text_field: form_field stringValue trimmed proper_text
  by unfold_locales (auto simp: proper_text_def stringValue_def trimmed_def split: option.splits json.splits)

interpretation text_field': form_field textValue trimmed proper_text
  by unfold_locales (auto simp: proper_text_def textValue_def trimmed_def split: option.splits json.splits)

interpretation number_field: form_field numberValue numberOrNull proper_number
  by unfold_locales
    (auto simp: proper_number_def numberValue_def numberOrNull_def trim_int_str js_Number_int_str trim_nil split: option.splits json.splits)

interpretation reference_field: form_field numberValue required_number proper_reference
  by unfold_locales
    (auto simp: proper_reference_def numberValue_def required_number_def js_Number_int_str split: option.splits json.splits)

interpretation number_text_field: form_field textValue numberOrNull proper_number
  by unfold_locales
    (auto simp: proper_number_def textValue_def numberOrNull_def trim_int_str js_Number_int_str trim_nil split: option.splits json.splits)

interpretation reference_text_field: form_field textValue required_number proper_reference
  by unfold_locales
    (auto simp: proper_reference_def textValue_def required_number_def js_Number_int_str split: option.splits json.splits)

interpretation number_string_field: form_field stringValue numberOrNull proper_number
  by unfold_locales
    (auto simp: proper_number_def stringValue_def numberOrNull_def trim_int_str js_Number_int_str trim_nil split: option.splits json.splits)

interpretation reference_string_field: form_field stringValue required_number proper_reference
  by unfold_locales
    (auto simp: proper_reference_def stringValue_def required_number_def js_Number_int_str split: option.splits json.splits)

interpretation yes_no_field: form_field "booleanValue ''yes'' ''no''" "booleanPayload ''yes'' ''no''" proper_boolean
  by unfold_locales (auto simp: proper_boolean_def booleanValue_def booleanPayload_def split: option.splits json.splits)

interpretation true_false_field: form_field "booleanValue ''true'' ''false''" "booleanPayload ''true'' ''false''" proper_boolean
  by unfold_locales (auto simp: proper_boolean_def booleanValue_def booleanPayload_def split: option.splits json.splits)

interpretation optional_field: form_field stringValue trimmedOrNull proper_optional
  by unfold_locales (auto simp: proper_optional_def stringValue_def trimmedOrNull_def trim_nil split: option.splits json.splits)

interpretation raw_field: form_field stringValue textOrNull proper_raw
  by unfold_locales (auto simp: proper_raw_def stringValue_def textOrNull_def split: option.splits json.splits)

interpretation raw_text_field: form_field textValue textOrNull proper_raw
  by unfold_locales (auto simp: proper_raw_def textValue_def textOrNull_def split: option.splits json.splits)

interpretation minutes_field: form_field dateTimeLocalValue textOrNull proper_minutes
  by unfold_locales
    (auto simp: proper_minutes_def dateTimeLocalValue_def stringValue_def textOrNull_def Let_def split: option.splits json.splits)

interpretation list_field: form_field listValue listPayload proper_list
proof unfold_locales
  fix v assume p: "proper_list v"
  then obtain xs where v: "v = Some (JArr xs)" by (auto simp: proper_list_def split: option.splits json.splits)
  define ss where "ss = map js_text xs"
  have texts: "\<forall>x \<in> set xs. \<exists>s. x = JStr s \<and> s \<noteq> [] \<and> trim s = s \<and> CHR '','' \<notin> set s \<and> CHR 0x0A \<notin> set s"
  proof
    fix x assume "x \<in> set xs"
    then have "case x of JStr s \<Rightarrow> s \<noteq> [] \<and> trim s = s \<and> CHR '','' \<notin> set s \<and> CHR 0x0A \<notin> set s | _ \<Rightarrow> False"
      using p v by (simp add: proper_list_def list_all_iff)
    then show "\<exists>s. x = JStr s \<and> s \<noteq> [] \<and> trim s = s \<and> CHR '','' \<notin> set s \<and> CHR 0x0A \<notin> set s"
      by (simp split: json.splits)
  qed
  have "map (\<lambda>x. if x = JNull then [] else js_text x) xs = ss" "map JStr ss = xs"
    using texts by (auto simp: ss_def intro!: map_cong map_idI)
  moreover have "list_all (\<lambda>s. s \<noteq> [] \<and> trim s = s \<and> CHR '','' \<notin> set s \<and> CHR 0x0A \<notin> set s) ss"
    using texts by (fastforce simp: ss_def list_all_iff)
  ultimately show "stored (listPayload (listValue v)) v" by (simp add: v listValue_def list_round_trip)
qed

text \<open>A select with a default: the stored choice is kept, an empty one becomes the default.\<close>

lemma choice_stored: "proper_choice v \<Longrightarrow> stored (V_text (or_default (stringValue v) d)) v"
  by (auto simp: proper_choice_def or_default_def stringValue_def split: option.splits json.splits)

lemma choice_stored': "proper_choice v \<Longrightarrow> stored (V_text (or_default (textValue v) d)) v"
  by (auto simp: proper_choice_def or_default_def textValue_def split: option.splits json.splits)

lemma choice_text: "proper_choice v \<Longrightarrow> or_default (textValue v) d = x \<longleftrightarrow> v = Some (JStr x)"
  by (auto simp: proper_choice_def or_default_def textValue_def split: option.splits json.splits)

lemma or_default_nil [simp]: "or_default s [] = s" "or_default [] d = d" "or_default (c # s) d = c # s"
  by (simp_all add: or_default_def)

lemma no_value [simp]: "stringValue None = []" "textValue None = []" "numberValue None = []" "listValue None = []"
  by (simp_all add: stringValue_def textValue_def numberValue_def listValue_def)

lemmas input_kept =
  text_field.save_load number_field.save_load raw_field.save_load yes_no_field.save_load minutes_field.save_load
  optional_field.save_load list_field.save_load reference_field.save_load choice_stored

lemmas input_kept' =
  text_field'.save_load number_text_field.save_load reference_text_field.save_load true_false_field.save_load
  raw_text_field.save_load choice_stored'

text \<open>What is stored for every member of a payload.\<close>

definition same_values :: "payload \<Rightarrow> json \<Rightarrow> bool" where
  "same_values p values \<longleftrightarrow> list_all (\<lambda>(k, v). stored v (jget values k)) p"

definition proper_values :: "(string \<times> (json option \<Rightarrow> bool)) list \<Rightarrow> json \<Rightarrow> bool" where
  "proper_values schema values \<longleftrightarrow> list_all (\<lambda>(k, p). p (jget values k)) schema"

lemma proper_members: "proper_values schema j \<Longrightarrow> (k, p) \<in> set schema \<Longrightarrow> \<not> p None \<Longrightarrow> j \<noteq> JNull"
  by (cases j) (auto simp: proper_values_def list_all_iff)

text \<open>
  Loading of the forms that fetch their options first and then the resource;
  \<open>active n\<close> is the flag of the effect after its n-th await.
\<close>

definition typed_load ::
  "admin_world \<Rightarrow> (nat \<Rightarrow> bool) \<Rightarrow> string \<Rightarrow> string list \<Rightarrow> int option \<Rightarrow> (json \<Rightarrow> infra_form \<Rightarrow> infra_form) \<Rightarrow> string \<Rightarrow>
   (infra_form, unit) act" where
  "typed_load w active url allowedTypes edited put fallback =
     finally_act
       (catch_act
         (then_act (set_act (\<lambda>s. s\<lparr>fi_loading := True, fi_error := None\<rparr>))
           (bind_act (api_get w url) (\<lambda>opts. guard_act (active 0)
             (then_act (set_act (\<lambda>s. s\<lparr>fi_options := (if opts = JNull then None else Some opts)\<rparr>))
               (case edited of
                  None \<Rightarrow> return_act ()
                | Some i \<Rightarrow> bind_act (api_get w (details_url w i)) (\<lambda>d. guard_act (active 1)
                    (bind_act (lift_act (non_null d)) (\<lambda>detail.
                      if nullish (jstr detail ''resource_type'') [] \<notin> set allowedTypes
                      then throw_act (Err ''Error'' ''This resource type cannot be edited with this form.'')
                      else open_resource (take_details non_null_client) put detail))))))))
         (\<lambda>e. guard_act (active 2) (set_act (fi_error_update (\<lambda>_. Some (message_of fallback e))))))
       (if active 3 then fi_loading_update (\<lambda>_. False) else (\<lambda>s. s))"

lemma typed_load_same:
  assumes "\<And>s b e h. P s \<Longrightarrow> P (s\<lparr>fi_loading := b, fi_error := e\<rparr>)" "\<And>s f. P s \<Longrightarrow> P (fi_error_update f s)"
    and "\<And>s f. P s \<Longrightarrow> P (fi_loading_update f s)" "\<And>s opts. P s \<Longrightarrow> P (s\<lparr>fi_options := opts\<rparr>)" "\<And>s h. P s \<Longrightarrow> P (s\<lparr>sent := h\<rparr>)"
    and "P s"
  shows "P (fst (typed_load w active url allowedTypes None put fallback s))"
proof -
  have "leaves P P (typed_load w active url allowedTypes None put fallback)"
    unfolding typed_load_def option.case guard_act_def by (intro act_intros) (use assms(1-5) in auto)
  then show ?thesis using assms(6) by (simp add: leaves_def)
qed

lemma flag_stored: "proper_flag v \<Longrightarrow> stored (V_bool (v = Some (JBool True))) v"
  by (auto simp: proper_flag_def split: option.splits json.splits)

lemma flag_stored': "proper_flag v \<Longrightarrow> stored (V_bool (v \<noteq> Some (JBool False))) v"
  by (auto simp: proper_flag_def split: option.splits json.splits)

section \<open>Saving always ends\<close>

lemma save_resource_idle: "\<not> isl (snd (save_resource w edited base body fallback s)) \<and> \<not> fi_saving (fst (save_resource w edited base body fallback s))"
  by (simp add: save_resource_def send_resource_def form_simps)

lemma checked_save_handler:
  assumes "\<And>s. \<not> isl (snd (saving s)) \<and> \<not> fi_saving (fst (saving s))"
  shows "submit_handler (checked_save checks saving) fi_saving"
  using assms by (intro submit_handlerI) (simp add: checked_save_def split: option.split)

text \<open>Saving leaves everything but the messages and the counters.\<close>

definition same_form :: "infra_form \<Rightarrow> infra_form \<Rightarrow> bool" where
  "same_form s t \<longleftrightarrow> fi_text t = fi_text s \<and> fi_flag t = fi_flag s \<and> fi_sources t = fi_sources s \<and>
     fi_ownership t = fi_ownership s \<and> fi_clientId t = fi_clientId s \<and> fi_options t = fi_options s \<and> fi_type t = fi_type s"

lemma save_resource_same: "same_form s (fst (save_resource w edited base body fallback s))"
proof -
  have "leaves (same_form s) (same_form s) (send_resource w edited base (body s) fallback)"
    unfolding send_resource_def request_resource_def
    by (cases edited; simp only: option.case; intro act_intros) (auto simp: same_form_def)
  then show ?thesis by (simp add: save_resource_def leaves_def same_form_def)
qed

lemma checked_save_same: "(\<And>s. same_form s (fst (saving s))) \<Longrightarrow> same_form s (fst (checked_save checks saving s))"
  by (auto simp: checked_save_def same_form_def split: option.split)

end
