(* ===== verification/Infra_Structured.thy ===== *)
theory Infra_Structured
  imports Infra_Form
begin

text \<open>
  \<^verbatim>\<open>StructuredInfrastructureForm.tsx\<close>: creating and editing servers, networks and
  subnets. \<open>active n\<close> is the flag of the loading effect after its n-th await;
  \<open>edited\<close> is the resource that is edited, \<open>ctx\<close> the one of
  \<^verbatim>\<open>creationContext\<close>.
\<close>

record creation_context =
  cc_ownership :: string
  cc_client :: "int option"
  cc_network :: "int option"

definition truthy_id :: "int option \<Rightarrow> string" where
  "truthy_id i = (case i of Some n \<Rightarrow> if n = 0 then [] else int_str n | None \<Rightarrow> [])"

definition structured_init :: "string list \<Rightarrow> creation_context option \<Rightarrow> infra_form" where
  "structured_init allowedTypes ctx =
     set_texts [(''lifecycle'', ''active''), (''environment'', ''production''), (''criticality'', ''normal''),
       (''computeType'', ''cloud_vm''), (''osFamily'', ''linux''), (''sshPort'', ''22''), (''networkType'', ''vpc''),
       (''networkResourceId'', truthy_id (Option.bind ctx cc_network))]
     \<lparr>stored_token = None, sent = [], fi_options = None, fi_clients = None, fi_loading = True, fi_saving = False, fi_error = None,
      fi_type = (case allowedTypes of [] \<Rightarrow> ''server'' | t # _ \<Rightarrow> t),
      fi_ownership = (case ctx of None \<Rightarrow> ''internal'' | Some c \<Rightarrow> cc_ownership c),
      fi_clientId = truthy_id (Option.bind ctx cc_client), fi_clientName = None,
      fi_text = (\<lambda>v. []), fi_flag = (\<lambda>v. False), fi_sources = [], fi_created = [], fi_saved = 0\<rparr>"

definition structured_fields :: "json \<Rightarrow> (string \<times> string) list" where
  "structured_fields values =
     [(''hostname'', stringValue (jget values ''hostname'')),
      (''fqdn'', stringValue (jget values ''fqdn'')),
      (''purpose'', stringValue (jget values ''purpose'')),
      (''role'', stringValue (jget values ''role'')),
      (''computeType'', or_default (stringValue (jget values ''compute_type'')) ''cloud_vm''),
      (''architecture'', stringValue (jget values ''architecture'')),
      (''cpuModel'', stringValue (jget values ''cpu_model'')),
      (''cpuCores'', numberValue (jget values ''cpu_cores'')),
      (''ramMb'', numberValue (jget values ''ram_mb'')),
      (''rootDiskGb'', numberValue (jget values ''root_disk_gb'')),
      (''osFamily'', or_default (stringValue (jget values ''os_family'')) ''linux''),
      (''distribution'', stringValue (jget values ''distribution'')),
      (''osVersion'', stringValue (jget values ''os_version'')),
      (''kernelVersion'', stringValue (jget values ''kernel_version'')),
      (''providerAccountId'', numberValue (jget values ''provider_account_resource_id'')),
      (''providerResourceId'', or_default (stringValue (jget values ''provider_resource_id''))
         (stringValue (jget values ''provider_network_id''))),
      (''region'', stringValue (jget values ''region'')),
      (''zone'', stringValue (jget values ''zone'')),
      (''datacenter'', stringValue (jget values ''datacenter'')),
      (''virtualizationType'', stringValue (jget values ''virtualization_type'')),
      (''hypervisor'', stringValue (jget values ''hypervisor'')),
      (''sshPort'', numberValue (jget values ''ssh_port'')),
      (''timezone'', stringValue (jget values ''timezone'')),
      (''automaticUpdates'', booleanValue ''yes'' ''no'' (jget values ''automatic_updates'')),
      (''patchWindow'', stringValue (jget values ''patch_window'')),
      (''lastPatchedAt'', dateTimeLocalValue (jget values ''last_patched_at'')),
      (''commissionedAt'', stringValue (jget values ''commissioned_at'')),
      (''decommissionedAt'', stringValue (jget values ''decommissioned_at'')),
      (''networkType'', or_default (stringValue (jget values ''network_type'')) ''vpc''),
      (''cidr'', stringValue (jget values ''cidr'')),
      (''gateway'', stringValue (jget values ''gateway'')),
      (''vlanId'', numberValue (jget values ''vlan_id'')),
      (''dnsServers'', listValue (jget values ''dns_servers'')),
      (''networkResourceId'', numberValue (jget values ''network_resource_id'')),
      (''availabilityZone'', stringValue (jget values ''availability_zone''))]"

definition structured_details :: "json \<Rightarrow> infra_form \<Rightarrow> infra_form" where
  "structured_details detail s = (take_details truthy_client detail s)\<lparr>fi_clientName := jstr detail ''client_name''\<rparr>"

definition open_details :: "string list \<Rightarrow> json \<Rightarrow> (infra_form, unit) act" where
  "open_details allowedTypes detail =
     (if nullish (jstr detail ''resource_type'') [] \<notin> set allowedTypes
      then set_act (\<lambda>s. s\<lparr>fi_error := Some ''This resource type cannot be edited from this form.''\<rparr>)
      else open_resource structured_details (\<lambda>values. set_texts (structured_fields values)) detail)"

definition structured_options_url :: "admin_world \<Rightarrow> string" where
  "structured_options_url w = aw_api w @ ''/api/admin/infrastructure/specialist-options''"

definition structured_load :: "admin_world \<Rightarrow> (nat \<Rightarrow> bool) \<Rightarrow> string list \<Rightarrow> int option \<Rightarrow> (infra_form, unit) act" where
  "structured_load w active allowedTypes edited =
     finally_act
       (catch_act
         (then_act (set_act (\<lambda>s. s\<lparr>fi_loading := True, fi_error := None\<rparr>))
           (bind_act
             (both (api_get w (structured_options_url w))
               (case edited of None \<Rightarrow> return_act JNull | Some i \<Rightarrow> api_get w (details_url w i)))
             (\<lambda>(opts, detail).
               guard_act (active 0)
                 (then_act (set_act (\<lambda>s. s\<lparr>fi_options := (if opts = JNull then None else Some opts)\<rparr>))
                   (if detail = JNull then return_act () else open_details allowedTypes detail)))))
         (\<lambda>e. guard_act (active 1)
            (set_act (fi_error_update (\<lambda>_. Some (message_of ''Unable to load infrastructure options.'' e))))))
       (if active 2 then fi_loading_update (\<lambda>_. False) else (\<lambda>s. s))"

section \<open>Editing\<close>

definition structured_ownership :: "string \<Rightarrow> infra_form \<Rightarrow> infra_form" where
  "structured_ownership value s =
     set_texts [(''providerAccountId'', []), (''networkResourceId'', [])]
       (s\<lparr>fi_ownership := value, fi_clientId := [], fi_clientName := None\<rparr>)"

definition structured_client :: "string \<Rightarrow> infra_form \<Rightarrow> infra_form" where
  "structured_client value s =
     set_texts [(''providerAccountId'', []), (''networkResourceId'', [])] (s\<lparr>fi_clientId := value\<rparr>)"

section \<open>Saving\<close>

definition server_payload :: "(string \<Rightarrow> string) \<Rightarrow> payload" where
  "server_payload fv =
     [(''hostname'', trimmed (fv ''hostname'')), (''fqdn'', trimmed (fv ''fqdn'')), (''purpose'', trimmed (fv ''purpose'')),
      (''role'', trimmed (fv ''role'')), (''compute_type'', V_text (fv ''computeType'')),
      (''architecture'', trimmed (fv ''architecture'')), (''cpu_model'', trimmed (fv ''cpuModel'')),
      (''cpu_cores'', numberOrNull (fv ''cpuCores'')), (''ram_mb'', numberOrNull (fv ''ramMb'')),
      (''root_disk_gb'', numberOrNull (fv ''rootDiskGb'')), (''os_family'', V_text (fv ''osFamily'')),
      (''distribution'', trimmed (fv ''distribution'')), (''os_version'', trimmed (fv ''osVersion'')),
      (''kernel_version'', trimmed (fv ''kernelVersion'')),
      (''provider_account_resource_id'', numberOrNull (fv ''providerAccountId'')),
      (''provider_resource_id'', trimmed (fv ''providerResourceId'')), (''region'', trimmed (fv ''region'')),
      (''zone'', trimmed (fv ''zone'')), (''datacenter'', trimmed (fv ''datacenter'')),
      (''virtualization_type'', trimmed (fv ''virtualizationType'')), (''hypervisor'', trimmed (fv ''hypervisor'')),
      (''ssh_port'', numberOrNull (fv ''sshPort'')), (''timezone'', trimmed (fv ''timezone'')),
      (''automatic_updates'', booleanPayload ''yes'' ''no'' (fv ''automaticUpdates'')),
      (''patch_window'', trimmed (fv ''patchWindow'')), (''last_patched_at'', textOrNull (fv ''lastPatchedAt'')),
      (''commissioned_at'', textOrNull (fv ''commissionedAt'')), (''decommissioned_at'', textOrNull (fv ''decommissionedAt''))]"

definition network_payload :: "(string \<Rightarrow> string) \<Rightarrow> payload" where
  "network_payload fv =
     [(''network_type'', V_text (fv ''networkType'')),
      (''provider_account_resource_id'', numberOrNull (fv ''providerAccountId'')),
      (''provider_network_id'', trimmed (fv ''providerResourceId'')), (''cidr'', trimmed (fv ''cidr'')),
      (''gateway'', trimmedOrNull (fv ''gateway'')), (''region'', trimmed (fv ''region'')),
      (''vlan_id'', numberOrNull (fv ''vlanId'')), (''dns_servers'', listPayload (fv ''dnsServers''))]"

definition subnet_payload :: "(string \<Rightarrow> string) \<Rightarrow> payload" where
  "subnet_payload fv =
     [(''network_resource_id'', required_number (fv ''networkResourceId'')), (''cidr'', trimmed (fv ''cidr'')),
      (''gateway'', trimmedOrNull (fv ''gateway'')), (''vlan_id'', numberOrNull (fv ''vlanId'')),
      (''availability_zone'', trimmed (fv ''availabilityZone'')), (''purpose'', trimmed (fv ''purpose''))]"

definition structured_payload :: "infra_form \<Rightarrow> payload" where
  "structured_payload s =
     (if fi_type s = ''server'' then server_payload (fi_text s)
      else if fi_type s = ''network'' then network_payload (fi_text s)
      else subnet_payload (fi_text s))"

definition structured_body :: "int option \<Rightarrow> infra_form \<Rightarrow> payload" where
  "structured_body edited s =
     common_payload (fi_text s) @ (if edited = None then owner_payload s else []) @ structured_payload s"

definition structured_checks :: "int option \<Rightarrow> infra_form \<Rightarrow> (bool \<times> string) list" where
  "structured_checks edited s =
     [(trim (fi_text s ''name'') = [], ''Enter a resource name.''),
      (edited = None \<and> fi_ownership s = ''client'' \<and> fi_clientId s = [], ''Choose the Client that owns this resource.''),
      (fi_type s = ''server'' \<and> trim (fi_text s ''hostname'') = [], ''Enter the server hostname.''),
      (fi_type s = ''subnet'' \<and> fi_text s ''networkResourceId'' = [], ''Choose the parent network.''),
      ((fi_type s = ''network'' \<or> fi_type s = ''subnet'') \<and> trim (fi_text s ''cidr'') = [],
        ''Enter the CIDR for this network resource.'')]"

definition collectionPath :: "string \<Rightarrow> string" where
  "collectionPath t = (if t = ''subnet'' then ''subnets'' else t @ ''s'')"

definition structured_submit :: "admin_world \<Rightarrow> int option \<Rightarrow> (infra_form, unit) act" where
  "structured_submit w edited =
     checked_save (structured_checks edited)
       (\<lambda>s. save_resource w edited (aw_api w @ ''/api/admin/infrastructure/'' @ collectionPath (fi_type s))
              (\<lambda>s. Inr (structured_body edited s)) (saving_fallback edited) s)"

section \<open>The form as a machine\<close>

text \<open>
  What a user can do: the selects offer the options of the chosen owner; the type, the owner and
  the client of an edited resource are fixed, those of a creation context as well. The loading effect runs
  once.
\<close>

datatype structured_edit =
    Choose_type string | Choose_ownership string | Choose_client string
  | Choose_account string | Choose_network string | Type_text string string

definition structured_edited :: "structured_edit \<Rightarrow> infra_form \<Rightarrow> infra_form" where
  "structured_edited e s =
     (case e of
        Choose_type t \<Rightarrow> s\<lparr>fi_type := t\<rparr>
      | Choose_ownership v \<Rightarrow> structured_ownership v s
      | Choose_client v \<Rightarrow> structured_client v s
      | Choose_account v \<Rightarrow> set_text ''providerAccountId'' v s
      | Choose_network v \<Rightarrow> set_text ''networkResourceId'' v s
      | Type_text var v \<Rightarrow> set_text var v s)"

definition structured_offered :: "creation_context option \<Rightarrow> structured_edit \<Rightarrow> infra_form \<Rightarrow> bool" where
  "structured_offered ctx e s \<longleftrightarrow> fi_options s \<noteq> None \<and>
     (case e of
        Choose_type t \<Rightarrow> True
      | Choose_ownership v \<Rightarrow> ctx = None \<and> v \<in> {''internal'', ''client''}
      | Choose_client v \<Rightarrow> ctx = None
      | Choose_account v \<Rightarrow> v \<in> set (option_values (allowed_options ''provider_accounts'' s))
      | Choose_network v \<Rightarrow> v \<in> set (option_values (allowed_options ''networks'' s))
      | Type_text var v \<Rightarrow> var \<notin> {''providerAccountId'', ''networkResourceId''})"

inductive structured_step ::
  "admin_world \<Rightarrow> (nat \<Rightarrow> bool) \<Rightarrow> string list \<Rightarrow> creation_context option \<Rightarrow> infra_form \<Rightarrow> infra_form \<Rightarrow> bool"
  for w :: admin_world and active :: "nat \<Rightarrow> bool" and allowedTypes :: "string list" and ctx :: "creation_context option" where
  structured_loads: "fi_options s = None \<Longrightarrow>
    structured_step w active allowedTypes ctx s (fst (structured_load w active allowedTypes None s))"
| structured_edits: "structured_offered ctx e s \<Longrightarrow> structured_step w active allowedTypes ctx s (structured_edited e s)"
| structured_saves: "structured_step w active allowedTypes ctx s (fst (structured_submit w None s))"

inductive_cases structured_stepE: "structured_step w active allowedTypes ctx s t"


section \<open>A resource that is saved untouched\<close>

text \<open>What the back end keeps in the members of each type, as far as the inputs can show it.\<close>

definition server_schema :: "(string \<times> (json option \<Rightarrow> bool)) list" where
  "server_schema =
     map (\<lambda>k. (k, proper_text))
       [''hostname'', ''fqdn'', ''purpose'', ''role'', ''architecture'', ''cpu_model'', ''distribution'', ''os_version'',
        ''kernel_version'', ''provider_resource_id'', ''region'', ''zone'', ''datacenter'', ''virtualization_type'',
        ''hypervisor'', ''timezone'', ''patch_window''] @
     map (\<lambda>k. (k, proper_number)) [''cpu_cores'', ''ram_mb'', ''root_disk_gb'', ''provider_account_resource_id'', ''ssh_port''] @
     map (\<lambda>k. (k, proper_choice)) [''compute_type'', ''os_family''] @
     map (\<lambda>k. (k, proper_raw)) [''commissioned_at'', ''decommissioned_at''] @
     [(''automatic_updates'', proper_boolean), (''last_patched_at'', proper_minutes),
      (''provider_network_id'', \<lambda>v. v = None)]"

definition network_schema :: "(string \<times> (json option \<Rightarrow> bool)) list" where
  "network_schema =
     map (\<lambda>k. (k, proper_text)) [''provider_network_id'', ''cidr'', ''region''] @
     [(''network_type'', proper_choice), (''provider_account_resource_id'', proper_number), (''vlan_id'', proper_number),
      (''gateway'', proper_optional), (''dns_servers'', proper_list), (''provider_resource_id'', \<lambda>v. v = None)]"

definition subnet_schema :: "(string \<times> (json option \<Rightarrow> bool)) list" where
  "subnet_schema =
     map (\<lambda>k. (k, proper_text)) [''cidr'', ''availability_zone'', ''purpose''] @
     [(''network_resource_id'', proper_reference), (''gateway'', proper_optional), (''vlan_id'', proper_number)]"

definition schema_of :: "string \<Rightarrow> (string \<times> (json option \<Rightarrow> bool)) list" where
  "schema_of t = (if t = ''server'' then server_schema else if t = ''network'' then network_schema else subnet_schema)"

lemma structured_distinct: "distinct (map fst (structured_fields values))"
  by (simp add: structured_fields_def list_eq char_eq del: list.inject char.inject)

lemma structured_member:
  "(''hostname'', stringValue (jget values ''hostname'')) \<in> set (structured_fields values)"
  "(''fqdn'', stringValue (jget values ''fqdn'')) \<in> set (structured_fields values)"
  "(''purpose'', stringValue (jget values ''purpose'')) \<in> set (structured_fields values)"
  "(''role'', stringValue (jget values ''role'')) \<in> set (structured_fields values)"
  "(''computeType'', or_default (stringValue (jget values ''compute_type'')) ''cloud_vm'') \<in> set (structured_fields values)"
  "(''architecture'', stringValue (jget values ''architecture'')) \<in> set (structured_fields values)"
  "(''cpuModel'', stringValue (jget values ''cpu_model'')) \<in> set (structured_fields values)"
  "(''cpuCores'', numberValue (jget values ''cpu_cores'')) \<in> set (structured_fields values)"
  "(''ramMb'', numberValue (jget values ''ram_mb'')) \<in> set (structured_fields values)"
  "(''rootDiskGb'', numberValue (jget values ''root_disk_gb'')) \<in> set (structured_fields values)"
  "(''osFamily'', or_default (stringValue (jget values ''os_family'')) ''linux'') \<in> set (structured_fields values)"
  "(''distribution'', stringValue (jget values ''distribution'')) \<in> set (structured_fields values)"
  "(''osVersion'', stringValue (jget values ''os_version'')) \<in> set (structured_fields values)"
  "(''kernelVersion'', stringValue (jget values ''kernel_version'')) \<in> set (structured_fields values)"
  "(''providerAccountId'', numberValue (jget values ''provider_account_resource_id'')) \<in> set (structured_fields values)"
  "(''providerResourceId'', or_default (stringValue (jget values ''provider_resource_id'')) (stringValue (jget values ''provider_network_id''))) \<in> set (structured_fields values)"
  "(''region'', stringValue (jget values ''region'')) \<in> set (structured_fields values)"
  "(''zone'', stringValue (jget values ''zone'')) \<in> set (structured_fields values)"
  "(''datacenter'', stringValue (jget values ''datacenter'')) \<in> set (structured_fields values)"
  "(''virtualizationType'', stringValue (jget values ''virtualization_type'')) \<in> set (structured_fields values)"
  "(''hypervisor'', stringValue (jget values ''hypervisor'')) \<in> set (structured_fields values)"
  "(''sshPort'', numberValue (jget values ''ssh_port'')) \<in> set (structured_fields values)"
  "(''timezone'', stringValue (jget values ''timezone'')) \<in> set (structured_fields values)"
  "(''automaticUpdates'', booleanValue ''yes'' ''no'' (jget values ''automatic_updates'')) \<in> set (structured_fields values)"
  "(''patchWindow'', stringValue (jget values ''patch_window'')) \<in> set (structured_fields values)"
  "(''lastPatchedAt'', dateTimeLocalValue (jget values ''last_patched_at'')) \<in> set (structured_fields values)"
  "(''commissionedAt'', stringValue (jget values ''commissioned_at'')) \<in> set (structured_fields values)"
  "(''decommissionedAt'', stringValue (jget values ''decommissioned_at'')) \<in> set (structured_fields values)"
  "(''networkType'', or_default (stringValue (jget values ''network_type'')) ''vpc'') \<in> set (structured_fields values)"
  "(''cidr'', stringValue (jget values ''cidr'')) \<in> set (structured_fields values)"
  "(''gateway'', stringValue (jget values ''gateway'')) \<in> set (structured_fields values)"
  "(''vlanId'', numberValue (jget values ''vlan_id'')) \<in> set (structured_fields values)"
  "(''dnsServers'', listValue (jget values ''dns_servers'')) \<in> set (structured_fields values)"
  "(''networkResourceId'', numberValue (jget values ''network_resource_id'')) \<in> set (structured_fields values)"
  "(''availabilityZone'', stringValue (jget values ''availability_zone'')) \<in> set (structured_fields values)"
  unfolding structured_fields_def by (intro list.set_intros)+

lemmas structured_lookup = structured_member [THEN map_of_is_SomeI [OF structured_distinct]]

lemmas opened_simps =
  open_details_def opened structured_details_def take_details_def structured_payload_def schema_of_def same_values_def
  proper_values_def text_of_map structured_lookup server_payload_def network_payload_def
  subnet_payload_def server_schema_def network_schema_def subnet_schema_def

lemma opened_server:
  assumes "jstr detail ''resource_type'' = Some ''server''" "''server'' \<in> set allowedTypes"
    and "proper_values server_schema (members detail)"
  shows "same_values (structured_payload (fst (open_details allowedTypes detail s))) (members detail)"
proof -
  have "members detail \<noteq> JNull"
    by (rule proper_members [OF assms(3), of "''hostname''" proper_text]) (simp_all add: server_schema_def proper_text_def)
  then show ?thesis
    using assms by (simp add: opened_simps input_kept del: stored.simps)
qed

lemma opened_network:
  assumes "jstr detail ''resource_type'' = Some ''network''" "''network'' \<in> set allowedTypes"
    and "proper_values network_schema (members detail)"
  shows "same_values (structured_payload (fst (open_details allowedTypes detail s))) (members detail)"
proof -
  have "members detail \<noteq> JNull"
    by (rule proper_members [OF assms(3), of "''cidr''" proper_text]) (simp_all add: network_schema_def proper_text_def)
  then show ?thesis
    using assms by (simp add: opened_simps input_kept del: stored.simps)
qed

lemma opened_subnet:
  assumes "jstr detail ''resource_type'' = Some ''subnet''" "''subnet'' \<in> set allowedTypes"
    and "proper_values subnet_schema (members detail)"
  shows "same_values (structured_payload (fst (open_details allowedTypes detail s))) (members detail)"
proof -
  have "members detail \<noteq> JNull"
    by (rule proper_members [OF assms(3), of "''cidr''" proper_text]) (simp_all add: subnet_schema_def proper_text_def)
  then show ?thesis
    using assms by (simp add: opened_simps input_kept del: stored.simps)
qed

text \<open>
  Editing a server, network or subnet and saving without a change sends what is stored: every
  member of the request that belongs to the type of the resource is the stored value, when that
  value is one the input can show. A time stamp is one only without seconds and zone.
\<close>

theorem untouched_resource_is_kept:
  assumes "jstr detail ''resource_type'' = Some t" and "t \<in> {''server'', ''network'', ''subnet''}"
    and "t \<in> set allowedTypes" and "proper_values (schema_of t) (members detail)"
  shows "same_values (structured_payload (fst (open_details allowedTypes detail s))) (members detail)"
proof -
  consider "t = ''server''" | "t = ''network''" | "t = ''subnet''" using assms(2) by auto
  then show ?thesis
    using assms by cases (simp_all add: opened_server opened_network opened_subnet schema_of_def)
qed

definition demo_subnet :: json where
  "demo_subnet = JObj [(''resource_type'', JStr ''subnet''), (''values'', JObj
     [(''network_resource_id'', JNum 7), (''cidr'', JStr ''10.0.0.0/24''), (''gateway'', JStr ''10.0.0.1''),
      (''vlan_id'', JNull), (''availability_zone'', JStr ''eu-west-2a''), (''purpose'', JStr [])])]"

theorem untouched_resource_is_kept_witness:
  "same_values (structured_payload (fst (open_details [''subnet''] demo_subnet (structured_init [''subnet''] None)))) (members demo_subnet)"
  by (rule untouched_resource_is_kept [of _ "''subnet''"])
    (simp_all add: demo_subnet_def jstr_def members_def nullish_def schema_of_def subnet_schema_def proper_values_def
      proper_text_def proper_reference_def proper_optional_def proper_number_def trim_def trim_start_def js_space_def)

text \<open>A time stamp with seconds and zone loses both.\<close>

lemma untouched_server_cuts_patch_time:
  assumes "jstr detail ''resource_type'' = Some ''server''" "''server'' \<in> set allowedTypes"
    and "jget (members detail) ''last_patched_at'' = Some (JStr ts)" "CHR ''T'' \<in> set ts"
  shows "map_of (structured_payload (fst (open_details allowedTypes detail s))) ''last_patched_at'' = Some (V_text (take 16 ts))"
proof -
  have n: "members detail \<noteq> JNull" using assms(3) by auto
  have "fi_text (fst (open_details allowedTypes detail s)) ''lastPatchedAt'' = take 16 ts"
    using assms n by (simp add: open_details_def opened text_of_map structured_lookup dateTimeLocalValue_def stringValue_def)
  moreover have "take 16 ts \<noteq> []" using assms(4) by auto
  moreover have "fi_type (fst (open_details allowedTypes detail s)) = ''server''"
    using assms n by (simp add: open_details_def opened structured_details_def take_details_def)
  ultimately show ?thesis by (simp add: structured_payload_def server_payload_def textOrNull_def)
qed

section \<open>What a saved resource may refer to\<close>

definition chosen_in :: "json list \<Rightarrow> string \<Rightarrow> bool" where
  "chosen_in options v \<longleftrightarrow> v \<in> set (option_values options)"

definition structured_inv :: "creation_context option \<Rightarrow> infra_form \<Rightarrow> bool" where
  "structured_inv ctx s \<longleftrightarrow>
     chosen_in (allowed_options ''provider_accounts'' s) (fi_text s ''providerAccountId'') \<and>
     (chosen_in (allowed_options ''networks'' s) (fi_text s ''networkResourceId'') \<or>
      fi_text s ''networkResourceId'' = truthy_id (Option.bind ctx cc_network)) \<and>
     (fi_options s = None \<longrightarrow> fi_text s ''providerAccountId'' = [] \<and>
      fi_text s ''networkResourceId'' = truthy_id (Option.bind ctx cc_network))"

lemma nothing_chosen [simp]: "chosen_in options []"
  by (simp add: chosen_in_def option_values_def)

lemma structured_init_inv: "structured_inv ctx (structured_init allowedTypes ctx)"
  by (simp add: structured_inv_def structured_init_def set_texts_def)

lemma structured_inv_fresh:
  "fi_text s ''providerAccountId'' = [] \<and> fi_text s ''networkResourceId'' = truthy_id (Option.bind ctx cc_network) \<Longrightarrow> structured_inv ctx s"
  by (simp add: structured_inv_def)

lemma structured_load_inv:
  assumes "structured_inv ctx s" "fi_options s = None"
  shows "structured_inv ctx (fst (structured_load w active allowedTypes None s))"
proof (rule structured_inv_fresh)
  let ?P = "\<lambda>s. fi_text s ''providerAccountId'' = [] \<and> fi_text s ''networkResourceId'' = truthy_id (Option.bind ctx cc_network)"
  have "leaves ?P ?P (structured_load w active allowedTypes None)"
    unfolding structured_load_def option.case both_return prod.case guard_act_def
    by (intro act_intros) auto
  moreover have "?P s" using assms by (simp add: structured_inv_def)
  ultimately show "?P (fst (structured_load w active allowedTypes None s))" by (auto simp: leaves_def)
qed

lemma structured_edit_inv:
  assumes "structured_inv ctx s" "structured_offered ctx e s"
  shows "structured_inv ctx (structured_edited e s)"
proof (cases e)
  case (Choose_type t)
  then show ?thesis using assms by (simp add: structured_inv_def structured_edited_def allowed_options_def)
next
  case (Choose_ownership v)
  then show ?thesis
    by (intro structured_inv_fresh)
      (use assms in \<open>simp add: structured_edited_def structured_offered_def structured_ownership_def set_texts_def truthy_id_def\<close>)
next
  case (Choose_client v)
  then show ?thesis
    by (intro structured_inv_fresh)
      (use assms in \<open>simp add: structured_edited_def structured_offered_def structured_client_def set_texts_def truthy_id_def\<close>)
next
  case (Choose_account v)
  then show ?thesis
    using assms by (auto simp: structured_inv_def structured_edited_def structured_offered_def set_text_def chosen_in_def allowed_options_def)
next
  case (Choose_network v)
  then show ?thesis
    using assms by (auto simp: structured_inv_def structured_edited_def structured_offered_def set_text_def chosen_in_def allowed_options_def)
next
  case (Type_text var v)
  then show ?thesis
    using assms by (auto simp: structured_inv_def structured_edited_def structured_offered_def set_text_def chosen_in_def allowed_options_def)
qed

lemma structured_save_inv: "structured_inv ctx s \<Longrightarrow> structured_inv ctx (fst (structured_submit w edited s))"
proof -
  have "same_form s (fst (structured_submit w edited s))"
    unfolding structured_submit_def by (rule checked_save_same) (rule save_resource_same)
  then show "structured_inv ctx s \<Longrightarrow> ?thesis" by (simp add: same_form_def structured_inv_def allowed_options_def)
qed

interpretation structured_form: safe_machine "\<lambda>s. s = structured_init allowedTypes ctx"
    "structured_step w active allowedTypes ctx" "structured_inv ctx"
  by unfold_locales
    (auto simp: structured_init_inv elim!: structured_stepE intro: structured_load_inv structured_edit_inv structured_save_inv)

interpretation structured_saving: submit_handler "structured_submit w edited" fi_saving
  unfolding structured_submit_def by (rule checked_save_handler) (rule save_resource_idle)


definition demo_specialist_options :: json where
  "demo_specialist_options = JObj [(''clients'', JArr []), (''provider_accounts'', JArr
     [JObj [(''resource_id'', JNum 3), (''ownership_type'', JStr ''client''), (''client_id'', JNum 9)],
      JObj [(''resource_id'', JNum 4), (''ownership_type'', JStr ''client''), (''client_id'', JNum 8)]]), (''networks'', JArr [])]"

definition demo_structured_world :: admin_world where
  "demo_structured_world = \<lparr>aw_server = (\<lambda>h r. Inr \<lparr>status = 200, json_body = Inr demo_specialist_options, resp_headers = []\<rparr>),
     aw_document = None, aw_api = ''https://api.example''\<rparr>"

definition demo_loaded :: infra_form where
  "demo_loaded = fst (structured_load demo_structured_world (\<lambda>n. True) [''server''] None (structured_init [''server''] None))"

definition demo_client_server :: infra_form where
  "demo_client_server =
     structured_edited (Choose_account ''3'')
       (structured_edited (Choose_client ''9'') (structured_edited (Choose_ownership ''client'') demo_loaded))"

lemma demo_offers:
  "structured_offered None (Choose_ownership ''client'') demo_loaded"
  "structured_offered None (Choose_client ''9'') (structured_edited (Choose_ownership ''client'') demo_loaded)"
  "structured_offered None (Choose_account ''3'')
     (structured_edited (Choose_client ''9'') (structured_edited (Choose_ownership ''client'') demo_loaded))"
  by code_simp+

lemma demo_client_server_reachable:
  "reachable (\<lambda>s. s = structured_init [''server''] None)
     (structured_step demo_structured_world (\<lambda>n. True) [''server''] None) demo_client_server"
proof -
  let ?r = "reachable (\<lambda>s. s = structured_init [''server''] None) (structured_step demo_structured_world (\<lambda>n. True) [''server''] None)"
  have "?r (structured_init [''server''] None)" by (rule reach_init) simp
  then have "?r demo_loaded"
    unfolding demo_loaded_def by (rule reach_step) (rule structured_loads, simp add: structured_init_def set_texts_def)
  then show ?thesis
    unfolding demo_client_server_def by (blast intro: reach_step structured_edits demo_offers)
qed


end
