(* ===== verification/Infra_Operational.thy ===== *)
theory Infra_Operational
  imports Infra_Form Analytics_Client
begin

text \<open>
  \<^verbatim>\<open>OperationalInfrastructureForm.tsx\<close>: creating and editing storage, backup plans,
  container stacks, Kubernetes clusters, namespaces and workloads, system services and scheduled
  jobs.

  Times are typed in the time zone of the browser and sent in UTC. \<open>zone t\<close> is what the
  local clock is ahead of UTC, in milliseconds, when it shows the time \<open>t\<close>;
  \<open>other\<close> is the time that \<^verbatim>\<open>new Date\<close> makes of a text that is no date with
  hours and minutes.
\<close>

section \<open>Times\<close>

definition clock_text :: "int \<Rightarrow> string" where
  "clock_text ms =
     (let t = nat ms
      in pad2 (t div 3600000) @ '':'' @ pad2 (t mod 3600000 div 60000) @ '':'' @ pad2 (t mod 60000 div 1000) @ ''.'' @
         pad_left 3 (nat_str (t mod 1000)))"

definition toISOString :: "int \<Rightarrow> string result" where
  "toISOString t =
     (if \<bar>t\<bar> > 100000000 * day_ms then Inl RangeError
      else (case civil_of (t div day_ms) of (y, m, d) \<Rightarrow>
        Inr (iso_year y @ ''-'' @ pad2 (m + 1) @ ''-'' @ pad2 d @ ''T'' @ clock_text (t mod day_ms) @ ''Z'')))"

text \<open>A date with hours and minutes, as the local clock shows it.\<close>

definition local_minutes :: "string \<Rightarrow> int option" where
  "local_minutes s =
     (let h = digits_val (take 2 (drop 11 s)); m = digits_val (drop 14 s)
      in if length s = 16 \<and> s ! 10 = CHR ''T'' \<and> list_all is_digit (take 2 (drop 11 s)) \<and> s ! 13 = CHR '':'' \<and>
            list_all is_digit (drop 14 s) \<and> h < 24 \<and> m < 60
         then map_option (\<lambda>c. day_of c * day_ms + int h * 3600000 + int m * 60000) (iso_civil (take 10 s))
         else None)"

definition new_Date :: "(int \<Rightarrow> int) \<Rightarrow> (string \<Rightarrow> int option) \<Rightarrow> string \<Rightarrow> int option" where
  "new_Date zone other s = (case local_minutes s of Some t \<Rightarrow> Some (t - zone t) | None \<Rightarrow> other s)"

definition dateTimeOrNull :: "(int \<Rightarrow> int) \<Rightarrow> (string \<Rightarrow> int option) \<Rightarrow> string \<Rightarrow> form_value result" where
  "dateTimeOrNull zone other s =
     (if trim s = [] then Inr V_null
      else (case new_Date zone other s of None \<Rightarrow> Inl RangeError
            | Some t \<Rightarrow> and_then (toISOString t) (\<lambda>x. Inr (V_text x))))"

definition numberOrNull' :: "string \<Rightarrow> form_value" where
  "numberOrNull' s = (if trim s = [] then V_null else V_num (js_Number s))"

text \<open>An object literal whose members may throw.\<close>

definition evaluated :: "(string \<times> form_value result) list \<Rightarrow> payload result" where
  "evaluated kvs = map_result (\<lambda>(k, r). and_then r (\<lambda>v. Inr (k, v))) kvs"

section \<open>Loading\<close>

definition operational_fields :: "json \<Rightarrow> (string \<times> string) list" where
  "operational_fields values =
     [(''providerAccountId'', stringValue (jget values ''provider_account_resource_id'')),
      (''providerResourceId'', stringValue (jget values ''provider_resource_id'')),
      (''region'', stringValue (jget values ''region'')),
      (''storageType'', or_default (stringValue (jget values ''storage_type'')) ''block''),
      (''capacityGb'', numberValue (jget values ''capacity_gb'')),
      (''filesystem'', stringValue (jget values ''filesystem'')),
      (''storageClass'', stringValue (jget values ''storage_class'')),
      (''mountPath'', stringValue (jget values ''mount_path'')),
      (''endpointUrl'', stringValue (jget values ''endpoint_url'')),
      (''encrypted'', booleanValue ''yes'' ''no'' (jget values ''encrypted'')),
      (''retentionNotes'', stringValue (jget values ''retention_notes'')),
      (''backupType'', or_default (stringValue (jget values ''backup_type'')) ''snapshot''),
      (''schedule'', stringValue (jget values ''schedule'')),
      (''timezone'', stringValue (jget values ''timezone'')),
      (''retentionDays'', numberValue (jget values ''retention_days'')),
      (''retentionCopies'', numberValue (jget values ''retention_copies'')),
      (''destinationStorageId'', stringValue (jget values ''destination_storage_resource_id'')),
      (''lastSuccessAt'', dateTimeLocalValue (jget values ''last_success_at'')),
      (''lastFailureAt'', dateTimeLocalValue (jget values ''last_failure_at'')),
      (''lastRestoreTestAt'', dateTimeLocalValue (jget values ''last_restore_test_at'')),
      (''recoveryNotes'', stringValue (jget values ''recovery_notes'')),
      (''orchestrator'', or_default (stringValue (jget values ''orchestrator'')) ''docker_compose''),
      (''hostResourceId'', stringValue (jget values ''host_resource_id'')),
      (''projectName'', stringValue (jget values ''project_name'')),
      (''orchestratorVersion'', stringValue (jget values ''orchestrator_version'')),
      (''composePath'', stringValue (jget values ''compose_path'')),
      (''workingDirectory'', stringValue (jget values ''working_directory'')),
      (''managementUrl'', stringValue (jget values ''management_url'')),
      (''distribution'', stringValue (jget values ''distribution'')),
      (''kubernetesVersion'', stringValue (jget values ''version'')),
      (''apiServerUrl'', stringValue (jget values ''api_server_url'')),
      (''providerClusterId'', stringValue (jget values ''provider_cluster_id'')),
      (''nodeCount'', numberValue (jget values ''node_count'')),
      (''highAvailability'', booleanValue ''yes'' ''no'' (jget values ''high_availability'')),
      (''upgradeChannel'', stringValue (jget values ''upgrade_channel'')),
      (''clusterResourceId'', stringValue (jget values ''cluster_resource_id'')),
      (''namespaceName'', stringValue (jget values ''namespace'')),
      (''purpose'', stringValue (jget values ''purpose'')),
      (''resourceQuotaSummary'', stringValue (jget values ''resource_quota_summary'')),
      (''namespaceResourceId'', stringValue (jget values ''namespace_resource_id'')),
      (''workloadKind'', or_default (stringValue (jget values ''workload_kind'')) ''deployment''),
      (''workloadName'', stringValue (jget values ''workload_name'')),
      (''replicasDesired'', numberValue (jget values ''replicas_desired'')),
      (''imageSummary'', stringValue (jget values ''image_summary'')),
      (''selectorSummary'', stringValue (jget values ''selector_summary'')),
      (''serviceAccount'', stringValue (jget values ''service_account'')),
      (''serviceManager'', or_default (stringValue (jget values ''manager'')) ''systemd''),
      (''unitName'', stringValue (jget values ''unit_name'')),
      (''displayName'', stringValue (jget values ''display_name'')),
      (''expectedState'', stringValue (jget values ''expected_state'')),
      (''startupType'', stringValue (jget values ''startup_type'')),
      (''executable'', stringValue (jget values ''executable'')),
      (''configPath'', stringValue (jget values ''config_path'')),
      (''logLocation'', stringValue (jget values ''log_location'')),
      (''restartPolicy'', stringValue (jget values ''restart_policy'')),
      (''scheduler'', or_default (stringValue (jget values ''scheduler'')) ''cron''),
      (''commandSummary'', stringValue (jget values ''command_summary'')),
      (''runAs'', stringValue (jget values ''run_as'')),
      (''nextRunAt'', dateTimeLocalValue (jget values ''next_run_at'')),
      (''notes'', stringValue (jget values ''notes''))]"

text \<open>\<^verbatim>\<open>Number(x)\<close>.\<close>

definition json_number :: "json \<Rightarrow> number" where
  "json_number j =
     (case j of JNum n \<Rightarrow> Dec n 0 | JNull \<Rightarrow> Dec 0 0 | JBool b \<Rightarrow> Dec (if b then 1 else 0) 0 | x \<Rightarrow> js_Number (js_text x))"

definition operational_put :: "json \<Rightarrow> infra_form \<Rightarrow> infra_form" where
  "operational_put values s =
     set_texts (operational_fields values)
       (s\<lparr>fi_flag := (fi_flag s)(''enabled'' := jget values ''enabled'' \<noteq> Some (JBool False)),
          fi_sources := (case jget values ''source_resource_ids'' of
             Some (JArr xs) \<Rightarrow> map json_number xs | _ \<Rightarrow> [])\<rparr>)"

definition operational_details :: "json \<Rightarrow> infra_form \<Rightarrow> infra_form" where
  "operational_details detail s = (take_details truthy_client detail s)\<lparr>fi_clientName := jstr detail ''client_name''\<rparr>"

definition operations_base :: "admin_world \<Rightarrow> string" where
  "operations_base w = aw_api w @ ''/api/admin/infrastructure/operations''"

definition operational_init :: "string list \<Rightarrow> infra_form" where
  "operational_init allowedTypes =
     set_texts [(''lifecycle'', ''active''), (''environment'', ''production''), (''criticality'', ''normal''),
       (''storageType'', ''block''), (''backupType'', ''snapshot''), (''orchestrator'', ''docker_compose''),
       (''workloadKind'', ''deployment''), (''serviceManager'', ''systemd''), (''scheduler'', ''cron'')]
     \<lparr>stored_token = None, sent = [], fi_options = None, fi_clients = Some (JArr []), fi_loading = True, fi_saving = False,
      fi_error = None, fi_type = (case allowedTypes of [] \<Rightarrow> ''storage'' | t # _ \<Rightarrow> t), fi_ownership = ''internal'',
      fi_clientId = [], fi_clientName = None, fi_text = (\<lambda>v. []), fi_flag = (\<lambda>v. v = ''enabled''), fi_sources = [],
      fi_created = [], fi_saved = 0\<rparr>"

definition operational_load :: "admin_world \<Rightarrow> int option \<Rightarrow> (infra_form, unit) act" where
  "operational_load w edited =
     finally_act
       (catch_act
         (then_act (set_act (\<lambda>s. s\<lparr>fi_loading := True, fi_error := None\<rparr>))
           (bind_act
             (both (api_get w (operations_base w @ ''/options'')) (api_get w (aw_api w @ ''/api/admin/infrastructure/specialist-options'')))
             (\<lambda>(opts, specialist).
               then_act (set_act (\<lambda>s. s\<lparr>fi_options := (if opts = JNull then None else Some opts)\<rparr>))
                 (bind_act (lift_act (non_null specialist)) (\<lambda>sp.
                   then_act (set_act (\<lambda>s. s\<lparr>fi_clients := jget sp ''clients''\<rparr>))
                     (case edited of
                        None \<Rightarrow> return_act ()
                      | Some i \<Rightarrow>
                          bind_act (bind_act (api_get w (details_url w i)) (\<lambda>d. lift_act (non_null d)))
                            (open_resource operational_details operational_put)))))))
         (\<lambda>e. set_act (fi_error_update (\<lambda>_. Some (message_of ''Unable to load specialist operations form.'' e)))))
       (fi_loading_update (\<lambda>_. False))"

section \<open>Editing\<close>

definition scopeClientId :: "infra_form \<Rightarrow> number option" where
  "scopeClientId s = (if fi_ownership s = ''client'' \<and> fi_clientId s \<noteq> [] then Some (js_Number (fi_clientId s)) else None)"

definition in_scope :: "infra_form \<Rightarrow> json \<Rightarrow> bool" where
  "in_scope s item \<longleftrightarrow> jstr item ''ownership_type'' = Some (fi_ownership s) \<and>
     (case scopeClientId s of
        None \<Rightarrow> jget item ''client_id'' = Some JNull
      | Some i \<Rightarrow> (case jget item ''client_id'' of Some (JNum n) \<Rightarrow> i = Dec n 0 | _ \<Rightarrow> False))"

definition scoped :: "string \<Rightarrow> infra_form \<Rightarrow> json list" where
  "scoped collection s = filter (in_scope s) (json_list (Option.bind (fi_options s) (\<lambda>opts. jget opts collection)))"

definition allResources :: "int option \<Rightarrow> infra_form \<Rightarrow> json list" where
  "allResources edited s =
     filter (\<lambda>item. case edited of None \<Rightarrow> jget item ''resource_id'' \<noteq> None | Some i \<Rightarrow> jget item ''resource_id'' \<noteq> Some (JNum i))
       (scoped ''resources'' s)"

definition operational_ownership :: "string \<Rightarrow> infra_form \<Rightarrow> infra_form" where
  "operational_ownership value s =
     s\<lparr>fi_ownership := value, fi_clientId := (if value = ''internal'' then [] else fi_clientId s)\<rparr>"

definition operational_client :: "string \<Rightarrow> infra_form \<Rightarrow> infra_form" where
  "operational_client value s = s\<lparr>fi_clientId := value\<rparr>"

definition toggle_source :: "number \<Rightarrow> infra_form \<Rightarrow> infra_form" where
  "toggle_source i s = s\<lparr>fi_sources := (if i \<in> set (fi_sources s) then filter (\<lambda>x. x \<noteq> i) (fi_sources s) else fi_sources s @ [i])\<rparr>"

section \<open>Saving\<close>

definition storage_payload :: "(string \<Rightarrow> string) \<Rightarrow> payload" where
  "storage_payload fv =
     [(''storage_type'', V_text (fv ''storageType'')),
      (''provider_account_resource_id'', numberOrNull' (fv ''providerAccountId'')),
      (''provider_resource_id'', trimmed (fv ''providerResourceId'')),
      (''region'', trimmed (fv ''region'')),
      (''capacity_gb'', numberOrNull' (fv ''capacityGb'')),
      (''filesystem'', trimmed (fv ''filesystem'')),
      (''storage_class'', trimmed (fv ''storageClass'')),
      (''mount_path'', trimmed (fv ''mountPath'')),
      (''endpoint_url'', trimmed (fv ''endpointUrl'')),
      (''encrypted'', booleanPayload ''yes'' ''no'' (fv ''encrypted'')),
      (''retention_notes'', trimmed (fv ''retentionNotes''))]"

definition backup_payload ::
  "(int \<Rightarrow> int) \<Rightarrow> (string \<Rightarrow> int option) \<Rightarrow> (string \<Rightarrow> string) \<Rightarrow> number list \<Rightarrow> payload result" where
  "backup_payload zone other fv sources = evaluated
     [(''backup_type'', Inr (V_text (fv ''backupType''))),
      (''schedule'', Inr (trimmed (fv ''schedule''))),
      (''timezone'', Inr (trimmed (fv ''timezone''))),
      (''retention_days'', Inr (numberOrNull' (fv ''retentionDays''))),
      (''retention_copies'', Inr (numberOrNull' (fv ''retentionCopies''))),
      (''destination_storage_resource_id'', Inr (numberOrNull' (fv ''destinationStorageId''))),
      (''provider_account_resource_id'', Inr (numberOrNull' (fv ''providerAccountId''))),
      (''encrypted'', Inr (booleanPayload ''yes'' ''no'' (fv ''encrypted''))),
      (''last_success_at'', dateTimeOrNull zone other (fv ''lastSuccessAt'')),
      (''last_failure_at'', dateTimeOrNull zone other (fv ''lastFailureAt'')),
      (''last_restore_test_at'', dateTimeOrNull zone other (fv ''lastRestoreTestAt'')),
      (''source_resource_ids'', Inr (V_nums sources)),
      (''recovery_notes'', Inr (trimmed (fv ''recoveryNotes'')))]"

definition stack_payload :: "(string \<Rightarrow> string) \<Rightarrow> payload" where
  "stack_payload fv =
     [(''orchestrator'', V_text (fv ''orchestrator'')),
      (''host_resource_id'', numberOrNull' (fv ''hostResourceId'')),
      (''project_name'', trimmed (fv ''projectName'')),
      (''orchestrator_version'', trimmed (fv ''orchestratorVersion'')),
      (''compose_path'', trimmed (fv ''composePath'')),
      (''working_directory'', trimmed (fv ''workingDirectory'')),
      (''management_url'', trimmed (fv ''managementUrl'')),
      (''notes'', trimmed (fv ''notes''))]"

definition cluster_payload :: "(string \<Rightarrow> string) \<Rightarrow> payload" where
  "cluster_payload fv =
     [(''provider_account_resource_id'', numberOrNull' (fv ''providerAccountId'')),
      (''distribution'', trimmed (fv ''distribution'')),
      (''version'', trimmed (fv ''kubernetesVersion'')),
      (''api_server_url'', trimmed (fv ''apiServerUrl'')),
      (''management_url'', trimmed (fv ''managementUrl'')),
      (''provider_cluster_id'', trimmed (fv ''providerClusterId'')),
      (''region'', trimmed (fv ''region'')),
      (''node_count'', numberOrNull' (fv ''nodeCount'')),
      (''high_availability'', booleanPayload ''yes'' ''no'' (fv ''highAvailability'')),
      (''upgrade_channel'', trimmed (fv ''upgradeChannel'')),
      (''notes'', trimmed (fv ''notes''))]"

definition namespace_payload :: "(string \<Rightarrow> string) \<Rightarrow> payload" where
  "namespace_payload fv =
     [(''cluster_resource_id'', required_number (fv ''clusterResourceId'')),
      (''namespace'', trimmed (fv ''namespaceName'')),
      (''purpose'', trimmed (fv ''purpose'')),
      (''resource_quota_summary'', trimmed (fv ''resourceQuotaSummary''))]"

definition workload_payload :: "(string \<Rightarrow> string) \<Rightarrow> payload" where
  "workload_payload fv =
     [(''namespace_resource_id'', required_number (fv ''namespaceResourceId'')),
      (''workload_kind'', V_text (fv ''workloadKind'')),
      (''workload_name'', trimmed (fv ''workloadName'')),
      (''replicas_desired'', numberOrNull' (fv ''replicasDesired'')),
      (''image_summary'', trimmed (fv ''imageSummary'')),
      (''selector_summary'', trimmed (fv ''selectorSummary'')),
      (''service_account'', trimmed (fv ''serviceAccount'')),
      (''notes'', trimmed (fv ''notes''))]"

definition service_payload :: "(string \<Rightarrow> string) \<Rightarrow> payload" where
  "service_payload fv =
     [(''host_resource_id'', required_number (fv ''hostResourceId'')),
      (''manager'', V_text (fv ''serviceManager'')),
      (''unit_name'', trimmed (fv ''unitName'')),
      (''display_name'', trimmed (fv ''displayName'')),
      (''expected_state'', trimmed (fv ''expectedState'')),
      (''startup_type'', trimmed (fv ''startupType'')),
      (''executable'', trimmed (fv ''executable'')),
      (''config_path'', trimmed (fv ''configPath'')),
      (''working_directory'', trimmed (fv ''workingDirectory'')),
      (''log_location'', trimmed (fv ''logLocation'')),
      (''restart_policy'', trimmed (fv ''restartPolicy'')),
      (''notes'', trimmed (fv ''notes''))]"

definition job_payload ::
  "(int \<Rightarrow> int) \<Rightarrow> (string \<Rightarrow> int option) \<Rightarrow> (string \<Rightarrow> string) \<Rightarrow> (string \<Rightarrow> bool) \<Rightarrow> payload result" where
  "job_payload zone other fv fl = evaluated
     [(''scheduler'', Inr (V_text (fv ''scheduler''))),
      (''host_resource_id'', Inr (numberOrNull' (fv ''hostResourceId''))),
      (''schedule_expression'', Inr (trimmed (fv ''schedule''))),
      (''timezone'', Inr (trimmed (fv ''timezone''))),
      (''command_summary'', Inr (trimmed (fv ''commandSummary''))),
      (''config_path'', Inr (trimmed (fv ''configPath''))),
      (''working_directory'', Inr (trimmed (fv ''workingDirectory''))),
      (''run_as'', Inr (trimmed (fv ''runAs''))),
      (''enabled'', Inr (V_bool (fl ''enabled''))),
      (''last_success_at'', dateTimeOrNull zone other (fv ''lastSuccessAt'')),
      (''last_failure_at'', dateTimeOrNull zone other (fv ''lastFailureAt'')),
      (''next_run_at'', dateTimeOrNull zone other (fv ''nextRunAt'')),
      (''notes'', Inr (trimmed (fv ''notes'')))]"

definition typePayload :: "(int \<Rightarrow> int) \<Rightarrow> (string \<Rightarrow> int option) \<Rightarrow> infra_form \<Rightarrow> payload result" where
  "typePayload zone other s =
     (let t = fi_type s; fv = fi_text s
      in if t = ''storage'' then Inr (storage_payload fv)
         else if t = ''backup_plan'' then backup_payload zone other fv (fi_sources s)
         else if t = ''container_stack'' then Inr (stack_payload fv)
         else if t = ''kubernetes_cluster'' then Inr (cluster_payload fv)
         else if t = ''kubernetes_namespace'' then Inr (namespace_payload fv)
         else if t = ''kubernetes_workload'' then Inr (workload_payload fv)
         else if t = ''system_service'' then Inr (service_payload fv)
         else job_payload zone other fv (fi_flag s))"

definition operational_body ::
  "(int \<Rightarrow> int) \<Rightarrow> (string \<Rightarrow> int option) \<Rightarrow> int option \<Rightarrow> infra_form \<Rightarrow> payload result" where
  "operational_body zone other edited s =
     and_then (typePayload zone other s) (\<lambda>p.
       Inr ((if edited = None then owner_payload s else []) @ common_payload (fi_text s) @ p))"

definition operational_endpoint :: "string \<Rightarrow> string" where
  "operational_endpoint t =
     (case map_of
       [(''storage'', ''storage''), (''backup_plan'', ''backup-plans''), (''container_stack'', ''container-stacks''),
        (''kubernetes_cluster'', ''kubernetes/clusters''), (''kubernetes_namespace'', ''kubernetes/namespaces''),
        (''kubernetes_workload'', ''kubernetes/workloads''), (''system_service'', ''system-services''),
        (''scheduled_job'', ''scheduled-jobs'')] t of Some path \<Rightarrow> path | None \<Rightarrow> ''undefined'')"

definition operational_checks :: "int option \<Rightarrow> infra_form \<Rightarrow> (bool \<times> string) list" where
  "operational_checks edited s =
     [(trim (fi_text s ''name'') = [], ''Resource name is required.''),
      (edited = None \<and> fi_ownership s = ''client'' \<and> fi_clientId s = [], ''Choose a client for client-owned infrastructure.'')]"

definition operational_save ::
  "admin_world \<Rightarrow> (int \<Rightarrow> int) \<Rightarrow> (string \<Rightarrow> int option) \<Rightarrow> int option \<Rightarrow> (infra_form, unit) act" where
  "operational_save w zone other edited =
     checked_save (operational_checks edited)
       (\<lambda>s. save_resource w edited (operations_base w @ ''/'' @ operational_endpoint (fi_type s))
              (operational_body zone other edited) ''Unable to save resource.'' s)"

interpretation operational_saving: submit_handler "operational_save w zone other edited" fi_saving
  unfolding operational_save_def by (rule checked_save_handler) (rule save_resource_idle)


section \<open>A resource that is saved untouched\<close>

interpretation number_field': form_field numberValue numberOrNull' proper_number
  by unfold_locales
    (auto simp: proper_number_def numberValue_def numberOrNull'_def trim_int_str js_Number_int_str trim_nil split: option.splits json.splits)

interpretation number_string_field': form_field stringValue numberOrNull' proper_number
  by unfold_locales
    (auto simp: proper_number_def stringValue_def numberOrNull'_def trim_int_str js_Number_int_str trim_nil split: option.splits json.splits)

lemma operational_distinct: "distinct (map fst (operational_fields values))"
  by (simp add: operational_fields_def list_eq char_eq del: list.inject char.inject)

lemma operational_member:
  "(''providerAccountId'', stringValue (jget values ''provider_account_resource_id'')) \<in> set (operational_fields values)"
  "(''providerResourceId'', stringValue (jget values ''provider_resource_id'')) \<in> set (operational_fields values)"
  "(''region'', stringValue (jget values ''region'')) \<in> set (operational_fields values)"
  "(''storageType'', or_default (stringValue (jget values ''storage_type'')) ''block'') \<in> set (operational_fields values)"
  "(''capacityGb'', numberValue (jget values ''capacity_gb'')) \<in> set (operational_fields values)"
  "(''filesystem'', stringValue (jget values ''filesystem'')) \<in> set (operational_fields values)"
  "(''storageClass'', stringValue (jget values ''storage_class'')) \<in> set (operational_fields values)"
  "(''mountPath'', stringValue (jget values ''mount_path'')) \<in> set (operational_fields values)"
  "(''endpointUrl'', stringValue (jget values ''endpoint_url'')) \<in> set (operational_fields values)"
  "(''encrypted'', booleanValue ''yes'' ''no'' (jget values ''encrypted'')) \<in> set (operational_fields values)"
  "(''retentionNotes'', stringValue (jget values ''retention_notes'')) \<in> set (operational_fields values)"
  "(''backupType'', or_default (stringValue (jget values ''backup_type'')) ''snapshot'') \<in> set (operational_fields values)"
  "(''schedule'', stringValue (jget values ''schedule'')) \<in> set (operational_fields values)"
  "(''timezone'', stringValue (jget values ''timezone'')) \<in> set (operational_fields values)"
  "(''retentionDays'', numberValue (jget values ''retention_days'')) \<in> set (operational_fields values)"
  "(''retentionCopies'', numberValue (jget values ''retention_copies'')) \<in> set (operational_fields values)"
  "(''destinationStorageId'', stringValue (jget values ''destination_storage_resource_id'')) \<in> set (operational_fields values)"
  "(''lastSuccessAt'', dateTimeLocalValue (jget values ''last_success_at'')) \<in> set (operational_fields values)"
  "(''lastFailureAt'', dateTimeLocalValue (jget values ''last_failure_at'')) \<in> set (operational_fields values)"
  "(''lastRestoreTestAt'', dateTimeLocalValue (jget values ''last_restore_test_at'')) \<in> set (operational_fields values)"
  "(''recoveryNotes'', stringValue (jget values ''recovery_notes'')) \<in> set (operational_fields values)"
  "(''orchestrator'', or_default (stringValue (jget values ''orchestrator'')) ''docker_compose'') \<in> set (operational_fields values)"
  "(''hostResourceId'', stringValue (jget values ''host_resource_id'')) \<in> set (operational_fields values)"
  "(''projectName'', stringValue (jget values ''project_name'')) \<in> set (operational_fields values)"
  "(''orchestratorVersion'', stringValue (jget values ''orchestrator_version'')) \<in> set (operational_fields values)"
  "(''composePath'', stringValue (jget values ''compose_path'')) \<in> set (operational_fields values)"
  "(''workingDirectory'', stringValue (jget values ''working_directory'')) \<in> set (operational_fields values)"
  "(''managementUrl'', stringValue (jget values ''management_url'')) \<in> set (operational_fields values)"
  "(''distribution'', stringValue (jget values ''distribution'')) \<in> set (operational_fields values)"
  "(''kubernetesVersion'', stringValue (jget values ''version'')) \<in> set (operational_fields values)"
  "(''apiServerUrl'', stringValue (jget values ''api_server_url'')) \<in> set (operational_fields values)"
  "(''providerClusterId'', stringValue (jget values ''provider_cluster_id'')) \<in> set (operational_fields values)"
  "(''nodeCount'', numberValue (jget values ''node_count'')) \<in> set (operational_fields values)"
  "(''highAvailability'', booleanValue ''yes'' ''no'' (jget values ''high_availability'')) \<in> set (operational_fields values)"
  "(''upgradeChannel'', stringValue (jget values ''upgrade_channel'')) \<in> set (operational_fields values)"
  "(''clusterResourceId'', stringValue (jget values ''cluster_resource_id'')) \<in> set (operational_fields values)"
  "(''namespaceName'', stringValue (jget values ''namespace'')) \<in> set (operational_fields values)"
  "(''purpose'', stringValue (jget values ''purpose'')) \<in> set (operational_fields values)"
  "(''resourceQuotaSummary'', stringValue (jget values ''resource_quota_summary'')) \<in> set (operational_fields values)"
  "(''namespaceResourceId'', stringValue (jget values ''namespace_resource_id'')) \<in> set (operational_fields values)"
  "(''workloadKind'', or_default (stringValue (jget values ''workload_kind'')) ''deployment'') \<in> set (operational_fields values)"
  "(''workloadName'', stringValue (jget values ''workload_name'')) \<in> set (operational_fields values)"
  "(''replicasDesired'', numberValue (jget values ''replicas_desired'')) \<in> set (operational_fields values)"
  "(''imageSummary'', stringValue (jget values ''image_summary'')) \<in> set (operational_fields values)"
  "(''selectorSummary'', stringValue (jget values ''selector_summary'')) \<in> set (operational_fields values)"
  "(''serviceAccount'', stringValue (jget values ''service_account'')) \<in> set (operational_fields values)"
  "(''serviceManager'', or_default (stringValue (jget values ''manager'')) ''systemd'') \<in> set (operational_fields values)"
  "(''unitName'', stringValue (jget values ''unit_name'')) \<in> set (operational_fields values)"
  "(''displayName'', stringValue (jget values ''display_name'')) \<in> set (operational_fields values)"
  "(''expectedState'', stringValue (jget values ''expected_state'')) \<in> set (operational_fields values)"
  "(''startupType'', stringValue (jget values ''startup_type'')) \<in> set (operational_fields values)"
  "(''executable'', stringValue (jget values ''executable'')) \<in> set (operational_fields values)"
  "(''configPath'', stringValue (jget values ''config_path'')) \<in> set (operational_fields values)"
  "(''logLocation'', stringValue (jget values ''log_location'')) \<in> set (operational_fields values)"
  "(''restartPolicy'', stringValue (jget values ''restart_policy'')) \<in> set (operational_fields values)"
  "(''scheduler'', or_default (stringValue (jget values ''scheduler'')) ''cron'') \<in> set (operational_fields values)"
  "(''commandSummary'', stringValue (jget values ''command_summary'')) \<in> set (operational_fields values)"
  "(''runAs'', stringValue (jget values ''run_as'')) \<in> set (operational_fields values)"
  "(''nextRunAt'', dateTimeLocalValue (jget values ''next_run_at'')) \<in> set (operational_fields values)"
  "(''notes'', stringValue (jget values ''notes'')) \<in> set (operational_fields values)"
  unfolding operational_fields_def by (intro list.set_intros)+

lemmas operational_lookup = operational_member [THEN map_of_is_SomeI [OF operational_distinct]]

lemmas operational_opened =
  opened operational_details_def operational_put_def take_details_def typePayload_def same_values_def proper_values_def text_of_map
  operational_lookup number_field'.save_load number_string_field'.save_load reference_string_field.save_load

definition storage_schema :: "(string \<times> (json option \<Rightarrow> bool)) list" where
  "storage_schema =
     map (\<lambda>k. (k, proper_choice)) [''storage_type''] @
     map (\<lambda>k. (k, proper_number)) [''provider_account_resource_id'', ''capacity_gb''] @
     map (\<lambda>k. (k, proper_text)) [''provider_resource_id'', ''region'', ''filesystem'',
       ''storage_class'', ''mount_path'', ''endpoint_url'', ''retention_notes''] @
     map (\<lambda>k. (k, proper_boolean)) [''encrypted'']"

definition stack_schema :: "(string \<times> (json option \<Rightarrow> bool)) list" where
  "stack_schema =
     map (\<lambda>k. (k, proper_choice)) [''orchestrator''] @
     map (\<lambda>k. (k, proper_number)) [''host_resource_id''] @
     map (\<lambda>k. (k, proper_text)) [''project_name'', ''orchestrator_version'', ''compose_path'',
       ''working_directory'', ''management_url'', ''notes'']"

definition cluster_schema :: "(string \<times> (json option \<Rightarrow> bool)) list" where
  "cluster_schema =
     map (\<lambda>k. (k, proper_number)) [''provider_account_resource_id'', ''node_count''] @
     map (\<lambda>k. (k, proper_text)) [''distribution'', ''version'', ''api_server_url'',
       ''management_url'', ''provider_cluster_id'', ''region'', ''upgrade_channel'', ''notes''] @
     map (\<lambda>k. (k, proper_boolean)) [''high_availability'']"

definition namespace_schema :: "(string \<times> (json option \<Rightarrow> bool)) list" where
  "namespace_schema =
     map (\<lambda>k. (k, proper_reference)) [''cluster_resource_id''] @
     map (\<lambda>k. (k, proper_text)) [''namespace'', ''purpose'', ''resource_quota_summary'']"

definition workload_schema :: "(string \<times> (json option \<Rightarrow> bool)) list" where
  "workload_schema =
     map (\<lambda>k. (k, proper_reference)) [''namespace_resource_id''] @
     map (\<lambda>k. (k, proper_choice)) [''workload_kind''] @
     map (\<lambda>k. (k, proper_text)) [''workload_name'', ''image_summary'', ''selector_summary'',
       ''service_account'', ''notes''] @
     map (\<lambda>k. (k, proper_number)) [''replicas_desired'']"

definition service_schema :: "(string \<times> (json option \<Rightarrow> bool)) list" where
  "service_schema =
     map (\<lambda>k. (k, proper_reference)) [''host_resource_id''] @
     map (\<lambda>k. (k, proper_choice)) [''manager''] @
     map (\<lambda>k. (k, proper_text)) [''unit_name'', ''display_name'', ''expected_state'',
       ''startup_type'', ''executable'', ''config_path'', ''working_directory'', ''log_location'',
       ''restart_policy'', ''notes'']"

lemma opened_storage:
  assumes "jstr detail ''resource_type'' = Some ''storage''" "proper_values storage_schema (members detail)"
  shows "\<exists>p. typePayload zone other (fst (open_resource operational_details operational_put detail s)) = Inr p \<and>
    same_values p (members detail)"
proof -
  have "members detail \<noteq> JNull"
    by (rule proper_members [OF assms(2), of "''region''" proper_text]) (simp_all add: storage_schema_def proper_text_def)
  then show ?thesis
    using assms by (simp add: operational_opened storage_schema_def storage_payload_def input_kept del: stored.simps)
qed

lemma opened_stack:
  assumes "jstr detail ''resource_type'' = Some ''container_stack''" "proper_values stack_schema (members detail)"
  shows "\<exists>p. typePayload zone other (fst (open_resource operational_details operational_put detail s)) = Inr p \<and>
    same_values p (members detail)"
proof -
  have "members detail \<noteq> JNull"
    by (rule proper_members [OF assms(2), of "''notes''" proper_text]) (simp_all add: stack_schema_def proper_text_def)
  then show ?thesis
    using assms by (simp add: operational_opened stack_schema_def stack_payload_def input_kept del: stored.simps)
qed

lemma opened_cluster:
  assumes "jstr detail ''resource_type'' = Some ''kubernetes_cluster''" "proper_values cluster_schema (members detail)"
  shows "\<exists>p. typePayload zone other (fst (open_resource operational_details operational_put detail s)) = Inr p \<and>
    same_values p (members detail)"
proof -
  have "members detail \<noteq> JNull"
    by (rule proper_members [OF assms(2), of "''notes''" proper_text]) (simp_all add: cluster_schema_def proper_text_def)
  then show ?thesis
    using assms by (simp add: operational_opened cluster_schema_def cluster_payload_def input_kept del: stored.simps)
qed

lemma opened_namespace:
  assumes "jstr detail ''resource_type'' = Some ''kubernetes_namespace''" "proper_values namespace_schema (members detail)"
  shows "\<exists>p. typePayload zone other (fst (open_resource operational_details operational_put detail s)) = Inr p \<and>
    same_values p (members detail)"
proof -
  have "members detail \<noteq> JNull"
    by (rule proper_members [OF assms(2), of "''purpose''" proper_text]) (simp_all add: namespace_schema_def proper_text_def)
  then show ?thesis
    using assms by (simp add: operational_opened namespace_schema_def namespace_payload_def input_kept del: stored.simps)
qed

lemma opened_workload:
  assumes "jstr detail ''resource_type'' = Some ''kubernetes_workload''" "proper_values workload_schema (members detail)"
  shows "\<exists>p. typePayload zone other (fst (open_resource operational_details operational_put detail s)) = Inr p \<and>
    same_values p (members detail)"
proof -
  have "members detail \<noteq> JNull"
    by (rule proper_members [OF assms(2), of "''notes''" proper_text]) (simp_all add: workload_schema_def proper_text_def)
  then show ?thesis
    using assms by (simp add: operational_opened workload_schema_def workload_payload_def input_kept del: stored.simps)
qed

lemma opened_service:
  assumes "jstr detail ''resource_type'' = Some ''system_service''" "proper_values service_schema (members detail)"
  shows "\<exists>p. typePayload zone other (fst (open_resource operational_details operational_put detail s)) = Inr p \<and>
    same_values p (members detail)"
proof -
  have "members detail \<noteq> JNull"
    by (rule proper_members [OF assms(2), of "''notes''" proper_text]) (simp_all add: service_schema_def proper_text_def)
  then show ?thesis
    using assms by (simp add: operational_opened service_schema_def service_payload_def input_kept del: stored.simps)
qed

definition operational_schema :: "string \<Rightarrow> (string \<times> (json option \<Rightarrow> bool)) list" where
  "operational_schema t =
     (if t = ''storage'' then storage_schema else if t = ''container_stack'' then stack_schema
      else if t = ''kubernetes_cluster'' then cluster_schema else if t = ''kubernetes_namespace'' then namespace_schema
      else if t = ''kubernetes_workload'' then workload_schema else service_schema)"


definition demo_namespace :: json where
  "demo_namespace = JObj [(''resource_type'', JStr ''kubernetes_namespace''), (''values'', JObj
     [(''cluster_resource_id'', JNum 12), (''namespace'', JStr ''web''), (''purpose'', JStr ''public site''),
      (''resource_quota_summary'', JStr [])])]"


section \<open>Times that are saved untouched\<close>

lemma toISOString_day:
  assumes "four_digits (t div day_ms)"
  shows "toISOString t = Inr (iso_digits (civil_of (t div day_ms)) @ ''T'' @ clock_text (t mod day_ms) @ ''Z'')"
proof -
  obtain y m d where c: "civil_of (t div day_ms) = (y, m, d)" by (cases "civil_of (t div day_ms)")
  have y: "0 \<le> y" "y \<le> 9999" using four_digits_year [OF assms c] by auto
  have v: "valid_civil (y, m, d)" using civil_of_valid [of "t div day_ms"] by (simp add: c)
  have md: "Suc m < 100" "d < 100" using v months_pos [of m y] by (auto simp: valid_civil_def)
  have r: "\<not> \<bar>t\<bar> > 100000000 * day_ms" using iso_slice_day(1) [OF assms] by (auto simp: iso_slice_def split: if_splits)
  have "nat y < 10 ^ Suc 3" using y by simp
  then have "pad_left 4 (nat_str (nat y)) = dig 4 (nat y)" using pad_left_dig [of "nat y" 3] by (simp del: dig.simps)
  then show ?thesis
    using y unfolding toISOString_def if_not_P [OF r] c
    by (simp del: dig.simps add: iso_digits_def iso_year_def pad2_dig [OF md(1)] pad2_dig [OF md(2)])
qed

text \<open>The text of a time, as the back end prints it: date, hours, minutes and whatever follows.\<close>

definition stamp :: "int \<Rightarrow> nat \<Rightarrow> nat \<Rightarrow> string \<Rightarrow> string" where
  "stamp n h m rest = iso_digits (civil_of n) @ ''T'' @ dig 2 h @ '':'' @ dig 2 m @ rest"

abbreviation minute_ms :: "int \<Rightarrow> nat \<Rightarrow> nat \<Rightarrow> int" where
  "minute_ms n h m \<equiv> n * day_ms + int h * 3600000 + int m * 60000"

lemma length_iso_digits: "length (iso_digits c) = 10"
  by (simp add: iso_digits_def split: prod.split)

lemma loaded_stamp: "dateTimeLocalValue (Some (JStr (stamp n h m rest))) = stamp n h m []"
  by (simp del: dig.simps add: dateTimeLocalValue_def stringValue_def stamp_def length_iso_digits)

lemma read_stamp:
  assumes "four_digits n" "h < 24" "m < 60"
  shows "local_minutes (stamp n h m []) = Some (minute_ms n h m)"
proof -
  have "take 10 (stamp n h m []) = iso_digits (civil_of n)" "take 2 (drop 11 (stamp n h m [])) = dig 2 h"
    "drop 14 (stamp n h m []) = dig 2 m" "stamp n h m [] ! 10 = CHR ''T''" "stamp n h m [] ! 13 = CHR '':''"
    "length (stamp n h m []) = 16"
    by (simp_all del: dig.simps add: stamp_def length_iso_digits nth_append)
  then show ?thesis
    using assms by (simp del: dig.simps add: local_minutes_def dig_digits digits_val_dig iso_digits_read)
qed

lemma trim_shows: "c \<in> set s \<Longrightarrow> \<not> js_space c \<Longrightarrow> trim s \<noteq> []"
proof -
  assume c: "c \<in> set s" "\<not> js_space c"
  then have t: "c \<in> set (dropWhile js_space s)"
    by (metis UnE set_append set_takeWhileD takeWhile_dropWhile_id)
  then have "c \<in> set (dropWhile js_space (rev (dropWhile js_space s)))"
    using c(2) by (metis UnE set_append set_rev set_takeWhileD takeWhile_dropWhile_id)
  then have "dropWhile js_space (rev (dropWhile js_space s)) \<noteq> []" by (cases "dropWhile js_space (rev (dropWhile js_space s))") simp_all
  then show "trim s \<noteq> []" by (simp only: trim_def trim_start_def rev_is_Nil_conv not_False_eq_True)
qed

lemma stamp_shown: "trim (stamp n h m []) \<noteq> []"
  by (rule trim_shows [of "CHR ''T''"]) (simp_all add: stamp_def js_space_def)

text \<open>
  A time that the back end keeps in UTC comes back changed when its form is saved untouched,
  unless the clock of the browser shows UTC at that time: the form shows the stored date, hours and
  minutes, whatever the zone, and saves them as times of the local clock. What is saved is the
  time that many milliseconds earlier as the local clock is ahead of UTC; seconds are dropped.
\<close>

theorem untouched_time_is_shifted:
  assumes "four_digits n" "h < 24" "m < 60"
  shows "dateTimeOrNull zone other (dateTimeLocalValue (Some (JStr (stamp n h m rest)))) =
    and_then (toISOString (minute_ms n h m - zone (minute_ms n h m))) (\<lambda>x. Inr (V_text x))"
  unfolding loaded_stamp dateTimeOrNull_def new_Date_def
  using read_stamp [OF assms] stamp_shown by simp

theorem untouched_time_is_shifted_witness:
  "dateTimeOrNull (\<lambda>t. 3600000) (\<lambda>s. None) (dateTimeLocalValue (Some (JStr (stamp 20635 10 30 '':00+00:00'')))) =
     and_then (toISOString (minute_ms 20635 9 30)) (\<lambda>x. Inr (V_text x))"
  using untouched_time_is_shifted [of 20635 10 30 "\<lambda>t. 3600000" "\<lambda>s. None" "'':00+00:00''"]
  by (simp add: four_digits_def DayFromYear_def)

text \<open>In a browser whose clock shows UTC the minute is kept.\<close>

lemma utc_time_is_kept:
  assumes "four_digits n" "h < 24" "m < 60" "zone (minute_ms n h m) = 0"
  shows "dateTimeOrNull zone other (dateTimeLocalValue (Some (JStr (stamp n h m rest)))) =
    Inr (V_text (stamp n h m '':00.000Z''))"
proof -
  define r where "r = int h * 3600000 + int m * 60000"
  have r: "0 \<le> r" "r < day_ms" using assms(2,3) by (simp_all add: r_def)
  then have "(n * day_ms + r) div day_ms = n" "(n * day_ms + r) mod day_ms = r" by simp_all
  then have d: "minute_ms n h m div day_ms = n" "minute_ms n h m mod day_ms = int h * 3600000 + int m * 60000"
    by (simp_all only: r_def add.assoc)
  have t: "nat (int h * 3600000 + int m * 60000) = h * 3600000 + m * 60000" by simp
  have "h * 3600000 + m * 60000 = (h * 60 + m) * 60000" "h * 3600000 + m * 60000 = (h * 3600 + m * 60) * 1000" by simp_all
  then have q0: "(h * 3600000 + m * 60000) mod 60000 = 0" "(h * 3600000 + m * 60000) mod 1000 = 0" by (metis mod_mult_self2_is_0)+
  have "m * 60000 < 3600000" using assms(3) by simp
  then have q: "(h * 3600000 + m * 60000) div 3600000 = h" "(h * 3600000 + m * 60000) mod 3600000 = m * 60000"
    "m * 60000 div 60000 = m" by (simp_all add: div_mult_self3 mod_mult_self3)
  have z: "pad2 0 = ''00''" "pad_left 3 (nat_str 0) = ''000''" by code_simp+
  have "clock_text (int h * 3600000 + int m * 60000) = dig 2 h @ '':'' @ dig 2 m @ '':00.000''"
    using assms(2,3) z by (simp del: dig.simps add: clock_text_def t Let_def q q0 pad2_dig [of h] pad2_dig [of m])
  then show ?thesis
    unfolding untouched_time_is_shifted [OF assms(1-3)] assms(4)
    using toISOString_day [of "minute_ms n h m"] assms(1) by (simp del: dig.simps add: d stamp_def)
qed

section \<open>Scheduled jobs\<close>

lemma map_result_member:
  "map_result f xs = Inr ys \<Longrightarrow> x \<in> set xs \<Longrightarrow> f x = Inr y \<Longrightarrow> y \<in> set ys"
  by (induction xs arbitrary: ys) (auto simp: and_then_def split: sum.splits)

lemma job_member:
  "job_payload zone other fv fl = Inr p \<Longrightarrow> (''schedule_expression'', trimmed (fv ''schedule'')) \<in> set p"
  unfolding job_payload_def evaluated_def
  by (erule map_result_member [where x = "(''schedule_expression'', Inr (trimmed (fv ''schedule'')))"]) simp_all

text \<open>
  C32: a scheduled job that is edited and saved without a change loses its schedule. The members
  the back end gives for a job name it \<^verbatim>\<open>schedule_expression\<close>, the form reads
  \<^verbatim>\<open>schedule\<close>; so whatever is stored, a request that is sent asks for the empty
  schedule.
\<close>

theorem untouched_job_loses_schedule:
  assumes "jstr detail ''resource_type'' = Some ''scheduled_job''"
    and "jget (members detail) ''schedule_expression'' = Some (JStr expression)" and "jget (members detail) ''schedule'' = None"
    and "typePayload zone other (fst (open_resource operational_details operational_put detail s)) = Inr p"
  shows "(''schedule_expression'', V_text []) \<in> set p"
proof -
  let ?s = "fst (open_resource operational_details operational_put detail s)"
  have n: "members detail \<noteq> JNull" using assms(2) by auto
  have "fi_type ?s = ''scheduled_job''"
    using assms(1) by (simp add: opened [OF n] operational_put_def operational_details_def take_details_def)
  then have "job_payload zone other (fi_text ?s) (fi_flag ?s) = Inr p" using assms(4) by (simp add: typePayload_def)
  moreover have "fi_text ?s ''schedule'' = []"
    using assms(3) by (simp add: opened [OF n] operational_put_def operational_lookup text_of_map)
  ultimately show ?thesis using job_member by (fastforce simp: trimmed_def trim_nil)
qed

definition demo_job :: json where
  "demo_job = JObj [(''resource_type'', JStr ''scheduled_job''), (''values'', JObj
     [(''scheduler'', JStr ''cron''), (''host_resource_id'', JNull), (''schedule_expression'', JStr ''0 2 * * *''),
      (''timezone'', JStr ''UTC''), (''command_summary'', JStr ''backup''), (''config_path'', JStr []),
      (''working_directory'', JStr []), (''run_as'', JStr ''root''), (''enabled'', JBool True), (''last_success_at'', JNull),
      (''last_failure_at'', JNull), (''next_run_at'', JNull), (''notes'', JStr [])])]"

definition demo_job_body :: payload where
  "demo_job_body = (case typePayload (\<lambda>t. 0) (\<lambda>s. None)
     (fst (open_resource operational_details operational_put demo_job (operational_init [''storage'']))) of Inr p \<Rightarrow> p | Inl e \<Rightarrow> [])"

theorem untouched_job_loses_schedule_witness: "(''schedule_expression'', V_text []) \<in> set demo_job_body"
proof (rule untouched_job_loses_schedule [of demo_job "''0 2 * * *''" "\<lambda>t. 0" "\<lambda>s. None" "operational_init [''storage'']"])
  let ?s = "fst (open_resource operational_details operational_put demo_job (operational_init [''storage'']))"
  have j: "members demo_job \<noteq> JNull" by (simp add: demo_job_def members_def nullish_def)
  have m: "jget (members demo_job) ''last_success_at'' = Some JNull" "jget (members demo_job) ''last_failure_at'' = Some JNull"
    "jget (members demo_job) ''next_run_at'' = Some JNull"
    by (simp_all add: demo_job_def members_def nullish_def)
  have t: "fi_type ?s = ''scheduled_job''"
    by (simp add: opened [OF j] operational_put_def operational_details_def take_details_def) (simp add: demo_job_def jstr_def nullish_def)
  have "fi_text ?s ''lastSuccessAt'' = []" "fi_text ?s ''lastFailureAt'' = []" "fi_text ?s ''nextRunAt'' = []"
    by (simp_all add: opened [OF j] operational_put_def text_of_map operational_lookup m dateTimeLocalValue_def stringValue_def)
  then have "\<exists>p. typePayload (\<lambda>t. 0) (\<lambda>s. None) ?s = Inr p"
    by (simp add: typePayload_def t Let_def job_payload_def evaluated_def dateTimeOrNull_def trim_nil)
  then show "typePayload (\<lambda>t. 0) (\<lambda>s. None) ?s = Inr demo_job_body" by (auto simp: demo_job_body_def)
qed (simp_all add: demo_job_def jstr_def members_def nullish_def)

section \<open>References of another owner\<close>

text \<open>
  Choosing another client does not give up the resources chosen before. A provider account
  of one client that is chosen for storage is no longer among the options once another client is
  chosen, yet the request names the new client as the owner and the account of the old one.
\<close>

theorem client_change_keeps_foreign_account:
  assumes "fi_type s = ''storage''" "fi_ownership s = ''client''" "0 \<le> n" "0 \<le> b" "b \<noteq> a"
    and "jget item ''client_id'' = Some (JNum a)" "jget item ''resource_id'' = Some (JNum n)"
    and "fi_text s ''providerAccountId'' = stringValue (jget item ''resource_id'')"
  shows "\<not> in_scope (operational_client (int_str b) s) item \<and>
    (\<exists>p. operational_body zone other None (operational_client (int_str b) s) = Inr p \<and>
       (''client_id'', V_num (Dec b 0)) \<in> set p \<and> (''provider_account_resource_id'', V_num (Dec n 0)) \<in> set p)"
proof -
  have t: "fi_text s ''providerAccountId'' = int_str n" using assms(7,8) by (simp add: stringValue_def)
  have b: "int_str b \<noteq> []" using trim_int_str [OF assms(4)] by simp
  show ?thesis
    using assms(1-6) b trim_int_str [OF assms(3)]
    by (simp add: Let_def t in_scope_def scopeClientId_def operational_client_def operational_body_def owner_payload_def typePayload_def
        storage_payload_def numberOrNull'_def required_number_def js_Number_int_str)
qed

definition demo_account :: json where
  "demo_account = JObj [(''resource_id'', JNum 3), (''ownership_type'', JStr ''client''), (''client_id'', JNum 9)]"

definition demo_storage :: infra_form where
  "demo_storage =
     set_text ''providerAccountId'' ''3'' (operational_client ''9'' (operational_ownership ''client''
       ((operational_init [''storage''])\<lparr>fi_options := Some (JObj [(''provider_accounts'', JArr [demo_account])])\<rparr>)))"

theorem client_change_keeps_foreign_account_witness:
  "in_scope demo_storage demo_account \<and> \<not> in_scope (operational_client ''8'' demo_storage) demo_account \<and>
   (\<exists>p. operational_body (\<lambda>t. 0) (\<lambda>s. None) None (operational_client ''8'' demo_storage) = Inr p \<and>
      (''client_id'', V_num (Dec 8 0)) \<in> set p \<and> (''provider_account_resource_id'', V_num (Dec 3 0)) \<in> set p)"
proof -
  have "in_scope demo_storage demo_account" "int_str 8 = ''8''" "fi_type demo_storage = ''storage''" "fi_ownership demo_storage = ''client''"
    "jget demo_account ''client_id'' = Some (JNum 9)" "jget demo_account ''resource_id'' = Some (JNum 3)"
    "fi_text demo_storage ''providerAccountId'' = stringValue (jget demo_account ''resource_id'')"
    by code_simp+
  then show ?thesis
    using client_change_keeps_foreign_account [of demo_storage 3 8 9 demo_account "\<lambda>t. 0" "\<lambda>s. None"] by (simp del: jget.simps)
qed

end
