(* ===== verification/Infra_Data.thy ===== *)
theory Infra_Data
  imports Infra_Form
begin

text \<open>
  \<^verbatim>\<open>DataApplicationInfrastructureForm.tsx\<close>: creating and editing database instances,
  logical databases, applications, application environments and source repositories.

  The effect that follows a change of the owner or the client runs before the next event, so it
  is part of the change.
\<close>

record data_context =
  dc_ownership :: string
  dc_client :: "int option"

definition data_init :: "string list \<Rightarrow> data_context option \<Rightarrow> infra_form" where
  "data_init allowedTypes ctx =
     set_texts [(''lifecycle'', ''active''), (''environment'', ''not_applicable''), (''criticality'', ''normal''),
       (''engine'', ''postgresql''), (''hostingType'', ''managed''), (''tlsMode'', ''unknown''), (''applicationType'', ''web_app''),
       (''deploymentType'', ''server''), (''visibility'', ''private'')]
     \<lparr>stored_token = None, sent = [], fi_options = None, fi_clients = None, fi_loading = True, fi_saving = False, fi_error = None,
      fi_type = (case allowedTypes of [] \<Rightarrow> ''database_instance'' | t # _ \<Rightarrow> t),
      fi_ownership = (case ctx of None \<Rightarrow> ''internal'' | Some c \<Rightarrow> dc_ownership c),
      fi_clientId = (case Option.bind ctx dc_client of Some n \<Rightarrow> if n = 0 then [] else int_str n | None \<Rightarrow> []), fi_clientName = None,
      fi_text = (\<lambda>v. []), fi_flag = (\<lambda>v. False), fi_sources = [], fi_created = [], fi_saved = 0\<rparr>"

section \<open>Loading\<close>

definition data_fields :: "json \<Rightarrow> (string \<times> string) list" where
  "data_fields values =
     [(''engine'', or_default (textValue (jget values ''engine'')) ''postgresql''),
      (''engineVersion'', textValue (jget values ''engine_version'')),
      (''hostingType'', or_default (textValue (jget values ''hosting_type'')) ''managed''),
      (''serverResourceId'', textValue (jget values ''server_resource_id'')),
      (''providerAccountId'', textValue (jget values ''provider_account_resource_id'')),
      (''providerResourceId'', textValue (jget values ''provider_resource_id'')),
      (''endpoint'', textValue (jget values ''endpoint'')),
      (''port'', textValue (jget values ''port'')),
      (''region'', textValue (jget values ''region'')),
      (''zone'', textValue (jget values ''zone'')),
      (''tlsMode'', or_default (textValue (jget values ''tls_mode'')) ''unknown''),
      (''highAvailability'', booleanValue ''true'' ''false'' (jget values ''high_availability'')),
      (''replicaCount'', textValue (jget values ''replica_count'')),
      (''backupEnabled'', booleanValue ''true'' ''false'' (jget values ''backup_enabled'')),
      (''maintenanceWindow'', textValue (jget values ''maintenance_window'')),
      (''instanceResourceId'', textValue (jget values ''instance_resource_id'')),
      (''databaseName'', textValue (jget values ''database_name'')),
      (''purpose'', textValue (jget values ''purpose'')),
      (''defaultSchema'', textValue (jget values ''default_schema'')),
      (''charset'', textValue (jget values ''charset'')),
      (''collation'', textValue (jget values ''collation'')),
      (''applicationType'', or_default (textValue (jget values ''application_type'')) ''web_app''),
      (''ownerTeam'', textValue (jget values ''owner_team'')),
      (''primaryLanguage'', textValue (jget values ''primary_language'')),
      (''framework'', textValue (jget values ''framework'')),
      (''applicationResourceId'', textValue (jget values ''application_resource_id'')),
      (''deploymentType'', or_default (textValue (jget values ''deployment_type'')) ''server''),
      (''runtime'', textValue (jget values ''runtime'')),
      (''runtimeVersion'', textValue (jget values ''runtime_version'')),
      (''releaseVersion'', textValue (jget values ''release_version'')),
      (''branchOrRef'', textValue (jget values ''branch_or_ref'')),
      (''automaticDeployments'', booleanValue ''true'' ''false'' (jget values ''automatic_deployments'')),
      (''webUrl'', textValue (jget values ''web_url'')),
      (''cloneUrl'', textValue (jget values ''clone_url'')),
      (''providerRepositoryId'', textValue (jget values ''provider_repository_id'')),
      (''ownerName'', textValue (jget values ''owner_name'')),
      (''repositoryName'', textValue (jget values ''repository_name'')),
      (''defaultBranch'', textValue (jget values ''default_branch'')),
      (''visibility'', or_default (textValue (jget values ''visibility'')) ''private'')]"

definition data_put :: "json \<Rightarrow> infra_form \<Rightarrow> infra_form" where
  "data_put values s =
     set_texts (data_fields values) (s\<lparr>fi_flag := (fi_flag s)(''isFork'' := jget values ''is_fork'' = Some (JBool True))\<rparr>)"

definition data_load :: "admin_world \<Rightarrow> (nat \<Rightarrow> bool) \<Rightarrow> string list \<Rightarrow> int option \<Rightarrow> (infra_form, unit) act" where
  "data_load w active allowedTypes edited =
     typed_load w active (aw_api w @ ''/api/admin/infrastructure/data-application-options'') allowedTypes edited data_put
       ''Unable to load infrastructure resource options.''"

section \<open>Editing\<close>

definition data_effect :: "bool \<Rightarrow> infra_form \<Rightarrow> infra_form" where
  "data_effect isEditing s =
     (let t = s\<lparr>fi_clientId := (if fi_ownership s = ''internal'' then [] else fi_clientId s)\<rparr>
      in if isEditing then t
         else set_texts [(''serverResourceId'', []), (''providerAccountId'', []), (''instanceResourceId'', []),
                (''applicationResourceId'', [])] t)"

definition data_ownership :: "string \<Rightarrow> infra_form \<Rightarrow> infra_form" where
  "data_ownership value s = data_effect False (s\<lparr>fi_ownership := value\<rparr>)"

definition data_client :: "string \<Rightarrow> infra_form \<Rightarrow> infra_form" where
  "data_client value s = data_effect False (s\<lparr>fi_clientId := value\<rparr>)"

definition data_hosting :: "string \<Rightarrow> infra_form \<Rightarrow> infra_form" where
  "data_hosting value s =
     (let t = set_text ''hostingType'' value s in if value = ''managed'' then set_text ''serverResourceId'' [] t else t)"

section \<open>Saving\<close>

definition instance_payload :: "(string \<Rightarrow> string) \<Rightarrow> payload" where
  "instance_payload fv =
     [(''engine'', V_text (fv ''engine'')),
      (''engine_version'', trimmed (fv ''engineVersion'')),
      (''hosting_type'', V_text (fv ''hostingType'')),
      (''server_resource_id'', if fv ''hostingType'' = ''managed'' then V_null else numberOrNull (fv ''serverResourceId'')),
      (''provider_account_resource_id'', numberOrNull (fv ''providerAccountId'')),
      (''provider_resource_id'', trimmed (fv ''providerResourceId'')),
      (''endpoint'', trimmed (fv ''endpoint'')),
      (''port'', numberOrNull (fv ''port'')),
      (''region'', trimmed (fv ''region'')),
      (''zone'', trimmed (fv ''zone'')),
      (''tls_mode'', V_text (fv ''tlsMode'')),
      (''high_availability'', booleanPayload ''true'' ''false'' (fv ''highAvailability'')),
      (''replica_count'', numberOrNull (fv ''replicaCount'')),
      (''backup_enabled'', booleanPayload ''true'' ''false'' (fv ''backupEnabled'')),
      (''maintenance_window'', trimmed (fv ''maintenanceWindow''))]"

definition database_payload :: "(string \<Rightarrow> string) \<Rightarrow> payload" where
  "database_payload fv =
     [(''instance_resource_id'', required_number (fv ''instanceResourceId'')),
      (''database_name'', trimmed (fv ''databaseName'')),
      (''purpose'', trimmed (fv ''purpose'')),
      (''default_schema'', trimmed (fv ''defaultSchema'')),
      (''charset'', trimmed (fv ''charset'')),
      (''collation'', trimmed (fv ''collation''))]"

definition app_payload :: "(string \<Rightarrow> string) \<Rightarrow> payload" where
  "app_payload fv =
     [(''application_type'', V_text (fv ''applicationType'')),
      (''owner_team'', trimmed (fv ''ownerTeam'')),
      (''primary_language'', trimmed (fv ''primaryLanguage'')),
      (''framework'', trimmed (fv ''framework''))]"

definition app_environment_payload :: "(string \<Rightarrow> string) \<Rightarrow> payload" where
  "app_environment_payload fv =
     [(''application_resource_id'', required_number (fv ''applicationResourceId'')),
      (''deployment_type'', V_text (fv ''deploymentType'')),
      (''server_resource_id'', numberOrNull (fv ''serverResourceId'')),
      (''provider_account_resource_id'', numberOrNull (fv ''providerAccountId'')),
      (''provider_resource_id'', trimmed (fv ''providerResourceId'')),
      (''runtime'', trimmed (fv ''runtime'')),
      (''runtime_version'', trimmed (fv ''runtimeVersion'')),
      (''release_version'', trimmed (fv ''releaseVersion'')),
      (''region'', trimmed (fv ''region'')),
      (''branch_or_ref'', trimmed (fv ''branchOrRef'')),
      (''automatic_deployments'', booleanPayload ''true'' ''false'' (fv ''automaticDeployments''))]"

definition repository_payload :: "(string \<Rightarrow> string) \<Rightarrow> (string \<Rightarrow> bool) \<Rightarrow> payload" where
  "repository_payload fv fl =
     [(''provider_account_resource_id'', numberOrNull (fv ''providerAccountId'')),
      (''web_url'', trimmed (fv ''webUrl'')),
      (''clone_url'', trimmed (fv ''cloneUrl'')),
      (''provider_repository_id'', trimmed (fv ''providerRepositoryId'')),
      (''owner_name'', trimmed (fv ''ownerName'')),
      (''repository_name'', trimmed (fv ''repositoryName'')),
      (''default_branch'', trimmed (fv ''defaultBranch'')),
      (''visibility'', V_text (fv ''visibility'')),
      (''is_fork'', V_bool (fl ''isFork''))]"

definition data_payload :: "infra_form \<Rightarrow> payload" where
  "data_payload s =
     (if fi_type s = ''database_instance'' then instance_payload (fi_text s)
      else if fi_type s = ''logical_database'' then database_payload (fi_text s)
      else if fi_type s = ''application'' then app_payload (fi_text s)
      else if fi_type s = ''application_environment'' then app_environment_payload (fi_text s)
      else repository_payload (fi_text s) (fi_flag s))"

definition data_body :: "int option \<Rightarrow> infra_form \<Rightarrow> payload" where
  "data_body edited s =
     common_payload (fi_text s) @ (if edited = None then owner_payload s else []) @ data_payload s"

definition data_checks :: "int option \<Rightarrow> infra_form \<Rightarrow> (bool \<times> string) list" where
  "data_checks edited s =
     [(trim (fi_text s ''name'') = [], ''Enter a resource name.''),
      (edited = None \<and> fi_ownership s = ''client'' \<and> fi_clientId s = [], ''Choose the Client that owns this resource.''),
      (fi_type s = ''logical_database'' \<and> (fi_text s ''instanceResourceId'' = [] \<or> trim (fi_text s ''databaseName'') = []),
        ''Choose a Database Instance and enter the logical database name.''),
      (fi_type s = ''application_environment'' \<and> fi_text s ''applicationResourceId'' = [],
        ''Choose the Application this environment belongs to.''),
      (fi_type s = ''source_repository'' \<and> trim (fi_text s ''repositoryName'') = [], ''Enter the repository name.'')]"

definition data_endpoint :: "string \<Rightarrow> string" where
  "data_endpoint t =
     (case map_of [(''database_instance'', ''database-instances''), (''logical_database'', ''logical-databases''),
        (''application'', ''applications''), (''application_environment'', ''application-environments''),
        (''source_repository'', ''source-repositories'')] t of Some path \<Rightarrow> path | None \<Rightarrow> ''undefined'')"

definition data_submit :: "admin_world \<Rightarrow> int option \<Rightarrow> (infra_form, unit) act" where
  "data_submit w edited =
     checked_save (data_checks edited)
       (\<lambda>s. save_resource w edited (aw_api w @ ''/api/admin/infrastructure/'' @ data_endpoint (fi_type s))
              (\<lambda>s. Inr (data_body edited s)) (saving_fallback edited) s)"

interpretation data_saving: submit_handler "data_submit w edited" fi_saving
  unfolding data_submit_def by (rule checked_save_handler) (rule save_resource_idle)

section \<open>The form as a machine\<close>

datatype data_edit =
    Data_type string | Data_ownership string | Data_client string | Data_hosting string
  | Data_reference string string | Data_text string string | Data_flag string bool

text \<open>The selects of references, and the options each of them offers.\<close>

definition data_collections :: "(string \<times> string) list" where
  "data_collections =
     [(''serverResourceId'', ''servers''), (''providerAccountId'', ''provider_accounts''),
      (''instanceResourceId'', ''database_instances''), (''applicationResourceId'', ''applications'')]"

definition data_edited :: "data_edit \<Rightarrow> infra_form \<Rightarrow> infra_form" where
  "data_edited e s =
     (case e of
        Data_type t \<Rightarrow> s\<lparr>fi_type := t\<rparr>
      | Data_ownership v \<Rightarrow> data_ownership v s
      | Data_client v \<Rightarrow> data_client v s
      | Data_hosting v \<Rightarrow> data_hosting v s
      | Data_reference var v \<Rightarrow> set_text var v s
      | Data_text var v \<Rightarrow> set_text var v s
      | Data_flag var b \<Rightarrow> s\<lparr>fi_flag := (fi_flag s)(var := b)\<rparr>)"

definition data_offered :: "data_context option \<Rightarrow> data_edit \<Rightarrow> infra_form \<Rightarrow> bool" where
  "data_offered ctx e s \<longleftrightarrow> fi_options s \<noteq> None \<and>
     (case e of
        Data_ownership v \<Rightarrow> ctx = None \<and> v \<in> {''internal'', ''client''}
      | Data_client v \<Rightarrow> ctx = None
      | Data_reference var v \<Rightarrow>
          (case map_of data_collections var of None \<Rightarrow> False
           | Some collection \<Rightarrow> v \<in> set (option_values (allowed_options collection s)))
      | Data_text var v \<Rightarrow> map_of data_collections var = None
      | _ \<Rightarrow> True)"

inductive data_step ::
  "admin_world \<Rightarrow> (nat \<Rightarrow> bool) \<Rightarrow> string list \<Rightarrow> data_context option \<Rightarrow> infra_form \<Rightarrow> infra_form \<Rightarrow> bool"
  for w :: admin_world and active :: "nat \<Rightarrow> bool" and allowedTypes :: "string list" and ctx :: "data_context option" where
  data_loads: "fi_options s = None \<Longrightarrow> data_step w active allowedTypes ctx s (fst (data_load w active allowedTypes None s))"
| data_edits: "data_offered ctx e s \<Longrightarrow> data_step w active allowedTypes ctx s (data_edited e s)"
| data_saves: "data_step w active allowedTypes ctx s (fst (data_submit w None s))"

inductive_cases data_stepE: "data_step w active allowedTypes ctx s t"

text \<open>What is chosen is an option, of the owner chosen at that moment.\<close>

definition data_inv :: "infra_form \<Rightarrow> bool" where
  "data_inv s \<longleftrightarrow>
     list_all (\<lambda>(var, collection). fi_text s var \<in> set (option_values (allowed_options collection s))) data_collections \<and>
     (fi_options s = None \<longrightarrow> list_all (\<lambda>(var, collection). fi_text s var = []) data_collections)"

lemma data_init_inv: "data_inv (data_effect False (data_init allowedTypes ctx))"
  by (simp add: data_inv_def data_effect_def data_init_def data_collections_def text_of_map option_values_def Let_def)

lemma data_effect_inv: "data_inv (data_effect False s)"
  by (simp add: data_inv_def data_effect_def data_collections_def text_of_map option_values_def Let_def)

lemma data_frame:
  "fi_text t = fi_text s \<Longrightarrow> fi_options t = fi_options s \<Longrightarrow> fi_ownership t = fi_ownership s \<Longrightarrow> fi_clientId t = fi_clientId s \<Longrightarrow>
   data_inv s \<Longrightarrow> data_inv t"
  by (simp add: data_inv_def allowed_options_def)

lemma data_load_inv:
  assumes "data_inv s" "fi_options s = None"
  shows "data_inv (fst (data_load w active allowedTypes None s))"
proof -
  let ?P = "\<lambda>s. list_all (\<lambda>(var, collection). fi_text s var = []) data_collections"
  have "?P (fst (data_load w active allowedTypes None s))"
    unfolding data_load_def by (rule typed_load_same) (use assms in \<open>simp_all add: data_inv_def\<close>)
  then show ?thesis by (simp add: data_inv_def data_collections_def option_values_def)
qed

lemma allowed_set_text [simp]: "allowed_options collection (set_text var v s) = allowed_options collection s"
  by (simp add: allowed_options_def set_text_def)

lemma data_set_inv:
  assumes "data_inv s"
    and "\<And>collection. map_of data_collections var = Some collection \<Longrightarrow>
      v \<in> set (option_values (allowed_options collection s)) \<and> (fi_options s = None \<longrightarrow> v = [])"
  shows "data_inv (set_text var v s)"
proof -
  have d: "distinct (map fst data_collections)" by (simp add: data_collections_def)
  have chosen: "fi_text (set_text var v s) x \<in> set (option_values (allowed_options collection s)) \<and>
      (fi_options s = None \<longrightarrow> fi_text (set_text var v s) x = [])" if "(x, collection) \<in> set data_collections" for x collection
  proof (cases "x = var")
    case True
    then show ?thesis using assms(2) [of collection] that d by (simp add: set_text_def)
  next
    case False
    then show ?thesis using assms(1) that by (auto simp: set_text_def data_inv_def list_all_iff)
  qed
  have o: "fi_options (set_text var v s) = fi_options s" by (simp add: set_text_def)
  show ?thesis using chosen unfolding data_inv_def list_all_iff o allowed_set_text by blast
qed

lemma no_reference: "[] \<in> set (option_values options)"
  by (simp add: option_values_def)

lemma data_edit_inv:
  assumes "data_inv s" "data_offered ctx e s"
  shows "data_inv (data_edited e s)"
proof (cases e)
  case (Data_type t)
  with assms show ?thesis by (intro data_frame [OF _ _ _ _ assms(1)]) (simp_all add: data_edited_def)
next
  case (Data_ownership v)
  then show ?thesis by (simp add: data_edited_def data_ownership_def data_effect_inv)
next
  case (Data_client v)
  then show ?thesis by (simp add: data_edited_def data_client_def data_effect_inv)
next
  case (Data_hosting v)
  have h: "data_inv (set_text ''hostingType'' v s)"
    by (rule data_set_inv [OF assms(1)]) (simp add: data_collections_def)
  then have "data_inv (set_text ''serverResourceId'' [] (set_text ''hostingType'' v s))"
    by (rule data_set_inv) (simp add: no_reference)
  with h Data_hosting show ?thesis by (auto simp: data_edited_def data_hosting_def Let_def)
next
  case (Data_reference var v)
  with assms show ?thesis
    by (auto simp: data_edited_def data_offered_def intro!: data_set_inv split: option.splits)
next
  case (Data_text var v)
  with assms show ?thesis by (auto simp: data_edited_def data_offered_def intro!: data_set_inv)
next
  case (Data_flag var b)
  with assms show ?thesis by (intro data_frame [OF _ _ _ _ assms(1)]) (simp_all add: data_edited_def)
qed

lemma data_save_inv: "data_inv s \<Longrightarrow> data_inv (fst (data_submit w edited s))"
proof -
  have "same_form s (fst (data_submit w edited s))"
    unfolding data_submit_def by (rule checked_save_same) (rule save_resource_same)
  then show "data_inv s \<Longrightarrow> ?thesis" by (simp add: same_form_def data_inv_def allowed_options_def)
qed

interpretation data_form: safe_machine "\<lambda>s. s = data_effect False (data_init allowedTypes ctx)"
    "data_step w active allowedTypes ctx" data_inv
  by unfold_locales (auto simp: data_init_inv elim!: data_stepE intro: data_load_inv data_edit_inv data_save_inv)

section \<open>A resource that is saved untouched\<close>

lemma data_distinct: "distinct (map fst (data_fields values))"
  by (simp add: data_fields_def list_eq char_eq del: list.inject char.inject)

lemma data_member:
  "(''engine'', or_default (textValue (jget values ''engine'')) ''postgresql'') \<in> set (data_fields values)"
  "(''engineVersion'', textValue (jget values ''engine_version'')) \<in> set (data_fields values)"
  "(''hostingType'', or_default (textValue (jget values ''hosting_type'')) ''managed'') \<in> set (data_fields values)"
  "(''serverResourceId'', textValue (jget values ''server_resource_id'')) \<in> set (data_fields values)"
  "(''providerAccountId'', textValue (jget values ''provider_account_resource_id'')) \<in> set (data_fields values)"
  "(''providerResourceId'', textValue (jget values ''provider_resource_id'')) \<in> set (data_fields values)"
  "(''endpoint'', textValue (jget values ''endpoint'')) \<in> set (data_fields values)"
  "(''port'', textValue (jget values ''port'')) \<in> set (data_fields values)"
  "(''region'', textValue (jget values ''region'')) \<in> set (data_fields values)"
  "(''zone'', textValue (jget values ''zone'')) \<in> set (data_fields values)"
  "(''tlsMode'', or_default (textValue (jget values ''tls_mode'')) ''unknown'') \<in> set (data_fields values)"
  "(''highAvailability'', booleanValue ''true'' ''false'' (jget values ''high_availability'')) \<in> set (data_fields values)"
  "(''replicaCount'', textValue (jget values ''replica_count'')) \<in> set (data_fields values)"
  "(''backupEnabled'', booleanValue ''true'' ''false'' (jget values ''backup_enabled'')) \<in> set (data_fields values)"
  "(''maintenanceWindow'', textValue (jget values ''maintenance_window'')) \<in> set (data_fields values)"
  "(''instanceResourceId'', textValue (jget values ''instance_resource_id'')) \<in> set (data_fields values)"
  "(''databaseName'', textValue (jget values ''database_name'')) \<in> set (data_fields values)"
  "(''purpose'', textValue (jget values ''purpose'')) \<in> set (data_fields values)"
  "(''defaultSchema'', textValue (jget values ''default_schema'')) \<in> set (data_fields values)"
  "(''charset'', textValue (jget values ''charset'')) \<in> set (data_fields values)"
  "(''collation'', textValue (jget values ''collation'')) \<in> set (data_fields values)"
  "(''applicationType'', or_default (textValue (jget values ''application_type'')) ''web_app'') \<in> set (data_fields values)"
  "(''ownerTeam'', textValue (jget values ''owner_team'')) \<in> set (data_fields values)"
  "(''primaryLanguage'', textValue (jget values ''primary_language'')) \<in> set (data_fields values)"
  "(''framework'', textValue (jget values ''framework'')) \<in> set (data_fields values)"
  "(''applicationResourceId'', textValue (jget values ''application_resource_id'')) \<in> set (data_fields values)"
  "(''deploymentType'', or_default (textValue (jget values ''deployment_type'')) ''server'') \<in> set (data_fields values)"
  "(''runtime'', textValue (jget values ''runtime'')) \<in> set (data_fields values)"
  "(''runtimeVersion'', textValue (jget values ''runtime_version'')) \<in> set (data_fields values)"
  "(''releaseVersion'', textValue (jget values ''release_version'')) \<in> set (data_fields values)"
  "(''branchOrRef'', textValue (jget values ''branch_or_ref'')) \<in> set (data_fields values)"
  "(''automaticDeployments'', booleanValue ''true'' ''false'' (jget values ''automatic_deployments'')) \<in> set (data_fields values)"
  "(''webUrl'', textValue (jget values ''web_url'')) \<in> set (data_fields values)"
  "(''cloneUrl'', textValue (jget values ''clone_url'')) \<in> set (data_fields values)"
  "(''providerRepositoryId'', textValue (jget values ''provider_repository_id'')) \<in> set (data_fields values)"
  "(''ownerName'', textValue (jget values ''owner_name'')) \<in> set (data_fields values)"
  "(''repositoryName'', textValue (jget values ''repository_name'')) \<in> set (data_fields values)"
  "(''defaultBranch'', textValue (jget values ''default_branch'')) \<in> set (data_fields values)"
  "(''visibility'', or_default (textValue (jget values ''visibility'')) ''private'') \<in> set (data_fields values)"
  unfolding data_fields_def by (intro list.set_intros)+

lemmas data_lookup = data_member [THEN map_of_is_SomeI [OF data_distinct]]

lemmas data_opened =
  opened data_put_def take_details_def data_payload_def same_values_def proper_values_def text_of_map data_lookup

definition instance_schema :: "(string \<times> (json option \<Rightarrow> bool)) list" where
  "instance_schema =
     map (\<lambda>k. (k, proper_choice)) [''engine'', ''hosting_type'', ''tls_mode''] @
     map (\<lambda>k. (k, proper_text)) [''engine_version'', ''provider_resource_id'', ''endpoint'',
       ''region'', ''zone'', ''maintenance_window''] @
     map (\<lambda>k. (k, proper_number)) [''server_resource_id'', ''provider_account_resource_id'', ''port'', ''replica_count''] @
     map (\<lambda>k. (k, proper_boolean)) [''high_availability'', ''backup_enabled'']"

definition database_schema :: "(string \<times> (json option \<Rightarrow> bool)) list" where
  "database_schema =
     map (\<lambda>k. (k, proper_reference)) [''instance_resource_id''] @
     map (\<lambda>k. (k, proper_text)) [''database_name'', ''purpose'', ''default_schema'', ''charset'',
       ''collation'']"

definition app_schema :: "(string \<times> (json option \<Rightarrow> bool)) list" where
  "app_schema =
     map (\<lambda>k. (k, proper_choice)) [''application_type''] @
     map (\<lambda>k. (k, proper_text)) [''owner_team'', ''primary_language'', ''framework'']"

definition app_environment_schema :: "(string \<times> (json option \<Rightarrow> bool)) list" where
  "app_environment_schema =
     map (\<lambda>k. (k, proper_reference)) [''application_resource_id''] @
     map (\<lambda>k. (k, proper_choice)) [''deployment_type''] @
     map (\<lambda>k. (k, proper_number)) [''server_resource_id'', ''provider_account_resource_id''] @
     map (\<lambda>k. (k, proper_text)) [''provider_resource_id'', ''runtime'', ''runtime_version'',
       ''release_version'', ''region'', ''branch_or_ref''] @
     map (\<lambda>k. (k, proper_boolean)) [''automatic_deployments'']"

definition repository_schema :: "(string \<times> (json option \<Rightarrow> bool)) list" where
  "repository_schema =
     map (\<lambda>k. (k, proper_number)) [''provider_account_resource_id''] @
     map (\<lambda>k. (k, proper_text)) [''web_url'', ''clone_url'', ''provider_repository_id'',
       ''owner_name'', ''repository_name'', ''default_branch''] @
     map (\<lambda>k. (k, proper_choice)) [''visibility''] @
     map (\<lambda>k. (k, proper_flag)) [''is_fork'']"

lemma opened_instance:
  assumes "jstr detail ''resource_type'' = Some ''database_instance''" "proper_values instance_schema (members detail)"
    "jget (members detail) ''hosting_type'' = Some (JStr ''managed'') \<Longrightarrow> jget (members detail) ''server_resource_id'' = Some JNull"
  shows "same_values (data_payload (fst (open_resource (take_details non_null_client) data_put detail s))) (members detail)"
proof -
  have "members detail \<noteq> JNull"
    by (rule proper_members [OF assms(2), of "''engine_version''" proper_text]) (simp_all add: instance_schema_def proper_text_def)
  then show ?thesis
    using assms by (simp add: data_opened instance_schema_def instance_payload_def input_kept' choice_text del: stored.simps(1-3))
qed

lemma opened_database:
  assumes "jstr detail ''resource_type'' = Some ''logical_database''" "proper_values database_schema (members detail)"
  shows "same_values (data_payload (fst (open_resource (take_details non_null_client) data_put detail s))) (members detail)"
proof -
  have "members detail \<noteq> JNull"
    by (rule proper_members [OF assms(2), of "''purpose''" proper_text]) (simp_all add: database_schema_def proper_text_def)
  then show ?thesis
    using assms by (simp add: data_opened database_schema_def database_payload_def input_kept' flag_stored del: stored.simps)
qed

lemma opened_app:
  assumes "jstr detail ''resource_type'' = Some ''application''" "proper_values app_schema (members detail)"
  shows "same_values (data_payload (fst (open_resource (take_details non_null_client) data_put detail s))) (members detail)"
proof -
  have "members detail \<noteq> JNull"
    by (rule proper_members [OF assms(2), of "''owner_team''" proper_text]) (simp_all add: app_schema_def proper_text_def)
  then show ?thesis
    using assms by (simp add: data_opened app_schema_def app_payload_def input_kept' flag_stored del: stored.simps)
qed

lemma opened_app_environment:
  assumes "jstr detail ''resource_type'' = Some ''application_environment''" "proper_values app_environment_schema (members detail)"
  shows "same_values (data_payload (fst (open_resource (take_details non_null_client) data_put detail s))) (members detail)"
proof -
  have "members detail \<noteq> JNull"
    by (rule proper_members [OF assms(2), of "''runtime''" proper_text]) (simp_all add: app_environment_schema_def proper_text_def)
  then show ?thesis
    using assms by (simp add: data_opened app_environment_schema_def app_environment_payload_def input_kept' flag_stored del: stored.simps)
qed

lemma opened_repository:
  assumes "jstr detail ''resource_type'' = Some ''source_repository''" "proper_values repository_schema (members detail)"
  shows "same_values (data_payload (fst (open_resource (take_details non_null_client) data_put detail s))) (members detail)"
proof -
  have "members detail \<noteq> JNull"
    by (rule proper_members [OF assms(2), of "''web_url''" proper_text]) (simp_all add: repository_schema_def proper_text_def)
  then show ?thesis
    using assms by (simp add: data_opened repository_schema_def repository_payload_def input_kept' flag_stored del: stored.simps)
qed

definition data_schema :: "string \<Rightarrow> (string \<times> (json option \<Rightarrow> bool)) list" where
  "data_schema t =
     (if t = ''database_instance'' then instance_schema else if t = ''logical_database'' then database_schema
      else if t = ''application'' then app_schema else if t = ''application_environment'' then app_environment_schema
      else repository_schema)"

text \<open>
  Editing a database instance, a logical database, an application, one of its environments
  or a repository and saving without a change sends what is stored, given that a managed database
  instance has no server: every member of the request that belongs to the type is the stored value.
\<close>

theorem untouched_data_resource_is_kept:
  assumes "jstr detail ''resource_type'' = Some t"
    and "t \<in> {''database_instance'', ''logical_database'', ''application'', ''application_environment'', ''source_repository''}"
    and "proper_values (data_schema t) (members detail)"
    and "t = ''database_instance'' \<Longrightarrow> jget (members detail) ''hosting_type'' = Some (JStr ''managed'') \<Longrightarrow>
      jget (members detail) ''server_resource_id'' = Some JNull"
  shows "same_values (data_payload (fst (open_resource (take_details non_null_client) data_put detail s))) (members detail)"
proof -
  have "t = ''database_instance'' \<or> t = ''logical_database'' \<or> t = ''application'' \<or> t = ''application_environment'' \<or>
    t = ''source_repository''"
    using assms(2) by (simp only: insert_iff empty_iff simp_thms)
  then show ?thesis
  proof (elim disjE)
    assume t: "t = ''database_instance''"
    show ?thesis by (rule opened_instance) (use assms(1,3,4) t in \<open>simp_all add: data_schema_def\<close>)
  next
    assume t: "t = ''logical_database''"
    show ?thesis by (rule opened_database) (use assms(1,3) t in \<open>simp_all add: data_schema_def\<close>)
  next
    assume t: "t = ''application''"
    show ?thesis by (rule opened_app) (use assms(1,3) t in \<open>simp_all add: data_schema_def\<close>)
  next
    assume t: "t = ''application_environment''"
    show ?thesis by (rule opened_app_environment) (use assms(1,3) t in \<open>simp_all add: data_schema_def\<close>)
  next
    assume t: "t = ''source_repository''"
    show ?thesis by (rule opened_repository) (use assms(1,3) t in \<open>simp_all add: data_schema_def\<close>)
  qed
qed

definition demo_application :: json where
  "demo_application = JObj [(''resource_type'', JStr ''application''), (''values'', JObj
     [(''application_type'', JStr ''web_app''), (''owner_team'', JStr ''platform''), (''primary_language'', JStr ''TypeScript''),
      (''framework'', JStr [])])]"

theorem untouched_data_resource_is_kept_witness:
  "same_values (data_payload (fst (open_resource (take_details non_null_client) data_put demo_application
     (data_init [''application''] None)))) (members demo_application)"
  by (rule untouched_data_resource_is_kept [of _ "''application''"])
    (simp_all add: demo_application_def jstr_def members_def nullish_def data_schema_def app_schema_def proper_values_def
      proper_text_def proper_choice_def trim_def trim_start_def js_space_def)

section \<open>What a saved resource may refer to\<close>


definition demo_data_options :: json where
  "demo_data_options = JObj [(''clients'', JArr []), (''servers'', JArr
     [JObj [(''resource_id'', JNum 3), (''ownership_type'', JStr ''client''), (''client_id'', JNum 9)]]),
     (''provider_accounts'', JArr []), (''database_instances'', JArr []), (''applications'', JArr [])]"

definition demo_data_world :: admin_world where
  "demo_data_world = \<lparr>aw_server = (\<lambda>h r. Inr \<lparr>status = 200, json_body = Inr demo_data_options, resp_headers = []\<rparr>),
     aw_document = None, aw_api = ''https://api.example''\<rparr>"

definition demo_data_start :: infra_form where
  "demo_data_start = data_effect False (data_init [''database_instance''] None)"

definition demo_data_loaded :: infra_form where
  "demo_data_loaded = fst (data_load demo_data_world (\<lambda>n. True) [''database_instance''] None demo_data_start)"

definition demo_data_owned :: infra_form where
  "demo_data_owned = data_edited (Data_client ''9'') (data_edited (Data_ownership ''client'') demo_data_loaded)"

definition demo_data_server :: infra_form where
  "demo_data_server = data_edited (Data_reference ''serverResourceId'' ''3'') (data_edited (Data_hosting ''self_hosted'') demo_data_owned)"

lemma demo_data_offers:
  "data_offered None (Data_ownership ''client'') demo_data_loaded"
  "data_offered None (Data_client ''9'') (data_edited (Data_ownership ''client'') demo_data_loaded)"
  "data_offered None (Data_hosting ''self_hosted'') demo_data_owned"
  "data_offered None (Data_reference ''serverResourceId'' ''3'') (data_edited (Data_hosting ''self_hosted'') demo_data_owned)"
  by code_simp+

lemma demo_data_reachable:
  "reachable (\<lambda>s. s = data_effect False (data_init [''database_instance''] None))
     (data_step demo_data_world (\<lambda>n. True) [''database_instance''] None) demo_data_server"
proof -
  let ?r = "reachable (\<lambda>s. s = data_effect False (data_init [''database_instance''] None))
    (data_step demo_data_world (\<lambda>n. True) [''database_instance''] None)"
  have "?r demo_data_start" by (rule reach_init) (simp add: demo_data_start_def)
  moreover have "fi_options demo_data_start = None" by code_simp
  ultimately have "?r demo_data_loaded" unfolding demo_data_loaded_def by (blast intro: reach_step data_loads)
  then have "?r demo_data_owned"
    unfolding demo_data_owned_def by (blast intro: reach_step data_edits demo_data_offers)
  then show ?thesis
    unfolding demo_data_server_def by (blast intro: reach_step data_edits demo_data_offers)
qed


end
