(* ===== verification/Infra_Web.thy ===== *)
theory Infra_Web
  imports Infra_Form
begin

text \<open>
  \<^verbatim>\<open>WebDomainInfrastructureForm.tsx\<close>: creating and editing websites and their
  endpoints, domains, DNS zones and TLS certificates. The effect that follows a change of the owner
  runs before the next event, so it is part of the change.
\<close>

definition web_init :: "string list \<Rightarrow> infra_form" where
  "web_init allowedTypes =
     set_texts [(''lifecycle'', ''active''), (''environment'', ''not_applicable''), (''criticality'', ''normal''),
       (''websiteType'', ''web_app''), (''role'', ''primary''), (''domainStatus'', ''unknown''), (''certificateType'', ''managed'')]
     \<lparr>stored_token = None, sent = [], fi_options = None, fi_clients = None, fi_loading = True, fi_saving = False, fi_error = None,
      fi_type = (case allowedTypes of [] \<Rightarrow> ''website'' | t # _ \<Rightarrow> t), fi_ownership = ''internal'', fi_clientId = [],
      fi_clientName = None, fi_text = (\<lambda>v. []), fi_flag = (\<lambda>v. v = ''zonePrimary''), fi_sources = [], fi_created = [],
      fi_saved = 0\<rparr>"

section \<open>Loading\<close>

definition web_fields :: "json \<Rightarrow> (string \<times> string) list" where
  "web_fields values =
     [(''websiteType'', or_default (textValue (jget values ''website_type'')) ''web_app''),
      (''adminUrl'', textValue (jget values ''admin_url'')),
      (''cms'', textValue (jget values ''cms'')),
      (''cmsVersion'', textValue (jget values ''cms_version'')),
      (''hostingProviderId'', textValue (jget values ''hosting_provider_account_resource_id'')),
      (''cdnProviderId'', textValue (jget values ''cdn_provider_account_resource_id'')),
      (''wafProviderId'', textValue (jget values ''waf_provider_account_resource_id'')),
      (''websiteResourceId'', textValue (jget values ''website_resource_id'')),
      (''applicationEnvironmentId'', textValue (jget values ''application_environment_resource_id'')),
      (''domainResourceId'', textValue (jget values ''domain_resource_id'')),
      (''tlsCertificateId'', textValue (jget values ''tls_certificate_resource_id'')),
      (''url'', textValue (jget values ''url'')),
      (''role'', or_default (textValue (jget values ''role'')) ''primary''),
      (''redirectsTo'', textValue (jget values ''redirects_to'')),
      (''domainName'', textValue (jget values ''domain_name'')),
      (''registrarAccountId'', textValue (jget values ''registrar_account_resource_id'')),
      (''providerDomainId'', textValue (jget values ''provider_domain_id'')),
      (''domainStatus'', or_default (textValue (jget values ''status'')) ''unknown''),
      (''registeredOn'', textValue (jget values ''registered_on'')),
      (''expiresOn'', textValue (jget values ''expires_on'')),
      (''autoRenew'', booleanValue ''true'' ''false'' (jget values ''auto_renew'')),
      (''transferLock'', booleanValue ''true'' ''false'' (jget values ''transfer_lock_enabled'')),
      (''privacyEnabled'', booleanValue ''true'' ''false'' (jget values ''privacy_enabled'')),
      (''dnsProviderId'', textValue (jget values ''provider_account_resource_id'')),
      (''zoneName'', textValue (jget values ''zone_name'')),
      (''providerZoneId'', textValue (jget values ''provider_zone_id'')),
      (''dnssecEnabled'', booleanValue ''true'' ''false'' (jget values ''dnssec_enabled'')),
      (''tlsProviderId'', textValue (jget values ''provider_account_resource_id'')),
      (''certificateType'', or_default (textValue (jget values ''certificate_type'')) ''managed''),
      (''issuer'', textValue (jget values ''issuer'')),
      (''subjectCommonName'', textValue (jget values ''subject_common_name'')),
      (''providerCertificateId'', textValue (jget values ''provider_certificate_id'')),
      (''serialNumber'', textValue (jget values ''serial_number'')),
      (''fingerprintSha256'', textValue (jget values ''fingerprint_sha256'')),
      (''issuedAt'', textValue (jget values ''issued_at'')),
      (''tlsExpiresAt'', textValue (jget values ''expires_at'')),
      (''tlsAutoRenew'', booleanValue ''true'' ''false'' (jget values ''auto_renew''))]"

definition web_put :: "json \<Rightarrow> infra_form \<Rightarrow> infra_form" where
  "web_put values s =
     set_texts (web_fields values)
       (s\<lparr>fi_flag := (fi_flag s)(''isPrimary'' := jget values ''is_primary'' = Some (JBool True),
            ''zonePrimary'' := jget values ''is_primary'' \<noteq> Some (JBool False))\<rparr>)"

definition web_load :: "admin_world \<Rightarrow> (nat \<Rightarrow> bool) \<Rightarrow> string list \<Rightarrow> int option \<Rightarrow> (infra_form, unit) act" where
  "web_load w active allowedTypes edited =
     typed_load w active (aw_api w @ ''/api/admin/infrastructure/web-domain-options'') allowedTypes edited web_put
       ''Unable to load web and domain infrastructure options.''"

section \<open>Editing\<close>

definition web_ownership :: "string \<Rightarrow> infra_form \<Rightarrow> infra_form" where
  "web_ownership value s =
     s\<lparr>fi_ownership := value, fi_clientId := (if value = ''internal'' then [] else fi_clientId s)\<rparr>"

definition web_client :: "string \<Rightarrow> infra_form \<Rightarrow> infra_form" where
  "web_client value s = s\<lparr>fi_clientId := value\<rparr>"

section \<open>Saving\<close>

definition website_payload :: "(string \<Rightarrow> string) \<Rightarrow> payload" where
  "website_payload fv =
     [(''website_type'', V_text (fv ''websiteType'')),
      (''admin_url'', trimmed (fv ''adminUrl'')),
      (''cms'', trimmed (fv ''cms'')),
      (''cms_version'', trimmed (fv ''cmsVersion'')),
      (''hosting_provider_account_resource_id'', numberOrNull (fv ''hostingProviderId'')),
      (''cdn_provider_account_resource_id'', numberOrNull (fv ''cdnProviderId'')),
      (''waf_provider_account_resource_id'', numberOrNull (fv ''wafProviderId''))]"

definition web_endpoint_payload :: "(string \<Rightarrow> string) \<Rightarrow> (string \<Rightarrow> bool) \<Rightarrow> payload" where
  "web_endpoint_payload fv fl =
     [(''website_resource_id'', required_number (fv ''websiteResourceId'')),
      (''application_environment_resource_id'', numberOrNull (fv ''applicationEnvironmentId'')),
      (''domain_resource_id'', numberOrNull (fv ''domainResourceId'')),
      (''tls_certificate_resource_id'', numberOrNull (fv ''tlsCertificateId'')),
      (''url'', trimmed (fv ''url'')),
      (''role'', V_text (fv ''role'')),
      (''is_primary'', V_bool (fl ''isPrimary'')),
      (''redirects_to'', trimmed (fv ''redirectsTo''))]"

definition domain_payload :: "(string \<Rightarrow> string) \<Rightarrow> payload" where
  "domain_payload fv =
     [(''domain_name'', trimmed (fv ''domainName'')),
      (''registrar_account_resource_id'', numberOrNull (fv ''registrarAccountId'')),
      (''provider_domain_id'', trimmed (fv ''providerDomainId'')),
      (''status'', V_text (fv ''domainStatus'')),
      (''registered_on'', textOrNull (fv ''registeredOn'')),
      (''expires_on'', textOrNull (fv ''expiresOn'')),
      (''auto_renew'', booleanPayload ''true'' ''false'' (fv ''autoRenew'')),
      (''transfer_lock_enabled'', booleanPayload ''true'' ''false'' (fv ''transferLock'')),
      (''privacy_enabled'', booleanPayload ''true'' ''false'' (fv ''privacyEnabled''))]"

definition dns_zone_payload :: "(string \<Rightarrow> string) \<Rightarrow> (string \<Rightarrow> bool) \<Rightarrow> payload" where
  "dns_zone_payload fv fl =
     [(''domain_resource_id'', required_number (fv ''domainResourceId'')),
      (''provider_account_resource_id'', numberOrNull (fv ''dnsProviderId'')),
      (''zone_name'', trimmed (fv ''zoneName'')),
      (''provider_zone_id'', trimmed (fv ''providerZoneId'')),
      (''dnssec_enabled'', booleanPayload ''true'' ''false'' (fv ''dnssecEnabled'')),
      (''is_primary'', V_bool (fl ''zonePrimary''))]"

definition certificate_payload :: "(string \<Rightarrow> string) \<Rightarrow> payload" where
  "certificate_payload fv =
     [(''provider_account_resource_id'', numberOrNull (fv ''tlsProviderId'')),
      (''certificate_type'', V_text (fv ''certificateType'')),
      (''issuer'', trimmed (fv ''issuer'')),
      (''subject_common_name'', trimmed (fv ''subjectCommonName'')),
      (''provider_certificate_id'', trimmed (fv ''providerCertificateId'')),
      (''serial_number'', trimmed (fv ''serialNumber'')),
      (''fingerprint_sha256'', trimmed (fv ''fingerprintSha256'')),
      (''issued_at'', textOrNull (fv ''issuedAt'')),
      (''expires_at'', textOrNull (fv ''tlsExpiresAt'')),
      (''auto_renew'', booleanPayload ''true'' ''false'' (fv ''tlsAutoRenew''))]"

definition web_payload :: "infra_form \<Rightarrow> payload" where
  "web_payload s =
     (if fi_type s = ''website'' then website_payload (fi_text s)
      else if fi_type s = ''website_endpoint'' then web_endpoint_payload (fi_text s) (fi_flag s)
      else if fi_type s = ''domain'' then domain_payload (fi_text s)
      else if fi_type s = ''dns_zone'' then dns_zone_payload (fi_text s) (fi_flag s)
      else certificate_payload (fi_text s))"

definition web_body :: "int option \<Rightarrow> infra_form \<Rightarrow> payload" where
  "web_body edited s = common_payload (fi_text s) @ (if edited = None then owner_payload s else []) @ web_payload s"

definition web_checks :: "int option \<Rightarrow> infra_form \<Rightarrow> (bool \<times> string) list" where
  "web_checks edited s =
     [(trim (fi_text s ''name'') = [], ''Enter a resource name.''),
      (edited = None \<and> fi_ownership s = ''client'' \<and> fi_clientId s = [], ''Choose the Client that owns this resource.''),
      (fi_type s = ''website_endpoint'' \<and> (fi_text s ''websiteResourceId'' = [] \<or> trim (fi_text s ''url'') = []),
        ''Choose a Website and enter the endpoint URL.''),
      (fi_type s = ''domain'' \<and> trim (fi_text s ''domainName'') = [], ''Enter the registered domain name.''),
      (fi_type s = ''dns_zone'' \<and> (fi_text s ''domainResourceId'' = [] \<or> trim (fi_text s ''zoneName'') = []),
        ''Choose a Domain and enter the DNS zone name.'')]"

definition web_endpoint_path :: "string \<Rightarrow> string" where
  "web_endpoint_path t =
     (case map_of [(''website'', ''websites''), (''website_endpoint'', ''website-endpoints''), (''domain'', ''domains''),
        (''dns_zone'', ''dns-zones''), (''tls_certificate'', ''tls-certificates'')] t of
        Some path \<Rightarrow> path | None \<Rightarrow> ''undefined'')"

definition web_submit :: "admin_world \<Rightarrow> int option \<Rightarrow> (infra_form, unit) act" where
  "web_submit w edited =
     checked_save (web_checks edited)
       (\<lambda>s. save_resource w edited (aw_api w @ ''/api/admin/infrastructure/'' @ web_endpoint_path (fi_type s))
              (\<lambda>s. Inr (web_body edited s)) ''Unable to save this web or domain resource.'' s)"

interpretation web_saving: submit_handler "web_submit w edited" fi_saving
  unfolding web_submit_def by (rule checked_save_handler) (rule save_resource_idle)

section \<open>A resource that is saved untouched\<close>

lemma web_distinct: "distinct (map fst (web_fields values))"
  by (simp add: web_fields_def list_eq char_eq del: list.inject char.inject)

lemma web_member:
  "(''websiteType'', or_default (textValue (jget values ''website_type'')) ''web_app'') \<in> set (web_fields values)"
  "(''adminUrl'', textValue (jget values ''admin_url'')) \<in> set (web_fields values)"
  "(''cms'', textValue (jget values ''cms'')) \<in> set (web_fields values)"
  "(''cmsVersion'', textValue (jget values ''cms_version'')) \<in> set (web_fields values)"
  "(''hostingProviderId'', textValue (jget values ''hosting_provider_account_resource_id'')) \<in> set (web_fields values)"
  "(''cdnProviderId'', textValue (jget values ''cdn_provider_account_resource_id'')) \<in> set (web_fields values)"
  "(''wafProviderId'', textValue (jget values ''waf_provider_account_resource_id'')) \<in> set (web_fields values)"
  "(''websiteResourceId'', textValue (jget values ''website_resource_id'')) \<in> set (web_fields values)"
  "(''applicationEnvironmentId'', textValue (jget values ''application_environment_resource_id'')) \<in> set (web_fields values)"
  "(''domainResourceId'', textValue (jget values ''domain_resource_id'')) \<in> set (web_fields values)"
  "(''tlsCertificateId'', textValue (jget values ''tls_certificate_resource_id'')) \<in> set (web_fields values)"
  "(''url'', textValue (jget values ''url'')) \<in> set (web_fields values)"
  "(''role'', or_default (textValue (jget values ''role'')) ''primary'') \<in> set (web_fields values)"
  "(''redirectsTo'', textValue (jget values ''redirects_to'')) \<in> set (web_fields values)"
  "(''domainName'', textValue (jget values ''domain_name'')) \<in> set (web_fields values)"
  "(''registrarAccountId'', textValue (jget values ''registrar_account_resource_id'')) \<in> set (web_fields values)"
  "(''providerDomainId'', textValue (jget values ''provider_domain_id'')) \<in> set (web_fields values)"
  "(''domainStatus'', or_default (textValue (jget values ''status'')) ''unknown'') \<in> set (web_fields values)"
  "(''registeredOn'', textValue (jget values ''registered_on'')) \<in> set (web_fields values)"
  "(''expiresOn'', textValue (jget values ''expires_on'')) \<in> set (web_fields values)"
  "(''autoRenew'', booleanValue ''true'' ''false'' (jget values ''auto_renew'')) \<in> set (web_fields values)"
  "(''transferLock'', booleanValue ''true'' ''false'' (jget values ''transfer_lock_enabled'')) \<in> set (web_fields values)"
  "(''privacyEnabled'', booleanValue ''true'' ''false'' (jget values ''privacy_enabled'')) \<in> set (web_fields values)"
  "(''dnsProviderId'', textValue (jget values ''provider_account_resource_id'')) \<in> set (web_fields values)"
  "(''zoneName'', textValue (jget values ''zone_name'')) \<in> set (web_fields values)"
  "(''providerZoneId'', textValue (jget values ''provider_zone_id'')) \<in> set (web_fields values)"
  "(''dnssecEnabled'', booleanValue ''true'' ''false'' (jget values ''dnssec_enabled'')) \<in> set (web_fields values)"
  "(''tlsProviderId'', textValue (jget values ''provider_account_resource_id'')) \<in> set (web_fields values)"
  "(''certificateType'', or_default (textValue (jget values ''certificate_type'')) ''managed'') \<in> set (web_fields values)"
  "(''issuer'', textValue (jget values ''issuer'')) \<in> set (web_fields values)"
  "(''subjectCommonName'', textValue (jget values ''subject_common_name'')) \<in> set (web_fields values)"
  "(''providerCertificateId'', textValue (jget values ''provider_certificate_id'')) \<in> set (web_fields values)"
  "(''serialNumber'', textValue (jget values ''serial_number'')) \<in> set (web_fields values)"
  "(''fingerprintSha256'', textValue (jget values ''fingerprint_sha256'')) \<in> set (web_fields values)"
  "(''issuedAt'', textValue (jget values ''issued_at'')) \<in> set (web_fields values)"
  "(''tlsExpiresAt'', textValue (jget values ''expires_at'')) \<in> set (web_fields values)"
  "(''tlsAutoRenew'', booleanValue ''true'' ''false'' (jget values ''auto_renew'')) \<in> set (web_fields values)"
  unfolding web_fields_def by (intro list.set_intros)+

lemmas web_lookup = web_member [THEN map_of_is_SomeI [OF web_distinct]]

lemmas web_opened =
  opened web_put_def take_details_def web_payload_def same_values_def proper_values_def text_of_map web_lookup

definition website_schema :: "(string \<times> (json option \<Rightarrow> bool)) list" where
  "website_schema =
     map (\<lambda>k. (k, proper_choice)) [''website_type''] @
     map (\<lambda>k. (k, proper_text)) [''admin_url'', ''cms'', ''cms_version''] @
     map (\<lambda>k. (k, proper_number)) [''hosting_provider_account_resource_id'',
       ''cdn_provider_account_resource_id'', ''waf_provider_account_resource_id'']"

definition web_endpoint_schema :: "(string \<times> (json option \<Rightarrow> bool)) list" where
  "web_endpoint_schema =
     map (\<lambda>k. (k, proper_reference)) [''website_resource_id''] @
     map (\<lambda>k. (k, proper_number)) [''application_environment_resource_id'', ''domain_resource_id'',
       ''tls_certificate_resource_id''] @
     map (\<lambda>k. (k, proper_text)) [''url'', ''redirects_to''] @
     map (\<lambda>k. (k, proper_choice)) [''role''] @
     map (\<lambda>k. (k, proper_flag)) [''is_primary'']"

definition domain_schema :: "(string \<times> (json option \<Rightarrow> bool)) list" where
  "domain_schema =
     map (\<lambda>k. (k, proper_text)) [''domain_name'', ''provider_domain_id''] @
     map (\<lambda>k. (k, proper_number)) [''registrar_account_resource_id''] @
     map (\<lambda>k. (k, proper_choice)) [''status''] @
     map (\<lambda>k. (k, proper_raw)) [''registered_on'', ''expires_on''] @
     map (\<lambda>k. (k, proper_boolean)) [''auto_renew'', ''transfer_lock_enabled'', ''privacy_enabled'']"

definition dns_zone_schema :: "(string \<times> (json option \<Rightarrow> bool)) list" where
  "dns_zone_schema =
     map (\<lambda>k. (k, proper_reference)) [''domain_resource_id''] @
     map (\<lambda>k. (k, proper_number)) [''provider_account_resource_id''] @
     map (\<lambda>k. (k, proper_text)) [''zone_name'', ''provider_zone_id''] @
     map (\<lambda>k. (k, proper_boolean)) [''dnssec_enabled''] @
     map (\<lambda>k. (k, proper_flag)) [''is_primary'']"

definition certificate_schema :: "(string \<times> (json option \<Rightarrow> bool)) list" where
  "certificate_schema =
     map (\<lambda>k. (k, proper_number)) [''provider_account_resource_id''] @
     map (\<lambda>k. (k, proper_choice)) [''certificate_type''] @
     map (\<lambda>k. (k, proper_text)) [''issuer'', ''subject_common_name'', ''provider_certificate_id'',
       ''serial_number'', ''fingerprint_sha256''] @
     map (\<lambda>k. (k, proper_raw)) [''issued_at'', ''expires_at''] @
     map (\<lambda>k. (k, proper_boolean)) [''auto_renew'']"

lemma opened_website:
  assumes "jstr detail ''resource_type'' = Some ''website''" "proper_values website_schema (members detail)"
  shows "same_values (web_payload (fst (open_resource (take_details non_null_client) web_put detail s))) (members detail)"
proof -
  have "members detail \<noteq> JNull"
    by (rule proper_members [OF assms(2), of "''cms''" proper_text]) (simp_all add: website_schema_def proper_text_def)
  then show ?thesis
    using assms by (simp add: web_opened website_schema_def website_payload_def input_kept' flag_stored flag_stored' del: stored.simps)
qed

lemma opened_web_endpoint:
  assumes "jstr detail ''resource_type'' = Some ''website_endpoint''" "proper_values web_endpoint_schema (members detail)"
  shows "same_values (web_payload (fst (open_resource (take_details non_null_client) web_put detail s))) (members detail)"
proof -
  have "members detail \<noteq> JNull"
    by (rule proper_members [OF assms(2), of "''url''" proper_text]) (simp_all add: web_endpoint_schema_def proper_text_def)
  then show ?thesis
    using assms by (simp add: web_opened web_endpoint_schema_def web_endpoint_payload_def input_kept' flag_stored flag_stored' del: stored.simps)
qed

lemma opened_domain:
  assumes "jstr detail ''resource_type'' = Some ''domain''" "proper_values domain_schema (members detail)"
  shows "same_values (web_payload (fst (open_resource (take_details non_null_client) web_put detail s))) (members detail)"
proof -
  have "members detail \<noteq> JNull"
    by (rule proper_members [OF assms(2), of "''domain_name''" proper_text]) (simp_all add: domain_schema_def proper_text_def)
  then show ?thesis
    using assms by (simp add: web_opened domain_schema_def domain_payload_def input_kept' flag_stored flag_stored' del: stored.simps)
qed

lemma opened_dns_zone:
  assumes "jstr detail ''resource_type'' = Some ''dns_zone''" "proper_values dns_zone_schema (members detail)"
  shows "same_values (web_payload (fst (open_resource (take_details non_null_client) web_put detail s))) (members detail)"
proof -
  have "members detail \<noteq> JNull"
    by (rule proper_members [OF assms(2), of "''zone_name''" proper_text]) (simp_all add: dns_zone_schema_def proper_text_def)
  then show ?thesis
    using assms by (simp add: web_opened dns_zone_schema_def dns_zone_payload_def input_kept' flag_stored flag_stored' del: stored.simps)
qed

lemma opened_certificate:
  assumes "jstr detail ''resource_type'' = Some ''tls_certificate''" "proper_values certificate_schema (members detail)"
  shows "same_values (web_payload (fst (open_resource (take_details non_null_client) web_put detail s))) (members detail)"
proof -
  have "members detail \<noteq> JNull"
    by (rule proper_members [OF assms(2), of "''issuer''" proper_text]) (simp_all add: certificate_schema_def proper_text_def)
  then show ?thesis
    using assms by (simp add: web_opened certificate_schema_def certificate_payload_def input_kept' flag_stored flag_stored' del: stored.simps)
qed

definition web_schema :: "string \<Rightarrow> (string \<times> (json option \<Rightarrow> bool)) list" where
  "web_schema t =
     (if t = ''website'' then website_schema else if t = ''website_endpoint'' then web_endpoint_schema
      else if t = ''domain'' then domain_schema else if t = ''dns_zone'' then dns_zone_schema else certificate_schema)"

text \<open>
  Editing a website, one of its endpoints, a domain, a DNS zone or a certificate and saving
  without a change sends what is stored: every member of the request that belongs to the type is
  the stored value, also the dates, which are kept as they came.
\<close>

theorem untouched_web_resource_is_kept:
  assumes "jstr detail ''resource_type'' = Some t"
    and "t \<in> {''website'', ''website_endpoint'', ''domain'', ''dns_zone'', ''tls_certificate''}"
    and "proper_values (web_schema t) (members detail)"
  shows "same_values (web_payload (fst (open_resource (take_details non_null_client) web_put detail s))) (members detail)"
proof -
  have "t = ''website'' \<or> t = ''website_endpoint'' \<or> t = ''domain'' \<or> t = ''dns_zone'' \<or> t = ''tls_certificate''"
    using assms(2) by (simp only: insert_iff empty_iff simp_thms)
  then show ?thesis
  proof (elim disjE)
    assume t: "t = ''website''"
    show ?thesis by (rule opened_website) (use assms(1,3) t in \<open>simp_all add: web_schema_def\<close>)
  next
    assume t: "t = ''website_endpoint''"
    show ?thesis by (rule opened_web_endpoint) (use assms(1,3) t in \<open>simp_all add: web_schema_def\<close>)
  next
    assume t: "t = ''domain''"
    show ?thesis by (rule opened_domain) (use assms(1,3) t in \<open>simp_all add: web_schema_def\<close>)
  next
    assume t: "t = ''dns_zone''"
    show ?thesis by (rule opened_dns_zone) (use assms(1,3) t in \<open>simp_all add: web_schema_def\<close>)
  next
    assume t: "t = ''tls_certificate''"
    show ?thesis by (rule opened_certificate) (use assms(1,3) t in \<open>simp_all add: web_schema_def\<close>)
  qed
qed

definition demo_zone :: json where
  "demo_zone = JObj [(''resource_type'', JStr ''dns_zone''), (''values'', JObj
     [(''domain_resource_id'', JNum 5), (''provider_account_resource_id'', JNull), (''zone_name'', JStr ''example.org''),
      (''provider_zone_id'', JStr []), (''dnssec_enabled'', JBool False), (''is_primary'', JBool False)])]"

theorem untouched_web_resource_is_kept_witness:
  "same_values (web_payload (fst (open_resource (take_details non_null_client) web_put demo_zone (web_init [''dns_zone'']))))
     (members demo_zone)"
  by (rule untouched_web_resource_is_kept [of _ "''dns_zone''"])
    (simp_all add: demo_zone_def jstr_def members_def nullish_def web_schema_def dns_zone_schema_def proper_values_def
      proper_text_def proper_number_def proper_reference_def proper_boolean_def proper_flag_def trim_def trim_start_def js_space_def)

section \<open>References of another owner\<close>

text \<open>
  As with the operational form, choosing another client keeps the website chosen before: it is not
  offered any more, is sent nevertheless, and the checks do not notice.
\<close>

lemma web_client_change_keeps_foreign_website:
  assumes "fi_type s = ''website_endpoint''" "fi_ownership s = ''client''" "0 \<le> n" "0 \<le> b" "b \<noteq> a"
    and "jstr item ''ownership_type'' = Some ''client''" "jget item ''client_id'' = Some (JNum a)"
    and "fi_text s ''websiteResourceId'' = int_str n" "first_problem (web_checks None s) = None"
  shows "\<not> optionAllowed item ''client'' (fi_clientId (web_client (int_str b) s))"
    and "first_problem (web_checks None (web_client (int_str b) s)) = None"
    and "(''website_resource_id'', V_num (Dec n 0)) \<in> set (web_body None (web_client (int_str b) s))"
    and "(''client_id'', V_num (Dec b 0)) \<in> set (web_body None (web_client (int_str b) s))"
proof -
  have b: "int_str b \<noteq> []" using trim_int_str [OF assms(4)] by simp
  show "\<not> optionAllowed item ''client'' (fi_clientId (web_client (int_str b) s))"
    using assms by (simp add: optionAllowed_def web_client_def js_Number_int_str)
  show "first_problem (web_checks None (web_client (int_str b) s)) = None"
    using assms(1,2,9) b by (simp add: first_problem_def web_checks_def web_client_def split: if_splits)
  show "(''website_resource_id'', V_num (Dec n 0)) \<in> set (web_body None (web_client (int_str b) s))"
    using assms(1,3,8) by (simp add: web_body_def web_client_def web_payload_def web_endpoint_payload_def required_number_def js_Number_int_str)
  show "(''client_id'', V_num (Dec b 0)) \<in> set (web_body None (web_client (int_str b) s))"
    using assms(1,2,4) by (simp add: web_body_def web_client_def owner_payload_def required_number_def js_Number_int_str)
qed

end
