(* ===== verification/Infra_Nested.thy ===== *)
theory Infra_Nested
  imports Infra_Form
begin

text \<open>
  The cards of a resource's page that keep records of their own
  (\<^verbatim>\<open>resources/[id]/OperationalNestedPanel.tsx\<close>, \<^verbatim>\<open>WebDomainNestedCards.tsx\<close>,
  \<^verbatim>\<open>ServerNetworkingCard.tsx\<close>, \<^verbatim>\<open>ApplicationRepositoriesCard.tsx\<close>): the services of
  a container stack, the records of a Kubernetes namespace and of a DNS zone, the domains of a
  certificate, the repositories of an application, the interfaces and addresses of a server.

  All of them list their records, open a form for a new one or for one of the list, save and
  delete. Answers are taken to have the members that the interfaces of the code declare.
\<close>

section \<open>A card\<close>

record card = net +
  cd_items :: "json option"
  cd_options :: "json option"
  cd_kind :: "string option"
  cd_editing :: "int option"
  cd_text :: "string \<Rightarrow> string"
  cd_flag :: bool
  cd_error :: "string option"
  cd_saving :: bool
  cd_deleting :: "string option"

definition put_texts :: "(string \<times> string) list \<Rightarrow> card \<Rightarrow> card" where
  "put_texts kvs s = s\<lparr>cd_text := (\<lambda>x. case map_of kvs x of Some v \<Rightarrow> v | None \<Rightarrow> cd_text s x)\<rparr>"

definition json_int :: "json option \<Rightarrow> int option" where
  "json_int v = (case v of Some (JNum n) \<Rightarrow> Some n | _ \<Rightarrow> None)"

text \<open>A text member as it is, and \<^verbatim>\<open>x === null ? "" : String(x)\<close>.\<close>

definition raw :: "json \<Rightarrow> string \<Rightarrow> string" where
  "raw item k = nullish (jstr item k) []"

definition or_empty :: "json option \<Rightarrow> string" where
  "or_empty v = (case v of None \<Rightarrow> ''undefined'' | Some JNull \<Rightarrow> [] | Some j \<Rightarrow> js_text j)"

definition lines_payload :: "string \<Rightarrow> form_value" where
  "lines_payload s = V_texts (filter (\<lambda>p. p \<noteq> []) (map trim (split_on CHR 0x0A s)))"

definition numberOrNull_raw :: "string \<Rightarrow> form_value" where
  "numberOrNull_raw s = (if trim s = [] then V_null else V_num (js_Number s))"

text \<open>\<^verbatim>\<open>s ? Number(s) : null\<close>.\<close>

definition number_if_any :: "string \<Rightarrow> form_value" where
  "number_if_any s = (if s = [] then V_null else V_num (js_Number s))"

definition card_load :: "admin_world \<Rightarrow> bool \<Rightarrow> string \<Rightarrow> string \<Rightarrow> (card, unit) act" where
  "card_load w canView url fallback =
     (if \<not> canView then return_act ()
      else catch_act
        (then_act (set_act (cd_error_update (\<lambda>_. None)))
          (bind_act (api_get w url) (\<lambda>j. set_act (cd_items_update (\<lambda>_. Some j)))))
        (\<lambda>e. set_act (cd_error_update (\<lambda>_. Some (message_of fallback e)))))"

definition record_url :: "string \<Rightarrow> int option \<Rightarrow> string" where
  "record_url base editing = base @ (case editing of None \<Rightarrow> [] | Some i \<Rightarrow> ''/'' @ int_str i)"

definition card_save ::
  "admin_world \<Rightarrow> string \<Rightarrow> int option \<Rightarrow> payload \<Rightarrow> (card \<Rightarrow> card) \<Rightarrow> (card, unit) act \<Rightarrow> string \<Rightarrow> (card, unit) act" where
  "card_save w base editing body reset reload fallback =
     finally_act
       (catch_act
         (then_act (set_act (\<lambda>s. s\<lparr>cd_saving := True, cd_error := None\<rparr>))
           (bind_act (api_send w (if editing = None then ''POST'' else ''PUT'') (record_url base editing) (TextBody (payload_text body)))
             (\<lambda>saved. then_act (set_act reset) reload)))
         (\<lambda>e. set_act (cd_error_update (\<lambda>_. Some (message_of fallback e)))))
       (cd_saving_update (\<lambda>_. False))"

definition card_remove ::
  "admin_world \<Rightarrow> bool \<Rightarrow> string \<Rightarrow> string \<Rightarrow> (card, unit) act \<Rightarrow> string \<Rightarrow> (card, unit) act" where
  "card_remove w confirmed key url reload fallback =
     (if \<not> confirmed then return_act ()
      else finally_act
        (catch_act
          (then_act (set_act (\<lambda>s. s\<lparr>cd_deleting := Some key, cd_error := None\<rparr>))
            (bind_act (api_send w ''DELETE'' url NoBody) (\<lambda>gone. reload)))
          (\<lambda>e. set_act (cd_error_update (\<lambda>_. Some (message_of fallback e)))))
        (cd_deleting_update (\<lambda>_. None)))"

section \<open>Services of a container stack\<close>

definition service_blank :: "(string \<times> string) list" where
  "service_blank = map (\<lambda>v. (v, []))
     [''name'', ''image'', ''replicas'', ''ports'', ''volumes'', ''healthcheck'', ''restartPolicy'', ''environmentNotes'']"

definition service_reset :: "card \<Rightarrow> card" where
  "service_reset s = put_texts service_blank (s\<lparr>cd_kind := None, cd_editing := None, cd_error := None\<rparr>)"

definition service_texts :: "json \<Rightarrow> (string \<times> string) list" where
  "service_texts item =
     [(''name'', raw item ''name''), (''image'', raw item ''image''), (''replicas'', or_empty (jget item ''replicas'')),
      (''ports'', listValue (jget item ''ports'')), (''volumes'', listValue (jget item ''volumes'')),
      (''healthcheck'', raw item ''healthcheck''), (''restartPolicy'', raw item ''restart_policy''),
      (''environmentNotes'', raw item ''environment_notes'')]"

definition service_edit :: "json \<Rightarrow> card \<Rightarrow> card" where
  "service_edit item s =
     put_texts (service_texts item)
       (s\<lparr>cd_kind := Some ''service'', cd_editing := json_int (jget item ''id''), cd_error := None\<rparr>)"

definition container_payload :: "(string \<Rightarrow> string) \<Rightarrow> payload" where
  "container_payload fv =
     [(''name'', trimmed (fv ''name'')), (''image'', trimmed (fv ''image'')), (''replicas'', numberOrNull_raw (fv ''replicas'')),
      (''ports'', lines_payload (fv ''ports'')), (''volumes'', lines_payload (fv ''volumes'')),
      (''healthcheck'', trimmed (fv ''healthcheck'')), (''restart_policy'', trimmed (fv ''restartPolicy'')),
      (''environment_notes'', trimmed (fv ''environmentNotes''))]"

definition services_base :: "admin_world \<Rightarrow> int \<Rightarrow> string" where
  "services_base w i = aw_api w @ ''/api/admin/infrastructure/operations/container-stacks/'' @ int_str i @ ''/services''"

definition services_load :: "admin_world \<Rightarrow> bool \<Rightarrow> int \<Rightarrow> (card, unit) act" where
  "services_load w canView i = card_load w canView (services_base w i) ''Unable to load container services.''"

definition service_save :: "admin_world \<Rightarrow> bool \<Rightarrow> int \<Rightarrow> (card, unit) act" where
  "service_save w canView i s =
     (if trim (cd_text s ''name'') = [] then (s\<lparr>cd_error := Some ''Enter a service name.''\<rparr>, Inr ())
      else card_save w (services_base w i) (cd_editing s) (container_payload (cd_text s)) service_reset (services_load w canView i)
             ''Unable to save the container service.'' s)"

definition service_remove :: "admin_world \<Rightarrow> bool \<Rightarrow> bool \<Rightarrow> int \<Rightarrow> int \<Rightarrow> (card, unit) act" where
  "service_remove w canView confirmed i item =
     card_remove w confirmed (int_str item) (record_url (services_base w i) (Some item)) (services_load w canView i)
       ''Unable to delete the container service.''"

section \<open>Records of a DNS zone\<close>

definition dns_blank :: "(string \<times> string) list" where
  "dns_blank = [(''name'', ''@''), (''recordType'', ''A''), (''value'', []), (''ttl'', ''300''), (''priority'', []), (''weight'', []),
     (''port'', []), (''proxied'', []), (''providerRecordId'', [])]"

definition dns_reset :: "card \<Rightarrow> card" where
  "dns_reset s = put_texts dns_blank (s\<lparr>cd_kind := None, cd_editing := None\<rparr>)"

definition dns_texts :: "json \<Rightarrow> (string \<times> string) list" where
  "dns_texts item =
     [(''name'', raw item ''name''), (''recordType'', raw item ''record_type''), (''value'', raw item ''value''),
      (''ttl'', textValue (jget item ''ttl'')), (''priority'', or_empty (jget item ''priority'')),
      (''weight'', or_empty (jget item ''weight'')), (''port'', or_empty (jget item ''port'')),
      (''proxied'', or_empty (jget item ''proxied'')), (''providerRecordId'', raw item ''provider_record_id'')]"

definition dns_edit :: "json \<Rightarrow> card \<Rightarrow> card" where
  "dns_edit item s =
     put_texts (dns_texts item) (s\<lparr>cd_kind := Some ''record'', cd_editing := json_int (jget item ''id''), cd_error := None\<rparr>)"

definition dns_payload :: "(string \<Rightarrow> string) \<Rightarrow> payload" where
  "dns_payload fv =
     [(''name'', trimmed (fv ''name'')), (''record_type'', V_text (fv ''recordType'')), (''value'', trimmed (fv ''value'')),
      (''ttl'', required_number (fv ''ttl'')), (''priority'', numberOrNull (fv ''priority'')), (''weight'', numberOrNull (fv ''weight'')),
      (''port'', numberOrNull (fv ''port'')), (''proxied'', booleanPayload ''true'' ''false'' (fv ''proxied'')),
      (''provider_record_id'', trimmed (fv ''providerRecordId''))]"

definition dns_problem :: "(string \<Rightarrow> string) \<Rightarrow> string option" where
  "dns_problem fv = first_problem
     [(trim (fv ''name'') = [] \<or> trim (fv ''value'') = [], ''Enter a DNS record name and value.''),
      (\<not> isInteger (js_Number (fv ''ttl'')) \<or> \<not> num_gt (js_Number (fv ''ttl'')) 0, ''TTL must be a positive whole number.'')]"

definition records_base :: "admin_world \<Rightarrow> int \<Rightarrow> string" where
  "records_base w i = aw_api w @ ''/api/admin/infrastructure/dns-zones/'' @ int_str i @ ''/records''"

definition records_load :: "admin_world \<Rightarrow> bool \<Rightarrow> int \<Rightarrow> (card, unit) act" where
  "records_load w canView i = card_load w canView (records_base w i) ''Unable to load DNS records.''"

definition dns_save :: "admin_world \<Rightarrow> bool \<Rightarrow> int \<Rightarrow> (card, unit) act" where
  "dns_save w canView i s =
     (case dns_problem (cd_text s) of
        Some message \<Rightarrow> (s\<lparr>cd_error := Some message\<rparr>, Inr ())
      | None \<Rightarrow> card_save w (records_base w i) (cd_editing s) (dns_payload (cd_text s)) dns_reset (records_load w canView i)
          ''Unable to save this DNS record.'' s)"

definition dns_remove :: "admin_world \<Rightarrow> bool \<Rightarrow> bool \<Rightarrow> int \<Rightarrow> int \<Rightarrow> (card, unit) act" where
  "dns_remove w canView confirmed i item =
     card_remove w confirmed (int_str item) (record_url (records_base w i) (Some item)) (records_load w canView i)
       ''Unable to delete this DNS record.''"

section \<open>Records of a Kubernetes namespace\<close>

definition kube_blank :: "(string \<times> string) list" where
  "kube_blank = (''serviceType'', ''cluster_ip'') # map (\<lambda>v. (v, []))
     [''name'', ''workloadId'', ''clusterIp'', ''externalHostname'', ''ports'', ''ingressClass'', ''hosts'', ''targetServiceId'', ''chart'',
      ''chartVersion'', ''appVersion'', ''repositoryUrl'', ''status'', ''valuesSummary'', ''storageClass'', ''capacityGb'',
      ''accessModes'', ''volumeName'', ''backingStorageId'', ''notes'']"

definition kube_reset :: "card \<Rightarrow> card" where
  "kube_reset s = put_texts kube_blank (s\<lparr>cd_kind := None, cd_editing := None, cd_flag := False, cd_error := None\<rparr>)"

definition kube_create :: "string \<Rightarrow> card \<Rightarrow> card" where
  "kube_create kind s = (kube_reset s)\<lparr>cd_kind := Some kind\<rparr>"

definition kube_texts :: "string \<Rightarrow> json \<Rightarrow> (string \<times> string) list" where
  "kube_texts kind item =
     (''name'', raw item ''name'') #
     (if kind = ''service'' then
        [(''serviceType'', raw item ''service_type''), (''workloadId'', or_empty (jget item ''workload_resource_id'')),
         (''clusterIp'', raw item ''cluster_ip''), (''externalHostname'', raw item ''external_hostname''),
         (''ports'', listValue (jget item ''ports''))]
      else if kind = ''ingress'' then
        [(''ingressClass'', raw item ''ingress_class''), (''hosts'', listValue (jget item ''hosts'')),
         (''targetServiceId'', or_empty (jget item ''target_service_id'')), (''notes'', raw item ''notes'')]
      else if kind = ''helm'' then
        [(''chart'', raw item ''chart''), (''chartVersion'', raw item ''chart_version''), (''appVersion'', raw item ''app_version''),
         (''repositoryUrl'', raw item ''repository_url''), (''status'', raw item ''status''),
         (''valuesSummary'', raw item ''values_summary'')]
      else
        [(''storageClass'', raw item ''storage_class''), (''capacityGb'', or_empty (jget item ''capacity_gb'')),
         (''accessModes'', listValue (jget item ''access_modes'')), (''volumeName'', raw item ''volume_name''),
         (''backingStorageId'', or_empty (jget item ''backing_storage_resource_id'')), (''notes'', raw item ''notes'')])"

definition kube_edit :: "string \<Rightarrow> json \<Rightarrow> card \<Rightarrow> card" where
  "kube_edit kind item s =
     put_texts (kube_texts kind item)
       ((kube_reset s)\<lparr>cd_kind := Some kind, cd_editing := json_int (jget item ''id''),
          cd_flag := (kind = ''ingress'' \<and> jget item ''tls_enabled'' = Some (JBool True))\<rparr>)"

definition kube_payload :: "string \<Rightarrow> (string \<Rightarrow> string) \<Rightarrow> bool \<Rightarrow> payload" where
  "kube_payload kind fv tls =
     (if kind = ''service'' then
        [(''name'', trimmed (fv ''name'')), (''service_type'', V_text (fv ''serviceType'')),
         (''workload_resource_id'', numberOrNull_raw (fv ''workloadId'')), (''cluster_ip'', trimmedOrNull (fv ''clusterIp'')),
         (''external_hostname'', trimmed (fv ''externalHostname'')), (''ports'', lines_payload (fv ''ports''))]
      else if kind = ''ingress'' then
        [(''name'', trimmed (fv ''name'')), (''ingress_class'', trimmed (fv ''ingressClass'')), (''hosts'', lines_payload (fv ''hosts'')),
         (''tls_enabled'', V_bool tls), (''target_service_id'', numberOrNull_raw (fv ''targetServiceId'')),
         (''notes'', trimmed (fv ''notes''))]
      else if kind = ''helm'' then
        [(''name'', trimmed (fv ''name'')), (''chart'', trimmed (fv ''chart'')), (''chart_version'', trimmed (fv ''chartVersion'')),
         (''app_version'', trimmed (fv ''appVersion'')), (''repository_url'', trimmed (fv ''repositoryUrl'')),
         (''status'', trimmed (fv ''status'')), (''values_summary'', trimmed (fv ''valuesSummary''))]
      else
        [(''name'', trimmed (fv ''name'')), (''storage_class'', trimmed (fv ''storageClass'')),
         (''capacity_gb'', numberOrNull_raw (fv ''capacityGb'')), (''access_modes'', lines_payload (fv ''accessModes'')),
         (''volume_name'', trimmed (fv ''volumeName'')),
         (''backing_storage_resource_id'', numberOrNull_raw (fv ''backingStorageId'')), (''notes'', trimmed (fv ''notes''))])"

definition kube_path :: "string \<Rightarrow> string" where
  "kube_path kind =
     (if kind = ''service'' then ''services'' else if kind = ''ingress'' then ''ingresses''
      else if kind = ''helm'' then ''helm-releases'' else ''persistent-storage'')"

definition children_base :: "admin_world \<Rightarrow> int \<Rightarrow> string" where
  "children_base w i = aw_api w @ ''/api/admin/infrastructure/operations/kubernetes/namespaces/'' @ int_str i"

text \<open>An option of exactly the owner of the resource.\<close>

definition exactScope :: "json \<Rightarrow> json \<Rightarrow> bool" where
  "exactScope option holder \<longleftrightarrow>
     jstr option ''ownership_type'' = jstr holder ''ownership_type'' \<and> jget option ''client_id'' = jget holder ''client_id''"

text \<open>
  \<^verbatim>\<open>Promise.all\<close> of the details of the candidates: each is asked for, one that cannot be
  loaded or belongs to another namespace is left out.
\<close>

fun workloads_of :: "admin_world \<Rightarrow> int \<Rightarrow> json list \<Rightarrow> (card, json list) act" where
  "workloads_of w i [] = return_act []"
| "workloads_of w i (option # options) =
     bind_act
       (catch_act
         (bind_act (api_get w (details_url w (nullish (json_int (jget option ''resource_id'')) 0)))
           (\<lambda>d. bind_act (lift_act (non_null (members d))) (\<lambda>values.
             return_act (if jget values ''namespace_resource_id'' = Some (JNum i) then [option] else []))))
         (\<lambda>e. return_act []))
       (\<lambda>found. bind_act (workloads_of w i options) (\<lambda>others. return_act (found @ others)))"

definition kube_load :: "admin_world \<Rightarrow> int \<Rightarrow> json \<Rightarrow> (card, json list) act" where
  "kube_load w i holder =
     catch_act
       (then_act (set_act (cd_error_update (\<lambda>_. None)))
         (bind_act (both (api_get w (children_base w i @ ''/children''))
             (api_get w (aw_api w @ ''/api/admin/infrastructure/operations/options'')))
           (\<lambda>(children, opts).
             then_act (set_act (\<lambda>s. s\<lparr>cd_items := (if children = JNull then None else Some children),
                 cd_options := (if opts = JNull then None else Some opts)\<rparr>))
               (bind_act (lift_act (non_null opts)) (\<lambda>j.
                 workloads_of w i (filter (\<lambda>option. exactScope option holder) (json_list (jget j ''workloads''))))))))
       (\<lambda>e. then_act (set_act (cd_error_update (\<lambda>_. Some (message_of ''Unable to load Kubernetes namespace operations.'' e))))
          (return_act []))"

definition kube_save :: "admin_world \<Rightarrow> int \<Rightarrow> (card, unit) act \<Rightarrow> (card, unit) act" where
  "kube_save w i reload s =
     (case cd_kind s of
        None \<Rightarrow> (s\<lparr>cd_error := Some ''Enter a name for this Kubernetes record.''\<rparr>, Inr ())
      | Some kind \<Rightarrow>
          (case first_problem
             [(trim (cd_text s ''name'') = [], ''Enter a name for this Kubernetes record.''),
              (kind = ''helm'' \<and> trim (cd_text s ''chart'') = [], ''Enter a Helm chart name.'')] of
             Some message \<Rightarrow> (s\<lparr>cd_error := Some message\<rparr>, Inr ())
           | None \<Rightarrow> card_save w (children_base w i @ ''/'' @ kube_path kind) (cd_editing s)
               (kube_payload kind (cd_text s) (cd_flag s)) kube_reset reload ''Unable to save this Kubernetes record.'' s))"

definition kube_remove :: "admin_world \<Rightarrow> bool \<Rightarrow> int \<Rightarrow> string \<Rightarrow> int \<Rightarrow> (card, unit) act \<Rightarrow> (card, unit) act" where
  "kube_remove w confirmed i kind item reload =
     card_remove w confirmed (kind @ ''-'' @ int_str item) (record_url (children_base w i @ ''/'' @ kube_path kind) (Some item)) reload
       ''Unable to delete this Kubernetes record.''"

section \<open>Domains of a certificate, repositories of an application\<close>

definition owner_allows :: "json \<Rightarrow> string \<Rightarrow> int option \<Rightarrow> bool" where
  "owner_allows option ownershipType clientId =
     (let internal = (jstr option ''ownership_type'' = Some ''internal'')
      in if ownershipType = ''internal'' then internal
         else internal \<or> jget option ''client_id'' = Some (case clientId of None \<Rightarrow> JNull | Some n \<Rightarrow> JNum n))"

text \<open>The domains offered: allowed ones that no other link of the certificate has.\<close>

definition offered_domains :: "string \<Rightarrow> int option \<Rightarrow> card \<Rightarrow> json list" where
  "offered_domains ownershipType clientId s =
     filter (\<lambda>option. owner_allows option ownershipType clientId \<and>
         \<not> list_ex (\<lambda>link. json_int (jget link ''id'') \<noteq> cd_editing s \<and>
             jget link ''domain_resource_id'' = jget option ''resource_id'') (json_list (cd_items s)))
       (json_list (Option.bind (cd_options s) (\<lambda>opts. jget opts ''domains'')))"

text \<open>The options are loaded when the form is opened the first time.\<close>

definition load_choices :: "admin_world \<Rightarrow> string \<Rightarrow> string \<Rightarrow> (card, unit) act" where
  "load_choices w url fallback s =
     (if cd_options s \<noteq> None then (s, Inr ())
      else catch_act
        (bind_act (api_get w url) (\<lambda>j. set_act (cd_options_update (\<lambda>_. if j = JNull then None else Some j))))
        (\<lambda>e. set_act (cd_error_update (\<lambda>_. Some (message_of fallback e)))) s)"

definition coverage_open :: "admin_world \<Rightarrow> json option \<Rightarrow> (card, unit) act" where
  "coverage_open w link =
     then_act
       (set_act (\<lambda>s. put_texts [(''domainId'', case link of None \<Rightarrow> [] | Some l \<Rightarrow> or_empty (jget l ''domain_resource_id''))]
         (s\<lparr>cd_editing := Option.bind link (\<lambda>l. json_int (jget l ''id'')), cd_kind := Some ''domain'', cd_error := None,
            cd_flag := (case link of None \<Rightarrow> False | Some l \<Rightarrow> jget l ''is_primary'' = Some (JBool True))\<rparr>)))
       (load_choices w (aw_api w @ ''/api/admin/infrastructure/web-domain-options'') ''Unable to load Domain options.'')"

definition coverage_base :: "admin_world \<Rightarrow> int \<Rightarrow> string" where
  "coverage_base w i = aw_api w @ ''/api/admin/infrastructure/tls-certificates/'' @ int_str i @ ''/domains''"

definition coverage_load :: "admin_world \<Rightarrow> bool \<Rightarrow> int \<Rightarrow> (card, unit) act" where
  "coverage_load w canView i = card_load w canView (coverage_base w i) ''Unable to load TLS certificate domain coverage.''"

definition coverage_reset :: "card \<Rightarrow> card" where
  "coverage_reset s = put_texts [(''domainId'', [])] (s\<lparr>cd_kind := None, cd_flag := False\<rparr>)"

definition coverage_save :: "admin_world \<Rightarrow> bool \<Rightarrow> int \<Rightarrow> (card, unit) act" where
  "coverage_save w canView i s =
     (if cd_text s ''domainId'' = [] then (s\<lparr>cd_error := Some ''Choose a Domain.''\<rparr>, Inr ())
      else card_save w (coverage_base w i) (cd_editing s)
             [(''domain_resource_id'', required_number (cd_text s ''domainId'')), (''is_primary'', V_bool (cd_flag s))]
             coverage_reset (coverage_load w canView i) ''Unable to add this Domain to the certificate.'' s)"

definition coverage_remove :: "admin_world \<Rightarrow> bool \<Rightarrow> bool \<Rightarrow> int \<Rightarrow> int \<Rightarrow> (card, unit) act" where
  "coverage_remove w canView confirmed i item =
     card_remove w confirmed (int_str item) (record_url (coverage_base w i) (Some item)) (coverage_load w canView i)
       ''Unable to remove this certificate Domain.''"

definition offered_repositories :: "string \<Rightarrow> int option \<Rightarrow> card \<Rightarrow> json list" where
  "offered_repositories ownershipType clientId s =
     filter (\<lambda>option. owner_allows option ownershipType clientId)
       (json_list (Option.bind (cd_options s) (\<lambda>opts. jget opts ''source_repositories'')))"

definition repository_open :: "admin_world \<Rightarrow> json option \<Rightarrow> (card, unit) act" where
  "repository_open w link =
     then_act
       (set_act (\<lambda>s. put_texts
         (case link of
            None \<Rightarrow> [(''repositoryId'', []), (''role'', ''primary''), (''path'', []), (''notes'', [])]
          | Some l \<Rightarrow> [(''repositoryId'', or_empty (jget l ''repository_resource_id'')), (''role'', nullish (jstr l ''role'') ''primary''),
              (''path'', raw l ''path''), (''notes'', raw l ''notes'')])
         (s\<lparr>cd_editing := Option.bind link (\<lambda>l. json_int (jget l ''id'')), cd_kind := Some ''repository'', cd_error := None\<rparr>)))
       (load_choices w (aw_api w @ ''/api/admin/infrastructure/data-application-options'') ''Unable to load source repository options.'')"

definition application_url :: "admin_world \<Rightarrow> int \<Rightarrow> string" where
  "application_url w i = aw_api w @ ''/api/admin/infrastructure/applications/'' @ int_str i"

definition links_load :: "admin_world \<Rightarrow> bool \<Rightarrow> int \<Rightarrow> (card, unit) act" where
  "links_load w canView i = card_load w canView (application_url w i @ ''/repository-links'') ''Unable to load application repositories.''"

definition repository_reset :: "card \<Rightarrow> card" where
  "repository_reset s =
     put_texts [(''repositoryId'', []), (''role'', ''primary''), (''path'', []), (''notes'', [])] (s\<lparr>cd_kind := None\<rparr>)"

definition link_payload :: "(string \<Rightarrow> string) \<Rightarrow> payload" where
  "link_payload fv =
     [(''repository_resource_id'', required_number (fv ''repositoryId'')), (''role'', V_text (fv ''role'')),
      (''path'', trimmed (fv ''path'')), (''notes'', trimmed (fv ''notes''))]"

definition repository_save :: "admin_world \<Rightarrow> bool \<Rightarrow> int \<Rightarrow> (card, unit) act" where
  "repository_save w canView i s =
     (if cd_text s ''repositoryId'' = [] then (s\<lparr>cd_error := Some ''Choose a Source Repository.''\<rparr>, Inr ())
      else card_save w (application_url w i @ ''/repositories'') (cd_editing s) (link_payload (cd_text s)) repository_reset
             (links_load w canView i) ''Unable to link this source repository.'' s)"

definition repository_remove :: "admin_world \<Rightarrow> bool \<Rightarrow> bool \<Rightarrow> int \<Rightarrow> int \<Rightarrow> (card, unit) act" where
  "repository_remove w canView confirmed i item =
     card_remove w confirmed (int_str item) (record_url (application_url w i @ ''/repositories'') (Some item)) (links_load w canView i)
       ''Unable to remove this repository link.''"

text \<open>A repository that was created on the way is offered and chosen at once.\<close>

definition repository_created :: "admin_world \<Rightarrow> int \<Rightarrow> (card, unit) act" where
  "repository_created w i =
     catch_act
       (bind_act (api_get w (aw_api w @ ''/api/admin/infrastructure/data-application-options''))
         (\<lambda>choices. set_act (\<lambda>s. put_texts [(''repositoryId'', int_str i)] (s\<lparr>cd_options := json_value choices\<rparr>))))
       (\<lambda>e. set_act (cd_error_update (\<lambda>_. Some (message_of ''Unable to refresh repositories.'' e))))"

section \<open>Interfaces and addresses of a server\<close>

definition networking_blank :: "(string \<times> string) list" where
  "networking_blank = map (\<lambda>v. (v, [])) [''name'', ''mac'', ''network'', ''subnet'', ''mtu'', ''description'', ''address'', ''interfaceId'', ''ptr'']"

definition networking_reset :: "string option \<Rightarrow> card \<Rightarrow> card" where
  "networking_reset kind s =
     put_texts ((''scope'', ''private'') # networking_blank)
       (s\<lparr>cd_kind := kind, cd_editing := None, cd_error := None, cd_flag := False\<rparr>)"

definition interface_texts :: "json \<Rightarrow> (string \<times> string) list" where
  "interface_texts item =
     [(''name'', raw item ''name''), (''mac'', raw item ''mac_address''), (''network'', textValue (jget item ''network_resource_id'')),
      (''subnet'', textValue (jget item ''subnet_resource_id'')), (''mtu'', textValue (jget item ''mtu'')),
      (''description'', raw item ''description'')]"

definition editInterface :: "json \<Rightarrow> card \<Rightarrow> card" where
  "editInterface item s =
     put_texts (interface_texts item) ((networking_reset (Some ''interface'') s)\<lparr>cd_editing := json_int (jget item ''id'')\<rparr>)"

definition address_texts :: "json \<Rightarrow> (string \<times> string) list" where
  "address_texts item =
     [(''address'', raw item ''address''), (''scope'', raw item ''scope''), (''interfaceId'', textValue (jget item ''interface_id'')),
      (''ptr'', raw item ''ptr_record''), (''description'', raw item ''description'')]"

definition editIP :: "json \<Rightarrow> card \<Rightarrow> card" where
  "editIP item s =
     put_texts (address_texts item)
       ((networking_reset (Some ''ip'') s)\<lparr>cd_editing := json_int (jget item ''id''), cd_flag := (jget item ''is_primary'' = Some (JBool True))\<rparr>)"

definition networking_payload :: "string option \<Rightarrow> (string \<Rightarrow> string) \<Rightarrow> bool \<Rightarrow> payload" where
  "networking_payload kind fv primary =
     (if kind = Some ''interface'' then
        [(''name'', V_text (fv ''name'')), (''mac_address'', V_text (fv ''mac'')), (''network_resource_id'', number_if_any (fv ''network'')),
         (''subnet_resource_id'', number_if_any (fv ''subnet'')), (''mtu'', number_if_any (fv ''mtu'')),
         (''description'', V_text (fv ''description''))]
      else
        [(''address'', V_text (fv ''address'')), (''scope'', V_text (fv ''scope'')), (''interface_id'', number_if_any (fv ''interfaceId'')),
         (''ptr_record'', V_text (fv ''ptr'')), (''is_primary'', V_bool primary), (''description'', V_text (fv ''description''))])"

definition server_url :: "admin_world \<Rightarrow> int \<Rightarrow> string" where
  "server_url w i = aw_api w @ ''/api/admin/infrastructure/servers/'' @ int_str i"

definition networking_load :: "admin_world \<Rightarrow> bool \<Rightarrow> int \<Rightarrow> (card, unit) act" where
  "networking_load w canView i =
     (if \<not> canView then return_act ()
      else catch_act
        (then_act (set_act (cd_error_update (\<lambda>_. None)))
          (bind_act (both (api_get w (server_url w i)) (api_get w (aw_api w @ ''/api/admin/infrastructure/specialist-options'')))
            (\<lambda>(detail, choices). set_act (\<lambda>s. s\<lparr>cd_items := (if detail = JNull then None else Some detail), cd_options := Some choices\<rparr>))))
        (\<lambda>e. set_act (cd_error_update (\<lambda>_. Some (message_of ''Unable to load server networking.'' e)))))"

definition networking_compatible :: "card \<Rightarrow> json \<Rightarrow> bool" where
  "networking_compatible s item \<longleftrightarrow>
     jstr item ''ownership_type'' = Some ''internal'' \<or>
     (case cd_items s of
        None \<Rightarrow> False
      | Some server \<Rightarrow> jstr server ''ownership_type'' = Some ''client'' \<and> jget item ''client_id'' = jget server ''client_id'')"

text \<open>A network or subnet that was created on the way is chosen at once.\<close>

definition networking_created :: "(card, unit) act \<Rightarrow> bool \<Rightarrow> int \<Rightarrow> (card, unit) act" where
  "networking_created reload network i =
     then_act reload
       (set_act (put_texts (if network then [(''network'', int_str i), (''subnet'', [])] else [(''subnet'', int_str i)])))"

definition networking_closed :: "card \<Rightarrow> card" where
  "networking_closed s = put_texts networking_blank (s\<lparr>cd_kind := None, cd_flag := False\<rparr>)"

definition networking_submit :: "admin_world \<Rightarrow> bool \<Rightarrow> int \<Rightarrow> (card, unit) act" where
  "networking_submit w canView i s =
     card_save w (server_url w i @ (if cd_kind s = Some ''interface'' then ''/interfaces'' else ''/ip-addresses'')) (cd_editing s)
       (networking_payload (cd_kind s) (cd_text s) (cd_flag s)) networking_closed (networking_load w canView i)
       ''Unable to create network record.'' s"

section \<open>Saving ends\<close>

lemma card_load_quiet: "\<not> isl (snd (card_load w canView url fallback s))"
  by (simp add: card_load_def form_simps return_act_def)

lemma networking_load_quiet: "\<not> isl (snd (networking_load w canView i s))"
  by (simp add: networking_load_def form_simps return_act_def)

lemma card_save_idle:
  "\<not> isl (snd (card_save w base editing body reset reload fallback s)) \<and> \<not> cd_saving (fst (card_save w base editing body reset reload fallback s))"
  by (simp add: card_save_def form_simps)

lemma card_remove_idle:
  assumes "cd_deleting s = None"
  shows "\<not> isl (snd (card_remove w confirmed key url reload fallback s)) \<and> cd_deleting (fst (card_remove w confirmed key url reload fallback s)) = None"
  using assms by (simp add: card_remove_def form_simps return_act_def)

interpretation service_saving: submit_handler "service_save w canView i" cd_saving
  by (rule submit_handlerI) (simp add: service_save_def card_save_idle)

interpretation dns_saving: submit_handler "dns_save w canView i" cd_saving
  by (rule submit_handlerI) (simp add: dns_save_def card_save_idle split: option.split)

interpretation kube_saving: submit_handler "kube_save w i reload" cd_saving
  by (rule submit_handlerI) (simp add: kube_save_def card_save_idle split: option.split)

interpretation coverage_saving: submit_handler "coverage_save w canView i" cd_saving
  by (rule submit_handlerI) (simp add: coverage_save_def card_save_idle)

interpretation repository_saving: submit_handler "repository_save w canView i" cd_saving
  by (rule submit_handlerI) (simp add: repository_save_def card_save_idle)

interpretation networking_saving: submit_handler "networking_submit w canView i" cd_saving
  by (rule submit_handlerI) (simp add: networking_submit_def card_save_idle)

section \<open>A record that is saved untouched\<close>

definition proper_lines :: "json option \<Rightarrow> bool" where
  "proper_lines v = (case v of
      Some (JArr xs) \<Rightarrow> list_all (\<lambda>x. case x of JStr s \<Rightarrow> s \<noteq> [] \<and> trim s = s \<and> CHR 0x0A \<notin> set s | _ \<Rightarrow> False) xs
    | _ \<Rightarrow> False)"

definition proper_string :: "json option \<Rightarrow> bool" where
  "proper_string v = (case v of Some (JStr s) \<Rightarrow> True | _ \<Rightarrow> False)"

interpretation empty_number_field: form_field or_empty numberOrNull proper_number
  by unfold_locales
    (auto simp: proper_number_def or_empty_def numberOrNull_def trim_int_str js_Number_int_str trim_nil split: option.splits json.splits)

interpretation empty_number_field': form_field or_empty numberOrNull_raw proper_number
  by unfold_locales
    (auto simp: proper_number_def or_empty_def numberOrNull_raw_def trim_int_str js_Number_int_str trim_nil split: option.splits json.splits)

interpretation loose_number_field: form_field textValue number_if_any proper_number
  by unfold_locales
    (auto simp: proper_number_def textValue_def number_if_any_def trim_int_str js_Number_int_str split: option.splits json.splits)

interpretation empty_reference_field: form_field or_empty required_number proper_reference
  by unfold_locales
    (auto simp: proper_reference_def or_empty_def required_number_def js_Number_int_str split: option.splits json.splits)

interpretation empty_flag_field: form_field or_empty "booleanPayload ''true'' ''false''" proper_boolean
  by unfold_locales (auto simp: proper_boolean_def or_empty_def booleanPayload_def split: option.splits json.splits)

lemma lines_round_trip:
  assumes "list_all (\<lambda>s. s \<noteq> [] \<and> trim s = s \<and> CHR 0x0A \<notin> set s) ss"
  shows "lines_payload (join [CHR 0x0A] ss) = V_texts ss"
proof (cases "ss = []")
  case True
  then show ?thesis by (simp add: lines_payload_def trim_def trim_start_def)
next
  case False
  have "split_on CHR 0x0A (join [CHR 0x0A] ss) = ss" using assms False by (simp add: split_on_join list_all_iff)
  moreover have "map trim ss = ss" using assms by (intro map_idI) (simp add: list_all_iff)
  moreover have "filter (\<lambda>p. p \<noteq> []) ss = ss" using assms by (simp add: list_all_iff filter_id_conv)
  ultimately show ?thesis by (simp add: lines_payload_def)
qed

interpretation lines_field: form_field listValue lines_payload proper_lines
proof unfold_locales
  fix v assume p: "proper_lines v"
  then obtain xs where v: "v = Some (JArr xs)" by (auto simp: proper_lines_def split: option.splits json.splits)
  have texts: "\<exists>s. x = JStr s \<and> s \<noteq> [] \<and> trim s = s \<and> CHR 0x0A \<notin> set s" if "x \<in> set xs" for x
  proof -
    have "case x of JStr s \<Rightarrow> s \<noteq> [] \<and> trim s = s \<and> CHR 0x0A \<notin> set s | _ \<Rightarrow> False"
      using p v that by (simp add: proper_lines_def list_all_iff)
    then show ?thesis by (simp split: json.splits)
  qed
  define ss where "ss = map js_text xs"
  have "map (\<lambda>x. if x = JNull then [] else js_text x) xs = ss" "map JStr ss = xs"
    using texts by (auto simp: ss_def intro!: map_cong map_idI dest!: texts)
  moreover have "list_all (\<lambda>s. s \<noteq> [] \<and> trim s = s \<and> CHR 0x0A \<notin> set s) ss"
    by (auto simp: ss_def list_all_iff dest!: texts)
  ultimately show "stored (lines_payload (listValue v)) v" by (simp add: v listValue_def lines_round_trip)
qed

lemma raw_kept:
  "proper_text (jget item k) \<Longrightarrow> stored (trimmed (raw item k)) (jget item k)"
  "proper_optional (jget item k) \<Longrightarrow> stored (trimmedOrNull (raw item k)) (jget item k)"
  "proper_string (jget item k) \<Longrightarrow> stored (V_text (raw item k)) (jget item k)"
  by (auto simp: proper_text_def proper_optional_def proper_string_def raw_def jstr_def nullish_def trimmed_def trimmedOrNull_def trim_nil
      split: option.splits json.splits)

lemma text_of_puts: "cd_text (put_texts kvs s) x = (case map_of kvs x of Some v \<Rightarrow> v | None \<Rightarrow> cd_text s x)"
  by (simp add: put_texts_def)

lemmas nested_kept =
  raw_kept empty_number_field.save_load empty_number_field'.save_load loose_number_field.save_load empty_reference_field.save_load
  empty_flag_field.save_load lines_field.save_load reference_text_field.save_load flag_stored

definition runtime_schema :: "string \<Rightarrow> (string \<times> (json option \<Rightarrow> bool)) list" where
  "runtime_schema kind =
     (if kind = ''container'' then
        map (\<lambda>k. (k, proper_text)) [''name'', ''image'', ''healthcheck'', ''restart_policy'', ''environment_notes''] @
        [(''replicas'', proper_number), (''ports'', proper_lines), (''volumes'', proper_lines)]
      else if kind = ''service'' then
        map (\<lambda>k. (k, proper_text)) [''name'', ''external_hostname''] @
        [(''service_type'', proper_string), (''workload_resource_id'', proper_number), (''cluster_ip'', proper_optional), (''ports'', proper_lines)]
      else if kind = ''ingress'' then
        map (\<lambda>k. (k, proper_text)) [''name'', ''ingress_class'', ''notes''] @
        [(''hosts'', proper_lines), (''tls_enabled'', proper_flag), (''target_service_id'', proper_number)]
      else if kind = ''helm'' then
        map (\<lambda>k. (k, proper_text)) [''name'', ''chart'', ''chart_version'', ''app_version'', ''repository_url'', ''status'', ''values_summary'']
      else
        map (\<lambda>k. (k, proper_text)) [''name'', ''storage_class'', ''volume_name'', ''notes''] @
        [(''capacity_gb'', proper_number), (''access_modes'', proper_lines), (''backing_storage_resource_id'', proper_number)])"

lemma container_kept:
  "proper_values (runtime_schema ''container'') item \<Longrightarrow> same_values (container_payload (cd_text (service_edit item s))) item"
  by (simp add: proper_values_def runtime_schema_def same_values_def container_payload_def service_edit_def text_of_puts service_texts_def
      nested_kept del: stored.simps)

lemma kube_kept:
  assumes "kind \<in> {''service'', ''ingress'', ''helm'', ''storage''}" "proper_values (runtime_schema kind) item"
  shows "same_values (kube_payload kind (cd_text (kube_edit kind item s)) (cd_flag (kube_edit kind item s))) item"
proof -
  have "kind = ''service'' \<or> kind = ''ingress'' \<or> kind = ''helm'' \<or> kind = ''storage''"
    using assms(1) by (simp only: insert_iff empty_iff simp_thms)
  then show ?thesis
    using assms(2)
    by (elim disjE; hypsubst)
      (simp_all add: proper_values_def runtime_schema_def same_values_def kube_payload_def kube_edit_def text_of_puts kube_texts_def
        put_texts_def nested_kept del: stored.simps)
qed

text \<open>
  C33: a record of a container stack or of a Kubernetes namespace that is opened and saved
  without a change is sent as it is listed: every member of the request is the listed value.
\<close>

theorem untouched_runtime_record_is_kept:
  assumes "proper_values (runtime_schema kind) item"
    and "kind \<in> {''container'', ''service'', ''ingress'', ''helm'', ''storage''}"
  shows "same_values (if kind = ''container'' then container_payload (cd_text (service_edit item s))
    else kube_payload kind (cd_text (kube_edit kind item s)) (cd_flag (kube_edit kind item s))) item"
proof (cases "kind = ''container''")
  case True
  then show ?thesis using container_kept assms(1) by simp
next
  case False
  then show ?thesis using kube_kept [of kind item s] assms by simp
qed

definition blank_card :: card where
  "blank_card = \<lparr>stored_token = None, sent = [], cd_items = None, cd_options = None, cd_kind = None, cd_editing = None,
     cd_text = (\<lambda>v. []), cd_flag = False, cd_error = None, cd_saving = False, cd_deleting = None\<rparr>"

definition demo_ingress :: json where
  "demo_ingress = JObj [(''id'', JNum 4), (''name'', JStr ''web''), (''ingress_class'', JStr ''nginx''),
     (''hosts'', JArr [JStr ''a.example'', JStr ''b.example'']), (''tls_enabled'', JBool True), (''target_service_id'', JNum 7), (''notes'', JStr [])]"

theorem untouched_runtime_record_is_kept_witness:
  "same_values (kube_payload ''ingress'' (cd_text (kube_edit ''ingress'' demo_ingress blank_card))
     (cd_flag (kube_edit ''ingress'' demo_ingress blank_card))) demo_ingress"
proof -
  have "proper_values (runtime_schema ''ingress'') demo_ingress" by code_simp
  then show ?thesis using untouched_runtime_record_is_kept [of "''ingress''" demo_ingress blank_card] by simp
qed

definition dns_schema :: "(string \<times> (json option \<Rightarrow> bool)) list" where
  "dns_schema =
     map (\<lambda>k. (k, proper_text)) [''name'', ''value'', ''provider_record_id''] @
     map (\<lambda>k. (k, proper_number)) [''priority'', ''weight'', ''port''] @
     [(''record_type'', proper_string), (''ttl'', proper_reference), (''proxied'', proper_boolean)]"

text \<open>
  A DNS record that is opened and saved without a change passes the checks of the form and
  is sent as it is listed, given that it has a name, a value and a positive time to live.
\<close>

theorem untouched_dns_record_is_kept:
  assumes "proper_values dns_schema item"
    and "jget item ''name'' = Some (JStr n)" "n \<noteq> []" "jget item ''value'' = Some (JStr v)" "v \<noteq> []"
    and "jget item ''ttl'' = Some (JNum t)" "0 < t"
  shows "dns_problem (cd_text (dns_edit item s)) = None \<and> same_values (dns_payload (cd_text (dns_edit item s))) item"
proof -
  let ?fv = "cd_text (dns_edit item s)"
  have f: "?fv ''name'' = n" "?fv ''value'' = v" "?fv ''ttl'' = int_str t"
    using assms(2,4,6) by (simp_all add: dns_edit_def text_of_puts dns_texts_def raw_def jstr_def nullish_def textValue_def)
  have "trim n = n" "trim v = v"
    using assms(1,2,4) by (simp_all add: proper_values_def dns_schema_def proper_text_def)
  moreover have "js_Number (int_str t) = Dec t 0" using assms(7) by (simp add: js_Number_int_str)
  ultimately have "dns_problem ?fv = None"
    using assms(3,5,7) by (simp add: dns_problem_def first_problem_def f isInteger_def num_gt_def)
  moreover have "same_values (dns_payload ?fv) item"
    using assms(1) by (simp add: proper_values_def dns_schema_def same_values_def dns_payload_def dns_edit_def text_of_puts dns_texts_def
        nested_kept del: stored.simps)
  ultimately show ?thesis by simp
qed

definition demo_record :: json where
  "demo_record = JObj [(''id'', JNum 4), (''name'', JStr ''@''), (''record_type'', JStr ''MX''), (''value'', JStr ''mail.example''),
     (''ttl'', JNum 300), (''priority'', JNum 10), (''weight'', JNull), (''port'', JNull), (''proxied'', JNull),
     (''provider_record_id'', JStr [])]"

theorem untouched_dns_record_is_kept_witness:
  "dns_problem (cd_text (dns_edit demo_record blank_card)) = None \<and>
   same_values (dns_payload (cd_text (dns_edit demo_record blank_card))) demo_record"
proof -
  have "proper_values dns_schema demo_record" by code_simp
  then show ?thesis
    using untouched_dns_record_is_kept [of demo_record "''@''" "''mail.example''" 300 blank_card] by (simp add: demo_record_def)
qed

section \<open>The domains of a certificate\<close>

text \<open>The links after saving: a new one, or another domain for the one that is edited.\<close>

definition linked_after :: "int option \<Rightarrow> json option \<Rightarrow> (int option \<times> json option) list \<Rightarrow> (int option \<times> json option) list" where
  "linked_after editing domain links =
     (case editing of
        None \<Rightarrow> links @ [(None, domain)]
      | Some i \<Rightarrow> map (\<lambda>(k, d). (k, if k = Some i then domain else d)) links)"

definition coverage_of :: "card \<Rightarrow> (int option \<times> json option) list" where
  "coverage_of s = map (\<lambda>link. (json_int (jget link ''id''), jget link ''domain_resource_id'')) (json_list (cd_items s))"

text \<open>Giving one link a domain that no other has keeps them distinct.\<close>

lemma moved_stays_distinct:
  assumes "distinct (map snd ls)" "distinct (map fst ls)" "\<And>k. (k, e) \<in> set ls \<Longrightarrow> k = Some i"
  shows "distinct (map snd (map (\<lambda>(k, d). (k, if k = Some i then e else d)) ls))"
  using assms
proof (induction ls)
  case Nil
  then show ?case by simp
next
  case (Cons l ls)
  obtain k d where l: "l = (k, d)" by (cases l)
  have IH: "distinct (map snd (map (\<lambda>(k, d). (k, if k = Some i then e else d)) ls))" using Cons by simp
  show ?case
  proof (cases "k = Some i")
    case True
    then have "Some i \<notin> fst ` set ls" using Cons.prems(2) l by simp
    then have same: "map (\<lambda>(k, d). (k, if k = Some i then e else d)) ls = ls" by (intro map_idI) (force split: if_splits)
    have "e \<notin> snd ` set ls" using Cons.prems(3) \<open>Some i \<notin> fst ` set ls\<close> l by force
    with True l Cons.prems(1) same show ?thesis by simp
  next
    case False
    then have "d \<noteq> e" using Cons.prems(3) l by auto
    moreover have "d \<notin> snd ` set ls" using Cons.prems(1) l by simp
    ultimately have "d \<notin> snd ` set (map (\<lambda>(k, d). (k, if k = Some i then e else d)) ls)" by force
    with False l IH show ?thesis by (simp add: image_image)
  qed
qed

text \<open>
  C28: a certificate never covers a domain twice. If the listed links are of different domains
  and have different numbers, they still are after a link to any of the offered domains was added, or
  the edited link was moved to it.
\<close>

theorem coverage_stays_distinct:
  assumes "distinct (map snd (coverage_of s))" "distinct (map fst (coverage_of s))" "None \<notin> fst ` set (coverage_of s)"
    and "option \<in> set (offered_domains ownershipType clientId s)"
  shows "distinct (map snd (linked_after (cd_editing s) (jget option ''resource_id'') (coverage_of s)))"
proof -
  let ?d = "jget option ''resource_id''"
  have free: "k = cd_editing s" if "(k, ?d) \<in> set (coverage_of s)" for k
    using assms(4) that by (auto simp: offered_domains_def coverage_of_def list_ex_iff)
  show ?thesis
  proof (cases "cd_editing s")
    case None
    then have "?d \<notin> snd ` set (coverage_of s)" using free assms(3) by force
    then show ?thesis using assms(1) by (simp add: linked_after_def None)
  next
    case (Some i)
    then show ?thesis using moved_stays_distinct [OF assms(1,2), of ?d i] free by (simp add: linked_after_def)
  qed
qed

definition demo_coverage :: card where
  "demo_coverage = blank_card\<lparr>cd_items := Some (JArr [JObj [(''id'', JNum 1), (''domain_resource_id'', JNum 5)],
       JObj [(''id'', JNum 2), (''domain_resource_id'', JNum 6)]]),
     cd_options := Some (JObj [(''domains'', JArr [JObj [(''resource_id'', JNum 5), (''ownership_type'', JStr ''internal'')],
       JObj [(''resource_id'', JNum 8), (''ownership_type'', JStr ''internal'')]])]), cd_editing := Some 1\<rparr>"

theorem coverage_stays_distinct_witness:
  "map (\<lambda>option. jget option ''resource_id'') (offered_domains ''internal'' None demo_coverage) = [Some (JNum 5), Some (JNum 8)] \<and>
   distinct (map snd (linked_after (Some 1) (Some (JNum 8)) (coverage_of demo_coverage)))"
proof -
  have "offered_domains ''internal'' None demo_coverage =
      [JObj [(''resource_id'', JNum 5), (''ownership_type'', JStr ''internal'')], JObj [(''resource_id'', JNum 8), (''ownership_type'', JStr ''internal'')]]"
    "coverage_of demo_coverage = [(Some 1, Some (JNum 5)), (Some 2, Some (JNum 6))]" "cd_editing demo_coverage = Some 1"
    by code_simp+
  then show ?thesis
    using coverage_stays_distinct [of demo_coverage "JObj [(''resource_id'', JNum 8), (''ownership_type'', JStr ''internal'')]" "''internal''" None]
    by simp
qed

section \<open>Saving while another record is opened\<close>

text \<open>
  The buttons that open records stay usable while a save is on its way. When its answer arrives,
  the form of the record opened meanwhile is closed and what was typed is lost.
\<close>

lemma late_save_closes_other_form:
  "cd_kind (service_reset (put_texts typed (service_edit other s))) = None"
  "cd_text (service_reset (put_texts typed (service_edit other s))) ''name'' = []"
  by (simp_all add: service_reset_def text_of_puts service_blank_def) (simp add: put_texts_def)

text \<open>Deleting the record that is open leaves its form: saving it then asks for a record that is gone.\<close>

lemma deleted_record_stays_open:
  "cd_editing (fst (service_remove w canView confirmed i item s)) = cd_editing s \<and>
   cd_kind (fst (service_remove w canView confirmed i item s)) = cd_kind s"
proof -
  let ?P = "\<lambda>t. cd_editing t = cd_editing s \<and> cd_kind t = cd_kind s"
  have "leaves ?P ?P (service_remove w canView confirmed i item)"
    unfolding service_remove_def card_remove_def services_load_def card_load_def
    by (cases confirmed; cases canView; simp only: if_True if_False not_True_eq_False not_False_eq_True; intro act_intros) auto
  then show ?thesis by (simp add: leaves_def)
qed

end
