(* ===== verification/Infra_Catalogue.thy ===== *)
theory Infra_Catalogue
  imports Infra_Structured Infra_Operational Infra_Data Infra_Web Admin_Access
begin

text \<open>
  Around the infrastructure forms: which form a type opens
  (\<^verbatim>\<open>InfrastructureCreateForm.tsx\<close>), the form for catalogue resources and provider
  accounts (\<^verbatim>\<open>CatalogueResourceForm.tsx\<close>), service providers and tags with their
  generated slugs (\<^verbatim>\<open>ServiceProviderForm.tsx\<close>, \<^verbatim>\<open>ResourceTagsCard.tsx\<close>),
  the list of resources (\<^verbatim>\<open>InfrastructureResourcesWorkspace.tsx\<close>) and the page of
  one with its relationships (\<^verbatim>\<open>InfrastructureResourceWorkspace.tsx\<close>).
\<close>

section \<open>Slugs\<close>

definition slug_char :: "char \<Rightarrow> bool" where
  "slug_char c \<longleftrightarrow> (let n = (of_char c :: nat) in 97 \<le> n \<and> n \<le> 122 \<or> 48 \<le> n \<and> n \<le> 57)"

text \<open>\<^verbatim>\<open>replace(/[^a-z0-9]+/g, "-")\<close>.\<close>

function hyphenate :: "string \<Rightarrow> string" where
  "hyphenate [] = []"
| "hyphenate (c # s) =
     (if slug_char c then c # hyphenate s else CHR ''-'' # hyphenate (dropWhile (\<lambda>c. \<not> slug_char c) s))"
  by pat_completeness auto

termination hyphenate
  by (relation "measure length") (simp_all add: length_dropWhile_le less_Suc_eq_le)

text \<open>\<^verbatim>\<open>replace(/^-|-$/g, "")\<close>.\<close>

definition strip_hyphens :: "string \<Rightarrow> string" where
  "strip_hyphens s =
     (let t = (if s \<noteq> [] \<and> hd s = CHR ''-'' then tl s else s)
      in if t \<noteq> [] \<and> last t = CHR ''-'' then butlast t else t)"

definition slug_of :: "string \<Rightarrow> string" where
  "slug_of name = strip_hyphens (hyphenate (toLowerCase name))"

definition chosen_slug :: "string \<Rightarrow> string \<Rightarrow> string" where
  "chosen_slug slug name = or_default slug (slug_of name)"

text \<open>A clean slug: words of letters and digits with single hyphens between them.\<close>

fun clean_slug :: "bool \<Rightarrow> string \<Rightarrow> bool" where
  "clean_slug inside [] = inside"
| "clean_slug inside (c # s) = (if slug_char c then clean_slug True s else c = CHR ''-'' \<and> inside \<and> clean_slug False s)"

section \<open>Choosing a form\<close>

datatype resource_form = Catalogue_form | Structured_form | Web_form | Operational_form | Data_form

definition create_form :: "string \<Rightarrow> resource_form" where
  "create_form type =
     (if isCatalogueResourceType type then Catalogue_form
      else if type = ''server'' \<or> type = ''network'' \<or> type = ''subnet'' then Structured_form
      else (case map_of RESOURCE_CREATION type of
          None \<Rightarrow> Data_form
        | Some c \<Rightarrow> if cr_family c = ''web'' then Web_form else if cr_family c = ''operational'' then Operational_form else Data_form))"

text \<open>The address a form sends a new resource of a type to, below the API's.\<close>

definition create_path :: "string \<Rightarrow> string" where
  "create_path type =
     ''/api/admin/infrastructure/'' @
     (case create_form type of
        Catalogue_form \<Rightarrow> if type = ''provider_account'' then ''provider-accounts'' else ''resources''
      | Structured_form \<Rightarrow> collectionPath type
      | Web_form \<Rightarrow> web_endpoint_path type
      | Operational_form \<Rightarrow> ''operations/'' @ operational_endpoint type
      | Data_form \<Rightarrow> data_endpoint type)"

text \<open>The selection of the create form: the one asked for, if it is allowed.\<close>

definition initial_selection :: "string option \<Rightarrow> string list \<Rightarrow> string option" where
  "initial_selection initialType allowedTypes =
     (case initialType of
        Some t \<Rightarrow> if t \<noteq> [] \<and> t \<in> set allowedTypes then Some t else (case allowedTypes of [] \<Rightarrow> None | a # r \<Rightarrow> Some a)
      | None \<Rightarrow> (case allowedTypes of [] \<Rightarrow> None | a # r \<Rightarrow> Some a))"

definition shown_type :: "string option \<Rightarrow> string list \<Rightarrow> string option" where
  "shown_type selection allowedTypes = initial_selection selection allowedTypes"

section \<open>Lists of resources\<close>

record resource_filter =
  rf_page :: nat
  rf_search :: string
  rf_ownership :: string
  rf_lifecycle :: string
  rf_type :: string
  rf_environment :: string

definition resource_params :: "string option \<Rightarrow> resource_filter \<Rightarrow> params" where
  "resource_params typeFilter f =
     [(''page'', nat_str (rf_page f)), (''page_size'', ''25''), (''ownership'', rf_ownership f), (''lifecycle'', rf_lifecycle f)] @
     (if trim (rf_search f) \<noteq> [] then [(''search'', trim (rf_search f))] else []) @
     (if truthy_string typeFilter then [(''resource_type'', the typeFilter)]
      else if rf_type f \<noteq> ''all'' then [(''resource_type'', rf_type f)] else []) @
     (if rf_environment f \<noteq> ''all'' then [(''environment'', rf_environment f)] else [])"

definition resources_url :: "admin_world \<Rightarrow> string option \<Rightarrow> resource_filter \<Rightarrow> string" where
  "resources_url w typeFilter f = aw_api w @ ''/api/admin/infrastructure/resources?'' @ params_str (resource_params typeFilter f)"

datatype filter_edit =
    Set_search string | Set_ownership string | Set_lifecycle string | Set_type string | Set_environment string | Set_page nat

definition filter_edited :: "filter_edit \<Rightarrow> resource_filter \<Rightarrow> resource_filter" where
  "filter_edited e f =
     (case e of
        Set_search v \<Rightarrow> f\<lparr>rf_search := v, rf_page := 1\<rparr>
      | Set_ownership v \<Rightarrow> f\<lparr>rf_ownership := v, rf_page := 1\<rparr>
      | Set_lifecycle v \<Rightarrow> f\<lparr>rf_lifecycle := v, rf_page := 1\<rparr>
      | Set_type v \<Rightarrow> f\<lparr>rf_type := v, rf_page := 1\<rparr>
      | Set_environment v \<Rightarrow> f\<lparr>rf_environment := v, rf_page := 1\<rparr>
      | Set_page n \<Rightarrow> f\<lparr>rf_page := n\<rparr>)"

definition createTypes :: "string option \<Rightarrow> (string \<Rightarrow> bool) \<Rightarrow> string list" where
  "createTypes typeFilter has =
     filter (\<lambda>type. (\<not> truthy_string typeFilter \<or> typeFilter = Some type) \<and> canCreateResource type has) RESOURCE_TYPES"

section \<open>Slugs are clean\<close>

lemma slug_char_not_hyphen: "slug_char c \<Longrightarrow> c \<noteq> CHR ''-''"
  by (auto simp: slug_char_def)

lemma hyphen_not_slug [simp]: "\<not> slug_char CHR ''-''"
  by (simp add: slug_char_def)

text \<open>Letters, digits and single hyphens; \<open>p\<close> tells whether a hyphen comes before.\<close>

fun single_hyphens :: "bool \<Rightarrow> string \<Rightarrow> bool" where
  "single_hyphens p [] = True"
| "single_hyphens p (c # s) = (if slug_char c then single_hyphens False s else c = CHR ''-'' \<and> \<not> p \<and> single_hyphens True s)"

lemma single_after_hyphen: "single_hyphens False s \<Longrightarrow> s = [] \<or> slug_char (hd s) \<Longrightarrow> single_hyphens True s"
  by (cases s) auto

lemma hyphenate_head: "hyphenate (dropWhile (\<lambda>c. \<not> slug_char c) s) = [] \<or> slug_char (hd (hyphenate (dropWhile (\<lambda>c. \<not> slug_char c) s)))"
  by (induction s) auto

lemma hyphenate_single: "single_hyphens False (hyphenate s)"
proof (induction s rule: hyphenate.induct)
  case (2 c s)
  then show ?case using single_after_hyphen [OF _ hyphenate_head, of s] by (cases "slug_char c") simp_all
qed simp

lemma single_weaken: "single_hyphens True s \<Longrightarrow> single_hyphens False s"
  by (cases s) (auto split: if_splits)

lemma single_butlast: "single_hyphens p s \<Longrightarrow> single_hyphens p (butlast s)"
  by (induction s arbitrary: p) auto

lemma single_last: "single_hyphens p s \<Longrightarrow> s \<noteq> [] \<Longrightarrow> last s = CHR ''-'' \<or> slug_char (last s)"
  by (induction s arbitrary: p) (auto split: if_splits)

lemma single_before_last: "single_hyphens p s \<Longrightarrow> last s = CHR ''-'' \<Longrightarrow> butlast s \<noteq> [] \<Longrightarrow> slug_char (last (butlast s))"
proof (induction s arbitrary: p)
  case Nil
  then show ?case by simp
next
  case (Cons c s)
  show ?case
  proof (cases "butlast s = []")
    case True
    then obtain d where "s = [d]" using Cons.prems(3) by (cases s) (auto split: if_splits)
    then show ?thesis using Cons.prems by (auto split: if_splits)
  next
    case False
    then have "s \<noteq> []" by auto
    then show ?thesis using Cons False by (cases "slug_char c") auto
  qed
qed

lemma single_clean: "single_hyphens p s \<Longrightarrow> s \<noteq> [] \<Longrightarrow> slug_char (last s) \<Longrightarrow> clean_slug (\<not> p) s"
proof (induction s arbitrary: p)
  case Nil
  then show ?case by simp
next
  case (Cons c s)
  show ?case
  proof (cases "s = []")
    case True
    with Cons.prems show ?thesis by simp
  next
    case False
    then have l: "slug_char (last s)" using Cons.prems by simp
    show ?thesis
    proof (cases "slug_char c")
      case True
      then have "clean_slug (\<not> False) s" using Cons.IH [of False] Cons.prems False l by simp
      with True show ?thesis by simp
    next
      case no: False
      then have "clean_slug (\<not> True) s" using Cons.IH [of True] Cons.prems False l by simp
      with no Cons.prems show ?thesis by simp
    qed
  qed
qed

lemma strip_clean:
  assumes "single_hyphens False s"
  shows "strip_hyphens s = [] \<or> clean_slug False (strip_hyphens s)"
proof -
  define t where "t = (if s \<noteq> [] \<and> hd s = CHR ''-'' then tl s else s)"
  have t: "single_hyphens True t"
  proof (cases s)
    case (Cons c r)
    then show ?thesis
      using assms slug_char_not_hyphen [of c] by (cases "slug_char c") (simp_all add: t_def del: char.inject)
  qed (simp add: t_def)
  have e: "strip_hyphens s = (if t \<noteq> [] \<and> last t = CHR ''-'' then butlast t else t)"
    by (simp add: strip_hyphens_def t_def)
  show ?thesis
  proof (cases "t \<noteq> [] \<and> last t = CHR ''-''")
    case True
    then show ?thesis
      using single_clean [OF single_butlast [OF t]] single_before_last [OF t] by (auto simp: e)
  next
    case False
    then show ?thesis using single_clean [OF t] single_last [OF t] by (auto simp: e)
  qed
qed

lemma clean_single: "clean_slug inside s \<Longrightarrow> single_hyphens (\<not> inside) s"
proof (induction s arbitrary: inside)
  case (Cons c s)
  then show ?case using Cons.IH [of True] Cons.IH [of False] by (cases "slug_char c") simp_all
qed simp

lemma clean_last: "clean_slug inside s \<Longrightarrow> s \<noteq> [] \<Longrightarrow> slug_char (last s)"
  by (induction s arbitrary: inside) (auto split: if_splits)

lemma single_lower: "single_hyphens p s \<Longrightarrow> toLowerCase s = s"
proof -
  assume "single_hyphens p s"
  then have "\<forall>c \<in> set s. slug_char c \<or> c = CHR ''-''" by (induction s arbitrary: p) (auto split: if_splits)
  then show ?thesis unfolding toLowerCase_def by (intro map_idI) (auto simp: lower_char_def slug_char_def Let_def)
qed

lemma single_hyphenate: "single_hyphens p s \<Longrightarrow> hyphenate s = s"
proof (induction s arbitrary: p)
  case Nil
  then show ?case by simp
next
  case (Cons c s)
  show ?case
  proof (cases "slug_char c")
    case True
    with Cons show ?thesis by simp
  next
    case False
    with Cons.prems have "single_hyphens True s" "c = CHR ''-''" by auto
    moreover from this(1) have "dropWhile (\<lambda>c. \<not> slug_char c) s = s" by (cases s) (auto split: if_splits)
    ultimately show ?thesis using Cons.IH by simp
  qed
qed

lemma clean_strip: "clean_slug False s \<Longrightarrow> strip_hyphens s = s"
proof (cases s)
  case (Cons c r)
  assume clean: "clean_slug False s"
  then have "slug_char c" using Cons by (simp split: if_splits)
  then have "c \<noteq> CHR ''-''" "last s \<noteq> CHR ''-''"
    using slug_char_not_hyphen [of "last s"] clean_last [OF clean] slug_char_not_hyphen [of c] Cons by (blast, simp)
  then show ?thesis using Cons unfolding strip_hyphens_def Let_def by simp
qed (simp add: strip_hyphens_def)

text \<open>
  The slug generated for a provider or a tag consists of words of small letters and digits
  with single hyphens between them, whatever the name; and it is the slug of itself, so saving it
  again changes nothing. The name may have no letter or digit at all, then the slug is empty.
\<close>

theorem slug_is_clean:
  "(slug_of name = [] \<or> clean_slug False (slug_of name)) \<and> slug_of (slug_of name) = slug_of name"
proof -
  have c: "slug_of name = [] \<or> clean_slug False (slug_of name)"
    unfolding slug_of_def by (rule strip_clean [OF hyphenate_single])
  moreover have "slug_of (slug_of name) = slug_of name"
  proof (cases "slug_of name = []")
    case True
    then show ?thesis by (simp add: slug_of_def [of "[]"] strip_hyphens_def toLowerCase_def)
  next
    case False
    then have s: "clean_slug False (slug_of name)" using c by simp
    then have "single_hyphens True (slug_of name)" using clean_single [of False] by simp
    then show ?thesis
      using single_lower [of True] single_hyphenate [of True] clean_strip [OF s] by (simp add: slug_of_def [of "slug_of name"])
  qed
  ultimately show ?thesis by blast
qed

section \<open>Types and lists\<close>

text \<open>
  Every type that can be created has a form, and that form sends it to an address of its own:
  the addresses of the types are different, except for the simple ones, which share one address and
  name their type in the request. No type falls through to an undefined address.
\<close>

theorem every_type_has_its_address:
  "distinct (map create_path (filter (\<lambda>t. t \<notin> set BASIC_RESOURCE_TYPES) RESOURCE_TYPES)) \<and>
   list_all (\<lambda>t. create_form t = Catalogue_form \<and> create_path t = ''/api/admin/infrastructure/resources'') BASIC_RESOURCE_TYPES \<and>
   list_all (\<lambda>t. create_path t \<noteq> ''/api/admin/infrastructure/undefined'' \<and>
     create_path t \<noteq> ''/api/admin/infrastructure/operations/undefined'') RESOURCE_TYPES"
  by (intro conjI; code_simp)

text \<open>
  The list of resources asks for exactly what its controls show: the query that is sent
  reads back as the chosen filter, and every change of a filter asks for the first page, only the
  pager for another one.
\<close>

theorem list_query_faithful:
  assumes "CHR ''?'' \<notin> set (aw_api w)"
  shows "search_params (dropWhile (\<lambda>c. c \<noteq> CHR ''?'') (resources_url w typeFilter (filter_edited e f))) =
      Some (resource_params typeFilter (filter_edited e f)) \<and>
    params_get (resource_params typeFilter (filter_edited e f)) ''page'' =
      Some (case e of Set_page n \<Rightarrow> nat_str n | _ \<Rightarrow> nat_str 1)"
proof -
  let ?pre = "aw_api w @ ''/api/admin/infrastructure/resources''" and ?ps = "params_str (resource_params typeFilter (filter_edited e f))"
  have u: "resources_url w typeFilter (filter_edited e f) = ?pre @ ''?'' @ ?ps" by (simp add: resources_url_def)
  have "\<forall>c \<in> set ?pre. c \<noteq> CHR ''?''" using assms by auto
  then have d: "dropWhile (\<lambda>c. c \<noteq> CHR ''?'') (?pre @ ''?'' @ ?ps) = ''?'' @ ?ps" by (subst dropWhile_append2) auto
  have "params_get (resource_params typeFilter (filter_edited e f)) ''page'' = Some (nat_str (rf_page (filter_edited e f)))"
    by (simp add: resource_params_def params_get_def)
  then show ?thesis unfolding u d search_params_str by (simp add: filter_edited_def split: filter_edit.split)
qed

definition demo_filter :: resource_filter where
  "demo_filter = \<lparr>rf_page = 3, rf_search = [], rf_ownership = ''all'', rf_lifecycle = ''current'', rf_type = ''all'', rf_environment = ''all''\<rparr>"

theorem list_query_faithful_witness:
  "search_params (dropWhile (\<lambda>c. c \<noteq> CHR ''?'') (resources_url demo_structured_world None (filter_edited (Set_search '' web & api'') demo_filter))) =
     Some [(''page'', nat_str 1), (''page_size'', ''25''), (''ownership'', ''all''), (''lifecycle'', ''current''), (''search'', ''web & api'')]"
proof -
  let ?f = "filter_edited (Set_search '' web & api'') demo_filter"
  have world: "CHR ''?'' \<notin> set (aw_api demo_structured_world)" by (simp add: demo_structured_world_def)
  have params: "resource_params None ?f =
      [(''page'', nat_str 1), (''page_size'', ''25''), (''ownership'', ''all''), (''lifecycle'', ''current''), (''search'', ''web & api'')]"
    by code_simp
  show ?thesis unfolding params [symmetric] by (rule list_query_faithful [OF world, THEN conjunct1])
qed

end
