(* ===== verification/Infra_Page.thy ===== *)
theory Infra_Page
  imports Infra_Catalogue
begin

text \<open>
  The form for catalogue resources and provider accounts (\<^verbatim>\<open>CatalogueResourceForm.tsx\<close>)
  with the form for a service provider inside (\<^verbatim>\<open>ServiceProviderForm.tsx\<close>), the tags of a
  resource (\<^verbatim>\<open>ResourceTagsCard.tsx\<close>) and the page of a resource with its relationships
  (\<^verbatim>\<open>InfrastructureResourceWorkspace.tsx\<close>). Answers are taken to have the members that the
  interfaces of the code declare.
\<close>

section \<open>Catalogue resources and provider accounts\<close>

definition INITIAL_VALUES :: "(string \<times> string) list" where
  "INITIAL_VALUES =
     [(''name'', []), (''ownership_type'', ''internal''), (''client_id'', []), (''lifecycle_status'', ''active''),
      (''environment'', ''not_applicable''), (''criticality'', ''normal''), (''description'', []), (''provider_id'', []),
      (''account_identifier'', []), (''tenant_id'', []), (''project_id'', []), (''portal_url'', []), (''default_region'', []),
      (''support_plan'', []), (''billing_reference'', [])]"

definition catalogue_init :: infra_form where
  "catalogue_init =
     set_texts INITIAL_VALUES
     \<lparr>stored_token = None, sent = [],
      fi_options = Some (JObj [(''clients'', JArr []), (''providers'', JArr [])]), fi_clients = None,
      fi_loading = True, fi_saving = False, fi_error = None, fi_type = [], fi_ownership = [], fi_clientId = [], fi_clientName = None,
      fi_text = (\<lambda>v. []), fi_flag = (\<lambda>v. False), fi_sources = [], fi_created = [], fi_saved = 0\<rparr>"

text \<open>\<^verbatim>\<open>value != null ? String(value) : initial\<close>, for every input.\<close>

definition catalogue_values :: "json \<Rightarrow> (string \<times> string) list" where
  "catalogue_values detail =
     map (\<lambda>(k, d). (k, case jget detail k of None \<Rightarrow> d | Some JNull \<Rightarrow> d | Some j \<Rightarrow> js_text j)) INITIAL_VALUES"

definition put_member :: "string \<Rightarrow> json \<Rightarrow> json \<Rightarrow> json" where
  "put_member k v j = (case j of JObj kvs \<Rightarrow> JObj (alist_put k v kvs) | _ \<Rightarrow> j)"

definition add_provider :: "json \<Rightarrow> json \<Rightarrow> json" where
  "add_provider provider opts = put_member ''providers'' (JArr (json_list (jget opts ''providers'') @ [provider])) opts"

definition current_provider :: "json \<Rightarrow> json" where
  "current_provider detail =
     JObj [(''id'', nullish (jget detail ''provider_id'') JNull),
       (''name'', JStr (nullish (jstr detail ''provider_name'') ''Current provider'')), (''slug'', JStr []),
       (''category'', JStr ''other''), (''website_url'', JStr []), (''support_url'', JStr []), (''status_page_url'', JStr []),
       (''documentation_url'', JStr []), (''notes'', JStr []), (''is_active'', JBool False)]"

definition with_current_provider :: "json \<Rightarrow> json \<Rightarrow> json" where
  "with_current_provider detail opts =
     (if truthy (jget detail ''provider_id'') \<and>
         \<not> list_ex (\<lambda>p. jget p ''id'' = jget detail ''provider_id'') (json_list (jget opts ''providers''))
      then add_provider (current_provider detail) opts else opts)"

definition catalogue_collection :: "string \<Rightarrow> string" where
  "catalogue_collection type = (if type = ''provider_account'' then ''provider-accounts'' else ''resources'')"

definition catalogue_url :: "admin_world \<Rightarrow> string \<Rightarrow> int option \<Rightarrow> string" where
  "catalogue_url w type edited =
     aw_api w @ ''/api/admin/infrastructure/'' @ catalogue_collection type @
     (case edited of None \<Rightarrow> [] | Some i \<Rightarrow> ''/'' @ int_str i)"

definition catalogue_loaded :: "json \<Rightarrow> json option \<Rightarrow> infra_form \<Rightarrow> infra_form" where
  "catalogue_loaded opts detail s =
     (case detail of
        None \<Rightarrow> s\<lparr>fi_options := Some opts\<rparr>
      | Some d \<Rightarrow> set_texts (catalogue_values d) (s\<lparr>fi_options := Some (with_current_provider d opts)\<rparr>))"

definition catalogue_load :: "admin_world \<Rightarrow> (nat \<Rightarrow> bool) \<Rightarrow> string \<Rightarrow> int option \<Rightarrow> (infra_form, unit) act" where
  "catalogue_load w active type edited =
     finally_act
       (catch_act
         (then_act (set_act (\<lambda>s. set_texts INITIAL_VALUES (s\<lparr>fi_loading := True, fi_error := None\<rparr>)))
           (bind_act
             (both (api_get w (aw_api w @ ''/api/admin/infrastructure/catalogue-options''))
               (case edited of None \<Rightarrow> return_act JNull | Some i \<Rightarrow> api_get w (catalogue_url w type edited)))
             (\<lambda>(opts, detail).
               guard_act (active 0) (set_act (catalogue_loaded opts (if detail = JNull then None else Some detail))))))
         (\<lambda>e. guard_act (active 1) (set_act (fi_error_update (\<lambda>_. Some (message_of ''Unable to load creation options.'' e))))))
       (if active 2 then fi_loading_update (\<lambda>_. False) else (\<lambda>s. s))"

text \<open>Another owner drops the client.\<close>

definition catalogue_field :: "string \<Rightarrow> string \<Rightarrow> infra_form \<Rightarrow> infra_form" where
  "catalogue_field key value s =
     (if key = ''ownership_type'' then set_texts [(''client_id'', []), (key, value)] s else set_text key value s)"

definition provider_added :: "json \<Rightarrow> infra_form \<Rightarrow> infra_form" where
  "provider_added provider s =
     catalogue_field ''provider_id'' (textValue (jget provider ''id''))
       (s\<lparr>fi_options := map_option (add_provider provider) (fi_options s)\<rparr>)"

definition catalogue_body :: "string \<Rightarrow> int option \<Rightarrow> (string \<Rightarrow> string) \<Rightarrow> payload" where
  "catalogue_body type edited fv =
     map (\<lambda>k. (k, V_text (fv k))) [''name'', ''lifecycle_status'', ''environment'', ''criticality'', ''description''] @
     (if edited = None
      then [(''ownership_type'', V_text (fv ''ownership_type'')),
            (''client_id'', if fv ''ownership_type'' = ''client'' then required_number (fv ''client_id'') else V_null)]
      else []) @
     (if type = ''provider_account''
      then (''provider_id'', required_number (fv ''provider_id'')) #
        map (\<lambda>k. (k, V_text (fv k)))
          [''account_identifier'', ''tenant_id'', ''project_id'', ''portal_url'', ''default_region'', ''support_plan'',
           ''billing_reference'']
      else if edited = None then [(''resource_type'', V_text type)] else [])"

definition catalogue_submit :: "admin_world \<Rightarrow> string \<Rightarrow> int option \<Rightarrow> (infra_form, unit) act" where
  "catalogue_submit w type edited s =
     finally_act
       (catch_act
         (then_act (set_act (\<lambda>s. s\<lparr>fi_saving := True, fi_error := None\<rparr>))
           (bind_act
             (api_send w (if edited = None then ''POST'' else ''PATCH'') (catalogue_url w type edited)
               (TextBody (payload_text (catalogue_body type edited (fi_text s)))))
             (\<lambda>result. if edited = None
                then bind_act (lift_act (non_null result)) (\<lambda>j. set_act (\<lambda>s. s\<lparr>fi_created := fi_created s @ [jget j ''resource_id'']\<rparr>))
                else set_act (\<lambda>s. s\<lparr>fi_saved := fi_saved s + 1\<rparr>))))
         (\<lambda>e. set_act (fi_error_update (\<lambda>_. Some (message_of ''Unable to save resource.'' e)))))
       (fi_saving_update (\<lambda>_. False)) s"

interpretation catalogue_saving: submit_handler "catalogue_submit w type edited" fi_saving
  by (intro submit_handlerI) (simp add: catalogue_submit_def form_simps)

section \<open>Service providers\<close>

record provider_form = net +
  pv_values :: "(string \<times> json) list"
  pv_saving :: bool
  pv_error :: "string option"
  pv_done :: "json list"

definition provider_init :: "(string \<times> json) list option \<Rightarrow> provider_form" where
  "provider_init existing =
     \<lparr>stored_token = None, sent = [],
      pv_values = alist_spread
        [(''name'', JStr []), (''slug'', JStr []), (''category'', JStr ''cloud''), (''website_url'', JStr []), (''support_url'', JStr []),
         (''status_page_url'', JStr []), (''documentation_url'', JStr []), (''notes'', JStr []), (''is_active'', JBool True)]
        (nullish existing []),
      pv_saving = False, pv_error = None, pv_done = []\<rparr>"

definition provider_field :: "string \<Rightarrow> json \<Rightarrow> provider_form \<Rightarrow> provider_form" where
  "provider_field key value s = s\<lparr>pv_values := alist_put key value (pv_values s)\<rparr>"

definition provider_body :: "(string \<times> json) list \<Rightarrow> (string \<times> json) list" where
  "provider_body values =
     alist_put ''slug''
       (JStr (chosen_slug (nullish (jstr (JObj values) ''slug'') []) (nullish (jstr (JObj values) ''name'') []))) values"

definition providers_url :: "admin_world \<Rightarrow> (string \<times> json) list option \<Rightarrow> string" where
  "providers_url w existing =
     aw_api w @ ''/api/admin/infrastructure/service-providers'' @
     (case existing of None \<Rightarrow> [] | Some kvs \<Rightarrow> ''/'' @ textValue (map_of kvs ''id''))"

definition provider_submit :: "admin_world \<Rightarrow> (string \<times> json) list option \<Rightarrow> (provider_form, unit) act" where
  "provider_submit w existing s =
     finally_act
       (catch_act
         (then_act (set_act (\<lambda>s. s\<lparr>pv_saving := True, pv_error := None\<rparr>))
           (bind_act
             (api_send w (if existing = None then ''POST'' else ''PATCH'') (providers_url w existing)
               (TextBody (JSON_stringify (JObj (provider_body (pv_values s))))))
             (\<lambda>saved. set_act (\<lambda>s. s\<lparr>pv_done := pv_done s @ [saved]\<rparr>))))
         (\<lambda>e. set_act (pv_error_update (\<lambda>_. Some (message_of ''Unable to save service provider.'' e)))))
       (pv_saving_update (\<lambda>_. False)) s"

interpretation provider_saving: submit_handler "provider_submit w existing" pv_saving
  by (intro submit_handlerI) (simp add: provider_submit_def form_simps)

section \<open>Tags\<close>

record tag_card = net +
  tg_options :: "json list"
  tg_search :: string
  tg_selected :: string
  tg_editing :: "int option"
  tg_creating :: bool
  tg_name :: string
  tg_slug :: string
  tg_colour :: string
  tg_saving :: bool
  tg_error :: "string option"
  tg_changed :: nat

definition tags_editable :: "(string \<Rightarrow> bool) \<Rightarrow> bool" where
  "tags_editable has \<longleftrightarrow> has (infra ''change_infrastructureresource'') \<and> has (infra ''view_infrastructuretag'')"

definition tags_url :: "admin_world \<Rightarrow> string" where
  "tags_url w = aw_api w @ ''/api/admin/infrastructure/tags''"

definition tags_load :: "admin_world \<Rightarrow> bool \<Rightarrow> bool \<Rightarrow> (tag_card, unit) act" where
  "tags_load w canEdit active s =
     (if \<not> canEdit then (s, Inr ())
      else catch_act
        (bind_act (api_get w (tags_url w @ ''?'' @ params_str [(''search'', tg_search s), (''page_size'', ''100'')]))
          (\<lambda>j. guard_act active (set_act (\<lambda>s. s\<lparr>tg_options := json_list (jget j ''items''), tg_error := None\<rparr>))))
        (\<lambda>e. guard_act active (set_act (tg_error_update (\<lambda>_. Some (message_of ''Unable to load tags.'' e))))) s)"

definition assigned_url :: "admin_world \<Rightarrow> int \<Rightarrow> int \<Rightarrow> string" where
  "assigned_url w rid i = aw_api w @ ''/api/admin/infrastructure/resources/'' @ int_str rid @ ''/tags/'' @ int_str i"

definition tag_assign :: "admin_world \<Rightarrow> int \<Rightarrow> int \<Rightarrow> bool \<Rightarrow> (tag_card, unit) act" where
  "tag_assign w rid i gone =
     finally_act
       (catch_act
         (then_act (set_act (\<lambda>s. s\<lparr>tg_saving := True, tg_error := None\<rparr>))
           (bind_act (api_send w (if gone then ''DELETE'' else ''PUT'') (assigned_url w rid i) NoBody)
             (\<lambda>j. set_act (\<lambda>s. s\<lparr>tg_selected := [], tg_changed := tg_changed s + 1\<rparr>))))
         (\<lambda>e. set_act (tg_error_update (\<lambda>_. Some (message_of ''Unable to update tags.'' e)))))
       (tg_saving_update (\<lambda>_. False))"

definition tag_body :: "tag_card \<Rightarrow> payload" where
  "tag_body s =
     [(''name'', V_text (tg_name s)), (''slug'', V_text (chosen_slug (tg_slug s) (tg_name s))), (''colour'', V_text (tg_colour s))]"

definition tag_id :: "json \<Rightarrow> int" where
  "tag_id j = (case jget j ''id'' of Some (JNum n) \<Rightarrow> n | _ \<Rightarrow> 0)"

definition tag_created :: "json \<Rightarrow> tag_card \<Rightarrow> tag_card" where
  "tag_created tag s =
     s\<lparr>tg_options := filter (\<lambda>item. tag_id item \<noteq> tag_id tag) (tg_options s) @ [tag], tg_creating := False,
       tg_name := [], tg_slug := [], tg_colour := []\<rparr>"

definition tag_create :: "admin_world \<Rightarrow> int \<Rightarrow> (tag_card, unit) act" where
  "tag_create w rid s =
     finally_act
       (catch_act
         (then_act (set_act (\<lambda>s. s\<lparr>tg_saving := True, tg_error := None\<rparr>))
           (bind_act
             (api_send w (if tg_editing s = None then ''POST'' else ''PATCH'') (tags_url w @ (case tg_editing s of None \<Rightarrow> [] | Some i \<Rightarrow> ''/'' @ int_str i))
               (TextBody (payload_text (tag_body s))))
             (\<lambda>tag. then_act (set_act (tag_created tag))
               (then_act
                 (if tg_editing s = None then tag_assign w rid (tag_id tag) False
                  else set_act (\<lambda>s. s\<lparr>tg_changed := tg_changed s + 1\<rparr>))
                 (set_act (tg_editing_update (\<lambda>_. None)))))))
         (\<lambda>e. set_act (tg_error_update (\<lambda>_. Some (message_of ''Unable to create tag.'' e)))))
       (tg_saving_update (\<lambda>_. False)) s"

definition tag_edit :: "json \<Rightarrow> tag_card \<Rightarrow> tag_card" where
  "tag_edit tag s =
     s\<lparr>tg_editing := Some (tag_id tag), tg_name := nullish (jstr tag ''name'') [], tg_slug := nullish (jstr tag ''slug'') [],
       tg_colour := nullish (jstr tag ''colour'') [], tg_creating := True\<rparr>"

text \<open>The tags the select offers: those the resource does not have.\<close>

definition tags_offered :: "json list \<Rightarrow> tag_card \<Rightarrow> json list" where
  "tags_offered tags s = filter (\<lambda>tag. \<not> list_ex (\<lambda>current. tag_id current = tag_id tag) tags) (tg_options s)"

interpretation tag_assigning: submit_handler "tag_assign w rid i gone" tg_saving
  by (intro submit_handlerI) (simp add: tag_assign_def form_simps)

interpretation tag_creating: submit_handler "tag_create w rid" tg_saving
  by (intro submit_handlerI) (simp add: tag_create_def form_simps)

section \<open>The page of a resource\<close>

definition SPECIALIST_CHANGE_PERMISSIONS :: "(string \<times> string) list" where
  "SPECIALIST_CHANGE_PERMISSIONS =
     [(''server'', infra ''change_serverprofile''), (''network'', infra ''change_network''), (''subnet'', infra ''change_subnet''),
      (''database_instance'', infra ''change_databaseinstance''), (''logical_database'', infra ''change_logicaldatabase''),
      (''application'', infra ''change_applicationprofile''), (''application_environment'', infra ''change_applicationenvironment''),
      (''source_repository'', infra ''change_sourcerepository''), (''website'', infra ''change_websiteprofile''),
      (''website_endpoint'', infra ''change_websiteendpoint''), (''domain'', infra ''change_domainprofile''),
      (''dns_zone'', infra ''change_dnszone''), (''tls_certificate'', infra ''change_tlscertificate''),
      (''storage'', infra ''change_storageprofile''), (''backup_plan'', infra ''change_backupplanprofile''),
      (''container_stack'', infra ''change_containerstackprofile''), (''kubernetes_cluster'', infra ''change_kubernetesclusterprofile''),
      (''kubernetes_namespace'', infra ''change_kubernetesnamespaceprofile''),
      (''kubernetes_workload'', infra ''change_kubernetesworkloadprofile''), (''system_service'', infra ''change_systemserviceprofile''),
      (''scheduled_job'', infra ''change_scheduledjobprofile'')]"

definition editableSpecialistType :: "string \<Rightarrow> string option" where
  "editableSpecialistType value =
     (if value \<in> set [''server'', ''network'', ''subnet'', ''database_instance'', ''logical_database'', ''application'',
        ''application_environment'', ''source_repository'', ''website'', ''website_endpoint'', ''domain'', ''dns_zone'',
        ''tls_certificate'', ''storage'', ''backup_plan'', ''container_stack'', ''kubernetes_cluster'', ''kubernetes_namespace'',
        ''kubernetes_workload'', ''system_service'', ''scheduled_job'']
      then Some value else None)"

definition isComputeSpecialistType :: "string \<Rightarrow> bool" where
  "isComputeSpecialistType value \<longleftrightarrow> value = ''server'' \<or> value = ''network'' \<or> value = ''subnet''"

definition isWebDomainType :: "string \<Rightarrow> bool" where
  "isWebDomainType value \<longleftrightarrow>
     value = ''website'' \<or> value = ''website_endpoint'' \<or> value = ''domain'' \<or> value = ''dns_zone'' \<or> value = ''tls_certificate''"

definition isOperationalType :: "string \<Rightarrow> bool" where
  "isOperationalType value \<longleftrightarrow>
     value \<in> set [''storage'', ''backup_plan'', ''container_stack'', ''kubernetes_cluster'', ''kubernetes_namespace'',
       ''kubernetes_workload'', ''system_service'', ''scheduled_job'']"

definition canEditCatalogue :: "string \<Rightarrow> (string \<Rightarrow> bool) \<Rightarrow> bool" where
  "canEditCatalogue type has \<longleftrightarrow>
     isCatalogueResourceType type \<and> has (infra ''change_infrastructureresource'') \<and>
     (type \<noteq> ''provider_account'' \<or>
        has (infra ''view_provideraccount'') \<and> has (infra ''view_serviceprovider'') \<and> has (infra ''change_provideraccount''))"

definition canEdit :: "string \<Rightarrow> (string \<Rightarrow> bool) \<Rightarrow> bool" where
  "canEdit type has \<longleftrightarrow>
     canEditCatalogue type has \<or>
     (case editableSpecialistType type of
        None \<Rightarrow> False
      | Some t \<Rightarrow> has (infra ''change_infrastructureresource'') \<and>
          has (nullish (map_of SPECIALIST_CHANGE_PERMISSIONS t) ''undefined''))"

text \<open>The form that editing opens; none leaves the page as it is.\<close>

definition edit_form :: "string \<Rightarrow> resource_form option" where
  "edit_form type =
     (if isCatalogueResourceType type then Some Catalogue_form
      else map_option (\<lambda>t. if isComputeSpecialistType t then Structured_form else if isWebDomainType t then Web_form
        else if isOperationalType t then Operational_form else Data_form) (editableSpecialistType type))"

section \<open>Relationships\<close>

record relations = net +
  rl_resource :: "json option"
  rl_loading :: bool
  rl_error :: "string option"
  rl_isEditing :: bool
  rl_editing :: "json option"
  rl_notes :: string
  rl_show :: bool
  rl_options :: "json option"
  rl_type :: string
  rl_target :: string
  rl_label :: string
  rl_relError :: "string option"
  rl_saving :: bool
  rl_deleting :: "int option"

definition resource_load :: "admin_world \<Rightarrow> int \<Rightarrow> (relations, unit) act" where
  "resource_load w rid =
     finally_act
       (catch_act
         (then_act (set_act (\<lambda>s. s\<lparr>rl_loading := True, rl_error := None\<rparr>))
           (bind_act (api_get w (aw_api w @ ''/api/admin/infrastructure/resources/'' @ int_str rid))
             (\<lambda>j. set_act (rl_resource_update (\<lambda>_. json_value j)))))
         (\<lambda>e. set_act (rl_error_update (\<lambda>_. Some (message_of ''Unable to load this infrastructure resource.'' e)))))
       (rl_loading_update (\<lambda>_. False))"

text \<open>Changes of the infrastructure reload the page, unless it is being edited.\<close>

definition resource_refresh :: "admin_world \<Rightarrow> int \<Rightarrow> (relations, unit) act" where
  "resource_refresh w rid s = (if rl_isEditing s then (s, Inr ()) else resource_load w rid s)"

definition resource_changed :: "relations \<Rightarrow> relations" where
  "resource_changed s =
     s\<lparr>rl_isEditing := False, rl_show := False, rl_options := None, rl_type := [], rl_target := [], rl_label := [], rl_relError := None\<rparr>"

definition first_type :: "json option \<Rightarrow> string" where
  "first_type opts =
     (case json_list (Option.bind opts (\<lambda>j. jget j ''relationship_types'')) of [] \<Rightarrow> [] | t # ts \<Rightarrow> nullish (jstr t ''value'') [])"

definition type_of_relation :: "json option \<Rightarrow> json option \<Rightarrow> string" where
  "type_of_relation relationship opts = nullish (Option.bind relationship (\<lambda>r. jstr r ''relationship_type'')) (first_type opts)"

definition relation_opened :: "json option \<Rightarrow> relations \<Rightarrow> relations" where
  "relation_opened relationship s =
     s\<lparr>rl_editing := relationship,
       rl_target := (case relationship of None \<Rightarrow> [] | Some r \<Rightarrow> textValue (jget r ''related_resource_id'')),
       rl_label := nullish (Option.bind relationship (\<lambda>r. jstr r ''label'')) [],
       rl_notes := nullish (Option.bind relationship (\<lambda>r. jstr r ''notes'')) [],
       rl_type := type_of_relation relationship (rl_options s), rl_show := True, rl_relError := None\<rparr>"

text \<open>The answer with the options, asked for when this relationship was opened.\<close>

definition relation_options :: "json option \<Rightarrow> json \<Rightarrow> relations \<Rightarrow> relations" where
  "relation_options relationship opts s = s\<lparr>rl_options := Some opts, rl_type := type_of_relation relationship (Some opts)\<rparr>"

definition openRelationshipForm :: "admin_world \<Rightarrow> int \<Rightarrow> json option \<Rightarrow> (relations, unit) act" where
  "openRelationshipForm w rid relationship s =
     (if rl_options s \<noteq> None then (relation_opened relationship s, Inr ())
      else catch_act
        (bind_act (api_get w (aw_api w @ ''/api/admin/infrastructure/resources/'' @ int_str rid @ ''/relationship-options''))
          (\<lambda>opts. set_act (relation_options relationship opts)))
        (\<lambda>e. set_act (rl_relError_update (\<lambda>_. Some (message_of ''Unable to load relationship options.'' e))))
        (relation_opened relationship s))"

definition closeRelationshipForm :: "relations \<Rightarrow> relations" where
  "closeRelationshipForm s = (if rl_saving s then s else s\<lparr>rl_show := False, rl_target := [], rl_label := [], rl_relError := None\<rparr>)"

definition relation_body :: "relations \<Rightarrow> payload" where
  "relation_body s =
     [(''target_resource_id'', required_number (rl_target s)), (''relationship_type'', V_text (rl_type s)),
      (''label'', trimmed (rl_label s)), (''notes'', trimmed (rl_notes s))]"

definition relations_url :: "admin_world \<Rightarrow> int \<Rightarrow> json option \<Rightarrow> string" where
  "relations_url w rid relationship =
     aw_api w @ ''/api/admin/infrastructure/resources/'' @ int_str rid @ ''/relationships'' @
     (case relationship of None \<Rightarrow> [] | Some r \<Rightarrow> ''/'' @ textValue (jget r ''id''))"

definition createRelationship :: "admin_world \<Rightarrow> int \<Rightarrow> (relations, unit) act" where
  "createRelationship w rid s =
     (if rl_type s = [] \<or> rl_target s = []
      then (s\<lparr>rl_relError := Some ''Choose a relationship type and target resource.''\<rparr>, Inr ())
      else finally_act
        (catch_act
          (then_act (set_act (\<lambda>s. s\<lparr>rl_saving := True, rl_relError := None\<rparr>))
            (bind_act
              (api_send w (if rl_editing s = None then ''POST'' else ''PATCH'') (relations_url w rid (rl_editing s))
                (TextBody (payload_text (relation_body s))))
              (\<lambda>j. then_act (set_act (\<lambda>s. s\<lparr>rl_show := False, rl_target := [], rl_label := []\<rparr>)) (resource_load w rid))))
          (\<lambda>e. set_act (rl_relError_update (\<lambda>_. Some (message_of ''Unable to create this relationship.'' e)))))
        (rl_saving_update (\<lambda>_. False)) s)"

definition deleteRelationship :: "admin_world \<Rightarrow> bool \<Rightarrow> int \<Rightarrow> json \<Rightarrow> (relations, unit) act" where
  "deleteRelationship w confirmed rid relationship =
     (if \<not> confirmed then return_act ()
      else finally_act
        (catch_act
          (then_act (set_act (\<lambda>s. s\<lparr>rl_deleting := Some (tag_id relationship), rl_relError := None\<rparr>))
            (bind_act (api_send w ''DELETE'' (relations_url w rid (Some relationship)) NoBody) (\<lambda>j. resource_load w rid)))
          (\<lambda>e. set_act (rl_relError_update (\<lambda>_. Some (message_of ''Unable to remove this relationship.'' e)))))
        (rl_deleting_update (\<lambda>_. None)))"

interpretation relation_saving: submit_handler "createRelationship w rid" rl_saving
  by (intro submit_handlerI) (simp add: createRelationship_def form_simps)

interpretation relation_deleting: submit_handler "deleteRelationship w confirmed rid relationship" "\<lambda>s. rl_deleting s \<noteq> None"
  by (intro submit_handlerI) (simp add: deleteRelationship_def form_simps return_act_def)

section \<open>What the page keeps\<close>

lemma catalogue_value:
  "(k, d) \<in> set INITIAL_VALUES \<Longrightarrow> jget detail k = Some j \<Longrightarrow> j \<noteq> JNull \<Longrightarrow>
   fi_text (set_texts (catalogue_values detail) s) k = js_text j"
proof -
  assume k: "(k, d) \<in> set INITIAL_VALUES" and j: "jget detail k = Some j" "j \<noteq> JNull"
  have "distinct (map fst (catalogue_values detail))"
    by (simp add: catalogue_values_def INITIAL_VALUES_def list_eq char_eq del: list.inject char.inject)
  moreover have "(k, js_text j) \<in> set (catalogue_values detail)"
    unfolding catalogue_values_def set_map by (rule image_eqI [OF _ k]) (use j in \<open>simp split: json.split\<close>)
  ultimately show ?thesis by (simp add: text_of_map)
qed

definition texts_of :: "string list" where
  "texts_of = [''name'', ''lifecycle_status'', ''environment'', ''criticality'', ''description'']"

definition account_texts :: "string list" where
  "account_texts =
     [''account_identifier'', ''tenant_id'', ''project_id'', ''portal_url'', ''default_region'', ''support_plan'', ''billing_reference'']"

definition any_text :: "json option \<Rightarrow> bool" where
  "any_text v = (case v of Some (JStr s) \<Rightarrow> True | _ \<Rightarrow> False)"

definition catalogue_schema :: "string \<Rightarrow> (string \<times> (json option \<Rightarrow> bool)) list" where
  "catalogue_schema type =
     map (\<lambda>k. (k, any_text)) texts_of @
     (if type = ''provider_account'' then (''provider_id'', proper_reference) # map (\<lambda>k. (k, any_text)) account_texts else [])"

lemma catalogue_text_kept:
  assumes "any_text (jget detail k)" "k \<in> set texts_of \<or> k \<in> set account_texts"
  shows "stored (V_text (fi_text (set_texts (catalogue_values detail) s) k)) (jget detail k)"
proof -
  obtain t where t: "jget detail k = Some (JStr t)" using assms(1) by (auto simp: any_text_def split: option.splits json.splits)
  have "k \<in> set (map fst INITIAL_VALUES)"
    using assms(2) unfolding texts_of_def account_texts_def INITIAL_VALUES_def
    by (auto simp: list_eq char_eq simp del: list.inject char.inject)
  then obtain d where "(k, d) \<in> set INITIAL_VALUES" by auto
  from catalogue_value [OF this t] show ?thesis by (simp add: t)
qed

lemma provider_kept:
  assumes "proper_reference (jget detail ''provider_id'')"
  shows "stored (required_number (fi_text (set_texts (catalogue_values detail) s) ''provider_id'')) (jget detail ''provider_id'')"
proof -
  obtain n where n: "jget detail ''provider_id'' = Some (JNum n)" "0 \<le> n"
    using assms by (auto simp: proper_reference_def split: option.splits json.splits)
  have "(''provider_id'', []) \<in> set INITIAL_VALUES" by (simp add: INITIAL_VALUES_def)
  from catalogue_value [OF this n(1)] show ?thesis using n by (simp add: required_number_def js_Number_int_str)
qed

text \<open>
  Editing a catalogue resource or a provider account and saving without a change sends what is
  stored, every text as it is and the provider by its number, and asks neither for another owner nor
  for another type.
\<close>

theorem untouched_catalogue_resource_is_kept:
  assumes "proper_values (catalogue_schema type) detail"
  shows "same_values (catalogue_body type (Some i) (fi_text (catalogue_loaded opts (Some detail) s))) detail \<and>
    map fst (catalogue_body type (Some i) (fi_text (catalogue_loaded opts (Some detail) s))) = map fst (catalogue_schema type)"
proof -
  let ?t = "fi_text (set_texts (catalogue_values detail) (s\<lparr>fi_options := Some (with_current_provider detail opts)\<rparr>))"
  have v: "p (jget detail k)" if "(k, p) \<in> set (catalogue_schema type)" for k p
    using assms that by (auto simp: proper_values_def list_all_iff)
  have k: "\<forall>k \<in> set texts_of. stored (V_text (?t k)) (jget detail k)"
    by (intro ballI catalogue_text_kept disjI1) (rule v; simp add: catalogue_schema_def)
  have a: "type = ''provider_account'' \<Longrightarrow> \<forall>k \<in> set account_texts. stored (V_text (?t k)) (jget detail k)"
    by (intro ballI catalogue_text_kept disjI2) (rule v; simp add: catalogue_schema_def)
  have p: "type = ''provider_account'' \<Longrightarrow> stored (required_number (?t ''provider_id'')) (jget detail ''provider_id'')"
    by (rule provider_kept, rule v [of "''provider_id''" proper_reference]) (simp add: catalogue_schema_def)
  have b: "catalogue_body type (Some i) f = map (\<lambda>k. (k, V_text (f k))) texts_of @
      (if type = ''provider_account'' then (''provider_id'', required_number (f ''provider_id'')) # map (\<lambda>k. (k, V_text (f k))) account_texts
       else [])" for f
    by (simp add: catalogue_body_def texts_of_def account_texts_def)
  have "same_values (catalogue_body type (Some i) ?t) detail"
    using k a p unfolding b same_values_def list_all_iff by (simp del: stored.simps) blast
  moreover have "map fst (catalogue_body type (Some i) ?t) = map fst (catalogue_schema type)"
    unfolding b catalogue_schema_def by simp
  ultimately show ?thesis by (simp add: catalogue_loaded_def)
qed

definition demo_account :: json where
  "demo_account = JObj
     ((''provider_id'', JNum 4) # map (\<lambda>k. (k, JStr ''x ''))
       [''name'', ''lifecycle_status'', ''environment'', ''criticality'', ''description'', ''account_identifier'', ''tenant_id'', ''project_id'',
        ''portal_url'', ''default_region'', ''support_plan'', ''billing_reference''])"

theorem untouched_catalogue_resource_is_kept_witness:
  "same_values (catalogue_body ''provider_account'' (Some 3)
     (fi_text (catalogue_loaded (JObj [(''providers'', JArr [])]) (Some demo_account) catalogue_init))) demo_account"
proof -
  have "proper_values (catalogue_schema ''provider_account'') demo_account" by code_simp
  from untouched_catalogue_resource_is_kept [OF this] show ?thesis by blast
qed

text \<open>
  When loading fails, the form for an existing resource shows the values of a new one, and
  saving would send them: only the name has to be filled in.
\<close>

definition offline_world :: admin_world where
  "offline_world = \<lparr>aw_server = (\<lambda>h r. Inl (Err ''TypeError'' ''Failed to fetch'')), aw_document = None, aw_api = ''https://api.example''\<rparr>"

lemma failed_load_shows_new_values:
  "let s = fst (catalogue_load offline_world (\<lambda>n. True) ''api'' (Some 3) catalogue_init)
   in fi_loading s = False \<and> fi_error s = Some ''Failed to fetch'' \<and>
     (''lifecycle_status'', V_text ''active'') \<in> set (catalogue_body ''api'' (Some 3) (fi_text s))"
  by code_simp

section \<open>Editing what can be created\<close>

text \<open>
  The page of a resource edits every type that can be created, with the form that creates it;
  the button is there only with the permission to change resources and, where the type has one,
  the permission to change its profile; and whenever the button is there a form opens, whatever type
  the answer of the server names.
\<close>

theorem edit_uses_the_create_form:
  "list_all (\<lambda>type. edit_form type = Some (create_form type) \<and> canEdit type (\<lambda>p. True)) RESOURCE_TYPES \<and>
   (canEdit type has \<longrightarrow> edit_form type \<noteq> None \<and> has (infra ''change_infrastructureresource'') \<and>
     (\<forall>p. map_of SPECIALIST_CHANGE_PERMISSIONS type = Some p \<longrightarrow> has p))"
proof (intro conjI impI allI)
  show "list_all (\<lambda>type. edit_form type = Some (create_form type) \<and> canEdit type (\<lambda>p. True)) RESOURCE_TYPES"
    by code_simp
next
  assume e: "canEdit type has"
  then show "edit_form type \<noteq> None" "has (infra ''change_infrastructureresource'')"
    by (auto simp: canEdit_def canEditCatalogue_def edit_form_def split: option.splits)
  fix p assume p: "map_of SPECIALIST_CHANGE_PERMISSIONS type = Some p"
  then have "type \<in> fst ` set SPECIALIST_CHANGE_PERMISSIONS" by (metis domI dom_map_of_conv_image_fst)
  moreover have "list_all (\<lambda>t. \<not> isCatalogueResourceType t) (map fst SPECIALIST_CHANGE_PERMISSIONS)" by code_simp
  ultimately have "\<not> isCatalogueResourceType type" by (auto simp: list_all_iff)
  then show "has p" using e p
    by (auto simp: canEdit_def canEditCatalogue_def editableSpecialistType_def nullish_def split: option.splits if_splits)
qed

definition storage_editor :: "string \<Rightarrow> bool" where
  "storage_editor p \<longleftrightarrow> p = infra ''change_infrastructureresource'' \<or> p = infra ''change_storageprofile''"

theorem edit_uses_the_create_form_witness:
  "edit_form ''storage'' \<noteq> None \<and> storage_editor (infra ''change_storageprofile'')"
proof -
  have "canEdit ''storage'' storage_editor" "map_of SPECIALIST_CHANGE_PERMISSIONS ''storage'' = Some (infra ''change_storageprofile'')"
    by code_simp+
  then show ?thesis using edit_uses_the_create_form [of "''storage''" storage_editor] by blast
qed

text \<open>
  Opening a relationship and saving it without a change sends what is stored to the address of that
  relationship, whether its options were loaded before, are loaded now or cannot be loaded.
\<close>

theorem untouched_relationship_is_kept:
  assumes "jget r ''related_resource_id'' = Some (JNum n)" "0 \<le> n"
    and "jget r ''relationship_type'' = Some (JStr t)"
    and "jget r ''label'' = Some (JStr l)" "trim l = l" "jget r ''notes'' = Some (JStr ns)" "trim ns = ns"
  shows "relation_body (fst (openRelationshipForm w rid (Some r) s)) =
      [(''target_resource_id'', V_num (Dec n 0)), (''relationship_type'', V_text t), (''label'', V_text l), (''notes'', V_text ns)] \<and>
    relations_url w rid (rl_editing (fst (openRelationshipForm w rid (Some r) s))) = relations_url w rid (Some r)"
proof -
  let ?P = "\<lambda>s. rl_editing s = Some r \<and> rl_target s = int_str n \<and> rl_type s = t \<and> rl_label s = l \<and> rl_notes s = ns"
  have opened: "?P (relation_opened (Some r) s)" for s
    using assms by (simp add: relation_opened_def type_of_relation_def textValue_def jstr_def nullish_def)
  have "leaves ?P ?P (catch_act (bind_act (api_get w u) (\<lambda>opts. set_act (relation_options (Some r) opts)))
      (\<lambda>e. set_act (rl_relError_update (\<lambda>_. Some (message_of m e)))))" for u m
    by (intro act_intros) (use assms in \<open>auto simp: relation_options_def type_of_relation_def jstr_def nullish_def\<close>)
  then have "?P (fst (openRelationshipForm w rid (Some r) s))"
    using opened by (simp add: openRelationshipForm_def leaves_def)
  then show ?thesis using assms by (simp add: relation_body_def required_number_def js_Number_int_str trimmed_def)
qed

definition demo_relation :: json where
  "demo_relation = JObj [(''id'', JNum 7), (''related_resource_id'', JNum 3), (''relationship_type'', JStr ''hosted_on''),
     (''label'', JStr ''primary''), (''notes'', JStr [])]"

definition demo_relations :: relations where
  "demo_relations =
     \<lparr>stored_token = None, sent = [], rl_resource = None, rl_loading = False, rl_error = None, rl_isEditing = False, rl_editing = None,
      rl_notes = [], rl_show = False, rl_options = None, rl_type = [], rl_target = [], rl_label = [], rl_relError = None,
      rl_saving = False, rl_deleting = None\<rparr>"

theorem untouched_relationship_is_kept_witness:
  "relation_body (fst (openRelationshipForm demo_structured_world 5 (Some demo_relation) demo_relations)) =
     [(''target_resource_id'', V_num (Dec 3 0)), (''relationship_type'', V_text ''hosted_on''), (''label'', V_text ''primary''),
      (''notes'', V_text [])]"
  by (rule untouched_relationship_is_kept [THEN conjunct1])
    (simp_all add: demo_relation_def trim_def trim_start_def js_space_def)

text \<open>
  The answer with the options sets the type of the relationship it was asked for, although another
  one may be open by then: the other one is then saved with a type that is not its own.
\<close>

lemma late_options_change_type:
  assumes "jget a ''relationship_type'' = Some (JStr t)"
  shows "let s' = relation_options (Some a) opts (relation_opened (Some b) s)
    in rl_editing s' = Some b \<and> rl_target s' = rl_target (relation_opened (Some b) s) \<and> rl_type s' = t"
  using assms by (simp add: relation_options_def relation_opened_def type_of_relation_def jstr_def nullish_def)

end
