(* ===== verification/Admin_Lists.thy ===== *)
theory Admin_Lists
  imports State_Machine Uri_Codec Js_Net
begin

text \<open>
  The pages of the admin application that list records a page at a time: the controls make a
  query, a change of the query loads the list again, and change events of the server load it as
  well. Several loads can be on their way at once. The pages differ in five respects:

  \<^item> \<open>st_debounced\<close>: the load begins after a timer, which every change of the query
    starts anew, or at once;
  \<^item> \<open>st_reset_later\<close>: a changed control resets the page by an effect of its own,
    after the effect that loads, or together with the control;
  \<^item> \<open>st_tagged\<close>: a load takes a number and its answer is used only if no later
    number was given (\<^verbatim>\<open>requestRef\<close>), or every answer is used;
  \<^item> \<open>st_clears\<close>: the effect takes the records off the screen before it loads;
  \<^item> \<open>st_keeps_error\<close>: an old message is cleared by the next records and not when a
    load begins.

  \<open>query\<close> is the query string for a page and the controls. A failed load keeps its message.
\<close>

record style =
  st_debounced :: bool
  st_reset_later :: bool
  st_tagged :: bool
  st_clears :: bool
  st_keeps_error :: bool

record 'f lister =
  ls_page :: nat
  ls_controls :: 'f
  ls_timer :: "string option"
  ls_sequence :: nat
  ls_runs :: "(nat \<times> string) list"
  ls_data :: "(string \<times> json) option"
  ls_loading :: bool
  ls_error :: "string option"

definition current :: "(nat \<Rightarrow> 'f \<Rightarrow> string) \<Rightarrow> 'f lister \<Rightarrow> string" where
  "current query s = query (ls_page s) (ls_controls s)"

definition begin_load :: "style \<Rightarrow> string \<Rightarrow> 'f lister \<Rightarrow> 'f lister" where
  "begin_load st q s =
     (let n = (if st_tagged st then Suc (ls_sequence s) else ls_sequence s)
      in s\<lparr>ls_sequence := n, ls_runs := ls_runs s @ [(n, q)], ls_loading := True,
           ls_error := (if st_keeps_error st then ls_error s else None)\<rparr>)"

text \<open>The effect of a rendering with another query: the cleanup of the last one, then its own work.\<close>

definition load_effect :: "style \<Rightarrow> (nat \<Rightarrow> 'f \<Rightarrow> string) \<Rightarrow> string \<Rightarrow> 'f lister \<Rightarrow> 'f lister" where
  "load_effect st query old s =
     (if current query s = old then s
      else let s' = (if st_tagged st then s\<lparr>ls_sequence := Suc (ls_sequence s)\<rparr> else s)
                  \<lparr>ls_data := (if st_clears st then None else ls_data s)\<rparr>
           in if st_debounced st then s'\<lparr>ls_timer := Some (current query s)\<rparr> else begin_load st (current query s) s')"

definition list_init :: "style \<Rightarrow> (nat \<Rightarrow> 'f \<Rightarrow> string) \<Rightarrow> 'f \<Rightarrow> 'f lister" where
  "list_init st query f =
     (let s = \<lparr>ls_page = 1, ls_controls = f, ls_timer = None, ls_sequence = 0, ls_runs = [], ls_data = None, ls_loading = True, ls_error = None\<rparr>
      in if st_debounced st then s\<lparr>ls_timer := Some (query 1 f)\<rparr> else begin_load st (query 1 f) s)"

definition set_controls :: "style \<Rightarrow> (nat \<Rightarrow> 'f \<Rightarrow> string) \<Rightarrow> 'f \<Rightarrow> 'f lister \<Rightarrow> 'f lister" where
  "set_controls st query f s =
     (if st_reset_later st
      then (if f = ls_controls s then s
            else let s' = load_effect st query (current query s) (s\<lparr>ls_controls := f\<rparr>)
                 in load_effect st query (current query s') (s'\<lparr>ls_page := 1\<rparr>))
      else load_effect st query (current query s) (s\<lparr>ls_controls := f, ls_page := 1\<rparr>))"

definition turn :: "style \<Rightarrow> (nat \<Rightarrow> 'f \<Rightarrow> string) \<Rightarrow> nat \<Rightarrow> 'f lister \<Rightarrow> 'f lister" where
  "turn st query p s = load_effect st query (current query s) (s\<lparr>ls_page := p\<rparr>)"

definition fire :: "style \<Rightarrow> 'f lister \<Rightarrow> 'f lister" where
  "fire st s = (case ls_timer s of None \<Rightarrow> s | Some q \<Rightarrow> begin_load st q (s\<lparr>ls_timer := None\<rparr>))"

definition refresh :: "style \<Rightarrow> (nat \<Rightarrow> 'f \<Rightarrow> string) \<Rightarrow> 'f lister \<Rightarrow> 'f lister" where
  "refresh st query s = begin_load st (current query s) s"

text \<open>The answer of the \<open>i\<close>-th load that is on its way.\<close>

definition answered :: "style \<Rightarrow> nat \<Rightarrow> string + json \<Rightarrow> 'f lister \<Rightarrow> 'f lister" where
  "answered st i r s =
     (let run = ls_runs s ! i; s' = s\<lparr>ls_runs := take i (ls_runs s) @ drop (Suc i) (ls_runs s)\<rparr>
      in if st_tagged st \<and> fst run \<noteq> ls_sequence s then s'
         else (case r of
             Inl message \<Rightarrow> s'\<lparr>ls_error := Some message, ls_loading := False\<rparr>
           | Inr j \<Rightarrow> s'\<lparr>ls_data := Some (snd run, j), ls_loading := False,
                 ls_error := (if st_keeps_error st then None else ls_error s)\<rparr>))"

text \<open>\<open>ordered\<close>: the server answers the loads in the order they were begun.\<close>

inductive list_step :: "bool \<Rightarrow> style \<Rightarrow> (nat \<Rightarrow> 'f \<Rightarrow> string) \<Rightarrow> 'f lister \<Rightarrow> 'f lister \<Rightarrow> bool"
  for ordered :: bool and st :: style and query :: "nat \<Rightarrow> 'f \<Rightarrow> string" where
  list_chooses: "list_step ordered st query s (set_controls st query f s)"
| list_turns: "list_step ordered st query s (turn st query p s)"
| list_fires: "ls_timer s \<noteq> None \<Longrightarrow> list_step ordered st query s (fire st s)"
| list_refreshes: "list_step ordered st query s (refresh st query s)"
| list_answers: "i < length (ls_runs s) \<Longrightarrow> ordered \<longrightarrow> i = 0 \<Longrightarrow> list_step ordered st query s (answered st i r s)"

inductive_cases list_stepE: "list_step ordered st query s t"

text \<open>Nothing is pending, and what is shown is an answer for the controls.\<close>

definition idle :: "'f lister \<Rightarrow> bool" where
  "idle s \<longleftrightarrow> ls_timer s = None \<and> ls_runs s = []"

definition shows_controls :: "(nat \<Rightarrow> 'f \<Rightarrow> string) \<Rightarrow> 'f lister \<Rightarrow> bool" where
  "shows_controls query s \<longleftrightarrow> \<not> ls_loading s \<and> (ls_error s \<noteq> None \<or> (\<exists>j. ls_data s = Some (current query s, j)))"

section \<open>Pending work\<close>

text \<open>The timer, if it runs, is for the controls; without a timer there is work for them or they are shown.\<close>

definition timer_inv :: "style \<Rightarrow> (nat \<Rightarrow> 'f \<Rightarrow> string) \<Rightarrow> 'f lister \<Rightarrow> bool" where
  "timer_inv st query s \<longleftrightarrow>
     (ls_timer s = None \<or> st_debounced st \<and> ls_timer s = Some (current query s))"

text \<open>States that differ in the page and the controls only.\<close>

definition same_loads :: "'f lister \<Rightarrow> 'f lister \<Rightarrow> bool" where
  "same_loads s t \<longleftrightarrow> ls_runs t = ls_runs s \<and> ls_sequence t = ls_sequence s \<and> ls_timer t = ls_timer s \<and>
     ls_loading t = ls_loading s \<and> ls_error t = ls_error s \<and> ls_data t = ls_data s"

lemma same_loads_simps [simp]:
  "same_loads s (s\<lparr>ls_controls := f\<rparr>)" "same_loads s (s\<lparr>ls_page := p\<rparr>)" "same_loads s (s\<lparr>ls_controls := f, ls_page := p\<rparr>)"
  by (simp_all add: same_loads_def)

lemma begin_current [simp]: "current query (begin_load st q s) = current query s"
  by (simp add: current_def begin_load_def Let_def)

text \<open>
  What an invariant of the loads has to satisfy, so that the steps keep it: it is kept by an effect for
  new controls, by a load for the controls that are there, and by an answer.
\<close>

locale load_invariant =
  fixes ordered :: bool and st :: style and query :: "nat \<Rightarrow> 'f \<Rightarrow> string" and inv :: "'f lister \<Rightarrow> bool"
  assumes init: "inv (list_init st query f)"
    and effect: "inv s \<Longrightarrow> same_loads s s' \<Longrightarrow> inv (load_effect st query (current query s) s')"
    and timer: "inv s \<Longrightarrow> timer_inv st query s"
    and begins: "inv s \<Longrightarrow> t = None \<or> t = ls_timer s \<Longrightarrow> inv (begin_load st (current query s) (s\<lparr>ls_timer := t\<rparr>))"
    and answer: "inv s \<Longrightarrow> i < length (ls_runs s) \<Longrightarrow> ordered \<longrightarrow> i = 0 \<Longrightarrow> inv (answered st i r s)"
begin

lemma step:
  assumes inv: "inv s" and "list_step ordered st query s t"
  shows "inv t"
  using assms(2)
proof cases
  case (list_chooses f)
  let ?s' = "load_effect st query (current query s) (s\<lparr>ls_controls := f\<rparr>)"
  have "inv ?s'" by (rule effect [OF inv]) simp
  then have "inv (load_effect st query (current query ?s') (?s'\<lparr>ls_page := 1\<rparr>))" by (rule effect) simp
  moreover have "inv (load_effect st query (current query s) (s\<lparr>ls_controls := f, ls_page := 1\<rparr>))" by (rule effect [OF inv]) simp
  ultimately show ?thesis using inv unfolding list_chooses set_controls_def by (simp add: Let_def)
next
  case (list_turns p)
  then show ?thesis using inv by (simp add: turn_def effect)
next
  case list_fires
  then obtain q where "ls_timer s = Some q" "q = current query s" using timer [OF inv] by (auto simp: timer_inv_def)
  then show ?thesis using begins [OF inv] list_fires by (simp add: fire_def)
next
  case list_refreshes
  then show ?thesis using begins [OF inv, of "ls_timer s"] by (simp add: refresh_def)
next
  case (list_answers i r)
  then show ?thesis using inv by (simp add: answer)
qed

end

sublocale load_invariant \<subseteq> safe_machine "\<lambda>s. \<exists>f. s = list_init st query f" "list_step ordered st query" inv
  by unfold_locales (use init step in auto)

section \<open>With numbers: only the latest load counts\<close>

definition tag_inv :: "style \<Rightarrow> (nat \<Rightarrow> 'f \<Rightarrow> string) \<Rightarrow> 'f lister \<Rightarrow> bool" where
  "tag_inv st query s \<longleftrightarrow>
     (\<forall>(n, q) \<in> set (ls_runs s). n \<le> ls_sequence s \<and> (n = ls_sequence s \<longrightarrow> q = current query s)) \<and>
     timer_inv st query s \<and>
     (ls_timer s = None \<longrightarrow> ls_sequence s \<in> fst ` set (ls_runs s) \<or> shows_controls query s)"

lemma tag_begin:
  assumes "st_tagged st" "tag_inv st query s" "t = None \<or> t = ls_timer s"
  shows "tag_inv st query (begin_load st (current query s) (s\<lparr>ls_timer := t\<rparr>))"
  using assms by (fastforce simp: tag_inv_def timer_inv_def begin_load_def Let_def current_def)

lemma tag_effect:
  assumes "st_tagged st" "tag_inv st query s" "same_loads s s'"
  shows "tag_inv st query (load_effect st query (current query s) s')"
proof (cases "current query s' = current query s")
  case True
  then show ?thesis using assms(2,3) by (simp add: load_effect_def tag_inv_def timer_inv_def shows_controls_def same_loads_def)
next
  case False
  have new: "n < Suc (ls_sequence s)" if "(n, q) \<in> set (ls_runs s)" for n q
    using assms(2) that by (fastforce simp: tag_inv_def)
  have runs: "ls_runs s' = ls_runs s" "ls_sequence s' = ls_sequence s" "ls_timer s' = ls_timer s"
    using assms(3) by (simp_all add: same_loads_def)
  show ?thesis
  proof (cases "st_debounced st")
    case True
    have "tag_inv st query (s'\<lparr>ls_sequence := Suc (ls_sequence s'), ls_data := d, ls_timer := Some (current query s')\<rparr>)" for d
      using new True by (fastforce simp: tag_inv_def timer_inv_def current_def runs)
    from this [of "if st_clears st then None else ls_data s'"] show ?thesis
      using False True assms(1) by (simp add: load_effect_def Let_def)
  next
    case no: False
    then have "ls_timer s' = None" using assms(2) by (simp add: tag_inv_def timer_inv_def runs)
    then have "tag_inv st query (begin_load st (current query s') (s'\<lparr>ls_sequence := Suc (ls_sequence s'), ls_data := d\<rparr>))" for d
      using new assms(1) by (fastforce simp: tag_inv_def timer_inv_def current_def runs begin_load_def Let_def)
    from this [of "if st_clears st then None else ls_data s'"] show ?thesis
      using False no assms(1) by (simp add: load_effect_def Let_def)
  qed
qed

lemma answered_rest:
  "i < length xs \<Longrightarrow> set xs = insert (xs ! i) (set (take i xs @ drop (Suc i) xs))"
  by (metis (no_types, lifting) Un_insert_right id_take_nth_drop list.simps(15) set_append)

lemma tag_answer:
  assumes "st_tagged st" "tag_inv st query s" "i < length (ls_runs s)"
  shows "tag_inv st query (answered st i r s)"
proof -
  let ?rest = "take i (ls_runs s) @ drop (Suc i) (ls_runs s)"
  obtain n q where run: "ls_runs s ! i = (n, q)" by (cases "ls_runs s ! i")
  have rest: "set (ls_runs s) = insert (n, q) (set ?rest)" using answered_rest [OF assms(3)] run by simp
  have inv: "\<forall>(n, q) \<in> insert (n, q) (set ?rest). n \<le> ls_sequence s \<and> (n = ls_sequence s \<longrightarrow> q = current query s)"
    "timer_inv st query s" "ls_timer s = None \<longrightarrow> ls_sequence s \<in> fst ` insert (n, q) (set ?rest) \<or> shows_controls query s"
    using assms(2) unfolding tag_inv_def rest by blast+
  have cur: "current query (s\<lparr>ls_runs := rs, ls_loading := l, ls_error := e, ls_data := d\<rparr>) = current query s" for rs l e d
    by (simp add: current_def)
  show ?thesis
  proof (cases "n = ls_sequence s")
    case False
    then have "answered st i r s = s\<lparr>ls_runs := ?rest\<rparr>" using assms(1) run by (simp add: answered_def)
    moreover have "tag_inv st query (s\<lparr>ls_runs := ?rest\<rparr>)"
      using inv False unfolding tag_inv_def by (auto simp: timer_inv_def shows_controls_def current_def)
    ultimately show ?thesis by simp
  next
    case True
    then have "q = current query s" using inv(1) by simp
    with True show ?thesis
      using inv run unfolding tag_inv_def answered_def Let_def
      by (auto simp: timer_inv_def shows_controls_def current_def split: sum.split)
  qed
qed

lemma tag_invariant: "st_tagged st \<Longrightarrow> load_invariant ordered st query (tag_inv st query)"
  by unfold_locales
    (erule tag_effect tag_begin tag_answer | assumption |
      simp add: list_init_def tag_inv_def timer_inv_def begin_load_def Let_def current_def)+

interpretation tagged: load_invariant ordered "st\<lparr>st_tagged := True\<rparr>" query "tag_inv (st\<lparr>st_tagged := True\<rparr>) query"
  by (rule tag_invariant) simp

section \<open>Answers in order\<close>

definition order_inv :: "style \<Rightarrow> (nat \<Rightarrow> 'f \<Rightarrow> string) \<Rightarrow> 'f lister \<Rightarrow> bool" where
  "order_inv st query s \<longleftrightarrow>
     timer_inv st query s \<and>
     (ls_timer s = None \<longrightarrow> (if ls_runs s = [] then shows_controls query s else snd (last (ls_runs s)) = current query s))"

lemma order_begin:
  "timer_inv st query s \<Longrightarrow> t = None \<or> t = ls_timer s \<Longrightarrow> order_inv st query (begin_load st (current query s) (s\<lparr>ls_timer := t\<rparr>))"
  by (auto simp: order_inv_def timer_inv_def begin_load_def Let_def current_def)

lemma order_effect:
  assumes "\<not> st_tagged st" "order_inv st query s" "same_loads s s'"
  shows "order_inv st query (load_effect st query (current query s) s')"
proof (cases "current query s' = current query s")
  case True
  then show ?thesis
    using assms by (auto simp: load_effect_def order_inv_def timer_inv_def shows_controls_def same_loads_def split: if_splits)
next
  case False
  show ?thesis
  proof (cases "st_debounced st")
    case True
    then show ?thesis using False assms(1) by (simp add: load_effect_def Let_def order_inv_def timer_inv_def current_def)
  next
    case no: False
    let ?t = "s'\<lparr>ls_data := if st_clears st then None else ls_data s'\<rparr>"
    have "timer_inv st query ?t" using assms no by (simp add: order_inv_def timer_inv_def same_loads_def)
    from order_begin [OF this, of "ls_timer ?t"] show ?thesis
      using False no assms(1) by (simp add: load_effect_def Let_def current_def)
  qed
qed

lemma order_answer:
  assumes "\<not> st_tagged st" "order_inv st query s" "ls_runs s \<noteq> []"
  shows "order_inv st query (answered st 0 r s)"
proof -
  obtain run rest where runs: "ls_runs s = run # rest" using assms(3) by (auto simp: neq_Nil_conv)
  then show ?thesis
    using assms(1,2)
    by (cases "rest = []")
      (auto simp: order_inv_def answered_def Let_def timer_inv_def shows_controls_def current_def split: sum.split)
qed

lemma order_invariant:
  assumes "\<not> st_tagged st"
  shows "load_invariant True st query (order_inv st query)"
proof unfold_locales
  show "order_inv st query (list_init st query f)" for f
    by (simp add: list_init_def order_inv_def timer_inv_def begin_load_def Let_def current_def)
next
  fix s :: "'a lister" and i r
  assume "order_inv st query s" "i < length (ls_runs s)" "True \<longrightarrow> i = 0"
  then show "order_inv st query (answered st i r s)" using order_answer [OF assms] by auto
next
  fix s :: "'a lister"
  assume inv: "order_inv st query s"
  then show t: "timer_inv st query s" by (simp add: order_inv_def)
  show "order_inv st query (begin_load st (current query s) (s\<lparr>ls_timer := t\<rparr>))" if "t = None \<or> t = ls_timer s" for t
    using t that by (rule order_begin)
  show "order_inv st query (load_effect st query (current query s) s')" if "same_loads s s'" for s'
    using assms inv that by (rule order_effect)
qed

interpretation in_order: load_invariant True "st\<lparr>st_tagged := False\<rparr>" query "order_inv (st\<lparr>st_tagged := False\<rparr>) query"
  by (rule order_invariant) simp

section \<open>What a list shows when nothing is pending\<close>

lemma tagged_settles:
  assumes "reachable (\<lambda>s. \<exists>f. s = list_init (st\<lparr>st_tagged := True\<rparr>) query f) (list_step ordered (st\<lparr>st_tagged := True\<rparr>) query) s"
    and "idle s"
  shows "shows_controls query s"
  using tagged.inv_reachable [OF assms(1)] assms(2) by (auto simp: tag_inv_def idle_def)

lemma ordered_settles:
  assumes "reachable (\<lambda>s. \<exists>f. s = list_init (st\<lparr>st_tagged := False\<rparr>) query f) (list_step True (st\<lparr>st_tagged := False\<rparr>) query) s"
    and "idle s"
  shows "shows_controls query s"
  using in_order.inv_reachable [OF assms(1)] assms(2) by (auto simp: order_inv_def idle_def)

text \<open>
  Otherwise a list that uses every answer can come to rest with the records of other controls:
  if two choices ask for different queries, a late answer for the first is shown below the second,
  without a message and without anything pending that would replace it.
\<close>

lemma overtaken_answer_stays:
  assumes "query 1 f \<noteq> query 1 g"
  shows "\<exists>s. reachable (\<lambda>s. \<exists>f. s = list_init (st\<lparr>st_tagged := False\<rparr>) query f) (list_step False (st\<lparr>st_tagged := False\<rparr>) query) s \<and>
    idle s \<and> \<not> ls_loading s \<and> ls_error s = None \<and> ls_controls s = g \<and> ls_page s = 1 \<and> ls_data s = Some (query 1 f, j)"
proof -
  let ?st = "st\<lparr>st_tagged := False\<rparr>"
  let ?reach = "reachable (\<lambda>s. \<exists>f. s = list_init ?st query f) (list_step False ?st query)"
  define s0 where "s0 = fire ?st (list_init ?st query f)"
  define s1 where "s1 = fire ?st (set_controls ?st query g s0)"
  define s3 where "s3 = answered ?st 0 (Inr j) (answered ?st 1 (Inr JNull) s1)"
  have fires: "?reach (fire ?st s)" if "?reach s" for s
  proof (cases "ls_timer s")
    case None
    then have "fire ?st s = s" by (simp add: fire_def)
    then show ?thesis using that by simp
  next
    case (Some q)
    then have "list_step False ?st query s (fire ?st s)" by (intro list_fires) simp
    with that show ?thesis by (rule reach_step)
  qed
  have "?reach (list_init ?st query f)" by (rule reach_init) blast
  then have "?reach s0" unfolding s0_def by (rule fires)
  then have "?reach (set_controls ?st query g s0)" by (rule reach_step) (rule list_chooses)
  then have r1: "?reach s1" unfolding s1_def by (rule fires)
  have s0: "s0 = \<lparr>ls_page = 1, ls_controls = f, ls_timer = None, ls_sequence = 0, ls_runs = [(0, query 1 f)], ls_data = None,
      ls_loading = True, ls_error = None\<rparr>"
    by (simp add: s0_def list_init_def fire_def begin_load_def Let_def)
  have g: "g \<noteq> f" "query 1 g \<noteq> query 1 f" using assms by auto
  have "set_controls ?st query g s0 =
      (if st_debounced st then s0\<lparr>ls_controls := g, ls_timer := Some (query 1 g)\<rparr> else begin_load ?st (query 1 g) (s0\<lparr>ls_controls := g\<rparr>))"
    using g by (simp add: s0 set_controls_def load_effect_def current_def begin_load_def Let_def)
  then have s1: "s1 = \<lparr>ls_page = 1, ls_controls = g, ls_timer = None, ls_sequence = 0, ls_runs = [(0, query 1 f), (0, query 1 g)],
      ls_data = None, ls_loading = True, ls_error = None\<rparr>"
    by (simp add: s1_def s0 fire_def begin_load_def Let_def)
  have "list_step False ?st query s1 (answered ?st 1 (Inr JNull) s1)" by (rule list_answers) (simp_all add: s1)
  with r1 have "?reach (answered ?st 1 (Inr JNull) s1)" by (rule reach_step)
  moreover have "list_step False ?st query (answered ?st 1 (Inr JNull) s1) s3"
    unfolding s3_def by (rule list_answers) (simp_all add: s1 answered_def)
  ultimately have "?reach s3" by (rule reach_step)
  moreover have "idle s3 \<and> \<not> ls_loading s3 \<and> ls_error s3 = None \<and> ls_controls s3 = g \<and> ls_page s3 = 1 \<and> ls_data s3 = Some (query 1 f, j)"
    by (simp add: s3_def s1 answered_def idle_def)
  ultimately show ?thesis by blast
qed

end
