(* ===== verification/Admin_Pages.thy ===== *)
theory Admin_Pages
  imports Admin_Lists Admin_Screens Admin_Vault Infra_Catalogue
begin

text \<open>
  The lists of the admin application, each with its controls, the query they make and the way it
  loads: clients, leads, tickets, staff, credentials, tasks, activity, the infrastructure of a client,
  service providers, technologies, specialist operations, resources, knowledge base folders, GitHub
  and Celery. The locale \<open>list_query\<close> is what a query promises the list: the page and the
  controls can be read back from it, as far as the server can tell them apart. With
  \<^verbatim>\<open>Admin_Lists\<close> it gives what the list shows once nothing is pending.
\<close>

section \<open>Queries\<close>

text \<open>\<^verbatim>\<open>if (value) params.set(key, value)\<close>, for a key that is not there yet.\<close>

definition given :: "string \<Rightarrow> string \<Rightarrow> params" where
  "given k v = (if v = [] then [] else [(k, v)])"

text \<open>The value of a key, or nothing.\<close>

definition value_of :: "params \<Rightarrow> string \<Rightarrow> string" where
  "value_of ps k = (case params_get ps k of None \<Rightarrow> [] | Some v \<Rightarrow> v)"

lemma value_of_simps [simp]:
  "value_of [] k = []"
  "value_of ((k', v) # ps) k = (if k = k' then v else value_of ps k)"
  by (auto simp: value_of_def params_get_def)

lemma value_of_given [simp]: "value_of (given k' v @ ps) k = (if k = k' \<and> v \<noteq> [] then v else value_of ps k)"
  by (simp add: given_def)

lemma value_of_given_last [simp]: "value_of (given k' v) k = (if k = k' then v else [])"
  using value_of_given [of k' v "[]" k] by (auto simp: given_def)

text \<open>An optional id in a query: \<^verbatim>\<open>if (id)\<close> and \<^verbatim>\<open>if (id !== null)\<close>.\<close>

definition truthy_id :: "int option \<Rightarrow> string" where
  "truthy_id i = (case i of None \<Rightarrow> [] | Some n \<Rightarrow> if n = 0 then [] else int_str n)"

definition set_id :: "int option \<Rightarrow> string" where
  "set_id i = (case i of None \<Rightarrow> [] | Some n \<Rightarrow> int_str n)"

lemma int_str_nonempty [simp]: "int_str i \<noteq> []" "[] \<noteq> int_str i"
  by (simp_all add: int_str_def not_sym [OF nat_str_nonempty])

lemma set_id_inject [simp]: "set_id i = set_id j \<longleftrightarrow> i = j"
  by (auto simp: set_id_def split: option.splits)

lemma truthy_id_inject: "truthy_id i = truthy_id j \<longleftrightarrow> i = j \<or> i \<in> {None, Some 0} \<and> j \<in> {None, Some 0}"
  by (auto simp: truthy_id_def split: option.splits)

text \<open>The interface: \<open>seen\<close> is what the server sees of the controls, and \<open>reader\<close> reads it.\<close>

locale list_query =
  fixes ps :: "nat \<Rightarrow> 'f \<Rightarrow> params" and seen :: "'f \<Rightarrow> string list" and reader :: "params \<Rightarrow> string list"
  assumes reads_page: "value_of (ps p f) ''page'' = nat_str p"
    and reads_controls: "reader (ps p f) = seen f"
begin

lemma params_inject: "params_str xs = params_str ys \<longleftrightarrow> xs = ys"
  using search_params_str [of xs] search_params_str [of ys] by auto

text \<open>Two queries are the same exactly if the server is asked for the same page of the same records.\<close>

lemma query_eq: "params_str (ps p f) = params_str (ps q g) \<Longrightarrow> p = q \<and> seen f = seen g"
  unfolding params_inject by (metis nat_str_inject reads_page reads_controls)

text \<open>So the records of a list at rest belong to its page and its controls.\<close>

lemma records_belong:
  assumes "shows_controls (\<lambda>p f. params_str (ps p f)) s" "ls_data s = Some (params_str (ps p f), j)" "ls_error s = None"
  shows "ls_page s = p \<and> seen (ls_controls s) = seen f"
proof -
  from assms have "params_str (ps p f) = params_str (ps (ls_page s) (ls_controls s))"
    by (simp add: shows_controls_def current_def)
  then show ?thesis using query_eq by metis
qed

end

section \<open>Clients\<close>

record client_filter =
  cf_search :: string
  cf_status :: string

definition client_params :: "nat \<Rightarrow> client_filter \<Rightarrow> params" where
  "client_params p f =
     [(''page'', nat_str p), (''page_size'', ''25''), (''status'', cf_status f)] @ given ''search'' (trim (cf_search f))"

definition client_style :: style where
  "client_style = \<lparr>st_debounced = True, st_reset_later = True, st_tagged = False, st_clears = False, st_keeps_error = False\<rparr>"

interpretation client_list: list_query client_params "\<lambda>f. [trim (cf_search f), cf_status f]" "\<lambda>ps. map (value_of ps) [''search'', ''status'']"
  by unfold_locales (simp_all add: client_params_def)

section \<open>Leads\<close>

record lead_filter =
  lf_view :: string
  lf_search :: string
  lf_status_id :: string
  lf_source_id :: string
  lf_brand_id :: string
  lf_assigned_to_id :: string

definition lead_params :: "nat \<Rightarrow> lead_filter \<Rightarrow> params" where
  "lead_params p f =
     [(''view'', lf_view f), (''page'', nat_str p), (''page_size'', ''25'')] @
     given ''search'' (trim (lf_search f)) @ given ''status_id'' (lf_status_id f) @ given ''source_id'' (lf_source_id f) @
     given ''brand_id'' (lf_brand_id f) @ given ''assigned_to_id'' (lf_assigned_to_id f)"

definition lead_style :: style where
  "lead_style = \<lparr>st_debounced = True, st_reset_later = True, st_tagged = False, st_clears = False, st_keeps_error = False\<rparr>"

interpretation lead_list: list_query lead_params
  "\<lambda>f. [lf_view f, trim (lf_search f), lf_status_id f, lf_source_id f, lf_brand_id f, lf_assigned_to_id f]"
  "\<lambda>ps. map (value_of ps) [''view'', ''search'', ''status_id'', ''source_id'', ''brand_id'', ''assigned_to_id'']"
  by unfold_locales (simp_all add: lead_params_def)

section \<open>Tickets\<close>

record ticket_filter =
  tf_view :: string
  tf_sort :: string
  tf_queue :: "int option"
  tf_search :: string
  tf_priority :: string

definition ticket_params :: "nat \<Rightarrow> ticket_filter \<Rightarrow> params" where
  "ticket_params p f =
     [(''view'', tf_view f), (''page'', nat_str p), (''page_size'', ''25''), (''sort'', tf_sort f)] @
     given ''queue_id'' (truthy_id (tf_queue f)) @ given ''search'' (trim (tf_search f)) @ given ''priority'' (tf_priority f)"

definition ticket_style :: style where
  "ticket_style = \<lparr>st_debounced = True, st_reset_later = True, st_tagged = False, st_clears = False, st_keeps_error = False\<rparr>"

interpretation ticket_list: list_query ticket_params
  "\<lambda>f. [tf_view f, tf_sort f, truthy_id (tf_queue f), trim (tf_search f), tf_priority f]"
  "\<lambda>ps. map (value_of ps) [''view'', ''sort'', ''queue_id'', ''search'', ''priority'']"
  by unfold_locales (simp_all add: ticket_params_def)

text \<open>The list of a client's or a contact's tickets; the two ids come with the address.\<close>

record scoped_filter =
  sf_search :: string
  sf_status :: string
  sf_priority :: string

definition scoped_params :: "string option \<Rightarrow> string option \<Rightarrow> nat \<Rightarrow> scoped_filter \<Rightarrow> params" where
  "scoped_params clientId contactId p f =
     [(''page'', nat_str p), (''page_size'', ''25'')] @
     given ''client_id'' (nullish clientId []) @ given ''primary_contact_id'' (nullish contactId []) @
     given ''search'' (trim (sf_search f)) @ given ''status'' (sf_status f) @ given ''priority'' (sf_priority f)"

definition scoped_style :: style where
  "scoped_style = \<lparr>st_debounced = True, st_reset_later = True, st_tagged = False, st_clears = False, st_keeps_error = False\<rparr>"

interpretation scoped_list: list_query "scoped_params clientId contactId"
  "\<lambda>f. [trim (sf_search f), sf_status f, sf_priority f]" "\<lambda>ps. map (value_of ps) [''search'', ''status'', ''priority'']"
  by unfold_locales (simp_all add: scoped_params_def)

section \<open>Staff\<close>

record staff_filter =
  stf_search :: string
  stf_status :: string

definition staff_params :: "nat \<Rightarrow> staff_filter \<Rightarrow> params" where
  "staff_params p f =
     [(''page'', nat_str p), (''page_size'', ''25''), (''status'', stf_status f)] @ given ''q'' (trim (stf_search f))"

definition staff_style :: style where
  "staff_style = \<lparr>st_debounced = True, st_reset_later = True, st_tagged = False, st_clears = False, st_keeps_error = False\<rparr>"

interpretation staff_list: list_query staff_params "\<lambda>f. [trim (stf_search f), stf_status f]" "\<lambda>ps. map (value_of ps) [''q'', ''status'']"
  by unfold_locales (simp_all add: staff_params_def)

section \<open>Credentials\<close>

text \<open>The search of the controls is the debounced one, which a timer of its own sets.\<close>

record vault_filter =
  vf_status :: string
  vf_ownership :: string
  vf_client_id :: string
  vf_type_id :: string
  vf_search :: string

definition vault_params :: "bool \<Rightarrow> int option \<Rightarrow> nat \<Rightarrow> vault_filter \<Rightarrow> params" where
  "vault_params small initialResourceId p f =
     [(''page'', nat_str p), (''page_size'', if small then ''10'' else ''25''), (''status'', vf_status f), (''ownership'', vf_ownership f)] @
     given ''client_id'' (vf_client_id f) @ given ''credential_type_id'' (vf_type_id f) @
     given ''resource_id'' (truthy_id initialResourceId) @ given ''search'' (vf_search f)"

definition vault_style :: style where
  "vault_style = \<lparr>st_debounced = False, st_reset_later = True, st_tagged = False, st_clears = False, st_keeps_error = False\<rparr>"

interpretation vault_list: list_query "vault_params small initialResourceId"
  "\<lambda>f. [vf_status f, vf_ownership f, vf_client_id f, vf_type_id f, vf_search f]"
  "\<lambda>ps. map (value_of ps) [''status'', ''ownership'', ''client_id'', ''credential_type_id'', ''search'']"
  by unfold_locales (simp_all add: vault_params_def)

section \<open>Tasks\<close>

definition validFocus :: "string option \<Rightarrow> string" where
  "validFocus value =
     (case value of
        Some v \<Rightarrow> if v \<in> {''today'', ''upcoming'', ''overdue'', ''completed'', ''all''} then v else ''my''
      | None \<Rightarrow> ''my'')"

definition focusHref :: "string \<Rightarrow> string" where
  "focusHref view = (if view = ''my'' then ''/admin/tasks'' else ''/admin/tasks?view='' @ view)"

record task_filter =
  tkf_search :: string
  tkf_ownership :: string
  tkf_completion :: string

text \<open>The focus comes with the address.\<close>

definition task_params :: "string \<Rightarrow> nat \<Rightarrow> task_filter \<Rightarrow> params" where
  "task_params focus p f =
     [(''focus'', focus), (''page'', nat_str p), (''page_size'', ''40'')] @
     given ''search'' (trim (tkf_search f)) @ given ''ownership_type'' (tkf_ownership f) @
     (if focus = ''all'' then
        (if tkf_completion f = ''open'' then [(''completed'', ''false'')] else []) @
        (if tkf_completion f = ''completed'' then [(''completed'', ''true'')] else [])
      else [])"

definition task_style :: style where
  "task_style = \<lparr>st_debounced = False, st_reset_later = False, st_tagged = False, st_clears = False, st_keeps_error = False\<rparr>"

interpretation task_list: list_query "task_params focus"
  "\<lambda>f. [trim (tkf_search f), tkf_ownership f,
     if focus = ''all'' then (if tkf_completion f = ''open'' then ''false'' else if tkf_completion f = ''completed'' then ''true'' else []) else []]"
  "\<lambda>ps. map (value_of ps) [''search'', ''ownership_type'', ''completed'']"
  by unfold_locales (simp_all add: task_params_def)

section \<open>Activity\<close>

record activity_filter =
  af_client :: "int option"
  af_resource :: "int option"

definition activity_params :: "nat \<Rightarrow> activity_filter \<Rightarrow> params" where
  "activity_params p f =
     [(''page'', nat_str p), (''page_size'', ''50'')] @ given ''client_id'' (set_id (af_client f)) @ given ''resource_id'' (set_id (af_resource f))"

definition activity_style :: style where
  "activity_style = \<lparr>st_debounced = False, st_reset_later = False, st_tagged = False, st_clears = False, st_keeps_error = False\<rparr>"

interpretation activity_list: list_query activity_params
  "\<lambda>f. [set_id (af_client f), set_id (af_resource f)]" "\<lambda>ps. map (value_of ps) [''client_id'', ''resource_id'']"
  by unfold_locales (simp_all add: activity_params_def)

section \<open>Infrastructure\<close>

text \<open>The resources of a client.\<close>

record client_resources_filter =
  crf_search :: string
  crf_lifecycle :: string
  crf_type :: string

definition client_resources_params :: "int \<Rightarrow> nat \<Rightarrow> client_resources_filter \<Rightarrow> params" where
  "client_resources_params clientId p f =
     [(''page'', nat_str p), (''page_size'', ''20''), (''ownership'', ''client''), (''client_id'', int_str clientId),
      (''lifecycle'', crf_lifecycle f)] @
     given ''search'' (trim (crf_search f)) @ (if crf_type f \<noteq> ''all'' then [(''resource_type'', crf_type f)] else [])"

definition client_resources_style :: style where
  "client_resources_style =
     \<lparr>st_debounced = False, st_reset_later = False, st_tagged = False, st_clears = False, st_keeps_error = False\<rparr>"

interpretation client_resources_list: list_query "client_resources_params clientId"
  "\<lambda>f. [trim (crf_search f), crf_lifecycle f, if crf_type f = ''all'' then [] else crf_type f]"
  "\<lambda>ps. map (value_of ps) [''search'', ''lifecycle'', ''resource_type'']"
  by unfold_locales (simp_all add: client_resources_params_def)

text \<open>All resources, with the parameters of \<^verbatim>\<open>Infra_Catalogue\<close>.\<close>

definition resource_list_params :: "string option \<Rightarrow> nat \<Rightarrow> resource_filter \<Rightarrow> params" where
  "resource_list_params typeFilter p f = resource_params typeFilter (f\<lparr>rf_page := p\<rparr>)"

definition resource_list_style :: style where
  "resource_list_style =
     \<lparr>st_debounced = False, st_reset_later = False, st_tagged = False, st_clears = False, st_keeps_error = False\<rparr>"

interpretation resource_list: list_query "resource_list_params typeFilter"
  "\<lambda>f. [rf_ownership f, rf_lifecycle f, trim (rf_search f),
     if truthy_string typeFilter then the typeFilter else if rf_type f = ''all'' then [] else rf_type f,
     if rf_environment f = ''all'' then [] else rf_environment f]"
  "\<lambda>ps. map (value_of ps) [''ownership'', ''lifecycle'', ''search'', ''resource_type'', ''environment'']"
  by unfold_locales (simp_all add: resource_list_params_def resource_params_def)

text \<open>Service providers and technologies: the search goes out as it was typed.\<close>

definition provider_params :: "nat \<Rightarrow> string \<Rightarrow> params" where
  "provider_params p search = [(''page'', nat_str p), (''page_size'', ''25''), (''search'', search)]"

definition provider_style :: style where
  "provider_style = \<lparr>st_debounced = False, st_reset_later = False, st_tagged = False, st_clears = False, st_keeps_error = False\<rparr>"

interpretation provider_list: list_query provider_params "\<lambda>search. [search]" "\<lambda>ps. map (value_of ps) [''search'']"
  by unfold_locales (simp_all add: provider_params_def)

definition technology_params :: "nat \<Rightarrow> string \<Rightarrow> params" where
  "technology_params p search = [(''page'', nat_str p), (''page_size'', ''25''), (''search'', search)]"

definition technology_style :: style where
  "technology_style = \<lparr>st_debounced = False, st_reset_later = False, st_tagged = False, st_clears = False, st_keeps_error = False\<rparr>"

interpretation technology_list: list_query technology_params "\<lambda>search. [search]" "\<lambda>ps. map (value_of ps) [''search'']"
  by unfold_locales (simp_all add: technology_params_def)

definition specialist_params :: "nat \<Rightarrow> string \<Rightarrow> params" where
  "specialist_params p type =
     [(''resource_type'', type), (''lifecycle'', ''current''), (''ownership'', ''all''), (''page'', nat_str p), (''page_size'', ''25'')]"

definition specialist_style :: style where
  "specialist_style = \<lparr>st_debounced = False, st_reset_later = False, st_tagged = False, st_clears = False, st_keeps_error = False\<rparr>"

interpretation specialist_list: list_query specialist_params "\<lambda>type. [type]" "\<lambda>ps. map (value_of ps) [''resource_type'']"
  by unfold_locales (simp_all add: specialist_params_def)

section \<open>Knowledge base\<close>

text \<open>A folder of a knowledge base: its context, the folder and the resource come with the address.\<close>

record knowledge_filter =
  kf_query :: string
  kf_view :: string

definition knowledge_params :: "KnowledgeContext \<Rightarrow> int option \<Rightarrow> int option \<Rightarrow> nat \<Rightarrow> knowledge_filter \<Rightarrow> params" where
  "knowledge_params ctx sectionId resourceId p f =
     knowledgeContextParams ctx @
     [(''browse'', ''true''), (''view'', kf_view f), (''page'', nat_str p), (''page_size'', ''30'')] @
     given ''q'' (trim (kf_query f)) @ given ''section_id'' (set_id sectionId) @ given ''resource_id'' (truthy_id resourceId)"

definition knowledge_style :: style where
  "knowledge_style = \<lparr>st_debounced = True, st_reset_later = False, st_tagged = True, st_clears = False, st_keeps_error = False\<rparr>"

lemma value_of_context:
  "k \<noteq> ''ownership_type'' \<Longrightarrow> k \<noteq> ''client_id'' \<Longrightarrow> value_of (knowledgeContextParams ctx @ ps) k = value_of ps k"
  by (cases ctx) (simp_all add: knowledgeContextParams_def)

interpretation knowledge_list: list_query "knowledge_params ctx sectionId resourceId"
  "\<lambda>f. [trim (kf_query f), kf_view f]" "\<lambda>ps. map (value_of ps) [''q'', ''view'']"
  by unfold_locales (simp_all add: knowledge_params_def value_of_context)

section \<open>GitHub and Celery\<close>

record github_filter =
  ghf_tab :: string
  ghf_account :: string
  ghf_search :: string
  ghf_view :: string
  ghf_state :: string

definition github_params :: "nat \<Rightarrow> github_filter \<Rightarrow> params" where
  "github_params p f =
     [(''page'', nat_str p)] @ given ''account'' (ghf_account f) @
     [(''search'', ghf_search f), (''kind'', ghf_tab f), (''view'', ghf_view f), (''state'', ghf_state f)]"

definition github_url :: "string \<Rightarrow> nat \<Rightarrow> github_filter \<Rightarrow> string" where
  "github_url githubAPI p f =
     githubAPI @ ''/'' @ (if ghf_tab f = ''repository'' then ''repositories'' else ''items'') @ ''?'' @ params_str (github_params p f)"

definition chooseTab :: "string \<Rightarrow> github_filter \<Rightarrow> github_filter" where
  "chooseTab value f =
     f\<lparr>ghf_tab := value, ghf_view := (if value = ''pull_request'' \<or> value = ''issue'' then ''my'' else ''all'')\<rparr>"

definition github_style :: style where
  "github_style = \<lparr>st_debounced = False, st_reset_later = False, st_tagged = True, st_clears = True, st_keeps_error = True\<rparr>"

interpretation github_list: list_query github_params
  "\<lambda>f. [ghf_account f, ghf_search f, ghf_tab f, ghf_view f, ghf_state f]"
  "\<lambda>ps. map (value_of ps) [''account'', ''search'', ''kind'', ''view'', ''state'']"
  by unfold_locales (simp_all add: github_params_def)

record celery_filter =
  cef_state :: string
  cef_search :: string

text \<open>The query of \<^verbatim>\<open>celeryAPI.history\<close>.\<close>

definition celery_params :: "nat \<Rightarrow> celery_filter \<Rightarrow> params" where
  "celery_params p f =
     [(''page'', nat_str p), (''page_size'', ''25''), (''state'', cef_state f), (''search'', cef_search f)]"

definition celery_style :: style where
  "celery_style = \<lparr>st_debounced = False, st_reset_later = False, st_tagged = True, st_clears = False, st_keeps_error = True\<rparr>"

interpretation celery_list: list_query celery_params "\<lambda>f. [cef_state f, cef_search f]" "\<lambda>ps. map (value_of ps) [''state'', ''search'']"
  by unfold_locales (simp_all add: celery_params_def)

section \<open>What the lists show at rest\<close>


abbreviation knowledge_query :: "KnowledgeContext \<Rightarrow> int option \<Rightarrow> int option \<Rightarrow> nat \<Rightarrow> knowledge_filter \<Rightarrow> string" where
  "knowledge_query ctx sectionId resourceId \<equiv> (\<lambda>p f. params_str (knowledge_params ctx sectionId resourceId p f))"


text \<open>
  The list of clients uses every answer. As long as the server answers in the order it was asked,
  the list at rest shows a message or the clients of its page, its search and its status.
\<close>

theorem client_list_settles_in_order:
  assumes "reachable (\<lambda>s. \<exists>f. s = list_init client_style (\<lambda>p f. params_str (client_params p f)) f)
      (list_step True client_style (\<lambda>p f. params_str (client_params p f))) s"
    and "idle s"
  shows "\<not> ls_loading s \<and>
    (ls_error s = None \<longrightarrow> ls_data s \<noteq> None \<and>
      (\<forall>p f j. ls_data s = Some (params_str (client_params p f), j) \<longrightarrow>
         p = ls_page s \<and> trim (cf_search f) = trim (cf_search (ls_controls s)) \<and> cf_status f = cf_status (ls_controls s)))"
proof -
  have style: "client_style\<lparr>st_tagged := False\<rparr> = client_style" by (simp add: client_style_def)
  have shown: "shows_controls (\<lambda>p f. params_str (client_params p f)) s"
    by (rule ordered_settles [where st = client_style, unfolded style, OF assms])
  then show ?thesis
    using client_list.records_belong [OF shown] by (auto simp: shows_controls_def)
qed

theorem client_list_settles_in_order_witness:
  "let q = (\<lambda>p f. params_str (client_params p f)); f = \<lparr>cf_search = [], cf_status = ''active''\<rparr>;
       s = answered client_style 0 (Inl ''Forbidden'') (fire client_style (list_init client_style q f))
   in idle s \<and> \<not> ls_loading s \<and> ls_error s = Some ''Forbidden''"
proof -
  let ?q = "\<lambda>p f. params_str (client_params p f)"
  let ?f = "\<lparr>cf_search = [], cf_status = ''active''\<rparr>"
  let ?i = "list_init client_style ?q ?f"
  let ?s = "answered client_style 0 (Inl ''Forbidden'') (fire client_style ?i)"
  let ?reach = "reachable (\<lambda>s. \<exists>f. s = list_init client_style ?q f) (list_step True client_style ?q)"
  have "?reach ?i" by (rule reach_init) blast
  moreover have "list_step True client_style ?q ?i (fire client_style ?i)"
    by (rule list_fires) (simp add: list_init_def client_style_def Let_def)
  ultimately have "?reach (fire client_style ?i)" by (rule reach_step)
  moreover have "list_step True client_style ?q (fire client_style ?i) ?s"
    by (rule list_answers) (simp_all add: list_init_def client_style_def Let_def fire_def begin_load_def)
  ultimately have reach: "?reach ?s" by (rule reach_step)
  have idle: "idle ?s" and error: "ls_error ?s = Some ''Forbidden''"
    by (simp_all add: idle_def list_init_def client_style_def Let_def fire_def begin_load_def answered_def)
  show ?thesis using client_list_settles_in_order [OF reach idle] idle error by (simp add: Let_def)
qed

text \<open>
  If an answer can overtake another, the list of clients can come to rest with the clients of a
  search or a status that is no longer chosen: without a message, and with nothing pending that
  would replace them.
\<close>

theorem overtaken_clients_stay:
  assumes "trim (cf_search f) \<noteq> trim (cf_search g) \<or> cf_status f \<noteq> cf_status g"
  shows "\<exists>s. reachable (\<lambda>s. \<exists>f. s = list_init client_style (\<lambda>p f. params_str (client_params p f)) f)
        (list_step False client_style (\<lambda>p f. params_str (client_params p f))) s \<and>
      idle s \<and> \<not> ls_loading s \<and> ls_error s = None \<and> ls_controls s = g \<and> ls_page s = 1 \<and>
      ls_data s = Some (params_str (client_params 1 f), j)"
proof -
  have style: "client_style\<lparr>st_tagged := False\<rparr> = client_style" by (simp add: client_style_def)
  have "params_str (client_params 1 f) \<noteq> params_str (client_params 1 g)"
    using client_list.query_eq [of 1 f 1 g] assms by auto
  then show ?thesis
    by (rule overtaken_answer_stays [where st = client_style, unfolded style])
qed

theorem overtaken_clients_stay_witness:
  "\<exists>s. idle s \<and> ls_error s = None \<and> ls_controls s = \<lparr>cf_search = [], cf_status = ''archived''\<rparr> \<and>
     ls_data s = Some (params_str (client_params 1 \<lparr>cf_search = [], cf_status = ''active''\<rparr>), JNull)"
proof -
  have differ: "trim (cf_search \<lparr>cf_search = [], cf_status = ''active''\<rparr>) \<noteq> trim (cf_search \<lparr>cf_search = [], cf_status = ''archived''\<rparr>) \<or>
      cf_status \<lparr>cf_search = [], cf_status = ''active''\<rparr> \<noteq> cf_status \<lparr>cf_search = [], cf_status = ''archived''\<rparr>"
    by simp
  show ?thesis using overtaken_clients_stay [OF differ, of JNull] by blast
qed

end
