(* ===== verification/Admin_Knowledge.thy ===== *)
theory Admin_Knowledge
  imports Admin_Pages Infra_Form "HOL-Library.While_Combinator"
begin

text \<open>
  The folders of a knowledge base, \<^verbatim>\<open>knowledge-base/KnowledgeBaseWorkspace.tsx\<close>: the way
  from the top folder to the one that is open, the folders below it, the folders a search finds and
  the creation of a folder. A folder names its parent by id. Nothing in the answer keeps folders
  from naming each other in a circle or a parent that is not there, and two may have the same id;
  the loops of the source end all the same, which is proved.
\<close>

section \<open>Folders\<close>

record folder =
  fo_id :: int
  fo_parent :: "int option"
  fo_name :: string
  fo_description :: string
  fo_ownership :: string
  fo_client :: "int option"

text \<open>\<^verbatim>\<open>byId\<close>: of several folders with an id, a map built from a list has the last.\<close>

definition byId :: "folder list \<Rightarrow> int \<Rightarrow> folder option" where
  "byId sections = map_of (rev (map (\<lambda>s. (fo_id s, s)) sections))"

lemma byId_Some: "byId sections i = Some s \<Longrightarrow> s \<in> set sections \<and> fo_id s = i"
  unfolding byId_def by (drule map_of_SomeD) auto

lemma byId_None: "byId sections i = None \<longleftrightarrow> i \<notin> fo_id ` set sections"
  by (force simp: byId_def map_of_eq_None_iff)

definition parent_of :: "folder list \<Rightarrow> folder \<Rightarrow> folder option" where
  "parent_of sections s = (case fo_parent s of None \<Rightarrow> None | Some p \<Rightarrow> byId sections p)"

text \<open>The loop of \<^verbatim>\<open>breadcrumbs\<close>: the visited ids, the folder it is at, the trail so far.\<close>

function climb :: "folder list \<Rightarrow> int set \<Rightarrow> folder option \<Rightarrow> folder list \<Rightarrow> folder list" where
  "climb sections visited None trail = trail"
| "climb sections visited (Some c) trail =
     (if fo_id c \<in> visited then trail
      else climb sections (insert (fo_id c) visited) (parent_of sections c) (c # trail))"
  by pat_completeness auto

text \<open>Every turn visits an id that was not visited before.\<close>

definition unvisited :: "folder list \<Rightarrow> int set \<Rightarrow> folder option \<Rightarrow> int set" where
  "unvisited sections visited here = (fo_id ` set sections \<union> fo_id ` set_option here) - visited"

lemma climb_decreases:
  assumes "fo_id c \<notin> visited"
  shows "card (unvisited sections (insert (fo_id c) visited) (parent_of sections c)) < card (unvisited sections visited (Some c))"
proof (rule psubset_card_mono)
  show "finite (unvisited sections visited (Some c))" by (simp add: unvisited_def)
  have "fo_id ` set_option (parent_of sections c) \<subseteq> fo_id ` set sections"
    by (auto simp: parent_of_def split: option.splits dest!: byId_Some)
  then show "unvisited sections (insert (fo_id c) visited) (parent_of sections c) \<subset> unvisited sections visited (Some c)"
    using assms by (auto simp: unvisited_def)
qed

termination climb
  by (relation "measure (\<lambda>(sections, visited, here, trail). card (unvisited sections visited here))")
    (simp_all add: climb_decreases)

definition breadcrumbs :: "folder list \<Rightarrow> int option \<Rightarrow> folder list" where
  "breadcrumbs sections sectionId = climb sections {} (case sectionId of None \<Rightarrow> None | Some i \<Rightarrow> byId sections i) []"

text \<open>One pass of \<^verbatim>\<open>subtree\<close> over all folders, and the loop until a pass adds nothing.\<close>

definition add_child :: "folder \<Rightarrow> int set \<times> bool \<Rightarrow> int set \<times> bool" where
  "add_child s st =
     (case fo_parent s of
        Some p \<Rightarrow> if p \<in> fst st \<and> fo_id s \<notin> fst st then (insert (fo_id s) (fst st), True) else st
      | None \<Rightarrow> st)"

definition subtree_pass :: "folder list \<Rightarrow> int set \<Rightarrow> int set \<times> bool" where
  "subtree_pass sections ids = fold add_child sections (ids, False)"

definition subtree_loop :: "folder list \<Rightarrow> int set \<Rightarrow> (int set \<times> bool) option" where
  "subtree_loop sections ids = while_option snd (\<lambda>st. subtree_pass sections (fst st)) (ids, True)"

definition subtree :: "folder list \<Rightarrow> int option \<Rightarrow> int set option" where
  "subtree sections sectionId =
     (case sectionId of
        None \<Rightarrow> Some (fo_id ` set sections)
      | Some i \<Rightarrow> map_option fst (subtree_loop sections {i}))"

definition own_folders :: "string \<Rightarrow> int option \<Rightarrow> folder list \<Rightarrow> folder list" where
  "own_folders ownership client sections = filter (\<lambda>s. fo_ownership s = ownership \<and> fo_client s = client) sections"

definition matchingFolders :: "folder list \<Rightarrow> int option \<Rightarrow> string \<Rightarrow> folder list option" where
  "matchingFolders sections sectionId query =
     (if trim query = [] then Some (filter (\<lambda>s. fo_parent s = sectionId) sections)
      else map_option (\<lambda>ids.
        let term = toLowerCase (trim query)
        in filter (\<lambda>s. Some (fo_id s) \<noteq> sectionId \<and> fo_id s \<in> ids \<and>
             (str_includes (toLowerCase (fo_name s)) term \<or> str_includes (toLowerCase (fo_description s)) term)) sections)
        (subtree sections sectionId))"

section \<open>The trail\<close>

text \<open>A trail of parents: every folder is the parent of the next.\<close>

fun parents_chain :: "folder list \<Rightarrow> folder list \<Rightarrow> bool" where
  "parents_chain sections (a # b # r) = (parent_of sections b = Some a \<and> parents_chain sections (b # r))"
| "parents_chain sections r = True"

definition trail_inv :: "folder list \<Rightarrow> int set \<Rightarrow> folder option \<Rightarrow> folder list \<Rightarrow> bool" where
  "trail_inv sections visited here trail \<longleftrightarrow>
     visited = fo_id ` set trail \<and> distinct (map fo_id trail) \<and> parents_chain sections trail \<and>
     (trail \<noteq> [] \<longrightarrow> parent_of sections (hd trail) = here)"

lemma climb_trail:
  assumes "trail_inv sections visited here trail" "trail \<noteq> []"
  shows "\<exists>up. climb sections visited here trail = up @ trail \<and>
    distinct (map fo_id (up @ trail)) \<and> parents_chain sections (up @ trail) \<and>
    (case parent_of sections (hd (up @ trail)) of None \<Rightarrow> True | Some p \<Rightarrow> fo_id p \<in> fo_id ` set (up @ trail))"
  using assms
proof (induction sections visited here trail rule: climb.induct)
  case (1 sections visited trail)
  then show ?case by (intro exI [of _ "[]"]) (simp add: trail_inv_def)
next
  case (2 sections visited c trail)
  show ?case
  proof (cases "fo_id c \<in> visited")
    case True
    with 2 show ?thesis by (intro exI [of _ "[]"]) (simp add: trail_inv_def)
  next
    case False
    have "trail_inv sections (insert (fo_id c) visited) (parent_of sections c) (c # trail)"
      using 2(2,3) False by (cases trail) (simp_all add: trail_inv_def)
    from 2(1) [OF False this] obtain up where
      "climb sections (insert (fo_id c) visited) (parent_of sections c) (c # trail) = up @ c # trail"
      "distinct (map fo_id (up @ c # trail))" "parents_chain sections (up @ c # trail)"
      "case parent_of sections (hd (up @ c # trail)) of None \<Rightarrow> True | Some p \<Rightarrow> fo_id p \<in> fo_id ` set (up @ c # trail)"
      by auto
    with False show ?thesis by (intro exI [of _ "up @ [c]"]) (simp split: option.splits)
  qed
qed

text \<open>
  C8: the trail of a folder ends with that folder and names each folder once; each folder is
  the parent of the next; and it goes all the way up: the first folder has no parent, or one that
  is not listed, or, if folders name each other in a circle, one that is on the trail already.
\<close>

theorem breadcrumbs_lead_up:
  assumes "byId sections i = Some s"
  shows "breadcrumbs sections (Some i) \<noteq> [] \<and> last (breadcrumbs sections (Some i)) = s \<and>
    distinct (map fo_id (breadcrumbs sections (Some i))) \<and> parents_chain sections (breadcrumbs sections (Some i)) \<and>
    (case parent_of sections (hd (breadcrumbs sections (Some i))) of
       None \<Rightarrow> True | Some p \<Rightarrow> fo_id p \<in> fo_id ` set (breadcrumbs sections (Some i)))"
proof -
  have "trail_inv sections {fo_id s} (parent_of sections s) [s]" by (simp add: trail_inv_def)
  from climb_trail [OF this] obtain up where
    "climb sections {fo_id s} (parent_of sections s) [s] = up @ [s]" "distinct (map fo_id (up @ [s]))"
    "parents_chain sections (up @ [s])"
    "case parent_of sections (hd (up @ [s])) of None \<Rightarrow> True | Some p \<Rightarrow> fo_id p \<in> fo_id ` set (up @ [s])"
    by auto
  moreover have "breadcrumbs sections (Some i) = climb sections {fo_id s} (parent_of sections s) [s]"
    using assms by (simp add: breadcrumbs_def)
  ultimately show ?thesis by (simp split: option.splits)
qed

section \<open>The folders below\<close>

definition child_rel :: "folder list \<Rightarrow> (int \<times> int) set" where
  "child_rel sections = {(p, fo_id s) |p s. s \<in> set sections \<and> fo_parent s = Some p}"

lemma pass_facts:
  assumes "fold add_child xs (ids, b) = (ids', b')"
  shows "ids \<subseteq> ids' \<and> ids' \<subseteq> ids \<union> fo_id ` set xs \<and> ids' \<subseteq> (child_rel xs)\<^sup>* `` ids \<and> (b \<longrightarrow> b') \<and>
    (b' \<and> \<not> b \<longrightarrow> ids \<subset> ids') \<and> (\<not> b' \<longrightarrow> ids' = ids \<and> (\<forall>s \<in> set xs. \<forall>p. fo_parent s = Some p \<longrightarrow> p \<in> ids \<longrightarrow> fo_id s \<in> ids))"
  using assms
proof (induction xs arbitrary: ids b)
  case Nil
  then show ?case by auto
next
  case (Cons x xs)
  obtain ids1 b1 where step: "add_child x (ids, b) = (ids1, b1)" by (cases "add_child x (ids, b)")
  have IH: "ids1 \<subseteq> ids'" "ids' \<subseteq> ids1 \<union> fo_id ` set xs" "ids' \<subseteq> (child_rel xs)\<^sup>* `` ids1" "b1 \<longrightarrow> b'"
    "\<not> b' \<longrightarrow> ids' = ids1 \<and> (\<forall>s \<in> set xs. \<forall>p. fo_parent s = Some p \<longrightarrow> p \<in> ids1 \<longrightarrow> fo_id s \<in> ids1)"
    "b' \<and> \<not> b1 \<longrightarrow> ids1 \<subset> ids'"
    using Cons.IH [of ids1 b1] Cons.prems step by auto
  have sub: "(child_rel xs)\<^sup>* \<subseteq> (child_rel (x # xs))\<^sup>*" by (rule rtrancl_mono) (auto simp: child_rel_def)
  show ?case
  proof (cases "\<exists>p. fo_parent x = Some p \<and> p \<in> ids \<and> fo_id x \<notin> ids")
    case True
    then obtain p where p: "fo_parent x = Some p" "p \<in> ids" "fo_id x \<notin> ids" by blast
    then have new: "ids1 = insert (fo_id x) ids" "b1" using step by (simp_all add: add_child_def)
    have edge: "(p, fo_id x) \<in> (child_rel (x # xs))\<^sup>*" using p by (auto simp: child_rel_def)
    have "ids' \<subseteq> (child_rel (x # xs))\<^sup>* `` ids"
    proof
      fix y assume "y \<in> ids'"
      then obtain z where z: "z \<in> ids1" "(z, y) \<in> (child_rel (x # xs))\<^sup>*" using IH(3) sub by blast
      show "y \<in> (child_rel (x # xs))\<^sup>* `` ids"
      proof (cases "z = fo_id x")
        case True
        then have "(p, y) \<in> (child_rel (x # xs))\<^sup>*" using edge z(2) by (simp add: rtrancl_trans)
        then show ?thesis using p(2) by blast
      next
        case False
        then show ?thesis using z new by blast
      qed
    qed
    then show ?thesis using IH new p by auto
  next
    case False
    then have same: "ids1 = ids" "b1 = b" using step by (auto simp: add_child_def split: option.splits if_splits)
    have "ids' \<subseteq> (child_rel (x # xs))\<^sup>* `` ids" using IH(3) sub same by blast
    then show ?thesis using IH same False by auto
  qed
qed

lemma subtree_pass_facts:
  assumes "subtree_pass sections ids = (ids', changed)"
  shows "ids \<subseteq> ids'" "ids' \<subseteq> ids \<union> fo_id ` set sections" "ids' \<subseteq> (child_rel sections)\<^sup>* `` ids"
    "changed \<Longrightarrow> ids \<subset> ids'" "\<not> changed \<Longrightarrow> ids' = ids \<and> child_rel sections `` ids \<subseteq> ids"
  using pass_facts [OF assms [unfolded subtree_pass_def]] by (auto simp: child_rel_def)

lemma closed_rtrancl: "R `` A \<subseteq> A \<Longrightarrow> R\<^sup>* `` A = A"
  by (rule Image_closed_trancl)

text \<open>The loop ends: a pass that reports a change has found an id that was not found before.\<close>

lemma subtree_loop_ends: "\<exists>st. subtree_loop sections {i} = Some st"
  unfolding subtree_loop_def
proof (rule measure_while_option_Some
    [where P = "\<lambda>st. fst st \<subseteq> insert i (fo_id ` set sections)"
      and f = "\<lambda>st. card (insert i (fo_id ` set sections) - fst st) + (if snd st then 1 else 0)"])
  fix st :: "int set \<times> bool"
  let ?all = "insert i (fo_id ` set sections)"
  assume inv: "fst st \<subseteq> ?all" and going: "snd st"
  obtain ids' changed where pass: "subtree_pass sections (fst st) = (ids', changed)" by (cases "subtree_pass sections (fst st)")
  note facts = subtree_pass_facts [OF pass]
  have "ids' \<subseteq> ?all" using facts(2) inv by blast
  moreover have "card (?all - ids') < card (?all - fst st)" if changed
    using facts(4) [OF that] calculation by (intro psubset_card_mono) auto
  moreover have "ids' = fst st" if "\<not> changed" using facts(5) that by blast
  ultimately show "fst (subtree_pass sections (fst st)) \<subseteq> ?all \<and>
      card (?all - fst (subtree_pass sections (fst st))) + (if snd (subtree_pass sections (fst st)) then 1 else 0)
      < card (?all - fst st) + (if snd st then 1 else 0)"
    using going by (cases changed) (auto simp: pass)
qed simp

lemma subtree_eq:
  "subtree sections (Some i) = Some ((child_rel sections)\<^sup>* `` {i})"
proof -
  obtain st where st: "subtree_loop sections {i} = Some st" using subtree_loop_ends by blast
  let ?R = "child_rel sections"
  let ?inv = "\<lambda>st. i \<in> fst st \<and> fst st \<subseteq> ?R\<^sup>* `` {i} \<and> (snd st \<or> ?R `` fst st \<subseteq> fst st)"
  have keep: "?inv (subtree_pass sections (fst u))" if u: "?inv u" for u
  proof -
    obtain ids' changed where pass: "subtree_pass sections (fst u) = (ids', changed)" by (cases "subtree_pass sections (fst u)")
    note facts = subtree_pass_facts [OF pass]
    have "?R\<^sup>* `` fst u \<subseteq> ?R\<^sup>* `` {i}"
    proof -
      have "?R\<^sup>* `` fst u \<subseteq> ?R\<^sup>* `` (?R\<^sup>* `` {i})" using u by blast
      then show ?thesis by (auto intro: rtrancl_trans)
    qed
    then have "ids' \<subseteq> ?R\<^sup>* `` {i}" using facts(3) by blast
    then show ?thesis using facts(1,5) u pass by auto
  qed
  have "?inv st"
    by (rule while_option_rule [OF _ st [unfolded subtree_loop_def], of ?inv]) (use keep in auto)
  moreover have "\<not> snd st" using while_option_stop [OF st [unfolded subtree_loop_def]] by simp
  ultimately have "i \<in> fst st" "fst st \<subseteq> ?R\<^sup>* `` {i}" "?R\<^sup>* `` fst st = fst st"
    using closed_rtrancl [of ?R "fst st"] by auto
  then have "fst st = ?R\<^sup>* `` {i}" by blast
  then show ?thesis using st by (simp add: subtree_def)
qed

text \<open>
  C6: \<^verbatim>\<open>subtree\<close> returns, whatever parents the folders name, and what it returns is
  the open folder with everything below it: the ids that a chain of parents connects to it.
\<close>

theorem subtree_is_everything_below:
  "subtree sections (Some i) = Some ((child_rel sections)\<^sup>* `` {i})"
  by (rule subtree_eq)

lemma breadcrumbs_of_circle:
  "let f = (\<lambda>i p. \<lparr>fo_id = i, fo_parent = p, fo_name = [], fo_description = [], fo_ownership = ''internal'', fo_client = None\<rparr>)
   in breadcrumbs [f 1 (Some 2), f 2 (Some 1)] (Some 1) = [f 2 (Some 1), f 1 (Some 2)]"
  by (simp add: breadcrumbs_def byId_def parent_of_def Let_def)

theorem breadcrumbs_lead_up_witness:
  "let f = (\<lambda>i p. \<lparr>fo_id = i, fo_parent = p, fo_name = [], fo_description = [], fo_ownership = ''internal'', fo_client = None\<rparr>);
       trail = breadcrumbs [f 1 (Some 2), f 2 (Some 1)] (Some 1)
   in trail = [f 2 (Some 1), f 1 (Some 2)] \<and> last trail = f 1 (Some 2) \<and> distinct (map fo_id trail)"
proof -
  define f where "f = (\<lambda>i p. \<lparr>fo_id = i, fo_parent = p, fo_name = [], fo_description = [], fo_ownership = ''internal'', fo_client = None\<rparr>)"
  have "byId [f 1 (Some 2), f 2 (Some 1)] 1 = Some (f 1 (Some 2))" by (simp add: byId_def f_def)
  from breadcrumbs_lead_up [OF this] breadcrumbs_of_circle show ?thesis by (simp add: f_def Let_def)
qed


section \<open>The page of a folder\<close>

record folder_page = net +
  fp_sections :: "folder list"
  fp_loading :: bool
  fp_error :: "string option"
  fp_query :: string
  fp_view :: string
  fp_page :: nat
  fp_name :: string
  fp_form_shown :: bool
  fp_saving :: bool

definition optional_int :: "json option \<Rightarrow> int option" where
  "optional_int j = (case j of Some (JNum n) \<Rightarrow> Some n | _ \<Rightarrow> None)"

definition read_folder :: "json \<Rightarrow> folder" where
  "read_folder j =
     \<lparr>fo_id = nullish (optional_int (jget j ''id'')) 0, fo_parent = optional_int (jget j ''parent_id''),
      fo_name = nullish (jstr j ''name'') [], fo_description = nullish (jstr j ''description'') [],
      fo_ownership = nullish (jstr j ''ownership_type'') [], fo_client = optional_int (jget j ''client_id'')\<rparr>"

definition context_owner :: "KnowledgeContext \<Rightarrow> string" where
  "context_owner ctx = (case ctx of Internal \<Rightarrow> ''internal'' | Client i \<Rightarrow> ''client'')"

definition context_client :: "KnowledgeContext \<Rightarrow> int option" where
  "context_client ctx = (case ctx of Internal \<Rightarrow> None | Client i \<Rightarrow> Some i)"

definition knowledge_base :: "admin_world \<Rightarrow> string" where
  "knowledge_base w = aw_api w @ ''/api/admin/knowledge-base''"

definition folder_load :: "admin_world \<Rightarrow> KnowledgeContext \<Rightarrow> int option \<Rightarrow> int option \<Rightarrow> (folder_page, unit) act" where
  "folder_load w ctx sectionId resourceId s =
     (let q = params_str (knowledge_params ctx sectionId resourceId (fp_page s) \<lparr>kf_query = fp_query s, kf_view = fp_view s\<rparr>)
      in then_act (set_act (\<lambda>s. s\<lparr>fp_loading := True, fp_error := None\<rparr>))
        (finally_act
          (catch_act
            (bind_act (api_get w (knowledge_base w @ ''/workspace?'' @ q)) (\<lambda>j.
              set_act (\<lambda>s. s\<lparr>fp_sections := own_folders (context_owner ctx) (context_client ctx)
                (map read_folder (json_list (jget j ''sections'')))\<rparr>)))
            (\<lambda>e. set_act (\<lambda>s. s\<lparr>fp_error := Some (message_of ''Unable to load this folder.'' e)\<rparr>)))
          (\<lambda>s. s\<lparr>fp_loading := False\<rparr>)) s)"

definition folderHref :: "KnowledgeContext \<Rightarrow> int option \<Rightarrow> int option \<Rightarrow> string" where
  "folderHref ctx resourceId i =
     ''/admin/knowledge-base?'' @ params_str (knowledgeContextParams ctx @ given ''section_id'' (set_id i) @
       given ''resource_id'' (truthy_id resourceId))"

definition optional_json :: "int option \<Rightarrow> json" where
  "optional_json i = (case i of None \<Rightarrow> JNull | Some n \<Rightarrow> JNum n)"

definition folder_body :: "KnowledgeContext \<Rightarrow> int option \<Rightarrow> folder_page \<Rightarrow> json" where
  "folder_body ctx sectionId s =
     JObj [(''ownership_type'', JStr (context_owner ctx)), (''client_id'', optional_json (context_client ctx)),
       (''parent_id'', optional_json sectionId), (''name'', JStr (trim (fp_name s))), (''description'', JStr []),
       (''order'', JNum (int (length (filter (\<lambda>f. fo_parent f = sectionId) (fp_sections s)))))]"

definition createFolder ::
  "admin_world \<Rightarrow> bool \<Rightarrow> KnowledgeContext \<Rightarrow> int option \<Rightarrow> int option \<Rightarrow> (folder_page, unit) act" where
  "createFolder w canAddSection ctx sectionId resourceId s =
     guard_act (canAddSection \<and> trim (fp_name s) \<noteq> [])
       (finally_act
         (catch_act
           (then_act (set_act (\<lambda>s. s\<lparr>fp_saving := True, fp_error := None\<rparr>))
             (then_act (api_send w ''POST'' (knowledge_base w @ ''/sections'') (JsonBody (folder_body ctx sectionId s)))
               (then_act (set_act (\<lambda>s. s\<lparr>fp_name := [], fp_form_shown := False\<rparr>))
                 (folder_load w ctx sectionId resourceId))))
           (\<lambda>e. set_act (\<lambda>s. s\<lparr>fp_error := Some (message_of ''Unable to create folder.'' e)\<rparr>)))
         (\<lambda>s. s\<lparr>fp_saving := False\<rparr>)) s"

interpretation folder_form: submit_handler "createFolder w canAddSection ctx sectionId resourceId" fp_saving
  by (rule submit_handlerI)
    (auto simp: createFolder_def guard_act_def return_act_def form_simps)

section \<open>Documents\<close>

definition toggleId :: "int list \<Rightarrow> int \<Rightarrow> int list" where
  "toggleId ids i = (if i \<in> set ids then filter (\<lambda>v. v \<noteq> i) ids else ids @ [i])"

record document_form = net +
  kd_ownership :: string
  kd_client :: string
  kd_title :: string
  kd_summary :: string
  kd_section :: string
  kd_content :: string
  kd_tags :: string
  kd_change :: string
  kd_resources :: "int list"
  kd_credentials :: "int list"
  kd_options :: "json option"
  kd_loading :: bool
  kd_saving :: bool
  kd_error :: "string option"
  kd_visited :: "string list"

definition document_init :: "KnowledgeContext option \<Rightarrow> int option \<Rightarrow> document_form" where
  "document_init initialContext initialSectionId =
     \<lparr>stored_token = None, sent = [],
      kd_ownership = (case initialContext of None \<Rightarrow> [] | Some ctx \<Rightarrow> context_owner ctx),
      kd_client = (case initialContext of None \<Rightarrow> [] | Some ctx \<Rightarrow> truthy_id (context_client ctx)),
      kd_title = [], kd_summary = [], kd_section = truthy_id initialSectionId, kd_content = ''# '', kd_tags = [], kd_change = [],
      kd_resources = [], kd_credentials = [], kd_options = None, kd_loading = True, kd_saving = False, kd_error = None,
      kd_visited = []\<rparr>"

text \<open>A member that is read as a list: anything else throws.\<close>

definition array_of :: "json \<Rightarrow> string \<Rightarrow> json list result" where
  "array_of j k = (case jget j k of Some (JArr xs) \<Rightarrow> Inr xs | _ \<Rightarrow> Inl TypeError)"

definition number_members :: "string \<Rightarrow> json list \<Rightarrow> int list" where
  "number_members k xs = [n. Some (JNum n) \<leftarrow> map (\<lambda>x. jget x k) xs]"

definition document_context :: "json \<Rightarrow> KnowledgeContext option" where
  "document_context d =
     parseKnowledgeContext (jstr d ''ownership_type'')
       (if jget d ''client_id'' = Some JNull then None else Some (case jget d ''client_id'' of None \<Rightarrow> ''undefined'' | Some j \<Rightarrow> js_text j))"

definition fill_document :: "json \<Rightarrow> json list \<Rightarrow> json list \<Rightarrow> json list \<Rightarrow> document_form \<Rightarrow> document_form" where
  "fill_document d tags resources credentials s =
     s\<lparr>kd_ownership := nullish (jstr d ''ownership_type'') [], kd_client := truthy_client d, kd_title := nullish (jstr d ''title'') [],
       kd_summary := nullish (jstr d ''summary'') [], kd_section := stringValue (jget d ''section_id''),
       kd_content := nullish (jstr d ''content'') [], kd_tags := join '', '' (map js_text tags), kd_change := [],
       kd_resources := number_members ''resource_id'' resources, kd_credentials := number_members ''credential_id'' credentials\<rparr>"

definition document_load ::
  "admin_world \<Rightarrow> bool \<Rightarrow> int option \<Rightarrow> KnowledgeContext option \<Rightarrow> (document_form, unit) act" where
  "document_load w canSave documentId initialContext =
     (if \<not> canSave \<or> documentId = None \<and> initialContext = None then set_act (\<lambda>s. s\<lparr>kd_loading := False\<rparr>)
      else finally_act
        (catch_act
          (then_act (set_act (\<lambda>s. s\<lparr>kd_loading := True, kd_error := None\<rparr>))
            (bind_act
              (case documentId of
                 None \<Rightarrow> return_act initialContext
               | Some i \<Rightarrow>
                   bind_act (api_get w (knowledge_base w @ ''/documents/'' @ int_str i)) (\<lambda>j.
                     bind_act (lift_act (non_null j)) (\<lambda>d.
                       bind_act (lift_act (array_of d ''tags'')) (\<lambda>tags.
                         bind_act (lift_act (array_of d ''resources'')) (\<lambda>resources.
                           bind_act (lift_act (array_of d ''credentials'')) (\<lambda>credentials.
                             then_act (set_act (fill_document d tags resources credentials)) (return_act (document_context d))))))))
              (\<lambda>ctx. case ctx of
                 None \<Rightarrow> throw_act (Error ''Choose a Client or Internal Knowledge Base first.'')
               | Some c \<Rightarrow>
                   bind_act (api_get w (knowledge_base w @ ''/options?'' @ params_str (knowledgeContextParams c))) (\<lambda>j.
                     set_act (\<lambda>s. s\<lparr>kd_options := Some j\<rparr>)))))
          (\<lambda>e. set_act (\<lambda>s. s\<lparr>kd_error := Some (message_of ''Unable to load Knowledge Base document configuration.'' e)\<rparr>)))
        (\<lambda>s. s\<lparr>kd_loading := False\<rparr>))"

definition tag_names :: "string \<Rightarrow> string list" where
  "tag_names text = filter (\<lambda>t. t \<noteq> []) (map trim (split_on CHR '','' text))"

definition has_options :: "document_form \<Rightarrow> string \<Rightarrow> bool" where
  "has_options s k =
     (case kd_options s of None \<Rightarrow> False | Some options \<Rightarrow> json_list (jget options k) \<noteq> [])"

definition ids_value :: "int list \<Rightarrow> form_value" where
  "ids_value ids = V_nums (map (\<lambda>n. Dec n 0) ids)"

definition document_payload :: "int option \<Rightarrow> document_form \<Rightarrow> payload" where
  "document_payload documentId s =
     [(''title'', trimmed (kd_title s)), (''summary'', trimmed (kd_summary s)), (''section_id'', required_number (kd_section s)),
      (''content'', V_text (kd_content s)), (''tag_names'', V_texts (tag_names (kd_tags s)))] @
     (if documentId \<noteq> None then
        [(''change_summary'', trimmed (kd_change s))] @
        (if has_options s ''resources'' then [(''resource_ids'', ids_value (kd_resources s))] else []) @
        (if has_options s ''credentials'' then [(''credential_ids'', ids_value (kd_credentials s))] else [])
      else
        [(''ownership_type'', V_text (kd_ownership s)),
         (''client_id'', if kd_client s \<noteq> [] then required_number (kd_client s) else V_null),
         (''resource_ids'', ids_value (kd_resources s)), (''credential_ids'', ids_value (kd_credentials s))])"

definition document_problem :: "document_form \<Rightarrow> string option" where
  "document_problem s =
     first_problem
       [(trim (kd_title s) = [], ''Document title is required.''), (kd_section s = [], ''Choose a Knowledge Base folder.''),
        (kd_ownership s = ''client'' \<and> kd_client s = [], ''Client documentation requires a client.'')]"

definition document_save ::
  "admin_world \<Rightarrow> bool \<Rightarrow> int option \<Rightarrow> KnowledgeContext option \<Rightarrow> (document_form, unit) act" where
  "document_save w canSave documentId initialContext s =
     (if \<not> canSave \<or> documentId = None \<and> initialContext = None then (s, Inr ())
      else case document_problem s of
        Some message \<Rightarrow> (s\<lparr>kd_error := Some message\<rparr>, Inr ())
      | None \<Rightarrow>
          finally_act
            (catch_act
              (then_act (set_act (\<lambda>s. s\<lparr>kd_saving := True, kd_error := None\<rparr>))
                (bind_act
                  (api_send w (if documentId \<noteq> None then ''PUT'' else ''POST'')
                    (knowledge_base w @ ''/documents'' @ (case documentId of None \<Rightarrow> [] | Some i \<Rightarrow> ''/'' @ int_str i))
                    (TextBody (payload_text (document_payload documentId s))))
                  (\<lambda>saved. bind_act (lift_act (non_null saved)) (\<lambda>j.
                    set_act (\<lambda>s. s\<lparr>kd_visited := kd_visited s @ [''/admin/knowledge-base/documents/'' @
                      (case jget j ''id'' of None \<Rightarrow> ''undefined'' | Some i \<Rightarrow> js_text i)]\<rparr>)))))
              (\<lambda>e. set_act (\<lambda>s. s\<lparr>kd_error := Some (message_of ''Unable to save document.'' e)\<rparr>)))
            (\<lambda>s. s\<lparr>kd_saving := False\<rparr>) s)"

interpretation document_form: submit_handler "document_save w canSave documentId initialContext" kd_saving
  by (rule submit_handlerI)
    (auto simp: document_save_def form_simps split: option.split)

section \<open>An untouched document is kept\<close>

definition proper_tag :: "string \<Rightarrow> bool" where
  "proper_tag t \<longleftrightarrow> t \<noteq> [] \<and> trim t = t \<and> CHR '','' \<notin> set t"

lemma trim_space: "trim (CHR '' '' # t) = trim t"
  by (simp add: trim_def trim_start_def js_space_def)

lemma split_tags:
  "ts \<noteq> [] \<Longrightarrow> list_all proper_tag ts \<Longrightarrow>
     split_on CHR '','' (join '', '' ts) = hd ts # map (Cons CHR '' '') (tl ts)"
proof (induction ts)
  case (Cons t ts)
  show ?case
  proof (cases "ts = []")
    case True
    with Cons show ?thesis by (simp add: proper_tag_def split_on_no_sep)
  next
    case False
    then have "join '', '' (t # ts) = t @ CHR '','' # (CHR '' '' # join '', '' ts)" by (simp add: join_Cons)
    moreover have "split_on CHR '','' (CHR '' '' # join '', '' ts) = (CHR '' '' # hd ts) # map (Cons CHR '' '') (tl ts)"
      using Cons False by simp
    ultimately show ?thesis using Cons.prems False by (cases ts) (simp_all add: proper_tag_def split_on_append)
  qed
qed simp

lemma tag_names_join:
  assumes "list_all proper_tag ts"
  shows "tag_names (join '', '' ts) = ts"
proof (cases ts)
  case Nil
  then show ?thesis by (simp add: tag_names_def trim_nil)
next
  case (Cons t r)
  then have "map trim (split_on CHR '','' (join '', '' ts)) = map trim ts"
    using split_tags [OF _ assms] by (simp add: trim_space)
  moreover have "map trim ts = ts" using assms by (intro map_idI) (auto simp: proper_tag_def list_all_iff)
  moreover have "filter (\<lambda>t. t \<noteq> []) ts = ts" using assms by (auto simp: proper_tag_def list_all_iff intro!: filter_True)
  ultimately show ?thesis by (simp add: tag_names_def)
qed

text \<open>
  Editing a document and saving it without a change sends its title, summary, folder,
  content and tags as they were read, and the resources and credentials it is linked with if the
  editor may choose among them.
\<close>

theorem untouched_document_is_kept:
  assumes "jget d ''title'' = Some (JStr title)" "trim title = title"
    and "jget d ''summary'' = Some (JStr summary)" "trim summary = summary"
    and "jget d ''section_id'' = Some (JNum n)" "0 \<le> n"
    and "jget d ''content'' = Some (JStr content)"
    and "tags = map JStr ts" "list_all proper_tag ts"
  shows "document_payload (Some i) (fill_document d tags resources credentials s) =
    [(''title'', V_text title), (''summary'', V_text summary), (''section_id'', V_num (Dec n 0)), (''content'', V_text content),
     (''tag_names'', V_texts ts), (''change_summary'', V_text [])] @
    (if has_options s ''resources'' then [(''resource_ids'', ids_value (number_members ''resource_id'' resources))] else []) @
    (if has_options s ''credentials'' then [(''credential_ids'', ids_value (number_members ''credential_id'' credentials))] else [])"
proof -
  have "map js_text tags = ts" using assms(8) by (induction ts arbitrary: tags) auto
  then show ?thesis
    using assms tag_names_join [OF assms(9)] trim_int_str [OF assms(6)]
    by (simp add: document_payload_def fill_document_def trimmed_def required_number_def jstr_def stringValue_def
        js_Number_int_str has_options_def trim_nil)
qed

theorem untouched_document_is_kept_witness:
  "let d = JObj [(''title'', JStr ''VPN''), (''summary'', JStr []), (''section_id'', JNum 4), (''content'', JStr ''# VPN'')]
   in document_payload (Some 7) (fill_document d [JStr ''net'', JStr ''ops''] [] [] (document_init None None)) =
     [(''title'', V_text ''VPN''), (''summary'', V_text []), (''section_id'', V_num (Dec 4 0)), (''content'', V_text ''# VPN''),
      (''tag_names'', V_texts [''net'', ''ops'']), (''change_summary'', V_text [])]"
proof -
  let ?d = "JObj [(''title'', JStr ''VPN''), (''summary'', JStr []), (''section_id'', JNum 4), (''content'', JStr ''# VPN'')]"
  have "trim ''VPN'' = ''VPN''" "trim [] = []" "list_all proper_tag [''net'', ''ops'']" by code_simp+
  then show ?thesis
    using untouched_document_is_kept [of ?d "''VPN''" "[]" 4 "''# VPN''" "[JStr ''net'', JStr ''ops'']" "[''net'', ''ops'']" 7 "[]" "[]" "document_init None None"]
    by (simp add: document_init_def has_options_def)
qed

section \<open>The page of a document\<close>

record document_page = net +
  dp_document :: "json option"
  dp_historical :: "json option"
  dp_loading :: bool
  dp_working :: bool
  dp_error :: "string option"

definition page_load :: "admin_world \<Rightarrow> int \<Rightarrow> (document_page, unit) act" where
  "page_load w documentId =
     then_act (set_act (\<lambda>s. s\<lparr>dp_loading := True, dp_error := None\<rparr>))
       (finally_act
         (catch_act
           (bind_act (api_get w (knowledge_base w @ ''/documents/'' @ int_str documentId)) (\<lambda>j.
             set_act (\<lambda>s. s\<lparr>dp_document := Some j\<rparr>)))
           (\<lambda>e. set_act (\<lambda>s. s\<lparr>dp_error := Some (message_of ''Unable to load Knowledge Base document.'' e)\<rparr>)))
         (\<lambda>s. s\<lparr>dp_loading := False\<rparr>))"

definition loadVersion :: "admin_world \<Rightarrow> int \<Rightarrow> int \<Rightarrow> (document_page, unit) act" where
  "loadVersion w documentId versionNumber =
     catch_act
       (then_act (set_act (\<lambda>s. s\<lparr>dp_error := None\<rparr>))
         (bind_act (api_get w (knowledge_base w @ ''/documents/'' @ int_str documentId @ ''/versions/'' @ int_str versionNumber)) (\<lambda>j.
           set_act (\<lambda>s. s\<lparr>dp_historical := Some j\<rparr>))))
       (\<lambda>e. set_act (\<lambda>s. s\<lparr>dp_error := Some (message_of ''Unable to load document version.'' e)\<rparr>))"

text \<open>What the four changes share: the flag, the message, and loading again after the change.\<close>

definition page_change ::
  "admin_world \<Rightarrow> int \<Rightarrow> string \<Rightarrow> (document_page, json) act \<Rightarrow> (document_page \<Rightarrow> document_page) \<Rightarrow> (document_page, unit) act" where
  "page_change w documentId fallback call after =
     finally_act
       (catch_act
         (then_act (set_act (\<lambda>s. s\<lparr>dp_working := True, dp_error := None\<rparr>))
           (then_act call (then_act (set_act after) (page_load w documentId))))
         (\<lambda>e. set_act (\<lambda>s. s\<lparr>dp_error := Some (message_of fallback e)\<rparr>)))
       (\<lambda>s. s\<lparr>dp_working := False\<rparr>)"

definition document_id :: "json \<Rightarrow> string" where
  "document_id d = (case jget d ''id'' of None \<Rightarrow> ''undefined'' | Some i \<Rightarrow> js_text i)"

definition changeArchiveState :: "admin_world \<Rightarrow> bool \<Rightarrow> int \<Rightarrow> (document_page, unit) act" where
  "changeArchiveState w canChange documentId s =
     (case dp_document s of
        Some d \<Rightarrow> guard_act canChange
          (page_change w documentId ''Unable to update document state.''
            (api_send w ''POST'' (knowledge_base w @ ''/documents/'' @ document_id d @ ''/'' @
              (if truthy (jget d ''archived'') then ''restore'' else ''archive'')) NoBody)
            (\<lambda>s. s\<lparr>dp_historical := None\<rparr>)) s
      | None \<Rightarrow> (s, Inr ()))"

definition uploadAttachment :: "admin_world \<Rightarrow> bool \<Rightarrow> int \<Rightarrow> bool \<Rightarrow> (document_page, unit) act" where
  "uploadAttachment w canAddAttachment documentId has_file s =
     (case dp_document s of
        Some d \<Rightarrow> guard_act (has_file \<and> canAddAttachment)
          (page_change w documentId ''Unable to upload attachment.''
            (api_send w ''POST'' (knowledge_base w @ ''/documents/'' @ document_id d @ ''/attachments'') FormBody) (\<lambda>s. s)) s
      | None \<Rightarrow> (s, Inr ()))"

definition removeAttachment :: "admin_world \<Rightarrow> bool \<Rightarrow> int \<Rightarrow> int \<Rightarrow> (document_page, unit) act" where
  "removeAttachment w canDeleteAttachment documentId attachmentId =
     guard_act canDeleteAttachment
       (page_change w documentId ''Unable to delete attachment.''
         (api_send w ''DELETE'' (knowledge_base w @ ''/attachments/'' @ int_str attachmentId) NoBody) (\<lambda>s. s))"

lemma page_change_form [form_simps]:
  "\<not> isl (snd (page_change w documentId fallback call after s))" "\<not> dp_working (fst (page_change w documentId fallback call after s))"
  by (simp_all add: page_change_def form_simps)

interpretation archive_form: submit_handler "changeArchiveState w canChange documentId" dp_working
  by (rule submit_handlerI)
    (auto simp: changeArchiveState_def guard_act_def return_act_def form_simps split: option.split)

interpretation upload_form: submit_handler "uploadAttachment w canAddAttachment documentId has_file" dp_working
  by (rule submit_handlerI)
    (auto simp: uploadAttachment_def guard_act_def return_act_def form_simps split: option.split)

interpretation remove_form: submit_handler "removeAttachment w canDeleteAttachment documentId attachmentId" dp_working
  by (rule submit_handlerI)
    (auto simp: removeAttachment_def guard_act_def return_act_def form_simps)

end
