(* ===== verification/Admin_Tickets.thy ===== *)
theory Admin_Tickets
  imports Admin_Knowledge Admin_Time Js_Sort "HOL-Library.Product_Lexorder" "HOL-Library.Sublist"
begin

text \<open>
  Tickets: the conversation of a ticket with replies and notes
  (\<^verbatim>\<open>tickets/[id]/TicketWorkspace.tsx\<close>), its workflow controls
  (\<^verbatim>\<open>TicketControls.tsx\<close>), its timer (\<^verbatim>\<open>TicketTimerControl.tsx\<close>),
  the default queues and the sorting of the list (\<^verbatim>\<open>TicketList.tsx\<close>) and the service
  levels (\<^verbatim>\<open>service-levels/ServiceLevelsWorkspace.tsx\<close>).

  The handlers are code over the state of their component. Replies and reloads of a conversation
  overlap, because the server announces a change that the page itself made; that is a step relation
  of its own.
\<close>

section \<open>Recipients\<close>

text \<open>\<^verbatim>\<open>[...new Set(xs)]\<close> keeps the first of equal elements.\<close>

definition unique :: "'a list \<Rightarrow> 'a list" where
  "unique xs = rev (remdups (rev xs))"

lemma unique_facts [simp]: "distinct (unique xs)" "set (unique xs) = set xs"
  by (simp_all add: unique_def)

lemma unique_id: "distinct xs \<Longrightarrow> unique xs = xs"
  by (simp add: unique_def distinct_remdups_id)

definition parseRecipients :: "string \<Rightarrow> string list" where
  "parseRecipients value =
     unique (filter (\<lambda>a. a \<noteq> []) (map (\<lambda>a. toLowerCase (trim a))
       (split_on CHR '','' (map (\<lambda>c. if c = CHR '';'' then CHR '','' else c) value))))"

section \<open>The conversation\<close>

datatype item_kind = Message | Note

record item =
  it_kind :: item_kind
  it_id :: int
  it_timestamp :: string

record conversation =
  co_messages :: "(int \<times> string) list"
  co_notes :: "(int \<times> string) list"
  co_last :: "string option"

text \<open>\<open>time\<close> is \<^verbatim>\<open>new Date(text).getTime()\<close>.\<close>

definition item_order :: "(string \<Rightarrow> int) \<Rightarrow> item \<Rightarrow> item \<Rightarrow> int" where
  "item_order time l r =
     (let d = time (it_timestamp l) - time (it_timestamp r)
      in if d \<noteq> 0 then d
         else if it_kind l \<noteq> it_kind r then (if it_kind l = Message then - 1 else 1)
         else it_id l - it_id r)"

definition timeline_items :: "conversation \<Rightarrow> item list" where
  "timeline_items c =
     map (\<lambda>(i, t). \<lparr>it_kind = Message, it_id = i, it_timestamp = t\<rparr>) (co_messages c) @
     map (\<lambda>(i, t). \<lparr>it_kind = Note, it_id = i, it_timestamp = t\<rparr>) (co_notes c)"

definition timeline :: "(string \<Rightarrow> int) \<Rightarrow> conversation option \<Rightarrow> item list" where
  "timeline time c = (case c of None \<Rightarrow> [] | Some ticket \<Rightarrow> js_sort (item_order time) (timeline_items ticket))"

record ticket_page = net +
  tk_ticket :: "conversation option"
  tk_loading :: bool
  tk_error :: "string option"
  tk_reply :: string
  tk_cc :: string
  tk_bcc :: string
  tk_recipients_shown :: bool
  tk_replying :: bool
  tk_reply_error :: "string option"
  tk_reply_status :: "string option"
  tk_note :: string
  tk_noting :: bool
  tk_note_error :: "string option"

definition id_and_time :: "string \<Rightarrow> json \<Rightarrow> int \<times> string" where
  "id_and_time k j = (nullish (optional_int (jget j ''id'')) 0, nullish (jstr j k) [])"

definition read_ticket :: "json \<Rightarrow> conversation" where
  "read_ticket j =
     \<lparr>co_messages = map (id_and_time ''sent_or_received_at'') (json_list (jget j ''messages'')),
      co_notes = map (id_and_time ''created_at'') (json_list (jget j ''notes'')), co_last = jstr j ''last_message_at''\<rparr>"

definition ticket_url :: "admin_world \<Rightarrow> tickets_call \<Rightarrow> string" where
  "ticket_url w c = call_url w (Tickets c)"

definition loadTicket :: "admin_world \<Rightarrow> int \<Rightarrow> (ticket_page, unit) act" where
  "loadTicket w ticketId =
     finally_act
       (catch_act
         (then_act (set_act (\<lambda>s. s\<lparr>tk_loading := True, tk_error := None\<rparr>))
           (bind_act (api_get w (ticket_url w (Tickets_get ticketId))) (\<lambda>j. set_act (\<lambda>s. s\<lparr>tk_ticket := Some (read_ticket j)\<rparr>))))
         (\<lambda>e. set_act (\<lambda>s. s\<lparr>tk_error := Some (message_of ''Unable to load ticket.'' e)\<rparr>)))
       (\<lambda>s. s\<lparr>tk_loading := False\<rparr>)"

definition string_array :: "string list \<Rightarrow> json" where
  "string_array xs = JArr (map JStr xs)"

definition reply_body :: "ticket_page \<Rightarrow> json" where
  "reply_body s =
     JObj [(''body_text'', JStr (trim (tk_reply s))), (''cc_recipients'', string_array (parseRecipients (tk_cc s))),
       (''bcc_recipients'', string_array (parseRecipients (tk_bcc s)))]"

definition append_message :: "int \<times> string \<Rightarrow> conversation \<Rightarrow> conversation" where
  "append_message m c = c\<lparr>co_messages := co_messages c @ [m], co_last := Some (snd m)\<rparr>"

definition append_note :: "int \<times> string \<Rightarrow> conversation \<Rightarrow> conversation" where
  "append_note m c = c\<lparr>co_notes := co_notes c @ [m]\<rparr>"

definition handleReply :: "admin_world \<Rightarrow> int \<Rightarrow> (ticket_page, unit) act" where
  "handleReply w ticketId s =
     guard_act (trim (tk_reply s) \<noteq> [] \<and> \<not> tk_replying s)
       (finally_act
         (catch_act
           (then_act (set_act (\<lambda>s. s\<lparr>tk_replying := True, tk_reply_error := None, tk_reply_status := None\<rparr>))
             (bind_act (api_send w ''POST'' (ticket_url w (Tickets_reply ticketId)) (JsonBody (reply_body s))) (\<lambda>queued.
               set_act (\<lambda>s. s\<lparr>tk_ticket := map_option (append_message (id_and_time ''sent_or_received_at'' queued)) (tk_ticket s),
                 tk_reply := [], tk_cc := [], tk_bcc := [], tk_recipients_shown := False,
                 tk_reply_status := Some ''Reply queued for delivery through Microsoft 365.''\<rparr>))))
           (\<lambda>e. set_act (\<lambda>s. s\<lparr>tk_reply_error := Some (message_of ''Unable to queue reply.'' e)\<rparr>)))
         (\<lambda>s. s\<lparr>tk_replying := False\<rparr>)) s"

definition handleNote :: "admin_world \<Rightarrow> int \<Rightarrow> (ticket_page, unit) act" where
  "handleNote w ticketId s =
     guard_act (trim (tk_note s) \<noteq> [] \<and> \<not> tk_noting s)
       (finally_act
         (catch_act
           (then_act (set_act (\<lambda>s. s\<lparr>tk_noting := True, tk_note_error := None\<rparr>))
             (bind_act (api_send w ''POST'' (ticket_url w (Tickets_notes ticketId)) (JsonBody (JObj [(''body'', JStr (trim (tk_note s)))]))) (\<lambda>note.
               set_act (\<lambda>s. s\<lparr>tk_ticket := map_option (append_note (id_and_time ''created_at'' note)) (tk_ticket s), tk_note := []\<rparr>))))
           (\<lambda>e. set_act (\<lambda>s. s\<lparr>tk_note_error := Some (message_of ''Unable to add internal note.'' e)\<rparr>)))
         (\<lambda>s. s\<lparr>tk_noting := False\<rparr>)) s"

interpretation reply_form: submit_handler "handleReply w ticketId" tk_replying
  by (rule submit_handlerI) (auto simp: handleReply_def guard_act_def return_act_def form_simps)

interpretation note_form: submit_handler "handleNote w ticketId" tk_noting
  by (rule submit_handlerI) (auto simp: handleNote_def guard_act_def return_act_def form_simps)

lemma lower_char_other: "lower_char c = d \<Longrightarrow> (of_char d :: nat) < 65 \<Longrightarrow> c = d"
proof (rule ccontr)
  assume eq: "lower_char c = d" and low: "(of_char d :: nat) < 65" and "c \<noteq> d"
  then have "65 \<le> (of_char c :: nat)" "(of_char c :: nat) \<le> 90" "d = char_of (of_char c + 32 :: nat)"
    by (auto simp: lower_char_def Let_def split: if_splits)
  then have "(of_char d :: nat) = of_char c + 32" by simp
  then show False using low \<open>65 \<le> (of_char c :: nat)\<close> by simp
qed

lemma lower_notin: "(of_char d :: nat) < 65 \<Longrightarrow> d \<notin> set s \<Longrightarrow> d \<notin> set (toLowerCase (trim s))"
proof
  assume low: "(of_char d :: nat) < 65" and d: "d \<notin> set s" and "d \<in> set (toLowerCase (trim s))"
  then obtain c where c: "c \<in> set (trim s)" "lower_char c = d" by (auto simp: toLowerCase_def)
  from lower_char_other [OF c(2) low] c(1) d show False using trim_set [of s] by blast
qed

lemma set_join: "w \<in> set ws \<Longrightarrow> set w \<subseteq> set (join sep ws)"
proof (induction ws)
  case (Cons v ws)
  then show ?case by (cases ws) auto
qed simp

text \<open>
  The recipients of a reply are the addresses of the field, in lower case and without blanks
  around them, none empty, none twice and none with a separator in it.
\<close>

theorem recipients_are_normal:
  "distinct (parseRecipients value) \<and>
   list_all (\<lambda>a. a \<noteq> [] \<and> toLowerCase a = a \<and> CHR '','' \<notin> set a \<and> CHR '';'' \<notin> set a) (parseRecipients value) \<and>
   set (parseRecipients value) =
     {toLowerCase (trim p) |p. p \<in> set (split_on CHR '','' (map (\<lambda>c. if c = CHR '';'' then CHR '','' else c) value)) \<and> trim p \<noteq> []}"
proof -
  let ?unified = "map (\<lambda>c. if c = CHR '';'' then CHR '','' else c) value"
  have part: "CHR '','' \<notin> set (toLowerCase (trim p)) \<and> CHR '';'' \<notin> set (toLowerCase (trim p))"
    if p: "p \<in> set (split_on CHR '','' ?unified)" for p
  proof -
    have chars: "set p \<subseteq> set ?unified"
      using set_join [OF p, of "[CHR '','']"] by (simp add: join_split_on)
    have "CHR '','' \<notin> set p" using split_on_parts [OF p] .
    moreover have "CHR '';'' \<notin> set p" using chars by (auto split: if_splits)
    ultimately show ?thesis using lower_notin [of "CHR '',''" p] lower_notin [of "CHR '';''" p] by simp
  qed
  have members: "set (parseRecipients value) = {toLowerCase (trim p) |p. p \<in> set (split_on CHR '','' ?unified) \<and> trim p \<noteq> []}"
    unfolding parseRecipients_def unique_facts by (auto simp: toLowerCase_def)
  moreover have "toLowerCase (trim p) \<noteq> [] \<longleftrightarrow> trim p \<noteq> []" for p by (simp add: toLowerCase_def)
  ultimately have "list_all (\<lambda>a. a \<noteq> [] \<and> toLowerCase a = a \<and> CHR '','' \<notin> set a \<and> CHR '';'' \<notin> set a) (parseRecipients value)"
    unfolding list_all_iff members using part by force
  then show ?thesis using members by (simp add: parseRecipients_def)
qed

section \<open>The timeline\<close>

definition item_key :: "(string \<Rightarrow> int) \<Rightarrow> item \<Rightarrow> int \<times> int \<times> int" where
  "item_key time i = (time (it_timestamp i), (if it_kind i = Message then 0 else 1), it_id i)"

lemma item_order_key: "item_order time l r \<le> 0 \<longleftrightarrow> item_key time l \<le> item_key time r"
  by (cases "it_kind l"; cases "it_kind r") (auto simp: item_order_def item_key_def Let_def less_eq_prod_def)

text \<open>
  C14: the timeline of a ticket has exactly its messages and its notes, each as often as the
  ticket has it, from the earliest to the latest; at one time messages come before notes and each
  kind is in the order of its ids.
\<close>

theorem timeline_is_complete_and_ordered:
  "mset (timeline time (Some c)) =
     mset (map (\<lambda>(i, t). \<lparr>it_kind = Message, it_id = i, it_timestamp = t\<rparr>) (co_messages c)) +
     mset (map (\<lambda>(i, t). \<lparr>it_kind = Note, it_id = i, it_timestamp = t\<rparr>) (co_notes c)) \<and>
   sorted_wrt (\<lambda>l r. time (it_timestamp l) < time (it_timestamp r) \<or>
     time (it_timestamp l) = time (it_timestamp r) \<and>
       (it_kind l = Message \<and> it_kind r = Note \<or> it_kind l = it_kind r \<and> it_id l \<le> it_id r)) (timeline time (Some c))"
proof -
  have "sorted_wrt (\<lambda>l r. item_key time l \<le> item_key time r) (timeline time (Some c))"
    unfolding timeline_def option.case by (rule js_sort_sorted) (rule item_order_key)
  then show ?thesis
    by (auto simp: timeline_def timeline_items_def item_key_def less_eq_prod_def elim!: sorted_wrt_mono_rel [rotated] split: if_splits)
qed

section \<open>Workflow controls\<close>

datatype operation = Op_status | Op_priority | Op_queue | Op_assignment

fun operation_call :: "operation \<Rightarrow> int \<Rightarrow> tickets_call" where
  "operation_call Op_status i = Operations_status i"
| "operation_call Op_priority i = Operations_priority i"
| "operation_call Op_queue i = Operations_queue i"
| "operation_call Op_assignment i = Operations_assignment i"

text \<open>\<open>tc_updated\<close> counts the events that tell the page to load the conversation again.\<close>

record controls = net +
  tc_options :: "json option"
  tc_loading :: bool
  tc_pending :: "operation option"
  tc_error :: "string option"
  tc_updated :: nat

definition controls_load :: "admin_world \<Rightarrow> int \<Rightarrow> (controls, unit) act" where
  "controls_load w ticketId =
     finally_act
       (catch_act
         (then_act (set_act (\<lambda>s. s\<lparr>tc_error := None\<rparr>))
           (bind_act (api_get w (ticket_url w (Operations_options ticketId))) (\<lambda>j. set_act (\<lambda>s. s\<lparr>tc_options := Some j\<rparr>))))
         (\<lambda>e. set_act (\<lambda>s. s\<lparr>tc_error := Some (message_of ''Unable to load ticket workflow controls.'' e)\<rparr>)))
       (\<lambda>s. s\<lparr>tc_loading := False\<rparr>)"

definition with_ticket :: "json \<Rightarrow> json \<Rightarrow> json" where
  "with_ticket ticket options = (case options of JObj kvs \<Rightarrow> JObj (alist_put ''ticket'' ticket kvs) | j \<Rightarrow> j)"

definition updateOperation :: "admin_world \<Rightarrow> int \<Rightarrow> operation \<Rightarrow> json \<Rightarrow> (controls, unit) act" where
  "updateOperation w ticketId op body s =
     guard_act (tc_pending s = None)
       (finally_act
         (catch_act
           (then_act (set_act (\<lambda>s. s\<lparr>tc_pending := Some op, tc_error := None\<rparr>))
             (bind_act (api_send w ''POST'' (ticket_url w (operation_call op ticketId)) (JsonBody body)) (\<lambda>ticket.
               then_act (set_act (\<lambda>s. s\<lparr>tc_options := map_option (with_ticket ticket) (tc_options s)\<rparr>))
                 (bind_act (api_get w (ticket_url w (Operations_options ticketId))) (\<lambda>refreshed.
                   set_act (\<lambda>s. s\<lparr>tc_options := Some refreshed, tc_updated := Suc (tc_updated s)\<rparr>))))))
           (\<lambda>e. set_act (\<lambda>s. s\<lparr>tc_error := Some (message_of ''Unable to update ticket workflow.'' e)\<rparr>)))
         (\<lambda>s. s\<lparr>tc_pending := None\<rparr>)) s"

interpretation operation_form: submit_handler "updateOperation w ticketId op body" "\<lambda>s. tc_pending s \<noteq> None"
  by (rule submit_handlerI) (auto simp: updateOperation_def guard_act_def return_act_def form_simps)

section \<open>The timer of a ticket\<close>

record ticket_timer = net +
  tt_timer :: "json option"
  tt_loading :: bool
  tt_saving :: bool
  tt_error :: "string option"
  tt_changed :: nat

definition timer_load :: "admin_world \<Rightarrow> bool \<Rightarrow> (ticket_timer, unit) act" where
  "timer_load w canViewTime =
     (if \<not> canViewTime then set_act (\<lambda>s. s\<lparr>tt_loading := False\<rparr>)
      else finally_act
        (catch_act
          (then_act (set_act (\<lambda>s. s\<lparr>tt_error := None\<rparr>))
            (bind_act (api_get w (call_url w (TimeEntries Timer_current))) (\<lambda>j. set_act (\<lambda>s. s\<lparr>tt_timer := json_value j\<rparr>))))
          (\<lambda>e. set_act (\<lambda>s. s\<lparr>tt_error := Some (message_of ''Unable to load the current timer.'' e)\<rparr>)))
        (\<lambda>s. s\<lparr>tt_loading := False\<rparr>))"

text \<open>What starting and stopping share: a failure leaves its message and loads the timer again.\<close>

definition timer_save :: "admin_world \<Rightarrow> bool \<Rightarrow> string \<Rightarrow> (ticket_timer, unit) act \<Rightarrow> (ticket_timer, unit) act" where
  "timer_save w canViewTime fallback work =
     then_act (set_act (\<lambda>s. s\<lparr>tt_saving := True, tt_error := None\<rparr>))
       (finally_act
         (catch_act work
           (\<lambda>e. then_act (set_act (\<lambda>s. s\<lparr>tt_error := Some (message_of fallback e)\<rparr>)) (timer_load w canViewTime)))
         (\<lambda>s. s\<lparr>tt_saving := False\<rparr>))"

definition timer_post :: "admin_world \<Rightarrow> int \<Rightarrow> (ticket_timer, json) act" where
  "timer_post w ticketId =
     api_send w ''POST'' (call_url w (TimeEntries Timer_start))
       (JsonBody (JObj [(''ownership_type'', JStr ''internal''), (''ticket_id'', JNum ticketId), (''billable'', JBool True), (''description'', JStr [])]))"

definition timer_start :: "admin_world \<Rightarrow> bool \<Rightarrow> int \<Rightarrow> (ticket_timer, unit) act" where
  "timer_start w canViewTime ticketId =
     timer_save w canViewTime ''Unable to start the timer.''
       (bind_act (timer_post w ticketId)
         (\<lambda>j. set_act (\<lambda>s. s\<lparr>tt_timer := json_value j, tt_changed := Suc (tt_changed s)\<rparr>)))"

definition timer_stop :: "admin_world \<Rightarrow> bool \<Rightarrow> (ticket_timer, unit) act" where
  "timer_stop w canViewTime =
     timer_save w canViewTime ''Unable to stop the timer.''
       (then_act (api_send w ''POST'' (call_url w (TimeEntries Timer_stop)) (JsonBody (JObj [])))
         (set_act (\<lambda>s. s\<lparr>tt_timer := None, tt_changed := Suc (tt_changed s)\<rparr>)))"

text \<open>\<open>started\<close> is \<^verbatim>\<open>new Date(started_at).getTime()\<close>, in milliseconds, if it is a time.\<close>

definition timer_elapsed :: "int \<Rightarrow> int option \<Rightarrow> int \<Rightarrow> int" where
  "timer_elapsed now started elapsed_seconds =
     (case started of None \<Rightarrow> elapsed_seconds | Some t \<Rightarrow> max elapsed_seconds ((now - t) div 1000))"

lemma timer_load_no_throw: "\<not> isl (snd (timer_load w v s))"
  by (simp add: timer_load_def form_simps)

interpretation timer_start_form: submit_handler "timer_start w canViewTime ticketId" tt_saving
  by (rule submit_handlerI)
    (auto simp: timer_start_def timer_save_def form_simps timer_load_no_throw intro!: catch_isl)

interpretation timer_stop_form: submit_handler "timer_stop w canViewTime" tt_saving
  by (rule submit_handlerI)
    (auto simp: timer_stop_def timer_save_def form_simps timer_load_no_throw intro!: catch_isl)

text \<open>
  A start that the server refuses leaves no message: the timer is loaded again before anyone can read
  it, and loading clears the message first.
\<close>

lemma failed_start_shows_nothing:
  assumes refused: "snd (timer_post w ticketId (s\<lparr>tt_saving := True, tt_error := None\<rparr>)) = Inl e"
    and loads: "\<And>h. \<not> isl (snd (fetchAPI w (call_url w (TimeEntries Timer_current)) no_options h))"
  shows "tt_error (fst (timer_start w True ticketId s)) = None"
proof -
  have load: "tt_error (fst (timer_load w True t)) = None" for t
    using loads [of "sent t"]
    by (auto simp: timer_load_def form_simps catch_act_def bind_act_def set_act_def api_get_def io_act_run split: sum.splits)
  obtain t where "timer_post w ticketId (s\<lparr>tt_saving := True, tt_error := None\<rparr>) = (t, Inl e)"
    using refused by (cases "timer_post w ticketId (s\<lparr>tt_saving := True, tt_error := None\<rparr>)") auto
  then show ?thesis
    using load by (simp add: timer_start_def timer_save_def form_simps catch_act_def bind_act_def)
qed

section \<open>Sorting and the default queues\<close>

definition toggle_sort :: "string \<Rightarrow> string \<Rightarrow> string" where
  "toggle_sort field order =
     (if field = ''subject'' then (if order = ''subject_asc'' then ''subject_desc'' else ''subject_asc'')
      else if field = ''priority'' then (if order = ''priority_desc'' then ''priority_asc'' else ''priority_desc'')
      else if field = ''updated'' then (if order = ''updated_desc'' then ''updated_asc'' else ''updated_desc'')
      else order)"

record queue_page = net +
  qp_data :: "json option"
  qp_filter :: ticket_filter
  qp_page :: nat
  qp_selected :: "int option"
  qp_preferences :: bool
  qp_draft :: "int list"
  qp_saving :: bool
  qp_loading :: bool
  qp_error :: "string option"

definition default_queues :: "json \<Rightarrow> int list" where
  "default_queues response =
     number_members ''id'' (filter (\<lambda>q. truthy (jget q ''is_default'')) (json_list (jget response ''queues'')))"

text \<open>A load for a rendering: its query and whether it showed the preferences are those of that rendering.\<close>

definition tickets_load :: "admin_world \<Rightarrow> string \<Rightarrow> bool \<Rightarrow> (queue_page, unit) act" where
  "tickets_load w query preferences =
     finally_act
       (catch_act
         (then_act (set_act (\<lambda>s. s\<lparr>qp_loading := True, qp_error := None\<rparr>))
           (bind_act (api_get w (endpoint_url (aw_api w) (focus_endpoint (Focus_list query)))) (\<lambda>j.
             set_act (\<lambda>s. s\<lparr>qp_data := Some j, qp_draft := (if preferences then qp_draft s else default_queues j)\<rparr>))))
         (\<lambda>e. set_act (\<lambda>s. s\<lparr>qp_error := Some (message_of ''An unexpected error occurred while loading tickets.'' e)\<rparr>)))
       (\<lambda>s. s\<lparr>qp_loading := False\<rparr>)"

definition saveQueuePreferences :: "admin_world \<Rightarrow> (queue_page, unit) act" where
  "saveQueuePreferences w s =
     guard_act (qp_data s \<noteq> None \<and> qp_draft s \<noteq> [] \<and> \<not> qp_saving s)
       (finally_act
         (catch_act
           (then_act (set_act (\<lambda>s. s\<lparr>qp_saving := True, qp_error := None\<rparr>))
             (then_act (api_send w ''PUT'' (endpoint_url (aw_api w) (focus_endpoint Focus_queuePreferences))
                 (JsonBody (JObj [(''queue_ids'', JArr (map JNum (qp_draft s)))])))
               (then_act (set_act (\<lambda>s. s\<lparr>qp_selected := None, qp_filter := (qp_filter s)\<lparr>tf_view := ''my'', tf_queue := None\<rparr>, qp_preferences := False\<rparr>))
                 (tickets_load w (params_str (ticket_params (qp_page s) (qp_filter s))) (qp_preferences s)))))
           (\<lambda>e. set_act (\<lambda>s. s\<lparr>qp_error := Some (message_of ''Unable to save default ticket queues.'' e)\<rparr>)))
         (\<lambda>s. s\<lparr>qp_saving := False\<rparr>)) s"

interpretation queues_form: submit_handler "saveQueuePreferences w" qp_saving
  by (rule submit_handlerI) (auto simp: saveQueuePreferences_def guard_act_def return_act_def form_simps)

section \<open>Service levels\<close>

text \<open>A target that is neither blank nor a positive whole number is \<^verbatim>\<open>undefined\<close>, here the outer \<open>None\<close>.\<close>

definition parseTarget :: "string \<Rightarrow> int option option" where
  "parseTarget value =
     (if trim value = [] then Some None
      else (case js_Number (trim value) of Dec m k \<Rightarrow> if k = 0 \<and> 0 < m then Some (Some m) else None | _ \<Rightarrow> None))"

record draft =
  dr_queue :: int
  dr_policy :: json
  dr_first :: string
  dr_resolution :: string
  dr_saving :: bool

record sla_page = net +
  sl_data :: "json option"
  sl_loading :: bool
  sl_error :: "string option"
  sl_attention :: bool
  sl_mine :: bool
  sl_policies :: "draft list"

definition minutes_text :: "json option \<Rightarrow> string" where
  "minutes_text j = (case j of None \<Rightarrow> [] | Some JNull \<Rightarrow> [] | Some v \<Rightarrow> js_text v)"

definition fresh_draft :: "json \<Rightarrow> draft" where
  "fresh_draft policy =
     \<lparr>dr_queue = nullish (optional_int (jget policy ''queue_id'')) 0, dr_policy = policy,
      dr_first = minutes_text (jget policy ''first_response_sla_minutes''),
      dr_resolution = minutes_text (jget policy ''resolution_sla_minutes''), dr_saving = False\<rparr>"

text \<open>\<^verbatim>\<open>Promise.allSettled\<close> of one call per queue: what failed is left out.\<close>

fun settled_policies :: "admin_world \<Rightarrow> json list \<Rightarrow> (sla_page, json list) act" where
  "settled_policies w [] = return_act []"
| "settled_policies w (q # qs) =
     bind_act
       (catch_act
         (bind_act (api_get w (aw_api w @ ''/api/admin/ticket-queues/'' @ as_text (jget q ''id'') @ ''/sla'')) (\<lambda>j. return_act [j]))
         (\<lambda>e. return_act []))
       (\<lambda>a. bind_act (settled_policies w qs) (\<lambda>r. return_act (a @ r)))"

definition loadQueuePolicies :: "admin_world \<Rightarrow> bool \<Rightarrow> (sla_page, unit) act" where
  "loadQueuePolicies w canViewQueues =
     (if \<not> canViewQueues then set_act (\<lambda>s. s\<lparr>sl_policies := []\<rparr>)
      else catch_act
        (bind_act (api_get w (aw_api w @ ''/api/admin/ticket-queues'')) (\<lambda>j.
          bind_act (lift_act (case j of JArr qs \<Rightarrow> Inr qs | _ \<Rightarrow> Inl TypeError)) (\<lambda>queues.
            bind_act (settled_policies w (filter (\<lambda>q. truthy (jget q ''enabled'')) queues)) (\<lambda>policies.
              bind_act (lift_act (map_result non_null policies)) (\<lambda>ps.
                set_act (\<lambda>s. s\<lparr>sl_policies := map fresh_draft ps\<rparr>))))))
        (\<lambda>e. set_act (\<lambda>s. s\<lparr>sl_policies := []\<rparr>)))"

definition flag_text :: "bool \<Rightarrow> string" where
  "flag_text b = (if b then ''true'' else ''false'')"

definition sla_load :: "admin_world \<Rightarrow> bool \<Rightarrow> bool \<Rightarrow> (sla_page, unit) act" where
  "sla_load w attentionOnly mineOnly =
     finally_act
       (catch_act
         (then_act (set_act (\<lambda>s. s\<lparr>sl_loading := True, sl_error := None\<rparr>))
           (bind_act (api_get w (aw_api w @ ''/api/admin/ticket-sla?'' @
               params_str [(''attention_only'', flag_text attentionOnly), (''assigned_to_me'', flag_text mineOnly)]))
             (\<lambda>j. set_act (\<lambda>s. s\<lparr>sl_data := Some j\<rparr>))))
         (\<lambda>e. set_act (\<lambda>s. s\<lparr>sl_error := Some (message_of ''Unable to load Ticket SLAs.'' e)\<rparr>)))
       (\<lambda>s. s\<lparr>sl_loading := False\<rparr>)"

definition update_draft :: "int \<Rightarrow> (draft \<Rightarrow> draft) \<Rightarrow> sla_page \<Rightarrow> sla_page" where
  "update_draft queue f s = s\<lparr>sl_policies := map (\<lambda>p. if dr_queue p = queue then f p else p) (sl_policies s)\<rparr>"

definition updateQueueDraft :: "int \<Rightarrow> bool \<Rightarrow> string \<Rightarrow> sla_page \<Rightarrow> sla_page" where
  "updateQueueDraft queue first value =
     update_draft queue (\<lambda>p. if first then p\<lparr>dr_first := value\<rparr> else p\<lparr>dr_resolution := value\<rparr>)"

definition target_json :: "int option \<Rightarrow> json" where
  "target_json t = (case t of None \<Rightarrow> JNull | Some n \<Rightarrow> JNum n)"

definition saveQueuePolicy :: "admin_world \<Rightarrow> bool \<Rightarrow> draft \<Rightarrow> (sla_page, unit) act" where
  "saveQueuePolicy w canViewQueues policy s =
     (case (parseTarget (dr_first policy), parseTarget (dr_resolution policy)) of
        (Some first, Some resolution) \<Rightarrow>
          finally_act
            (catch_act
              (then_act (set_act (\<lambda>s. update_draft (dr_queue policy) (dr_saving_update (\<lambda>_. True)) (s\<lparr>sl_error := None\<rparr>)))
                (then_act (api_send w ''PUT'' (aw_api w @ ''/api/admin/ticket-queues/'' @ int_str (dr_queue policy) @ ''/sla'')
                    (JsonBody (JObj [(''first_response_sla_minutes'', target_json first), (''resolution_sla_minutes'', target_json resolution)])))
                  (bind_act (both (loadQueuePolicies w canViewQueues) (sla_load w (sl_attention s) (sl_mine s))) (\<lambda>_. return_act ()))))
              (\<lambda>e. set_act (\<lambda>s. s\<lparr>sl_error := Some (message_of ''Unable to save Queue SLA policy.'' e)\<rparr>)))
            (update_draft (dr_queue policy) (dr_saving_update (\<lambda>_. False))) s
      | _ \<Rightarrow> (s\<lparr>sl_error := Some ''SLA targets must be blank or a positive whole number of minutes.''\<rparr>, Inr ()))"

definition recalculate :: "admin_world \<Rightarrow> int \<Rightarrow> (sla_page, unit) act" where
  "recalculate w ticketId s =
     then_act (api_send w ''POST'' (aw_api w @ ''/api/admin/tickets/'' @ int_str ticketId @ ''/sla/recalculate'') NoBody)
       (sla_load w (sl_attention s) (sl_mine s)) s"

text \<open>
  Loading the policies, which saving one queue does, leaves a draft for every queue that says what
  the server says: what was typed for other queues and not saved is gone.
\<close>

lemma loaded_drafts_are_the_servers:
  "list_all (\<lambda>d. d = fresh_draft (dr_policy d)) (sl_policies (fst (loadQueuePolicies w True s)))"
  by (auto simp: loadQueuePolicies_def catch_act_def bind_act_def set_act_def lift_act_def fresh_draft_def list_all_iff
      split: prod.splits sum.splits json.splits)

text \<open>
  A target that is saved is a positive number of minutes, and a target that was not touched is
  saved as it was: blank stays none and a number stays that number.
\<close>

theorem targets_positive_and_kept:
  "(case parseTarget v of Some (Some n) \<Rightarrow> 0 < n | _ \<Rightarrow> True) \<and>
   parseTarget (minutes_text (Some JNull)) = Some None \<and>
   parseTarget (minutes_text (Some (JNum (int (Suc m))))) = Some (Some (int (Suc m)))"
  using trim_int_str [of "int (Suc m)"] js_Number_int_str [of "int (Suc m)"]
  by (auto simp: parseTarget_def minutes_text_def trim_nil split: number.splits option.splits if_splits)

section \<open>Replies and reloads\<close>

text \<open>
  The messages of a ticket, by id, on the server and on the page. A reload is an answer of the server at
  one moment that arrives later; a reply is added by the server, and its answer appends it on the page.
  The server announces every change, also the page's own reply, and each announcement begins a reload.
  \<open>serial\<close>: no reload is under way while a reply is, and the other way round.
\<close>

datatype reply = No_reply | Asked | Answered int

record talk =
  tl_server :: "int list"
  tl_shown :: "int list option"
  tl_loads :: "int list option list"
  tl_reply :: reply

inductive talk_step :: "bool \<Rightarrow> talk \<Rightarrow> talk \<Rightarrow> bool" for serial :: bool where
  others_write: "m \<notin> set (tl_server s) \<Longrightarrow> talk_step serial s (s\<lparr>tl_server := tl_server s @ [m]\<rparr>)"
| reload_begins: "serial \<longrightarrow> tl_reply s = No_reply \<Longrightarrow> talk_step serial s (s\<lparr>tl_loads := tl_loads s @ [None]\<rparr>)"
| reload_served: "i < length (tl_loads s) \<Longrightarrow> tl_loads s ! i = None \<Longrightarrow>
    talk_step serial s (s\<lparr>tl_loads := (tl_loads s)[i := Some (tl_server s)]\<rparr>)"
| reload_arrives: "i < length (tl_loads s) \<Longrightarrow> tl_loads s ! i = Some xs \<Longrightarrow>
    talk_step serial s (s\<lparr>tl_shown := Some xs, tl_loads := take i (tl_loads s) @ drop (Suc i) (tl_loads s)\<rparr>)"
| reply_begins: "tl_reply s = No_reply \<Longrightarrow> serial \<longrightarrow> tl_loads s = [] \<Longrightarrow> talk_step serial s (s\<lparr>tl_reply := Asked\<rparr>)"
| reply_served: "tl_reply s = Asked \<Longrightarrow> m \<notin> set (tl_server s) \<Longrightarrow>
    talk_step serial s (s\<lparr>tl_server := tl_server s @ [m], tl_reply := Answered m\<rparr>)"
| reply_arrives: "tl_reply s = Answered m \<Longrightarrow>
    talk_step serial s (s\<lparr>tl_shown := map_option (\<lambda>xs. xs @ [m]) (tl_shown s), tl_reply := No_reply\<rparr>)"

definition talk_init :: "int list \<Rightarrow> talk" where
  "talk_init ms = \<lparr>tl_server = ms, tl_shown = None, tl_loads = [None], tl_reply = No_reply\<rparr>"

definition shown_from :: "talk \<Rightarrow> int list \<Rightarrow> bool" where
  "shown_from s ms \<longleftrightarrow> (case tl_shown s of None \<Rightarrow> True | Some xs \<Rightarrow> subseq xs ms)"

definition talk_inv :: "talk \<Rightarrow> bool" where
  "talk_inv s \<longleftrightarrow> distinct (tl_server s) \<and> list_all (\<lambda>l. case l of None \<Rightarrow> True | Some xs \<Rightarrow> subseq xs (tl_server s)) (tl_loads s) \<and>
     shown_from s (tl_server s) \<and> (tl_reply s \<noteq> No_reply \<longrightarrow> tl_loads s = []) \<and>
     (case tl_reply s of
        Answered m \<Rightarrow> \<exists>ys zs. tl_server s = ys @ m # zs \<and> shown_from s ys
      | _ \<Rightarrow> True)"

lemma list_all_update: "list_all P xs \<Longrightarrow> P x \<Longrightarrow> list_all P (xs[i := x])"
  by (auto simp: list_all_iff dest!: set_update_subset_insert [THEN subsetD])

lemma list_all_remove: "list_all P xs \<Longrightarrow> list_all P (take i xs @ drop (Suc i) xs)"
  by (auto simp: list_all_iff dest: in_set_takeD in_set_dropD)

lemma subseq_later: "subseq xs ys \<Longrightarrow> subseq xs (ys @ zs)"
  using list_emb_append_mono [of "(=)" xs ys "[]" zs] by simp

lemma loads_later:
  "list_all (\<lambda>l. case l of None \<Rightarrow> True | Some xs \<Rightarrow> subseq xs ms) ls \<Longrightarrow>
   list_all (\<lambda>l. case l of None \<Rightarrow> True | Some xs \<Rightarrow> subseq xs (ms @ zs)) ls"
  by (auto simp: list_all_iff subseq_later split: option.splits)

lemma shown_later: "shown_from s ms \<Longrightarrow> shown_from s (ms @ zs)"
  by (auto simp: shown_from_def subseq_later split: option.splits)

lemma talk_keeps:
  assumes inv: "talk_inv s" and "talk_step True s t"
  shows "talk_inv t"
  using assms(2)
proof cases
  case (others_write m)
  have "\<exists>ys zs. tl_server s @ [m] = ys @ k # zs \<and> shown_from s ys" if "tl_reply s = Answered k" for k
  proof -
    from inv that obtain ys zs where "tl_server s = ys @ k # zs" "shown_from s ys" by (auto simp: talk_inv_def)
    then show ?thesis by (intro exI [of _ ys] exI [of _ "zs @ [m]"]) simp
  qed
  then show ?thesis
    using inv others_write loads_later [of "tl_server s" "tl_loads s" "[m]"] shown_later [of s "tl_server s" "[m]"]
    by (auto simp: talk_inv_def shown_from_def split: reply.splits)
next
  case (reload_begins)
  then show ?thesis using inv by (auto simp: talk_inv_def shown_from_def)
next
  case (reload_served i)
  then have "tl_reply s = No_reply" using inv by (auto simp: talk_inv_def)
  then show ?thesis using inv reload_served by (auto simp: talk_inv_def shown_from_def intro: list_all_update)
next
  case (reload_arrives i xs)
  then have "tl_reply s = No_reply" using inv by (auto simp: talk_inv_def)
  moreover have "subseq xs (tl_server s)" using inv reload_arrives by (auto simp: talk_inv_def list_all_length split: option.splits)
  moreover have "list_all (\<lambda>l. case l of None \<Rightarrow> True | Some xs \<Rightarrow> subseq xs (tl_server s)) (take i (tl_loads s) @ drop (Suc i) (tl_loads s))"
    by (rule list_all_remove) (use inv in \<open>simp add: talk_inv_def\<close>)
  ultimately show ?thesis using inv reload_arrives by (auto simp: talk_inv_def shown_from_def)
next
  case (reply_begins)
  then show ?thesis using inv by (auto simp: talk_inv_def shown_from_def)
next
  case (reply_served m)
  then have "shown_from s (tl_server s)" "tl_loads s = []" using inv by (auto simp: talk_inv_def)
  then show ?thesis
    using inv reply_served shown_later [of s "tl_server s" "[m]"] by (auto simp: talk_inv_def shown_from_def)
next
  case (reply_arrives m)
  then obtain ys zs where server: "tl_server s = ys @ m # zs" and ys: "shown_from s ys" using inv by (auto simp: talk_inv_def)
  have "subseq (xs @ [m]) (ys @ m # zs)" if "subseq xs ys" for xs
    using that by (intro list_emb_append_mono) auto
  then show ?thesis using inv reply_arrives server ys by (auto simp: talk_inv_def shown_from_def split: option.splits)
qed

interpretation talk: safe_machine "\<lambda>s. \<exists>ms. distinct ms \<and> s = talk_init ms" "talk_step True" talk_inv
proof unfold_locales
  show "talk_inv s" if "\<exists>ms. distinct ms \<and> s = talk_init ms" for s
    using that by (auto simp: talk_init_def talk_inv_def shown_from_def)
qed (rule talk_keeps)

text \<open>
  As long as replies and reloads do not overlap, the messages a page shows are messages of the
  ticket, each at most once and in the order the server has them.
\<close>

theorem serial_conversation_is_faithful:
  assumes "reachable (\<lambda>s. \<exists>ms. distinct ms \<and> s = talk_init ms) (talk_step True) s" and "tl_shown s = Some xs"
  shows "subseq xs (tl_server s) \<and> distinct xs"
  using talk.inv_reachable [OF assms(1)] assms(2) by (auto simp: talk_inv_def shown_from_def subseq_conv_nths distinct_nthsI)

theorem serial_conversation_is_faithful_witness:
  "let s = \<lparr>tl_server = [3], tl_shown = Some [3], tl_loads = [], tl_reply = No_reply\<rparr> in subseq [3] (tl_server s) \<and> distinct [3 :: int]"
proof -
  let ?reach = "reachable (\<lambda>s. \<exists>ms. distinct ms \<and> s = talk_init ms) (talk_step True)"
  have "?reach (talk_init [3])" by (rule reach_init) (rule exI [of _ "[3]"], simp)
  moreover have "talk_step True (talk_init [3]) \<lparr>tl_server = [3], tl_shown = None, tl_loads = [Some [3]], tl_reply = No_reply\<rparr>"
    using reload_served [of 0 "talk_init [3]" True] by (simp add: talk_init_def)
  ultimately have "?reach \<lparr>tl_server = [3], tl_shown = None, tl_loads = [Some [3]], tl_reply = No_reply\<rparr>" by (rule reach_step)
  moreover have "talk_step True \<lparr>tl_server = [3], tl_shown = None, tl_loads = [Some [3]], tl_reply = No_reply\<rparr>
      \<lparr>tl_server = [3], tl_shown = Some [3], tl_loads = [], tl_reply = No_reply\<rparr>"
    using reload_arrives [of 0 "\<lparr>tl_server = [3], tl_shown = None, tl_loads = [Some [3]], tl_reply = No_reply\<rparr>" "[3]" True] by simp
  ultimately have "?reach \<lparr>tl_server = [3], tl_shown = Some [3], tl_loads = [], tl_reply = No_reply\<rparr>" by (rule reach_step)
  from serial_conversation_is_faithful [OF this, of "[3]"] show ?thesis by simp
qed

lemma talk_run: "reachable init (talk_step b) s \<Longrightarrow> is_run (talk_step b) s (ts @ [t]) \<Longrightarrow> reachable init (talk_step b) t"
  by (erule run_reachable) auto

text \<open>
  When they overlap, the page can come to rest with a reply shown twice, because a reload that
  already has it arrives before the answer that appends it.
\<close>

theorem reply_shown_twice:
  "\<exists>s. reachable (\<lambda>s. \<exists>ms. distinct ms \<and> s = talk_init ms) (talk_step False) s \<and>
     tl_loads s = [] \<and> tl_reply s = No_reply \<and> tl_server s = [m] \<and> tl_shown s = Some [m, m]"
proof -
  let ?reach = "reachable (\<lambda>s. \<exists>ms. distinct ms \<and> s = talk_init ms) (talk_step False)"
  let ?t = "\<lambda>server shown loads reply. \<lparr>tl_server = server, tl_shown = shown, tl_loads = loads, tl_reply = reply\<rparr>"
  let ?run = "[?t [] None [None] Asked, ?t [m] None [None] (Answered m), ?t [m] None [Some [m]] (Answered m), ?t [m] (Some [m]) [] (Answered m)]"
  have steps: "talk_step False (talk_init []) (?t [] None [None] Asked)"
    "talk_step False (?t [] None [None] Asked) (?t [m] None [None] (Answered m))"
    "talk_step False (?t [m] None [None] (Answered m)) (?t [m] None [Some [m]] (Answered m))"
    "talk_step False (?t [m] None [Some [m]] (Answered m)) (?t [m] (Some [m]) [] (Answered m))"
    "talk_step False (?t [m] (Some [m]) [] (Answered m)) (?t [m] (Some [m, m]) [] No_reply)"
    using reply_begins [of "talk_init []" False] reply_served [of "?t [] None [None] Asked" m False]
      reload_served [of 0 "?t [m] None [None] (Answered m)" False]
      reload_arrives [of 0 "?t [m] None [Some [m]] (Answered m)" "[m]" False]
      reply_arrives [of "?t [m] (Some [m]) [] (Answered m)" m False]
    by (simp_all add: talk_init_def)
  have "?reach (talk_init [])" by (rule reach_init) (rule exI [of _ "[]"], simp)
  then have "?reach (?t [m] (Some [m, m]) [] No_reply)" by (rule talk_run [where ts = ?run]) (simp add: steps)
  then show ?thesis by force
qed

end
