(* ===== verification/Admin_Content.thy ===== *)
theory Admin_Content
  imports Admin_Knowledge Infra_Operational
begin

text \<open>
  The content editors of the admin application: blog posts with categories and tags
  (\<^verbatim>\<open>content/blog/page.tsx\<close>), questions with categories
  (\<^verbatim>\<open>content/faqs/page.tsx\<close>), portfolio
  (\<^verbatim>\<open>content/portfolio/page.tsx\<close>) and testimonials
  (\<^verbatim>\<open>content/testimonials/page.tsx\<close>). The pages have the same shape: per
  collection the items, a form for a new one and a form for the one being edited, with one flag and
  one message for the page. \<open>content_page\<close> has these per collection, so one record stands for
  the state of each of the four pages, and the operations take the collection.

  \<open>offset\<close> is how many milliseconds the local clock is ahead of UTC at a time, \<open>zone\<close>
  the same at a time of the local clock, and \<open>parse\<close> reads a stored time stamp.
\<close>

section \<open>Forms\<close>

record content_form =
  ct_text :: "string \<Rightarrow> string"
  ct_flag :: "string \<Rightarrow> bool"
  ct_number :: "string \<Rightarrow> number"
  ct_ids :: "string \<Rightarrow> int list"

definition empty_form :: "website_collection \<Rightarrow> content_form" where
  "empty_form c =
     \<lparr>ct_text = (\<lambda>k. []), ct_flag = (\<lambda>k. False), ct_number = (\<lambda>k. Dec (if c = Testimonials then 5 else 0) 0), ct_ids = (\<lambda>k. [])\<rparr>"

record content_page = net +
  cp_items :: "website_collection \<Rightarrow> json list"
  cp_brands :: "json list"
  cp_loading :: bool
  cp_saving :: bool
  cp_error :: string
  cp_filter :: string
  cp_create :: "website_collection \<Rightarrow> content_form"
  cp_editing :: "website_collection \<Rightarrow> json option"
  cp_edit :: "website_collection \<Rightarrow> content_form"

definition content_init :: content_page where
  "content_init =
     \<lparr>stored_token = None, sent = [], cp_items = (\<lambda>c. []), cp_brands = [], cp_loading = True, cp_saving = False, cp_error = [],
      cp_filter = ''all'', cp_create = empty_form, cp_editing = (\<lambda>c. None), cp_edit = empty_form\<rparr>"

text \<open>What the forms send.\<close>

definition text_members :: "string list \<Rightarrow> content_form \<Rightarrow> payload" where
  "text_members ks f = map (\<lambda>k. (k, V_text (ct_text f k))) ks"

definition flag_members :: "string list \<Rightarrow> content_form \<Rightarrow> payload" where
  "flag_members ks f = map (\<lambda>k. (k, V_bool (ct_flag f k))) ks"

definition ids_members :: "string list \<Rightarrow> content_form \<Rightarrow> payload" where
  "ids_members ks f = map (\<lambda>k. (k, ids_value (ct_ids f k))) ks"

definition category_payload :: "content_form \<Rightarrow> payload" where
  "category_payload f = text_members [''name'', ''slug'', ''description''] f @ ids_members [''brand_ids''] f"

definition tag_payload :: "content_form \<Rightarrow> payload" where
  "tag_payload f = text_members [''name'', ''slug''] f @ ids_members [''brand_ids''] f"

definition iso_or_null :: "(int \<Rightarrow> int) \<Rightarrow> (string \<Rightarrow> int option) \<Rightarrow> string \<Rightarrow> form_value result" where
  "iso_or_null zone parse s =
     (if s = [] then Inr V_null
      else (case new_Date zone parse s of None \<Rightarrow> Inl RangeError | Some t \<Rightarrow> and_then (toISOString t) (\<lambda>x. Inr (V_text x))))"

definition post_payload :: "(int \<Rightarrow> int) \<Rightarrow> (string \<Rightarrow> int option) \<Rightarrow> content_form \<Rightarrow> payload result" where
  "post_payload zone parse f =
     and_then (iso_or_null zone parse (ct_text f ''published_at'')) (\<lambda>published_at.
       Inr (text_members [''featured_image_alt''] f @ [(''published_at'', published_at)] @
         text_members [''title'', ''slug'', ''excerpt'', ''content'', ''author''] f @ flag_members [''published'', ''featured''] f @
         ids_members [''category_ids'', ''tag_ids'', ''brand_ids''] f @ text_members [''meta_description'', ''meta_keywords''] f))"

definition faq_category_payload :: "content_form \<Rightarrow> payload" where
  "faq_category_payload f =
     text_members [''name'', ''slug'', ''description''] f @ [(''order'', V_num (ct_number f ''order''))] @ ids_members [''brand_ids''] f"

definition faq_payload :: "content_form \<Rightarrow> payload" where
  "faq_payload f =
     flag_members [''published''] f @ [(''service_slugs'', V_texts (tag_names (ct_text f ''service_slugs'')))] @
     text_members [''question'', ''answer''] f @ [(''category_id'', required_number (ct_text f ''category_id'')),
       (''order'', V_num (ct_number f ''order''))] @ ids_members [''brand_ids''] f"

definition portfolio_payload :: "content_form \<Rightarrow> payload" where
  "portfolio_payload f =
     flag_members [''published''] f @ text_members [''image_alt'', ''featured_image_alt'', ''meta_description''] f @
     [(''service_slugs'', V_texts (tag_names (ct_text f ''service_slugs'')))] @
     text_members [''title'', ''slug'', ''description'', ''challenge'', ''solution'', ''results''] f @
     [(''technologies'', V_texts (tag_names (ct_text f ''technologies''))),
      (''project_url'', textOrNull (ct_text f ''project_url'')), (''github_url'', textOrNull (ct_text f ''github_url''))] @
     flag_members [''featured''] f @ ids_members [''brand_ids''] f"

definition testimonial_payload :: "content_form \<Rightarrow> payload" where
  "testimonial_payload f =
     flag_members [''published''] f @ text_members [''image_alt'', ''quote'', ''client_name'', ''company'', ''job_title''] f @
     [(''rating'', V_num (ct_number f ''rating''))] @ flag_members [''featured''] f @ ids_members [''brand_ids''] f"

definition content_payload ::
  "(int \<Rightarrow> int) \<Rightarrow> (string \<Rightarrow> int option) \<Rightarrow> website_collection \<Rightarrow> content_form \<Rightarrow> payload result" where
  "content_payload zone parse c f =
     (case c of
        Posts \<Rightarrow> post_payload zone parse f
      | Categories \<Rightarrow> Inr (category_payload f)
      | Tags \<Rightarrow> Inr (tag_payload f)
      | FaqCategories \<Rightarrow> Inr (faq_category_payload f)
      | Faqs \<Rightarrow> Inr (faq_payload f)
      | Portfolio \<Rightarrow> Inr (portfolio_payload f)
      | Testimonials \<Rightarrow> Inr (testimonial_payload f))"

section \<open>Editing an item\<close>

definition brandIdBySlug :: "json list \<Rightarrow> string \<Rightarrow> int option" where
  "brandIdBySlug brands slug =
     map_of (rev (map (\<lambda>b. (nullish (jstr b ''slug'') [], nullish (optional_int (jget b ''id'')) 0)) brands)) slug"

definition idsFor :: "json list \<Rightarrow> json list \<Rightarrow> int list" where
  "idsFor brands slugs = List.map_filter (\<lambda>slug. case slug of JStr s \<Rightarrow> brandIdBySlug brands s | _ \<Rightarrow> None) slugs"

text \<open>The input for the publish date, from a stored time stamp.\<close>

definition publish_input :: "(int \<Rightarrow> int) \<Rightarrow> (string \<Rightarrow> int option) \<Rightarrow> json option \<Rightarrow> string result" where
  "publish_input offset parse v =
     (if truthy v then
        (case parse (js_text (the v)) of
           None \<Rightarrow> Inl RangeError
         | Some t \<Rightarrow> and_then (toISOString (t + offset t)) (\<lambda>x. Inr (take 16 x)))
      else Inr [])"

definition joined :: "json \<Rightarrow> string \<Rightarrow> string" where
  "joined item k = join '', '' (map js_text (json_list (jget item k)))"

definition text_of :: "json \<Rightarrow> string \<Rightarrow> string" where
  "text_of item k = nullish (jstr item k) []"

definition number_of :: "json \<Rightarrow> string \<Rightarrow> number" where
  "number_of item k = Dec (nullish (optional_int (jget item k)) 0) 0"

definition form_texts :: "website_collection \<Rightarrow> json \<Rightarrow> string \<Rightarrow> string" where
  "form_texts c item k =
     (if k = ''service_slugs'' \<or> k = ''technologies'' then joined item k
      else if k = ''category_id'' then as_text (Option.bind (jget item ''category'') (\<lambda>cat. jget cat ''id''))
      else text_of item k)"

definition item_ids :: "json list \<Rightarrow> json \<Rightarrow> string \<Rightarrow> int list" where
  "item_ids brands item k =
     (if k = ''brand_ids'' then idsFor brands (json_list (jget item ''brand_slugs''))
      else if k = ''category_ids'' then number_members ''id'' (json_list (jget item ''categories''))
      else if k = ''tag_ids'' then number_members ''id'' (json_list (jget item ''tags''))
      else [])"

definition edit_form :: "website_collection \<Rightarrow> json list \<Rightarrow> json \<Rightarrow> string \<Rightarrow> content_form" where
  "edit_form c brands item published_at =
     \<lparr>ct_text = (form_texts c item)(''published_at'' := published_at), ct_flag = (\<lambda>k. jget item k = Some (JBool True)),
      ct_number = number_of item, ct_ids = item_ids brands item\<rparr>"

definition begin_edit ::
  "(int \<Rightarrow> int) \<Rightarrow> (string \<Rightarrow> int option) \<Rightarrow> website_collection \<Rightarrow> json \<Rightarrow> (content_page, unit) act" where
  "begin_edit offset parse c item s =
     then_act (set_act (\<lambda>s. s\<lparr>cp_editing := (cp_editing s)(c := Some item)\<rparr>))
       (bind_act (lift_act (if c = Posts then publish_input offset parse (jget item ''published_at'') else Inr []))
         (\<lambda>published_at. set_act (\<lambda>s. s\<lparr>cp_edit := (cp_edit s)(c := edit_form c (cp_brands s) item published_at)\<rparr>))) s"

definition visible :: "website_collection \<Rightarrow> content_page \<Rightarrow> json list" where
  "visible c s =
     (if cp_filter s = ''all'' then cp_items s c
      else filter (\<lambda>item. JStr (cp_filter s) \<in> set (json_list (jget item ''brand_slugs''))) (cp_items s c))"

section \<open>Loading, saving and deleting\<close>

definition website_url :: "admin_world \<Rightarrow> website_call \<Rightarrow> string" where
  "website_url w c = call_url w (Website c)"

text \<open>The lists of a page and the brands, in the order they are written; nothing is set unless all arrive.\<close>

fun load_lists :: "admin_world \<Rightarrow> website_collection list \<Rightarrow> (content_page, (website_collection \<times> json list) list) act" where
  "load_lists w [] = return_act []"
| "load_lists w (c # cs) =
     bind_act (api_get w (website_url w (Website_list c))) (\<lambda>j.
       bind_act (load_lists w cs) (\<lambda>r. return_act ((c, js_elements j) # r)))"

definition update_failed :: "js_throw \<Rightarrow> (content_page, unit) act" where
  "update_failed e = set_act (\<lambda>s. s\<lparr>cp_error := message_of ''Unable to update content.'' e\<rparr>)"

definition content_load :: "admin_world \<Rightarrow> website_collection list \<Rightarrow> (content_page, unit) act" where
  "content_load w cs =
     finally_act
       (catch_act
         (bind_act (load_lists w cs) (\<lambda>lists.
           bind_act (api_get w (call_url w (Summary Brands_list))) (\<lambda>brands.
             set_act (\<lambda>s. s\<lparr>cp_items := (\<lambda>c. case map_of lists c of Some xs \<Rightarrow> xs | None \<Rightarrow> cp_items s c), cp_brands := js_elements brands\<rparr>))))
         update_failed)
       (\<lambda>s. s\<lparr>cp_loading := False\<rparr>)"

text \<open>New categories and tags go to the end, everything else to the front.\<close>

definition with_new :: "website_collection \<Rightarrow> json \<Rightarrow> json list \<Rightarrow> json list" where
  "with_new c item items = (if c = Categories \<or> c = Tags \<or> c = FaqCategories then items @ [item] else item # items)"

definition replace_item :: "json option \<Rightarrow> json \<Rightarrow> json list \<Rightarrow> json list" where
  "replace_item i item items = map (\<lambda>x. if jget x ''id'' = i then item else x) items"

definition json_id :: "json \<Rightarrow> int" where
  "json_id j = nullish (optional_int (jget j ''id'')) 0"

definition may_save :: "website_collection \<Rightarrow> bool \<Rightarrow> content_page \<Rightarrow> bool" where
  "may_save c editing s \<longleftrightarrow>
     (let f = (if editing then cp_edit s c else cp_create s c)
      in ct_ids f ''brand_ids'' \<noteq> [] \<and> (c = Faqs \<longrightarrow> ct_text f ''category_id'' \<noteq> []) \<and> (editing \<longrightarrow> cp_editing s c \<noteq> None))"

text \<open>The list of testimonials replaces the one that was being edited, the others the one with the id of the answer.\<close>

definition content_saved :: "website_collection \<Rightarrow> json option \<Rightarrow> json \<Rightarrow> content_page \<Rightarrow> content_page" where
  "content_saved c edited item s =
     (case edited of
        None \<Rightarrow> s\<lparr>cp_items := (cp_items s)(c := with_new c item (cp_items s c)), cp_create := (cp_create s)(c := empty_form c)\<rparr>
      | Some old \<Rightarrow> s\<lparr>cp_items := (cp_items s)(c := replace_item (if c = Testimonials then jget old ''id'' else jget item ''id'') item (cp_items s c)),
          cp_editing := (cp_editing s)(c := None)\<rparr>)"

definition content_save ::
  "admin_world \<Rightarrow> (int \<Rightarrow> int) \<Rightarrow> (string \<Rightarrow> int option) \<Rightarrow> website_collection \<Rightarrow> bool \<Rightarrow> (content_page, unit) act" where
  "content_save w zone parse c editing s =
     (let f = (if editing then cp_edit s c else cp_create s c); edited = (if editing then cp_editing s c else None)
      in guard_act (may_save c editing s)
        (then_act (set_act (\<lambda>s. s\<lparr>cp_saving := True, cp_error := []\<rparr>))
          (finally_act
            (catch_act
              (bind_act (lift_act (content_payload zone parse c f)) (\<lambda>body.
                bind_act (api_send w (if editing then ''PUT'' else ''POST'')
                    (website_url w (case edited of None \<Rightarrow> Website_create c | Some item \<Rightarrow> Website_update c (json_id item)))
                    (TextBody (payload_text body)))
                  (\<lambda>item. set_act (content_saved c edited item))))
              update_failed)
            (\<lambda>s. s\<lparr>cp_saving := False\<rparr>))) s)"

definition remove_item :: "website_collection \<Rightarrow> int \<Rightarrow> content_page \<Rightarrow> content_page" where
  "remove_item c i s = s\<lparr>cp_items := (cp_items s)(c := filter (\<lambda>x. jget x ''id'' \<noteq> Some (JNum i)) (cp_items s c))\<rparr>"

text \<open>The page of questions does not catch a failed deletion.\<close>

definition content_remove :: "admin_world \<Rightarrow> website_collection \<Rightarrow> int \<Rightarrow> (content_page, unit) act" where
  "content_remove w c i =
     (let m = then_act (api_send w ''DELETE'' (website_url w (Website_delete c i)) NoBody) (set_act (remove_item c i))
      in if c = Faqs \<or> c = FaqCategories then m else catch_act m update_failed)"

interpretation content_form: submit_handler "content_save w zone parse c editing" cp_saving
  by (rule submit_handlerI)
    (auto simp: content_save_def guard_act_def return_act_def form_simps update_failed_def Let_def)

section \<open>The pages\<close>

text \<open>Their functions under the names they have there.\<close>

definition blog_load :: "admin_world \<Rightarrow> (content_page, unit) act" where
  "blog_load w = content_load w [Posts, Categories, Tags]"

definition saveCategory ::
  "admin_world \<Rightarrow> (int \<Rightarrow> int) \<Rightarrow> (string \<Rightarrow> int option) \<Rightarrow> bool \<Rightarrow> (content_page, unit) act" where
  "saveCategory w zone parse editing = content_save w zone parse Categories editing"

definition saveTag ::
  "admin_world \<Rightarrow> (int \<Rightarrow> int) \<Rightarrow> (string \<Rightarrow> int option) \<Rightarrow> bool \<Rightarrow> (content_page, unit) act" where
  "saveTag w zone parse editing = content_save w zone parse Tags editing"

definition savePost ::
  "admin_world \<Rightarrow> (int \<Rightarrow> int) \<Rightarrow> (string \<Rightarrow> int option) \<Rightarrow> bool \<Rightarrow> (content_page, unit) act" where
  "savePost w zone parse editing = content_save w zone parse Posts editing"

definition blog_category_edit ::
  "(int \<Rightarrow> int) \<Rightarrow> (string \<Rightarrow> int option) \<Rightarrow> json \<Rightarrow> (content_page, unit) act" where
  "blog_category_edit offset parse item = begin_edit offset parse Categories item"

definition blog_tag_edit ::
  "(int \<Rightarrow> int) \<Rightarrow> (string \<Rightarrow> int option) \<Rightarrow> json \<Rightarrow> (content_page, unit) act" where
  "blog_tag_edit offset parse item = begin_edit offset parse Tags item"

definition startPostEdit ::
  "(int \<Rightarrow> int) \<Rightarrow> (string \<Rightarrow> int option) \<Rightarrow> json \<Rightarrow> (content_page, unit) act" where
  "startPostEdit offset parse post = begin_edit offset parse Posts post"

definition faqs_load :: "admin_world \<Rightarrow> (content_page, unit) act" where
  "faqs_load w = content_load w [Faqs, FaqCategories]"

definition faq_category_save ::
  "admin_world \<Rightarrow> (int \<Rightarrow> int) \<Rightarrow> (string \<Rightarrow> int option) \<Rightarrow> bool \<Rightarrow> (content_page, unit) act" where
  "faq_category_save w zone parse editing = content_save w zone parse FaqCategories editing"

definition saveFaq ::
  "admin_world \<Rightarrow> (int \<Rightarrow> int) \<Rightarrow> (string \<Rightarrow> int option) \<Rightarrow> bool \<Rightarrow> (content_page, unit) act" where
  "saveFaq w zone parse editing = content_save w zone parse Faqs editing"

definition removeFaq :: "admin_world \<Rightarrow> int \<Rightarrow> (content_page, unit) act" where
  "removeFaq w i = content_remove w Faqs i"

definition removeCategory :: "admin_world \<Rightarrow> int \<Rightarrow> (content_page, unit) act" where
  "removeCategory w i = content_remove w FaqCategories i"

definition startCategoryEdit ::
  "(int \<Rightarrow> int) \<Rightarrow> (string \<Rightarrow> int option) \<Rightarrow> json \<Rightarrow> (content_page, unit) act" where
  "startCategoryEdit offset parse category = begin_edit offset parse FaqCategories category"

definition startFaqEdit ::
  "(int \<Rightarrow> int) \<Rightarrow> (string \<Rightarrow> int option) \<Rightarrow> json \<Rightarrow> (content_page, unit) act" where
  "startFaqEdit offset parse faq = begin_edit offset parse Faqs faq"

definition portfolio_load :: "admin_world \<Rightarrow> (content_page, unit) act" where
  "portfolio_load w = content_load w [Portfolio]"

definition portfolio_save ::
  "admin_world \<Rightarrow> (int \<Rightarrow> int) \<Rightarrow> (string \<Rightarrow> int option) \<Rightarrow> bool \<Rightarrow> (content_page, unit) act" where
  "portfolio_save w zone parse editing = content_save w zone parse Portfolio editing"

definition portfolio_remove :: "admin_world \<Rightarrow> int \<Rightarrow> (content_page, unit) act" where
  "portfolio_remove w i = content_remove w Portfolio i"

definition portfolio_edit ::
  "(int \<Rightarrow> int) \<Rightarrow> (string \<Rightarrow> int option) \<Rightarrow> json \<Rightarrow> (content_page, unit) act" where
  "portfolio_edit offset parse item = begin_edit offset parse Portfolio item"

definition testimonials_load :: "admin_world \<Rightarrow> (content_page, unit) act" where
  "testimonials_load w = content_load w [Testimonials]"

definition handleCreate ::
  "admin_world \<Rightarrow> (int \<Rightarrow> int) \<Rightarrow> (string \<Rightarrow> int option) \<Rightarrow> (content_page, unit) act" where
  "handleCreate w zone parse = content_save w zone parse Testimonials False"

definition handleUpdate ::
  "admin_world \<Rightarrow> (int \<Rightarrow> int) \<Rightarrow> (string \<Rightarrow> int option) \<Rightarrow> (content_page, unit) act" where
  "handleUpdate w zone parse = content_save w zone parse Testimonials True"

definition handleDelete :: "admin_world \<Rightarrow> int \<Rightarrow> (content_page, unit) act" where
  "handleDelete w i = content_remove w Testimonials i"

definition testimonial_edit ::
  "(int \<Rightarrow> int) \<Rightarrow> (string \<Rightarrow> int option) \<Rightarrow> json \<Rightarrow> (content_page, unit) act" where
  "testimonial_edit offset parse item = begin_edit offset parse Testimonials item"

lemmas content_pages =
  blog_load_def saveCategory_def saveTag_def savePost_def blog_category_edit_def blog_tag_edit_def startPostEdit_def
  faqs_load_def faq_category_save_def saveFaq_def removeFaq_def removeCategory_def startCategoryEdit_def startFaqEdit_def
  portfolio_load_def portfolio_save_def portfolio_remove_def portfolio_edit_def
  testimonials_load_def handleCreate_def handleUpdate_def handleDelete_def testimonial_edit_def

section \<open>Untouched content is kept\<close>

definition proper_string :: "json option \<Rightarrow> bool" where
  "proper_string v = (case v of Some (JStr s) \<Rightarrow> True | _ \<Rightarrow> False)"

definition proper_integer :: "json option \<Rightarrow> bool" where
  "proper_integer v = (case v of Some (JNum n) \<Rightarrow> True | _ \<Rightarrow> False)"

definition proper_tags :: "json option \<Rightarrow> bool" where
  "proper_tags v = (case v of
      Some (JArr xs) \<Rightarrow> list_all (\<lambda>x. case x of JStr s \<Rightarrow> proper_tag s | _ \<Rightarrow> False) xs
    | _ \<Rightarrow> False)"

definition keys_of :: "(json option \<Rightarrow> bool) \<Rightarrow> string list \<Rightarrow> (string \<times> (json option \<Rightarrow> bool)) list" where
  "keys_of p ks = map (\<lambda>k. (k, p)) ks"

definition content_schema :: "website_collection \<Rightarrow> (string \<times> (json option \<Rightarrow> bool)) list" where
  "content_schema c =
     (case c of
        Posts \<Rightarrow> keys_of proper_string [''featured_image_alt'', ''title'', ''slug'', ''excerpt'', ''content'', ''author'', ''meta_description'', ''meta_keywords''] @
          keys_of proper_flag [''published'', ''featured'']
      | Categories \<Rightarrow> keys_of proper_string [''name'', ''slug'', ''description'']
      | Tags \<Rightarrow> keys_of proper_string [''name'', ''slug'']
      | FaqCategories \<Rightarrow> keys_of proper_string [''name'', ''slug'', ''description''] @ keys_of proper_integer [''order'']
      | Faqs \<Rightarrow> keys_of proper_flag [''published''] @ keys_of proper_tags [''service_slugs''] @
          keys_of proper_string [''question'', ''answer''] @ keys_of proper_integer [''order'']
      | Portfolio \<Rightarrow> keys_of proper_flag [''published'', ''featured''] @ keys_of proper_tags [''service_slugs'', ''technologies''] @
          keys_of proper_string [''image_alt'', ''featured_image_alt'', ''meta_description'', ''title'', ''slug'', ''description'',
            ''challenge'', ''solution'', ''results''] @ keys_of proper_raw [''project_url'', ''github_url'']
      | Testimonials \<Rightarrow> keys_of proper_flag [''published'', ''featured''] @
          keys_of proper_string [''image_alt'', ''quote'', ''client_name'', ''company'', ''job_title''] @ keys_of proper_integer [''rating''])"

lemma string_kept: "proper_string (jget item k) \<Longrightarrow> stored (V_text (text_of item k)) (jget item k)"
  by (auto simp: proper_string_def text_of_def jstr_def split: option.splits json.splits)

lemma flag_kept: "proper_flag (jget item k) \<Longrightarrow> stored (V_bool (jget item k = Some (JBool True))) (jget item k)"
  by (rule flag_stored)

lemma integer_kept: "proper_integer (jget item k) \<Longrightarrow> stored (V_num (number_of item k)) (jget item k)"
  by (auto simp: proper_integer_def number_of_def optional_int_def split: option.splits json.splits)

lemma optional_kept: "proper_raw (jget item k) \<Longrightarrow> stored (textOrNull (text_of item k)) (jget item k)"
  by (auto simp: proper_raw_def text_of_def jstr_def textOrNull_def split: option.splits json.splits)

lemma tags_kept:
  assumes "proper_tags (jget item k)"
  shows "stored (V_texts (tag_names (joined item k))) (jget item k)"
proof -
  from assms obtain xs where xs: "jget item k = Some (JArr xs)" "list_all (\<lambda>x. case x of JStr s \<Rightarrow> proper_tag s | _ \<Rightarrow> False) xs"
    by (auto simp: proper_tags_def split: option.splits json.splits)
  have texts: "xs = map JStr (map js_text xs) \<and> list_all proper_tag (map js_text xs)"
    using xs(2) by (induction xs) (auto split: json.splits)
  then have "tag_names (joined item k) = map js_text xs"
    using tag_names_join [of "map js_text xs"] by (simp add: joined_def json_list_def xs(1))
  then show ?thesis using texts xs(1) by simp
qed

lemmas content_kept = string_kept flag_kept integer_kept optional_kept tags_kept

text \<open>The members that are not stored under their own name.\<close>

definition derived_members :: "string list" where
  "derived_members = [''brand_ids'', ''category_ids'', ''tag_ids'', ''category_id'', ''published_at'']"


definition demo_review :: json where
  "demo_review = JObj [(''id'', JNum 4), (''quote'', JStr ''Quick and exact''), (''client_name'', JStr ''Ann''), (''company'', JStr []),
     (''job_title'', JStr ''Buyer''), (''image_alt'', JStr []), (''rating'', JNum 5), (''published'', JBool True), (''featured'', JBool False),
     (''brand_slugs'', JArr [])]"


section \<open>The publish date\<close>

lemma take_clock:
  assumes "0 \<le> r" "r < day_ms"
  shows "take 5 (clock_text r) = dig 2 (nat r div 3600000) @ '':'' @ dig 2 (nat r mod 3600000 div 60000)"
proof -
  have "nat r div 3600000 < 100" "nat r mod 3600000 div 60000 < 100" using assms by (simp_all add: less_mult_imp_div_less)
  then show ?thesis by (simp del: dig.simps add: clock_text_def Let_def pad2_dig)
qed

lemma publish_input_stamp:
  assumes "parse s = Some t" "s \<noteq> []" "four_digits ((t + offset t) div day_ms)"
  shows "publish_input offset parse (Some (JStr s)) =
    Inr (let r = nat ((t + offset t) mod day_ms) in stamp ((t + offset t) div day_ms) (r div 3600000) (r mod 3600000 div 60000) [])"
proof -
  let ?l = "t + offset t"
  have r: "0 \<le> ?l mod day_ms" "?l mod day_ms < day_ms" by simp_all
  have "take 16 (iso_digits c @ ''T'' @ x) = iso_digits c @ ''T'' @ take 5 x" for c x by (simp add: length_iso_digits)
  moreover have "5 \<le> length (clock_text (?l mod day_ms))"
    using arg_cong [OF take_clock [OF r], of length] by simp
  ultimately show ?thesis
    using assms(1,2) by (simp del: dig.simps add: publish_input_def toISOString_day [OF assms(3)] and_then_def take_clock [OF r] stamp_def Let_def)
qed


lemma minute_floor:
  fixes l :: int
  defines "r \<equiv> nat (l mod day_ms)"
  shows "minute_ms (l div day_ms) (r div 3600000) (r mod 3600000 div 60000) = l - l mod 60000"
    and "r div 3600000 < 24" and "r mod 3600000 div 60000 < 60"
proof -
  have d: "(3600000::nat) dvd 86400000" "(60000::nat) dvd 3600000" by simp_all
  have r: "r < 86400000" by (simp add: r_def nat_less_iff)
  then show "r div 3600000 < 24" "r mod 3600000 div 60000 < 60" by (simp_all add: less_mult_imp_div_less)
  have "r mod 3600000 mod 60000 = r mod 60000" using mod_mod_cancel [OF d(2)] .
  then have "r div 3600000 * 3600000 + r mod 3600000 div 60000 * 60000 + r mod 60000 = r"
    using div_mult_mod_eq [of r 3600000] div_mult_mod_eq [of "r mod 3600000" 60000] by linarith
  then have "int (r div 3600000 * 3600000 + r mod 3600000 div 60000 * 60000 + r mod 60000) = int r" by (rule arg_cong)
  then have "int (r div 3600000) * 3600000 + int (r mod 3600000 div 60000) * 60000 + int (r mod 60000) = int r"
    by (simp only: of_nat_add of_nat_mult of_nat_numeral)
  moreover have "int (r mod 60000) = l mod 60000"
    using mod_mod_cancel [of 60000 day_ms l] by (simp add: r_def zmod_int)
  moreover have "l = l div day_ms * day_ms + int r" by (simp add: r_def)
  ultimately show "minute_ms (l div day_ms) (r div 3600000) (r mod 3600000 div 60000) = l - l mod 60000"
    by linarith
qed



section \<open>Deleting a category in use\<close>

text \<open>
  A category that is deleted while a post has it stays in the post: it is gone from the list of
  the page, but the post that was loaded with it still has it in its form when it is edited next,
  where no box shows it any more, and saving the post sends it.
\<close>

theorem removed_category_is_still_sent:
  assumes "jget post ''categories'' = Some (JArr cats)" "c \<in> set cats" "jget c ''id'' = Some (JNum i)"
  shows "c \<notin> set (cp_items (remove_item Categories i s) Categories) \<and>
    cp_items (remove_item Categories i s) Posts = cp_items s Posts \<and>
    i \<in> set (ct_ids (edit_form Posts (cp_brands (remove_item Categories i s)) post published_at) ''category_ids'')"
proof -
  have "i \<in> set (number_members ''id'' cats)" using assms(2,3) by (induction cats) (auto simp: number_members_def)
  then show ?thesis using assms by (simp add: remove_item_def edit_form_def item_ids_def json_list_def)
qed

theorem removed_category_is_still_sent_witness:
  "3 \<in> set (ct_ids (edit_form Posts (cp_brands (remove_item Categories 3 content_init))
      (JObj [(''categories'', JArr [JObj [(''id'', JNum 3)]])]) []) ''category_ids'')"
  using removed_category_is_still_sent [of "JObj [(''categories'', JArr [JObj [(''id'', JNum 3)]])]" "[JObj [(''id'', JNum 3)]]"
      "JObj [(''id'', JNum 3)]" 3 content_init "[]"]
  by simp

end
