(* ===== verification/Admin_Shell.thy ===== *)
theory Admin_Shell
  imports State_Machine Admin_Knowledge
begin

text \<open>
  What surrounds every page of the admin application: the layout, the sidebar with the pages a member
  of staff may open, the sidebar of the work pages, the search of the platform and the bell with the
  notifications.
\<close>

section \<open>The layout\<close>

definition under :: "string \<Rightarrow> string \<Rightarrow> bool" where
  "under pathname link \<longleftrightarrow> pathname = link \<or> startsWith pathname (link @ ''/'')"

definition workManagementPrefixes :: "string list" where
  "workManagementPrefixes =
     [''/admin/projects'', ''/admin/tasks'', ''/admin/task-lists'', ''/admin/time-tracking'', ''/admin/calendar'']"

definition showWorkManagement :: "string \<Rightarrow> bool" where
  "showWorkManagement pathname = list_ex (under pathname) workManagementPrefixes"

datatype layout_view = Loading_console | Sign_in_required | Console bool

definition admin_layout :: "admin_auth \<Rightarrow> string \<Rightarrow> layout_view" where
  "admin_layout a pathname =
     (if isLoading a then Loading_console
      else if user a = None then Sign_in_required
      else Console (showWorkManagement pathname))"

definition initials :: "string option \<Rightarrow> string option \<Rightarrow> string" where
  "initials firstName lastName =
     (let value = trim (take 1 (nullish firstName []) @ take 1 (nullish lastName []))
      in if value = [] then ''A'' else value)"

section \<open>The sidebar\<close>

record navigation_item =
  nv_label :: string
  nv_href :: string
  nv_permissions :: "string list option"
  nv_superuserOnly :: bool

abbreviation nav_item :: "string \<Rightarrow> string \<Rightarrow> string list \<Rightarrow> navigation_item" where
  "nav_item l h ps \<equiv> \<lparr>nv_label = l, nv_href = h, nv_permissions = Some ps, nv_superuserOnly = False\<rparr>"

definition navigation :: "(string \<times> navigation_item list) list" where
  "navigation =
     [(''Overview'', [\<lparr>nv_label = ''Dashboard'', nv_href = ''/admin'', nv_permissions = None, nv_superuserOnly = False\<rparr>]),
      (''Business'',
        [nav_item ''Clients'' ''/admin/clients'' [''clients.view_client''],
         nav_item ''Leads'' ''/admin/leads'' [''crm.view_lead''],
         nav_item ''Projects'' ''/admin/projects'' [''clients.view_project''],
         nav_item ''Tasks'' ''/admin/tasks'' [''tasks.view_task''],
         nav_item ''Calendar'' ''/admin/calendar'' [''tasks.view_task'', ''clients.view_project'', ''tasks.view_calendarevent''],
         nav_item ''Time tracking'' ''/admin/time-tracking'' [''clients.view_timeentry'']]),
      (''Support'',
        [nav_item ''Tickets'' ''/admin/tickets'' [''ticketing.view_ticket''],
         nav_item ''Service levels'' ''/admin/service-levels'' [''ticketing.view_ticket'']]),
      (''Documentation'',
        [nav_item ''Knowledge base'' ''/admin/knowledge-base'' [''knowledge_base.view_knowledgebasedocument''],
         nav_item ''Credentials'' ''/admin/credentials'' [''credentials.view_storedcredential''],
         nav_item ''Credential health'' ''/admin/credentials/health'' [''credentials.view_storedcredential'']]),
      (''Technology'',
        [nav_item ''GitHub'' ''/admin/github'' [''github_integration.view_repository'', ''infrastructure.view_infrastructureresource''],
         nav_item ''Infrastructure'' ''/admin/infrastructure'' [''infrastructure.view_infrastructureresource''],
         nav_item ''Topology'' ''/admin/infrastructure/topology'' [''infrastructure.view_infrastructureresource''],
         nav_item ''Applications'' ''/admin/infrastructure/applications'' [''infrastructure.view_infrastructureresource''],
         nav_item ''Monitoring'' ''/admin/monitoring'' [''monitoring.view_monitorcheck'']]),
      (''Publishing'',
        [nav_item ''Content'' ''/admin/content''
          [''website.view_blogpost'', ''website.view_testimonial'', ''website.view_faq'', ''website.view_portfolio'']]),
      (''Administration'',
        [nav_item ''Retention review'' ''/admin/retention'' [''crm.view_leadretentionreview''],
         \<lparr>nv_label = ''Celery operations'', nv_href = ''/admin/celery'', nv_permissions = None, nv_superuserOnly = True\<rparr>,
         nav_item ''Activity & security'' ''/admin/activity'' [''core.view_auditevent''],
         nav_item ''Users & access'' ''/admin/access'' [''access_control.manage_staff_access''],
         nav_item ''Settings'' ''/admin/settings'' [''core.view_brand'']])]"

definition isActive :: "string \<Rightarrow> string \<Rightarrow> bool" where
  "isActive pathname link = (if link = ''/admin'' then pathname = link else under pathname link)"

definition offered_item :: "(string \<Rightarrow> bool) \<Rightarrow> bool \<Rightarrow> navigation_item \<Rightarrow> bool" where
  "offered_item has superuser i \<longleftrightarrow>
     (\<not> nv_superuserOnly i \<or> superuser) \<and> (case nv_permissions i of None \<Rightarrow> True | Some ps \<Rightarrow> list_ex has ps)"

definition sidebar :: "(string \<Rightarrow> bool) \<Rightarrow> bool \<Rightarrow> (string \<times> navigation_item list) list" where
  "sidebar has superuser =
     filter (\<lambda>(g, items). items \<noteq> []) (map (\<lambda>(g, items). (g, filter (offered_item has superuser) items)) navigation)"

text \<open>The sidebar of the work pages: links are active without their query, and twelve lists are shown.\<close>

definition work_active :: "string \<Rightarrow> string \<Rightarrow> bool" where
  "work_active pathname link = under pathname (hd (split_on CHR ''?'' link))"

record work_sidebar = net +
  wk_lists :: "json list"

text \<open>\<open>cancelled\<close>: the sidebar was left or the permissions changed before the answer.\<close>

definition work_load :: "admin_world \<Rightarrow> (string \<Rightarrow> bool) \<Rightarrow> bool \<Rightarrow> (work_sidebar, unit) act" where
  "work_load w has cancelled =
     (if \<not> has ''tasks.view_tasklist'' then return_act ()
      else catch_act
        (bind_act (api_get w (call_url w (TaskLists Lists_list))) (\<lambda>j.
          set_act (\<lambda>s. if cancelled then s else s\<lparr>wk_lists := json_list (Some j)\<rparr>)))
        (\<lambda>e. set_act (\<lambda>s. if cancelled then s else s\<lparr>wk_lists := []\<rparr>)))"

definition work_shortcuts :: "work_sidebar \<Rightarrow> json list" where
  "work_shortcuts s = take 12 (wk_lists s)"

section \<open>Search\<close>

text \<open>\<^verbatim>\<open>pathname.match(/^\/admin\/clients\/(\d+)(?:\/|$)/)\<close>.\<close>

definition currentClientId :: "string \<Rightarrow> int option" where
  "currentClientId pathname =
     (if startsWith pathname ''/admin/clients/''
      then (let rest = drop (length ''/admin/clients/'') pathname; ds = takeWhile is_digit rest; after = dropWhile is_digit rest
            in if ds \<noteq> [] \<and> (after = [] \<or> hd after = CHR ''/'') then Some (int (digits_val ds)) else None)
      else None)"

text \<open>
  A question is the trimmed text and the client it is limited to. Every run of the effect has an abort
  controller; the runs are numbered, and \<open>gs_live\<close> is the run whose controller is not aborted.
\<close>

record question =
  qn_text :: string
  qn_client :: "int option"

record search =
  gs_client :: "int option"
  gs_open :: bool
  gs_query :: string
  gs_only :: bool
  gs_data :: "json option"
  gs_loading :: bool
  gs_error :: "string option"
  gs_timer :: "question option"
  gs_live :: nat
  gs_runs :: "(nat \<times> question) list"

definition some_client :: "int option \<Rightarrow> bool" where
  "some_client c \<longleftrightarrow> (case c of None \<Rightarrow> False | Some i \<Rightarrow> i \<noteq> 0)"

definition search_init :: "string \<Rightarrow> search" where
  "search_init pathname =
     \<lparr>gs_client = currentClientId pathname, gs_open = False, gs_query = [], gs_only = some_client (currentClientId pathname),
      gs_data = None, gs_loading = False, gs_error = None, gs_timer = None, gs_live = 0, gs_runs = []\<rparr>"

definition asks :: "search \<Rightarrow> bool" where
  "asks s \<longleftrightarrow> gs_open s \<and> 2 \<le> length (trim (gs_query s))"

definition question_of :: "search \<Rightarrow> question" where
  "question_of s = \<lparr>qn_text = trim (gs_query s), qn_client = (if gs_only s \<and> some_client (gs_client s) then gs_client s else None)\<rparr>"

text \<open>What is sent for a question.\<close>

definition question_body :: "question \<Rightarrow> json" where
  "question_body q =
     JObj [(''q'', JStr (qn_text q)), (''client_id'', case qn_client q of None \<Rightarrow> JNull | Some i \<Rightarrow> JNum i), (''per_type'', JNum 6)]"

text \<open>The cleanup of the last run of the effect and the next run.\<close>

definition search_run :: "search \<Rightarrow> search" where
  "search_run s =
     (let s' = s\<lparr>gs_timer := None, gs_live := Suc (gs_live s)\<rparr>
      in if asks s then s'\<lparr>gs_loading := True, gs_timer := Some (question_of s)\<rparr>
         else s'\<lparr>gs_data := None, gs_error := None, gs_loading := False\<rparr>)"

definition search_deps :: "search \<Rightarrow> int option \<times> bool \<times> bool \<times> string" where
  "search_deps s = (gs_client s, gs_only s, gs_open s, gs_query s)"

definition search_render :: "(search \<Rightarrow> search) \<Rightarrow> search \<Rightarrow> search" where
  "search_render f s = (if search_deps (f s) = search_deps s then f s else search_run (f s))"

text \<open>The button in the bar is covered by the dialog while it is open.\<close>

datatype search_act = Shortcut | Show | Type_query string | Toggle_only | Close_search | Visit string

fun search_do :: "search_act \<Rightarrow> search \<Rightarrow> search" where
  "search_do Shortcut s = s\<lparr>gs_only := some_client (gs_client s), gs_open := True\<rparr>"
| "search_do Show s = s\<lparr>gs_query := [], gs_data := None, gs_error := None, gs_only := some_client (gs_client s), gs_open := True\<rparr>"
| "search_do (Type_query q) s = s\<lparr>gs_query := q\<rparr>"
| "search_do Toggle_only s = s\<lparr>gs_only := \<not> gs_only s\<rparr>"
| "search_do Close_search s = s\<lparr>gs_open := False\<rparr>"
| "search_do (Visit pathname) s = s\<lparr>gs_client := currentClientId pathname\<rparr>"

definition search_fire :: "question \<Rightarrow> search \<Rightarrow> search" where
  "search_fire q s = s\<lparr>gs_timer := None, gs_error := None, gs_runs := gs_runs s @ [(gs_live s, q)]\<rparr>"

definition search_answered :: "nat \<Rightarrow> string + json \<Rightarrow> search \<Rightarrow> search" where
  "search_answered i r s =
     (let run = gs_runs s ! i; s' = s\<lparr>gs_runs := take i (gs_runs s) @ drop (Suc i) (gs_runs s)\<rparr>
      in if fst run \<noteq> gs_live s then s'
         else (case r of
             Inl message \<Rightarrow> s'\<lparr>gs_data := None, gs_error := Some message, gs_loading := False\<rparr>
           | Inr j \<Rightarrow> s'\<lparr>gs_data := Some j, gs_loading := False\<rparr>))"

text \<open>\<open>answers q j\<close>: the server can answer the question \<open>q\<close> with \<open>j\<close>.\<close>

inductive search_step :: "(question \<Rightarrow> json \<Rightarrow> bool) \<Rightarrow> search \<Rightarrow> search \<Rightarrow> bool" for answers :: "question \<Rightarrow> json \<Rightarrow> bool" where
  search_acts: "a \<noteq> Show \<or> \<not> gs_open s \<Longrightarrow> search_step answers s (search_render (search_do a) s)"
| search_fires: "gs_timer s = Some q \<Longrightarrow> search_step answers s (search_fire q s)"
| search_answers: "i < length (gs_runs s) \<Longrightarrow> (\<And>j. r = Inr j \<Longrightarrow> answers (snd (gs_runs s ! i)) j) \<Longrightarrow>
    search_step answers s (search_answered i r s)"

text \<open>The results on the screen.\<close>

definition shown_results :: "search \<Rightarrow> json option" where
  "shown_results s = (if gs_loading s then None else gs_data s)"

definition search_inv :: "(question \<Rightarrow> json \<Rightarrow> bool) \<Rightarrow> search \<Rightarrow> bool" where
  "search_inv answers s \<longleftrightarrow>
     (\<forall>(n, q) \<in> set (gs_runs s). n \<le> gs_live s \<and> (n = gs_live s \<longrightarrow> asks s \<and> q = question_of s)) \<and>
     (if asks s
      then (gs_timer s = None \<or> gs_timer s = Some (question_of s) \<and> gs_loading s) \<and>
        (gs_timer s \<noteq> None \<longrightarrow> gs_live s \<notin> fst ` set (gs_runs s)) \<and>
        (gs_loading s \<longrightarrow> gs_timer s \<noteq> None \<or> gs_live s \<in> fst ` set (gs_runs s)) \<and>
        (\<not> gs_loading s \<longrightarrow> (\<forall>j. gs_data s = Some j \<longrightarrow> answers (question_of s) j))
      else gs_timer s = None \<and> gs_data s = None \<and> gs_error s = None \<and> \<not> gs_loading s)"

lemma deps_unchanged: "a \<noteq> Show \<or> \<not> gs_open s \<Longrightarrow> search_deps (search_do a s) = search_deps s \<Longrightarrow> search_do a s = s"
  by (cases a) (auto simp: search_deps_def)

lemma search_do_frame [simp]: "gs_runs (search_do a s) = gs_runs s" "gs_live (search_do a s) = gs_live s"
  by (cases a; simp)+

lemma search_frame [simp]:
  "asks (s\<lparr>gs_timer := t\<rparr>) = asks s" "asks (s\<lparr>gs_live := n\<rparr>) = asks s" "asks (s\<lparr>gs_loading := l\<rparr>) = asks s"
  "asks (s\<lparr>gs_data := d\<rparr>) = asks s" "asks (s\<lparr>gs_error := e\<rparr>) = asks s" "asks (s\<lparr>gs_runs := rs\<rparr>) = asks s"
  "question_of (s\<lparr>gs_timer := t\<rparr>) = question_of s" "question_of (s\<lparr>gs_live := n\<rparr>) = question_of s"
  "question_of (s\<lparr>gs_loading := l\<rparr>) = question_of s" "question_of (s\<lparr>gs_data := d\<rparr>) = question_of s"
  "question_of (s\<lparr>gs_error := e\<rparr>) = question_of s" "question_of (s\<lparr>gs_runs := rs\<rparr>) = question_of s"
  by (simp_all add: asks_def question_of_def)

lemma search_run_inv: "\<forall>(n, q) \<in> set (gs_runs s). n \<le> gs_live s \<Longrightarrow> search_inv answers (search_run s)"
  by (fastforce simp: search_inv_def search_run_def Let_def)

lemma search_answer_inv:
  assumes inv: "search_inv answers s" and i: "i < length (gs_runs s)" and r: "\<And>j. r = Inr j \<Longrightarrow> answers (snd (gs_runs s ! i)) j"
  shows "search_inv answers (search_answered i r s)"
proof -
  define rest where "rest = take i (gs_runs s) @ drop (Suc i) (gs_runs s)"
  obtain n q where run: "gs_runs s ! i = (n, q)" by (cases "gs_runs s ! i")
  have all: "set (gs_runs s) = insert (n, q) (set rest)"
    using i run unfolding rest_def by (metis (no_types, lifting) Un_insert_right id_take_nth_drop list.simps(15) set_append)
  have answered: "search_answered i r s =
      (if n \<noteq> gs_live s then s\<lparr>gs_runs := rest\<rparr>
       else (case r of
           Inl message \<Rightarrow> s\<lparr>gs_runs := rest, gs_data := None, gs_error := Some message, gs_loading := False\<rparr>
         | Inr j \<Rightarrow> s\<lparr>gs_runs := rest, gs_data := Some j, gs_loading := False\<rparr>))"
    unfolding rest_def by (simp add: search_answered_def Let_def run split: sum.splits)
  show ?thesis
  proof (cases "n = gs_live s")
    case False
    then have "gs_live s \<in> fst ` insert (n, q) (set rest) \<longleftrightarrow> gs_live s \<in> fst ` set rest" by simp
    then show ?thesis using inv False unfolding search_inv_def all answered by (cases "asks s") auto
  next
    case True
    then have "asks s" "q = question_of s" "gs_timer s = None" using inv unfolding search_inv_def all by (auto split: if_splits)
    then show ?thesis
      using inv run r True unfolding search_inv_def all answered by (auto split: sum.splits)
  qed
qed

lemma search_step_inv: "search_inv answers s \<Longrightarrow> search_step answers s t \<Longrightarrow> search_inv answers t"
proof (erule search_step.cases)
  fix a s'
  assume inv: "search_inv answers s" and s: "s = s'" "t = search_render (search_do a) s'" "a \<noteq> Show \<or> \<not> gs_open s'"
  show ?thesis
  proof (cases "search_deps (search_do a s) = search_deps s")
    case True
    then show ?thesis using deps_unchanged [of a s] inv s by (simp add: search_render_def)
  next
    case False
    have "\<forall>(n, q) \<in> set (gs_runs (search_do a s)). n \<le> gs_live (search_do a s)" using inv by (auto simp: search_inv_def)
    then show ?thesis using search_run_inv [of "search_do a s" answers] False s by (simp add: search_render_def)
  qed
next
  fix s' q
  assume "search_inv answers s" "s = s'" "t = search_fire q s'" "gs_timer s' = Some q"
  then show ?thesis by (auto simp: search_inv_def search_fire_def split: if_splits)
next
  fix i s' r
  assume "search_inv answers s" "s = s'" "t = search_answered i r s'" "i < length (gs_runs s')"
    "\<And>j. r = Inr j \<Longrightarrow> answers (snd (gs_runs s' ! i)) j"
  then show ?thesis by (simp add: search_answer_inv)
qed

interpretation search: safe_machine "\<lambda>s. \<exists>pathname. s = search_init pathname" "search_step answers" "search_inv answers"
proof unfold_locales
  show "search_inv answers s" if "\<exists>pathname. s = search_init pathname" for s
    using that by (auto simp: search_init_def search_inv_def asks_def)
qed (rule search_step_inv)

text \<open>
  C2: the results on the screen are an answer to the question that is in the dialog, limited to the
  client it says, whatever was typed, switched and visited while answers came; and the dialog does
  not wait for ever: when no timer runs and no request is under way it is not loading.
\<close>

theorem search_shows_current_answer:
  assumes "reachable (\<lambda>s. \<exists>pathname. s = search_init pathname) (search_step answers) s"
  shows "(case shown_results s of None \<Rightarrow> True | Some j \<Rightarrow> asks s \<and> answers (question_of s) j) \<and>
    (gs_timer s = None \<and> gs_runs s = [] \<longrightarrow> \<not> gs_loading s)"
  using search.inv_reachable [OF assms]
  by (auto simp: search_inv_def shown_results_def split: option.splits if_splits)

definition demo_question :: question where
  "demo_question = \<lparr>qn_text = ''vpn'', qn_client = Some 7\<rparr>"

theorem search_shows_current_answer_witness:
  "\<exists>s. shown_results s = Some (JBool True) \<and> asks s \<and> question_of s = demo_question"
proof -
  let ?answers = "\<lambda>q j. q = demo_question \<and> j = JBool True"
  let ?init = "search_init ''/admin/clients/7''"
  let ?open = "search_render (search_do Show) ?init"
  let ?typed = "search_render (search_do (Type_query ''vpn '')) ?open"
  let ?asked = "search_fire demo_question ?typed"
  let ?shown = "search_answered 0 (Inr (JBool True)) ?asked"
  have reach: "reachable (\<lambda>s. \<exists>p. s = search_init p) (search_step ?answers) ?shown"
  proof (rule reach_step)
    show "reachable (\<lambda>s. \<exists>p. s = search_init p) (search_step ?answers) ?asked"
    proof (rule reach_step)
      show "reachable (\<lambda>s. \<exists>p. s = search_init p) (search_step ?answers) ?typed"
      proof (rule reach_step)
        show "reachable (\<lambda>s. \<exists>p. s = search_init p) (search_step ?answers) ?open"
        proof (rule reach_step)
          show "reachable (\<lambda>s. \<exists>p. s = search_init p) (search_step ?answers) ?init"
            by (rule reach_init) (rule exI, rule refl)
          show "search_step ?answers ?init ?open" by (rule search_acts) (simp add: search_init_def)
        qed
        show "search_step ?answers ?open ?typed" by (rule search_acts) simp
      qed
      have "gs_timer ?typed = Some demo_question" by code_simp
      then show "search_step ?answers ?typed ?asked" by (rule search_fires)
    qed
    have "length (gs_runs ?asked) = 1" "snd (gs_runs ?asked ! 0) = demo_question" by code_simp+
    then show "search_step ?answers ?asked ?shown" by (intro search_answers) simp_all
  qed
  have "shown_results ?shown = Some (JBool True)" by code_simp
  with search_shows_current_answer [OF reach] show ?thesis by auto
qed

section \<open>Notifications\<close>

text \<open>What the bell shows of \<^verbatim>\<open>GET /admin/notifications\<close>.\<close>

record bell = net +
  be_items :: "json list"
  be_unread :: int
  be_loading :: bool

definition bell_init :: bell where
  "bell_init = \<lparr>stored_token = None, sent = [], be_items = [], be_unread = 0, be_loading = True\<rparr>"

definition bell_url :: "admin_world \<Rightarrow> string \<Rightarrow> string" where
  "bell_url w rest = aw_api w @ ''/api/admin/notifications'' @ rest"

definition bell_taken :: "json \<Rightarrow> bell \<Rightarrow> bell" where
  "bell_taken j s = s\<lparr>be_items := json_list (jget j ''items''), be_unread := nullish (optional_int (jget j ''unread_count'')) 0\<rparr>"

definition bell_refresh :: "admin_world \<Rightarrow> (bell, unit) act" where
  "bell_refresh w =
     finally_act
       (catch_act (bind_act (api_get w (bell_url w ''?limit=30'')) (\<lambda>j. set_act (bell_taken j))) (\<lambda>e. return_act ()))
       (\<lambda>s. s\<lparr>be_loading := False\<rparr>)"

definition has_id :: "int \<Rightarrow> json \<Rightarrow> bool" where
  "has_id i item \<longleftrightarrow> jget item ''id'' = Some (JNum i)"

definition unread :: "json \<Rightarrow> bool" where
  "unread item \<longleftrightarrow> jget item ''read_at'' = Some JNull"

text \<open>\<^verbatim>\<open>{ ...item, read_at: item.read_at ?? new Date().toISOString() }\<close>.\<close>

definition read_item :: "string \<Rightarrow> json \<Rightarrow> json" where
  "read_item now item =
     (case item of
        JObj kvs \<Rightarrow> JObj (alist_put ''read_at''
          (case map_of kvs ''read_at'' of None \<Rightarrow> JStr now | Some v \<Rightarrow> if v = JNull then JStr now else v) kvs)
      | j \<Rightarrow> j)"

definition marked :: "string \<Rightarrow> int \<Rightarrow> bell \<Rightarrow> bell" where
  "marked now i s =
     s\<lparr>be_unread := max 0 (be_unread s - (if list_ex (\<lambda>item. has_id i item \<and> unread item) (be_items s) then 1 else 0)),
       be_items := map (\<lambda>item. if has_id i item then read_item now item else item) (be_items s)\<rparr>"

definition dismissed :: "int \<Rightarrow> bell \<Rightarrow> bell" where
  "dismissed i s =
     s\<lparr>be_unread := max 0 (be_unread s - (case find (has_id i) (be_items s) of None \<Rightarrow> 0 | Some item \<Rightarrow> if unread item then 1 else 0)),
       be_items := filter (\<lambda>item. \<not> has_id i item) (be_items s)\<rparr>"

definition all_marked :: "string \<Rightarrow> bell \<Rightarrow> bell" where
  "all_marked now s = s\<lparr>be_unread := 0, be_items := map (read_item now) (be_items s)\<rparr>"

definition markRead :: "admin_world \<Rightarrow> string \<Rightarrow> int \<Rightarrow> (bell, unit) act" where
  "markRead w now i =
     then_act (api_send w ''POST'' (bell_url w (''/'' @ int_str i @ ''/read'')) NoBody) (set_act (marked now i))"

definition dismiss :: "admin_world \<Rightarrow> int \<Rightarrow> (bell, unit) act" where
  "dismiss w i =
     then_act (api_send w ''POST'' (bell_url w (''/'' @ int_str i @ ''/dismiss'')) NoBody) (set_act (dismissed i))"

definition markAllRead :: "admin_world \<Rightarrow> string \<Rightarrow> (bell, unit) act" where
  "markAllRead w now = then_act (api_send w ''POST'' (bell_url w ''/read-all'') NoBody) (set_act (all_marked now))"

definition bell_badge :: "bell \<Rightarrow> string" where
  "bell_badge s = (if be_unread s \<le> 0 then [] else if be_unread s > 99 then ''99+'' else int_str (be_unread s))"

text \<open>The unread notifications beyond the thirty that are listed.\<close>

definition unlisted :: "bell \<Rightarrow> int" where
  "unlisted s = be_unread s - int (length (filter unread (be_items s)))"

lemma unread_read_item: "\<not> unread (read_item now item)"
  by (cases item) (auto simp: unread_def read_item_def map_of_alist_put split: option.splits)

lemma no_id:
  assumes "i \<notin> (\<lambda>x. jget x ''id'') ` set xs" "i = Some (JNum n)" "x \<in> set xs"
  shows "\<not> has_id n x"
  using imageI [OF assms(3), of "\<lambda>x. jget x ''id''"] assms(1,2) unfolding has_id_def by auto

lemma marked_listed:
  "distinct (map (\<lambda>x. jget x ''id'') xs) \<Longrightarrow>
   int (length (filter unread (map (\<lambda>x. if has_id i x then read_item now x else x) xs))) =
   int (length (filter unread xs)) - (if list_ex (\<lambda>x. has_id i x \<and> unread x) xs then 1 else 0)"
proof (induction xs)
  case (Cons x xs)
  have rest: "map (\<lambda>x. if has_id i x then read_item now x else x) xs = xs" "\<not> list_ex (\<lambda>x. has_id i x \<and> unread x) xs" if "has_id i x"
    using no_id [of "jget x ''id''" xs i] Cons.prems that by (auto simp: has_id_def list_ex_iff image_iff intro!: map_idI)
  show ?case
  proof (cases "has_id i x")
    case True
    with rest show ?thesis by (simp add: unread_read_item)
  next
    case False
    with Cons show ?thesis by (cases "list_ex (\<lambda>x. has_id i x \<and> unread x) xs") (simp_all add: comp_def)
  qed
qed simp

lemma dismissed_listed:
  "distinct (map (\<lambda>x. jget x ''id'') xs) \<Longrightarrow>
   int (length (filter unread (filter (\<lambda>x. \<not> has_id i x) xs))) =
   int (length (filter unread xs)) - (case find (has_id i) xs of None \<Rightarrow> 0 | Some x \<Rightarrow> if unread x then 1 else 0)"
proof (induction xs)
  case (Cons x xs)
  have rest: "filter (\<lambda>x. \<not> has_id i x) xs = xs" if "has_id i x"
    using no_id [of "jget x ''id''" xs i] Cons.prems that by (auto simp: has_id_def intro!: filter_True)
  show ?case
  proof (cases "has_id i x")
    case True
    with rest show ?thesis by simp
  next
    case False
    with Cons show ?thesis by simp
  qed
qed simp

text \<open>
  C17: the number on the bell stays right without asking the server again: marking one
  notification as read or dismissing it counts it down exactly if it was listed as unread, also when
  a refresh that arrived in between has marked or removed it already, and marking all leaves none.
\<close>

theorem bell_counts_stay_right:
  assumes "distinct (map (\<lambda>x. jget x ''id'') (be_items s))" "0 \<le> unlisted s"
  shows "unlisted (marked now i s) = unlisted s \<and> unlisted (dismissed i s) = unlisted s \<and>
    unlisted (all_marked now s) = 0 \<and> be_unread (all_marked now s) = 0"
proof (intro conjI)
  let ?n = "int (length (filter unread (be_items s)))"
  have "0 < ?n" if "list_ex (\<lambda>x. has_id i x \<and> unread x) (be_items s)"
    using that by (auto simp: list_ex_iff filter_empty_conv)
  with marked_listed [OF assms(1), of i now] assms(2) show "unlisted (marked now i s) = unlisted s"
    by (auto simp: unlisted_def marked_def)
  have "0 < ?n" if "find (has_id i) (be_items s) = Some x" "unread x" for x
    using that by (auto simp: find_Some_iff filter_empty_conv)
  with dismissed_listed [OF assms(1), of i] assms(2) show "unlisted (dismissed i s) = unlisted s"
    by (auto simp: unlisted_def dismissed_def split: option.splits)
  show "unlisted (all_marked now s) = 0" by (simp add: unlisted_def all_marked_def unread_read_item filter_empty_conv)
  show "be_unread (all_marked now s) = 0" by (simp add: all_marked_def)
qed

definition demo_bell :: bell where
  "demo_bell = bell_init\<lparr>be_items := [JObj [(''id'', JNum 3), (''read_at'', JNull)], JObj [(''id'', JNum 4), (''read_at'', JStr ''2026-07-01'')]],
     be_unread := 5\<rparr>"

theorem bell_counts_stay_right_witness:
  "unlisted demo_bell = 4 \<and> unlisted (marked ''2026-07-02'' 3 demo_bell) = 4 \<and> unlisted (dismissed 4 demo_bell) = 4"
proof -
  have "distinct (map (\<lambda>x. jget x ''id'') (be_items demo_bell))" "unlisted demo_bell = 4"
    by (simp_all add: demo_bell_def unlisted_def unread_def)
  with bell_counts_stay_right [of demo_bell "''2026-07-02''" 3] bell_counts_stay_right [of demo_bell "[]" 4] show ?thesis by simp
qed

end
