(* ===== verification/Admin_Tasks.thy ===== *)
theory Admin_Tasks
  imports Admin_Tickets Admin_Content
begin

text \<open>
  Tasks: the form of a task (\<^verbatim>\<open>tasks/TaskForm.tsx\<close>), the quick form over the list
  (\<^verbatim>\<open>tasks/TasksWorkspace.tsx\<close>), the page of a task (\<^verbatim>\<open>tasks/TaskWorkspace.tsx\<close>),
  its relations (\<^verbatim>\<open>tasks/TaskRelationsPanel.tsx\<close>), and the drawer that shows a task over
  any page with what is in it (\<^verbatim>\<open>components/admin/Task*.tsx\<close>).
\<close>

section \<open>Who owns a task\<close>

text \<open>
  The part of the forms that says where a task belongs: its project, its owner and its list.
  \<open>options\<close> is the answer of \<^verbatim>\<open>AdminAPI.tasks.options()\<close>.
\<close>

record owner =
  ow_project :: "int option"
  ow_ownership :: string
  ow_client :: "int option"
  ow_list :: "int option"

definition num :: "json \<Rightarrow> string \<Rightarrow> int option" where
  "num j k = optional_int (jget j k)"

definition offered :: "json \<Rightarrow> string \<Rightarrow> json list" where
  "offered options k = json_list (jget options k)"

definition find_option :: "json \<Rightarrow> string \<Rightarrow> int option \<Rightarrow> json option" where
  "find_option options k i = Option.bind i (find_id (offered options k))"

definition selectedProject :: "json \<Rightarrow> owner \<Rightarrow> json option" where
  "selectedProject options f = find_option options ''projects'' (ow_project f)"

definition effectiveOwnership :: "json \<Rightarrow> owner \<Rightarrow> string" where
  "effectiveOwnership options f =
     (case selectedProject options f of Some p \<Rightarrow> text_of p ''ownership_type'' | None \<Rightarrow> ow_ownership f)"

definition effectiveClientId :: "json \<Rightarrow> owner \<Rightarrow> int option" where
  "effectiveClientId options f =
     (case Option.bind (selectedProject options f) (\<lambda>p. num p ''client_id'') of Some c \<Rightarrow> Some c | None \<Rightarrow> ow_client f)"

definition list_fits :: "json \<Rightarrow> owner \<Rightarrow> json \<Rightarrow> bool" where
  "list_fits options f l \<longleftrightarrow>
     (case num l ''project_id'' of
        Some p \<Rightarrow> ow_project f = Some p
      | None \<Rightarrow> text_of l ''ownership_type'' = effectiveOwnership options f \<and>
          num l ''client_id'' = (if effectiveOwnership options f = ''client'' then effectiveClientId options f else None))"

definition availableTaskLists :: "json \<Rightarrow> owner \<Rightarrow> json list" where
  "availableTaskLists options f = filter (list_fits options f) (offered options ''task_lists'')"

definition updateProject :: "json \<Rightarrow> int option \<Rightarrow> owner \<Rightarrow> owner" where
  "updateProject options projectId f =
     (let project = find_option options ''projects'' projectId
      in f\<lparr>ow_project := projectId, ow_list := None,
           ow_ownership := (case project of Some p \<Rightarrow> text_of p ''ownership_type'' | None \<Rightarrow> ow_ownership f),
           ow_client := (case project of Some p \<Rightarrow> num p ''client_id'' | None \<Rightarrow> ow_client f)\<rparr>)"

definition updateOwnership :: "string \<Rightarrow> owner \<Rightarrow> owner" where
  "updateOwnership v f = f\<lparr>ow_ownership := v, ow_client := (if v = ''internal'' then None else ow_client f), ow_list := None\<rparr>"

definition choose_client :: "int option \<Rightarrow> owner \<Rightarrow> owner" where
  "choose_client c f = f\<lparr>ow_client := c, ow_list := None\<rparr>"

text \<open>The editor in the drawer has one input for the owner: \<^verbatim>\<open>internal\<close> or a client.\<close>

definition updateOwner :: "int option \<Rightarrow> owner \<Rightarrow> owner" where
  "updateOwner c f =
     (case c of
        None \<Rightarrow> f\<lparr>ow_ownership := ''internal'', ow_client := None, ow_list := None\<rparr>
      | Some i \<Rightarrow> f\<lparr>ow_ownership := ''client'', ow_client := Some i, ow_list := None\<rparr>)"

definition empty_owner :: owner where
  "empty_owner = \<lparr>ow_project = None, ow_ownership = ''internal'', ow_client = None, ow_list = None\<rparr>"

text \<open>The owner of a new task, from the ids in the address.\<close>

definition truthy_int :: "int option \<Rightarrow> int option" where
  "truthy_int i = (if i = Some 0 then None else i)"

definition initial_owner :: "json \<Rightarrow> int option \<Rightarrow> int option \<Rightarrow> int option \<Rightarrow> owner" where
  "initial_owner options projectId clientId taskListId =
     (case find_option options ''task_lists'' (truthy_int taskListId) of
        Some l \<Rightarrow>
          (let project = find_option options ''projects'' (truthy_int (num l ''project_id''))
           in \<lparr>ow_project = Option.bind project (\<lambda>p. num p ''id''),
               ow_ownership = (case project of Some p \<Rightarrow> text_of p ''ownership_type'' | None \<Rightarrow> text_of l ''ownership_type''),
               ow_client = (case Option.bind project (\<lambda>p. num p ''client_id'') of Some c \<Rightarrow> Some c | None \<Rightarrow> num l ''client_id''),
               ow_list = num l ''id''\<rparr>)
      | None \<Rightarrow>
          (case find_option options ''projects'' (truthy_int projectId) of
             Some p \<Rightarrow> empty_owner\<lparr>ow_ownership := text_of p ''ownership_type'', ow_client := num p ''client_id'', ow_project := num p ''id''\<rparr>
           | None \<Rightarrow>
               (case find_option options ''clients'' (truthy_int clientId) of
                  Some c \<Rightarrow> empty_owner\<lparr>ow_ownership := ''client'', ow_client := num c ''id''\<rparr>
                | None \<Rightarrow> empty_owner)))"

text \<open>What is sent of it.\<close>

definition sent_client :: "json \<Rightarrow> owner \<Rightarrow> int option" where
  "sent_client options f = (if effectiveOwnership options f = ''client'' then effectiveClientId options f else None)"

text \<open>The inputs offer what the options have, and are disabled where the project decides.\<close>

inductive owner_step :: "json \<Rightarrow> owner \<Rightarrow> owner \<Rightarrow> bool" for options :: json where
  project_chosen: "owner_step options f (updateProject options i f)"
| ownership_chosen: "selectedProject options f = None \<Longrightarrow> owner_step options f (updateOwnership v f)"
| client_chosen: "selectedProject options f = None \<Longrightarrow> effectiveOwnership options f \<noteq> ''internal'' \<Longrightarrow>
    owner_step options f (choose_client c f)"
| owner_chosen: "selectedProject options f = None \<Longrightarrow> owner_step options f (updateOwner c f)"
| list_cleared: "owner_step options f (f\<lparr>ow_list := None\<rparr>)"
| list_chosen: "l \<in> set (availableTaskLists options f) \<Longrightarrow> owner_step options f (f\<lparr>ow_list := num l ''id''\<rparr>)"

definition owner_inv :: "json \<Rightarrow> owner \<Rightarrow> bool" where
  "owner_inv options f \<longleftrightarrow>
     (case ow_list f of None \<Rightarrow> True | Some i \<Rightarrow> list_ex (\<lambda>l. num l ''id'' = Some i) (availableTaskLists options f))"

text \<open>What the server keeps of lists: they belong to a project that is offered or to one owner.\<close>

definition proper_lists :: "json \<Rightarrow> bool" where
  "proper_lists options \<longleftrightarrow>
     list_all (\<lambda>l. case num l ''project_id'' of
         Some p \<Rightarrow> p \<noteq> 0 \<and> find_id (offered options ''projects'') p \<noteq> None
       | None \<Rightarrow> text_of l ''ownership_type'' = ''client'' \<or> num l ''client_id'' = None) (offered options ''task_lists'')"

lemma list_unset [simp]: "selectedProject options (f\<lparr>ow_list := l\<rparr>) = selectedProject options f"
  "effectiveOwnership options (f\<lparr>ow_list := l\<rparr>) = effectiveOwnership options f"
  "effectiveClientId options (f\<lparr>ow_list := l\<rparr>) = effectiveClientId options f"
  by (simp_all add: selectedProject_def effectiveOwnership_def effectiveClientId_def split: option.split)

lemma list_fits_unset [simp]: "list_fits options (f\<lparr>ow_list := l\<rparr>) = list_fits options f"
  by (rule ext) (simp add: list_fits_def split: option.split)

lemma available_unset [simp]: "availableTaskLists options (f\<lparr>ow_list := l\<rparr>) = availableTaskLists options f"
  by (simp add: availableTaskLists_def)

lemma no_list: "ow_list f = None \<Longrightarrow> owner_inv options f"
  by (simp add: owner_inv_def)

lemma find_id_num: "find_id xs i = Some x \<Longrightarrow> num x ''id'' = Some i"
  by (auto dest!: find_id_member simp: num_def optional_int_def)

lemma initial_owner_inv:
  assumes "proper_lists options"
  shows "owner_inv options (initial_owner options projectId clientId taskListId)"
proof (cases "find_option options ''task_lists'' (truthy_int taskListId)")
  case None
  then show ?thesis by (intro no_list) (simp add: initial_owner_def empty_owner_def split: option.split)
next
  case (Some l)
  then obtain i where l: "l \<in> set (offered options ''task_lists'')" "num l ''id'' = Some i"
    by (auto simp: find_option_def bind_eq_Some_conv dest: find_id_member find_id_num)
  let ?f = "initial_owner options projectId clientId taskListId"
  have "list_fits options ?f l"
  proof (cases "num l ''project_id''")
    case none: None
    then have f: "?f = \<lparr>ow_project = None, ow_ownership = text_of l ''ownership_type'', ow_client = num l ''client_id'', ow_list = num l ''id''\<rparr>"
      using Some by (simp add: initial_owner_def truthy_int_def find_option_def)
    have "text_of l ''ownership_type'' = ''client'' \<or> num l ''client_id'' = None"
      using assms l(1) none by (auto simp: proper_lists_def list_all_iff)
    then show ?thesis
      using none unfolding f by (auto simp: list_fits_def effectiveOwnership_def effectiveClientId_def selectedProject_def find_option_def)
  next
    case (Some p)
    have "p \<noteq> 0 \<and> find_id (offered options ''projects'') p \<noteq> None"
      using assms l(1) Some by (auto simp: proper_lists_def list_all_iff)
    then obtain j where "p \<noteq> 0" "find_id (offered options ''projects'') p = Some j" by auto
    then have "ow_project ?f = Some p"
      using \<open>find_option options ''task_lists'' (truthy_int taskListId) = Some l\<close> Some
      by (simp add: initial_owner_def truthy_int_def find_option_def Let_def find_id_num)
    then show ?thesis using Some by (simp add: list_fits_def)
  qed
  moreover have "ow_list ?f = Some i" using Some l(2) by (simp add: initial_owner_def Let_def)
  ultimately show ?thesis using l by (auto simp: owner_inv_def availableTaskLists_def list_ex_iff)
qed

lemma owner_step_inv: "owner_inv options f \<Longrightarrow> owner_step options f g \<Longrightarrow> owner_inv options g"
proof (erule owner_step.cases)
  fix f' l
  assume "g = f'\<lparr>ow_list := num l ''id''\<rparr>" "l \<in> set (availableTaskLists options f')"
  then show ?thesis by (auto simp: owner_inv_def list_ex_iff split: option.split)
qed (auto intro!: no_list simp: updateProject_def Let_def updateOwnership_def choose_client_def updateOwner_def split: option.split)

text \<open>A form begins with the owner of a new task or with one the server keeps.\<close>

definition owner_init :: "json \<Rightarrow> owner \<Rightarrow> bool" where
  "owner_init options f \<longleftrightarrow> proper_lists options \<and> ((\<exists>p c l. f = initial_owner options p c l) \<or> owner_inv options f)"

interpretation task_owner: safe_machine "owner_init options" "owner_step options" "owner_inv options"
  by unfold_locales (auto simp: owner_init_def intro: initial_owner_inv owner_step_inv)

text \<open>
  C5: a task form stays well formed: the list that it sends with a task is one of the options and
  belongs to the project that is sent with it or, if it belongs to no project, to the owner and the client that
  are sent, whatever was chosen in whatever order and whatever ids the address had.
\<close>

theorem task_list_fits_owner:
  assumes "reachable (owner_init options) (owner_step options) f" and "ow_list f = Some i"
  shows "\<exists>l \<in> set (offered options ''task_lists''). num l ''id'' = Some i \<and>
    (case num l ''project_id'' of
       Some p \<Rightarrow> ow_project f = Some p
     | None \<Rightarrow> text_of l ''ownership_type'' = effectiveOwnership options f \<and> num l ''client_id'' = sent_client options f)"
proof -
  obtain l where l: "l \<in> set (offered options ''task_lists'')" "num l ''id'' = Some i" "list_fits options f l"
    using task_owner.inv_reachable [OF assms(1)] assms(2) by (auto simp: owner_inv_def list_ex_iff availableTaskLists_def)
  from l(3) show ?thesis by (intro bexI [of _ l] conjI l) (simp only: list_fits_def sent_client_def)
qed

definition demo_options :: json where
  "demo_options = JObj
     [(''projects'', JArr [JObj [(''id'', JNum 5), (''ownership_type'', JStr ''client''), (''client_id'', JNum 2)]]),
      (''task_lists'', JArr [JObj [(''id'', JNum 8), (''ownership_type'', JStr ''client''), (''client_id'', JNum 2), (''project_id'', JNum 5)],
         JObj [(''id'', JNum 9), (''ownership_type'', JStr ''client''), (''client_id'', JNum 2), (''project_id'', JNull)]]),
      (''clients'', JArr [JObj [(''id'', JNum 2)]])]"

theorem task_list_fits_owner_witness:
  "\<exists>l \<in> set (offered demo_options ''task_lists''). num l ''id'' = Some 9 \<and> num l ''client_id'' = Some 2"
proof -
  let ?f = "initial_owner demo_options None (Some 2) (Some 9)"
  have "proper_lists demo_options" by code_simp
  then have r: "reachable (owner_init demo_options) (owner_step demo_options) ?f" by (intro reach_init) (auto simp: owner_init_def)
  have "ow_list ?f = Some 9" by code_simp
  from task_list_fits_owner [OF r this] show ?thesis by (auto simp: offered_def demo_options_def json_list_def num_def optional_int_def)
qed

section \<open>The form of a task\<close>

record task_form = net +
  tf_title :: string
  tf_description :: string
  tf_owner :: owner
  tf_status :: "int option"
  tf_priority :: int
  tf_due :: string
  tf_assigned :: "string option"
  tf_recurrence :: string
  tf_options :: "json option"
  tf_loading :: bool
  tf_saving :: bool
  tf_error :: "string option"
  tf_visited :: "string list"

definition task_form_init :: task_form where
  "task_form_init =
     \<lparr>stored_token = None, sent = [], tf_title = [], tf_description = [], tf_owner = empty_owner, tf_status = None, tf_priority = 2,
      tf_due = [], tf_assigned = None, tf_recurrence = ''none'', tf_options = None, tf_loading = True, tf_saving = False,
      tf_error = None, tf_visited = []\<rparr>"

text \<open>\<^verbatim>\<open>Number(value)\<close> if it is a whole positive number.\<close>

definition validQueryId :: "string option \<Rightarrow> int option" where
  "validQueryId v =
     (case v of
        None \<Rightarrow> None
      | Some s \<Rightarrow> if s = [] then None else (case js_Number s of Dec n k \<Rightarrow> if k = 0 \<and> 0 < n then Some n else None | _ \<Rightarrow> None))"

definition todo_status :: "json \<Rightarrow> int option" where
  "todo_status options =
     Option.bind (find (\<lambda>st. toLowerCase (text_of st ''name'') = ''to do'') (offered options ''statuses'')) (\<lambda>st. num st ''id'')"

definition initialCreateState :: "json \<Rightarrow> int option \<Rightarrow> int option \<Rightarrow> int option \<Rightarrow> task_form \<Rightarrow> task_form" where
  "initialCreateState options projectId clientId taskListId s =
     s\<lparr>tf_title := [], tf_description := [], tf_priority := 2, tf_due := [], tf_assigned := None, tf_recurrence := ''none'',
       tf_status := todo_status options, tf_owner := initial_owner options projectId clientId taskListId\<rparr>"

definition task_owner :: "json \<Rightarrow> owner" where
  "task_owner task =
     \<lparr>ow_project = num task ''project_id'', ow_ownership = text_of task ''ownership_type'', ow_client = num task ''client_id'',
      ow_list = num task ''task_list_id''\<rparr>"

definition fill_task :: "json \<Rightarrow> task_form \<Rightarrow> task_form" where
  "fill_task task s =
     s\<lparr>tf_title := text_of task ''title'', tf_description := text_of task ''description'', tf_owner := task_owner task,
       tf_status := num task ''status_id'', tf_priority := nullish (num task ''priority'') 0, tf_due := text_of task ''due_date'',
       tf_assigned := jstr task ''assigned_to_id'', tf_recurrence := text_of task ''recurrence_frequency''\<rparr>"

definition tasks_url :: "admin_world \<Rightarrow> tasks_call \<Rightarrow> string" where
  "tasks_url w c = call_url w (Tasks c)"

definition task_form_load ::
  "admin_world \<Rightarrow> int option \<Rightarrow> int option \<Rightarrow> int option \<Rightarrow> int option \<Rightarrow> (task_form, unit) act" where
  "task_form_load w taskId projectQueryId clientQueryId taskListQueryId =
     finally_act
       (catch_act
         (then_act (set_act (\<lambda>s. s\<lparr>tf_loading := True, tf_error := None\<rparr>))
           (bind_act (both (api_get w (tasks_url w Tasks_options))
               (case truthy_int taskId of None \<Rightarrow> return_act JNull | Some i \<Rightarrow> api_get w (tasks_url w (Tasks_get i))))
             (\<lambda>(options, task). set_act (\<lambda>s.
               (if task = JNull then initialCreateState options projectQueryId clientQueryId taskListQueryId else fill_task task)
                 (s\<lparr>tf_options := Some options\<rparr>)))))
         (\<lambda>e. set_act (\<lambda>s. s\<lparr>tf_error := Some (message_of ''Unable to load task details.'' e)\<rparr>)))
       (\<lambda>s. s\<lparr>tf_loading := False\<rparr>)"

definition id_or_null :: "int option \<Rightarrow> form_value" where
  "id_or_null i = (case i of None \<Rightarrow> V_null | Some n \<Rightarrow> V_num (Dec n 0))"

definition task_payload :: "json \<Rightarrow> task_form \<Rightarrow> payload" where
  "task_payload options s =
     (let f = tf_owner s
      in [(''title'', V_text (tf_title s)), (''description'', V_text (tf_description s)),
          (''ownership_type'', V_text (effectiveOwnership options f)), (''client_id'', id_or_null (sent_client options f)),
          (''project_id'', id_or_null (ow_project f)), (''task_list_id'', id_or_null (ow_list f)), (''status_id'', id_or_null (tf_status s)),
          (''priority'', V_num (Dec (tf_priority s) 0)), (''due_date'', textOrNull (tf_due s)),
          (''assigned_to_id'', case tf_assigned s of None \<Rightarrow> V_null | Some a \<Rightarrow> V_text a),
          (''recurrence_frequency'', V_text (tf_recurrence s))])"

text \<open>There is no form before the options have arrived.\<close>

definition task_form_save :: "admin_world \<Rightarrow> int option \<Rightarrow> (task_form, unit) act" where
  "task_form_save w taskId s =
     (case tf_options s of
        None \<Rightarrow> return_act () s
      | Some options \<Rightarrow>
          then_act (set_act (\<lambda>s. s\<lparr>tf_saving := True, tf_error := None\<rparr>))
            (finally_act
              (catch_act
                (bind_act (api_send w (if truthy_int taskId = None then ''POST'' else ''PUT'')
                    (tasks_url w (case truthy_int taskId of None \<Rightarrow> Tasks_create | Some i \<Rightarrow> Tasks_update i))
                    (TextBody (payload_text (task_payload options s))))
                  (\<lambda>task. bind_act (lift_act (non_null task)) (\<lambda>j.
                    set_act (\<lambda>s. s\<lparr>tf_visited := tf_visited s @ [''/admin/tasks/'' @ as_text (jget j ''id'')]\<rparr>))))
                (\<lambda>e. set_act (\<lambda>s. s\<lparr>tf_error := Some (message_of ''Unable to save the task.'' e)\<rparr>)))
              (\<lambda>s. s\<lparr>tf_saving := False\<rparr>)) s)"

interpretation task_form: submit_handler "task_form_save w taskId" tf_saving
  by (rule submit_handlerI) (auto simp: task_form_save_def return_act_def form_simps split: option.split)

text \<open>The quick form over the list of tasks; \<open>quick_context\<close> is what its last input chose.\<close>

datatype quick_context = Quick_internal | Quick_project int | Quick_client int

record quick_form = net +
  qf_title :: string
  qf_context :: quick_context
  qf_due :: string
  qf_version :: nat
  qf_saving :: bool
  qf_error :: "string option"

definition quick_payload :: "string \<Rightarrow> quick_form \<Rightarrow> payload" where
  "quick_payload userId s =
     [(''title'', trimmed (qf_title s)), (''description'', V_text []),
      (''ownership_type'', V_text (case qf_context s of Quick_client i \<Rightarrow> ''client'' | _ \<Rightarrow> ''internal'')),
      (''project_id'', id_or_null (case qf_context s of Quick_project i \<Rightarrow> Some i | _ \<Rightarrow> None)),
      (''client_id'', id_or_null (case qf_context s of Quick_client i \<Rightarrow> Some i | _ \<Rightarrow> None)),
      (''priority'', V_num (Dec 2 0)), (''due_date'', textOrNull (qf_due s)), (''assigned_to_id'', V_text userId),
      (''recurrence_frequency'', V_text ''none'')]"

definition quick_submit :: "admin_world \<Rightarrow> string option \<Rightarrow> (quick_form, unit) act" where
  "quick_submit w userId s =
     (case userId of
        None \<Rightarrow> return_act () s
      | Some u \<Rightarrow>
          guard_act (trim (qf_title s) \<noteq> [])
            (then_act (set_act (\<lambda>s. s\<lparr>qf_saving := True, qf_error := None\<rparr>))
              (finally_act
                (catch_act
                  (then_act (api_send w ''POST'' (tasks_url w Tasks_create) (TextBody (payload_text (quick_payload u s))))
                    (set_act (\<lambda>s. s\<lparr>qf_title := [], qf_due := [], qf_version := Suc (qf_version s)\<rparr>)))
                  (\<lambda>e. set_act (\<lambda>s. s\<lparr>qf_error := Some (message_of ''Unable to create the task.'' e)\<rparr>)))
                (\<lambda>s. s\<lparr>qf_saving := False\<rparr>))) s)"

interpretation quick_form: submit_handler "quick_submit w userId" qf_saving
  by (rule submit_handlerI) (auto simp: quick_submit_def guard_act_def return_act_def form_simps split: option.split)

section \<open>The editor of the planning\<close>

text \<open>
  The editor in the drawer. \<open>pn_task\<close>, \<open>pn_options\<close> and \<open>pn_form\<close> stay when it is given
  another task. The status and the recurrence are edited next to the owner.
\<close>

record planning = net +
  pn_task :: "json option"
  pn_options :: "json option"
  pn_form :: "(owner \<times> int option \<times> string) option"
  pn_loading :: bool
  pn_saving :: bool
  pn_error :: "string option"
  pn_changed :: nat

definition stateFromTask :: "json \<Rightarrow> owner \<times> int option \<times> string" where
  "stateFromTask task = (task_owner task, num task ''status_id'', text_of task ''recurrence_frequency'')"

text \<open>\<open>cancelled\<close>: the editor was given another task before the answers came.\<close>

definition planning_load :: "admin_world \<Rightarrow> int \<Rightarrow> bool \<Rightarrow> (planning, unit) act" where
  "planning_load w taskId cancelled =
     finally_act
       (catch_act
         (then_act (set_act (\<lambda>s. s\<lparr>pn_loading := True, pn_error := None\<rparr>))
           (bind_act (both (api_get w (tasks_url w (Tasks_get taskId))) (api_get w (tasks_url w Tasks_options)))
             (\<lambda>(task, options). set_act (\<lambda>s. if cancelled then s
               else s\<lparr>pn_task := Some task, pn_options := Some options, pn_form := Some (stateFromTask task)\<rparr>))))
         (\<lambda>e. set_act (\<lambda>s. if cancelled then s
           else s\<lparr>pn_error := Some (message_of ''Unable to load additional task fields.'' e)\<rparr>)))
       (\<lambda>s. if cancelled then s else s\<lparr>pn_loading := False\<rparr>)"

definition raw_value :: "json option \<Rightarrow> form_value" where
  "raw_value v = (case v of Some (JStr s) \<Rightarrow> V_text s | Some (JNum n) \<Rightarrow> V_num (Dec n 0) | Some (JBool b) \<Rightarrow> V_bool b | _ \<Rightarrow> V_null)"

definition planning_payload :: "json \<Rightarrow> json \<Rightarrow> owner \<times> int option \<times> string \<Rightarrow> payload" where
  "planning_payload options latest form =
     (case form of (f, status_id, recurrence) \<Rightarrow>
        [(''title'', raw_value (jget latest ''title'')), (''description'', raw_value (jget latest ''description'')),
         (''project_id'', id_or_null (ow_project f)), (''ownership_type'', V_text (effectiveOwnership options f)),
         (''client_id'', id_or_null (sent_client options f)), (''task_list_id'', id_or_null (ow_list f)),
         (''status_id'', id_or_null status_id), (''priority'', raw_value (jget latest ''priority'')),
         (''start_date'', raw_value (jget latest ''start_date'')), (''due_date'', raw_value (jget latest ''due_date'')),
         (''assigned_to_id'', raw_value (jget latest ''assigned_to_id'')), (''recurrence_frequency'', V_text recurrence)])"

definition editable :: "json \<Rightarrow> bool" where
  "editable task \<longleftrightarrow> truthy (jget task ''can_change'') \<and> \<not> truthy (jget task ''completed_at'')"

definition planning_save :: "admin_world \<Rightarrow> int \<Rightarrow> (planning, unit) act" where
  "planning_save w taskId s =
     (case (pn_task s, pn_form s, pn_options s) of
        (Some task, Some form, Some options) \<Rightarrow>
          guard_act (editable task)
            (then_act (set_act (\<lambda>s. s\<lparr>pn_saving := True, pn_error := None\<rparr>))
              (finally_act
                (catch_act
                  (bind_act (bind_act (api_get w (tasks_url w (Tasks_get taskId))) (\<lambda>j. lift_act (non_null j))) (\<lambda>latest.
                    bind_act (api_send w ''PUT'' (tasks_url w (Tasks_update taskId)) (TextBody (payload_text (planning_payload options latest form))))
                      (\<lambda>updated. bind_act (lift_act (non_null updated)) (\<lambda>u.
                        set_act (\<lambda>s. s\<lparr>pn_task := Some u, pn_form := Some (stateFromTask u), pn_changed := Suc (pn_changed s)\<rparr>)))))
                  (\<lambda>e. set_act (\<lambda>s. s\<lparr>pn_error := Some (message_of ''Unable to save task fields.'' e)\<rparr>)))
                (\<lambda>s. s\<lparr>pn_saving := False\<rparr>))) s
      | _ \<Rightarrow> return_act () s)"

interpretation planning_form: submit_handler "planning_save w taskId" pn_saving
  by (rule submit_handlerI) (auto simp: planning_save_def guard_act_def return_act_def form_simps split: option.split)

text \<open>
  When the editor is given another task and that cannot be loaded, the form of the last one stays,
  and is shown: saving it writes the project, the owner, the list, the status and the recurrence of one task to another.
\<close>

lemma failed_load_keeps_form:
  assumes "isl (snd (api_get w (tasks_url w (Tasks_get other)) (s\<lparr>pn_loading := True, pn_error := None\<rparr>)))"
  shows "pn_form (fst (planning_load w other False s)) = pn_form s \<and> pn_options (fst (planning_load w other False s)) = pn_options s \<and>
    pn_task (fst (planning_load w other False s)) = pn_task s \<and> \<not> pn_loading (fst (planning_load w other False s))"
proof -
  obtain e where "snd (fetchAPI w (tasks_url w (Tasks_get other)) no_options (sent s)) = Inl e"
    using assms by (auto simp: api_get_def io_act_run isl_def)
  then show ?thesis
    by (simp add: planning_load_def api_get_def io_act_run both_def and_then_def act_defs)
qed

section \<open>The drawer\<close>

text \<open>
  Every click in the admin application passes \<^verbatim>\<open>handleClick\<close> first. A link is the path of an
  anchor of the same origin that opens in the same tab; \<open>ck_inside\<close> says that it is in the drawer,
  and \<open>ck_editor\<close> that the editor of the planning is on the page.
\<close>

record click =
  ck_prevented :: bool
  ck_button :: nat
  ck_modified :: bool
  ck_path :: "string option"
  ck_inside :: bool
  ck_editor :: bool

datatype click_result = Follow | Scroll_to_editor | Stay_put | Open_task int

text \<open>\<^verbatim>\<open>/^\/admin\/tasks\/(\d+)\/?$/\<close> and the same with \<^verbatim>\<open>/edit\<close>.\<close>

definition task_path :: "string \<Rightarrow> string \<Rightarrow> int option" where
  "task_path rest path =
     (if startsWith path ''/admin/tasks/''
      then (let s = drop (length ''/admin/tasks/'') path; ds = takeWhile is_digit s; e = dropWhile is_digit s
            in if ds \<noteq> [] \<and> (e = rest \<or> e = rest @ ''/'') then Some (int (digits_val ds)) else None)
      else None)"

definition handleClick :: "int option \<Rightarrow> click \<Rightarrow> click_result" where
  "handleClick taskId e =
     (if ck_prevented e \<or> ck_button e \<noteq> 0 \<or> ck_modified e then Follow
      else (case ck_path e of
          None \<Rightarrow> Follow
        | Some path \<Rightarrow>
            (if task_path ''/edit'' path \<noteq> None \<and> task_path ''/edit'' path = taskId \<and> ck_inside e
             then (if ck_editor e then Scroll_to_editor else Follow)
             else (case task_path [] path of
                 None \<Rightarrow> Follow
               | Some i \<Rightarrow> if Some i = taskId \<and> ck_inside e then Follow else Open_task i))))"

record drawer =
  dw_task :: "int option"
  dw_changed :: bool
  dw_version :: nat

definition drawer_click :: "click \<Rightarrow> drawer \<Rightarrow> drawer" where
  "drawer_click e d = (case handleClick (dw_task d) e of Open_task i \<Rightarrow> d\<lparr>dw_changed := False, dw_task := Some i\<rparr> | _ \<Rightarrow> d)"

definition drawer_changes :: "drawer \<Rightarrow> drawer" where
  "drawer_changes d = d\<lparr>dw_changed := True\<rparr>"

text \<open>A new version mounts the page behind the drawer again, which loads it.\<close>

definition drawer_close :: "drawer \<Rightarrow> drawer" where
  "drawer_close d =
     (if dw_changed d then d\<lparr>dw_task := None, dw_version := Suc (dw_version d), dw_changed := False\<rparr> else d\<lparr>dw_task := None\<rparr>)"

definition plain_click :: "string \<Rightarrow> bool \<Rightarrow> click" where
  "plain_click path inside =
     \<lparr>ck_prevented = False, ck_button = 0, ck_modified = False, ck_path = Some path, ck_inside = inside, ck_editor = False\<rparr>"

text \<open>The address of the page of a task.\<close>

definition task_link :: "nat \<Rightarrow> string" where
  "task_link n = ''/admin/tasks/'' @ int_str (int n)"

lemma digits_taken: "takeWhile is_digit (nat_str n) = nat_str n" "dropWhile is_digit (nat_str n) = []"
  using nat_str_digits by (simp_all add: takeWhile_eq_all_conv dropWhile_eq_Nil_conv)

lemma task_path_of_id: "task_path rest (task_link n) = (if rest = [] then Some (int n) else None)"
  by (simp add: task_path_def task_link_def int_str_def nat_str_nonempty digits_taken)

text \<open>A link to a task opens that task, unless it is the one that is open and the link is in the drawer.\<close>

lemma link_opens_its_task:
  "dw_task d \<noteq> Some (int n) \<Longrightarrow>
   drawer_click (plain_click (task_link n) inside) d = d\<lparr>dw_changed := False, dw_task := Some (int n)\<rparr>"
  by (simp add: drawer_click_def handleClick_def plain_click_def task_path_of_id)

text \<open>
  A change is forgotten when the drawer goes on to another task: it is closed without the
  page behind it being loaded again, which goes on showing the first task as it was.
\<close>

theorem next_task_forgets_change:
  assumes "n \<noteq> m"
  shows "let d = drawer_changes (drawer_click (plain_click (task_link n) False) \<lparr>dw_task = None, dw_changed = False, dw_version = v\<rparr>)
     in dw_version (drawer_close d) = Suc v \<and>
        dw_version (drawer_close (drawer_click (plain_click (task_link m) True) d)) = v"
  using assms by (simp add: link_opens_its_task drawer_changes_def drawer_close_def)

theorem next_task_forgets_change_witness:
  "let d = drawer_changes (drawer_click (plain_click (task_link 3) False) \<lparr>dw_task = None, dw_changed = False, dw_version = 0\<rparr>)
   in dw_version (drawer_close d) = 1 \<and>
      dw_version (drawer_close (drawer_click (plain_click (task_link 4) True) d)) = 0"
  using next_task_forgets_change [of 3 4 0] by simp

section \<open>The page of a task\<close>

record task_page = net +
  ts_task :: "json option"
  ts_options :: "json option"
  ts_title :: string
  ts_description :: string
  ts_loading :: bool
  ts_changing :: bool
  ts_saving :: bool
  ts_error :: "string option"
  ts_changed :: nat

definition syncDraft :: "json \<Rightarrow> task_page \<Rightarrow> task_page" where
  "syncDraft j s = s\<lparr>ts_title := text_of j ''title'', ts_description := text_of j ''description''\<rparr>"

definition task_taken :: "json \<Rightarrow> task_page \<Rightarrow> task_page" where
  "task_taken j s = syncDraft j (s\<lparr>ts_task := Some j\<rparr>)"

definition loadTask :: "admin_world \<Rightarrow> int \<Rightarrow> (task_page, unit) act" where
  "loadTask w taskId =
     finally_act
       (catch_act
         (then_act (set_act (\<lambda>s. s\<lparr>ts_loading := True, ts_error := None\<rparr>))
           (bind_act (bind_act (api_get w (tasks_url w (Tasks_get taskId))) (\<lambda>j. lift_act (non_null j))) (\<lambda>j.
             then_act (set_act (task_taken j))
               (guard_act (truthy (jget j ''can_change''))
                 (catch_act
                   (bind_act (api_get w (tasks_url w Tasks_options)) (\<lambda>options. set_act (\<lambda>s. s\<lparr>ts_options := Some options\<rparr>)))
                   (\<lambda>e. set_act (\<lambda>s. s\<lparr>ts_options := None\<rparr>)))))))
         (\<lambda>e. set_act (\<lambda>s. s\<lparr>ts_error := Some (message_of ''Unable to load task details.'' e)\<rparr>)))
       (\<lambda>s. s\<lparr>ts_loading := False\<rparr>)"

definition task_changed :: "json \<Rightarrow> task_page \<Rightarrow> task_page" where
  "task_changed j s = task_taken j (s\<lparr>ts_changed := Suc (ts_changed s)\<rparr>)"

definition quickUpdate :: "admin_world \<Rightarrow> json \<Rightarrow> (task_page, unit) act" where
  "quickUpdate w body s =
     (case ts_task s of
        None \<Rightarrow> return_act () s
      | Some task \<Rightarrow>
          guard_act (editable task)
            (then_act (set_act (\<lambda>s. s\<lparr>ts_saving := True, ts_error := None\<rparr>))
              (finally_act
                (catch_act
                  (bind_act (bind_act (api_send w ''PATCH'' (aw_api w @ ''/api/admin/tasks/'' @ as_text (jget task ''id'') @ ''/quick-update'') (JsonBody body))
                      (\<lambda>j. lift_act (non_null j)))
                    (\<lambda>j. set_act (task_changed j)))
                  (\<lambda>e. set_act (\<lambda>s. syncDraft task (s\<lparr>ts_error := Some (message_of ''Unable to update the task.'' e)\<rparr>))))
                (\<lambda>s. s\<lparr>ts_saving := False\<rparr>))) s)"

definition title_blur :: "admin_world \<Rightarrow> (task_page, unit) act" where
  "title_blur w s =
     (case ts_task s of
        None \<Rightarrow> return_act () s
      | Some task \<Rightarrow>
          guard_act (trim (ts_title s) \<noteq> [] \<and> trim (ts_title s) \<noteq> text_of task ''title'')
            (quickUpdate w (JObj [(''title'', JStr (trim (ts_title s)))])) s)"

definition description_blur :: "admin_world \<Rightarrow> (task_page, unit) act" where
  "description_blur w s =
     (case ts_task s of
        None \<Rightarrow> return_act () s
      | Some task \<Rightarrow>
          guard_act (ts_description s \<noteq> text_of task ''description'')
            (quickUpdate w (JObj [(''description'', JStr (ts_description s))])) s)"

definition changeCompletion :: "admin_world \<Rightarrow> int \<Rightarrow> bool \<Rightarrow> (task_page, unit) act" where
  "changeCompletion w taskId completing =
     then_act (set_act (\<lambda>s. s\<lparr>ts_changing := True, ts_error := None\<rparr>))
       (finally_act
         (catch_act
           (bind_act (bind_act (api_send w ''POST'' (tasks_url w (if completing then Tasks_complete taskId else Tasks_reopen taskId)) NoBody)
               (\<lambda>j. lift_act (non_null j)))
             (\<lambda>j. set_act (task_changed j)))
           (\<lambda>e. set_act (\<lambda>s. s\<lparr>ts_error := Some (message_of ''Unable to update the task.'' e)\<rparr>)))
         (\<lambda>s. s\<lparr>ts_changing := False\<rparr>))"

interpretation quick_update: submit_handler "quickUpdate w body" ts_saving
  by (rule submit_handlerI)
    (auto simp: quickUpdate_def guard_act_def return_act_def form_simps syncDraft_def split: option.split)

interpretation completion_form: submit_handler "changeCompletion w taskId completing" ts_changing
  by (rule submit_handlerI) (auto simp: changeCompletion_def form_simps)

text \<open>
  The drawer gives the page another task without mounting it anew. Loads are not cancelled; the task
  on the screen is the one that arrived last, or the last that could be loaded, while a completion is sent
  for the task the page was given.
\<close>

record task_view =
  tv_id :: int
  tv_task :: "int option"
  tv_runs :: "int list"
  tv_loading :: bool

text \<open>\<open>ordered\<close>: answers come in the order of the loads; \<open>reliable\<close>: no load fails.\<close>

inductive view_step :: "bool \<Rightarrow> bool \<Rightarrow> task_view \<Rightarrow> task_view \<Rightarrow> bool" for ordered :: bool and reliable :: bool where
  view_given: "view_step ordered reliable s (s\<lparr>tv_id := i, tv_runs := tv_runs s @ [i], tv_loading := True\<rparr>)"
| view_arrives: "k < length (tv_runs s) \<Longrightarrow> ordered \<longrightarrow> k = 0 \<Longrightarrow>
    view_step ordered reliable s
      (s\<lparr>tv_task := Some (tv_runs s ! k), tv_runs := take k (tv_runs s) @ drop (Suc k) (tv_runs s), tv_loading := False\<rparr>)"
| view_fails: "k < length (tv_runs s) \<Longrightarrow> ordered \<longrightarrow> k = 0 \<Longrightarrow> \<not> reliable \<Longrightarrow>
    view_step ordered reliable s (s\<lparr>tv_runs := take k (tv_runs s) @ drop (Suc k) (tv_runs s), tv_loading := False\<rparr>)"

definition view_init :: "int \<Rightarrow> task_view" where
  "view_init i = \<lparr>tv_id = i, tv_task = None, tv_runs = [i], tv_loading = True\<rparr>"

text \<open>What is on the screen, and the task that its button completes is \<open>tv_id\<close>.\<close>

definition shown_task :: "task_view \<Rightarrow> int option" where
  "shown_task s = (if tv_loading s then None else tv_task s)"

definition view_inv :: "task_view \<Rightarrow> bool" where
  "view_inv s \<longleftrightarrow> (if tv_runs s = [] then \<not> tv_loading s \<and> tv_task s = Some (tv_id s) else last (tv_runs s) = tv_id s)"

interpretation task_view: safe_machine "\<lambda>s. \<exists>i. s = view_init i" "view_step True True" view_inv
proof unfold_locales
  show "view_inv s" if "\<exists>i. s = view_init i" for s using that by (auto simp: view_inv_def view_init_def)
  show "view_inv t" if inv: "view_inv s" and step: "view_step True True s t" for s t
    using step
  proof cases
    case (view_arrives k)
    then obtain x xs where "tv_runs s = x # xs" by (cases "tv_runs s") auto
    then show ?thesis using inv view_arrives by (auto simp: view_inv_def)
  qed (use inv in \<open>auto simp: view_inv_def\<close>)
qed

text \<open>
  While answers come in order and no load fails, the page of a task at rest shows the task it was given.
\<close>

lemma orderly_view_settles:
  "reachable (\<lambda>s. \<exists>i. s = view_init i) (view_step True True) s \<Longrightarrow> tv_runs s = [] \<Longrightarrow> shown_task s = Some (tv_id s)"
  using task_view.inv_reachable [of s] by (simp add: view_inv_def shown_task_def)

text \<open>
  C22: going on to another task in the drawer can leave the first on the screen with the second
  given: if the answers come in the other order, and also if the second cannot be loaded. The button that
  marks the task on the screen as complete then completes the other one.
\<close>

theorem other_task_is_completed:
  "(\<exists>s. reachable (\<lambda>s. s = view_init i) (view_step False True) s \<and> tv_runs s = [] \<and> shown_task s = Some i \<and> tv_id s = j) \<and>
   (\<exists>s. reachable (\<lambda>s. s = view_init i) (view_step True False) s \<and> tv_runs s = [] \<and> shown_task s = Some i \<and> tv_id s = j)"
proof
  let ?t = "\<lambda>given shown runs loads. \<lparr>tv_id = given, tv_task = shown, tv_runs = runs, tv_loading = loads\<rparr>"
  let ?last = "?t j (Some i) [] False"
  have rest: "tv_runs ?last = [] \<and> shown_task ?last = Some i \<and> tv_id ?last = j" by (simp add: shown_task_def)
  have steps: "view_step False True (view_init i) (?t j None [i, j] True)" "view_step False True (?t j None [i, j] True) (?t j (Some j) [i] False)"
    "view_step False True (?t j (Some j) [i] False) ?last"
    using view_given [of False True "view_init i" j] view_arrives [of 1 "?t j None [i, j] True" False True]
      view_arrives [of 0 "?t j (Some j) [i] False" False True]
    by (simp_all add: view_init_def)
  have "reachable (\<lambda>s. s = view_init i) (view_step False True) ?last"
    by (rule run_reachable [where ts = "[?t j None [i, j] True, ?t j (Some j) [i] False, ?last]" and s = "view_init i"])
      (simp_all add: steps reach_init)
  with rest show "\<exists>s. reachable (\<lambda>s. s = view_init i) (view_step False True) s \<and> tv_runs s = [] \<and> shown_task s = Some i \<and> tv_id s = j"
    by blast
  have steps: "view_step True False (view_init i) (?t i (Some i) [] False)" "view_step True False (?t i (Some i) [] False) (?t j (Some i) [j] True)"
    "view_step True False (?t j (Some i) [j] True) ?last"
    using view_arrives [of 0 "view_init i" True False] view_given [of True False "?t i (Some i) [] False" j]
      view_fails [of 0 "?t j (Some i) [j] True" True False]
    by (simp_all add: view_init_def)
  have "reachable (\<lambda>s. s = view_init i) (view_step True False) ?last"
    by (rule run_reachable [where ts = "[?t i (Some i) [] False, ?t j (Some i) [j] True, ?last]" and s = "view_init i"])
      (simp_all add: steps reach_init)
  with rest show "\<exists>s. reachable (\<lambda>s. s = view_init i) (view_step True False) s \<and> tv_runs s = [] \<and> shown_task s = Some i \<and> tv_id s = j"
    by blast
qed

section \<open>Relations, comments and time\<close>

record relations = net +
  re_relations :: "json option"
  re_available :: "json list"
  re_title :: string
  re_blocking :: "int option"
  re_completing :: "int option"
  re_saving :: bool
  re_loading :: bool
  re_error :: "string option"
  re_changed :: nat

definition relations_load :: "admin_world \<Rightarrow> int \<Rightarrow> (relations, unit) act" where
  "relations_load w taskId =
     finally_act
       (catch_act
         (then_act (set_act (\<lambda>s. s\<lparr>re_loading := True, re_error := None\<rparr>))
           (bind_act (both (api_get w (tasks_url w (Tasks_relations taskId))) (api_get w (tasks_url w (Tasks_list ''page_size=100&completed=false''))))
             (\<lambda>(rel, page). set_act (\<lambda>s. s\<lparr>re_relations := Some rel, re_available := json_list (jget page ''items'')\<rparr>))))
         (\<lambda>e. set_act (\<lambda>s. s\<lparr>re_error := Some (message_of ''Unable to load task relationships.'' e)\<rparr>)))
       (\<lambda>s. s\<lparr>re_loading := False\<rparr>)"

definition dependencyOptions :: "int \<Rightarrow> relations \<Rightarrow> json list" where
  "dependencyOptions taskId s =
     (let existing = (case re_relations s of None \<Rightarrow> [] | Some r \<Rightarrow> map (\<lambda>t. num t ''id'') (offered r ''blocked_by''))
      in filter (\<lambda>t. num t ''id'' \<noteq> Some taskId \<and> num t ''id'' \<notin> set existing) (re_available s))"

text \<open>What the actions share: the change, then the relations are loaded again.\<close>

definition relation_change ::
  "admin_world \<Rightarrow> int \<Rightarrow> string \<Rightarrow> (relations, json) act \<Rightarrow> (relations \<Rightarrow> relations) \<Rightarrow> (relations, unit) act" where
  "relation_change w taskId fallback call cleared =
     catch_act
       (then_act call
         (then_act (set_act cleared)
           (then_act (relations_load w taskId) (set_act (\<lambda>s. s\<lparr>re_changed := Suc (re_changed s)\<rparr>)))))
       (\<lambda>e. set_act (\<lambda>s. s\<lparr>re_error := Some (message_of fallback e)\<rparr>))"

definition completeSubtask :: "admin_world \<Rightarrow> int \<Rightarrow> int \<Rightarrow> (relations, unit) act" where
  "completeSubtask w taskId subtaskId =
     then_act (set_act (\<lambda>s. s\<lparr>re_completing := Some subtaskId, re_error := None\<rparr>))
       (finally_act
         (relation_change w taskId ''Unable to complete subtask.'' (api_send w ''POST'' (tasks_url w (Tasks_complete subtaskId)) NoBody) id)
         (\<lambda>s. s\<lparr>re_completing := None\<rparr>))"

definition relation_save ::
  "admin_world \<Rightarrow> int \<Rightarrow> string \<Rightarrow> (relations, json) act \<Rightarrow> (relations \<Rightarrow> relations) \<Rightarrow> (relations, unit) act" where
  "relation_save w taskId fallback call cleared =
     then_act (set_act (\<lambda>s. s\<lparr>re_saving := True\<rparr>))
       (finally_act (relation_change w taskId fallback call cleared) (\<lambda>s. s\<lparr>re_saving := False\<rparr>))"

definition addSubtask :: "admin_world \<Rightarrow> int \<Rightarrow> (relations, unit) act" where
  "addSubtask w taskId s =
     guard_act (trim (re_title s) \<noteq> [])
       (relation_save w taskId ''Unable to add subtask.''
         (api_send w ''POST'' (tasks_url w (Tasks_subtasks taskId)) (JsonBody (JObj [(''title'', JStr (trim (re_title s)))])))
         (\<lambda>s. s\<lparr>re_title := []\<rparr>)) s"

definition addDependency :: "admin_world \<Rightarrow> int \<Rightarrow> (relations, unit) act" where
  "addDependency w taskId s =
     (case truthy_int (re_blocking s) of
        None \<Rightarrow> return_act () s
      | Some i \<Rightarrow>
          relation_save w taskId ''Unable to add dependency.''
            (api_send w ''POST'' (tasks_url w (Tasks_dependencies taskId)) (JsonBody (JObj [(''blocking_task_id'', JNum i)])))
            (\<lambda>s. s\<lparr>re_blocking := None\<rparr>) s)"

definition removeDependency :: "admin_world \<Rightarrow> int \<Rightarrow> int \<Rightarrow> (relations, unit) act" where
  "removeDependency w taskId blockerId =
     relation_save w taskId ''Unable to remove dependency.''
       (api_send w ''DELETE'' (tasks_url w (Tasks_removeDependency taskId blockerId)) NoBody) id"

interpretation subtask_form: submit_handler "addSubtask w taskId" re_saving
  by (rule submit_handlerI)
    (auto simp: addSubtask_def relation_save_def relation_change_def guard_act_def return_act_def form_simps)

interpretation dependency_form: submit_handler "addDependency w taskId" re_saving
  by (rule submit_handlerI)
    (auto simp: addDependency_def relation_save_def relation_change_def return_act_def form_simps split: option.split)

interpretation removal_form: submit_handler "removeDependency w taskId i" re_saving
  by (rule submit_handlerI) (auto simp: removeDependency_def relation_save_def relation_change_def form_simps)

text \<open>A task is never offered as its own blocker, nor one that blocks it already.\<close>

lemma dependency_options_are_new:
  "t \<in> set (dependencyOptions taskId s) \<Longrightarrow>
   num t ''id'' \<noteq> Some taskId \<and> (\<forall>r b. re_relations s = Some r \<longrightarrow> b \<in> set (offered r ''blocked_by'') \<longrightarrow> num b ''id'' \<noteq> num t ''id'')"
  by (cases "re_relations s") (auto simp: dependencyOptions_def Let_def image_iff)

record discussion = net +
  di_comments :: "json list"
  di_body :: string
  di_loading :: bool
  di_saving :: bool
  di_error :: "string option"
  di_changed :: nat

definition comments_url :: "admin_world \<Rightarrow> int \<Rightarrow> string" where
  "comments_url w taskId = aw_api w @ ''/api/admin/task-comments/tasks/'' @ int_str taskId"

definition discussion_load :: "admin_world \<Rightarrow> int \<Rightarrow> (discussion, unit) act" where
  "discussion_load w taskId =
     finally_act
       (catch_act
         (then_act (set_act (\<lambda>s. s\<lparr>di_loading := True, di_error := None\<rparr>))
           (bind_act (api_get w (comments_url w taskId)) (\<lambda>j. set_act (\<lambda>s. s\<lparr>di_comments := json_list (Some j)\<rparr>))))
         (\<lambda>e. set_act (\<lambda>s. s\<lparr>di_error := Some (message_of ''Unable to load task discussion.'' e)\<rparr>)))
       (\<lambda>s. s\<lparr>di_loading := False\<rparr>)"

definition discussion_submit :: "admin_world \<Rightarrow> int \<Rightarrow> (discussion, unit) act" where
  "discussion_submit w taskId s =
     guard_act (trim (di_body s) \<noteq> [])
       (then_act (set_act (\<lambda>s. s\<lparr>di_saving := True, di_error := None\<rparr>))
         (finally_act
           (catch_act
             (bind_act (api_send w ''POST'' (comments_url w taskId) (JsonBody (JObj [(''body'', JStr (trim (di_body s)))])))
               (\<lambda>j. set_act (\<lambda>s. s\<lparr>di_comments := di_comments s @ [j], di_body := [], di_changed := Suc (di_changed s)\<rparr>)))
             (\<lambda>e. set_act (\<lambda>s. s\<lparr>di_error := Some (message_of ''Unable to add comment.'' e)\<rparr>)))
           (\<lambda>s. s\<lparr>di_saving := False\<rparr>))) s"

interpretation discussion_form: submit_handler "discussion_submit w taskId" di_saving
  by (rule submit_handlerI) (auto simp: discussion_submit_def guard_act_def return_act_def form_simps)

text \<open>The timer of a task is the one of a ticket with a call of its own.\<close>

definition task_timer_start :: "admin_world \<Rightarrow> bool \<Rightarrow> int \<Rightarrow> (ticket_timer, unit) act" where
  "task_timer_start w canViewTime taskId =
     timer_save w canViewTime ''Unable to start the timer.''
       (bind_act
         (api_send w ''POST'' (call_url w (TimeEntries Timer_start))
           (JsonBody (JObj [(''ownership_type'', JStr ''internal''), (''task_id'', JNum taskId), (''billable'', JBool True), (''description'', JStr [])])))
         (\<lambda>j. set_act (\<lambda>s. s\<lparr>tt_timer := json_value j, tt_changed := Suc (tt_changed s)\<rparr>)))"

definition task_timer_load :: "admin_world \<Rightarrow> bool \<Rightarrow> (ticket_timer, unit) act" where
  "task_timer_load w canViewTime = timer_load w canViewTime"

definition task_timer_stop :: "admin_world \<Rightarrow> bool \<Rightarrow> (ticket_timer, unit) act" where
  "task_timer_stop w canViewTime = timer_stop w canViewTime"

definition runningForTask :: "int \<Rightarrow> ticket_timer \<Rightarrow> bool" where
  "runningForTask taskId s = (case tt_timer s of None \<Rightarrow> False | Some t \<Rightarrow> num t ''task_id'' = Some taskId)"

definition timerContext :: "json \<Rightarrow> string" where
  "timerContext t =
     (if text_of t ''task_title'' \<noteq> [] then text_of t ''task_title''
      else if text_of t ''ticket_reference'' \<noteq> [] then
        text_of t ''ticket_reference'' @ (if text_of t ''ticket_subject'' \<noteq> [] then [CHR '' '', CHR 0xB7, CHR '' ''] @ text_of t ''ticket_subject'' else [])
      else if text_of t ''project_name'' \<noteq> [] then text_of t ''project_name''
      else if text_of t ''client_name'' \<noteq> [] then text_of t ''client_name''
      else if text_of t ''description'' \<noteq> [] then text_of t ''description''
      else ''Internal work'')"

interpretation task_timer: submit_handler "task_timer_start w canViewTime taskId" tt_saving
  by (rule submit_handlerI)
    (auto simp: task_timer_start_def timer_save_def form_simps timer_load_no_throw intro!: catch_isl)

text \<open>The round button that completes or reopens a task; \<open>changed\<close> is \<^verbatim>\<open>onChanged\<close> of its page.\<close>

record toggle_button = net +
  tg_saving :: bool
  tg_messages :: "string list"

definition toggle_completion ::
  "admin_world \<Rightarrow> int \<Rightarrow> bool \<Rightarrow> bool \<Rightarrow> (toggle_button, unit) act \<Rightarrow> (toggle_button, unit) act" where
  "toggle_completion w taskId completed canChange changed s =
     guard_act (canChange \<and> \<not> tg_saving s)
       (then_act (set_act (\<lambda>s. s\<lparr>tg_saving := True\<rparr>))
         (finally_act
           (catch_act
             (then_act (api_send w ''POST'' (tasks_url w (if completed then Tasks_reopen taskId else Tasks_complete taskId)) NoBody) changed)
             (\<lambda>e. set_act (\<lambda>s. s\<lparr>tg_messages := tg_messages s @ [message_of ''Unable to update task completion.'' e]\<rparr>)))
           (\<lambda>s. s\<lparr>tg_saving := False\<rparr>))) s"

interpretation toggle_button: submit_handler "toggle_completion w taskId completed canChange changed" tg_saving
  by (rule submit_handlerI) (auto simp: toggle_completion_def guard_act_def return_act_def form_simps)

end
