(* ===== verification/Analytics_Settings.thy ===== *)
theory Analytics_Settings
  imports Analytics_Reports Admin_Knowledge
begin

text \<open>
  The settings of the analytics application: connecting Google and choosing websites
  (\<^verbatim>\<open>app/onboarding.tsx\<close>), Google accounts, websites, tracking and workspaces
  (\<^verbatim>\<open>components/settings\<close>) and which of them the page of the settings shows
  (\<^verbatim>\<open>components/experience/SettingsPage.tsx\<close>).
\<close>

definition an_call :: "analytics_world \<Rightarrow> string \<Rightarrow> string \<Rightarrow> json option \<Rightarrow> ('b net_scheme, json) act" where
  "an_call w path m body = io_act (an_api w path m body)"

section \<open>Choosing websites\<close>

text \<open>A website that was found: its domain and the ids of its properties.\<close>

record found_site =
  fs_domain :: string
  fs_ga4 :: "string list"
  fs_gsc :: "string list"

record selection =
  sl_domain :: string
  sl_ga4 :: "string option"
  sl_gsc :: "string option"

definition property_ids :: "json \<Rightarrow> string \<Rightarrow> string list" where
  "property_ids j k = map (\<lambda>p. nullish (jstr p ''id'') []) (json_list (jget j k))"

definition found_site_of :: "json \<Rightarrow> found_site" where
  "found_site_of j = \<lparr>fs_domain = nullish (jstr j ''domain'') [], fs_ga4 = property_ids j ''ga4'', fs_gsc = property_ids j ''gsc''\<rparr>"

text \<open>\<open>ob_inventory\<close> is kept with the connection it was found with.\<close>

record onboarding = net +
  ob_connections :: "json list"
  ob_connection :: int
  ob_inventory :: "(int \<times> found_site list) option"
  ob_selected :: "(string \<times> selection) list"
  ob_busy :: bool
  ob_loading :: bool
  ob_error :: string
  ob_visited :: "string list"
  ob_completed :: nat

definition onboarding_init :: "bool \<Rightarrow> onboarding" where
  "onboarding_init business =
     \<lparr>stored_token = None, sent = [], ob_connections = [], ob_connection = 0, ob_inventory = None, ob_selected = [], ob_busy = False,
      ob_loading = business, ob_error = [], ob_visited = [], ob_completed = 0\<rparr>"

definition begin_discover :: "int \<Rightarrow> onboarding \<Rightarrow> onboarding" where
  "begin_discover i s = s\<lparr>ob_busy := True, ob_error := [], ob_inventory := None, ob_selected := [], ob_connection := i\<rparr>"

definition discovered :: "int \<Rightarrow> found_site list \<Rightarrow> onboarding \<Rightarrow> onboarding" where
  "discovered i sites s = s\<lparr>ob_inventory := Some (i, sites)\<rparr>"

definition discover :: "analytics_world \<Rightarrow> int \<Rightarrow> bool \<Rightarrow> (onboarding, unit) act" where
  "discover w i again =
     then_act (set_act (begin_discover i))
       (finally_act
         (catch_act
           (bind_act (an_call w (''/connections/'' @ int_str i @ ''/websites'' @ (if again then ''?refresh=true'' else [])) ''GET'' None) (\<lambda>j.
             set_act (discovered i (map found_site_of (json_list (jget j ''websites''))))))
           (\<lambda>e. set_act (\<lambda>s. s\<lparr>ob_error := message_of ''Could not find your websites. Try again.'' e\<rparr>)))
         (\<lambda>s. s\<lparr>ob_busy := False\<rparr>))"

text \<open>The account that is discovered first: the one in the address or the last.\<close>

definition first_account :: "json list \<Rightarrow> int \<Rightarrow> json option" where
  "first_account usable requested =
     (case find_id usable requested of Some a \<Rightarrow> Some a | None \<Rightarrow> if usable = [] then None else Some (last usable))"

text \<open>The effect that loads the accounts; \<open>active n\<close> is its flag when it is read the \<open>n\<close>-th time.\<close>

definition onboarding_load ::
  "analytics_world \<Rightarrow> int option \<Rightarrow> int \<Rightarrow> (nat \<Rightarrow> bool) \<Rightarrow> (onboarding, unit) act" where
  "onboarding_load w business requested active =
     (case business of
        None \<Rightarrow> return_act ()
      | Some b \<Rightarrow>
          then_act (set_act (\<lambda>s. s\<lparr>ob_loading := True\<rparr>))
            (finally_act
              (catch_act
                (bind_act (an_call w (''/businesses/'' @ int_str b @ ''/connections'') ''GET'' None) (\<lambda>j.
                  guard_act (active 0)
                    (let usable = filter (\<lambda>a. jstr a ''status'' = Some ''connected'') (json_list (Some j))
                     in then_act (set_act (\<lambda>s. s\<lparr>ob_connections := usable\<rparr>))
                       (case first_account usable requested of
                          None \<Rightarrow> return_act ()
                        | Some a \<Rightarrow> discover w (nullish (optional_int (jget a ''id'')) 0) False))))
                (\<lambda>e. when_act (active 1) (\<lambda>s. s\<lparr>ob_error := message_of ''Could not load Google accounts.'' e\<rparr>)))
              (\<lambda>s. if active 2 then s\<lparr>ob_loading := False\<rparr> else s)))"

definition onboarding_connect :: "analytics_world \<Rightarrow> int option \<Rightarrow> (onboarding, unit) act" where
  "onboarding_connect w business =
     then_act (set_act (\<lambda>s. s\<lparr>ob_busy := True, ob_error := []\<rparr>))
       (catch_act
         (bind_act
           (case business of
              Some b \<Rightarrow> return_act (int_str b)
            | None \<Rightarrow> bind_act (an_call w ''/onboarding'' ''POST'' None) (\<lambda>j.
                bind_act (lift_act (non_null j)) (\<lambda>v. return_act (header_text (jget v ''business_id'')))))
           (\<lambda>b. bind_act (an_call w (''/businesses/'' @ b @ ''/oauth'') ''POST'' (Some (JObj [(''mode'', JStr ''administration'')]))) (\<lambda>j.
             bind_act (lift_act (non_null j)) (\<lambda>v. set_act (\<lambda>s. s\<lparr>ob_visited := ob_visited s @ [header_text (jget v ''url'')]\<rparr>)))))
         (\<lambda>e. set_act (\<lambda>s. s\<lparr>ob_error := message_of ''Could not connect Google.'' e, ob_busy := False\<rparr>)))"

text \<open>The inputs of a website.\<close>

definition check_site :: "found_site \<Rightarrow> bool \<Rightarrow> onboarding \<Rightarrow> onboarding" where
  "check_site site checked s =
     s\<lparr>ob_selected :=
       (if checked
        then alist_put (fs_domain site)
          \<lparr>sl_domain = fs_domain site, sl_ga4 = (case fs_ga4 site of [p] \<Rightarrow> Some p | _ \<Rightarrow> None),
           sl_gsc = (case fs_gsc site of [] \<Rightarrow> None | p # ps \<Rightarrow> Some p)\<rparr> (ob_selected s)
        else filter (\<lambda>(d, x). d \<noteq> fs_domain site) (ob_selected s))\<rparr>"

definition choose_ga4 :: "found_site \<Rightarrow> string \<Rightarrow> onboarding \<Rightarrow> onboarding" where
  "choose_ga4 site p s =
     s\<lparr>ob_selected := map (\<lambda>(d, x). (d, if d = fs_domain site then x\<lparr>sl_ga4 := Some p\<rparr> else x)) (ob_selected s)\<rparr>"

definition choose_gsc :: "found_site \<Rightarrow> string \<Rightarrow> onboarding \<Rightarrow> onboarding" where
  "choose_gsc site p s =
     s\<lparr>ob_selected := map (\<lambda>(d, x). (d, if d = fs_domain site then x\<lparr>sl_gsc := Some p\<rparr> else x)) (ob_selected s)\<rparr>"

definition selection_json :: "selection \<Rightarrow> json" where
  "selection_json x =
     (let text = (\<lambda>v. case v of None \<Rightarrow> JNull | Some t \<Rightarrow> JStr t)
      in JObj [(''domain'', JStr (sl_domain x)), (''ga4'', text (sl_ga4 x)), (''gsc'', text (sl_gsc x))])"

text \<open>When the button that adds the websites can be pressed.\<close>

definition lacks_property :: "found_site list \<Rightarrow> selection \<Rightarrow> bool" where
  "lacks_property sites x \<longleftrightarrow>
     (case find (\<lambda>site. fs_domain site = sl_domain x) sites of None \<Rightarrow> False | Some site \<Rightarrow> fs_ga4 site \<noteq> []) \<and>
     (sl_ga4 x = None \<or> sl_ga4 x = Some [])"

definition can_add :: "onboarding \<Rightarrow> bool" where
  "can_add s \<longleftrightarrow>
     (case ob_inventory s of
        None \<Rightarrow> False
      | Some (c, sites) \<Rightarrow> sites \<noteq> [] \<and> \<not> ob_busy s \<and> ob_selected s \<noteq> [] \<and>
          \<not> list_ex (\<lambda>(d, x). lacks_property sites x) (ob_selected s))"

definition addWebsites :: "analytics_world \<Rightarrow> (onboarding, unit) act \<Rightarrow> (onboarding, unit) act" where
  "addWebsites w onComplete s =
     then_act (set_act (\<lambda>s. s\<lparr>ob_busy := True, ob_error := []\<rparr>))
       (finally_act
         (catch_act
           (bind_act
             (bind_act (an_call w (''/connections/'' @ int_str (ob_connection s) @ ''/websites'') ''POST''
                 (Some (JObj [(''websites'', JArr (map (\<lambda>(d, x). selection_json x) (ob_selected s)))])))
               (\<lambda>j. lift_act (non_null j)))
             (\<lambda>v. then_act
               (case json_list (jget v ''websites'') of
                  [] \<Rightarrow> return_act ()
                | site # rest \<Rightarrow>
                    bind_act (an_call w ''/preferences'' ''PUT'' (Some (object_of [(''website_id'', jget site ''id'')]))) (\<lambda>_. return_act ()))
               (then_act onComplete
                 (set_act (\<lambda>s. s\<lparr>ob_visited := ob_visited s @ [''/dashboard''], ob_completed := Suc (ob_completed s)\<rparr>)))))
           (\<lambda>e. set_act (\<lambda>s. s\<lparr>ob_error := message_of ''Could not add your websites.'' e\<rparr>)))
         (\<lambda>s. s\<lparr>ob_busy := False\<rparr>)) s"

interpretation add_websites: submit_handler "addWebsites w onComplete" ob_busy
  by (rule submit_handlerI) (auto simp: addWebsites_def form_simps)

interpretation discover_form: submit_handler "discover w i again" ob_busy
  by (rule submit_handlerI) (auto simp: discover_def form_simps)

text \<open>
  The choices on the page of one business: the effect that loads the accounts runs once, and the inputs
  are disabled while something is under way, so that discoveries do not overlap. The server lists each
  domain once.
\<close>

inductive onboarding_step :: "onboarding \<Rightarrow> onboarding \<Rightarrow> bool" where
  discovery_begins: "\<not> ob_busy s \<Longrightarrow> onboarding_step s (begin_discover i s)"
| discovery_ends: "ob_busy s \<Longrightarrow> distinct (map fs_domain sites) \<Longrightarrow>
    onboarding_step s (discovered (ob_connection s) sites s\<lparr>ob_busy := False\<rparr>)"
| discovery_fails: "ob_busy s \<Longrightarrow> onboarding_step s (s\<lparr>ob_error := message, ob_busy := False\<rparr>)"
| site_checked: "ob_inventory s = Some (c, sites) \<Longrightarrow> site \<in> set sites \<Longrightarrow> \<not> ob_busy s \<Longrightarrow>
    map_of (ob_selected s) (fs_domain site) \<noteq> None \<or> length (ob_selected s) < 25 \<Longrightarrow>
    onboarding_step s (check_site site checked s)"
| ga4_chosen: "ob_inventory s = Some (c, sites) \<Longrightarrow> site \<in> set sites \<Longrightarrow> \<not> ob_busy s \<Longrightarrow> p = [] \<or> p \<in> set (fs_ga4 site) \<Longrightarrow>
    onboarding_step s (choose_ga4 site p s)"
| gsc_chosen: "ob_inventory s = Some (c, sites) \<Longrightarrow> site \<in> set sites \<Longrightarrow> \<not> ob_busy s \<Longrightarrow> p \<in> set (fs_gsc site) \<Longrightarrow>
    onboarding_step s (choose_gsc site p s)"

text \<open>A selection is for one of the websites and names properties of it.\<close>

definition selection_of :: "found_site list \<Rightarrow> string \<Rightarrow> selection \<Rightarrow> bool" where
  "selection_of sites d x \<longleftrightarrow>
     sl_domain x = d \<and>
     (\<exists>site \<in> set sites. fs_domain site = d \<and> (\<forall>p. sl_ga4 x = Some p \<longrightarrow> p = [] \<or> p \<in> set (fs_ga4 site)) \<and>
        (\<forall>p. sl_gsc x = Some p \<longrightarrow> p \<in> set (fs_gsc site)))"

definition onboarding_inv :: "onboarding \<Rightarrow> bool" where
  "onboarding_inv s \<longleftrightarrow>
     distinct (map fst (ob_selected s)) \<and> length (ob_selected s) \<le> 25 \<and>
     (case ob_inventory s of
        None \<Rightarrow> ob_selected s = []
      | Some (c, sites) \<Rightarrow> c = ob_connection s \<and> distinct (map fs_domain sites) \<and> \<not> ob_busy s \<and>
          list_all (\<lambda>(d, x). selection_of sites d x) (ob_selected s))"

lemma put_length: "length (alist_put k v xs) = (if k \<in> fst ` set xs then length xs else Suc (length xs))"
  by (induction k v xs rule: alist_put.induct) auto

lemma put_all: "list_all P xs \<Longrightarrow> P (k, v) \<Longrightarrow> list_all P (alist_put k v xs)"
  by (induction k v xs rule: alist_put.induct) auto

lemma site_of_domain:
  "distinct (map fs_domain sites) \<Longrightarrow> site \<in> set sites \<Longrightarrow> site' \<in> set sites \<Longrightarrow> fs_domain site = fs_domain site' \<Longrightarrow> site = site'"
  by (auto simp: distinct_map inj_on_def)

lemma found_by_domain:
  "distinct (map fs_domain sites) \<Longrightarrow> site \<in> set sites \<Longrightarrow> find (\<lambda>y. fs_domain y = fs_domain site) sites = Some site"
  by (induction sites) auto

lemma checked_selection:
  "site \<in> set sites \<Longrightarrow>
   selection_of sites (fs_domain site)
     \<lparr>sl_domain = fs_domain site, sl_ga4 = (case fs_ga4 site of [p] \<Rightarrow> Some p | _ \<Rightarrow> None),
      sl_gsc = (case fs_gsc site of [] \<Rightarrow> None | p # ps \<Rightarrow> Some p)\<rparr>"
  unfolding selection_of_def by (intro conjI bexI [of _ site]) (auto split: list.splits)

lemma check_site_inv:
  assumes inv: "onboarding_inv s" and found: "ob_inventory s = Some (c, sites)" "site \<in> set sites"
    and room: "map_of (ob_selected s) (fs_domain site) \<noteq> None \<or> length (ob_selected s) < 25"
  shows "onboarding_inv (check_site site checked s)"
proof (cases checked)
  case True
  have "length (alist_put (fs_domain site) v (ob_selected s)) \<le> 25" for v
    using inv room by (auto simp: onboarding_inv_def put_length map_of_eq_None_iff)
  then show ?thesis
    using inv found True checked_selection [OF found(2)]
    by (simp add: onboarding_inv_def check_site_def distinct_alist_put put_all)
next
  case False
  have "distinct (map fst (filter P (ob_selected s)))" "length (filter P (ob_selected s)) \<le> 25" for P
    using inv by (auto simp: onboarding_inv_def distinct_map_filter intro: order.trans [OF length_filter_le])
  then show ?thesis using inv found False by (auto simp: onboarding_inv_def check_site_def list_all_iff)
qed

lemma choose_inv:
  assumes inv: "onboarding_inv s" and found: "ob_inventory s = Some (c, sites)"
    and kept: "\<And>d x. selection_of sites d x \<Longrightarrow> selection_of sites d (f d x)"
  shows "onboarding_inv (s\<lparr>ob_selected := map (\<lambda>(d, x). (d, f d x)) (ob_selected s)\<rparr>)"
proof -
  have "fst \<circ> (\<lambda>(d, x). (d, f d x)) = fst" by (auto simp: fun_eq_iff)
  then show ?thesis using inv found kept by (auto simp: onboarding_inv_def list_all_iff)
qed

lemma chosen_ga4_kept:
  assumes "distinct (map fs_domain sites)" "site \<in> set sites" "p = [] \<or> p \<in> set (fs_ga4 site)" "selection_of sites d x"
  shows "selection_of sites d (if d = fs_domain site then x\<lparr>sl_ga4 := Some p\<rparr> else x)"
  using assms(2-4) site_of_domain [OF assms(1,2)] unfolding selection_of_def by (cases "d = fs_domain site") (simp, metis, simp)

lemma chosen_gsc_kept:
  assumes "distinct (map fs_domain sites)" "site \<in> set sites" "p \<in> set (fs_gsc site)" "selection_of sites d x"
  shows "selection_of sites d (if d = fs_domain site then x\<lparr>sl_gsc := Some p\<rparr> else x)"
  using assms(2-4) site_of_domain [OF assms(1,2)] unfolding selection_of_def by (cases "d = fs_domain site") (simp, metis, simp)

lemma onboarding_step_inv: "onboarding_step s t \<Longrightarrow> onboarding_inv s \<Longrightarrow> onboarding_inv t"
proof (induction rule: onboarding_step.induct)
  case (site_checked s c sites site checked)
  then show ?case by (intro check_site_inv) auto
next
  case (ga4_chosen s c sites site p)
  then have "distinct (map fs_domain sites)" by (simp add: onboarding_inv_def)
  with ga4_chosen show ?case unfolding choose_ga4_def by (intro choose_inv chosen_ga4_kept) auto
next
  case (gsc_chosen s c sites site p)
  then have "distinct (map fs_domain sites)" by (simp add: onboarding_inv_def)
  with gsc_chosen show ?case unfolding choose_gsc_def by (intro choose_inv chosen_gsc_kept) auto
qed (auto simp: onboarding_inv_def begin_discover_def discovered_def split: option.splits)

interpretation onboarding: safe_machine "\<lambda>s. \<exists>b. s = onboarding_init b" onboarding_step onboarding_inv
proof unfold_locales
  show "onboarding_inv t" if "onboarding_inv s" "onboarding_step s t" for s t
    using that(2,1) by (rule onboarding_step_inv)
qed (auto simp: onboarding_inv_def onboarding_init_def)


definition demo_site :: found_site where
  "demo_site = \<lparr>fs_domain = ''a.uk'', fs_ga4 = [''1'', ''2''], fs_gsc = [''s'']\<rparr>"

definition demo_found :: onboarding where
  "demo_found = discovered 3 [demo_site] (begin_discover 3 (onboarding_init True))\<lparr>ob_busy := False\<rparr>"

lemma demo_found_reached: "reachable (\<lambda>s. \<exists>b. s = onboarding_init b) onboarding_step demo_found"
proof -
  let ?begun = "begin_discover 3 (onboarding_init True)"
  have begun: "reachable (\<lambda>s. \<exists>b. s = onboarding_init b) onboarding_step ?begun"
  proof (rule reach_step)
    show "reachable (\<lambda>s. \<exists>b. s = onboarding_init b) onboarding_step (onboarding_init True)"
      by (rule reach_init) auto
    show "onboarding_step (onboarding_init True) ?begun" by (rule discovery_begins) (simp add: onboarding_init_def)
  qed
  have "onboarding_step ?begun (discovered (ob_connection ?begun) [demo_site] ?begun\<lparr>ob_busy := False\<rparr>)"
    by (rule discovery_ends) (simp_all add: begin_discover_def)
  then have "onboarding_step ?begun demo_found" by (simp add: demo_found_def begin_discover_def)
  with begun show ?thesis by (rule reach_step)
qed

lemma demo_found_state: "ob_inventory demo_found = Some (3, [demo_site])" "\<not> ob_busy demo_found" "ob_selected demo_found = []"
  by (simp_all add: demo_found_def discovered_def begin_discover_def)


section \<open>Tracking\<close>

text \<open>
  The definitions of an Analytics property and the plan for the parameters of an event. A list is kept
  with the type it was asked for and a plan with the event and the parameters it was asked for.
\<close>

record tracking = net +
  tk_kind :: string
  tk_definitions :: "string \<times> json list"
  tk_can_edit :: bool
  tk_error :: string
  tk_message :: string
  tk_event :: string
  tk_parameters :: string
  tk_plan :: "((string \<times> string list) \<times> json) option"
  tk_confirmed :: bool
  tk_busy :: bool

definition tracking_init :: tracking where
  "tracking_init =
     \<lparr>stored_token = None, sent = [], tk_kind = ''key-events'', tk_definitions = (''key-events'', []), tk_can_edit = False,
      tk_error = [], tk_message = [], tk_event = ''button_click'', tk_parameters = ''button_id, button_text, button_location'',
      tk_plan = None, tk_confirmed = False, tk_busy = False\<rparr>"

definition parameter_names :: "string \<Rightarrow> string list" where
  "parameter_names t = filter (\<lambda>p. p \<noteq> []) (map trim (split_on CHR '','' t))"

definition tracking_input :: "tracking \<Rightarrow> string \<times> string list" where
  "tracking_input s = (tk_event s, parameter_names (tk_parameters s))"

definition tracking_url :: "int \<Rightarrow> string \<Rightarrow> string" where
  "tracking_url website rest = ''/websites/'' @ int_str website @ rest"

definition tracking_load :: "analytics_world \<Rightarrow> int \<Rightarrow> (tracking, unit) act" where
  "tracking_load w website s =
     bind_act (an_get w (tracking_url website (''/definitions/'' @ tk_kind s)))
       (\<lambda>v. set_act (\<lambda>t. t\<lparr>tk_definitions := (tk_kind s, json_list (jget v ''items'')), tk_can_edit := jtrue v ''can_edit''\<rparr>)) s"

definition tracking_failed :: "js_throw \<Rightarrow> tracking \<Rightarrow> tracking" where
  "tracking_failed e s = s\<lparr>tk_error := error_string e\<rparr>"

definition tracking_effect :: "analytics_world \<Rightarrow> int \<Rightarrow> (tracking, unit) act" where
  "tracking_effect w website = catch_act (tracking_load w website) (\<lambda>e. set_act (tracking_failed e))"

definition input_json :: "string \<times> string list \<Rightarrow> (string \<times> json) list" where
  "input_json i = [(''event'', JStr (fst i)), (''parameters'', JArr (map JStr (snd i)))]"

definition begin_review :: "tracking \<Rightarrow> tracking" where
  "begin_review s = s\<lparr>tk_busy := True, tk_error := [], tk_confirmed := False\<rparr>"

definition reviewed :: "string \<times> string list \<Rightarrow> json \<Rightarrow> tracking \<Rightarrow> tracking" where
  "reviewed asked j s = s\<lparr>tk_plan := (if j = JNull then None else Some (asked, j))\<rparr>"

definition review_plan :: "analytics_world \<Rightarrow> int \<Rightarrow> (tracking, unit) act" where
  "review_plan w website s =
     then_act (set_act begin_review)
       (finally_act
         (catch_act
           (bind_act (an_call w (tracking_url website ''/tracking/plan'') ''POST'' (Some (JObj (input_json (tracking_input s)))))
             (\<lambda>j. set_act (reviewed (tracking_input s) j)))
           (\<lambda>e. set_act (tracking_failed e)))
         (\<lambda>t. t\<lparr>tk_busy := False\<rparr>)) s"

text \<open>The button that registers: it is shown with a plan.\<close>

definition can_register :: "tracking \<Rightarrow> bool" where
  "can_register s \<longleftrightarrow> tk_plan s \<noteq> None \<and> tk_confirmed s \<and> tk_can_edit s \<and> \<not> tk_busy s"

definition register_body :: "tracking \<Rightarrow> json" where
  "register_body s = JObj (input_json (tracking_input s) @ [(''confirmed'', JBool (tk_confirmed s))])"

definition register_parameters :: "analytics_world \<Rightarrow> int \<Rightarrow> (tracking, unit) act" where
  "register_parameters w website s =
     then_act (set_act (\<lambda>t. t\<lparr>tk_busy := True\<rparr>))
       (finally_act
         (catch_act
           (bind_act (an_call w (tracking_url website ''/tracking/register'') ''POST'' (Some (register_body s)))
             (\<lambda>j. bind_act (lift_act (non_null j)) (\<lambda>v.
               then_act (set_act (\<lambda>t. t\<lparr>tk_message := nullish (jstr v ''notice'') [], tk_plan := None\<rparr>))
                 (tracking_load w website))))
           (\<lambda>e. set_act (tracking_failed e)))
         (\<lambda>t. t\<lparr>tk_busy := False\<rparr>)) s"

definition event_typed :: "string \<Rightarrow> tracking \<Rightarrow> tracking" where
  "event_typed v s = s\<lparr>tk_event := v, tk_plan := None\<rparr>"

definition parameters_typed :: "string \<Rightarrow> tracking \<Rightarrow> tracking" where
  "parameters_typed v s = s\<lparr>tk_parameters := v, tk_plan := None\<rparr>"

definition kind_chosen :: "string \<Rightarrow> tracking \<Rightarrow> tracking" where
  "kind_chosen k s = s\<lparr>tk_kind := k, tk_error := []\<rparr>"

text \<open>The forms with their confirmations: \<open>ok\<close> is what the confirmation dialog returned.\<close>

definition definition_body :: "string \<Rightarrow> string option \<Rightarrow> string option \<Rightarrow> json" where
  "definition_body parameter display unit_name =
     JObj [(''parameterName'', JStr parameter), (''eventName'', JStr parameter), (''displayName'', JStr (nullish display [])),
       (''measurementUnit'', JStr (nullish unit_name ''STANDARD'')), (''confirmed'', JBool True)]"

definition create_definition ::
  "analytics_world \<Rightarrow> int \<Rightarrow> bool \<Rightarrow> string \<Rightarrow> string option \<Rightarrow> string option \<Rightarrow> (tracking, unit) act" where
  "create_definition w website agreed parameter display unit_name s =
     guard_act agreed
       (then_act (set_act (\<lambda>t. t\<lparr>tk_busy := True\<rparr>))
         (finally_act
           (catch_act
             (then_act
               (bind_act (an_call w (tracking_url website (''/definitions/'' @ tk_kind s)) ''POST''
                 (Some (definition_body parameter display unit_name))) (\<lambda>_. return_act ()))
               (then_act (set_act (\<lambda>t. t\<lparr>tk_message := ''Definition created and verified with Google.''\<rparr>))
                 (tracking_load w website)))
             (\<lambda>e. set_act (tracking_failed e)))
           (\<lambda>t. t\<lparr>tk_busy := False\<rparr>))) s"

definition remove_key_event :: "analytics_world \<Rightarrow> int \<Rightarrow> bool \<Rightarrow> string \<Rightarrow> (tracking, unit) act" where
  "remove_key_event w website agreed name =
     guard_act agreed
       (catch_act
         (then_act
           (bind_act (an_call w (tracking_url website ''/key-events/delete'') ''POST''
             (Some (JObj [(''name'', JStr name), (''confirmed'', JBool True)]))) (\<lambda>_. return_act ()))
           (tracking_load w website))
         (\<lambda>e. set_act (tracking_failed e)))"

interpretation review_form: submit_handler "review_plan w website" tk_busy
  by (rule submit_handlerI) (auto simp: review_plan_def form_simps)

interpretation register_form: submit_handler "register_parameters w website" tk_busy
  by (rule submit_handlerI) (auto simp: register_parameters_def form_simps)

interpretation definition_form: submit_handler "create_definition w website agreed parameter display unit_name" tk_busy
  by (rule submit_handlerI) (auto simp: create_definition_def guard_act_def return_act_def form_simps)

text \<open>
  The plan as events: while a review is under way (\<open>asked\<close>) the inputs can be typed in, unless the
  visitor is \<open>patient\<close>. No answer is taken that was not asked for.
\<close>

record planning =
  pn_page :: tracking
  pn_asked :: "(string \<times> string list) option"

inductive planning_step :: "bool \<Rightarrow> planning \<Rightarrow> planning \<Rightarrow> bool" for patient :: bool where
  types_event: "\<not> patient \<or> pn_asked s = None \<Longrightarrow> planning_step patient s (s\<lparr>pn_page := event_typed v (pn_page s)\<rparr>)"
| types_parameters: "\<not> patient \<or> pn_asked s = None \<Longrightarrow> planning_step patient s (s\<lparr>pn_page := parameters_typed v (pn_page s)\<rparr>)"
| reviews: "\<not> tk_busy (pn_page s) \<Longrightarrow>
    planning_step patient s (s\<lparr>pn_page := begin_review (pn_page s), pn_asked := Some (tracking_input (pn_page s))\<rparr>)"
| review_answered: "pn_asked s = Some asked \<Longrightarrow>
    planning_step patient s (s\<lparr>pn_page := reviewed asked j (pn_page s)\<lparr>tk_busy := False\<rparr>, pn_asked := None\<rparr>)"
| review_failed: "pn_asked s = Some asked \<Longrightarrow>
    planning_step patient s (s\<lparr>pn_page := tracking_failed e (pn_page s)\<lparr>tk_busy := False\<rparr>, pn_asked := None\<rparr>)"
| confirms: "tk_plan (pn_page s) \<noteq> None \<Longrightarrow> planning_step patient s (s\<lparr>pn_page := (pn_page s)\<lparr>tk_confirmed := b\<rparr>\<rparr>)"
| may_edit: "planning_step patient s (s\<lparr>pn_page := (pn_page s)\<lparr>tk_can_edit := b\<rparr>\<rparr>)"

definition planning_init :: planning where
  "planning_init = \<lparr>pn_page = tracking_init, pn_asked = None\<rparr>"

definition planning_inv :: "planning \<Rightarrow> bool" where
  "planning_inv s \<longleftrightarrow>
     (\<forall>asked. pn_asked s = Some asked \<longrightarrow> asked = tracking_input (pn_page s) \<and> tk_busy (pn_page s)) \<and>
     (\<forall>asked j. tk_plan (pn_page s) = Some (asked, j) \<longrightarrow> asked = tracking_input (pn_page s))"

lemmas planning_defs =
  planning_inv_def tracking_input_def begin_review_def reviewed_def tracking_failed_def event_typed_def parameters_typed_def

interpretation planning: safe_machine "\<lambda>s. s = planning_init" "planning_step True" planning_inv
proof unfold_locales
  show "planning_inv t" if "planning_inv s" "planning_step True s t" for s t
    using that(2,1) by (cases rule: planning_step.cases) (auto simp: planning_defs)
qed (simp add: planning_inv_def planning_init_def tracking_init_def)

text \<open>
  C10: when nothing is typed while a review is under way, the definitions that can be registered are the
  ones that were reviewed.
\<close>

theorem reviewed_definitions_are_registered:
  assumes "reachable (\<lambda>s. s = planning_init) (planning_step True) s" and "can_register (pn_page s)"
  shows "\<exists>asked j. tk_plan (pn_page s) = Some (asked, j) \<and> register_body (pn_page s) = JObj (input_json asked @ [(''confirmed'', JBool True)])"
proof -
  obtain asked j where plan: "tk_plan (pn_page s) = Some (asked, j)" and "tk_confirmed (pn_page s)"
    using assms(2) by (auto simp: can_register_def)
  moreover have "asked = tracking_input (pn_page s)"
    using planning.inv_reachable [OF assms(1)] plan by (simp add: planning_inv_def)
  ultimately show ?thesis by (simp add: register_body_def)
qed

definition reviewing :: planning where
  "reviewing = planning_init\<lparr>pn_page := begin_review tracking_init, pn_asked := Some (tracking_input tracking_init)\<rparr>"

definition agreed_plan :: "planning \<Rightarrow> planning" where
  "agreed_plan s =
     s\<lparr>pn_page := reviewed (tracking_input tracking_init) (JBool True) (pn_page s)\<lparr>tk_busy := False, tk_confirmed := True, tk_can_edit := True\<rparr>,
       pn_asked := None\<rparr>"

lemma reviewing_reached: "reachable (\<lambda>s. s = planning_init) (planning_step patient) reviewing"
proof (rule reach_step)
  show "reachable (\<lambda>s. s = planning_init) (planning_step patient) planning_init" by (rule reach_init) simp
  have "planning_step patient planning_init
      (planning_init\<lparr>pn_page := begin_review (pn_page planning_init), pn_asked := Some (tracking_input (pn_page planning_init))\<rparr>)"
    by (rule reviews) (simp add: planning_init_def tracking_init_def)
  then show "planning_step patient planning_init reviewing" by (simp add: reviewing_def planning_init_def)
qed

lemma agreed_plan_reached:
  assumes s: "reachable (\<lambda>s. s = planning_init) (planning_step patient) s" and asked: "pn_asked s = Some (tracking_input tracking_init)"
  shows "reachable (\<lambda>s. s = planning_init) (planning_step patient) (agreed_plan s)"
proof -
  let ?a = "s\<lparr>pn_page := reviewed (tracking_input tracking_init) (JBool True) (pn_page s)\<lparr>tk_busy := False\<rparr>, pn_asked := None\<rparr>"
  let ?b = "?a\<lparr>pn_page := (pn_page ?a)\<lparr>tk_confirmed := True\<rparr>\<rparr>"
  have a: "reachable (\<lambda>s. s = planning_init) (planning_step patient) ?a" by (rule reach_step [OF s review_answered [OF asked]])
  have "tk_plan (pn_page ?a) \<noteq> None" by (simp add: reviewed_def)
  then have b: "reachable (\<lambda>s. s = planning_init) (planning_step patient) ?b" by (rule reach_step [OF a confirms])
  have "agreed_plan s = ?b\<lparr>pn_page := (pn_page ?b)\<lparr>tk_can_edit := True\<rparr>\<rparr>" by (simp add: agreed_plan_def reviewed_def)
  with reach_step [OF b may_edit] show ?thesis by metis
qed

theorem reviewed_definitions_are_registered_witness:
  "can_register (pn_page (agreed_plan reviewing)) \<and> (\<exists>asked j. tk_plan (pn_page (agreed_plan reviewing)) = Some (asked, j))"
proof -
  have reach: "reachable (\<lambda>s. s = planning_init) (planning_step True) (agreed_plan reviewing)"
    by (rule agreed_plan_reached [OF reviewing_reached]) (simp add: reviewing_def)
  have can: "can_register (pn_page (agreed_plan reviewing))" by (simp add: can_register_def agreed_plan_def reviewed_def)
  obtain asked j where "tk_plan (pn_page (agreed_plan reviewing)) = Some (asked, j)"
    using reviewed_definitions_are_registered [OF reach can] by (elim exE conjE)
  with can show ?thesis by (intro conjI exI)
qed

text \<open>
  C24: typing while a review is under way is lost on the plan: the plan of the old input is shown, can be
  confirmed, and what is registered is the new input, which nobody reviewed.
\<close>

theorem unreviewed_definitions_are_registered:
  "\<exists>s. reachable (\<lambda>s. s = planning_init) (planning_step False) s \<and> can_register (pn_page s) \<and>
    (\<exists>asked j. tk_plan (pn_page s) = Some (asked, j) \<and> register_body (pn_page s) \<noteq> JObj (input_json asked @ [(''confirmed'', JBool True)]))"
proof -
  let ?typed = "reviewing\<lparr>pn_page := event_typed ''sign_up'' (pn_page reviewing)\<rparr>"
  have step: "planning_step False reviewing ?typed" by (rule types_event) simp
  have typed: "reachable (\<lambda>s. s = planning_init) (planning_step False) ?typed"
    by (rule reach_step [of _ _ reviewing]) (rule reviewing_reached, rule step)
  have reach: "reachable (\<lambda>s. s = planning_init) (planning_step False) (agreed_plan ?typed)"
    by (rule agreed_plan_reached [OF typed]) (simp add: reviewing_def)
  have "can_register (pn_page (agreed_plan ?typed))" by (simp add: can_register_def agreed_plan_def reviewed_def)
  moreover have "tk_plan (pn_page (agreed_plan ?typed)) = Some (tracking_input tracking_init, JBool True)"
    by (simp add: agreed_plan_def reviewed_def)
  moreover have "register_body (pn_page (agreed_plan ?typed)) \<noteq> JObj (input_json (tracking_input tracking_init) @ [(''confirmed'', JBool True)])"
    by code_simp
  ultimately show ?thesis using reach by blast
qed

section \<open>Google accounts\<close>

definition GOOGLE_SCOPES :: "string list" where
  "GOOGLE_SCOPES = [''analytics.readonly'', ''webmasters.readonly'', ''analytics.edit'']"

definition endsWith :: "string \<Rightarrow> string \<Rightarrow> bool" where
  "endsWith t suffix_text \<longleftrightarrow> startsWith (rev t) (rev suffix_text)"

definition account_scopes :: "json \<Rightarrow> string list" where
  "account_scopes account = map js_text (json_list (jget account ''scopes''))"

definition missingPermissions :: "json \<Rightarrow> string list" where
  "missingPermissions account =
     filter (\<lambda>scope. \<not> list_ex (\<lambda>v. endsWith v (CHR ''/'' # scope)) (account_scopes account)) GOOGLE_SCOPES"

definition connected_account :: "json \<Rightarrow> bool" where
  "connected_account account \<longleftrightarrow> jstr account ''status'' = Some ''connected''"

definition account_status :: "json \<Rightarrow> string" where
  "account_status account =
     (if \<not> connected_account account
      then (if jstr account ''status'' = Some ''disconnected'' then ''Disconnected'' else ''Reconnect required'')
      else if missingPermissions account \<noteq> [] then ''Permissions incomplete''
      else if truthy (jget account ''refresh_retry_at'') then ''Retry scheduled'' else ''Connected'')"

definition account_action :: "json \<Rightarrow> string" where
  "account_action account =
     (if \<not> connected_account account then ''Reconnect account''
      else if missingPermissions account \<noteq> [] then ''Reauthorise account'' else ''Renew Google consent'')"

definition affected_sites :: "json list \<Rightarrow> json \<Rightarrow> json list" where
  "affected_sites websites account =
     filter (\<lambda>site. list_ex (\<lambda>p. jget p ''connection_id'' = jget account ''id'') (json_list (jget site ''providers''))) websites"

record integration = net +
  ig_accounts :: "json list option"
  ig_error :: string
  ig_busy :: "int option"
  ig_visited :: "string list"
  ig_refreshed :: nat

definition accounts_url :: "int \<Rightarrow> string \<Rightarrow> string" where
  "accounts_url business rest = ''/businesses/'' @ int_str business @ rest"

definition accounts_load :: "analytics_world \<Rightarrow> int \<Rightarrow> (integration, unit) act" where
  "accounts_load w business =
     bind_act (an_call w (accounts_url business ''/connections'') ''GET'' None)
       (\<lambda>j. set_act (\<lambda>s. s\<lparr>ig_accounts := (if j = JNull then None else Some (json_list (Some j)))\<rparr>))"

definition accounts_failed :: "js_throw \<Rightarrow> integration \<Rightarrow> integration" where
  "accounts_failed e s = s\<lparr>ig_error := error_string e\<rparr>"

definition accounts_effect :: "analytics_world \<Rightarrow> int \<Rightarrow> (integration, unit) act" where
  "accounts_effect w business =
     then_act (set_act (\<lambda>s. s\<lparr>ig_accounts := None\<rparr>))
       (catch_act (accounts_load w business) (\<lambda>e. set_act (accounts_failed e)))"

definition accounts_retry :: "analytics_world \<Rightarrow> int \<Rightarrow> (integration, unit) act" where
  "accounts_retry w business =
     then_act (set_act (\<lambda>s. s\<lparr>ig_error := []\<rparr>))
       (catch_act (accounts_load w business) (\<lambda>e. set_act (accounts_failed e)))"

definition account_connect :: "analytics_world \<Rightarrow> int \<Rightarrow> int option \<Rightarrow> (integration, unit) act" where
  "account_connect w business account =
     then_act (set_act (\<lambda>s. s\<lparr>ig_busy := Some (nullish account 0), ig_error := []\<rparr>))
       (catch_act
         (bind_act (an_call w (accounts_url business ''/oauth'') ''POST''
             (Some (JObj ((''return_to'', JStr ''settings'') # (case account of None \<Rightarrow> [] | Some i \<Rightarrow> [(''connection_id'', JNum i)])))))
           (\<lambda>j. bind_act (lift_act (non_null j)) (\<lambda>v. set_act (\<lambda>s. s\<lparr>ig_visited := ig_visited s @ [header_text (jget v ''url'')]\<rparr>))))
         (\<lambda>e. set_act (\<lambda>s. (accounts_failed e s)\<lparr>ig_busy := None\<rparr>)))"

definition account_disconnect :: "analytics_world \<Rightarrow> int \<Rightarrow> bool \<Rightarrow> int \<Rightarrow> (integration, unit) act" where
  "account_disconnect w business agreed account =
     guard_act agreed
       (then_act (set_act (\<lambda>s. s\<lparr>ig_busy := Some account, ig_error := []\<rparr>))
         (finally_act
           (catch_act
             (then_act
               (bind_act (an_call w (''/connections/'' @ int_str account @ ''/disconnect'') ''POST'' None) (\<lambda>_. return_act ()))
               (then_act (accounts_load w business) (set_act (\<lambda>s. s\<lparr>ig_refreshed := Suc (ig_refreshed s)\<rparr>))))
             (\<lambda>e. set_act (accounts_failed e)))
           (\<lambda>s. s\<lparr>ig_busy := None\<rparr>)))"

interpretation disconnect_form: submit_handler "account_disconnect w business agreed account" "\<lambda>s. ig_busy s \<noteq> None"
  by (rule submit_handlerI) (auto simp: account_disconnect_def guard_act_def return_act_def form_simps)

text \<open>An account is shown as connected when it is, needs no retry and every consent was given.\<close>

lemma healthy_account:
  "account_status account = ''Connected'' \<longleftrightarrow>
   connected_account account \<and> \<not> truthy (jget account ''refresh_retry_at'') \<and>
   (\<forall>scope \<in> set GOOGLE_SCOPES. \<exists>v \<in> set (account_scopes account). endsWith v (CHR ''/'' # scope))"
proof -
  have "missingPermissions account = [] \<longleftrightarrow>
      (\<forall>scope \<in> set GOOGLE_SCOPES. \<exists>v \<in> set (account_scopes account). endsWith v (CHR ''/'' # scope))"
    by (auto simp: missingPermissions_def filter_empty_conv list_ex_iff)
  then show ?thesis by (simp add: account_status_def)
qed

section \<open>A website\<close>

text \<open>The issue of a provider: \<open>prop\<close> is its property and \<open>account\<close> the account of the property.\<close>

definition site_property :: "json \<Rightarrow> string \<Rightarrow> json option" where
  "site_property website provider = find (\<lambda>p. jstr p ''provider'' = Some provider) (json_list (jget website ''providers''))"

definition property_account :: "json list \<Rightarrow> json option \<Rightarrow> json option" where
  "property_account accounts prop =
     find (\<lambda>a. jget a ''id'' = Option.bind prop (\<lambda>p. jget p ''connection_id'')) accounts"

definition reporting_scope :: "string \<Rightarrow> string" where
  "reporting_scope provider = (if provider = ''ga4'' then ''/analytics.readonly'' else ''/webmasters.readonly'')"

definition account_issue :: "string \<Rightarrow> json option \<Rightarrow> string" where
  "account_issue provider account =
     (case account of
        None \<Rightarrow> []
      | Some a \<Rightarrow>
          if \<not> connected_account a then ''Reconnect required''
          else if \<not> list_ex (\<lambda>scope. endsWith scope (reporting_scope provider)) (account_scopes a) then ''Reporting permission missing''
          else [])"

definition healthIssue :: "string \<Rightarrow> json option \<Rightarrow> json option \<Rightarrow> string" where
  "healthIssue provider prop account =
     or_string (Option.bind prop (\<lambda>p. jstr p ''error_code'')) (account_issue provider account)"

definition sync_running :: "json list option \<Rightarrow> bool" where
  "sync_running jobs \<longleftrightarrow>
     (case jobs of None \<Rightarrow> False
      | Some js \<Rightarrow> list_ex (\<lambda>j. jstr j ''status'' \<in> Some ` {''queued'', ''running'', ''retrying''}) js)"

text \<open>
  The page of a website; the properties that were found are kept with the account they were found with.
\<close>

record site_settings = net +
  ws_error :: string
  ws_message :: string
  ws_busy :: bool
  ws_connection :: int
  ws_inventory :: "(int \<times> json) option"
  ws_refreshed :: nat
  ws_reloaded :: nat

definition site_failed :: "js_throw \<Rightarrow> site_settings \<Rightarrow> site_settings" where
  "site_failed e s = s\<lparr>ws_error := error_string e\<rparr>"

definition site_call :: "(site_settings, unit) act \<Rightarrow> (site_settings \<Rightarrow> site_settings) \<Rightarrow> (site_settings, unit) act" where
  "site_call body start =
     then_act (set_act (\<lambda>t. start (t\<lparr>ws_busy := True\<rparr>)))
       (finally_act (catch_act body (\<lambda>e. set_act (site_failed e))) (\<lambda>t. t\<lparr>ws_busy := False\<rparr>))"

definition site_refresh :: "(site_settings, unit) act" where
  "site_refresh = set_act (\<lambda>s. s\<lparr>ws_refreshed := Suc (ws_refreshed s)\<rparr>)"

definition unlink_property :: "analytics_world \<Rightarrow> int \<Rightarrow> bool \<Rightarrow> string \<Rightarrow> (site_settings, unit) act" where
  "unlink_property w website agreed provider =
     guard_act agreed
       (site_call
         (then_act
           (bind_act (an_call w (tracking_url website (''/properties/'' @ provider)) ''DELETE'' (Some (JObj [(''confirmed'', JBool True)])))
             (\<lambda>_. return_act ()))
           site_refresh)
         (\<lambda>t. t))"

definition queued_message :: "json \<Rightarrow> string" where
  "queued_message j =
     (if json_list (Some j) \<noteq> [] then ''Synchronisation queued. Your reports will update in the background.''
      else ''No connected properties could be queued. Review Google accounts and property permissions.'')"

definition sync_site :: "analytics_world \<Rightarrow> int \<Rightarrow> period \<Rightarrow> (site_settings, unit) act" where
  "sync_site w website dates =
     site_call
       (bind_act (an_call w (tracking_url website ''/sync'') ''POST''
           (Some (JObj (map (\<lambda>(k, v). (k, JStr v)) (period_params dates)))))
         (\<lambda>j. bind_act (lift_act (non_null j)) (\<lambda>v.
           set_act (\<lambda>t. t\<lparr>ws_message := queued_message v, ws_reloaded := Suc (ws_reloaded t)\<rparr>))))
       (\<lambda>t. t\<lparr>ws_error := []\<rparr>)"

definition account_chosen :: "int \<Rightarrow> site_settings \<Rightarrow> site_settings" where
  "account_chosen i s = s\<lparr>ws_connection := i, ws_inventory := None\<rparr>"

definition find_properties :: "analytics_world \<Rightarrow> (site_settings, unit) act" where
  "find_properties w s =
     site_call
       (bind_act (an_call w (''/connections/'' @ int_str (ws_connection s) @ ''/properties'') ''GET'' None)
         (\<lambda>j. set_act (\<lambda>t. t\<lparr>ws_inventory := (if j = JNull then None else Some (ws_connection s, j))\<rparr>)))
       (\<lambda>t. t) s"

definition link_body :: "int \<Rightarrow> string \<Rightarrow> string option \<Rightarrow> json" where
  "link_body connection property search_type =
     JObj [(''connection_id'', JNum connection), (''external_id'', JStr property), (''search_type'', JStr (nullish search_type ''web''))]"

definition link_property :: "analytics_world \<Rightarrow> int \<Rightarrow> string \<Rightarrow> string \<Rightarrow> string option \<Rightarrow> (site_settings, unit) act" where
  "link_property w website provider property search_type s =
     site_call
       (then_act
         (bind_act (an_call w (tracking_url website (''/properties/'' @ provider)) ''PUT''
             (Some (link_body (ws_connection s) property search_type))) (\<lambda>_. return_act ()))
         (then_act site_refresh (set_act (\<lambda>t. t\<lparr>ws_message := ''Property linked. Initial reports are being prepared.''\<rparr>))))
       (\<lambda>t. t) s"

definition can_link :: "json \<Rightarrow> string \<Rightarrow> site_settings \<Rightarrow> bool" where
  "can_link website provider s \<longleftrightarrow> ws_inventory s \<noteq> None \<and> \<not> ws_busy s \<and> site_property website provider = None"

lemma site_call_form [form_simps]:
  "fst (site_call body start t) = (fst (catch_act body (\<lambda>e. set_act (site_failed e)) (start (t\<lparr>ws_busy := True\<rparr>))))\<lparr>ws_busy := False\<rparr>"
  "snd (site_call body start t) = snd (catch_act body (\<lambda>e. set_act (site_failed e)) (start (t\<lparr>ws_busy := True\<rparr>)))"
  by (simp_all add: site_call_def form_simps)

interpretation unlink_form: submit_handler "unlink_property w website agreed provider" ws_busy
  by (rule submit_handlerI) (auto simp: unlink_property_def guard_act_def return_act_def form_simps)

interpretation sync_form: submit_handler "sync_site w website dates" ws_busy
  by (rule submit_handlerI) (auto simp: sync_site_def form_simps)

interpretation find_form: submit_handler "find_properties w" ws_busy
  by (rule submit_handlerI) (auto simp: find_properties_def form_simps)

interpretation link_form: submit_handler "link_property w website provider property search_type" ws_busy
  by (rule submit_handlerI) (auto simp: link_property_def form_simps)

text \<open>
  The choice of the account is not disabled while properties are looked for: the answer for the old
  account is then shown below the new one, and linked to it.
\<close>

definition properties_found :: "int \<Rightarrow> json \<Rightarrow> site_settings \<Rightarrow> site_settings" where
  "properties_found asked j s = s\<lparr>ws_inventory := (if j = JNull then None else Some (asked, j)), ws_busy := False\<rparr>"

lemma found_with_another_account:
  "ws_connection s = a \<Longrightarrow> b \<noteq> a \<Longrightarrow> j \<noteq> JNull \<Longrightarrow>
   ws_inventory (properties_found a j (account_chosen b s)) = Some (a, j) \<and>
   ws_connection (properties_found a j (account_chosen b s)) = b"
  by (simp add: properties_found_def account_chosen_def)

section \<open>Businesses\<close>

record workspace_settings = net +
  wp_error :: string
  wp_message :: string
  wp_busy :: bool
  wp_refreshed :: nat
  wp_reloaded :: nat

definition workspace_failed :: "js_throw \<Rightarrow> workspace_settings \<Rightarrow> workspace_settings" where
  "workspace_failed e s = s\<lparr>wp_error := error_string e\<rparr>"

definition workspace_call :: "(workspace_settings, unit) act \<Rightarrow> (workspace_settings, unit) act" where
  "workspace_call body =
     then_act (set_act (\<lambda>s. s\<lparr>wp_busy := True, wp_error := []\<rparr>))
       (finally_act (catch_act body (\<lambda>e. set_act (workspace_failed e))) (\<lambda>s. s\<lparr>wp_busy := False\<rparr>))"

definition rename_business :: "analytics_world \<Rightarrow> int \<Rightarrow> string \<Rightarrow> (workspace_settings, unit) act" where
  "rename_business w business name =
     workspace_call
       (then_act
         (bind_act (an_call w (accounts_url business []) ''PUT'' (Some (JObj [(''name'', JStr name)]))) (\<lambda>_. return_act ()))
         (set_act (\<lambda>s. s\<lparr>wp_refreshed := Suc (wp_refreshed s), wp_message := ''Workspace details saved.''\<rparr>)))"

definition member_body :: "string \<Rightarrow> string \<Rightarrow> json" where
  "member_body email role = JObj [(''email'', JStr email), (''role'', if role = [] then JNull else JStr role)]"

definition change_member :: "analytics_world \<Rightarrow> int \<Rightarrow> bool \<Rightarrow> string \<Rightarrow> string \<Rightarrow> (workspace_settings, unit) act" where
  "change_member w business agreed email role =
     guard_act agreed
       (workspace_call
         (then_act
           (bind_act (an_call w (accounts_url business ''/members'') ''PUT'' (Some (member_body email role))) (\<lambda>_. return_act ()))
           (set_act (\<lambda>s. s\<lparr>wp_reloaded := Suc (wp_reloaded s), wp_refreshed := Suc (wp_refreshed s),
             wp_message := ''Workspace access updated.''\<rparr>))))"

definition create_business :: "analytics_world \<Rightarrow> string \<Rightarrow> (workspace_settings, unit) act" where
  "create_business w name =
     catch_act
       (then_act
         (bind_act (an_call w ''/businesses'' ''POST'' (Some (JObj [(''name'', JStr name)]))) (\<lambda>_. return_act ()))
         (set_act (\<lambda>s. s\<lparr>wp_refreshed := Suc (wp_refreshed s)\<rparr>)))
       (\<lambda>e. set_act (workspace_failed e))"

text \<open>The form of a website: a new one has no id and takes the time zone of the browser.\<close>

definition website_body :: "string option \<Rightarrow> string \<Rightarrow> string \<Rightarrow> string \<Rightarrow> bool \<Rightarrow> json" where
  "website_body timezone browser_zone name domain active =
     JObj [(''name'', JStr name), (''domain'', JStr domain), (''timezone'', JStr (nullish timezone browser_zone)),
       (''is_active'', JBool active)]"

definition submit_website ::
  "analytics_world \<Rightarrow> int \<Rightarrow> (int \<times> string) option \<Rightarrow> string \<Rightarrow> string \<Rightarrow> string \<Rightarrow> bool \<Rightarrow> (workspace_settings, unit) act" where
  "submit_website w business website browser_zone name domain active =
     catch_act
       (then_act
         (bind_act
           (an_call w (case website of Some (i, zone) \<Rightarrow> tracking_url i [] | None \<Rightarrow> accounts_url business ''/websites'')
             (if website = None then ''POST'' else ''PUT'')
             (Some (website_body (map_option snd website) browser_zone name domain active)))
           (\<lambda>_. return_act ()))
         (set_act (\<lambda>s. s\<lparr>wp_refreshed := Suc (wp_refreshed s)\<rparr>)))
       (\<lambda>e. set_act (workspace_failed e))"

lemma workspace_call_form [form_simps]:
  "fst (workspace_call body s) = (fst (catch_act body (\<lambda>e. set_act (workspace_failed e)) (s\<lparr>wp_busy := True, wp_error := []\<rparr>)))\<lparr>wp_busy := False\<rparr>"
  "snd (workspace_call body s) = snd (catch_act body (\<lambda>e. set_act (workspace_failed e)) (s\<lparr>wp_busy := True, wp_error := []\<rparr>))"
  by (simp_all add: workspace_call_def form_simps)

interpretation rename_form: submit_handler "rename_business w business name" wp_busy
  by (rule submit_handlerI) (auto simp: rename_business_def form_simps)

interpretation member_form: submit_handler "change_member w business agreed email role" wp_busy
  by (rule submit_handlerI) (auto simp: change_member_def guard_act_def return_act_def form_simps)

section \<open>The page\<close>

record own_site =
  ow_id :: int
  ow_business :: int

record own_business =
  bz_id :: int
  bz_role :: string
  bz_sites :: "own_site list"

definition settings_site :: "own_business list \<Rightarrow> int option \<Rightarrow> own_site option" where
  "settings_site businesses websiteId = find (\<lambda>site. Some (ow_id site) = websiteId) (concat (map bz_sites businesses))"

definition settings_business :: "(string \<Rightarrow> int option) \<Rightarrow> own_business list \<Rightarrow> int option \<Rightarrow> params \<Rightarrow> own_business option" where
  "settings_business to_number businesses websiteId query =
     (let requested = (case settings_site businesses websiteId of
          Some site \<Rightarrow> Some (ow_business site)
        | None \<Rightarrow> (case map_of query ''business'' of
              Some t \<Rightarrow> to_number t
            | None \<Rightarrow> (case businesses of [] \<Rightarrow> None | b # bs \<Rightarrow> Some (bz_id b))))
      in find (\<lambda>b. Some (bz_id b) = requested) businesses)"

definition settings_areas :: "string list" where
  "settings_areas = [''websites'', ''accounts'', ''events'', ''workspace'']"

definition settings_tab :: "params \<Rightarrow> string" where
  "settings_tab query =
     (let t = nullish (map_of query ''tab'') []
      in if t \<in> set settings_areas then t
         else if t = ''connections'' then ''accounts'' else if t = ''tracking'' then ''events'' else ''websites'')"

definition chosen_site :: "own_site option \<Rightarrow> own_business option \<Rightarrow> int \<Rightarrow> own_site option" where
  "chosen_site website business eventSite =
     (case website of Some site \<Rightarrow> Some site
      | None \<Rightarrow> (case business of None \<Rightarrow> None
          | Some b \<Rightarrow> (case find (\<lambda>site. ow_id site = eventSite) (bz_sites b) of
                Some site \<Rightarrow> Some site
              | None \<Rightarrow> (case bz_sites b of [] \<Rightarrow> None | site # sites \<Rightarrow> Some site))))"

datatype settings_view =
  Not_available | For_administrators | Accounts own_business | Workspace_of own_business
| Events "own_site option" | Website_of own_site own_business | Add_websites "own_business option" | Websites_of own_business

definition settings_page ::
  "(string \<Rightarrow> int option) \<Rightarrow> own_business list \<Rightarrow> int option \<Rightarrow> params \<Rightarrow> int \<Rightarrow> settings_view" where
  "settings_page to_number businesses websiteId query eventSite =
     (let website = settings_site businesses websiteId;
          business = settings_business to_number businesses websiteId query;
          tab = settings_tab query
      in if websiteId \<noteq> None \<and> websiteId \<noteq> Some 0 \<and> website = None \<or> map_of query ''business'' \<noteq> None \<and> business = None then Not_available
         else if map_option bz_role business = Some ''viewer'' then For_administrators
         else (case business of
             Some b \<Rightarrow>
               if tab = ''accounts'' then Accounts b
               else if tab = ''workspace'' then Workspace_of b
               else if tab = ''events'' then Events (chosen_site website business eventSite)
               else (case website of
                   Some site \<Rightarrow> Website_of site b
                 | None \<Rightarrow> if map_of query ''action'' = Some ''add'' \<or> bz_sites b = [] then Add_websites (Some b) else Websites_of b)
           | None \<Rightarrow> if tab = ''events'' then Events (chosen_site website None eventSite) else Add_websites None))"

text \<open>The business whose settings are shown.\<close>

fun shown_business :: "settings_view \<Rightarrow> own_business option" where
  "shown_business (Accounts b) = Some b"
| "shown_business (Workspace_of b) = Some b"
| "shown_business (Website_of site b) = Some b"
| "shown_business (Add_websites b) = b"
| "shown_business (Websites_of b) = Some b"
| "shown_business _ = None"

lemma settings_business_member:
  "settings_business to_number businesses websiteId query = Some b \<Longrightarrow> b \<in> set businesses"
  by (auto simp: settings_business_def Let_def find_Some_iff)


lemma chosen_site_is_own:
  "chosen_site website (Some b) eventSite = Some site \<Longrightarrow> website = Some site \<or> site \<in> set (bz_sites b)"
  by (auto simp: chosen_site_def find_Some_iff split: option.splits list.splits)

end
