(* ===== verification/Admin_Records.thy ===== *)
theory Admin_Records
  imports Js_Sort Infra_Nested Admin_Content Admin_Tasks
begin

text \<open>
  The forms for the records of the business: leads (\<^verbatim>\<open>leads/LeadForm.tsx\<close>), clients
  (\<^verbatim>\<open>clients/ClientForm.tsx\<close>) and their contacts
  (\<^verbatim>\<open>clients/ClientContactForm.tsx\<close>), projects
  (\<^verbatim>\<open>projects/ProjectForm.tsx\<close>) and monitoring checks
  (\<^verbatim>\<open>monitoring/checks/MonitoringCheckForm.tsx\<close>).

  Each keeps one object with a member per input. \<open>rc_text\<close>, \<open>rc_flag\<close> and
  \<open>rc_id\<close> are its texts, marks and references, so one record stands for the five forms;
  \<open>rc_lists\<close> are the lists the selects offer.
\<close>

section \<open>The state and its requests\<close>

text \<open>A stage or a source of leads that is added from the form.\<close>

datatype lead_option = Stage | Source

record option_form =
  op_adding :: "lead_option option"
  op_name :: string
  op_outcome :: string
  op_saving :: bool
  op_error :: "string option"

record record_form = net +
  rc_text :: "string \<Rightarrow> string"
  rc_flag :: "string \<Rightarrow> bool"
  rc_id :: "string \<Rightarrow> int option"
  rc_lists :: "string \<Rightarrow> json list"
  rc_loading :: bool
  rc_saving :: bool
  rc_error :: "string option"
  rc_visited :: "string list"
  rc_saved :: nat
  rc_option :: option_form

definition no_fields :: "bool \<Rightarrow> record_form" where
  "no_fields loading =
     \<lparr>stored_token = None, sent = [], rc_text = (\<lambda>k. []), rc_flag = (\<lambda>k. False), rc_id = (\<lambda>k. None), rc_lists = (\<lambda>k. []),
      rc_loading = loading, rc_saving = False, rc_error = None, rc_visited = [], rc_saved = 0,
      rc_option = \<lparr>op_adding = None, op_name = [], op_outcome = ''open'', op_saving = False, op_error = None\<rparr>\<rparr>"

definition put_text :: "string \<Rightarrow> string \<Rightarrow> record_form \<Rightarrow> record_form" where
  "put_text k v s = s\<lparr>rc_text := (rc_text s)(k := v)\<rparr>"

definition put_flag :: "string \<Rightarrow> bool \<Rightarrow> record_form \<Rightarrow> record_form" where
  "put_flag k v s = s\<lparr>rc_flag := (rc_flag s)(k := v)\<rparr>"

definition put_id :: "string \<Rightarrow> int option \<Rightarrow> record_form \<Rightarrow> record_form" where
  "put_id k v s = s\<lparr>rc_id := (rc_id s)(k := v)\<rparr>"

text \<open>The members of a loaded object, by their names.\<close>

definition read_texts :: "string list \<Rightarrow> json \<Rightarrow> record_form \<Rightarrow> record_form" where
  "read_texts ks j s = s\<lparr>rc_text := (\<lambda>k. if k \<in> set ks then text_of j k else rc_text s k)\<rparr>"

definition read_flags :: "string list \<Rightarrow> json \<Rightarrow> record_form \<Rightarrow> record_form" where
  "read_flags ks j s = s\<lparr>rc_flag := (\<lambda>k. if k \<in> set ks then jget j k = Some (JBool True) else rc_flag s k)\<rparr>"

definition read_ids :: "string list \<Rightarrow> json \<Rightarrow> record_form \<Rightarrow> record_form" where
  "read_ids ks j s = s\<lparr>rc_id := (\<lambda>k. if k \<in> set ks then optional_int (jget j k) else rc_id s k)\<rparr>"

text \<open>The members that are sent.\<close>

definition texts_sent :: "string list \<Rightarrow> record_form \<Rightarrow> payload" where
  "texts_sent ks s = map (\<lambda>k. (k, V_text (rc_text s k))) ks"

definition flags_sent :: "string list \<Rightarrow> record_form \<Rightarrow> payload" where
  "flags_sent ks s = map (\<lambda>k. (k, V_bool (rc_flag s k))) ks"

definition ids_sent :: "string list \<Rightarrow> record_form \<Rightarrow> payload" where
  "ids_sent ks s = map (\<lambda>k. (k, id_or_null (rc_id s k))) ks"

lemmas record_members =
  read_texts_def read_flags_def read_ids_def texts_sent_def flags_sent_def ids_sent_def put_text_def put_flag_def put_id_def

text \<open>The shape of loading and saving that the forms share.\<close>

definition record_failed :: "string \<Rightarrow> js_throw \<Rightarrow> (record_form, unit) act" where
  "record_failed fallback e = set_act (\<lambda>s. s\<lparr>rc_error := Some (message_of fallback e)\<rparr>)"

definition record_load :: "string \<Rightarrow> (record_form, unit) act \<Rightarrow> (record_form, unit) act" where
  "record_load fallback body =
     finally_act
       (catch_act (then_act (set_act (\<lambda>s. s\<lparr>rc_loading := True, rc_error := None\<rparr>)) body) (record_failed fallback))
       (\<lambda>s. s\<lparr>rc_loading := False\<rparr>)"

definition record_save ::
  "admin_world \<Rightarrow> string \<Rightarrow> string \<Rightarrow> string \<Rightarrow> payload \<Rightarrow> (json \<Rightarrow> (record_form, unit) act) \<Rightarrow> (record_form, unit) act" where
  "record_save w fallback method url body after =
     then_act (set_act (\<lambda>s. s\<lparr>rc_saving := True, rc_error := None\<rparr>))
       (finally_act
         (catch_act (bind_act (api_send w method url (TextBody (payload_text body))) after) (record_failed fallback))
         (\<lambda>s. s\<lparr>rc_saving := False\<rparr>))"

definition visit_record :: "string \<Rightarrow> json \<Rightarrow> (record_form, unit) act" where
  "visit_record place j =
     bind_act (lift_act (non_null j)) (\<lambda>v. set_act (\<lambda>s. s\<lparr>rc_visited := rc_visited s @ [place @ int_str (json_id v)]\<rparr>))"

lemma record_save_form [form_simps]:
  "rc_saving (fst (record_save w fallback method url body after s)) = False"
  "isl (snd (record_save w fallback method url body after s)) = False"
  by (auto simp: record_save_def record_failed_def form_simps)

text \<open>The method and the address of a form that edits the record with the id, or makes a new one.\<close>

definition save_method :: "int option \<Rightarrow> string" where
  "save_method i = (if truthy_int i = None then ''POST'' else ''PUT'')"

definition record_url :: "admin_world \<Rightarrow> int option \<Rightarrow> admin_call \<Rightarrow> (int \<Rightarrow> admin_call) \<Rightarrow> string" where
  "record_url w i create update = call_url w (case truthy_int i of None \<Rightarrow> create | Some n \<Rightarrow> update n)"

section \<open>Leads\<close>

definition lead_text_keys :: "string list" where
  "lead_text_keys = [''name'', ''email'', ''phone'', ''company'', ''message'', ''notes'']"

definition lead_id_keys :: "string list" where
  "lead_id_keys = [''brand_id'', ''status_id'', ''source_id'']"

definition lead_empty :: "record_form \<Rightarrow> record_form" where
  "lead_empty s = s\<lparr>rc_text := (\<lambda>k. []), rc_id := (\<lambda>k. None)\<rparr>"

definition lead_filled :: "json \<Rightarrow> record_form \<Rightarrow> record_form" where
  "lead_filled lead = read_ids lead_id_keys lead \<circ> read_texts lead_text_keys lead"

text \<open>A new lead is in the stage called new, if there is one.\<close>

definition initial_stage :: "json list \<Rightarrow> int option" where
  "initial_stage statuses =
     Option.bind (find (\<lambda>st. toLowerCase (text_of st ''name'') = ''new'') statuses) (\<lambda>st. optional_int (jget st ''id''))"

definition lead_form_load :: "admin_world \<Rightarrow> int option \<Rightarrow> (record_form, unit) act" where
  "lead_form_load w leadId =
     record_load ''Unable to load lead details.''
       (bind_act (both (both (api_get w (call_url w (Summary Brands_list))) (api_get w (call_url w (Leads Leads_options))))
           (case truthy_int leadId of None \<Rightarrow> return_act JNull | Some i \<Rightarrow> api_get w (call_url w (Leads (Leads_get i)))))
         (\<lambda>((brands, options), lead). set_act (\<lambda>s.
           (if lead = JNull
            then (\<lambda>t. put_id ''status_id'' (initial_stage (json_list (jget options ''statuses''))) (lead_empty t))
            else lead_filled lead)
           (s\<lparr>rc_lists := (rc_lists s)(''brands'' := json_list (Some brands), ''statuses'' := json_list (jget options ''statuses''),
             ''sources'' := json_list (jget options ''sources''))\<rparr>))))"

definition lead_form_payload :: "record_form \<Rightarrow> payload" where
  "lead_form_payload s =
     texts_sent [''name'', ''email'', ''phone'', ''company''] s @ ids_sent lead_id_keys s @ texts_sent [''message'', ''notes''] s"

text \<open>\<open>inline\<close>: the form is in a drawer, which is told about the lead instead of visiting it.\<close>

definition lead_form_save :: "admin_world \<Rightarrow> bool \<Rightarrow> int option \<Rightarrow> (record_form, unit) act" where
  "lead_form_save w inline leadId s =
     record_save w ''Unable to save the lead.'' (save_method leadId)
       (record_url w leadId (Leads Leads_create) (\<lambda>i. Leads (Leads_update i))) (lead_form_payload s)
       (\<lambda>j. if inline then set_act (\<lambda>s. s\<lparr>rc_saved := Suc (rc_saved s)\<rparr>) else visit_record ''/admin/leads/'' j) s"

definition visibleBrands :: "record_form \<Rightarrow> json list" where
  "visibleBrands s =
     filter (\<lambda>b. jtrue b ''is_active'' \<or> rc_id s ''brand_id'' \<noteq> None \<and> jget b ''id'' = map_option JNum (rc_id s ''brand_id'')) (rc_lists s ''brands'')"

definition startOption :: "lead_option \<Rightarrow> option_form \<Rightarrow> option_form" where
  "startOption kind f = f\<lparr>op_adding := Some kind, op_name := [], op_outcome := ''open'', op_error := None\<rparr>"

definition option_list :: "lead_option \<Rightarrow> string" where
  "option_list kind = (case kind of Stage \<Rightarrow> ''statuses'' | Source \<Rightarrow> ''sources'')"

definition option_key :: "lead_option \<Rightarrow> string" where
  "option_key kind = (case kind of Stage \<Rightarrow> ''status_id'' | Source \<Rightarrow> ''source_id'')"

definition option_payload :: "lead_option \<Rightarrow> option_form \<Rightarrow> payload" where
  "option_payload kind f = (''name'', V_text (trim (op_name f))) # (case kind of Stage \<Rightarrow> [(''outcome'', V_text (op_outcome f))] | Source \<Rightarrow> [])"

definition with_option :: "(string \<Rightarrow> string \<Rightarrow> int) \<Rightarrow> lead_option \<Rightarrow> json \<Rightarrow> json list \<Rightarrow> json list" where
  "with_option localeCompare kind created xs =
     (case kind of
        Stage \<Rightarrow> xs @ [created]
      | Source \<Rightarrow> js_sort (\<lambda>a b. localeCompare (text_of a ''name'') (text_of b ''name'')) (xs @ [created]))"

definition option_created :: "(string \<Rightarrow> string \<Rightarrow> int) \<Rightarrow> lead_option \<Rightarrow> json \<Rightarrow> record_form \<Rightarrow> record_form" where
  "option_created localeCompare kind created s =
     put_id (option_key kind) (optional_int (jget created ''id''))
       (s\<lparr>rc_lists := (rc_lists s)(option_list kind := with_option localeCompare kind created (rc_lists s (option_list kind)))\<rparr>)"

definition put_option :: "(option_form \<Rightarrow> option_form) \<Rightarrow> record_form \<Rightarrow> record_form" where
  "put_option f s = s\<lparr>rc_option := f (rc_option s)\<rparr>"

definition createOption :: "admin_world \<Rightarrow> (string \<Rightarrow> string \<Rightarrow> int) \<Rightarrow> (record_form, unit) act" where
  "createOption w localeCompare s =
     (let f = rc_option s
      in (case op_adding f of
           None \<Rightarrow> return_act ()
         | Some kind \<Rightarrow>
             guard_act (trim (op_name f) \<noteq> [])
               (then_act (set_act (put_option (\<lambda>f. f\<lparr>op_saving := True, op_error := None\<rparr>)))
                 (finally_act
                   (catch_act
                     (bind_act (api_send w ''POST'' (call_url w (Leads (if kind = Stage then Leads_createStatus else Leads_createSource)))
                         (TextBody (payload_text (option_payload kind f))))
                       (\<lambda>j. bind_act (lift_act (non_null j)) (\<lambda>created.
                         set_act (put_option (\<lambda>f. f\<lparr>op_adding := None\<rparr>) \<circ> option_created localeCompare kind created))))
                     (\<lambda>e. set_act (put_option (\<lambda>f. f\<lparr>op_error := Some (message_of ''Unable to add this option.'' e)\<rparr>))))
                   (put_option (\<lambda>f. f\<lparr>op_saving := False\<rparr>))))) s)"

interpretation lead_option_form: submit_handler "createOption w localeCompare" "\<lambda>s. op_saving (rc_option s)"
  by (rule submit_handlerI) (auto simp: createOption_def put_option_def Let_def guard_act_def return_act_def form_simps split: option.split)

lemma option_is_offered_and_chosen:
  assumes "jget created ''id'' = Some (JNum i)"
  shows "created \<in> set (rc_lists (option_created lc kind created s) (option_list kind)) \<and>
    rc_id (option_created lc kind created s) (option_key kind) = Some i \<and>
    mset (rc_lists (option_created lc kind created s) (option_list kind)) = add_mset created (mset (rc_lists s (option_list kind)))"
  using assms by (cases kind) (simp_all add: option_created_def put_id_def with_option_def optional_int_def mset_js_sort set_js_sort)

lemma chosen_brand_is_visible:
  "rc_id s ''brand_id'' = Some i \<Longrightarrow> find_id (rc_lists s ''brands'') i = Some b \<Longrightarrow> b \<in> set (visibleBrands s)"
  by (auto simp: visibleBrands_def dest: find_id_member)

interpretation lead_form: submit_handler "lead_form_save w inline leadId" rc_saving
  by (rule submit_handlerI) (simp add: lead_form_save_def form_simps)

section \<open>Clients\<close>

definition client_keys :: "string list" where
  "client_keys =
     [''name'', ''company'', ''email'', ''phone'', ''address'', ''city'', ''state'', ''country'', ''postal_code'', ''status'', ''notes'']"

definition client_form_init :: "int option \<Rightarrow> record_form" where
  "client_form_init clientId =
     put_text ''status'' ''active'' (put_text ''country'' ''United Kingdom'' (no_fields (truthy_int clientId \<noteq> None)))"

definition client_form_load :: "admin_world \<Rightarrow> int option \<Rightarrow> (record_form, unit) act" where
  "client_form_load w clientId =
     (case truthy_int clientId of
        None \<Rightarrow> return_act ()
      | Some i \<Rightarrow>
          record_load ''Unable to load client details.''
            (bind_act (bind_act (api_get w (call_url w (Clients (Clients_get i)))) (\<lambda>j. lift_act (non_null j)))
              (\<lambda>client. set_act (read_texts client_keys client))))"

definition client_form_payload :: "record_form \<Rightarrow> payload" where
  "client_form_payload s = texts_sent client_keys s"

definition client_form_save :: "admin_world \<Rightarrow> int option \<Rightarrow> (record_form, unit) act" where
  "client_form_save w clientId s =
     record_save w ''Unable to save the client account.'' (save_method clientId)
       (record_url w clientId (Clients Clients_create) (\<lambda>i. Clients (Clients_update i))) (client_form_payload s)
       (visit_record ''/admin/clients/'') s"

interpretation client_form: submit_handler "client_form_save w clientId" rc_saving
  by (rule submit_handlerI) (simp add: client_form_save_def form_simps)

section \<open>Contacts\<close>

definition contact_text_keys :: "string list" where
  "contact_text_keys = [''name'', ''email'', ''phone'', ''role'']"

definition responsibilities :: "string list" where
  "responsibilities = [''is_primary'', ''is_billing'', ''is_technical'']"

definition contact_form_init :: "int option \<Rightarrow> record_form" where
  "contact_form_init contactId = put_flag ''is_active'' True (no_fields (truthy_int contactId \<noteq> None))"

definition contact_form_load :: "admin_world \<Rightarrow> int \<Rightarrow> int option \<Rightarrow> (record_form, unit) act" where
  "contact_form_load w clientId contactId =
     (case truthy_int contactId of
        None \<Rightarrow> return_act ()
      | Some i \<Rightarrow>
          record_load ''Unable to load contact details.''
            (bind_act (bind_act (api_get w (call_url w (Clients (Contacts_get clientId i)))) (\<lambda>j. lift_act (non_null j)))
              (\<lambda>contact. set_act (read_flags (''is_active'' # responsibilities) contact \<circ> read_texts contact_text_keys contact))))"

definition contact_form_payload :: "record_form \<Rightarrow> payload" where
  "contact_form_payload s = texts_sent contact_text_keys s @ flags_sent (''is_active'' # responsibilities) s"

definition persist :: "admin_world \<Rightarrow> int \<Rightarrow> int option \<Rightarrow> record_form \<Rightarrow> (record_form, unit) act" where
  "persist w clientId contactId nextForm =
     record_save w ''Unable to save the contact.'' (save_method contactId)
       (record_url w contactId (Clients (Contacts_create clientId)) (\<lambda>i. Clients (Contacts_update clientId i)))
       (contact_form_payload nextForm)
       (\<lambda>j. set_act (\<lambda>s. s\<lparr>rc_visited := rc_visited s @ [''/admin/clients/'' @ int_str clientId]\<rparr>))"

text \<open>The button that submits the form is disabled for a contact that is not active.\<close>

definition contact_form_save :: "admin_world \<Rightarrow> int \<Rightarrow> int option \<Rightarrow> (record_form, unit) act" where
  "contact_form_save w clientId contactId s = guard_act (rc_flag s ''is_active'') (persist w clientId contactId s) s"

definition contact_set_active :: "bool \<Rightarrow> record_form \<Rightarrow> record_form" where
  "contact_set_active active s =
     s\<lparr>rc_flag := (\<lambda>k. if k = ''is_active'' then active else if \<not> active \<and> k \<in> set responsibilities then False else rc_flag s k)\<rparr>"

definition changeActiveState :: "admin_world \<Rightarrow> int \<Rightarrow> int option \<Rightarrow> bool \<Rightarrow> (record_form, unit) act" where
  "changeActiveState w clientId contactId active s =
     then_act (set_act (\<lambda>_. contact_set_active active s)) (persist w clientId contactId (contact_set_active active s)) s"

interpretation contact_form: submit_handler "contact_form_save w clientId contactId" rc_saving
  by (rule submit_handlerI) (simp add: contact_form_save_def persist_def guard_act_def return_act_def form_simps)

interpretation contact_state_form: submit_handler "changeActiveState w clientId contactId active" rc_saving
  by (rule submit_handlerI) (simp add: changeActiveState_def persist_def form_simps)

text \<open>Deactivating sends no responsibility and everything else as it is in the form.\<close>

lemma inactive_contact_holds_nothing:
  "contact_form_payload (contact_set_active False s) =
     texts_sent contact_text_keys s @ map (\<lambda>k. (k, V_bool False)) (''is_active'' # responsibilities)"
  by (simp add: contact_form_payload_def contact_set_active_def flags_sent_def texts_sent_def responsibilities_def)

section \<open>Projects\<close>

definition project_keys :: "string list" where
  "project_keys = [''name'', ''description'', ''status'', ''ownership_type'', ''start_date'', ''end_date'', ''budget'', ''hourly_rate'']"

definition project_form_init :: "int option \<Rightarrow> record_form" where
  "project_form_init initialClientId =
     put_id ''client_id'' initialClientId (put_text ''ownership_type'' ''client'' (put_text ''status'' ''active'' (no_fields True)))"

definition project_filled :: "json \<Rightarrow> record_form \<Rightarrow> record_form" where
  "project_filled project = read_ids [''client_id''] project \<circ> read_texts project_keys project"

definition project_prefilled :: "int option \<Rightarrow> json list \<Rightarrow> record_form \<Rightarrow> record_form" where
  "project_prefilled initialClientId clients s =
     (case truthy_int initialClientId of
        Some i \<Rightarrow> if find_id clients i = None then s else put_id ''client_id'' (Some i) (put_text ''ownership_type'' ''client'' s)
      | None \<Rightarrow> s)"

definition project_form_load :: "admin_world \<Rightarrow> int option \<Rightarrow> int option \<Rightarrow> (record_form, unit) act" where
  "project_form_load w projectId initialClientId =
     record_load ''Unable to load project details.''
       (bind_act (both (api_get w (call_url w (Clients Clients_list)))
           (case truthy_int projectId of None \<Rightarrow> return_act JNull | Some i \<Rightarrow> api_get w (call_url w (Tasks (Projects_get i)))))
         (\<lambda>(clients, project). set_act (\<lambda>s.
           (if project = JNull then project_prefilled initialClientId (json_list (Some clients)) else project_filled project)
           (s\<lparr>rc_lists := (rc_lists s)(''clients'' := json_list (Some clients))\<rparr>))))"

definition updateProjectOwnership :: "string \<Rightarrow> record_form \<Rightarrow> record_form" where
  "updateProjectOwnership v s = put_id ''client_id'' (if v = ''internal'' then None else rc_id s ''client_id'') (put_text ''ownership_type'' v s)"

definition project_client :: "record_form \<Rightarrow> int option" where
  "project_client s = (if rc_text s ''ownership_type'' = ''client'' then rc_id s ''client_id'' else None)"

definition project_form_payload :: "record_form \<Rightarrow> payload" where
  "project_form_payload s =
     texts_sent [''name'', ''description'', ''status'', ''ownership_type''] s @ [(''client_id'', id_or_null (project_client s))] @
     texts_sent [''start_date''] s @
     [(''end_date'', textOrNull (rc_text s ''end_date'')), (''budget'', numberOrNull_raw (rc_text s ''budget'')),
      (''hourly_rate'', numberOrNull_raw (rc_text s ''hourly_rate''))]"

definition project_form_save :: "admin_world \<Rightarrow> int option \<Rightarrow> (record_form, unit) act" where
  "project_form_save w projectId s =
     record_save w ''Unable to save the project.'' (save_method projectId)
       (record_url w projectId (Tasks Projects_create) (\<lambda>i. Tasks (Projects_update i))) (project_form_payload s)
       (visit_record ''/admin/projects/'') s"

interpretation project_form: submit_handler "project_form_save w projectId" rc_saving
  by (rule submit_handlerI) (simp add: project_form_save_def form_simps)

text \<open>
  A client of the address that is not among the clients stays in the form all the same, and is sent: the
  state begins with it, whatever the load finds.
\<close>

lemma unknown_client_is_sent:
  assumes "find_id clients i = None"
  shows "project_client (project_prefilled (Some i) clients (project_form_init (Some i))) = Some i"
  using assms by (simp add: project_client_def project_prefilled_def truthy_int_def project_form_init_def put_id_def put_text_def no_fields_def)

section \<open>Monitoring checks\<close>

definition check_numbers :: "string list" where
  "check_numbers = [''interval_seconds'', ''timeout_seconds'', ''failure_threshold'', ''recovery_threshold'', ''expiry_warning_days'']"

definition check_form_init :: "int option \<Rightarrow> record_form" where
  "check_form_init initialResourceId =
     (no_fields True)\<lparr>rc_text := (\<lambda>k. nullish (map_of
       [(''resource_id'', case truthy_int initialResourceId of None \<Rightarrow> [] | Some i \<Rightarrow> int_str i), (''check_type'', ''http''),
        (''severity'', ''error''), (''interval_seconds'', ''300''), (''timeout_seconds'', ''10''), (''failure_threshold'', ''3''),
        (''recovery_threshold'', ''2''), (''expiry_warning_days'', ''30'')] k) [])\<rparr>"

text \<open>\<^verbatim>\<open>String(n)\<close> of a number; a port may be null.\<close>

definition check_text :: "json \<Rightarrow> string \<Rightarrow> string" where
  "check_text check k =
     (if k \<in> set (''resource_id'' # ''port'' # check_numbers) then numberValue (jget check k) else text_of check k)"

definition check_filled :: "json \<Rightarrow> record_form \<Rightarrow> record_form" where
  "check_filled check s =
     read_ids [''credential_id''] check (s\<lparr>rc_text := check_text check\<rparr>)"

definition check_form_load :: "admin_world \<Rightarrow> bool \<Rightarrow> int option \<Rightarrow> int option \<Rightarrow> (record_form, unit) act" where
  "check_form_load w canSave checkId initialResourceId =
     (if \<not> canSave then set_act (\<lambda>s. s\<lparr>rc_loading := False\<rparr>)
      else record_load ''Unable to load monitoring check configuration.''
        (case truthy_int checkId of
           Some i \<Rightarrow>
             bind_act (bind_act (api_get w (aw_api w @ ''/api/admin/monitoring/checks/'' @ int_str i @ ''/configuration''))
                 (\<lambda>j. lift_act (non_null j)))
               (\<lambda>check. set_act (check_filled check))
         | None \<Rightarrow>
             bind_act (bind_act (api_get w (aw_api w @ ''/api/admin/monitoring/options'')) (\<lambda>j. lift_act (non_null j)))
               (\<lambda>options. set_act (\<lambda>s.
                 s\<lparr>rc_lists := (rc_lists s)(''resources'' := json_list (jget options ''resources'')),
                   rc_error := (case truthy_int initialResourceId of
                       Some i \<Rightarrow> if find_id (json_list (jget options ''resources'')) i = None
                         then Some ''The selected infrastructure resource is unavailable.'' else rc_error s
                     | None \<Rightarrow> rc_error s)\<rparr>))))"

definition number_zero :: "number \<Rightarrow> bool" where
  "number_zero n \<longleftrightarrow> (case n of Dec m k \<Rightarrow> m = 0 | NaN \<Rightarrow> True | _ \<Rightarrow> False)"

definition check_problem :: "int option \<Rightarrow> record_form \<Rightarrow> string option" where
  "check_problem checkId s =
     (if truthy_int checkId = None \<and> number_zero (js_Number (rc_text s ''resource_id'')) then Some ''Choose an infrastructure resource to monitor.''
      else if rc_text s ''check_type'' = ''tcp'' \<and> rc_text s ''port'' = [] then Some ''TCP checks require a port.''
      else if rc_text s ''check_type'' = ''content'' \<and> trim (rc_text s ''expected_value'') = [] \<and> trim (rc_text s ''forbidden_value'') = []
      then Some ''Content checks require expected or forbidden content.'' else None)"

definition check_form_payload :: "int option \<Rightarrow> record_form \<Rightarrow> payload" where
  "check_form_payload checkId s =
     (if truthy_int checkId = None then [(''resource_id'', required_number (rc_text s ''resource_id''))] else []) @
     [(''name'', trimmed (rc_text s ''name'')), (''check_type'', V_text (rc_text s ''check_type'')), (''severity'', V_text (rc_text s ''severity'')),
      (''target'', trimmed (rc_text s ''target'')), (''port'', number_if_any (rc_text s ''port'')),
      (''expected_value'', V_text (rc_text s ''expected_value'')), (''forbidden_value'', V_text (rc_text s ''forbidden_value''))] @
     map (\<lambda>k. (k, required_number (rc_text s k))) check_numbers @
     [(''credential_id'', id_or_null (rc_id s ''credential_id''))]"

definition check_form_save :: "admin_world \<Rightarrow> bool \<Rightarrow> int option \<Rightarrow> (record_form, unit) act" where
  "check_form_save w canSave checkId s =
     guard_act canSave
       (case check_problem checkId s of
          Some message \<Rightarrow> set_act (\<lambda>s. s\<lparr>rc_error := Some message\<rparr>)
        | None \<Rightarrow>
            record_save w ''Unable to save the monitoring check.'' (save_method checkId)
              (case truthy_int checkId of
                 Some i \<Rightarrow> call_url w (Monitoring (Monitoring_update i)) | None \<Rightarrow> aw_api w @ ''/api/admin/monitoring/checks'')
              (check_form_payload checkId s) (visit_record ''/admin/monitoring/checks/'')) s"

interpretation check_form: submit_handler "check_form_save w canSave checkId" rc_saving
  by (rule submit_handlerI) (simp add: check_form_save_def guard_act_def return_act_def form_simps split: option.split)

section \<open>Untouched records are kept\<close>

datatype record_kind = Lead_record | Client_record | Contact_record | Project_record | Check_record

definition filled_record :: "record_kind \<Rightarrow> json \<Rightarrow> record_form \<Rightarrow> record_form" where
  "filled_record c j =
     (case c of
        Lead_record \<Rightarrow> lead_filled j
      | Client_record \<Rightarrow> read_texts client_keys j
      | Contact_record \<Rightarrow> read_flags (''is_active'' # responsibilities) j \<circ> read_texts contact_text_keys j
      | Project_record \<Rightarrow> project_filled j
      | Check_record \<Rightarrow> check_filled j)"

definition record_payload :: "record_kind \<Rightarrow> int \<Rightarrow> record_form \<Rightarrow> payload" where
  "record_payload c i s =
     (case c of
        Lead_record \<Rightarrow> lead_form_payload s
      | Client_record \<Rightarrow> client_form_payload s
      | Contact_record \<Rightarrow> contact_form_payload s
      | Project_record \<Rightarrow> project_form_payload s
      | Check_record \<Rightarrow> check_form_payload (Some i) s)"

definition proper_ref :: "json option \<Rightarrow> bool" where
  "proper_ref v = (case v of Some (JNum n) \<Rightarrow> True | Some JNull \<Rightarrow> True | _ \<Rightarrow> False)"

text \<open>What the server stores: amounts of a project come as texts, and are not compared.\<close>

definition record_schema :: "record_kind \<Rightarrow> (string \<times> (json option \<Rightarrow> bool)) list" where
  "record_schema c =
     (case c of
        Lead_record \<Rightarrow> keys_of proper_string lead_text_keys @ keys_of proper_ref lead_id_keys
      | Client_record \<Rightarrow> keys_of proper_string client_keys
      | Contact_record \<Rightarrow> keys_of proper_string contact_text_keys @ keys_of proper_flag (''is_active'' # responsibilities)
      | Project_record \<Rightarrow> keys_of proper_string [''name'', ''description'', ''status'', ''ownership_type'', ''start_date''] @
          keys_of proper_raw [''end_date''] @ keys_of proper_ref [''client_id'']
      | Check_record \<Rightarrow> keys_of proper_text [''name'', ''target''] @
          keys_of proper_string [''check_type'', ''severity'', ''expected_value'', ''forbidden_value''] @
          keys_of proper_number [''port''] @ keys_of proper_reference check_numbers @ keys_of proper_ref [''credential_id''])"

lemma ref_kept: "proper_ref (jget j k) \<Longrightarrow> stored (id_or_null (optional_int (jget j k))) (jget j k)"
  by (auto simp: proper_ref_def id_or_null_def optional_int_def split: option.splits json.splits)

lemma trimmed_kept: "proper_text (jget j k) \<Longrightarrow> stored (trimmed (text_of j k)) (jget j k)"
  by (auto simp: proper_text_def trimmed_def text_of_def jstr_def split: option.splits json.splits)

lemma port_kept: "proper_number (jget j k) \<Longrightarrow> stored (number_if_any (numberValue (jget j k))) (jget j k)"
  by (auto simp: proper_number_def numberValue_def number_if_any_def js_Number_int_str split: option.splits json.splits)

lemma null_kept: "stored (id_or_null None) (Some JNull)"
  by (simp add: id_or_null_def)

lemma text_stored: "jget j k = Some (JStr t) \<Longrightarrow> text_of j k = t"
  by (simp add: text_of_def jstr_def)

lemmas records_kept = null_kept text_stored string_kept flag_kept optional_kept ref_kept trimmed_kept port_kept reference_field.save_load

lemmas record_defs =
  filled_record_def record_payload_def record_schema_def lead_filled_def lead_form_payload_def lead_text_keys_def lead_id_keys_def
  client_form_payload_def client_keys_def contact_form_payload_def contact_text_keys_def responsibilities_def project_filled_def
  project_form_payload_def project_client_def project_keys_def check_filled_def check_form_payload_def check_numbers_def check_text_def
  truthy_int_def record_members

text \<open>
  C0: opening a lead, a client, a contact, a project or a monitoring check and saving it without a
  change sends what is stored (the amounts of a project come as texts, and are sent as numbers).
\<close>

theorem untouched_record_is_kept:
  assumes "proper_values (record_schema c) j"
    and "c = Project_record \<longrightarrow> jget j ''ownership_type'' = Some (JStr ''client'') \<or> jget j ''client_id'' = Some JNull"
    and "i \<noteq> 0"
  shows "same_values (filter (\<lambda>(k, v). k \<noteq> ''budget'' \<and> k \<noteq> ''hourly_rate'') (record_payload c i (filled_record c j s))) j"
  using assms
  by (cases c)
    (auto simp del: stored.simps simp: records_kept record_defs same_values_def proper_values_def keys_of_def)

definition demo_contact :: json where
  "demo_contact =
     JObj [(''id'', JNum 5), (''name'', JStr ''Ann''), (''email'', JStr ''ann@a.uk''), (''phone'', JStr []), (''role'', JStr ''CTO''),
       (''is_active'', JBool True), (''is_primary'', JBool False), (''is_billing'', JBool False), (''is_technical'', JBool True)]"

theorem untouched_record_is_kept_witness:
  "same_values (filter (\<lambda>(k, v). k \<noteq> ''budget'' \<and> k \<noteq> ''hourly_rate'')
     (record_payload Contact_record 5 (filled_record Contact_record demo_contact (no_fields True)))) demo_contact"
proof (rule untouched_record_is_kept)
  show "proper_values (record_schema Contact_record) demo_contact"
    by (simp add: demo_contact_def record_schema_def proper_values_def keys_of_def contact_text_keys_def responsibilities_def
        proper_string_def proper_flag_def)
qed simp_all

end
