(* ===== verification/Admin_Dashboard.thy ===== *)
theory Admin_Dashboard
  imports State_Machine Admin_Tasks
begin

text \<open>
  The dashboard (\<^verbatim>\<open>app/(admin)/admin/DashboardWorkspace.tsx\<close>): the widgets with their numbers,
  and the layout that a member of staff edits and stores.
\<close>

section \<open>Widgets\<close>

record widget =
  wg_key :: string
  wg_span :: int

definition read_widget :: "string \<Rightarrow> json \<Rightarrow> widget" where
  "read_widget width j = \<lparr>wg_key = nullish (jstr j ''key'') [], wg_span = nullish (num j width) 0\<rparr>"

text \<open>The data of the page: the layout, the widgets that are offered with their default width, and the rest.\<close>

record dashboard_data =
  dd_layout :: "widget list"
  dd_offered :: "widget list"
  dd_parts :: json

definition read_dashboard :: "json \<Rightarrow> dashboard_data" where
  "read_dashboard j =
     \<lparr>dd_layout = map (read_widget ''span'') (json_list (jget j ''layout'')),
      dd_offered = map (read_widget ''default_span'') (json_list (jget j ''available_widgets'')), dd_parts = j\<rparr>"

record dashboard = net +
  db_data :: "dashboard_data option"
  db_error :: "string option"
  db_customising :: bool
  db_draft :: "widget list"
  db_saving :: bool

definition dashboard_init :: dashboard where
  "dashboard_init =
     \<lparr>stored_token = None, sent = [], db_data = None, db_error = None, db_customising = False, db_draft = [], db_saving = False\<rparr>"

text \<open>The answer to a load that began with the customiser open or not.\<close>

definition dashboard_loaded :: "bool \<Rightarrow> dashboard_data \<Rightarrow> dashboard \<Rightarrow> dashboard" where
  "dashboard_loaded customising d s =
     (let t = s\<lparr>db_data := Some d\<rparr> in if customising then t else t\<lparr>db_draft := dd_layout d\<rparr>)"

definition dashboard_load :: "admin_world \<Rightarrow> (dashboard, unit) act" where
  "dashboard_load w s =
     catch_act
       (then_act (set_act (\<lambda>s. s\<lparr>db_error := None\<rparr>))
         (bind_act (bind_act (api_get w (call_url w (Summary Dashboard_summary))) (\<lambda>j. lift_act (non_null j)))
           (\<lambda>j. set_act (dashboard_loaded (db_customising s) (read_dashboard j)))))
       (\<lambda>e. set_act (\<lambda>s. s\<lparr>db_error := Some (message_of ''Unable to load your dashboard.'' e)\<rparr>)) s"

section \<open>The layout\<close>

definition toggleWidget :: "widget \<Rightarrow> widget list \<Rightarrow> widget list" where
  "toggleWidget option draft =
     (if list_ex (\<lambda>i. wg_key i = wg_key option) draft then filter (\<lambda>i. wg_key i \<noteq> wg_key option) draft
      else draft @ [\<lparr>wg_key = wg_key option, wg_span = wg_span option\<rparr>])"

definition moveWidget :: "nat \<Rightarrow> int \<Rightarrow> widget list \<Rightarrow> widget list" where
  "moveWidget index direction draft =
     (let target = int index + direction
      in if target < 0 \<or> target \<ge> int (length draft) then draft
         else draft[index := draft ! nat target, nat target := draft ! index])"

definition changeSpan :: "string \<Rightarrow> int \<Rightarrow> widget list \<Rightarrow> widget list" where
  "changeSpan key width draft = map (\<lambda>i. if wg_key i = key then i\<lparr>wg_span := width\<rparr> else i) draft"

definition toggle_customiser :: "dashboard \<Rightarrow> dashboard" where
  "toggle_customiser s =
     s\<lparr>db_draft := (case db_data s of None \<Rightarrow> [] | Some d \<Rightarrow> dd_layout d), db_customising := \<not> db_customising s\<rparr>"

definition recommended_layout :: "dashboard_data \<Rightarrow> widget list" where
  "recommended_layout d = map (\<lambda>option. \<lparr>wg_key = wg_key option, wg_span = wg_span option\<rparr>) (dd_offered d)"

definition widget_json :: "widget \<Rightarrow> json" where
  "widget_json i = JObj [(''key'', JStr (wg_key i)), (''span'', JNum (wg_span i))]"

text \<open>The answer to a layout that was sent with the customiser open or not.\<close>

definition layout_stored :: "bool \<Rightarrow> dashboard_data \<Rightarrow> dashboard \<Rightarrow> dashboard" where
  "layout_stored customising d s = (dashboard_loaded customising d s)\<lparr>db_customising := False\<rparr>"

definition saveLayout :: "admin_world \<Rightarrow> (dashboard, unit) act" where
  "saveLayout w s =
     finally_act
       (catch_act
         (then_act (set_act (\<lambda>s. s\<lparr>db_saving := True, db_error := None\<rparr>))
           (bind_act
             (bind_act (api_send w ''PUT'' (call_url w (Summary Dashboard_summary) @ ''/preferences'')
                 (JsonBody (JObj [(''layout'', JArr (map widget_json (db_draft s)))])))
               (\<lambda>j. lift_act (non_null j)))
             (\<lambda>j. set_act (layout_stored (db_customising s) (read_dashboard j)))))
         (\<lambda>e. set_act (\<lambda>s. s\<lparr>db_error := Some (message_of ''Unable to save dashboard layout.'' e)\<rparr>)))
       (\<lambda>s. s\<lparr>db_saving := False\<rparr>) s"

interpretation layout_form: submit_handler "saveLayout w" db_saving
  by (rule submit_handlerI) (auto simp: saveLayout_def form_simps)

section \<open>The widgets on the screen\<close>

text \<open>A number with its label; it is marked when it needs attention.\<close>

record metric =
  mt_label :: string
  mt_number :: int
  mt_warning :: bool

record widget_view =
  wv_title :: string
  wv_link :: "string option"
  wv_metrics :: "metric list"
  wv_rows :: nat

definition plain_metric :: "string \<Rightarrow> json \<Rightarrow> string \<Rightarrow> metric" where
  "plain_metric label part k = \<lparr>mt_label = label, mt_number = nullish (num part k) 0, mt_warning = False\<rparr>"

definition warned_metric :: "string \<Rightarrow> json \<Rightarrow> string \<Rightarrow> metric" where
  "warned_metric label part k = (plain_metric label part k)\<lparr>mt_warning := 0 < nullish (num part k) 0\<rparr>"

definition rows_of :: "json \<Rightarrow> nat" where
  "rows_of part = length (json_list (jget part ''items''))"

definition my_tasks_widget :: "json \<Rightarrow> widget_view" where
  "my_tasks_widget p =
     \<lparr>wv_title = ''My tasks'', wv_link = Some ''/admin/tasks'',
      wv_metrics = [plain_metric ''Open'' p ''open_count'', plain_metric ''Today'' p ''today_count'', warned_metric ''Overdue'' p ''overdue_count''],
      wv_rows = rows_of p\<rparr>"

definition my_tickets_widget :: "json \<Rightarrow> widget_view" where
  "my_tickets_widget p =
     \<lparr>wv_title = ''My tickets'', wv_link = Some ''/admin/tickets'',
      wv_metrics = [plain_metric ''Mine'' p ''mine_count'', warned_metric ''Unassigned'' p ''unassigned_count'', plain_metric ''Active'' p ''active_count''],
      wv_rows = rows_of p\<rparr>"

definition active_timer_widget :: "json \<Rightarrow> widget_view" where
  "active_timer_widget p =
     \<lparr>wv_title = ''Time'', wv_link = Some ''/admin/time-tracking'',
      wv_metrics = [plain_metric ''This week'' p ''hours_this_week'',
        \<lparr>mt_label = ''Timer'', mt_number = (if jtrue p ''running'' then 1 else 0), mt_warning = jtrue p ''running''\<rparr>],
      wv_rows = 0\<rparr>"

definition lead_follow_up_widget :: "json \<Rightarrow> widget_view" where
  "lead_follow_up_widget p =
     \<lparr>wv_title = ''Lead follow-up'', wv_link = Some ''/admin/leads'', wv_metrics = [plain_metric ''Open assigned leads'' p ''open_count''],
      wv_rows = rows_of p\<rparr>"

definition current_projects_widget :: "json \<Rightarrow> widget_view" where
  "current_projects_widget p =
     \<lparr>wv_title = ''Current projects'', wv_link = Some ''/admin/projects'', wv_metrics = [plain_metric ''Current'' p ''current_count''],
      wv_rows = rows_of p\<rparr>"

definition technical_health_widget :: "json \<Rightarrow> widget_view" where
  "technical_health_widget p =
     \<lparr>wv_title = ''Technical health'', wv_link = Some ''/admin/monitoring'',
      wv_metrics = [warned_metric ''Active incidents'' p ''active_incident_count'', warned_metric ''Failing checks'' p ''failing_check_count''],
      wv_rows = rows_of p\<rparr>"

definition agenda_widget :: "json \<Rightarrow> widget_view" where
  "agenda_widget p =
     \<lparr>wv_title = ''Agenda'', wv_link = Some ''/admin/calendar'',
      wv_metrics = [warned_metric ''Today'' p ''today_count'', plain_metric ''Next 7 days'' p ''next_seven_days_count''],
      wv_rows = rows_of p\<rparr>"

definition recent_activity_widget :: "json \<Rightarrow> widget_view" where
  "recent_activity_widget p =
     \<lparr>wv_title = ''Recent activity'', wv_link = None, wv_metrics = [], wv_rows = length (json_list (Some p))\<rparr>"

definition dashboard_widgets :: "(string \<times> (json \<Rightarrow> widget_view)) list" where
  "dashboard_widgets =
     [(''my_tasks'', my_tasks_widget), (''my_tickets'', my_tickets_widget), (''active_timer'', active_timer_widget),
      (''lead_follow_up'', lead_follow_up_widget), (''current_projects'', current_projects_widget),
      (''technical_health'', technical_health_widget), (''agenda'', agenda_widget), (''recent_activity'', recent_activity_widget)]"

text \<open>A widget of the layout for which nothing was sent is empty.\<close>

definition renderWidget :: "dashboard_data \<Rightarrow> string \<Rightarrow> widget_view option" where
  "renderWidget d key =
     (case map_of dashboard_widgets key of
        None \<Rightarrow> None
      | Some view \<Rightarrow> (case jget (dd_parts d) key of Some p \<Rightarrow> if p = JNull then None else Some (view p) | None \<Rightarrow> None))"

definition span_class :: "int \<Rightarrow> string" where
  "span_class width = (if width \<in> {4, 6, 8, 12} then ''xl:col-width-'' @ int_str width else ''xl:col-width-6'')"

section \<open>Loads, edits and stores in any order\<close>

text \<open>
  \<open>dr_loads\<close> are the loads under way, each with the customiser open or not when it began;
  \<open>dr_stores\<close> the number of stores under way (they begin with the customiser open). The
  answers satisfy \<open>answer\<close>.
\<close>

record dashboard_run =
  dr_page :: dashboard
  dr_loads :: "bool list"
  dr_stores :: nat

definition drop_at :: "nat \<Rightarrow> 'a list \<Rightarrow> 'a list" where
  "drop_at i xs = take i xs @ drop (Suc i) xs"

inductive dashboard_step :: "(dashboard_data \<Rightarrow> bool) \<Rightarrow> dashboard_run \<Rightarrow> dashboard_run \<Rightarrow> bool" for answer :: "dashboard_data \<Rightarrow> bool" where
  load_begins: "dashboard_step answer s (s\<lparr>dr_loads := dr_loads s @ [db_customising (dr_page s)]\<rparr>)"
| load_answered: "i < length (dr_loads s) \<Longrightarrow> answer d \<Longrightarrow>
    dashboard_step answer s (s\<lparr>dr_page := dashboard_loaded (dr_loads s ! i) d (dr_page s), dr_loads := drop_at i (dr_loads s)\<rparr>)"
| load_failed: "i < length (dr_loads s) \<Longrightarrow> dashboard_step answer s (s\<lparr>dr_loads := drop_at i (dr_loads s)\<rparr>)"
| customiser: "dashboard_step answer s (s\<lparr>dr_page := toggle_customiser (dr_page s)\<rparr>)"
| toggled: "db_customising (dr_page s) \<Longrightarrow> db_data (dr_page s) = Some d \<Longrightarrow> option \<in> set (dd_offered d) \<Longrightarrow>
    dashboard_step answer s (s\<lparr>dr_page := (dr_page s)\<lparr>db_draft := toggleWidget option (db_draft (dr_page s))\<rparr>\<rparr>)"
| moved: "db_customising (dr_page s) \<Longrightarrow> index < length (db_draft (dr_page s)) \<Longrightarrow> direction \<in> {- 1, 1} \<Longrightarrow>
    dashboard_step answer s (s\<lparr>dr_page := (dr_page s)\<lparr>db_draft := moveWidget index direction (db_draft (dr_page s))\<rparr>\<rparr>)"
| widened: "db_customising (dr_page s) \<Longrightarrow> width \<in> {4, 6, 8, 12} \<Longrightarrow>
    dashboard_step answer s (s\<lparr>dr_page := (dr_page s)\<lparr>db_draft := changeSpan key width (db_draft (dr_page s))\<rparr>\<rparr>)"
| recommended: "db_customising (dr_page s) \<Longrightarrow> db_data (dr_page s) = Some d \<Longrightarrow>
    dashboard_step answer s (s\<lparr>dr_page := (dr_page s)\<lparr>db_draft := recommended_layout d\<rparr>\<rparr>)"
| store_begins: "db_customising (dr_page s) \<Longrightarrow> dashboard_step answer s (s\<lparr>dr_stores := Suc (dr_stores s)\<rparr>)"
| store_answered: "0 < dr_stores s \<Longrightarrow> answer d \<Longrightarrow>
    dashboard_step answer s (s\<lparr>dr_page := layout_stored True d (dr_page s), dr_stores := dr_stores s - 1\<rparr>)"
| store_failed: "0 < dr_stores s \<Longrightarrow> dashboard_step answer s (s\<lparr>dr_stores := dr_stores s - 1\<rparr>)"

definition dashboard_run_init :: dashboard_run where
  "dashboard_run_init = \<lparr>dr_page = dashboard_init, dr_loads = [], dr_stores = 0\<rparr>"

text \<open>A layout: every widget once, with one of the widths.\<close>

definition layout_ok :: "widget list \<Rightarrow> bool" where
  "layout_ok xs \<longleftrightarrow> distinct (map wg_key xs) \<and> list_all (\<lambda>i. wg_span i \<in> {4, 6, 8, 12}) xs"

definition data_ok :: "dashboard_data \<Rightarrow> bool" where
  "data_ok d \<longleftrightarrow> layout_ok (dd_layout d) \<and> layout_ok (dd_offered d)"

definition dashboard_inv :: "dashboard_run \<Rightarrow> bool" where
  "dashboard_inv s \<longleftrightarrow>
     layout_ok (db_draft (dr_page s)) \<and> (\<forall>d. db_data (dr_page s) = Some d \<longrightarrow> data_ok d)"

lemma layout_ok_empty: "layout_ok []"
  by (simp add: layout_ok_def)

lemma toggle_ok: "layout_ok xs \<Longrightarrow> wg_span option \<in> {4, 6, 8, 12} \<Longrightarrow> layout_ok (toggleWidget option xs)"
  by (auto simp: layout_ok_def toggleWidget_def list_all_iff list_ex_iff distinct_map_filter)

lemma swap_perm:
  assumes "i < length xs" "j < length xs"
  shows "mset (xs[i := xs ! j, j := xs ! i]) = mset xs"
  using assms by (simp add: mset_swap)

lemma move_perm: "index < length xs \<Longrightarrow> mset (moveWidget index direction xs) = mset xs"
  by (simp add: moveWidget_def Let_def swap_perm nat_less_iff)

lemma layout_ok_mset: "mset xs = mset ys \<Longrightarrow> layout_ok xs \<longleftrightarrow> layout_ok ys"
proof -
  assume same: "mset xs = mset ys"
  then have "mset (map wg_key xs) = mset (map wg_key ys)" by simp
  then have "distinct (map wg_key xs) \<longleftrightarrow> distinct (map wg_key ys)" by (rule mset_eq_imp_distinct_iff)
  with mset_eq_setD [OF same] show ?thesis by (simp add: layout_ok_def list_all_iff)
qed

lemma move_ok: "layout_ok xs \<Longrightarrow> index < length xs \<Longrightarrow> layout_ok (moveWidget index direction xs)"
  using layout_ok_mset [OF move_perm] by blast

lemma span_keys: "map wg_key (changeSpan key width xs) = map wg_key xs"
  by (simp add: changeSpan_def)

lemma span_ok:
  assumes "layout_ok xs" "width \<in> {4, 6, 8, 12}"
  shows "layout_ok (changeSpan key width xs)"
proof -
  have "list_all (\<lambda>i. wg_span i \<in> A) (changeSpan key width xs)" if "list_all (\<lambda>i. wg_span i \<in> A) xs" "width \<in> A" for A
    using that by (auto simp: changeSpan_def list_all_iff)
  from this [OF _ assms(2)] assms(1) show ?thesis by (simp only: layout_ok_def span_keys)
qed

lemma recommended_ok: "data_ok d \<Longrightarrow> layout_ok (recommended_layout d)"
  by (simp add: data_ok_def recommended_layout_def layout_ok_def list_all_iff comp_def)

lemma dashboard_answer_inv: "layout_ok (db_draft s) \<Longrightarrow> data_ok d \<Longrightarrow> layout_ok (db_draft (dashboard_loaded c d s)) \<and> db_data (dashboard_loaded c d s) = Some d"
  by (simp add: dashboard_loaded_def data_ok_def Let_def)

lemma dashboard_step_inv: "dashboard_step data_ok s t \<Longrightarrow> dashboard_inv s \<Longrightarrow> dashboard_inv t"
proof (induction rule: dashboard_step.induct)
  case (toggled s d option)
  then have "wg_span option \<in> {4, 6, 8, 12}" by (auto simp: dashboard_inv_def data_ok_def layout_ok_def list_all_iff)
  with toggled show ?case by (simp add: dashboard_inv_def toggle_ok)
next
  case (moved s index direction)
  then show ?case by (simp add: dashboard_inv_def move_ok)
next
  case (widened s width key)
  then show ?case by (simp add: dashboard_inv_def span_ok)
next
  case (recommended s d)
  then show ?case by (simp add: dashboard_inv_def recommended_ok)
next
  case (load_answered i s d)
  then show ?case by (simp add: dashboard_inv_def dashboard_answer_inv)
next
  case (store_answered s d)
  then show ?case by (simp add: dashboard_inv_def dashboard_answer_inv layout_stored_def)
next
  case (customiser s)
  then show ?case by (auto simp: dashboard_inv_def toggle_customiser_def data_ok_def layout_ok_empty split: option.split)
qed (simp_all add: dashboard_inv_def)

interpretation dashboard: safe_machine "\<lambda>s. s = dashboard_run_init" "dashboard_step data_ok" dashboard_inv
proof unfold_locales
  show "dashboard_inv t" if "dashboard_inv s" "dashboard_step data_ok s t" for s t
    using that(2,1) by (rule dashboard_step_inv)
qed (simp add: dashboard_inv_def dashboard_run_init_def dashboard_init_def layout_ok_def)

text \<open>
  C0: however loads, edits and stores overlap, the layout that is edited and the one that is shown have
  every widget once, with one of the four widths, when the server offers and stores such layouts.
\<close>

theorem dashboard_shows_each_widget_once:
  assumes "reachable (\<lambda>s. s = dashboard_run_init) (dashboard_step data_ok) s"
  shows "distinct (map wg_key (db_draft (dr_page s))) \<and> list_all (\<lambda>i. wg_span i \<in> {4, 6, 8, 12}) (db_draft (dr_page s)) \<and>
    (case db_data (dr_page s) of None \<Rightarrow> True | Some d \<Rightarrow> distinct (map wg_key (dd_layout d)))"
  using dashboard.inv_reachable [OF assms]
  by (auto simp: dashboard_inv_def layout_ok_def data_ok_def split: option.split)

definition demo_dashboard :: dashboard_data where
  "demo_dashboard =
     \<lparr>dd_layout = [\<lparr>wg_key = ''agenda'', wg_span = 4\<rparr>],
      dd_offered = [\<lparr>wg_key = ''agenda'', wg_span = 6\<rparr>, \<lparr>wg_key = ''my_tasks'', wg_span = 12\<rparr>], dd_parts = JObj []\<rparr>"

lemma demo_dashboard_ok: "data_ok demo_dashboard"
  by (simp add: data_ok_def layout_ok_def demo_dashboard_def)

text \<open>The states of a visit: a load, its answer, a second load, the customiser, and a widget that is added.\<close>

abbreviation page_of :: "widget list \<Rightarrow> bool \<Rightarrow> dashboard" where
  "page_of draft customising \<equiv> dashboard_init\<lparr>db_data := Some demo_dashboard, db_draft := draft, db_customising := customising\<rparr>"

definition added_draft :: "widget list" where
  "added_draft = dd_layout demo_dashboard @ [\<lparr>wg_key = ''my_tasks'', wg_span = 12\<rparr>]"

definition added_page :: "bool list \<Rightarrow> dashboard_run" where
  "added_page loads = \<lparr>dr_page = page_of added_draft True, dr_loads = loads, dr_stores = 0\<rparr>"

lemma added_page_reached: "reachable (\<lambda>s. s = dashboard_run_init) (dashboard_step data_ok) (added_page [False])"
proof -
  let ?t = "\<lambda>p loads. \<lparr>dr_page = p, dr_loads = loads, dr_stores = 0\<rparr>"
  let ?l = "dd_layout demo_dashboard"
  have steps: "is_run (dashboard_step data_ok) dashboard_run_init
      [?t dashboard_init [False], ?t (page_of ?l False) [], ?t (page_of ?l False) [False], ?t (page_of ?l True) [False], added_page [False]]"
  proof (simp only: is_run.simps, intro conjI)
    show "dashboard_step data_ok dashboard_run_init (?t dashboard_init [False])"
      using load_begins [of data_ok dashboard_run_init] by (simp add: dashboard_run_init_def dashboard_init_def)
    show "dashboard_step data_ok (?t dashboard_init [False]) (?t (page_of ?l False) [])"
      using load_answered [of 0 "?t dashboard_init [False]" data_ok demo_dashboard] demo_dashboard_ok
      by (simp add: dashboard_loaded_def drop_at_def dashboard_init_def)
    show "dashboard_step data_ok (?t (page_of ?l False) []) (?t (page_of ?l False) [False])"
      using load_begins [of data_ok "?t (page_of ?l False) []"] by simp
    show "dashboard_step data_ok (?t (page_of ?l False) [False]) (?t (page_of ?l True) [False])"
      using customiser [of data_ok "?t (page_of ?l False) [False]"] by (simp add: toggle_customiser_def dashboard_init_def)
    show "dashboard_step data_ok (?t (page_of ?l True) [False]) (added_page [False])"
      using toggled [of "?t (page_of ?l True) [False]" demo_dashboard "\<lparr>wg_key = ''my_tasks'', wg_span = 12\<rparr>" data_ok]
      by (simp add: added_page_def added_draft_def toggleWidget_def demo_dashboard_def dashboard_init_def)
  qed simp
  have "reachable (\<lambda>s. s = dashboard_run_init) (dashboard_step data_ok) dashboard_run_init" by (rule reach_init) simp
  from run_reachable [OF this steps] show ?thesis by simp
qed

theorem dashboard_shows_each_widget_once_witness:
  "distinct (map wg_key (db_draft (dr_page (added_page [False])))) \<and> length (db_draft (dr_page (added_page [False]))) = 2"
  using dashboard_shows_each_widget_once [OF added_page_reached] by (simp add: added_page_def added_draft_def demo_dashboard_def)

text \<open>
  C0: a load that was under way when the customiser was opened throws away what was edited in it: its
  answer replaces the draft although the customiser stays open.
\<close>

theorem late_load_discards_draft:
  "\<exists>s t. reachable (\<lambda>s. s = dashboard_run_init) (dashboard_step data_ok) s \<and> dashboard_step data_ok s t \<and>
    db_customising (dr_page s) \<and> db_customising (dr_page t) \<and> db_draft (dr_page s) = added_draft \<and>
    db_draft (dr_page t) = dd_layout demo_dashboard \<and> added_draft \<noteq> dd_layout demo_dashboard"
proof -
  let ?t = "\<lparr>dr_page = page_of (dd_layout demo_dashboard) True, dr_loads = [], dr_stores = 0\<rparr>"
  have "dashboard_step data_ok (added_page [False]) ?t"
    using load_answered [of 0 "added_page [False]" data_ok demo_dashboard] demo_dashboard_ok
    by (simp add: added_page_def dashboard_loaded_def drop_at_def dashboard_init_def)
  with added_page_reached show ?thesis
    by (intro exI [of _ "added_page [False]"] exI [of _ ?t]) (simp add: added_page_def added_draft_def)
qed

text \<open>With the customiser open from the start of a load its answer leaves the draft alone.\<close>

lemma load_while_customising: "db_draft (dashboard_loaded True d s) = db_draft s"
  by (simp add: dashboard_loaded_def Let_def)

end
