(* ===== verification/Admin_Operations.thy ===== *)
theory Admin_Operations
  imports Admin_Records Admin_Pages
begin

text \<open>
  Pages that watch and steer what runs behind the platform: a lead with its mail
  (\<^verbatim>\<open>leads\<close>), the settings of ticketing (\<^verbatim>\<open>settings\<close>), retention
  (\<^verbatim>\<open>retention\<close>), monitoring (\<^verbatim>\<open>monitoring\<close>), activity
  (\<^verbatim>\<open>activity\<close>), background tasks (\<^verbatim>\<open>celery\<close>) and GitHub
  (\<^verbatim>\<open>github\<close>).
\<close>

section \<open>The shape of an action\<close>

text \<open>
  A page with a message for errors and a flag for what is under way. \<open>pg_rows\<close> are its lists by
  name, \<open>pg_text\<close> its inputs, \<open>pg_record\<close> the record it shows.
\<close>

record ops_page = net +
  pg_record :: "json option"
  pg_rows :: "string \<Rightarrow> json list"
  pg_text :: "string \<Rightarrow> string"
  pg_busy :: bool
  pg_loading :: bool
  pg_error :: "string option"
  pg_message :: "string option"
  pg_changed :: nat

definition ops_failed :: "string \<Rightarrow> js_throw \<Rightarrow> (ops_page, unit) act" where
  "ops_failed fallback e = set_act (\<lambda>s. s\<lparr>pg_error := Some (message_of fallback e)\<rparr>)"

definition ops_load :: "string \<Rightarrow> (ops_page, unit) act \<Rightarrow> (ops_page, unit) act" where
  "ops_load fallback body =
     finally_act
       (catch_act (then_act (set_act (\<lambda>s. s\<lparr>pg_loading := True, pg_error := None\<rparr>)) body) (ops_failed fallback))
       (\<lambda>s. s\<lparr>pg_loading := False\<rparr>)"

definition ops_action :: "string \<Rightarrow> bool \<Rightarrow> (ops_page, unit) act \<Rightarrow> (ops_page, unit) act" where
  "ops_action fallback clears body =
     finally_act
       (catch_act
         (then_act (set_act (\<lambda>s. s\<lparr>pg_busy := True, pg_error := None, pg_message := (if clears then None else pg_message s)\<rparr>)) body)
         (ops_failed fallback))
       (\<lambda>s. s\<lparr>pg_busy := False\<rparr>)"

definition get_record :: "admin_world \<Rightarrow> string \<Rightarrow> (ops_page, json) act" where
  "get_record w url = bind_act (api_get w url) (\<lambda>j. lift_act (non_null j))"

definition send_record :: "admin_world \<Rightarrow> string \<Rightarrow> string \<Rightarrow> req_body \<Rightarrow> (ops_page, json) act" where
  "send_record w method url body = bind_act (api_send w method url body) (\<lambda>j. lift_act (non_null j))"

definition put_rows :: "string \<Rightarrow> json list \<Rightarrow> ops_page \<Rightarrow> ops_page" where
  "put_rows k xs s = s\<lparr>pg_rows := (pg_rows s)(k := xs)\<rparr>"

definition put_input :: "string \<Rightarrow> string \<Rightarrow> ops_page \<Rightarrow> ops_page" where
  "put_input k v s = s\<lparr>pg_text := (pg_text s)(k := v)\<rparr>"

lemma ops_action_form [form_simps]:
  "pg_busy (fst (ops_action fallback clears body s)) = False" "isl (snd (ops_action fallback clears body s)) = False"
  by (auto simp: ops_action_def ops_failed_def form_simps)

lemma ops_load_form [form_simps]:
  "pg_loading (fst (ops_load fallback body s)) = False" "isl (snd (ops_load fallback body s)) = False"
  by (auto simp: ops_load_def ops_failed_def form_simps)

lemmas ops_simps = form_simps guard_act_def return_act_def

section \<open>A lead\<close>

definition lead_load :: "admin_world \<Rightarrow> int \<Rightarrow> (ops_page, unit) act" where
  "lead_load w leadId =
     ops_load ''Unable to load lead details.''
       (bind_act (both (api_get w (call_url w (Leads (Leads_get leadId)))) (get_record w (call_url w (Leads Leads_options))))
         (\<lambda>(lead, options). set_act (\<lambda>s.
           put_rows ''statuses'' (json_list (jget options ''statuses'')) (put_rows ''assignees'' (json_list (jget options ''assignees''))
             (s\<lparr>pg_record := (if lead = JNull then None else Some lead)\<rparr>)))))"

definition lead_changed :: "json \<Rightarrow> string \<Rightarrow> ops_page \<Rightarrow> ops_page" where
  "lead_changed updated message s = s\<lparr>pg_record := Some updated, pg_message := Some message, pg_changed := Suc (pg_changed s)\<rparr>"

definition updateStage :: "admin_world \<Rightarrow> int \<Rightarrow> (ops_page, unit) act" where
  "updateStage w statusId s =
     (case pg_record s of
        None \<Rightarrow> return_act ()
      | Some lead \<Rightarrow>
          ops_action ''Unable to update sales stage.'' False
            (bind_act (send_record w ''POST'' (call_url w (Leads (Leads_stage (json_id lead)))) (JsonBody (JObj [(''status_id'', JNum statusId)])))
              (\<lambda>updated. set_act (lead_changed updated (''Sales stage changed to '' @ text_of updated ''status_name'' @ ''.''))))) s"

definition assignment_message :: "json \<Rightarrow> string" where
  "assignment_message updated =
     (if truthy (jget updated ''assigned_to_name'') then ''Lead assigned to '' @ text_of updated ''assigned_to_name'' @ ''.''
      else ''Lead assignment cleared.'')"

definition updateAssignment :: "admin_world \<Rightarrow> string \<Rightarrow> (ops_page, unit) act" where
  "updateAssignment w assignedToId s =
     (case pg_record s of
        None \<Rightarrow> return_act ()
      | Some lead \<Rightarrow>
          ops_action ''Unable to update lead assignment.'' True
            (bind_act (send_record w ''POST'' (call_url w (Leads (Leads_assignment (json_id lead))))
                (JsonBody (JObj [(''assigned_to_id'', if assignedToId = [] then JNull else JStr assignedToId)])))
              (\<lambda>updated. set_act (lead_changed updated (assignment_message updated))))) s"

definition conversion_message :: "int \<Rightarrow> string" where
  "conversion_message n =
     ''Lead converted. '' @ int_str n @ '' existing conversation'' @ (if n = 1 then '' was'' else ''s were'') @ '' linked to the new client.''"

definition convertToClient :: "admin_world \<Rightarrow> bool \<Rightarrow> (ops_page, unit) act" where
  "convertToClient w agreed s =
     (case pg_record s of
        None \<Rightarrow> return_act ()
      | Some lead \<Rightarrow>
          guard_act agreed
            (ops_action ''Unable to convert this lead.'' True
              (bind_act (send_record w ''POST'' (call_url w (Leads (Leads_convert (json_id lead)))) NoBody)
                (\<lambda>result. set_act (\<lambda>s.
                  (lead_changed JNull (conversion_message (nullish (optional_int (jget result ''linked_ticket_count'')) 0)) s)
                    \<lparr>pg_record := (case jget result ''lead'' of Some j \<Rightarrow> if j = JNull then None else Some j | None \<Rightarrow> None)\<rparr>))))) s"

text \<open>The stages a lead can be moved to: after the conversion only the ones that count as won.\<close>

definition offered_stages :: "ops_page \<Rightarrow> json list" where
  "offered_stages s =
     filter (\<lambda>stage. (case pg_record s of None \<Rightarrow> False | Some lead \<Rightarrow> \<not> truthy (jget lead ''converted_at'')) \<or> text_of stage ''outcome'' = ''won'')
       (pg_rows s ''statuses'')"

interpretation stage_form: submit_handler "updateStage w statusId" pg_busy
  by (rule submit_handlerI) (simp add: updateStage_def ops_simps split: option.split)

interpretation assignment_form: submit_handler "updateAssignment w assignedToId" pg_busy
  by (rule submit_handlerI) (simp add: updateAssignment_def ops_simps split: option.split)

interpretation convert_form: submit_handler "convertToClient w agreed" pg_busy
  by (rule submit_handlerI) (simp add: convertToClient_def ops_simps split: option.split)

section \<open>The mail of a lead\<close>

definition mail_load :: "admin_world \<Rightarrow> int \<Rightarrow> (ops_page, unit) act" where
  "mail_load w leadId =
     ops_load ''Unable to load lead email conversations.''
       (bind_act (both (get_record w (call_url w (LeadEmail (LeadEmail_options leadId)))) (api_get w (call_url w (LeadEmail (LeadEmail_conversations leadId)))))
         (\<lambda>(options, conversations). set_act (\<lambda>s.
           put_rows ''conversations'' (json_list (Some conversations)) (put_rows ''mailboxes'' (json_list (jget options ''mailboxes''))
             (put_input ''mailbox'' (or_default (pg_text s ''mailbox'')
               (case json_list (jget options ''mailboxes'') of [] \<Rightarrow> [] | m # ms \<Rightarrow> numberValue (jget m ''id'')))
               (s\<lparr>pg_record := Some options\<rparr>))))))"

definition mail_ready :: "ops_page \<Rightarrow> bool" where
  "mail_ready s \<longleftrightarrow>
     pg_text s ''mailbox'' \<noteq> [] \<and> trim (pg_text s ''subject'') \<noteq> [] \<and> trim (pg_text s ''body'') \<noteq> [] \<and> \<not> pg_busy s"

definition mail_payload :: "ops_page \<Rightarrow> payload" where
  "mail_payload s =
     [(''mailbox_id'', required_number (pg_text s ''mailbox'')), (''subject'', trimmed (pg_text s ''subject'')),
      (''body_text'', trimmed (pg_text s ''body''))]"

definition sendEmail :: "admin_world \<Rightarrow> int \<Rightarrow> (ops_page, unit) act" where
  "sendEmail w leadId s =
     guard_act (mail_ready s)
       (ops_action ''Unable to queue lead email.'' True
         (bind_act (send_record w ''POST'' (call_url w (LeadEmail (LeadEmail_send leadId))) (TextBody (payload_text (mail_payload s))))
           (\<lambda>result. then_act
             (set_act (\<lambda>s. put_input ''body'' [] (s\<lparr>pg_message := Some (text_of result ''ticket_reference'' @
               '' queued through Microsoft 365 and added to the lead conversation history.'')\<rparr>)))
             (mail_load w leadId)))) s"

interpretation mail_form: submit_handler "sendEmail w leadId" pg_busy
  by (rule submit_handlerI) (simp add: sendEmail_def ops_simps)

section \<open>Mailboxes of ticketing\<close>

definition settings_load :: "admin_world \<Rightarrow> (ops_page, unit) act" where
  "settings_load w =
     ops_load ''Unable to load ticketing settings.''
       (bind_act
         (both (both (api_get w (call_url w (Ticketing Ticketing_graphConnections))) (api_get w (call_url w (Ticketing Ticketing_mailboxes))))
           (both (api_get w (call_url w (Summary Brands_list))) (api_get w (call_url w (Tickets Tickets_queues)))))
         (\<lambda>((connections, mailboxes), (brands, queues)). set_act
           (put_rows ''connections'' (json_list (Some connections)) \<circ> put_rows ''mailboxes'' (json_list (Some mailboxes)) \<circ>
            put_rows ''brands'' (json_list (Some brands)) \<circ> put_rows ''queues'' (json_list (Some queues)))))"

definition enabled_rows :: "string \<Rightarrow> ops_page \<Rightarrow> json list" where
  "enabled_rows k s = filter (\<lambda>row. jtrue row ''enabled'') (pg_rows s k)"

definition brand_number :: "ops_page \<Rightarrow> int option" where
  "brand_number s = (case js_Number (pg_text s ''brand_id'') of Dec n 0 \<Rightarrow> truthy_int (Some n) | _ \<Rightarrow> None)"

definition availableQueues :: "ops_page \<Rightarrow> json list" where
  "availableQueues s =
     (case brand_number s of
        None \<Rightarrow> []
      | Some i \<Rightarrow> filter (\<lambda>q. \<not> truthy (jget q ''brand_id'') \<or> jget q ''brand_id'' = Some (JNum i)) (enabled_rows ''queues'' s))"

definition mailbox_payload :: "ops_page \<Rightarrow> payload" where
  "mailbox_payload s =
     [(''email_address'', V_text (pg_text s ''email_address'')), (''display_name'', V_text (pg_text s ''display_name'')),
      (''brand_id'', required_number (pg_text s ''brand_id'')), (''purpose'', V_text (pg_text s ''purpose'')),
      (''default_queue_id'', required_number (pg_text s ''default_queue_id''))] @
     (if length (enabled_rows ''connections'' s) = 1 \<or> pg_text s ''graph_connection_id'' = [] then []
      else [(''graph_connection_id'', required_number (pg_text s ''graph_connection_id''))])"

definition mailbox_empty :: "ops_page \<Rightarrow> ops_page" where
  "mailbox_empty s = s\<lparr>pg_text := (\<lambda>k. []) (''purpose'' := ''support'')\<rparr>"

definition createMailbox :: "admin_world \<Rightarrow> (ops_page, unit) act" where
  "createMailbox w s =
     ops_action ''Unable to save mailbox.'' False
       (then_act
         (bind_act (api_send w ''POST'' (call_url w (Ticketing Ticketing_mailboxes)) (TextBody (payload_text (mailbox_payload s)))) (\<lambda>_. return_act ()))
         (then_act (set_act mailbox_empty) (settings_load w))) s"

definition can_create_mailbox :: "ops_page \<Rightarrow> bool" where
  "can_create_mailbox s \<longleftrightarrow>
     \<not> pg_busy s \<and> enabled_rows ''connections'' s \<noteq> [] \<and>
     (length (enabled_rows ''connections'' s) > 1 \<longrightarrow> pg_text s ''graph_connection_id'' \<noteq> [])"

definition choose_brand :: "string \<Rightarrow> ops_page \<Rightarrow> ops_page" where
  "choose_brand v s = put_input ''default_queue_id'' [] (put_input ''brand_id'' v s)"

definition choose_queue :: "string \<Rightarrow> ops_page \<Rightarrow> ops_page" where
  "choose_queue v s = put_input ''default_queue_id'' v s"

interpretation mailbox_form: submit_handler "createMailbox w" pg_busy
  by (rule submit_handlerI) (simp add: createMailbox_def ops_simps)

text \<open>The choices of the form: a queue is one of those offered.\<close>

inductive mailbox_step :: "ops_page \<Rightarrow> ops_page \<Rightarrow> bool" where
  brand_chosen: "mailbox_step s (choose_brand v s)"
| queue_chosen: "q \<in> set (availableQueues s) \<Longrightarrow> mailbox_step s (choose_queue (numberValue (jget q ''id'')) s)"
| input_typed: "k \<notin> {''brand_id'', ''default_queue_id''} \<Longrightarrow> mailbox_step s (put_input k v s)"
| mailbox_created: "mailbox_step s (mailbox_empty s)"

definition queue_fits :: "ops_page \<Rightarrow> bool" where
  "queue_fits s \<longleftrightarrow>
     pg_text s ''default_queue_id'' = [] \<or>
     (\<exists>q \<in> set (availableQueues s). numberValue (jget q ''id'') = pg_text s ''default_queue_id'')"

lemma available_put:
  "k \<noteq> ''brand_id'' \<Longrightarrow> availableQueues (put_input k v s) = availableQueues s"
proof -
  assume "k \<noteq> ''brand_id''"
  then have "brand_number (put_input k v s) = brand_number s" by (simp add: brand_number_def put_input_def)
  moreover have "enabled_rows ''queues'' (put_input k v s) = enabled_rows ''queues'' s" by (simp add: enabled_rows_def put_input_def)
  ultimately show ?thesis by (simp add: availableQueues_def cong: option.case_cong)
qed

lemma mailbox_step_fits: "mailbox_step s t \<Longrightarrow> queue_fits s \<Longrightarrow> queue_fits t"
proof (induction rule: mailbox_step.induct)
  case (queue_chosen q s)
  then show ?case unfolding choose_queue_def queue_fits_def
    by (subst available_put) (auto simp: put_input_def)
next
  case (input_typed k s v)
  then have "availableQueues (put_input k v s) = availableQueues s" by (intro available_put) simp
  with input_typed show ?case by (auto simp: queue_fits_def put_input_def)
qed (simp_all add: queue_fits_def choose_brand_def put_input_def mailbox_empty_def)

interpretation mailbox_choices: safe_machine "\<lambda>s. pg_text s = (\<lambda>k. []) (''purpose'' := ''support'')" mailbox_step queue_fits
proof unfold_locales
  show "queue_fits t" if "queue_fits s" "mailbox_step s t" for s t
    using that(2,1) by (rule mailbox_step_fits)
qed (simp add: queue_fits_def)

text \<open>
  C0: whatever is chosen and typed, the queue that a new mailbox is sent with is enabled and belongs to
  the chosen brand or to all of them; a change of the brand takes a queue back.
\<close>

theorem mailbox_queue_fits_brand:
  assumes "reachable (\<lambda>s. pg_text s = (\<lambda>k. []) (''purpose'' := ''support'')) mailbox_step s"
    and "pg_text s ''default_queue_id'' \<noteq> []"
  shows "\<exists>i. brand_number s = Some i \<and> (\<exists>q \<in> set (pg_rows s ''queues''). jtrue q ''enabled'' \<and>
    numberValue (jget q ''id'') = pg_text s ''default_queue_id'' \<and> (\<not> truthy (jget q ''brand_id'') \<or> jget q ''brand_id'' = Some (JNum i)))"
proof -
  obtain q where q: "q \<in> set (availableQueues s)" "numberValue (jget q ''id'') = pg_text s ''default_queue_id''"
    using mailbox_choices.inv_reachable [OF assms(1)] assms(2) by (auto simp: queue_fits_def)
  then obtain i where i: "brand_number s = Some i" by (cases "brand_number s") (auto simp: availableQueues_def)
  with q have "q \<in> set (pg_rows s ''queues'') \<and> jtrue q ''enabled'' \<and> (\<not> truthy (jget q ''brand_id'') \<or> jget q ''brand_id'' = Some (JNum i))"
    by (auto simp: availableQueues_def enabled_rows_def)
  with q(2) i show ?thesis by metis
qed

definition demo_settings :: ops_page where
  "demo_settings =
     \<lparr>stored_token = None, sent = [], pg_record = None,
      pg_rows = (\<lambda>k. if k = ''queues'' then [JObj [(''id'', JNum 7), (''brand_id'', JNum 2), (''enabled'', JBool True)]] else []),
      pg_text = (\<lambda>k. []) (''purpose'' := ''support''), pg_busy = False, pg_loading = False, pg_error = None, pg_message = None, pg_changed = 0\<rparr>"

definition demo_mailbox :: ops_page where
  "demo_mailbox = choose_queue ''7'' (choose_brand ''2'' demo_settings)"

theorem mailbox_queue_fits_brand_witness:
  "pg_text demo_mailbox ''default_queue_id'' = ''7'' \<and> (\<exists>i. brand_number demo_mailbox = Some i)"
proof -
  let ?init = "\<lambda>s. pg_text s = (\<lambda>k. []) (''purpose'' := ''support'')"
  have first: "reachable ?init mailbox_step (choose_brand ''2'' demo_settings)"
    by (rule reach_step, rule reach_init [where s = demo_settings], simp add: demo_settings_def, rule brand_chosen)
  have two: "brand_number (choose_brand ''2'' demo_settings) = Some 2" by code_simp
  define q where "q = JObj [(''id'', JNum 7), (''brand_id'', JNum 2), (''enabled'', JBool True)]"
  have "q \<in> set (availableQueues (choose_brand ''2'' demo_settings))"
    by (simp add: availableQueues_def two enabled_rows_def) (simp add: choose_brand_def put_input_def demo_settings_def q_def jtrue_def)
  then have step: "mailbox_step (choose_brand ''2'' demo_settings) (choose_queue (numberValue (jget q ''id'')) (choose_brand ''2'' demo_settings))"
    by (rule queue_chosen)
  have "numberValue (Some (JNum 7)) = ''7''" by code_simp
  then have "numberValue (jget q ''id'') = ''7''" by (simp add: q_def)
  with step have "mailbox_step (choose_brand ''2'' demo_settings) demo_mailbox" by (simp add: demo_mailbox_def)
  then have reach: "reachable ?init mailbox_step demo_mailbox" by (rule reach_step [OF first])
  moreover have "pg_text demo_mailbox ''default_queue_id'' = ''7''" by (simp add: demo_mailbox_def choose_queue_def put_input_def)
  ultimately show ?thesis using mailbox_queue_fits_brand [OF reach] by auto
qed

section \<open>Vendors\<close>

definition vendor_defaults :: "json list \<Rightarrow> json list \<Rightarrow> ops_page \<Rightarrow> ops_page" where
  "vendor_defaults vendors queues s =
     put_input ''vendor_id'' (or_default (pg_text s ''vendor_id'')
         (case find (\<lambda>v. jtrue v ''enabled'') vendors of Some v \<Rightarrow> numberValue (jget v ''id'') | None \<Rightarrow> []))
       (put_input ''target_queue_id'' (or_default (pg_text s ''target_queue_id'')
         (case find (\<lambda>q. text_of q ''key'' = ''vendors-services'') queues of Some q \<Rightarrow> numberValue (jget q ''id'') | None \<Rightarrow> [])) s)"

definition vendor_load :: "admin_world \<Rightarrow> (ops_page, unit) act" where
  "vendor_load w =
     ops_load ''Unable to load vendor routing settings.''
       (bind_act
         (both (both (api_get w (call_url w (Ticketing Ticketing_vendors))) (api_get w (call_url w (Ticketing Ticketing_vendorRules))))
           (api_get w (call_url w (Tickets Tickets_queues))))
         (\<lambda>((vendors, rules), queues). set_act
           (vendor_defaults (json_list (Some vendors)) (json_list (Some queues)) \<circ> put_rows ''vendors'' (json_list (Some vendors)) \<circ>
            put_rows ''rules'' (json_list (Some rules)) \<circ> put_rows ''queues'' (json_list (Some queues)))))"

definition createVendor :: "admin_world \<Rightarrow> (ops_page, unit) act" where
  "createVendor w s =
     guard_act (trim (pg_text s ''name'') \<noteq> [])
       (ops_action ''Unable to add vendor.'' False
         (then_act
           (bind_act (api_send w ''POST'' (call_url w (Ticketing Ticketing_vendors))
               (TextBody (payload_text [(''name'', trimmed (pg_text s ''name'')), (''website_url'', trimmed (pg_text s ''website_url''))])))
             (\<lambda>_. return_act ()))
           (then_act (set_act (put_input ''name'' [] \<circ> put_input ''website_url'' [])) (vendor_load w)))) s"

definition rule_payload :: "ops_page \<Rightarrow> payload" where
  "rule_payload s =
     [(''vendor_id'', required_number (pg_text s ''vendor_id'')), (''match_type'', V_text (pg_text s ''match_type'')),
      (''match_value'', trimmed (pg_text s ''match_value'')), (''target_queue_id'', number_if_any (pg_text s ''target_queue_id'')),
      (''priority'', V_text (pg_text s ''priority''))]"

definition createRule :: "admin_world \<Rightarrow> (ops_page, unit) act" where
  "createRule w s =
     guard_act (pg_text s ''vendor_id'' \<noteq> [] \<and> trim (pg_text s ''match_value'') \<noteq> [])
       (ops_action ''Unable to add sender rule.'' False
         (then_act
           (bind_act (api_send w ''POST'' (call_url w (Ticketing Ticketing_vendorRules)) (TextBody (payload_text (rule_payload s)))) (\<lambda>_. return_act ()))
           (then_act (set_act (put_input ''match_value'' [])) (vendor_load w)))) s"

definition switch_enabled :: "admin_world \<Rightarrow> string \<Rightarrow> string \<Rightarrow> json \<Rightarrow> (ops_page, unit) act" where
  "switch_enabled w fallback url row =
     ops_action fallback False
       (then_act
         (bind_act (api_send w ''PUT'' url (JsonBody (JObj [(''enabled'', JBool (\<not> jtrue row ''enabled''))]))) (\<lambda>_. return_act ()))
         (vendor_load w))"

definition setVendorEnabled :: "admin_world \<Rightarrow> json \<Rightarrow> (ops_page, unit) act" where
  "setVendorEnabled w vendor =
     switch_enabled w ''Unable to update vendor.'' (call_url w (Ticketing (Ticketing_vendorEnabled (json_id vendor)))) vendor"

definition setRuleEnabled :: "admin_world \<Rightarrow> json \<Rightarrow> (ops_page, unit) act" where
  "setRuleEnabled w rule =
     switch_enabled w ''Unable to update sender rule.'' (call_url w (Ticketing (Ticketing_vendorRuleEnabled (json_id rule)))) rule"

interpretation vendor_form: submit_handler "createVendor w" pg_busy
  by (rule submit_handlerI) (simp add: createVendor_def ops_simps)

interpretation rule_form: submit_handler "createRule w" pg_busy
  by (rule submit_handlerI) (simp add: createRule_def ops_simps)

interpretation vendor_switch: submit_handler "setVendorEnabled w vendor" pg_busy
  by (rule submit_handlerI) (simp add: setVendorEnabled_def switch_enabled_def ops_simps)

interpretation rule_switch: submit_handler "setRuleEnabled w rule" pg_busy
  by (rule submit_handlerI) (simp add: setRuleEnabled_def switch_enabled_def ops_simps)

text \<open>A load fills only choices that were not made.\<close>

lemma vendor_choices_stay:
  "pg_text s ''vendor_id'' \<noteq> [] \<Longrightarrow> pg_text (vendor_defaults vs qs s) ''vendor_id'' = pg_text s ''vendor_id''"
  "pg_text s ''target_queue_id'' \<noteq> [] \<Longrightarrow> pg_text (vendor_defaults vs qs s) ''target_queue_id'' = pg_text s ''target_queue_id''"
  "k \<notin> {''vendor_id'', ''target_queue_id''} \<Longrightarrow> pg_text (vendor_defaults vs qs s) k = pg_text s k"
  by (auto simp: vendor_defaults_def put_input_def or_default_def)

end
