(* ===== verification/Spec2Isabelle.thy ===== *)
theory Spec2Isabelle
  imports Webauthn Auth_Api Json_Text Security_Screens Public_Pages Public_Contact Public_Privacy
    Observability Admin_Fetch Admin_Endpoints Live_Events Admin_Access Admin_Vault Js_Date Admin_Screens
    Admin_Time Admin_Calendar Admin_Ordering Admin_Timeline Admin_Staff Admin_Credentials Admin_Secrets
    Analytics_Reports Infra_Structured Infra_Operational Infra_Data Infra_Web
    Infra_Nested Infra_Catalogue Infra_Page Admin_Lists Admin_Pages Admin_Knowledge Admin_Tickets Admin_Content Admin_Shell Admin_Tasks Analytics_Settings Admin_Records Admin_Dashboard Admin_Operations
begin

text \<open>
  The browser side of the ADB web platform: the sign-in site (\<^verbatim>\<open>sites/auth-adb-software-solutions\<close>),
  the public sites, which share \<^verbatim>\<open>packages/ui\<close> and \<^verbatim>\<open>packages/api-client\<close>, the admin application
  (\<^verbatim>\<open>sites/adb-software-solutions\<close>) and the analytics application
  (\<^verbatim>\<open>sites/analytics-adb-software-solutions\<close>), all written in TypeScript on top of
  Next.js and React, speaking JSON to one Django backend. Paths below are under \<^verbatim>\<open>src/\<close>.

  The parts and how they interact. A visitor signs in on the sign-in site, which calls the
  authentication API with a CSRF token, performs WebAuthn ceremonies and sends the visitor back to
  an ADB site. The admin application asks the same API who is signed in, signs its own requests,
  listens to a stream of change events and refreshes its screens. The public site renders content of
  the backend, and only its contact endpoint writes. The analytics application loads reports for a
  period.

  How the code becomes definitions.

  \<^item> \<^verbatim>\<open>Js_Prelude\<close>, \<^verbatim>\<open>Js_Number\<close>, \<^verbatim>\<open>Js_Date\<close>, \<^verbatim>\<open>Uri_Codec\<close>, \<^verbatim>\<open>Js_Url\<close>, \<^verbatim>\<open>Json_Text\<close>: what the code uses
    of the language and its library: strings of code units below 256, \<^verbatim>\<open>Number\<close> of a text as an exact
    decimal, civil dates as days, percent coding, URLs and query parameters, and
    \<^verbatim>\<open>JSON.stringify\<close> with its reader. Rounding of doubles is not modelled: numbers are integers, rationals or decimals.
  \<^item> \<^verbatim>\<open>Js_Net\<close>, \<^verbatim>\<open>Js_Act\<close>: JSON values, requests, and the two monads. \<open>io\<close> is code that sends requests and may throw;
    \<open>act\<close> is a handler of a component over the component's state, a record that extends \<open>net\<close> (the CSRF
    module variable and the history of requests). One combinator stands for one construct:
    \<open>then_act\<close> for sequencing after \<^verbatim>\<open>await\<close>, \<open>catch_act\<close>, \<open>finally_act\<close>, \<open>set_act\<close> for a setter.
    The locale \<open>submit_handler\<close> is the contract of a form's submission: it returns and leaves the form usable;
    every form below is an interpretation of it.
  \<^item> \<^verbatim>\<open>State_Machine\<close>: reachable states and runs of a step relation, with the locale \<open>safe_machine\<close>; components whose handlers
    interleave (WebAuthn ceremonies, live refresh, consent, two-factor setup, the staff and
    credential forms, the credential page, the infrastructure forms) are step relations that interpret it.

  The network is a parameter: a \<open>server\<close> is any function of the whole history of requests. So are the
  clock, the random bytes, the authenticator, the cookie string, the local time zone and the
  parser of dates. Theorems hold for all of them unless a hypothesis says otherwise.

  The sign-in site (\<^verbatim>\<open>sites/auth-adb-software-solutions/src\<close>):

  \<^item> \<^verbatim>\<open>Base64_Url\<close>, \<^verbatim>\<open>Webauthn\<close>: \<^verbatim>\<open>utils/webauthn.ts\<close>. Base64url and the JSON forms of credentials round-trip; at most one ceremony is live.
  \<^item> \<^verbatim>\<open>Auth_Config\<close>: \<^verbatim>\<open>utils/config.ts\<close>. Where a sign-in may send the visitor.
  \<^item> \<^verbatim>\<open>Auth_Api\<close>, \<^verbatim>\<open>Auth_Context\<close>: \<^verbatim>\<open>utils/api.ts\<close>, \<^verbatim>\<open>utils/oauthApi.ts\<close>, \<^verbatim>\<open>contexts/AuthContext.tsx\<close>. Unsafe requests are signed; the second factor cannot be skipped.
  \<^item> \<^verbatim>\<open>Sign_In_Screens\<close>, \<^verbatim>\<open>Security_Screens\<close>: \<^verbatim>\<open>screens/\<close> and \<^verbatim>\<open>components/\<close>: signing in, signing up,
    resetting a password, two-factor setup, passkeys and consent.

  The public sites (\<^verbatim>\<open>packages/ui/src/public\<close>, \<^verbatim>\<open>packages/api-client\<close>, \<^verbatim>\<open>packages/observability\<close>):

  \<^item> \<^verbatim>\<open>Public_Api\<close>, \<^verbatim>\<open>Public_Site\<close>, \<^verbatim>\<open>Public_Pages\<close>: the content client, sitemap, robots and metadata, blog and knowledge pages, pagination.
  \<^item> \<^verbatim>\<open>Public_Contact\<close>: the contact endpoint, with the bounded reading of the body, and the contact form.
  \<^item> \<^verbatim>\<open>Public_Privacy\<close>: the stored choice and the analytics that follow it.
  \<^item> \<^verbatim>\<open>Observability\<close>: the metrics and their labels.
  \<^item> \<^verbatim>\<open>Json_Text\<close>: besides the language, \<^verbatim>\<open>JsonLd.tsx\<close>, structured data that cannot leave its script element.

  The admin application (\<^verbatim>\<open>sites/adb-software-solutions/src/app/(admin)\<close>, \<^verbatim>\<open>lib\<close>, \<^verbatim>\<open>contexts\<close>):

  \<^item> \<^verbatim>\<open>Admin_Fetch\<close>, \<^verbatim>\<open>Admin_Endpoints\<close>: \<^verbatim>\<open>lib/api/fetch.ts\<close> and every address of \<^verbatim>\<open>lib/api\<close>.
  \<^item> \<^verbatim>\<open>Admin_Access\<close>, \<^verbatim>\<open>Admin_Staff\<close>: the signed-in user, the permissions for creating resources, and the staff access editor.
  \<^item> \<^verbatim>\<open>Live_Events\<close>: the event stream and the timers of \<^verbatim>\<open>useLiveRefresh\<close>.
  \<^item> \<^verbatim>\<open>Admin_Vault\<close>, \<^verbatim>\<open>Admin_Credentials\<close>, \<^verbatim>\<open>Admin_Secrets\<close>: download and copy of secrets, the credential form, and the page that reveals secrets.
  \<^item> \<^verbatim>\<open>Admin_Screens\<close>: the state and calls the workspaces share. \<^verbatim>\<open>Admin_Time\<close>, \<^verbatim>\<open>Admin_Calendar\<close>, \<^verbatim>\<open>Admin_Ordering\<close>, \<^verbatim>\<open>Admin_Timeline\<close>: time tracking, the calendar, the board and
    sections of a task list, the timelines and the chart of a check.
  \<^item> \<^verbatim>\<open>Infra_Form\<close>: what the forms of \<^verbatim>\<open>infrastructure/resources\<close> share, with the locale \<open>form_field\<close>: a stored value of
    a kind is saved as it was loaded, for every kind of input. \<^verbatim>\<open>Infra_Structured\<close>, \<^verbatim>\<open>Infra_Operational\<close>,
    \<^verbatim>\<open>Infra_Data\<close>, \<^verbatim>\<open>Infra_Web\<close>: the four forms; what an edit without a change sends, and what a new resource may refer to.
    \<^verbatim>\<open>Infra_Nested\<close>: the cards of a resource's page that keep records of their own. \<^verbatim>\<open>Infra_Catalogue\<close>: generated slugs,
    the choice of a form and the query of the list; \<^verbatim>\<open>Infra_Page\<close>: catalogue resources, providers, tags, relationships.

  The analytics application (\<^verbatim>\<open>sites/analytics-adb-software-solutions/src\<close>):

  \<^item> \<^verbatim>\<open>Analytics_Client\<close>: \<^verbatim>\<open>app/client.ts\<close>, \<^verbatim>\<open>lib/experience.ts\<close> and the period of the pages: signed calls, links that
    keep the period, the daily series of a report.
  \<^item> \<^verbatim>\<open>Analytics_Resource\<close>: \<^verbatim>\<open>useResource.ts\<close> as a step relation over renderings, runs of the effect and answers.
  \<^item> \<^verbatim>\<open>Analytics_Reports\<close>: the portfolio, the tables with their comparison, and the requests of the report explorer.

  Bounds. No definition uses fuel: the loops of the source run over lists, and the recursive
  functions are structural or end by a measure. The body of a contact request is read up to
  the bound of the source; the grid of a month has 42 days; labels of metrics are bounded as the source bounds them.

  Not modelled. The markup and styling of the components; the TypeScript types that are erased; the Django backend
  (Python: it is the parameter \<open>server\<close>); the content and legal copy; the admin screens that load a list,
  show it and post a form without logic of their own (they repeat the handlers of the modelled workspaces
  with other fields), and, for want of time rather than of faithfulness, the
  ticket and lead workspaces, the content editors and the monitoring and task administration screens.
  A character beyond code unit 255 is outside the model of strings.
\<close>

end
